(* ===== verification/Prelude.thy ===== *)
theory Prelude
  imports Main "HOL-Library.Word"
begin

text \<open>
  What every component of the development shares: the results of code that can fail, the
  byte and character types, reading a vector by index, and the named collections that the
  component theories fill (\<open>res_simps\<close> for the evaluation of fallible code, \<open>byte_simps\<close>
  for byte and word arithmetic).
\<close>

unbundle bit_operations_syntax

named_theorems res_simps \<open>evaluation of fallible code\<close>
named_theorems byte_simps \<open>bytes, characters and words\<close>

section \<open>Results of fallible code\<close>

text \<open>
  What stops the C++ code other than a return: an access outside a vector or a buffer, a
  shift by the width of the type or more, a signed overflow, a failed \<open>assert\<close>, a null
  dereference, a variable read before it is written, running off the end of a non-void
  function, the exceptions \<open>std::invalid_argument\<close>, \<open>std::out_of_range\<close> and
  \<open>std::length_error\<close>, and a loop that never ends.
\<close>

datatype fault =
    OutOfBounds
  | ShiftTooWide
  | SignedOverflow
  | AssertFailed
  | NullDeref
  | Uninitialised
  | NoReturnValue
  | InvalidArgument
  | OutOfRangeExn
  | LengthError
  | Diverges

type_synonym 'a res = "fault + 'a"

definition bindR :: "'a res \<Rightarrow> ('a \<Rightarrow> 'b res) \<Rightarrow> 'b res" where
  "bindR m f = (case m of Inl e \<Rightarrow> Inl e | Inr x \<Rightarrow> f x)"

lemma bindR_simps [simp, res_simps]:
  "bindR (Inl e) f = Inl e"
  "bindR (Inr x) f = f x"
  by (simp_all add: bindR_def)

lemma bindR_assoc: "bindR (bindR m f) g = bindR m (\<lambda>x. bindR (f x) g)"
  by (simp add: bindR_def split: sum.splits)

lemma bindR_eq_Inr: "bindR m f = Inr y \<longleftrightarrow> (\<exists>x. m = Inr x \<and> f x = Inr y)"
  by (cases m) auto

lemma bindR_InrE [elim]:
  assumes "bindR m f = Inr y"
  obtains x where "m = Inr x" "f x = Inr y"
  using assms by (auto simp: bindR_eq_Inr)

lemma bindR_cong [fundef_cong]:
  "m = m' \<Longrightarrow> (\<And>x. m' = Inr x \<Longrightarrow> f x = f' x) \<Longrightarrow> bindR m f = bindR m' f'"
  by (auto simp: bindR_def split: sum.splits)

definition assertR :: "bool \<Rightarrow> fault \<Rightarrow> unit res" where
  "assertR b e = (if b then Inr () else Inl e)"

lemma assertR_simps [simp, res_simps]:
  "assertR True e = Inr ()"
  "assertR False e = Inl e"
  by (simp_all add: assertR_def)

lemma assertR_eq_Inr [simp]: "assertR b e = Inr u \<longleftrightarrow> b"
  by (simp add: assertR_def)

lemma bindR_assertR: "b \<Longrightarrow> bindR (assertR b e) f = f ()"
  by simp

text \<open>A function that returns an option: \<open>None\<close> is the call that never returns.\<close>

definition must_return :: "'a option \<Rightarrow> 'a res" where
  "must_return r = (case r of None \<Rightarrow> Inl Diverges | Some x \<Rightarrow> Inr x)"

lemma must_return_simps [simp, res_simps]:
  "must_return None = Inl Diverges"
  "must_return (Some x) = Inr x"
  by (simp_all add: must_return_def)

text \<open>Looking behind a pointer that may be null.\<close>

definition deref :: "'a option \<Rightarrow> 'a res" where
  "deref p = (case p of None \<Rightarrow> Inl NullDeref | Some x \<Rightarrow> Inr x)"

text \<open>A loop over a vector whose body can fail, threading a state.\<close>

fun foldR :: "('a \<Rightarrow> 's \<Rightarrow> 's res) \<Rightarrow> 'a list \<Rightarrow> 's \<Rightarrow> 's res" where
  "foldR f [] s = Inr s"
| "foldR f (x # xs) s = bindR (f x s) (foldR f xs)"

lemma foldR_append: "foldR f (xs @ ys) s = bindR (foldR f xs s) (foldR f ys)"
  by (induction xs arbitrary: s) (simp_all add: bindR_def split: sum.splits)

lemma foldR_pure: "(\<And>x s. x \<in> set xs \<Longrightarrow> f x s = Inr (g x s)) \<Longrightarrow> foldR f xs s = Inr (fold g xs s)"
  by (induction xs arbitrary: s) simp_all

section \<open>Vectors\<close>

text \<open>\<open>v[i]\<close> and \<open>*it\<close>: reading outside the vector is undefined.\<close>

definition nthR :: "'a list \<Rightarrow> nat \<Rightarrow> 'a res" where
  "nthR xs i = (if i < length xs then Inr (xs ! i) else Inl OutOfBounds)"

lemma nthR_in [simp, res_simps]: "i < length xs \<Longrightarrow> nthR xs i = Inr (xs ! i)"
  by (simp add: nthR_def)

lemma nthR_out [simp, res_simps]: "length xs \<le> i \<Longrightarrow> nthR xs i = Inl OutOfBounds"
  by (simp add: nthR_def)

lemma nthR_eq_Inr: "nthR xs i = Inr x \<longleftrightarrow> i < length xs \<and> x = xs ! i"
  by (auto simp: nthR_def)

text \<open>\<open>v[i] = x\<close>: writing outside the vector is undefined.\<close>

definition setR :: "'a list \<Rightarrow> nat \<Rightarrow> 'a \<Rightarrow> 'a list res" where
  "setR xs i x = (if i < length xs then Inr (xs[i := x]) else Inl OutOfBounds)"

lemma setR_in [simp, res_simps]: "i < length xs \<Longrightarrow> setR xs i x = Inr (xs[i := x])"
  by (simp add: setR_def)

lemma setR_out [simp, res_simps]: "length xs \<le> i \<Longrightarrow> setR xs i x = Inl OutOfBounds"
  by (simp add: setR_def)

text \<open>The range constructor \<open>(it, it + n)\<close> of a vector or a string.\<close>

definition sliceR :: "'a list \<Rightarrow> nat \<Rightarrow> nat \<Rightarrow> 'a list res" where
  "sliceR xs i n = (if i + n \<le> length xs then Inr (take n (drop i xs)) else Inl OutOfBounds)"

lemma sliceR_mid [simp, res_simps]: "sliceR (pre @ xs @ post) (length pre) (length xs) = Inr xs"
  by (simp add: sliceR_def)

lemma nthR_mid: "k < length xs \<Longrightarrow> nthR (pre @ xs @ post) (length pre + k) = Inr (xs ! k)"
  by (simp add: nthR_def nth_append)

lemma nthR_mid0: "nthR (pre @ x # post) (length pre) = Inr x"
  by (simp add: nthR_def nth_append)

section \<open>Bytes and characters\<close>

type_synonym byte = "8 word"
type_synonym u8 = "8 word"
type_synonym u16 = "16 word"
type_synonym u32 = "32 word"
type_synonym u64 = "64 word"

text \<open>\<open>char\<close> and \<open>uint8_t\<close> hold the same bits; strings are lists of \<open>char\<close>.\<close>

definition u8_of_char :: "char \<Rightarrow> u8" where
  "u8_of_char c = word_of_nat (of_char c)"

definition char_of_u8 :: "u8 \<Rightarrow> char" where
  "char_of_u8 w = char_of (unat w)"

definition bytes_of :: "string \<Rightarrow> byte list" where
  "bytes_of s = map u8_of_char s"

definition string_of :: "byte list \<Rightarrow> string" where
  "string_of bs = map char_of_u8 bs"

lemma of_char_less_256 [simp, byte_simps]: "(of_char c :: nat) < 256"
  using range_nat_of_char by (metis atLeastLessThan_iff rangeI)

lemma unat_u8_of_char [simp, byte_simps]: "unat (u8_of_char c) = of_char c"
  by (simp add: u8_of_char_def unat_of_nat take_bit_nat_eq_self)

lemma char_of_u8_of_char [simp, byte_simps]: "char_of_u8 (u8_of_char c) = c"
  by (simp add: char_of_u8_def)

lemma u8_of_char_of_u8 [simp, byte_simps]: "u8_of_char (char_of_u8 w) = w"
proof -
  have "unat w < 256" using unsigned_less [of w, where ?'a = nat] by simp
  then show ?thesis by (simp add: u8_of_char_def char_of_u8_def)
qed

lemma u8_of_char_inject [simp]: "u8_of_char c = u8_of_char d \<longleftrightarrow> c = d"
  by (metis char_of_u8_of_char)

lemma string_of_bytes_of [simp, byte_simps]: "string_of (bytes_of s) = s"
  by (simp add: string_of_def bytes_of_def comp_def)

lemma bytes_of_string_of [simp, byte_simps]: "bytes_of (string_of bs) = bs"
  by (simp add: string_of_def bytes_of_def comp_def)

lemma length_bytes_of [simp, byte_simps]: "length (bytes_of s) = length s"
  by (simp add: bytes_of_def)

lemma length_string_of [simp, byte_simps]: "length (string_of bs) = length bs"
  by (simp add: string_of_def)

lemma bytes_of_append [simp]: "bytes_of (s @ t) = bytes_of s @ bytes_of t"
  by (simp add: bytes_of_def)

lemma bytes_of_Nil [simp]: "bytes_of [] = []" and
  bytes_of_Cons [simp]: "bytes_of (c # s) = u8_of_char c # bytes_of s"
  by (simp_all add: bytes_of_def)

text \<open>\<open>char\<close> is signed on the platform the server is built for (x86-64 Linux).\<close>

definition char_value :: "char \<Rightarrow> int" where
  "char_value c = (if (of_char c :: nat) < 128 then int (of_char c) else int (of_char c) - 256)"

text \<open>\<open>std::size_t\<close> subtraction wraps around.\<close>

definition size_sub :: "nat \<Rightarrow> nat \<Rightarrow> nat" where
  "size_sub a b = nat ((int a - int b) mod 2 ^ 64)"

lemma size_sub_le: "b \<le> a \<Longrightarrow> a < 2 ^ 64 \<Longrightarrow> size_sub a b = a - b"
  by (simp add: size_sub_def nat_mod_distrib of_nat_diff [symmetric] del: of_nat_diff)

lemma size_sub_wrap:
  assumes "a < b" "b \<le> 2 ^ 64"
  shows "size_sub a b = 2 ^ 64 - (b - a)"
proof -
  have "(int a - int b) mod 2 ^ 64 = (int a - int b + 2 ^ 64) mod 2 ^ 64" by simp
  also have "\<dots> = int a - int b + 2 ^ 64" using assms by (intro mod_pos_pos_trivial) auto
  finally show ?thesis using assms by (simp add: size_sub_def)
qed

definition size_add :: "nat \<Rightarrow> nat \<Rightarrow> nat" where
  "size_add a b = (a + b) mod 2 ^ 64"

lemma size_add_small: "a + b < 2 ^ 64 \<Longrightarrow> size_add a b = a + b"
  by (simp add: size_add_def)

section \<open>Memory blocks\<close>

text \<open>\<open>memcpy(&buf[pos], data, n)\<close> and \<open>memcpy(dst, &buf[pos], n)\<close>.\<close>

definition copy_into :: "byte list \<Rightarrow> nat \<Rightarrow> byte list \<Rightarrow> byte list res" where
  "copy_into buf pos data =
     (if pos + length data \<le> length buf
      then Inr (take pos buf @ data @ drop (pos + length data) buf) else Inl OutOfBounds)"

lemma copy_into_ok [simp]:
  "pos + length data \<le> length buf \<Longrightarrow>
   copy_into buf pos data = Inr (take pos buf @ data @ drop (pos + length data) buf)"
  by (simp add: copy_into_def)

lemma sliceR_ok [simp]: "i + n \<le> length xs \<Longrightarrow> sliceR xs i n = Inr (take n (drop i xs))"
  by (simp add: sliceR_def)

text \<open>\<open>std::vector<char>::resize\<close>: cut, or extend with zeros.\<close>

definition resize :: "nat \<Rightarrow> byte list \<Rightarrow> byte list" where
  "resize n xs = take n xs @ replicate (n - length xs) 0"

lemma length_resize [simp]: "length (resize n xs) = n"
  by (simp add: resize_def)

lemma take_resize: "k \<le> length xs \<Longrightarrow> k \<le> n \<Longrightarrow> take k (resize n xs) = take k xs"
  by (simp add: resize_def min_def)

end
