(* ===== verification/StringUtils.thy ===== *)
theory StringUtils
  imports Prelude
begin

text \<open>
  \<open>network/string_utils.h\<close>: \<open>Trim\<close>, \<open>StringSplit\<close> and \<open>StringsJoin\<close>, on which the row
  format (values joined with \<open>$$\<close>) and the recovery of table names (keys split at \<open>_\<close>)
  rest. The lemmas give the reference definition of \<open>Trim\<close>, the termination of
  \<open>StringSplit\<close> for a non-empty delimiter, and when splitting undoes joining.
\<close>

section \<open>Trim\<close>

text \<open>\<open>s[i] <= 32\<close> on a signed \<open>char\<close>: every byte from 128 up is negative, hence blank.\<close>

definition blank :: "char \<Rightarrow> bool" where
  "blank c \<longleftrightarrow> char_value c \<le> 32"

function trim_lead :: "string \<Rightarrow> nat \<Rightarrow> nat" where
  "trim_lead s i = (if i < length s \<and> blank (s ! i) then trim_lead s (i + 1) else i)"
  by pat_completeness auto
termination
  by (relation "measure (\<lambda>(s, i). length s - i)") auto

declare trim_lead.simps [simp del]

fun trim_tail :: "string \<Rightarrow> nat \<Rightarrow> nat" where
  "trim_tail s 0 = 0"
| "trim_tail s (Suc j) = (if blank (s ! j) then trim_tail s j else Suc j)"

text \<open>\<open>std::string::substr\<close>: at most \<open>n\<close> characters from \<open>pos\<close>.\<close>

definition substr :: "string \<Rightarrow> nat \<Rightarrow> nat \<Rightarrow> string" where
  "substr s pos n = take n (drop pos s)"

definition Trim :: "string \<Rightarrow> string" where
  "Trim s = (let i = trim_lead s 0; j = trim_tail s (length s) in substr s i (size_sub j i))"

text \<open>The reference: blanks dropped from both ends.\<close>

definition trim_spec :: "string \<Rightarrow> string" where
  "trim_spec s = rev (dropWhile blank (rev (dropWhile blank s)))"

lemma trim_lead_eq: "trim_lead s i = i + length (takeWhile blank (drop i s))"
proof (induction s i rule: trim_lead.induct)
  case (1 s i)
  show ?case
  proof (cases "i < length s \<and> blank (s ! i)")
    case True
    then have "drop i s = s ! i # drop (Suc i) s" by (simp add: Cons_nth_drop_Suc)
    with True 1 show ?thesis by (simp add: trim_lead.simps [of s i])
  next
    case False
    then show ?thesis
      by (cases "drop i s") (auto simp: trim_lead.simps [of s i] drop_eq_Nil2 nth_via_drop
          simp del: drop_eq_Nil)
  qed
qed

lemma trim_tail_eq: "j \<le> length s \<Longrightarrow> trim_tail s j = j - length (takeWhile blank (rev (take j s)))"
proof (induction j)
  case (Suc j)
  then have "take (Suc j) s = take j s @ [s ! j]" by (simp add: take_Suc_conv_app_nth)
  with Suc show ?case by simp
qed simp

lemma trim_tail_le: "trim_tail s j \<le> j"
  by (induction j) auto

lemma Trim_eq_spec:
  assumes "length s < 2 ^ 64"
  shows "Trim s = trim_spec s"
proof (cases "dropWhile blank s = []")
  case True
  then have "takeWhile blank s = s" by (simp add: takeWhile_eq_all_conv dropWhile_eq_Nil_conv)
  then have "Trim s = []" by (simp only: Trim_def trim_lead_eq substr_def Let_def drop_0) simp
  with True show ?thesis by (simp only: trim_spec_def rev.simps dropWhile.simps)
next
  case False
  define l where "l = takeWhile blank s"
  define m where "m = dropWhile blank s"
  define t where "t = length (takeWhile blank (rev m))"
  have s: "s = l @ m" by (simp add: l_def m_def)
  have "\<not> blank (hd m)" using False hd_dropWhile unfolding m_def by blast
  then have "\<exists>x\<in>set (rev m). \<not> blank x" using False by (metis list.set_sel(1) m_def set_rev)
  then have tw: "takeWhile blank (rev s) = takeWhile blank (rev m)"
    by (auto simp: s takeWhile_append)
  have t: "t \<le> length m" unfolding t_def by (metis length_rev length_takeWhile_le)
  have len: "length s - t - length l = length m - t" "length l \<le> length s - t"
    using t by (simp_all add: s)
  have "Trim s = take (length m - t) m"
    using assms len by (simp add: Trim_def trim_lead_eq trim_tail_eq tw substr_def size_sub_le
        Let_def flip: l_def m_def t_def) (simp add: s)
  also have "\<dots> = rev (drop t (rev m))" by (simp add: drop_rev)
  also have "\<dots> = trim_spec s" by (simp add: trim_spec_def t_def m_def dropWhile_eq_drop)
  finally show ?thesis .
qed

text \<open>A string whose ends are not blank is left alone; a string of blanks becomes empty.\<close>

definition tight :: "string \<Rightarrow> bool" where
  "tight s \<longleftrightarrow> (s = [] \<or> (\<not> blank (hd s) \<and> \<not> blank (last s)))"

lemma Trim_tight:
  assumes "tight s" "length s < 2 ^ 64"
  shows "Trim s = s"
proof (cases s rule: rev_cases)
  case Nil
  with assms show ?thesis by (simp add: Trim_eq_spec trim_spec_def)
next
  case (snoc t c)
  with assms(1) have "\<not> blank c" "dropWhile blank s = s"
    by (auto simp: tight_def dropWhile_eq_self_iff)
  with assms(2) show ?thesis by (simp add: Trim_eq_spec trim_spec_def) (simp add: snoc)
qed

lemma Trim_blank: "list_all blank s \<Longrightarrow> Trim s = []"
  by (simp add: Trim_def trim_lead_eq substr_def Let_def list_all_iff
      takeWhile_eq_all_conv [THEN iffD2])

lemma length_Trim: "length (Trim s) \<le> length s"
  by (simp add: Trim_def substr_def Let_def)

section \<open>StringSplit\<close>

text \<open>\<open>std::string::find\<close>: the first position at which \<open>d\<close> occurs.\<close>

fun find_str :: "string \<Rightarrow> string \<Rightarrow> nat option" where
  "find_str [] d = (if d = [] then Some 0 else None)"
| "find_str (c # cs) d =
     (if take (length d) (c # cs) = d then Some 0 else map_option Suc (find_str cs d))"

lemma find_str_Some:
  "find_str s d = Some k \<Longrightarrow> k + length d \<le> length s \<and> take (length d) (drop k s) = d"
proof (induction s arbitrary: k)
  case (Cons c s)
  show ?case
  proof (cases "take (length d) (c # s) = d")
    case True
    with Cons.prems have "k = 0" by simp
    moreover have "length d \<le> length (c # s)" using True by (metis length_take min.absorb_iff1 min.commute)
    ultimately show ?thesis using True by simp
  next
    case False
    with Cons show ?thesis by auto
  qed
qed (auto split: if_splits)

lemma find_str_absent:
  assumes "d \<noteq> []" "hd d \<notin> set p"
  shows "find_str p d = None"
  using assms(2)
proof (induction p)
  case (Cons c p)
  then have "take (length d) (c # p) \<noteq> d" using assms(1) by (cases d) auto
  with Cons show ?case by simp
qed (simp add: assms(1))

lemma find_str_first:
  assumes "d \<noteq> []" "hd d \<notin> set p"
  shows "find_str (p @ d @ r) d = Some (length p)"
  using assms(2)
proof (induction p)
  case Nil
  obtain x xs where "d @ r = x # xs" using assms(1) by (cases d) auto
  moreover have "take (length d) (d @ r) = d" by simp
  ultimately show ?case by (simp only: append_Nil find_str.simps if_True list.size refl)
next
  case (Cons c p)
  then have "take (length d) (c # p @ d @ r) \<noteq> d" using assms(1) by (cases d) auto
  with Cons show ?case by simp
qed

text \<open>
  The \<open>while\<close> loop. With an empty delimiter \<open>find\<close> answers 0 for ever and the loop never
  ends, so the loop is partial; \<open>None\<close> is the call that does not return.
\<close>

partial_function (option) split_loop :: "string \<Rightarrow> string \<Rightarrow> string list \<Rightarrow> string list option" where
  "split_loop d remainder vals =
     (if remainder = [] then Some vals
      else case find_str remainder d of
          None \<Rightarrow> split_loop d [] (vals @ [remainder])
        | Some k \<Rightarrow>
            split_loop d (Trim (substr remainder (k + length d) (length remainder)))
              (vals @ [Trim (substr remainder 0 k)]))"

definition StringSplit :: "string \<Rightarrow> string \<Rightarrow> string list option" where
  "StringSplit s d = split_loop d (Trim s) []"

lemma split_loop_Nil [simp]: "split_loop d [] vals = Some vals"
  by (simp add: split_loop.simps)

lemma split_loop_returns: "d \<noteq> [] \<Longrightarrow> \<exists>vs. split_loop d r vals = Some vs"
proof (induction "length r" arbitrary: r vals rule: less_induct)
  case less
  show ?case
  proof (cases "r = []")
    case False
    show ?thesis
    proof (cases "find_str r d")
      case None
      with False show ?thesis by (simp add: split_loop.simps [of d r])
    next
      case (Some k)
      then have "k + length d \<le> length r" using find_str_Some by blast
      moreover have "0 < length d" using less.prems by simp
      ultimately have "length (Trim (substr r (k + length d) (length r))) < length r"
        using length_Trim [of "substr r (k + length d) (length r)"] unfolding substr_def
        by (simp del: length_greater_0_conv)
      from less.hyps [OF this less.prems] obtain vs where
        "split_loop d (Trim (substr r (k + length d) (length r)))
           (vals @ [Trim (substr r 0 k)]) = Some vs" by blast
      with Some False show ?thesis by (simp add: split_loop.simps [of d r])
    qed
  qed simp
qed

lemma trim_spec_tight: "tight (trim_spec s)"
proof (cases "trim_spec s = []")
  case False
  define m where "m = dropWhile blank s"
  define n where "n = dropWhile blank (rev m)"
  have n: "n \<noteq> []" "trim_spec s = rev n" using False by (auto simp: trim_spec_def n_def m_def)
  have "\<not> blank (hd n)" using n(1) hd_dropWhile unfolding n_def by blast
  moreover have "m \<noteq> []" using n(1) by (auto simp: n_def)
  moreover have "last n = hd m"
    using n(1) \<open>m \<noteq> []\<close> unfolding n_def
    by (metis dropWhile_eq_drop last_drop last_rev length_greater_0_conv drop_eq_Nil leI)
  moreover have "\<not> blank (hd m)" using \<open>m \<noteq> []\<close> hd_dropWhile unfolding m_def by blast
  ultimately show ?thesis using n by (simp add: tight_def hd_rev last_rev)
qed (simp add: tight_def)

lemma Trim_idem:
  assumes "length s < 2 ^ 64"
  shows "Trim (Trim s) = Trim s"
proof -
  have "length (trim_spec s) < 2 ^ 64"
    using assms length_Trim [of s] by (simp add: Trim_eq_spec)
  then have "Trim (trim_spec s) = trim_spec s" by (intro Trim_tight trim_spec_tight)
  then show ?thesis using assms by (simp add: Trim_eq_spec)
qed

lemma split_loop_empty_delimiter:
  assumes ret: "split_loop d r vals = Some vs"
  shows "d = [] \<longrightarrow> Trim r = r \<longrightarrow> r = []"
proof (rule split_loop.raw_induct [where P = "\<lambda>d r vals vs. d = [] \<longrightarrow> Trim r = r \<longrightarrow> r = []", OF _ ret])
  fix f d r vals vs
  assume IH: "\<And>d r vals vs. f d r vals = Some vs \<Longrightarrow> d = [] \<longrightarrow> Trim r = r \<longrightarrow> r = []"
    and eq: "(if r = [] then Some vals
       else case find_str r d of
            None \<Rightarrow> f d [] (vals @ [r])
          | Some k \<Rightarrow> f d (Trim (substr r (k + length d) (length r)))
                          (vals @ [Trim (substr r 0 k)])) = Some vs"
  show "d = [] \<longrightarrow> Trim r = r \<longrightarrow> r = []"
  proof (intro impI, rule ccontr)
    assume d: "d = []" and t: "Trim r = r" and "r \<noteq> []"
    then obtain c cs where r: "r = c # cs" by (cases r) auto
    have "f d (Trim r) (vals @ [Trim []]) = Some vs"
      using eq d by (simp add: r substr_def)
    with IH [of d "Trim r" "vals @ [Trim []]" vs] t d \<open>r \<noteq> []\<close> show False by simp
  qed
qed

lemma StringSplit_returns: "d \<noteq> [] \<Longrightarrow> \<exists>vs. StringSplit s d = Some vs"
  unfolding StringSplit_def by (rule split_loop_returns)

lemma StringSplit_empty_delimiter:
  assumes "length s < 2 ^ 64" "Trim s \<noteq> []"
  shows "StringSplit s [] = None"
  using split_loop_empty_delimiter Trim_idem assms unfolding StringSplit_def
  by (metis not_Some_eq)

section \<open>StringsJoin\<close>

text \<open>The loop over the pieces with its \<open>first\<close> flag and the stream \<open>builder\<close>.\<close>

fun join_loop :: "string \<Rightarrow> bool \<Rightarrow> string \<Rightarrow> string list \<Rightarrow> string" where
  "join_loop d first builder [] = builder"
| "join_loop d first builder (piece # v) =
     join_loop d False ((if first then builder else builder @ d) @ piece) v"

definition StringsJoin :: "string list \<Rightarrow> string \<Rightarrow> string" where
  "StringsJoin v d = join_loop d True [] v"

lemma join_loop_rest: "join_loop d False b v = b @ concat (map (\<lambda>p. d @ p) v)"
  by (induction v arbitrary: b) simp_all

lemma StringsJoin_simps [simp]:
  "StringsJoin [] d = []"
  "StringsJoin [p] d = p"
  "StringsJoin (p # q # v) d = p @ d @ StringsJoin (q # v) d"
  by (simp_all add: StringsJoin_def join_loop_rest)

lemma StringsJoin_eq_Nil:
  "v \<noteq> [] \<Longrightarrow> last v \<noteq> [] \<Longrightarrow> StringsJoin v d \<noteq> [] \<and> last (StringsJoin v d) = last (last v)"
proof (induction v)
  case (Cons p v)
  then show ?case by (cases v) auto
qed simp

text \<open>
  What the pieces must satisfy for splitting to undo joining: no piece holds the first
  character of the delimiter, none has a blank at either end, and the last one is not
  empty (\<open>StringSplit\<close> drops a trailing empty piece).
\<close>

definition splittable :: "string \<Rightarrow> string list \<Rightarrow> bool" where
  "splittable d v \<longleftrightarrow> v \<noteq> [] \<and> last v \<noteq> [] \<and> list_all (\<lambda>p. tight p \<and> hd d \<notin> set p) v"

definition delimiter_ok :: "string \<Rightarrow> bool" where
  "delimiter_ok d \<longleftrightarrow> d \<noteq> [] \<and> \<not> blank (hd d) \<and> \<not> blank (last d)"

lemma tight_StringsJoin:
  assumes "splittable d v" "delimiter_ok d"
  shows "tight (StringsJoin v d)"
proof -
  have v: "v \<noteq> []" "last v \<noteq> []" "\<forall>p\<in>set v. tight p"
    using assms(1) by (auto simp: splittable_def list_all_iff)
  have "\<not> blank (hd (StringsJoin v d))"
  proof (cases v)
    case (Cons p w)
    show ?thesis
    proof (cases w)
      case Nil
      with Cons v show ?thesis by (simp add: tight_def)
    next
      case (Cons q u)
      with \<open>v = p # w\<close> v assms(2) show ?thesis
        by (cases "p = []") (simp_all add: tight_def delimiter_ok_def)
    qed
  qed (use v in simp)
  moreover have "\<not> blank (last (StringsJoin v d))"
    using StringsJoin_eq_Nil [OF v(1,2)] v by (metis last_in_set tight_def)
  ultimately show ?thesis by (simp add: tight_def)
qed

lemma split_loop_join:
  assumes "splittable d v" "delimiter_ok d" "length (StringsJoin v d) < 2 ^ 64"
  shows "split_loop d (StringsJoin v d) acc = Some (acc @ v)"
  using assms(1,3)
proof (induction v arbitrary: acc)
  case (Cons p v)
  have d: "d \<noteq> []" using assms(2) by (simp add: delimiter_ok_def)
  have p: "tight p" "hd d \<notin> set p" using Cons.prems(1) by (auto simp: splittable_def)
  show ?case
  proof (cases v)
    case Nil
    then have "p \<noteq> []" using Cons.prems(1) by (simp add: splittable_def)
    with Nil p(2) d show ?thesis by (simp add: split_loop.simps [of d p] find_str_absent)
  next
    case (Cons q w)
    let ?rest = "StringsJoin v d"
    have v: "splittable d v" using Cons.prems(1) Cons by (simp add: splittable_def)
    have len: "length p < 2 ^ 64" "length ?rest < 2 ^ 64"
      using Cons.prems(2) Cons by simp_all
    have "find_str (p @ d @ ?rest) d = Some (length p)" by (rule find_str_first [OF d p(2)])
    moreover have "Trim p = p" by (rule Trim_tight [OF p(1) len(1)])
    moreover have "Trim ?rest = ?rest" by (rule Trim_tight [OF tight_StringsJoin [OF v assms(2)] len(2)])
    moreover have "substr (p @ d @ ?rest) (length p + length d) (length (p @ d @ ?rest)) = ?rest"
      and "substr (p @ d @ ?rest) 0 (length p) = p" by (simp_all add: substr_def)
    ultimately have "split_loop d (p @ d @ ?rest) acc = split_loop d ?rest (acc @ [p])"
      using d by (subst split_loop.simps) simp
    with Cons.IH [OF v len(2)] Cons show ?thesis by simp
  qed
qed (simp add: splittable_def)

lemma StringSplit_StringsJoin:
  assumes "splittable d v" "delimiter_ok d" "length (StringsJoin v d) < 2 ^ 64"
  shows "StringSplit (StringsJoin v d) d = Some v"
  unfolding StringSplit_def
  using assms by (simp add: Trim_tight [OF tight_StringsJoin [OF assms(1,2)] assms(3)] split_loop_join)

section \<open>Properties\<close>

text \<open>\<open>Trim\<close> drops exactly the blank characters at the two ends, where every byte from
  128 up counts as blank too: the index arithmetic of the source (two scans and a wrapping
  subtraction) agrees with the reference on every string, also on one of blanks only.\<close>

lemma trim_drops_blank_ends:
  assumes "length s < 2 ^ 64"
  shows "Trim s = rev (dropWhile blank (rev (dropWhile blank s))) \<and> tight (Trim s)"
  using assms by (simp_all add: Trim_eq_spec trim_spec_def [symmetric] trim_spec_tight)

text \<open>\<open>StringSplit\<close> returns on every input but one: with an empty delimiter its loop
  runs for ever as soon as the trimmed text is not empty.\<close>

lemma split_returns_iff:
  assumes "length s < 2 ^ 64"
  shows "(\<exists>vs. StringSplit s d = Some vs) \<longleftrightarrow> d \<noteq> [] \<or> Trim s = []"
proof (cases "d = []")
  case True
  then show ?thesis
    using StringSplit_empty_delimiter [OF assms] by (cases "Trim s = []") (auto simp: StringSplit_def)
qed (simp add: StringSplit_returns)

text \<open>C24: Splitting undoes joining: the values of a row joined with the delimiter come back
  unchanged and in order, provided no value holds the delimiter's first character, none has
  blank ends, and the last one is not empty.\<close>

theorem split_undoes_join:
  assumes "splittable d v" "delimiter_ok d" "length (StringsJoin v d) < 2 ^ 64"
  shows "StringSplit (StringsJoin v d) d = Some v"
  using assms by (rule StringSplit_StringsJoin)

theorem split_undoes_join_witness:
  "StringSplit ''1$$$$Ann Lee'' ''$$'' = Some [''1'', '''', ''Ann Lee'']"
  using split_undoes_join [of "''$$''" "[''1'', '''', ''Ann Lee'']"]
  by (simp add: splittable_def delimiter_ok_def tight_def blank_def char_value_def)

end
