(* ===== verification/Numbers.thy ===== *)
theory Numbers
  imports Prelude
begin

text \<open>
  The decimal conversions of the C++ standard library that the source uses:
  \<open>std::to_string\<close> and \<open>"%lu"\<close> of \<open>snprintf\<close> one way, \<open>std::stoi\<close> the other. They carry
  column types through the catalog, integer literals through \<open>INSERT\<close>, and lengths through
  the reply formatter of \<open>network/common.cc\<close>.
\<close>

definition digit_char :: "nat \<Rightarrow> char" where
  "digit_char d = char_of (48 + d)"

definition isdigit :: "char \<Rightarrow> bool" where
  "isdigit c \<longleftrightarrow> 48 \<le> (of_char c :: nat) \<and> (of_char c :: nat) \<le> 57"

definition digit_value :: "char \<Rightarrow> nat" where
  "digit_value c = of_char c - 48"

fun decimal :: "nat \<Rightarrow> string" where
  "decimal n = (if n < 10 then [digit_char n] else decimal (n div 10) @ [digit_char (n mod 10)])"

declare decimal.simps [simp del]

definition to_string :: "int \<Rightarrow> string" where
  "to_string n = (if n < 0 then ''-'' @ decimal (nat (- n)) else decimal (nat n))"

text \<open>The value of a run of digits, and the scan that stops at the first other character.\<close>

definition digits_value :: "nat \<Rightarrow> string \<Rightarrow> nat" where
  "digits_value v s = foldl (\<lambda>v c. v * 10 + digit_value c) v s"

lemma isdigit_digit_char [simp]: "d < 10 \<Longrightarrow> isdigit (digit_char d)"
  by (simp add: isdigit_def digit_char_def)

lemma digit_value_digit_char [simp]: "d < 10 \<Longrightarrow> digit_value (digit_char d) = d"
  by (simp add: digit_value_def digit_char_def)

lemma decimal_not_Nil [simp]: "decimal n \<noteq> []"
  by (subst decimal.simps) simp

lemma decimal_digits: "list_all isdigit (decimal n)"
proof (induction n rule: decimal.induct)
  case (1 n)
  then show ?case by (subst decimal.simps) simp
qed

lemma digits_value_decimal: "digits_value 0 (decimal n) = n"
proof (induction n rule: decimal.induct)
  case (1 n)
  then show ?case by (subst decimal.simps) (simp add: digits_value_def)
qed

lemma length_decimal: "n < 10 ^ k \<Longrightarrow> 0 < k \<Longrightarrow> length (decimal n) \<le> k"
proof (induction k arbitrary: n)
  case (Suc k)
  show ?case
  proof (cases "n < 10")
    case True
    then show ?thesis by (simp add: decimal.simps [of n])
  next
    case False
    have k: "0 < k" using False Suc.prems by (cases k) simp_all
    have "n div 10 < 10 ^ k" using Suc.prems by (simp add: div_less_iff_less_mult mult.commute)
    from Suc.IH [OF this k] False show ?thesis by (simp add: decimal.simps [of n])
  qed
qed simp

section \<open>\<open>std::stoi\<close>\<close>

definition isspace :: "char \<Rightarrow> bool" where
  "isspace c \<longleftrightarrow> (of_char c :: nat) = 32 \<or> 9 \<le> (of_char c :: nat) \<and> (of_char c :: nat) \<le> 13"

text \<open>
  Leading white space, an optional sign, then digits; what follows is ignored. No digit is
  \<open>std::invalid_argument\<close>, a value outside \<open>int\<close> is \<open>std::out_of_range\<close>.
\<close>

definition stoi :: "string \<Rightarrow> int res" where
  "stoi s =
     (let s = dropWhile isspace s;
          neg = (s \<noteq> [] \<and> hd s = CHR ''-'');
          s = (if s \<noteq> [] \<and> (hd s = CHR ''-'' \<or> hd s = CHR ''+'') then tl s else s);
          ds = takeWhile isdigit s;
          v = (if neg then - int (digits_value 0 ds) else int (digits_value 0 ds))
      in if ds = [] then Inl InvalidArgument
         else if v < - (2 ^ 31) \<or> 2 ^ 31 \<le> v then Inl OutOfRangeExn
         else Inr v)"

lemma isdigit_not_space: "isdigit c \<Longrightarrow> \<not> isspace c"
  by (auto simp: isdigit_def isspace_def)

lemma isdigit_not_sign: "isdigit c \<Longrightarrow> c \<noteq> CHR ''-'' \<and> c \<noteq> CHR ''+''"
  by (auto simp: isdigit_def)

lemma stoi_Nil [simp]: "stoi [] = Inl InvalidArgument"
  by (simp add: stoi_def)

lemma stoi_to_string:
  assumes "0 \<le> n" "n < 2 ^ 31"
  shows "stoi (to_string n) = Inr n"
proof -
  have s: "to_string n = decimal (nat n)" using assms by (simp add: to_string_def)
  then obtain c cs where c: "decimal (nat n) = c # cs" by (cases "decimal (nat n)") auto
  then have "isdigit c" using decimal_digits [of "nat n"] by simp
  moreover have "\<forall>x\<in>set cs. isdigit x"
    using decimal_digits [of "nat n"] c by (simp add: list_all_iff)
  ultimately show ?thesis
    using assms c digits_value_decimal [of "nat n"] isdigit_not_space isdigit_not_sign
    by (auto simp: stoi_def s Let_def takeWhile_eq_all_conv [THEN iffD2])
qed

lemma stoi_no_digit: "s \<noteq> [] \<Longrightarrow> \<not> isdigit (hd s) \<Longrightarrow> \<not> isspace (hd s) \<Longrightarrow> hd s \<notin> {CHR ''-'', CHR ''+''} \<Longrightarrow>
  stoi s = Inl InvalidArgument"
  by (cases s) (auto simp: stoi_def)

end
