(* ===== verification/Wire.thy ===== *)
theory Wire
  imports Prelude
begin

text \<open>
  \<open>network/protocol_buffer.cc\<close>: the little-endian integers, length-encoded integers and
  length-encoded strings of the MySQL protocol. A packet is a list of bytes and the
  iterator \<open>it\<close> is an index into it; \<open>*it\<close> outside the packet is undefined behaviour
  (the source has \<open>TODO\<close> where the check should be). The locale \<open>codec\<close> is what a
  writer and its reader promise each other; it is interpreted on every pair that keeps the
  promise, and it proves the round trip of a sequence of fields once for all of them.
\<close>

type_synonym packet = "byte list"

section \<open>Readers\<close>

text \<open>
  \<open>*(it + k) << n\<close>: the byte is promoted to a 32-bit \<open>int\<close>, so a shift by 32 or more
  is undefined.
\<close>

definition shl_int :: "u8 \<Rightarrow> nat \<Rightarrow> u32 res" where
  "shl_int b n = (if n < 32 then Inr (push_bit n (ucast b)) else Inl ShiftTooWide)"

definition ReadU8 :: "packet \<Rightarrow> nat \<Rightarrow> (u8 \<times> nat) res" where
  "ReadU8 p i = bindR (nthR p i) (\<lambda>v. Inr (v, i + 1))"

definition ReadU16 :: "packet \<Rightarrow> nat \<Rightarrow> (u16 \<times> nat) res" where
  "ReadU16 p i =
     bindR (nthR p i) (\<lambda>b0. bindR (nthR p (i + 1)) (\<lambda>b1. bindR (shl_int b1 8) (\<lambda>s1.
       Inr (ucast b0 OR ucast s1, i + 2))))"

text \<open>The 24-bit value is built in a \<open>uint32_t\<close> and returned as a \<open>uint16_t\<close>.\<close>

definition ReadU24 :: "packet \<Rightarrow> nat \<Rightarrow> (u16 \<times> nat) res" where
  "ReadU24 p i =
     bindR (nthR p i) (\<lambda>b0. bindR (nthR p (i + 1)) (\<lambda>b1. bindR (shl_int b1 8) (\<lambda>s1.
     bindR (nthR p (i + 2)) (\<lambda>b2. bindR (shl_int b2 16) (\<lambda>s2.
       let v = (ucast b0 OR s1 OR s2 :: u32) in Inr (ucast v, i + 3))))))"

definition ReadU32 :: "packet \<Rightarrow> nat \<Rightarrow> (u32 \<times> nat) res" where
  "ReadU32 p i =
     bindR (nthR p i) (\<lambda>b0. bindR (nthR p (i + 1)) (\<lambda>b1. bindR (shl_int b1 8) (\<lambda>s1.
     bindR (nthR p (i + 2)) (\<lambda>b2. bindR (shl_int b2 16) (\<lambda>s2.
     bindR (nthR p (i + 3)) (\<lambda>b3. bindR (shl_int b3 24) (\<lambda>s3.
       Inr (ucast b0 OR s1 OR s2 OR s3, i + 4))))))))"

text \<open>Each shifted \<open>int\<close> is sign-extended to 64 bits; from the fifth byte on the shift is too wide.\<close>

definition ReadU64 :: "packet \<Rightarrow> nat \<Rightarrow> (u64 \<times> nat) res" where
  "ReadU64 p i =
     bindR (nthR p i) (\<lambda>b0. bindR (nthR p (i + 1)) (\<lambda>b1. bindR (shl_int b1 8) (\<lambda>s1.
     bindR (nthR p (i + 2)) (\<lambda>b2. bindR (shl_int b2 16) (\<lambda>s2.
     bindR (nthR p (i + 3)) (\<lambda>b3. bindR (shl_int b3 24) (\<lambda>s3.
     bindR (nthR p (i + 4)) (\<lambda>b4. bindR (shl_int b4 32) (\<lambda>s4.
     bindR (nthR p (i + 5)) (\<lambda>b5. bindR (shl_int b5 40) (\<lambda>s5.
     bindR (nthR p (i + 6)) (\<lambda>b6. bindR (shl_int b6 48) (\<lambda>s6.
     bindR (nthR p (i + 7)) (\<lambda>b7. bindR (shl_int b7 56) (\<lambda>s7.
       Inr (ucast b0 OR scast s1 OR scast s2 OR scast s3 OR scast s4 OR scast s5
              OR scast s6 OR scast s7, i + 8))))))))))))))))"

text \<open>
  \<open>nil_value\<close> is \<open>(uint64_t)std::numeric_limits<uint64_t>::max\<close>: without the call
  parentheses it is the address of the function, which only the linker knows.
\<close>

definition ReadLenEncode :: "u64 \<Rightarrow> packet \<Rightarrow> nat \<Rightarrow> (u64 \<times> nat) res" where
  "ReadLenEncode nil_value p i =
     bindR (ReadU8 p i) (\<lambda>(u8, i).
       if u8 = 0xfb then Inr (nil_value, i)
       else if u8 = 0xfc then bindR (ReadU16 p i) (\<lambda>(v, i). Inr (ucast v, i))
       else if u8 = 0xfd then bindR (ReadU24 p i) (\<lambda>(v, i). Inr (ucast v, i))
       else if u8 = 0xfe then ReadU64 p i
       else Inr (ucast u8, i))"

definition ReadString :: "packet \<Rightarrow> nat \<Rightarrow> nat \<Rightarrow> (string \<times> nat) res" where
  "ReadString p i readBytes =
     bindR (sliceR p i readBytes) (\<lambda>bs. Inr (string_of bs, i + readBytes))"

definition ReadLenEncodeString :: "u64 \<Rightarrow> packet \<Rightarrow> nat \<Rightarrow> (string \<times> nat) res" where
  "ReadLenEncodeString nil_value p i =
     bindR (ReadLenEncode nil_value p i) (\<lambda>(strLen, i). ReadString p i (unat strLen))"

section \<open>Writers\<close>

definition WriteU8 :: "packet \<Rightarrow> u8 \<Rightarrow> packet" where
  "WriteU8 p v = p @ [v]"

definition WriteU16 :: "packet \<Rightarrow> u16 \<Rightarrow> packet" where
  "WriteU16 p v = p @ [ucast v, ucast (drop_bit 8 v)]"

definition WriteU24 :: "packet \<Rightarrow> u32 \<Rightarrow> packet" where
  "WriteU24 p v = p @ [ucast v, ucast (drop_bit 8 v), ucast (drop_bit 16 v)]"

definition WriteU32 :: "packet \<Rightarrow> u32 \<Rightarrow> packet" where
  "WriteU32 p v = p @ [ucast v, ucast (drop_bit 8 v), ucast (drop_bit 16 v), ucast (drop_bit 24 v)]"

definition WriteU64 :: "packet \<Rightarrow> u64 \<Rightarrow> packet" where
  "WriteU64 p v = p @ [ucast v, ucast (drop_bit 8 v), ucast (drop_bit 16 v), ucast (drop_bit 24 v),
     ucast (drop_bit 32 v), ucast (drop_bit 40 v), ucast (drop_bit 48 v), ucast (drop_bit 56 v)]"

definition WriteLenEncode :: "packet \<Rightarrow> u64 \<Rightarrow> packet" where
  "WriteLenEncode p v =
     (if v < 251 then WriteU8 p (ucast v)
      else if v \<ge> 251 \<and> v < push_bit 16 1 then WriteU16 (WriteU8 p 0xfc) (ucast v)
      else if v \<ge> push_bit 16 1 \<and> v < push_bit 24 1 then WriteU24 (WriteU8 p 0xfd) (ucast v)
      else WriteU64 (WriteU8 p 0xfe) v)"

definition WriteLenEncodeNUL :: "packet \<Rightarrow> packet" where
  "WriteLenEncodeNUL p = WriteU8 p 0xfb"

definition WriteString :: "packet \<Rightarrow> string \<Rightarrow> packet" where
  "WriteString p v = p @ bytes_of v"

definition WriteLenEncodeString :: "packet \<Rightarrow> string \<Rightarrow> packet" where
  "WriteLenEncodeString p v = WriteString (WriteLenEncode p (word_of_nat (length v))) v"

lemmas write_defs = WriteU8_def WriteU16_def WriteU24_def WriteU32_def WriteU64_def
  WriteLenEncode_def WriteLenEncodeNUL_def WriteString_def WriteLenEncodeString_def

lemmas read_defs = ReadU8_def ReadU16_def ReadU24_def ReadU32_def ReadLenEncode_def
  ReadString_def ReadLenEncodeString_def

text \<open>Every writer appends: it keeps the packet it is given.\<close>

lemma write_append:
  "WriteU8 p v8 = p @ WriteU8 [] v8"
  "WriteU16 p v16 = p @ WriteU16 [] v16"
  "WriteU24 p v32 = p @ WriteU24 [] v32"
  "WriteU32 p v32 = p @ WriteU32 [] v32"
  "WriteU64 p v64 = p @ WriteU64 [] v64"
  "WriteLenEncode p v64 = p @ WriteLenEncode [] v64"
  "WriteString p s = p @ WriteString [] s"
  "WriteLenEncodeString p s = p @ WriteLenEncodeString [] s"
  by (simp_all add: write_defs)

text \<open>
  \<open>emit w v\<close> is what the writer \<open>w\<close> appends for \<open>v\<close>; with \<open>write_emit\<close> a packet built by a
  sequence of writes becomes a concatenation.
\<close>

definition emit :: "(packet \<Rightarrow> 'v \<Rightarrow> packet) \<Rightarrow> 'v \<Rightarrow> packet" where
  "emit w v = w [] v"

lemma write_emit:
  "WriteU8 p v8 = p @ emit WriteU8 v8"
  "WriteU16 p v16 = p @ emit WriteU16 v16"
  "WriteU24 p v32 = p @ emit WriteU24 v32"
  "WriteU32 p v32 = p @ emit WriteU32 v32"
  "WriteU64 p v64 = p @ emit WriteU64 v64"
  "WriteLenEncode p v64 = p @ emit WriteLenEncode v64"
  "WriteString p s = p @ emit WriteString s"
  "WriteLenEncodeString p s = p @ emit WriteLenEncodeString s"
  unfolding emit_def by (rule write_append)+

section \<open>Reassembling words from their bytes\<close>

lemma bytes16: "(ucast (ucast v :: u8) :: u16) OR ucast (push_bit 8 (ucast (ucast (drop_bit 8 v) :: u8)) :: u32) = v"
  for v :: u16
  by (rule bit_word_eqI) (auto simp: bit_or_iff bit_ucast_iff bit_push_bit_iff bit_drop_bit_eq
      dest: bit_imp_le_length)

lemmas byte_bits = bit_or_iff bit_and_iff bit_ucast_iff bit_push_bit_iff bit_drop_bit_eq
  bit_take_bit_iff bit_signed_iff

lemma bytes24:
  "(ucast ((ucast (ucast v :: u8) :: u32) OR push_bit 8 (ucast (ucast (drop_bit 8 v) :: u8))
      OR push_bit 16 (ucast (ucast (drop_bit 16 v) :: u8))) :: u16) = ucast v"
  for v :: u32
  by (rule bit_word_eqI) (auto simp: byte_bits dest: bit_imp_le_length)

lemma bytes32:
  "(ucast (ucast v :: u8) :: u32) OR push_bit 8 (ucast (ucast (drop_bit 8 v) :: u8))
     OR push_bit 16 (ucast (ucast (drop_bit 16 v) :: u8))
     OR push_bit 24 (ucast (ucast (drop_bit 24 v) :: u8)) = v"
  for v :: u32
proof (rule bit_word_eqI)
  fix n
  assume n: "n < LENGTH(32)"
  consider "n < 8" | "8 \<le> n" "n < 16" | "16 \<le> n" "n < 24" | "24 \<le> n" by linarith
  then show "bit ((ucast (ucast v :: u8) :: u32) OR push_bit 8 (ucast (ucast (drop_bit 8 v) :: u8))
     OR push_bit 16 (ucast (ucast (drop_bit 16 v) :: u8))
     OR push_bit 24 (ucast (ucast (drop_bit 24 v) :: u8))) n = bit v n"
    using n by cases (auto simp: byte_bits)
qed

lemma nthR_app:
  "nthR (p @ xs) (length p) = nthR xs 0"
  "nthR (p @ xs) (length p + k) = nthR xs k"
  "nthR (p @ xs) (Suc (length p)) = nthR xs 1"
  "nthR (p @ xs) (Suc (Suc (length p))) = nthR xs 2"
  by (simp_all add: nthR_def nth_append)

lemma nthR_Cons:
  "nthR (x # xs) 0 = Inr x"
  "nthR (x # xs) (Suc k) = nthR xs k"
  "nthR (x # xs) (numeral n) = nthR xs (pred_numeral n)"
  by (simp_all add: nthR_def numeral_eq_Suc)

lemmas shl_int_simps = shl_int_def [of _ 8] shl_int_def [of _ 16] shl_int_def [of _ 24]
  shl_int_def [of _ 32]

lemma ReadU8_mid: "ReadU8 (p @ WriteU8 [] v @ q) (length p) = Inr (v, length p + 1)"
  by (simp add: ReadU8_def WriteU8_def nthR_app)

lemma ReadU16_mid: "ReadU16 (p @ WriteU16 [] v @ q) (length p) = Inr (v, length p + 2)"
  by (simp add: ReadU16_def WriteU16_def nthR_app shl_int_simps bytes16)

lemma ReadU24_mid: "ReadU24 (p @ WriteU24 [] v @ q) (length p) = Inr (ucast v, length p + 3)"
  by (simp add: ReadU24_def WriteU24_def nthR_app nthR_Cons shl_int_simps bytes24 del: nthR_in)

lemma ReadU32_mid: "ReadU32 (p @ WriteU32 [] v @ q) (length p) = Inr (v, length p + 4)"
  by (simp add: ReadU32_def WriteU32_def nthR_app nthR_Cons shl_int_simps bytes32 del: nthR_in)

lemma ReadU64_never: "i + 5 \<le> length p \<Longrightarrow> ReadU64 p i = Inl ShiftTooWide"
  by (simp add: ReadU64_def shl_int_simps)

lemma ReadU64_fails: "\<exists>e. ReadU64 p i = Inl e"
  by (simp add: ReadU64_def shl_int_simps nthR_def)

section \<open>The length-encoded integer\<close>

lemma unat_ucast_mod: "unat (ucast v :: 'b::len word) = unat v mod 2 ^ LENGTH('b)"
  for v :: "'a::len word"
  by (simp add: unsigned_ucast_eq take_bit_eq_mod)

lemma ucast_small: "unat v < 2 ^ LENGTH('b) \<Longrightarrow> (ucast (ucast v :: 'b::len word) :: 'a::len word) = v"
  for v :: "'a::len word"
proof -
  assume v: "unat v < 2 ^ LENGTH('b)"
  have "unat (ucast (ucast v :: 'b word) :: 'a word) = unat v mod 2 ^ LENGTH('b) mod 2 ^ LENGTH('a)"
    by (simp only: unat_ucast_mod)
  also have "\<dots> = unat v" using v unsigned_less [of v, where ?'a = nat] by simp
  finally show ?thesis by (simp only: word_unat_eq_iff)
qed

lemma first_byte_small: "v < 251 \<Longrightarrow> (ucast v :: u8) \<notin> {0xfb, 0xfc, 0xfd, 0xfe}" for v :: u64
proof -
  assume "v < 251"
  then have "unat (ucast v :: u8) < 251" by (simp add: word_less_nat_alt unat_ucast_mod)
  then show ?thesis by auto
qed

lemma low16: "(ucast (ucast (ucast v :: u32) :: u16) :: u64) = v AND 0xffff" for v :: u64
proof -
  have "(ucast (ucast (ucast v :: u32) :: u16) :: u64) = take_bit 16 v"
    by (rule bit_word_eqI) (auto simp: byte_bits dest: bit_imp_le_length)
  also have "\<dots> = v AND mask 16" by (simp add: take_bit_eq_mask)
  finally show ?thesis by (simp add: mask_numeral)
qed

lemma WriteLenEncode_cases:
  "v < 251 \<Longrightarrow> WriteLenEncode p v = p @ [ucast v]"
  "\<lbrakk>251 \<le> v; v < 2 ^ 16\<rbrakk> \<Longrightarrow> WriteLenEncode p v = p @ 0xfc # WriteU16 [] (ucast v)"
  "\<lbrakk>2 ^ 16 \<le> v; v < 2 ^ 24\<rbrakk> \<Longrightarrow> WriteLenEncode p v = p @ 0xfd # WriteU24 [] (ucast v)"
  "2 ^ 24 \<le> v \<Longrightarrow> WriteLenEncode p v = p @ 0xfe # WriteU64 [] v"
  by (auto simp: write_defs word_less_nat_alt word_le_nat_alt)

lemma ReadLenEncode_small:
  assumes "v < 251"
  shows "ReadLenEncode nv (p @ WriteLenEncode [] v @ q) (length p) = Inr (v, length p + 1)"
proof -
  have "unat v < 2 ^ LENGTH(8)" using assms by (simp add: word_less_nat_alt)
  then have "ucast (ucast v :: u8) = v" by (rule ucast_small)
  with first_byte_small [OF assms] show ?thesis
    by (simp add: ReadLenEncode_def ReadU8_def WriteLenEncode_cases(1) [OF assms] nthR_app)
qed

lemma ReadLenEncode_u16:
  assumes "251 \<le> v" "v < 2 ^ 16"
  shows "ReadLenEncode nv (p @ WriteLenEncode [] v @ q) (length p) = Inr (v, length p + 3)"
proof -
  have "unat v < 2 ^ LENGTH(16)" using assms by (simp add: word_less_nat_alt)
  then have "ucast (ucast v :: u16) = v" by (rule ucast_small)
  with ReadU16_mid [of "p @ [0xfc]" "ucast v" q] show ?thesis
    by (simp add: ReadLenEncode_def ReadU8_def WriteLenEncode_cases(2) [OF assms] nthR_app)
qed

lemma ReadLenEncode_u24:
  assumes "2 ^ 16 \<le> v" "v < 2 ^ 24"
  shows "ReadLenEncode nv (p @ WriteLenEncode [] v @ q) (length p) = Inr (v AND 0xffff, length p + 4)"
  using ReadU24_mid [of "p @ [0xfd]" "ucast v" q]
  by (simp add: ReadLenEncode_def ReadU8_def WriteLenEncode_cases(3) [OF assms] nthR_app low16)

lemma ReadLenEncode_u64:
  assumes "2 ^ 24 \<le> v"
  shows "ReadLenEncode nv (p @ WriteLenEncode [] v @ q) (length p) = Inl ShiftTooWide"
  using ReadU64_never [of "length p + 1" "p @ 0xfe # WriteU64 [] v @ q"]
  by (simp add: ReadLenEncode_def ReadU8_def WriteLenEncode_cases(4) [OF assms] nthR_app WriteU64_def)

lemma ReadLenEncode_WriteLenEncode:
  "ReadLenEncode nv (p @ WriteLenEncode [] v @ q) (length p) =
     (if v < 2 ^ 16 then Inr (v, length p + length (WriteLenEncode [] v))
      else if v < 2 ^ 24 then Inr (v AND 0xffff, length p + 4)
      else Inl ShiftTooWide)"
proof -
  consider "v < 251" | "251 \<le> v" "v < 2 ^ 16" | "2 ^ 16 \<le> v" "v < 2 ^ 24" | "2 ^ 24 \<le> v"
    by fastforce
  then show ?thesis
  proof cases
    case 1
    then have "v < 2 ^ 16" by (simp add: word_less_nat_alt)
    with ReadLenEncode_small [OF 1] show ?thesis by (simp add: WriteLenEncode_cases(1) [OF 1])
  next
    case 2
    with ReadLenEncode_u16 [OF 2] show ?thesis
      by (simp add: WriteLenEncode_cases(2) [OF 2] WriteU16_def)
  next
    case 3
    then show ?thesis using ReadLenEncode_u24 [OF 3] by (simp add: not_less [symmetric])
  next
    case 4
    then have "\<not> v < 2 ^ 16" "\<not> v < 2 ^ 24" by (auto simp: word_less_nat_alt word_le_nat_alt)
    with 4 show ?thesis using ReadLenEncode_u64 [OF 4] by simp
  qed
qed

lemma ReadLenEncodeString_mid:
  assumes "length s < 2 ^ 16"
  shows "ReadLenEncodeString nv (p @ WriteLenEncodeString [] s @ q) (length p) =
    Inr (s, length p + length (WriteLenEncodeString [] s))"
proof -
  let ?n = "word_of_nat (length s) :: u64"
  let ?p = "p @ WriteLenEncode [] ?n"
  have n: "unat ?n = length s" using assms by (simp add: unat_of_nat take_bit_nat_eq_self)
  then have "?n < 2 ^ 16" using assms by (simp add: word_less_nat_alt)
  then have "ReadLenEncode nv (p @ WriteLenEncode [] ?n @ (bytes_of s @ q)) (length p) = Inr (?n, length ?p)"
    by (simp add: ReadLenEncode_WriteLenEncode)
  moreover have "sliceR (?p @ bytes_of s @ q) (length ?p) (length s) = Inr (bytes_of s)"
    using sliceR_mid [of ?p "bytes_of s" q] by simp
  ultimately show ?thesis
    by (simp add: ReadLenEncodeString_def ReadString_def WriteLenEncodeString_def WriteString_def n)
qed

section \<open>Codecs\<close>

text \<open>A loop of writes, and a loop of as many reads.\<close>

fun write_all :: "(packet \<Rightarrow> 'v \<Rightarrow> packet) \<Rightarrow> packet \<Rightarrow> 'v list \<Rightarrow> packet" where
  "write_all w p [] = p"
| "write_all w p (v # vs) = write_all w (w p v) vs"

fun read_n :: "(packet \<Rightarrow> nat \<Rightarrow> ('v \<times> nat) res) \<Rightarrow> nat \<Rightarrow> packet \<Rightarrow> nat \<Rightarrow> ('v list \<times> nat) res" where
  "read_n r 0 p i = Inr ([], i)"
| "read_n r (Suc n) p i =
     bindR (r p i) (\<lambda>(v, i). bindR (read_n r n p i) (\<lambda>(vs, i). Inr (v # vs, i)))"

locale codec =
  fixes wr :: "packet \<Rightarrow> 'v \<Rightarrow> packet"
    and rd :: "packet \<Rightarrow> nat \<Rightarrow> ('v \<times> nat) res"
    and valid :: "'v \<Rightarrow> bool"
  assumes write_app: "wr p v = p @ wr [] v"
    and read_write: "valid v \<Longrightarrow> rd (p @ wr [] v @ q) (length p) = Inr (v, length p + length (wr [] v))"
begin

lemma read_written: "valid v \<Longrightarrow> rd (wr p v @ q) (length p) = Inr (v, length (wr p v))"
  using read_write [of v p q] by (subst (1 2) write_app) simp

lemma write_all_app: "write_all wr p vs = p @ write_all wr [] vs"
proof (induction vs arbitrary: p)
  case (Cons v vs)
  have "write_all wr p (v # vs) = wr p v @ write_all wr [] vs"
    using Cons [of "wr p v"] by simp
  also have "\<dots> = p @ wr [] v @ write_all wr [] vs"
    by (subst write_app) simp
  also have "\<dots> = p @ write_all wr [] (v # vs)"
    using Cons [of "wr [] v"] by simp
  finally show ?case .
qed simp

lemma write_all_Cons: "write_all wr [] (v # vs) = wr [] v @ write_all wr [] vs"
  using write_all_app [of "wr [] v" vs] by simp

lemma read_n_write_all:
  assumes "list_all valid vs"
  shows "read_n rd (length vs) (p @ write_all wr [] vs @ q) (length p) =
    Inr (vs, length p + length (write_all wr [] vs))"
  using assms
proof (induction vs arbitrary: p)
  case (Cons v vs)
  have "rd (p @ wr [] v @ (write_all wr [] vs @ q)) (length p) = Inr (v, length p + length (wr [] v))"
    using Cons.prems by (intro read_write) simp
  moreover have "read_n rd (length vs) ((p @ wr [] v) @ write_all wr [] vs @ q) (length (p @ wr [] v)) =
    Inr (vs, length (p @ wr [] v) + length (write_all wr [] vs))"
    using Cons.prems by (intro Cons.IH) simp
  ultimately show ?case by (simp add: write_all_Cons del: write_all.simps(2))
qed simp

end

interpretation u8: codec WriteU8 ReadU8 "\<lambda>_. True"
  using ReadU8_mid by unfold_locales (simp_all add: WriteU8_def)

interpretation u16: codec WriteU16 ReadU16 "\<lambda>_. True"
  using ReadU16_mid by unfold_locales (simp_all add: WriteU16_def)

interpretation u32: codec WriteU32 ReadU32 "\<lambda>_. True"
  using ReadU32_mid by unfold_locales (simp_all add: WriteU32_def)

interpretation lenenc: codec WriteLenEncode "ReadLenEncode nv" "\<lambda>v. v < 2 ^ 16" for nv
  by unfold_locales (rule write_append, simp only: ReadLenEncode_WriteLenEncode if_True)

interpretation lenstr: codec WriteLenEncodeString "ReadLenEncodeString nv" "\<lambda>s. length s < 2 ^ 16" for nv
  by unfold_locales (rule write_append, simp only: ReadLenEncodeString_mid)

section \<open>Properties\<close>

text \<open>C23: What the length-encoded integer survives: below \<open>2^16\<close> it is read back and the
  iterator stops right behind it; from there up to \<open>2^24\<close> only the low 16 bits come back
  (\<open>ReadU24\<close> returns \<open>uint16_t\<close>), and from \<open>2^24\<close> on the reader shifts an \<open>int\<close> by 32
  bits or more.\<close>

theorem length_encoded_integer:
  "ReadLenEncode nv (WriteLenEncode p v @ q) (length p) =
     (if v < 2 ^ 16 then Inr (v, length (WriteLenEncode p v))
      else if v < 2 ^ 24 then Inr (v AND 0xffff, length p + 4)
      else Inl ShiftTooWide)"
  by (subst (1 2) write_append(6)) (simp add: ReadLenEncode_WriteLenEncode del: One_nat_def)

text \<open>A sequence of length-encoded strings, each below 64 KiB, is read back unchanged
  and in order from any position of any packet, and the iterator stops behind the last.\<close>

lemma length_encoded_strings:
  assumes "list_all (\<lambda>s. length s < 2 ^ 16) ss"
  shows "read_n (ReadLenEncodeString nv) (length ss) (p @ write_all WriteLenEncodeString [] ss @ q) (length p) =
    Inr (ss, length p + length (write_all WriteLenEncodeString [] ss))"
  using assms by (rule lenstr.read_n_write_all)

end
