(* ===== verification/Types.thy ===== *)
theory Types
  imports Prelude
begin

text \<open>
  The column types of the protocol (\<open>network/common.h\<close>) and their translation to and from
  MySQL's type and flag numbers (\<open>network/type.h\<close>). The lemmas show that the two tables
  are inverse to each other on every type the server can announce.
\<close>

named_theorems type_codes \<open>the numbers behind the macros of common.h\<close>

section \<open>The type codes\<close>

definition TYPE_NULL_TYPE :: int where [type_codes]: "TYPE_NULL_TYPE = 0"
definition TYPE_INT8 :: int where [type_codes]: "TYPE_INT8 = 257"
definition TYPE_UINT8 :: int where [type_codes]: "TYPE_UINT8 = 770"
definition TYPE_INT16 :: int where [type_codes]: "TYPE_INT16 = 259"
definition TYPE_UINT16 :: int where [type_codes]: "TYPE_UINT16 = 772"
definition TYPE_INT24 :: int where [type_codes]: "TYPE_INT24 = 261"
definition TYPE_UINT24 :: int where [type_codes]: "TYPE_UINT24 = 774"
definition TYPE_INT32 :: int where [type_codes]: "TYPE_INT32 = 263"
definition TYPE_UINT32 :: int where [type_codes]: "TYPE_UINT32 = 776"
definition TYPE_INT64 :: int where [type_codes]: "TYPE_INT64 = 265"
definition TYPE_UINT64 :: int where [type_codes]: "TYPE_UINT64 = 778"
definition TYPE_FLOAT32 :: int where [type_codes]: "TYPE_FLOAT32 = 1035"
definition TYPE_FLOAT64 :: int where [type_codes]: "TYPE_FLOAT64 = 1036"
definition TYPE_TIMESTAMP :: int where [type_codes]: "TYPE_TIMESTAMP = 2061"
definition TYPE_DATE :: int where [type_codes]: "TYPE_DATE = 2062"
definition TYPE_TIME :: int where [type_codes]: "TYPE_TIME = 2063"
definition TYPE_DATETIME :: int where [type_codes]: "TYPE_DATETIME = 2064"
definition TYPE_YEAR :: int where [type_codes]: "TYPE_YEAR = 785"
definition TYPE_DECIMAL :: int where [type_codes]: "TYPE_DECIMAL = 18"
definition TYPE_TEXT :: int where [type_codes]: "TYPE_TEXT = 6163"
definition TYPE_BLOB :: int where [type_codes]: "TYPE_BLOB = 10260"
definition TYPE_VARCHAR :: int where [type_codes]: "TYPE_VARCHAR = 6165"
definition TYPE_VARBINARY :: int where [type_codes]: "TYPE_VARBINARY = 10262"
definition TYPE_CHAR :: int where [type_codes]: "TYPE_CHAR = 6167"
definition TYPE_BINARY :: int where [type_codes]: "TYPE_BINARY = 10264"
definition TYPE_BIT :: int where [type_codes]: "TYPE_BIT = 2073"
definition TYPE_ENUM :: int where [type_codes]: "TYPE_ENUM = 2074"
definition TYPE_SET :: int where [type_codes]: "TYPE_SET = 2075"
definition TYPE_TUPLE :: int where [type_codes]: "TYPE_TUPLE = 28"
definition TYPE_GEOMETRY :: int where [type_codes]: "TYPE_GEOMETRY = 2077"
definition TYPE_JSON :: int where [type_codes]: "TYPE_JSON = 2078"
definition TYPE_EXPRESSION :: int where [type_codes]: "TYPE_EXPRESSION = 31"

definition MYSQL_UNSIGNED :: int where [type_codes]: "MYSQL_UNSIGNED = 32"
definition MYSQL_BINARY :: int where [type_codes]: "MYSQL_BINARY = 128"
definition MYSQL_ENUM :: int where [type_codes]: "MYSQL_ENUM = 256"
definition MYSQL_SET :: int where [type_codes]: "MYSQL_SET = 2048"

section \<open>The tables\<close>

text \<open>
  \<open>std::map::operator[]\<close> on an absent key inserts the value-initialised element and
  returns it. The element inserted is the one returned for an absent key, so no later
  lookup sees a difference and the maps are modelled as constant tables.
\<close>

definition index_map :: "('k \<times> 'v) list \<Rightarrow> 'v \<Rightarrow> 'k \<Rightarrow> 'v" where
  "index_map m zero k = (case map_of m k of Some v \<Rightarrow> v | None \<Rightarrow> zero)"

definition MYSQL_TO_TYPE_MAP :: "(int \<times> int) list" where
  "MYSQL_TO_TYPE_MAP =
    [(1, TYPE_INT8), (2, TYPE_INT16), (3, TYPE_INT32), (4, TYPE_FLOAT32),
     (5, TYPE_FLOAT64), (6, TYPE_NULL_TYPE), (7, TYPE_TIMESTAMP), (8, TYPE_INT64),
     (9, TYPE_INT24), (10, TYPE_DATE), (11, TYPE_TIME), (12, TYPE_DATETIME),
     (13, TYPE_YEAR), (16, TYPE_BIT), (245, TYPE_JSON), (246, TYPE_DECIMAL),
     (249, TYPE_TEXT), (250, TYPE_TEXT), (251, TYPE_TEXT), (252, TYPE_TEXT),
     (253, TYPE_VARCHAR), (254, TYPE_CHAR), (255, TYPE_GEOMETRY)]"

definition TYPE_TO_MYSQL :: "(int \<times> int \<times> int) list" where
  "TYPE_TO_MYSQL =
    [(TYPE_INT8, 1, 0), (TYPE_UINT8, 1, MYSQL_UNSIGNED), (TYPE_INT16, 2, 0),
     (TYPE_UINT16, 2, MYSQL_UNSIGNED), (TYPE_INT32, 3, 0), (TYPE_UINT32, 3, MYSQL_UNSIGNED),
     (TYPE_FLOAT32, 4, 0), (TYPE_FLOAT64, 5, 0), (TYPE_NULL_TYPE, 6, MYSQL_BINARY),
     (TYPE_TIMESTAMP, 7, 0), (TYPE_INT64, 8, 0), (TYPE_UINT64, 8, MYSQL_UNSIGNED),
     (TYPE_INT24, 9, 0), (TYPE_UINT24, 9, MYSQL_UNSIGNED), (TYPE_DATE, 10, MYSQL_BINARY),
     (TYPE_TIME, 11, MYSQL_BINARY), (TYPE_DATETIME, 12, MYSQL_BINARY), (TYPE_YEAR, 13, MYSQL_UNSIGNED),
     (TYPE_BIT, 16, MYSQL_UNSIGNED), (TYPE_JSON, 245, 0), (TYPE_DECIMAL, 246, 0),
     (TYPE_TEXT, 252, 0), (TYPE_BLOB, 252, MYSQL_BINARY), (TYPE_VARCHAR, 253, 0),
     (TYPE_VARBINARY, 253, MYSQL_BINARY), (TYPE_CHAR, 254, 0), (TYPE_BINARY, 254, MYSQL_BINARY),
     (TYPE_ENUM, 254, MYSQL_ENUM), (TYPE_SET, 254, MYSQL_SET), (TYPE_GEOMETRY, 255, 0)]"

definition MySQLToType :: "int \<Rightarrow> int \<Rightarrow> int" where
  "MySQLToType mysqlType flags =
     (let typ = index_map MYSQL_TO_TYPE_MAP 0 mysqlType in
      if typ = TYPE_INT8 then (if flags AND MYSQL_UNSIGNED \<noteq> 0 then TYPE_UINT8 else TYPE_INT8)
      else if typ = TYPE_INT16 then (if flags AND MYSQL_UNSIGNED \<noteq> 0 then TYPE_UINT16 else TYPE_INT16)
      else if typ = TYPE_INT32 then (if flags AND MYSQL_UNSIGNED \<noteq> 0 then TYPE_UINT32 else TYPE_INT32)
      else if typ = TYPE_INT64 then (if flags AND MYSQL_UNSIGNED \<noteq> 0 then TYPE_UINT64 else TYPE_INT64)
      else if typ = TYPE_INT24 then (if flags AND MYSQL_UNSIGNED \<noteq> 0 then TYPE_UINT24 else TYPE_INT24)
      else if typ = TYPE_TEXT then (if flags AND MYSQL_BINARY \<noteq> 0 then TYPE_BLOB else TYPE_TEXT)
      else if typ = TYPE_VARCHAR then (if flags AND MYSQL_BINARY \<noteq> 0 then TYPE_VARBINARY else TYPE_VARCHAR)
      else if typ = TYPE_CHAR then
        (if flags AND MYSQL_BINARY \<noteq> 0 then TYPE_BINARY
         else if flags AND MYSQL_ENUM \<noteq> 0 then TYPE_ENUM
         else if flags AND MYSQL_SET \<noteq> 0 then TYPE_SET
         else TYPE_CHAR)
      else typ)"

section \<open>The tables are inverse\<close>

text \<open>The types that can be announced: the keys of \<open>TYPE_TO_MYSQL\<close>.\<close>

definition announceable :: "int \<Rightarrow> bool" where
  "announceable t \<longleftrightarrow> t \<in> set (map fst TYPE_TO_MYSQL)"

definition type_entry_ok :: "int \<times> int \<times> int \<Rightarrow> bool" where
  "type_entry_ok e = (case e of (t, m, f) \<Rightarrow>
     index_map TYPE_TO_MYSQL (0, 0) t = (m, f) \<and> MySQLToType m f = t
     \<and> 0 \<le> m \<and> m < 256 \<and> 0 \<le> f \<and> f < 65536)"

lemma all_entries_ok: "list_all type_entry_ok TYPE_TO_MYSQL"
  by code_simp

lemma announceable_entry:
  assumes "announceable t"
  obtains m f where "index_map TYPE_TO_MYSQL (0, 0) t = (m, f)" "MySQLToType m f = t"
    "0 \<le> m" "m < 256" "0 \<le> f" "f < 65536"
proof -
  from assms obtain m f where "(t, m, f) \<in> set TYPE_TO_MYSQL" by (auto simp: announceable_def)
  with all_entries_ok have "type_entry_ok (t, m, f)" by (simp add: list_all_iff)
  with that show thesis by (simp add: type_entry_ok_def)
qed

section \<open>Properties\<close>

text \<open>Announcing a type and reading it back is the identity: for every type in the table,
  the MySQL type number and flags that go on the wire translate back to the type, and both
  fit the one and two bytes they are sent in.\<close>

lemma types_survive_the_wire:
  assumes "announceable t"
  shows "MySQLToType (fst (index_map TYPE_TO_MYSQL (0, 0) t)) (snd (index_map TYPE_TO_MYSQL (0, 0) t)) = t
    \<and> fst (index_map TYPE_TO_MYSQL (0, 0) t) \<in> {0..<2 ^ 8}
    \<and> snd (index_map TYPE_TO_MYSQL (0, 0) t) \<in> {0..<2 ^ 16}"
proof -
  obtain m f where "index_map TYPE_TO_MYSQL (0, 0) t = (m, f)" "MySQLToType m f = t"
    "0 \<le> m" "m < 256" "0 \<le> f" "f < 65536"
    using announceable_entry [OF assms] .
  then show ?thesis by simp
qed

theorem types_survive_the_wire_witness:
  "MySQLToType (fst (index_map TYPE_TO_MYSQL (0, 0) TYPE_ENUM))
     (snd (index_map TYPE_TO_MYSQL (0, 0) TYPE_ENUM)) = TYPE_ENUM"
proof -
  have "announceable TYPE_ENUM" by code_simp
  from types_survive_the_wire [OF this] show ?thesis by blast
qed

end
