(* ===== verification/Packets.thy ===== *)
theory Packets
  imports Wire Types Numbers
begin

text \<open>
  The packets of the text protocol: \<open>OkPacket\<close> (\<open>network/ok.cc\<close>), \<open>ErrPacket\<close>
  (\<open>network/err.cc\<close>), \<open>EofPacket\<close> (\<open>network/eof.cc\<close>), \<open>FieldPacket\<close> and \<open>RowPacket\<close>
  (\<open>network/field.cc\<close>). The lemmas are the round trips of the three packets that have both
  directions, and the layout of the two that are only written.
\<close>

section \<open>Reading from a position\<close>

text \<open>\<open>rest_at p i q\<close>: what the packet \<open>p\<close> holds from the iterator \<open>i\<close> on is \<open>q\<close>.\<close>

definition rest_at :: "packet \<Rightarrow> nat \<Rightarrow> packet \<Rightarrow> bool" where
  "rest_at p i q \<longleftrightarrow> i \<le> length p \<and> drop i p = q"

lemma rest_at_start: "rest_at p 0 p"
  by (simp add: rest_at_def)

context codec
begin

lemma bind_read:
  assumes "rest_at p i (emit wr v @ q)" "valid v"
    and "\<And>j. rest_at p j q \<Longrightarrow> f (v, j) = r"
  shows "bindR (rd p i) f = r"
proof -
  let ?pre = "take i p"
  have p: "p = ?pre @ wr [] v @ q" and i: "length ?pre = i"
    using assms(1) by (auto simp: rest_at_def emit_def min_def) (metis append_take_drop_id)
  have "rd (?pre @ wr [] v @ q) (length ?pre) = Inr (v, length ?pre + length (wr [] v))"
    by (rule read_write [OF assms(2)])
  then have "rd p i = Inr (v, i + length (wr [] v))" using p i by simp
  moreover have "rest_at p (i + length (wr [] v)) q"
    using assms(1) unfolding rest_at_def emit_def
    by (metis append_eq_conv_conj drop_drop add.commute length_append length_drop
        le_add1 diff_diff_left le_diff_conv2 add_le_cancel_left)
  ultimately show ?thesis using assms(3) by simp
qed

end

text \<open>One step of an \<open>UnPack\<close>: read the next field, go on at its end.\<close>

lemmas read_step = u8.bind_read u16.bind_read u32.bind_read lenenc.bind_read lenstr.bind_read

section \<open>OK and ERR packets\<close>

definition OK_PACKET :: u8 where "OK_PACKET = 0x00"
definition ERR_PACKET :: u8 where "ERR_PACKET = 0xff"
definition EOF_PACKET :: u8 where "EOF_PACKET = 0xfe"

text \<open>The fields of \<open>OkPacket::Impl\<close> are set from the arguments and read nowhere else.\<close>

definition OkPacket_Pack :: "u64 \<Rightarrow> u64 \<Rightarrow> u16 \<Rightarrow> u16 \<Rightarrow> packet" where
  "OkPacket_Pack affectedRows lastInsertID statusFlags warnings =
     (let out = WriteU8 [] OK_PACKET;
          out = WriteLenEncode out affectedRows;
          out = WriteLenEncode out lastInsertID;
          out = WriteU16 out statusFlags;
          out = WriteU16 out warnings
      in out)"

text \<open>
  For an empty state the source has \<open>impl_->sqlState == "HY000";\<close>, a comparison whose
  result is dropped, so the empty state is written as it is.
\<close>

definition ErrPacket_Pack :: "u16 \<Rightarrow> string \<Rightarrow> string \<Rightarrow> packet" where
  "ErrPacket_Pack errorCode sqlState errorMessage =
     (let out = WriteU8 [] ERR_PACKET;
          out = WriteU16 out errorCode;
          out = WriteU8 out (u8_of_char (CHR ''#''));
          out = WriteString out sqlState;
          out = WriteString out errorMessage
      in out)"

lemma ErrPacket_layout:
  "ErrPacket_Pack c st m =
     [ERR_PACKET, ucast c, ucast (drop_bit 8 c), u8_of_char (CHR ''#'')] @ bytes_of st @ bytes_of m"
  by (simp add: ErrPacket_Pack_def write_defs Let_def)

lemma length_ErrPacket: "length (ErrPacket_Pack c st m) = 4 + length st + length m"
  by (simp add: ErrPacket_layout)

lemma length_WriteLenEncode: "length (WriteLenEncode [] v) \<le> 9" "WriteLenEncode [] v \<noteq> []"
  by (simp_all add: write_defs)

lemma length_OkPacket: "length (OkPacket_Pack a l s w) \<le> 23"
  using length_WriteLenEncode(1) [of a] length_WriteLenEncode(1) [of l]
  by (simp only: OkPacket_Pack_def Let_def write_emit append_Nil)
    (simp add: emit_def WriteU8_def WriteU16_def)

section \<open>EOF packet\<close>

record EofPacket =
  eof_header :: u8
  eof_warnings :: u16
  eof_statusFlags :: u16

definition EofPacket_new :: "u16 \<Rightarrow> u16 \<Rightarrow> EofPacket" where
  "EofPacket_new warnFlag statusFlag =
     \<lparr>eof_header = EOF_PACKET, eof_warnings = warnFlag, eof_statusFlags = statusFlag\<rparr>"

definition EofPacket_Pack :: "EofPacket \<Rightarrow> packet" where
  "EofPacket_Pack e =
     [eof_header e,
      ucast (eof_warnings e), ucast (drop_bit 8 (eof_warnings e)),
      ucast (eof_statusFlags e), ucast (drop_bit 8 (eof_statusFlags e))]"

text \<open>
  The two 16-bit fields are read by the expression that is also the body of \<open>ReadU16\<close>,
  followed by \<open>seek += 2\<close>.
\<close>

definition EofPacket_UnPack :: "packet \<Rightarrow> EofPacket \<Rightarrow> (bool \<times> EofPacket) res" where
  "EofPacket_UnPack packet e =
     bindR (ReadU8 packet 0) (\<lambda>(h, seek).
     bindR (ReadU16 packet seek) (\<lambda>(w, seek).
     bindR (ReadU16 packet seek) (\<lambda>(s, seek).
       Inr (True, e\<lparr>eof_header := h, eof_warnings := w, eof_statusFlags := s\<rparr>))))"

definition EofPacket_GetHeader :: "EofPacket \<Rightarrow> u8" where
  "EofPacket_GetHeader e = eof_header e"
definition EofPacket_GetWarning :: "EofPacket \<Rightarrow> u16" where
  "EofPacket_GetWarning e = eof_warnings e"
definition EofPacket_GetStatusFlags :: "EofPacket \<Rightarrow> u16" where
  "EofPacket_GetStatusFlags e = eof_statusFlags e"

lemma EofPacket_roundtrip: "EofPacket_UnPack (EofPacket_Pack e) e' = Inr (True, e)"
proof -
  let ?p = "emit WriteU8 (eof_header e) @ emit WriteU16 (eof_warnings e) @ emit WriteU16 (eof_statusFlags e) @ []"
  have p: "EofPacket_Pack e = ?p"
    by (simp add: EofPacket_Pack_def emit_def WriteU8_def WriteU16_def)
  have start: "rest_at ?p 0 ?p" by (rule rest_at_start)
  show ?thesis
    unfolding EofPacket_UnPack_def p using start
    by - ((erule read_step, rule TrueI, simp only: prod.case)+, simp)
qed

section \<open>Row packet\<close>

record RowPacket =
  row :: "string list"

definition RowPacket_Pack :: "RowPacket \<Rightarrow> packet" where
  "RowPacket_Pack r = write_all WriteLenEncodeString [] (row r)"

fun row_loop :: "u64 \<Rightarrow> packet \<Rightarrow> nat \<Rightarrow> nat \<Rightarrow> RowPacket \<Rightarrow> RowPacket res" where
  "row_loop nv packet 0 seek r = Inr r"
| "row_loop nv packet (Suc n) seek r =
     bindR (ReadLenEncodeString nv packet seek) (\<lambda>(str, seek).
       row_loop nv packet n seek (r\<lparr>row := row r @ [str]\<rparr>))"

definition RowPacket_UnPack :: "u64 \<Rightarrow> packet \<Rightarrow> nat \<Rightarrow> RowPacket \<Rightarrow> (bool \<times> RowPacket) res" where
  "RowPacket_UnPack nv packet colCount r = bindR (row_loop nv packet colCount 0 r) (\<lambda>r. Inr (True, r))"

definition RowPacket_ToString :: "RowPacket \<Rightarrow> string" where
  "RowPacket_ToString r = fold (\<lambda>str res. (res @ str) @ '' '') (row r) []"

lemma row_loop_read_n:
  "row_loop nv p n i r =
     bindR (read_n (ReadLenEncodeString nv) n p i) (\<lambda>(vs, i). Inr (r\<lparr>row := row r @ vs\<rparr>))"
  by (induction n arbitrary: i r) (auto simp: bindR_def split: sum.splits)

lemma RowPacket_roundtrip:
  assumes "list_all (\<lambda>s. length s < 2 ^ 16) (row r)"
  shows "RowPacket_UnPack nv (RowPacket_Pack r) (length (row r)) r' =
    Inr (True, r'\<lparr>row := row r' @ row r\<rparr>)"
  using lenstr.read_n_write_all [of "row r" nv "[]" "[]"] assms
  by (simp add: RowPacket_UnPack_def RowPacket_Pack_def row_loop_read_n)

section \<open>Field packet\<close>

record FieldPacket =
  fp_name :: string
  fp_type :: u32
  fp_table :: string
  fp_orgTable :: string
  fp_dataBase :: string
  fp_orgName :: string
  fp_columnLength :: u32
  fp_charset :: u32
  fp_decimals :: u32
  fp_flags :: u32

definition FieldPacket_new ::
  "string \<Rightarrow> u32 \<Rightarrow> string \<Rightarrow> string \<Rightarrow> string \<Rightarrow> string \<Rightarrow> u32 \<Rightarrow> u32 \<Rightarrow> u32 \<Rightarrow> u32 \<Rightarrow> FieldPacket" where
  "FieldPacket_new name type table orgTable dataBase orgName columnLength charset decimals flags =
     \<lparr>fp_name = name, fp_type = type, fp_table = table, fp_orgTable = orgTable,
      fp_dataBase = dataBase, fp_orgName = orgName, fp_columnLength = columnLength,
      fp_charset = charset, fp_decimals = decimals, fp_flags = flags\<rparr>"

definition FieldPacket_UnPack :: "u64 \<Rightarrow> packet \<Rightarrow> FieldPacket \<Rightarrow> (bool \<times> FieldPacket) res" where
  "FieldPacket_UnPack nv packet f =
     bindR (ReadLenEncodeString nv packet 0) (\<lambda>(catalog, seek).
     bindR (ReadLenEncodeString nv packet seek) (\<lambda>(dataBase, seek).
     bindR (ReadLenEncodeString nv packet seek) (\<lambda>(table, seek).
     bindR (ReadLenEncodeString nv packet seek) (\<lambda>(orgTable, seek).
     bindR (ReadLenEncodeString nv packet seek) (\<lambda>(name, seek).
     bindR (ReadLenEncodeString nv packet seek) (\<lambda>(orgName, seek).
     bindR (ReadLenEncode nv packet seek) (\<lambda>(skip, seek).
     bindR (ReadU16 packet seek) (\<lambda>(charset, seek).
     bindR (ReadU32 packet seek) (\<lambda>(columnLength, seek).
     bindR (ReadU8 packet seek) (\<lambda>(t, seek).
     bindR (ReadU16 packet seek) (\<lambda>(flags, seek).
     bindR (ReadU8 packet seek) (\<lambda>(decimals, seek).
       Inr (True, f\<lparr>fp_dataBase := dataBase, fp_table := table, fp_orgTable := orgTable,
         fp_name := name, fp_orgName := orgName, fp_charset := ucast charset,
         fp_columnLength := columnLength, fp_flags := ucast flags,
         fp_type := word_of_int (MySQLToType (uint t) (uint (ucast flags :: u32))),
         fp_decimals := ucast decimals\<rparr>)))))))))))))"

definition FieldPacket_Pack :: "FieldPacket \<Rightarrow> packet" where
  "FieldPacket_Pack f =
     (let out = WriteLenEncodeString [] ''def'';
          out = WriteLenEncodeString out (fp_dataBase f);
          out = WriteLenEncodeString out (fp_table f);
          out = WriteLenEncodeString out (fp_orgTable f);
          out = WriteLenEncodeString out (fp_name f);
          out = WriteLenEncodeString out (fp_orgName f);
          out = WriteLenEncode out 0x0c;
          out = WriteU16 out (ucast (fp_charset f));
          out = WriteU32 out (fp_columnLength f);
          out = WriteU8 out (word_of_int (fst (index_map TYPE_TO_MYSQL (0, 0) (sint (fp_type f)))));
          out = WriteU16 out (word_of_int (snd (index_map TYPE_TO_MYSQL (0, 0) (sint (fp_type f)))));
          out = WriteU8 out (ucast (fp_decimals f));
          out = WriteU16 out 0
      in out)"

definition FieldPacket_ToString :: "FieldPacket \<Rightarrow> string" where
  "FieldPacket_ToString f =
     ''name: '' @ fp_name f @ '', type: '' @ to_string (uint (fp_type f)) @
     '', table: '' @ fp_table f @ '', orgTable: '' @ fp_orgTable f @
     '', dataBase: '' @ fp_dataBase f @ '', orgName: '' @ fp_orgName f @
     '', columnLength: '' @ to_string (uint (fp_columnLength f)) @
     '', charset: '' @ to_string (uint (fp_charset f)) @
     '', decimals: '' @ to_string (uint (fp_decimals f)) @
     '', flags: '' @ to_string (uint (fp_flags f))"

text \<open>The fields of a packet as one concatenation, in the order in which they are written.\<close>

lemma FieldPacket_layout:
  "FieldPacket_Pack f =
     emit WriteLenEncodeString ''def'' @ emit WriteLenEncodeString (fp_dataBase f) @
     emit WriteLenEncodeString (fp_table f) @ emit WriteLenEncodeString (fp_orgTable f) @
     emit WriteLenEncodeString (fp_name f) @ emit WriteLenEncodeString (fp_orgName f) @
     emit WriteLenEncode 0x0c @ emit WriteU16 (ucast (fp_charset f)) @
     emit WriteU32 (fp_columnLength f) @
     emit WriteU8 (word_of_int (fst (index_map TYPE_TO_MYSQL (0, 0) (sint (fp_type f))))) @
     emit WriteU16 (word_of_int (snd (index_map TYPE_TO_MYSQL (0, 0) (sint (fp_type f))))) @
     emit WriteU8 (ucast (fp_decimals f)) @ emit WriteU16 0"
  by (simp only: FieldPacket_Pack_def Let_def write_emit append_Nil append_assoc)

definition short :: "string \<Rightarrow> bool" where
  "short s \<longleftrightarrow> length s < 2 ^ 16"

text \<open>
  What survives the wire: strings below 64 KiB, a type the tables know, a character set
  of 16 bits and decimals of 8 bits. The flags are not the packet's own but those of the
  type, and come back as such.
\<close>

definition field_ok :: "FieldPacket \<Rightarrow> bool" where
  "field_ok f \<longleftrightarrow> short (fp_name f) \<and> short (fp_table f) \<and> short (fp_orgTable f)
     \<and> short (fp_dataBase f) \<and> short (fp_orgName f) \<and> announceable (sint (fp_type f))
     \<and> unat (fp_charset f) < 2 ^ 16 \<and> unat (fp_decimals f) < 2 ^ 8"

lemma FieldPacket_roundtrip:
  assumes "field_ok f"
  shows "FieldPacket_UnPack nv (FieldPacket_Pack f) f' =
    Inr (True, f\<lparr>fp_flags := word_of_int (snd (index_map TYPE_TO_MYSQL (0, 0) (sint (fp_type f))))\<rparr>)"
proof -
  obtain m fl where e: "index_map TYPE_TO_MYSQL (0, 0) (sint (fp_type f)) = (m, fl)"
    and t: "MySQLToType m fl = sint (fp_type f)" and r: "0 \<le> m" "m < 256" "0 \<le> fl" "fl < 65536"
    using assms announceable_entry unfolding field_ok_def by metis
  have m: "uint (word_of_int m :: u8) = m" and fl: "uint (ucast (word_of_int fl :: u16) :: u32) = fl"
    using r by (simp_all add: uint_word_of_int unsigned_ucast_eq take_bit_int_eq_self)
  have c: "ucast (ucast (fp_charset f) :: u16) = fp_charset f"
    and d: "ucast (ucast (fp_decimals f) :: u8) = fp_decimals f"
    using assms by (simp_all add: field_ok_def ucast_small)
  have fw: "(ucast (word_of_int fl :: u16) :: u32) = word_of_int fl"
    using fl r by (metis word_of_int_uint)
  have flw: "uint (word_of_int fl :: u32) = fl" using fl fw by simp
  let ?p = "FieldPacket_Pack f"
  have start: "rest_at ?p 0 ?p" by (rule rest_at_start)
  have s: "length (fp_dataBase f) < 2 ^ 16" "length (fp_table f) < 2 ^ 16" "length (fp_orgTable f) < 2 ^ 16"
    "length (fp_name f) < 2 ^ 16" "length (fp_orgName f) < 2 ^ 16" "length ''def'' < 2 ^ 16"
    "(0x0c :: u64) < 2 ^ 16"
    using assms by (simp_all add: field_ok_def short_def)
  show ?thesis
    unfolding FieldPacket_UnPack_def using start [unfolded FieldPacket_layout]
    apply -
    apply (unfold FieldPacket_layout e fst_conv snd_conv)
    apply (erule read_step, (rule s TrueI), simp only: prod.case)+
    apply (rule arg_cong [where f = "\<lambda>r. Inr (True, r)"], rule FieldPacket.equality)
    by (simp_all add: m t c d fw flw)
qed

section \<open>Properties\<close>

text \<open>A column description survives the wire: decoding what \<open>FieldPacket::Pack\<close> wrote
  yields the same names, type, character set, length and decimals, with the flags of the
  type, for every packet with short names and a type in the table.\<close>

lemma field_packet_roundtrip:
  assumes "field_ok f"
  shows "FieldPacket_UnPack nv (FieldPacket_Pack f) f' =
    Inr (True, f\<lparr>fp_flags := word_of_int (snd (index_map TYPE_TO_MYSQL (0, 0) (sint (fp_type f))))\<rparr>)"
  using assms by (rule FieldPacket_roundtrip)

text \<open>A text row survives the wire: as many strings as there are columns are read back,
  appended to whatever the packet object already held.\<close>

lemma row_packet_roundtrip:
  assumes "list_all short (row r)"
  shows "RowPacket_UnPack nv (RowPacket_Pack r) (length (row r)) r' =
    Inr (True, r'\<lparr>row := row r' @ row r\<rparr>)"
  using assms by (intro RowPacket_roundtrip) (simp add: short_def [abs_def])

text \<open>The EOF packet has five bytes and decodes to itself.\<close>

lemma eof_packet_roundtrip:
  "EofPacket_UnPack (EofPacket_Pack e) e' = Inr (True, e) \<and> length (EofPacket_Pack e) = 5"
  by (rule conjI [OF EofPacket_roundtrip]) (simp add: EofPacket_Pack_def)

end
