(* ===== verification/Handshake.thy ===== *)
theory Handshake
  imports Packets
begin

text \<open>
  The connection phase: \<open>GreetingPacket\<close> (\<open>network/greeting.cc\<close>), which the server sends
  first, and \<open>AuthPacket\<close> (\<open>network/auth.cc\<close>), with which the client answers. The random
  bytes of the salt come from \<open>/dev/urandom\<close> and are a parameter. The lemmas: the greeting
  decodes to what was packed, its layout, and what the authentication decoder extracts from
  a protocol 4.1 answer without a password and what it does to one with a password.
\<close>

section \<open>Capability flags\<close>

named_theorems capability \<open>the capability flags of common.h\<close>

definition CLIENT_LONG_PASSWORD :: u32 where [capability]: "CLIENT_LONG_PASSWORD = 1"
definition CLIENT_LONG_FLAG :: u32 where [capability]: "CLIENT_LONG_FLAG = 4"
definition CLIENT_CONNECT_WITH_DB :: u32 where [capability]: "CLIENT_CONNECT_WITH_DB = 8"
definition CLIENT_PROTOCOL_41 :: u32 where [capability]: "CLIENT_PROTOCOL_41 = 512"
definition CLIENT_TRANSACTIONS :: u32 where [capability]: "CLIENT_TRANSACTIONS = 8192"
definition CLIENT_SECURE_CONNECTION :: u32 where [capability]: "CLIENT_SECURE_CONNECTION = 32768"
definition CLIENT_MULTI_STATEMENTS :: u32 where [capability]: "CLIENT_MULTI_STATEMENTS = push_bit 16 1"
definition CLIENT_PLUGIN_AUTH :: u32 where [capability]: "CLIENT_PLUGIN_AUTH = push_bit 19 1"
definition CLIENT_DEPRECATE_EOF :: u32 where [capability]: "CLIENT_DEPRECATE_EOF = push_bit 24 1"

definition DEFAULT_SERVER_CAPABILITY :: u32 where
  "DEFAULT_SERVER_CAPABILITY =
     CLIENT_LONG_PASSWORD OR CLIENT_LONG_FLAG OR CLIENT_CONNECT_WITH_DB OR
     CLIENT_PROTOCOL_41 OR CLIENT_TRANSACTIONS OR CLIENT_MULTI_STATEMENTS OR
     CLIENT_PLUGIN_AUTH OR CLIENT_DEPRECATE_EOF OR CLIENT_SECURE_CONNECTION"

definition CHARACTER_SET_UTF8 :: u32 where "CHARACTER_SET_UTF8 = 33"
definition SERVER_STATUS_AUTOCOMMIT :: u16 where "SERVER_STATUS_AUTOCOMMIT = 0x0002"
definition DEFAULT_AUTH_PLUGIN_NAME :: string where
  "DEFAULT_AUTH_PLUGIN_NAME = ''mysql_native_password''"

section \<open>Zero-terminated strings\<close>

text \<open>
  \<open>std::find(seek, packet.end(), 0x00)\<close> followed by the test for \<open>packet.end()\<close>: \<open>None\<close>
  when there is no zero, else the bytes before it and its position.
\<close>

definition find_zero :: "packet \<Rightarrow> nat \<Rightarrow> (byte list \<times> nat) option res" where
  "find_zero p seek =
     (if length p < seek then Inl OutOfBounds
      else let s = takeWhile (\<lambda>b. b \<noteq> 0) (drop seek p) in
        Inr (if seek + length s = length p then None else Some (s, seek + length s)))"

lemma rest_at_skip:
  assumes "rest_at p i (xs @ q)"
  shows "rest_at p (i + length xs) q"
proof -
  have "length xs \<le> length (drop i p)" using assms by (simp add: rest_at_def)
  with assms show ?thesis unfolding rest_at_def
    by (metis append_eq_conv_conj drop_drop add.commute length_drop le_diff_conv2)
qed

lemma rest_at_Suc: "rest_at p i (b # q) \<Longrightarrow> rest_at p (i + 1) q"
  using rest_at_skip [of p i "[b]" q] by simp

lemma bind_find_zero:
  assumes "rest_at p i (xs @ 0 # q)" "0 \<notin> set xs"
    and "\<And>k. rest_at p (k + 1) q \<Longrightarrow> f (Some (xs, k)) = r"
  shows "bindR (find_zero p i) f = r"
proof -
  have i: "i \<le> length p" and d: "drop i p = xs @ 0 # q" using assms(1) by (auto simp: rest_at_def)
  have "takeWhile (\<lambda>b. b \<noteq> 0) (drop i p) = xs" unfolding d using assms(2)
    by (subst takeWhile_append2) auto
  moreover have len: "length p = i + length xs + Suc (length q)"
    using arg_cong [OF d, of length] i by simp
  ultimately have "find_zero p i = Inr (Some (xs, i + length xs))"
    using i by (simp add: find_zero_def)
  moreover have "rest_at p (i + length xs + 1) q"
    using rest_at_skip [of p i "xs @ [0]" q] assms(1) by simp
  ultimately show ?thesis using assms(3) by simp
qed

lemma bind_deref:
  assumes "rest_at p i (b # q)" "rest_at p (i + 1) q \<Longrightarrow> f b = r"
  shows "bindR (nthR p i) f = r"
proof -
  have "i < length p" "p ! i = b"
    using assms(1) by (auto simp: rest_at_def le_less intro: nth_via_drop)
  then show ?thesis using assms(2) rest_at_Suc [OF assms(1)] by simp
qed

lemma bind_slice:
  assumes "rest_at p i (xs @ q)" "length xs = n" "rest_at p (i + n) q \<Longrightarrow> f xs = r"
  shows "bindR (sliceR p i n) f = r"
proof -
  have i: "i \<le> length p" and d: "drop i p = xs @ q" using assms(1) by (auto simp: rest_at_def)
  have "i + n \<le> length p" using arg_cong [OF d, of length] i assms(2) by simp
  with d assms(2) assms(3) [OF rest_at_skip [OF assms(1), unfolded assms(2)]]
  show ?thesis by (simp add: sliceR_def)
qed

lemma bind_skip:
  assumes "rest_at p i (xs @ q)" "length xs = n" "rest_at p (i + n) q \<Longrightarrow> t = r"
  shows "t = r"
  using assms rest_at_skip by blast

text \<open>The position is determined by what is left.\<close>

lemma rest_at_pos: "rest_at p i q \<Longrightarrow> i = length p - length q"
  by (auto simp: rest_at_def)

lemma rest_at_length: "rest_at p i q \<Longrightarrow> length p = i + length q"
  by (auto simp: rest_at_def)

section \<open>The greeting\<close>

record GreetingPacket =
  gp_protocolVersion :: u8
  gp_charset :: u8
  gp_status :: u16
  gp_capability :: u32
  gp_connectionID :: u32
  gp_serverVersion :: string
  gp_authPluginName :: string
  gp_saltPart1 :: "byte list"
  gp_saltPart2 :: "byte list"
  gp_authPluginDataLength :: u8

text \<open>\<open>rnd k\<close> is the k-th byte read from \<open>/dev/urandom\<close>; the salt keeps it modulo 123.\<close>

definition GreetingPacket_new :: "(nat \<Rightarrow> u8) \<Rightarrow> u32 \<Rightarrow> string \<Rightarrow> GreetingPacket" where
  "GreetingPacket_new rnd connectionID serverVersion =
     \<lparr>gp_protocolVersion = 10,
      gp_charset = ucast CHARACTER_SET_UTF8,
      gp_status = SERVER_STATUS_AUTOCOMMIT,
      gp_capability = DEFAULT_SERVER_CAPABILITY,
      gp_connectionID = connectionID,
      gp_serverVersion = serverVersion,
      gp_authPluginName = [],
      gp_saltPart1 = map (\<lambda>i. rnd i mod 123) [0..<8],
      gp_saltPart2 = map (\<lambda>i. rnd (8 + i) mod 123) [0..<12],
      gp_authPluginDataLength = 0\<rparr>"

definition GreetingPacket_Pack :: "GreetingPacket \<Rightarrow> packet" where
  "GreetingPacket_Pack g =
     (let capLower = (ucast (gp_capability g) :: u16);
          capUpper = (ucast (drop_bit 16 (gp_capability g)) :: u16);
          out = [gp_protocolVersion g];
          out = out @ bytes_of (gp_serverVersion g);
          out = out @ [0x00];
          out = out @ [ucast (gp_connectionID g), ucast (drop_bit 8 (gp_connectionID g)),
                       ucast (drop_bit 16 (gp_connectionID g)), ucast (drop_bit 24 (gp_connectionID g))];
          out = out @ gp_saltPart1 g;
          out = out @ [0x00];
          out = out @ [ucast capLower, ucast (drop_bit 8 capLower)];
          out = out @ [gp_charset g];
          out = out @ [ucast (gp_status g), ucast (drop_bit 8 (gp_status g))];
          out = out @ [ucast capUpper, ucast (drop_bit 8 capUpper)];
          out = out @ [21];
          out = out @ replicate 10 0x00;
          out = out @ gp_saltPart2 g;
          out = out @ [0x00];
          out = out @ bytes_of ''mysql_native_password'';
          out = out @ [0x00]
      in out)"

text \<open>
  The multi-byte fields are read by the same expressions as in \<open>ReadU16\<close> and \<open>ReadU32\<close>.
  On a missing terminator the packet keeps the fields read so far.
\<close>

definition GreetingPacket_UnPack :: "packet \<Rightarrow> GreetingPacket \<Rightarrow> (bool \<times> GreetingPacket) res" where
  "GreetingPacket_UnPack packet g =
     bindR (nthR packet 0) (\<lambda>pv.
     let g = g\<lparr>gp_protocolVersion := pv\<rparr> in
     bindR (find_zero packet 1) (\<lambda>f. case f of
       None \<Rightarrow> Inr (False, g)
     | Some (sv, seek) \<Rightarrow>
         let g = g\<lparr>gp_serverVersion := string_of sv\<rparr>; seek = seek + 1 in
         bindR (ReadU32 packet seek) (\<lambda>(cid, seek).
         bindR (sliceR packet seek 8) (\<lambda>s1.
         let seek = seek + 8 + 1 in
         bindR (ReadU16 packet seek) (\<lambda>(capLower, seek).
         bindR (ReadU8 packet seek) (\<lambda>(cs, seek).
         bindR (ReadU16 packet seek) (\<lambda>(st, seek).
         bindR (ReadU16 packet seek) (\<lambda>(capUpper, seek).
         bindR (ReadU8 packet seek) (\<lambda>(dl, seek).
         let seek = seek + 10 in
         bindR (sliceR packet seek 12) (\<lambda>s2.
         let seek = seek + 12 + 1;
             g = g\<lparr>gp_connectionID := cid, gp_saltPart1 := s1, gp_charset := cs,
                   gp_status := st,
                   gp_capability := push_bit 16 (ucast capUpper) OR ucast capLower,
                   gp_authPluginDataLength := dl, gp_saltPart2 := s2\<rparr> in
         bindR (find_zero packet seek) (\<lambda>f. case f of
           None \<Rightarrow> Inr (False, g)
         | Some (pn, seek) \<Rightarrow> Inr (True, g\<lparr>gp_authPluginName := string_of pn\<rparr>))))))))))))"

definition GetServerVersion :: "GreetingPacket \<Rightarrow> string" where
  "GetServerVersion g = gp_serverVersion g"
definition GetConnectionID :: "GreetingPacket \<Rightarrow> u32" where
  "GetConnectionID g = gp_connectionID g"
definition GetAuthPluginName :: "GreetingPacket \<Rightarrow> string" where
  "GetAuthPluginName g = gp_authPluginName g"
definition GetServerStatus :: "GreetingPacket \<Rightarrow> u16" where
  "GetServerStatus g = gp_status g"

text \<open>What a packet must satisfy to survive: no zero in the version, salts of 8 and 12 bytes.\<close>

definition greeting_ok :: "GreetingPacket \<Rightarrow> bool" where
  "greeting_ok g \<longleftrightarrow> CHR 0x00 \<notin> set (gp_serverVersion g)
     \<and> length (gp_saltPart1 g) = 8 \<and> length (gp_saltPart2 g) = 12"

lemma GreetingPacket_layout:
  "GreetingPacket_Pack g =
     gp_protocolVersion g # bytes_of (gp_serverVersion g) @ 0 # emit WriteU32 (gp_connectionID g) @
     gp_saltPart1 g @ 0 # emit WriteU16 (ucast (gp_capability g)) @ emit WriteU8 (gp_charset g) @
     emit WriteU16 (gp_status g) @ emit WriteU16 (ucast (drop_bit 16 (gp_capability g))) @
     emit WriteU8 21 @ replicate 10 0 @ gp_saltPart2 g @ 0 #
     bytes_of DEFAULT_AUTH_PLUGIN_NAME @ 0 # []"
  by (simp add: GreetingPacket_Pack_def emit_def write_defs DEFAULT_AUTH_PLUGIN_NAME_def Let_def
      del: bytes_of_Cons)

lemma halves32: "push_bit 16 (ucast (ucast (drop_bit 16 v) :: u16)) OR ucast (ucast v :: u16) = v" for v :: u32
proof (rule bit_word_eqI)
  fix n
  assume "n < LENGTH(32)"
  moreover consider "n < 16" | "16 \<le> n" by linarith
  then show "bit (push_bit 16 (ucast (ucast (drop_bit 16 v) :: u16)) OR (ucast (ucast v :: u16) :: u32)) n = bit v n"
    using calculation by cases (auto simp: byte_bits)
qed

lemma u8_of_char_0 [simp]: "u8_of_char c = 0 \<longleftrightarrow> c = CHR 0x00"
proof -
  have "u8_of_char (CHR 0x00) = 0" by (simp add: u8_of_char_def)
  then show ?thesis by (metis u8_of_char_inject)
qed

lemma zero_in_bytes_of: "0 \<in> set (bytes_of s) \<longleftrightarrow> CHR 0x00 \<in> set s"
  by (induction s) (auto simp: eq_commute [of 0])

lemma GreetingPacket_roundtrip:
  assumes "greeting_ok g"
  shows "GreetingPacket_UnPack (GreetingPacket_Pack g) g' =
    Inr (True, g\<lparr>gp_authPluginName := DEFAULT_AUTH_PLUGIN_NAME, gp_authPluginDataLength := 21\<rparr>)"
proof -
  define p where "p = GreetingPacket_Pack g"
  have z: "0 \<notin> set (bytes_of (gp_serverVersion g))" "0 \<notin> set (bytes_of DEFAULT_AUTH_PLUGIN_NAME)"
    using assms by (simp_all add: greeting_ok_def zero_in_bytes_of DEFAULT_AUTH_PLUGIN_NAME_def)
  have l: "length (gp_saltPart1 g) = 8" "length (gp_saltPart2 g) = 12" "length (replicate 10 (0::byte)) = 10"
    using assms by (simp_all add: greeting_ok_def)
  have start: "rest_at p 0 (GreetingPacket_Pack g)" unfolding p_def by (rule rest_at_start)
  show ?thesis
    unfolding GreetingPacket_UnPack_def Let_def p_def [symmetric]
    using start [unfolded GreetingPacket_layout]
    apply -
    apply (erule bind_deref, simp only: add_0)
    apply (erule bind_find_zero, rule z, simp only: option.case prod.case)
    apply (erule read_step, rule TrueI, simp only: prod.case)
    apply (erule bind_slice, rule l, drule rest_at_Suc)
    apply ((erule read_step, rule TrueI, simp only: prod.case)+)
    apply (erule bind_skip, rule l)
    apply (erule bind_slice, rule l, drule rest_at_Suc)
    apply (erule bind_find_zero, rule z, simp only: option.case prod.case)
    apply (rule arg_cong [where f = "\<lambda>r. Inr (True, r)"], rule GreetingPacket.equality)
    by (simp_all add: halves32)
qed

section \<open>The authentication answer\<close>

record AuthPacket =
  ap_charset :: u8
  ap_maxPacketSize :: u32
  ap_authResponseLen :: u8
  ap_clientFlags :: u32
  ap_authResponse :: "byte list"
  ap_pluginName :: string
  ap_database :: string
  ap_user :: string

text \<open>\<open>new Impl()\<close>: every field zero or empty.\<close>

definition AuthPacket_new :: AuthPacket where
  "AuthPacket_new = \<lparr>ap_charset = 0, ap_maxPacketSize = 0, ap_authResponseLen = 0, ap_clientFlags = 0,
     ap_authResponse = [], ap_pluginName = [], ap_database = [], ap_user = []\<rparr>"

fun response_loop :: "packet \<Rightarrow> nat \<Rightarrow> nat \<Rightarrow> AuthPacket \<Rightarrow> (AuthPacket \<times> nat) res" where
  "response_loop packet 0 seek a = Inr (a, seek)"
| "response_loop packet (Suc n) seek a =
     bindR (nthR packet seek) (\<lambda>b.
       response_loop packet n (seek + 1) (a\<lparr>ap_authResponse := ap_authResponse a @ [b]\<rparr>))"

text \<open>
  The client's response to the challenge. The loop has already moved \<open>seek\<close> over the
  response when \<open>seek += impl_->authResponseLen\<close> moves it once more.
\<close>

definition auth_response :: "packet \<Rightarrow> nat \<Rightarrow> AuthPacket \<Rightarrow> (AuthPacket \<times> nat) res" where
  "auth_response packet seek a =
     (if ap_clientFlags a AND CLIENT_SECURE_CONNECTION > 0 then
        bindR (nthR packet seek) (\<lambda>len.
        let a = a\<lparr>ap_authResponseLen := len\<rparr>; seek = seek + 1 in
        if len > 0 then
          bindR (response_loop packet (unat len) seek a) (\<lambda>(a, seek). Inr (a, seek + unat len))
        else Inr (a, seek))
      else
        bindR (sliceR packet seek 20) (\<lambda>r. Inr (a\<lparr>ap_authResponse := r\<rparr>, seek + 20 + 1)))"

text \<open>
  The database and the plugin name, each only if its flag is set. The last component of the
  result is the value returned: \<open>None\<close> where the function runs off its end, which it does
  exactly when the plugin is the default one (there is no \<open>return true\<close>).
\<close>

definition auth_names :: "packet \<Rightarrow> nat \<Rightarrow> AuthPacket \<Rightarrow> (bool option \<times> AuthPacket) res" where
  "auth_names packet seek a =
     bindR (if ap_clientFlags a AND CLIENT_CONNECT_WITH_DB > 0 then
              bindR (find_zero packet seek) (\<lambda>f. Inr (map_option (\<lambda>(d, seek).
                (a\<lparr>ap_database := string_of d\<rparr>, seek + 1)) f))
            else Inr (Some (a, seek))) (\<lambda>r. case r of
       None \<Rightarrow> Inr (Some False, a)
     | Some (a, seek) \<Rightarrow>
         bindR (if ap_clientFlags a AND CLIENT_PLUGIN_AUTH > 0 then
                  bindR (find_zero packet seek) (\<lambda>f. Inr (map_option (\<lambda>(n, seek).
                    a\<lparr>ap_pluginName := string_of n\<rparr>) f))
                else Inr (Some a)) (\<lambda>r. case r of
           None \<Rightarrow> Inr (Some False, a)
         | Some a \<Rightarrow>
             if ap_pluginName a \<noteq> DEFAULT_AUTH_PLUGIN_NAME then Inr (Some False, a)
             else Inr (None, a)))"

definition AuthPacket_UnPack :: "packet \<Rightarrow> AuthPacket \<Rightarrow> (bool option \<times> AuthPacket) res" where
  "AuthPacket_UnPack packet a =
     bindR (ReadU32 packet 0) (\<lambda>(flags, seek).
     let a = a\<lparr>ap_clientFlags := flags\<rparr> in
     if flags AND CLIENT_PROTOCOL_41 = 0 then Inr (Some False, a)
     else
       bindR (ReadU32 packet seek) (\<lambda>(size, seek).
       bindR (ReadU8 packet seek) (\<lambda>(cs, seek).
       let a = a\<lparr>ap_maxPacketSize := size, ap_charset := cs\<rparr>; seek = seek + 23 in
       bindR (find_zero packet seek) (\<lambda>f. case f of
         None \<Rightarrow> Inr (Some False, a)
       | Some (u, seek) \<Rightarrow>
           bindR (auth_response packet (seek + 1) (a\<lparr>ap_user := string_of u\<rparr>)) (\<lambda>(a, seek).
             auth_names packet seek a)))))"

definition GetDatabaseName :: "AuthPacket \<Rightarrow> string" where
  "GetDatabaseName a = ap_database a"
definition GetPluginName :: "AuthPacket \<Rightarrow> string" where
  "GetPluginName a = ap_pluginName a"
definition GetUserName :: "AuthPacket \<Rightarrow> string" where
  "GetUserName a = ap_user a"

text \<open>
  The handshake response a protocol 4.1 client sends (the comment above
  \<open>AuthPacket::UnPack\<close> shows one): flags, packet size, character set, 23 reserved bytes,
  the user name, the length-prefixed response, the database and the plugin name.
\<close>

record login =
  l_flags :: u32
  l_size :: u32
  l_charset :: u8
  l_user :: string
  l_response :: "byte list"
  l_database :: string
  l_plugin :: string

definition login_names :: "login \<Rightarrow> packet" where
  "login_names l = bytes_of (l_database l) @ 0 # bytes_of (l_plugin l) @ 0 # []"

definition login_packet :: "login \<Rightarrow> packet" where
  "login_packet l =
     emit WriteU32 (l_flags l) @ emit WriteU32 (l_size l) @ emit WriteU8 (l_charset l) @
     replicate 23 0 @ bytes_of (l_user l) @ 0 #
     word_of_nat (length (l_response l)) # l_response l @ login_names l"

definition login_ok :: "login \<Rightarrow> bool" where
  "login_ok l \<longleftrightarrow>
     l_flags l AND CLIENT_PROTOCOL_41 \<noteq> 0 \<and> l_flags l AND CLIENT_SECURE_CONNECTION > 0 \<and>
     l_flags l AND CLIENT_CONNECT_WITH_DB > 0 \<and> l_flags l AND CLIENT_PLUGIN_AUTH > 0 \<and>
     CHR 0x00 \<notin> set (l_user l) \<and> CHR 0x00 \<notin> set (l_database l) \<and> CHR 0x00 \<notin> set (l_plugin l) \<and>
     length (l_response l) < 256"

lemma response_loop_eq:
  "rest_at p i (xs @ q) \<Longrightarrow>
   response_loop p (length xs) i a = Inr (a\<lparr>ap_authResponse := ap_authResponse a @ xs\<rparr>, i + length xs)"
proof (induction xs arbitrary: i a)
  case (Cons x xs)
  have r: "rest_at p i (x # (xs @ q))" using Cons.prems by simp
  have "response_loop p (length xs) (i + 1) (a\<lparr>ap_authResponse := ap_authResponse a @ [x]\<rparr>) =
    Inr (a\<lparr>ap_authResponse := ap_authResponse a @ x # xs\<rparr>, i + length (x # xs))"
    using Cons.IH [OF rest_at_Suc [OF r]] by simp
  then show ?case by (simp add: bind_deref [OF r])
qed simp

text \<open>
  Up to the response the decoder follows the layout; then it is the length of the response
  too far.
\<close>

lemma UnPack_login:
  assumes "login_ok l"
  defines "n \<equiv> length (l_response l)"
  shows "\<exists>k. rest_at (login_packet l) k (login_names l) \<and>
    AuthPacket_UnPack (login_packet l) AuthPacket_new =
      auth_names (login_packet l) (k + n)
        \<lparr>ap_charset = l_charset l, ap_maxPacketSize = l_size l, ap_authResponseLen = word_of_nat n,
         ap_clientFlags = l_flags l, ap_authResponse = l_response l, ap_pluginName = [],
         ap_database = [], ap_user = l_user l\<rparr>"
proof -
  define p where "p = login_packet l"
  note ok = assms(1) [unfolded login_ok_def]
  have len: "unat (word_of_nat n :: u8) = n" using ok by (simp add: n_def unat_of_nat take_bit_nat_eq_self)
  have z: "0 \<notin> set (bytes_of (l_user l))" using ok by (simp add: zero_in_bytes_of)
  have r: "length (replicate 23 (0::byte)) = 23" by simp
  define q where "q = word_of_nat n # l_response l @ login_names l"
  define a where "a = AuthPacket_new\<lparr>ap_clientFlags := l_flags l, ap_maxPacketSize := l_size l,
    ap_charset := l_charset l, ap_user := l_user l\<rparr>"
  have start: "rest_at p 0 (login_packet l)" unfolding p_def by (rule rest_at_start)
  have head: "AuthPacket_UnPack p AuthPacket_new =
      bindR (auth_response p (length p - length q) a) (\<lambda>(a, seek). auth_names p seek a) \<and>
      rest_at p (length p - length q) q"
    unfolding AuthPacket_UnPack_def Let_def using start [unfolded login_packet_def]
    apply -
    apply (rule conjI)
     apply (erule read_step, rule TrueI, simp only: prod.case ok if_False)
     apply (erule read_step, rule TrueI, simp only: prod.case)
     apply (erule read_step, rule TrueI, simp only: prod.case)
     apply (erule bind_skip, rule r)
     apply (erule bind_find_zero, rule z, simp only: option.case prod.case)
     apply (drule rest_at_pos, simp add: a_def q_def n_def)
    by (auto simp: rest_at_def q_def n_def p_def login_packet_def)
  have f: "ap_clientFlags a AND CLIENT_SECURE_CONNECTION > 0" using ok by (simp add: a_def)
  have resp: "auth_response p (length p - length q) a =
      Inr (a\<lparr>ap_authResponseLen := word_of_nat n, ap_authResponse := l_response l\<rparr>,
           length p - length (login_names l) + n)"
  proof -
    have at: "rest_at p (length p - length q) (word_of_nat n # l_response l @ login_names l)"
      using head by (simp add: q_def)
    have at': "rest_at p (length p - length q + 1) (l_response l @ login_names l)"
      by (rule rest_at_Suc [OF at])
    have pos: "length p - length q + 1 + n = length p - length (login_names l)"
      using rest_at_pos [OF rest_at_skip [OF at']] by (simp add: n_def)
    have pos0: "length p - length q + 1 = length p - length (login_names l)" if "n = 0"
      using pos that by simp
    show ?thesis
      unfolding auth_response_def Let_def using f
      apply (simp only: if_True)
      apply (rule bind_deref [OF at])
      using response_loop_eq [OF at', of "a\<lparr>ap_authResponseLen := word_of_nat n\<rparr>"] pos len
      by (cases "n = 0") (auto simp: n_def a_def AuthPacket_new_def word_gt_0 pos0)
  qed
  have "rest_at p (length p - length (login_names l)) (login_names l)"
    using rest_at_skip [of p "length p - length q + 1" "l_response l" "login_names l"]
      rest_at_Suc [of p "length p - length q"] head rest_at_pos
    unfolding q_def by metis
  moreover have "AuthPacket_UnPack p AuthPacket_new = auth_names p (length p - length (login_names l) + n)
     (a\<lparr>ap_authResponseLen := word_of_nat n, ap_authResponse := l_response l\<rparr>)"
    using head resp by simp
  ultimately show ?thesis unfolding p_def a_def AuthPacket_new_def by auto
qed

lemma auth_names_login:
  assumes "login_ok l" "rest_at p k (login_names l)" "ap_clientFlags a = l_flags l"
  shows "auth_names p k a =
    (let a = a\<lparr>ap_database := l_database l, ap_pluginName := l_plugin l\<rparr> in
     Inr (if l_plugin l = DEFAULT_AUTH_PLUGIN_NAME then None else Some False, a))"
proof -
  note ok = assms(1) [unfolded login_ok_def] and at = assms(2) [unfolded login_names_def]
  have z: "0 \<notin> set (bytes_of (l_database l))" "0 \<notin> set (bytes_of (l_plugin l))"
    using ok by (simp_all add: zero_in_bytes_of)
  have f: "ap_clientFlags a AND CLIENT_CONNECT_WITH_DB > 0" "l_flags l AND CLIENT_PLUGIN_AUTH > 0"
    using ok assms(3) by simp_all
  have f2: "ap_clientFlags (a\<lparr>ap_database := d\<rparr>) AND CLIENT_PLUGIN_AUTH > 0" for d
    using f(2) assms(3) by simp
  show ?thesis
    unfolding auth_names_def using at
    apply -
    apply (simp only: f if_True bindR_assoc)
    apply (erule bind_find_zero, rule z)
    apply (simp only: option.map prod.case bindR_simps option.case)
    apply (simp only: f2 if_True bindR_assoc)
    apply (erule bind_find_zero, rule z)
    by (simp add: Let_def)
qed

section \<open>Properties\<close>

text \<open>C25: The greeting the server sends decodes, with the decoder of the same class, to the
  packet that was encoded, with the plugin name and the data length that \<open>Pack\<close> writes as
  constants; for every greeting whose version has no zero byte and whose salts have the
  lengths the constructor gives them.\<close>

theorem greeting_roundtrip:
  assumes "greeting_ok g"
  shows "GreetingPacket_UnPack (GreetingPacket_Pack g) g' =
    Inr (True, g\<lparr>gp_authPluginName := DEFAULT_AUTH_PLUGIN_NAME, gp_authPluginDataLength := 21\<rparr>)"
  by (rule GreetingPacket_roundtrip [OF assms])

theorem greeting_roundtrip_witness:
  "greeting_ok (GreetingPacket_new (\<lambda>_. 200) 1 ''UHP-SQL-v0.1'') \<and>
   GreetingPacket_UnPack (GreetingPacket_Pack (GreetingPacket_new (\<lambda>_. 200) 1 ''UHP-SQL-v0.1''))
       (GreetingPacket_new (\<lambda>_. 0) 0 []) =
     Inr (True, (GreetingPacket_new (\<lambda>_. 200) 1 ''UHP-SQL-v0.1'')
       \<lparr>gp_authPluginName := DEFAULT_AUTH_PLUGIN_NAME, gp_authPluginDataLength := 21\<rparr>)"
proof -
  have "greeting_ok (GreetingPacket_new (\<lambda>_. 200) 1 ''UHP-SQL-v0.1'')"
    by (simp add: greeting_ok_def GreetingPacket_new_def)
  then show ?thesis using greeting_roundtrip by blast
qed

text \<open>Decoding the answer of a protocol 4.1 client that sends no password yields exactly
  the flags, sizes and names it sent; the decoder then answers \<open>false\<close> for a foreign plugin
  and runs off its end without a value for the default one.\<close>

lemma auth_without_password:
  assumes "login_ok l" "l_response l = []"
  shows "AuthPacket_UnPack (login_packet l) AuthPacket_new =
    Inr (if l_plugin l = DEFAULT_AUTH_PLUGIN_NAME then None else Some False,
         \<lparr>ap_charset = l_charset l, ap_maxPacketSize = l_size l, ap_authResponseLen = 0,
          ap_clientFlags = l_flags l, ap_authResponse = [], ap_pluginName = l_plugin l,
          ap_database = l_database l, ap_user = l_user l\<rparr>)"
  using UnPack_login [OF assms(1)] auth_names_login [OF assms(1)] assms(2) by force

definition sample_login :: login where
  "sample_login = \<lparr>l_flags = 0x0FA68D, l_size = 1, l_charset = 33, l_user = ''mock'', l_response = [],
     l_database = ''test'', l_plugin = ''mysql_native_password''\<rparr>"

lemma sample_login_ok: "login_ok sample_login" "login_ok (sample_login\<lparr>l_response := replicate 40 7\<rparr>)"
  by (simp_all add: login_ok_def sample_login_def capability)

text \<open>C26: An answer with a password is misread: the decoder moves over the response twice, so
  a response longer than the names that follow it takes the search for the database name
  outside the packet.\<close>

theorem auth_response_skipped_twice:
  assumes "login_ok l" "length (login_names l) < length (l_response l)"
  shows "AuthPacket_UnPack (login_packet l) AuthPacket_new = Inl OutOfBounds"
proof -
  let ?p = "login_packet l"
  obtain k where at: "rest_at ?p k (login_names l)"
    and eq: "AuthPacket_UnPack ?p AuthPacket_new = auth_names ?p (k + length (l_response l))
      \<lparr>ap_charset = l_charset l, ap_maxPacketSize = l_size l,
       ap_authResponseLen = word_of_nat (length (l_response l)), ap_clientFlags = l_flags l,
       ap_authResponse = l_response l, ap_pluginName = [], ap_database = [], ap_user = l_user l\<rparr>"
    using UnPack_login [OF assms(1)] by blast
  have "length ?p = k + length (login_names l)" using at by (rule rest_at_length)
  then have "length ?p < k + length (l_response l)" using assms(2) by simp
  moreover have "l_flags l AND CLIENT_CONNECT_WITH_DB > 0" using assms(1) by (simp add: login_ok_def)
  ultimately show ?thesis unfolding eq by (simp add: auth_names_def find_zero_def)
qed

theorem auth_response_skipped_twice_witness:
  "AuthPacket_UnPack (login_packet (sample_login\<lparr>l_response := replicate 40 7\<rparr>)) AuthPacket_new =
     Inl OutOfBounds"
  by (rule auth_response_skipped_twice [OF sample_login_ok(2)]) (simp add: sample_login_def login_names_def)

end
