(* ===== verification/ByteQueue.thy ===== *)
theory ByteQueue
  imports Prelude
begin

text \<open>
  The contract of a byte queue: \<open>push\<close> appends, \<open>pop\<close> takes from the front, and both keep
  the invariant, while there is room. \<open>UnboundedBuffer\<close> and \<open>CircularBuffer\<close>
  provide it; the socket layer and the replies of the server rely on it. The
  locale proves once that any sequence of operations delivers the bytes in order, none
  lost and none twice.
\<close>

datatype queue_op = Push "byte list" | Pop nat

text \<open>A run of operations, collecting what the pops return.\<close>

fun run_ops ::
  "('b \<Rightarrow> byte list \<Rightarrow> 'b res) \<Rightarrow> ('b \<Rightarrow> nat \<Rightarrow> (byte list \<times> 'b) res) \<Rightarrow>
   queue_op list \<Rightarrow> 'b \<Rightarrow> (byte list list \<times> 'b) res" where
  "run_ops push pop [] b = Inr ([], b)"
| "run_ops push pop (Push xs # ops) b = bindR (push b xs) (run_ops push pop ops)"
| "run_ops push pop (Pop n # ops) b =
     bindR (pop b n) (\<lambda>(xs, b). bindR (run_ops push pop ops b) (\<lambda>(xss, b). Inr (xs # xss, b)))"

text \<open>The bytes pushed, and the same run on the abstract queue, a list.\<close>

fun pushed :: "queue_op list \<Rightarrow> byte list" where
  "pushed [] = []"
| "pushed (Push xs # ops) = xs @ pushed ops"
| "pushed (Pop n # ops) = pushed ops"

fun spec_run :: "queue_op list \<Rightarrow> byte list \<Rightarrow> byte list list \<times> byte list" where
  "spec_run [] c = ([], c)"
| "spec_run (Push xs # ops) c = spec_run ops (c @ xs)"
| "spec_run (Pop n # ops) c = (let (xss, c') = spec_run ops (drop n c) in (take n c # xss, c'))"

lemma spec_run_fifo: "concat (fst (spec_run ops c)) @ snd (spec_run ops c) = c @ pushed ops"
proof (induction ops c rule: spec_run.induct)
  case (3 n ops c)
  then show ?case by (simp add: split_beta Let_def)
qed auto

locale byte_queue =
  fixes push :: "'b \<Rightarrow> byte list \<Rightarrow> 'b res"
    and pop :: "'b \<Rightarrow> nat \<Rightarrow> (byte list \<times> 'b) res"
    and content :: "'b \<Rightarrow> byte list"
    and inv :: "'b \<Rightarrow> bool"
    and capacity :: "'b \<Rightarrow> nat"
  assumes push_spec: "\<lbrakk>inv b; length (content b) + length xs \<le> capacity b\<rbrakk> \<Longrightarrow>
      \<exists>b'. push b xs = Inr b' \<and> inv b' \<and> content b' = content b @ xs \<and> capacity b' = capacity b"
    and pop_spec: "\<lbrakk>inv b; n \<le> length (content b)\<rbrakk> \<Longrightarrow>
      \<exists>b'. pop b n = Inr (take n (content b), b') \<and> inv b' \<and> content b' = drop n (content b)
        \<and> capacity b' = capacity b"
begin

text \<open>The operations a client may ask for: room for each push, enough bytes for each pop.\<close>

fun allowed :: "nat \<Rightarrow> nat \<Rightarrow> queue_op list \<Rightarrow> bool" where
  "allowed cap k [] = True"
| "allowed cap k (Push xs # ops) = (k + length xs \<le> cap \<and> allowed cap (k + length xs) ops)"
| "allowed cap k (Pop n # ops) = (n \<le> k \<and> allowed cap (k - n) ops)"

lemma run_refines:
  assumes "inv b" "allowed (capacity b) (length (content b)) ops"
  shows "\<exists>b'. run_ops push pop ops b = Inr (fst (spec_run ops (content b)), b') \<and> inv b'
    \<and> content b' = snd (spec_run ops (content b))"
  using assms
proof (induction ops arbitrary: b)
  case Nil
  then show ?case by simp
next
  case (Cons op ops)
  show ?case
  proof (cases op)
    case (Push xs)
    then obtain b' where b': "push b xs = Inr b'" "inv b'" "content b' = content b @ xs"
      "capacity b' = capacity b"
      using push_spec [of b xs] Cons.prems by auto
    moreover have "allowed (capacity b') (length (content b')) ops"
      using Cons.prems(2) Push b' by simp
    ultimately show ?thesis using Cons.IH [of b'] Push by simp
  next
    case (Pop n)
    then obtain b' where b': "pop b n = Inr (take n (content b), b')" "inv b'"
      "content b' = drop n (content b)" "capacity b' = capacity b"
      using pop_spec [of b n] Cons.prems by auto
    moreover have "allowed (capacity b') (length (content b')) ops"
      using Cons.prems(2) Pop b' by simp
    ultimately show ?thesis using Cons.IH [of b'] Pop by (auto simp: split_beta Let_def)
  qed
qed

lemma fifo:
  assumes "inv b" "allowed (capacity b) (length (content b)) ops"
  shows "\<exists>xss b'. run_ops push pop ops b = Inr (xss, b') \<and> inv b'
    \<and> concat xss @ content b' = content b @ pushed ops"
  using run_refines [OF assms] spec_run_fifo by fastforce

end

end
