(* ===== verification/Circular.thy ===== *)
theory Circular
  imports ByteQueue
begin

text \<open>
  \<open>network/buffer.h\<close>: the ring buffer into which sockets receive and from which they send.
  One position is always left free, the capacity is a power of two, and positions are
  wrapped by \<open>& (maxSize_ - 1)\<close>. The bytes between the two positions are the content; the
  lemmas show each operation's effect on it, and the ring is interpreted as a byte queue. An
  \<open>iovec\<close> into the ring is a pair of its start index and length. The atomics are read and
  written once per operation here; \<open>Async\<close> says what two threads may interleave.
\<close>

section \<open>Rounding up to a power of two\<close>

text \<open>\<open>roundSize <<= 1\<close> on 64 bits: above \<open>2^63\<close> the variable becomes 0 and the loop never ends.\<close>

partial_function (option) round_loop :: "nat \<Rightarrow> nat \<Rightarrow> nat option" where
  "round_loop sz roundSize =
     (if roundSize < sz then round_loop sz (2 * roundSize mod 2 ^ 64) else Some roundSize)"

definition RoundUp2Power :: "nat \<Rightarrow> nat option" where
  "RoundUp2Power sz = (if sz = 0 then Some 0 else round_loop sz 1)"

lemma round_loop_eq:
  assumes "i \<le> 63" "sz \<le> 2 ^ 63"
  shows "\<exists>k. i \<le> k \<and> k \<le> 63 \<and> round_loop sz (2 ^ i) = Some (2 ^ k) \<and> sz \<le> 2 ^ k
    \<and> (2 ^ i < sz \<longrightarrow> 2 ^ k < 2 * sz)"
  using assms(1)
proof (induction "63 - i" arbitrary: i)
  case 0
  then have "i = 63" by simp
  with assms(2) show ?case by (intro exI [of _ 63]) (simp add: round_loop.simps)
next
  case (Suc n)
  show ?case
  proof (cases "2 ^ i < sz")
    case True
    then have "(2::nat) ^ i < 2 ^ 63" using assms(2) by linarith
    then have i: "i < 63" by (metis power_less_imp_less_exp one_less_numeral_iff semiring_norm(76))
    then have n: "n = 63 - Suc i" using Suc.hyps(2) by simp
    have "(2::nat) ^ Suc i < 2 ^ 64" using i by (intro power_strict_increasing) auto
    then have "round_loop sz (2 ^ i) = round_loop sz (2 ^ Suc i)"
      using True by (subst round_loop.simps) simp
    moreover obtain k where "Suc i \<le> k" "k \<le> 63" "round_loop sz (2 ^ Suc i) = Some (2 ^ k)"
      "sz \<le> 2 ^ k" "2 ^ Suc i < sz \<longrightarrow> 2 ^ k < 2 * sz"
      using Suc.hyps(1) [OF n] i by auto
    moreover have "2 ^ k < 2 * sz"
    proof (cases "2 ^ Suc i < sz")
      case False
      then have "round_loop sz (2 ^ Suc i) = Some (2 ^ Suc i)" by (subst round_loop.simps) simp
      then have "2 ^ k = (2::nat) * 2 ^ i"
        using \<open>round_loop sz (2 ^ Suc i) = Some (2 ^ k)\<close> by simp
      with True show ?thesis by simp
    qed (use \<open>2 ^ Suc i < sz \<longrightarrow> 2 ^ k < 2 * sz\<close> in simp)
    ultimately show ?thesis by (intro exI [of _ k]) simp
  next
    case False
    then show ?thesis using Suc.prems by (intro exI [of _ i]) (simp add: round_loop.simps [of _ "2 ^ i"])
  qed
qed

definition pow2_or_0 :: "nat \<Rightarrow> bool" where
  "pow2_or_0 v \<longleftrightarrow> v = 0 \<or> (\<exists>k\<le>63. v = 2 ^ k)"

lemma pow2_or_0_double: "pow2_or_0 r \<Longrightarrow> pow2_or_0 (2 * r mod 2 ^ 64)"
proof (cases "r = 0 \<or> r = 2 ^ 63")
  case False
  assume "pow2_or_0 r"
  then obtain k where "k \<le> 63" "r = 2 ^ k" using False by (auto simp: pow2_or_0_def)
  moreover from this have "k \<noteq> 63" using False by auto
  ultimately have k: "k < 63" "r = 2 ^ k" by simp_all
  then have "(2::nat) ^ Suc k < 2 ^ 64" by (intro power_strict_increasing) auto
  then have "2 * r mod 2 ^ 64 = 2 ^ Suc k" using k by simp
  with k show ?thesis unfolding pow2_or_0_def by (intro disjI2 exI [of _ "Suc k"]) auto
qed (auto simp: pow2_or_0_def)

lemma pow2_or_0_bound: "pow2_or_0 v \<Longrightarrow> v \<le> 2 ^ 63"
  by (auto simp: pow2_or_0_def intro: power_increasing [of _ 63 "2::nat", simplified])

lemma round_loop_result:
  assumes ret: "round_loop sz r = Some v"
  shows "pow2_or_0 r \<longrightarrow> sz \<le> v \<and> pow2_or_0 v"
proof (rule round_loop.raw_induct [where P = "\<lambda>sz r v. pow2_or_0 r \<longrightarrow> sz \<le> v \<and> pow2_or_0 v", OF _ ret])
  fix f :: "nat \<Rightarrow> nat \<Rightarrow> nat option" and sz r v
  assume IH: "\<And>sz r v. f sz r = Some v \<Longrightarrow> pow2_or_0 r \<longrightarrow> sz \<le> v \<and> pow2_or_0 v"
    and eq: "(if r < sz then f sz (2 * r mod 2 ^ 64) else Some r) = Some v"
  show "pow2_or_0 r \<longrightarrow> sz \<le> v \<and> pow2_or_0 v"
  proof (cases "r < sz")
    case True
    then have "f sz (2 * r mod 2 ^ 64) = Some v" using eq by simp
    from IH [OF this] show ?thesis using pow2_or_0_double by blast
  qed (use eq in auto)
qed

lemma RoundUp2Power_ok:
  assumes "0 < sz" "sz \<le> 2 ^ 63"
  shows "\<exists>k\<le>63. RoundUp2Power sz = Some (2 ^ k) \<and> sz \<le> 2 ^ k \<and> (1 < sz \<longrightarrow> 2 ^ k < 2 * sz)"
  using round_loop_eq [of 0 sz] assms by (auto simp: RoundUp2Power_def)

lemma RoundUp2Power_diverges:
  assumes "2 ^ 63 < sz"
  shows "RoundUp2Power sz = None"
proof (rule ccontr)
  assume "RoundUp2Power sz \<noteq> None"
  then obtain v where "round_loop sz 1 = Some v" using assms by (auto simp: RoundUp2Power_def)
  moreover have "pow2_or_0 1" unfolding pow2_or_0_def by (intro disjI2 exI [of _ 0]) simp
  ultimately have "sz \<le> v" "pow2_or_0 v" using round_loop_result by blast+
  with assms pow2_or_0_bound show False by fastforce
qed

section \<open>State and operations\<close>

record CircularBuffer =
  cb_maxSize :: nat
  cb_readPos :: nat
  cb_writePos :: nat
  cb_buffer :: "byte list"

text \<open>An \<open>iovec\<close> into the ring, and what it shows.\<close>

type_synonym iovec = "nat \<times> nat"

definition TotalBytes :: "nat list \<Rightarrow> nat res" where
  "TotalBytes lens =
     bindR (assertR (length lens \<le> 16) AssertFailed) (\<lambda>_. Inr (fold (\<lambda>l n. size_add n l) lens 0))"

text \<open>\<open>x & (maxSize_ - 1)\<close>\<close>

definition wrap :: "CircularBuffer \<Rightarrow> nat \<Rightarrow> nat" where
  "wrap c x = x AND size_sub (cb_maxSize c) 1"

definition cb_IsEmpty :: "CircularBuffer \<Rightarrow> bool" where
  "cb_IsEmpty c \<longleftrightarrow> cb_writePos c = cb_readPos c"

definition cb_IsFull :: "CircularBuffer \<Rightarrow> bool" where
  "cb_IsFull c \<longleftrightarrow> wrap c (size_add (cb_writePos c) 1) = cb_readPos c"

definition cb_ReadableSize :: "CircularBuffer \<Rightarrow> nat" where
  "cb_ReadableSize c = wrap c (size_sub (cb_writePos c) (cb_readPos c))"

definition cb_WriteableSize :: "CircularBuffer \<Rightarrow> nat" where
  "cb_WriteableSize c = size_sub (size_sub (cb_maxSize c) (cb_ReadableSize c)) 1"

definition cb_Capacity :: "CircularBuffer \<Rightarrow> nat" where
  "cb_Capacity c = cb_maxSize c"

definition cb_AdjustWritePtr :: "nat \<Rightarrow> CircularBuffer \<Rightarrow> CircularBuffer" where
  "cb_AdjustWritePtr n c = c\<lparr>cb_writePos := wrap c (size_add (cb_writePos c) n)\<rparr>"

definition cb_AdjustReadPtr :: "nat \<Rightarrow> CircularBuffer \<Rightarrow> CircularBuffer" where
  "cb_AdjustReadPtr n c = c\<lparr>cb_readPos := wrap c (size_add (cb_readPos c) n)\<rparr>"

text \<open>The parts of the ring to send: at most \<open>maxSize\<close> bytes, from \<open>offset\<close> on.\<close>

definition cb_GetDatum :: "nat \<Rightarrow> nat \<Rightarrow> CircularBuffer \<Rightarrow> iovec list res" where
  "cb_GetDatum maxSize offset c =
     (if maxSize = 0 \<or> offset \<ge> cb_ReadableSize c then Inr []
      else
        bindR (assertR (cb_readPos c < cb_maxSize c) AssertFailed) (\<lambda>_.
        bindR (assertR (cb_writePos c < cb_maxSize c) AssertFailed) (\<lambda>_.
        let readPos = wrap c (size_add (cb_readPos c) offset);
            writePos = cb_writePos c
        in bindR (assertR (readPos \<noteq> writePos) AssertFailed) (\<lambda>_.
          if readPos < writePos then
            Inr [(readPos, if maxSize < writePos - readPos then maxSize else writePos - readPos)]
          else
            let nLeft = (if maxSize > cb_maxSize c - readPos then cb_maxSize c - readPos else maxSize);
                first = (readPos, nLeft);
                nLeft = maxSize - nLeft
            in if nLeft > 0 \<and> writePos > 0
               then Inr [first, (0, if nLeft > writePos then writePos else nLeft)]
               else Inr [first]))))"

text \<open>The free parts of the ring, to receive into.\<close>

definition cb_GetSpace :: "nat \<Rightarrow> CircularBuffer \<Rightarrow> iovec list res" where
  "cb_GetSpace offset c =
     bindR (assertR (cb_readPos c < cb_maxSize c) AssertFailed) (\<lambda>_.
     bindR (assertR (cb_writePos c < cb_maxSize c) AssertFailed) (\<lambda>_.
     if cb_WriteableSize c \<le> size_add offset 1 then Inr []
     else
       let readPos = cb_readPos c; writePos = wrap c (size_add (cb_writePos c) offset) in
       if readPos > writePos then
         bindR (assertR (readPos - writePos - 1 > 0) AssertFailed) (\<lambda>_.
           Inr [(writePos, readPos - writePos - 1)])
       else if readPos = 0 then Inr [(writePos, cb_maxSize c - writePos - 1)]
       else if readPos > 1 then Inr [(writePos, cb_maxSize c - writePos), (0, readPos - 1)]
       else Inr [(writePos, cb_maxSize c - writePos)]))"

text \<open>\<open>static_cast<int>\<close> of a \<open>size_t\<close>.\<close>

definition int_cast :: "nat \<Rightarrow> int" where
  "int_cast n = sint (word_of_nat n :: u32)"

text \<open>
  The guard and the branch are computed with \<open>offset\<close>, but every \<open>memcpy\<close> goes to
  \<open>writePos_\<close>.
\<close>

definition cb_PushDataAt :: "byte list \<Rightarrow> nat \<Rightarrow> CircularBuffer \<Rightarrow> (bool \<times> CircularBuffer) res" where
  "cb_PushDataAt data offset c =
     (if data = [] then Inr (True, c)
      else if size_add offset (length data) > cb_WriteableSize c then Inr (False, c)
      else
        let nSize = length data;
            readPos = cb_readPos c;
            writePos = wrap c (size_add (cb_writePos c) offset)
        in if readPos > writePos then
             bindR (assertR (readPos - writePos > nSize) AssertFailed) (\<lambda>_.
             bindR (copy_into (cb_buffer c) (cb_writePos c) data) (\<lambda>buf.
               Inr (True, c\<lparr>cb_buffer := buf\<rparr>)))
           else
             let availBytes1 = cb_maxSize c - cb_writePos c; availBytes2 = readPos in
             bindR (assertR (availBytes1 + availBytes2 \<ge> 1 + nSize) AssertFailed) (\<lambda>_.
             if availBytes1 \<ge> nSize + 1 then
               bindR (copy_into (cb_buffer c) (cb_writePos c) data) (\<lambda>buf.
                 Inr (True, c\<lparr>cb_buffer := buf\<rparr>))
             else
               bindR (copy_into (cb_buffer c) (cb_writePos c) (take availBytes1 data)) (\<lambda>buf.
               let bytesLeft = int_cast (nSize - availBytes1) in
               if bytesLeft > 0 then
                 bindR (copy_into buf 0 (take (nat bytesLeft) (drop availBytes1 data))) (\<lambda>buf.
                   Inr (True, c\<lparr>cb_buffer := buf\<rparr>))
               else Inr (True, c\<lparr>cb_buffer := buf\<rparr>))))"

definition cb_PushData :: "byte list \<Rightarrow> CircularBuffer \<Rightarrow> (bool \<times> CircularBuffer) res" where
  "cb_PushData data c =
     bindR (cb_PushDataAt data 0 c) (\<lambda>(ok, c).
       if \<not> ok then Inr (False, c) else Inr (True, cb_AdjustWritePtr (length data) c))"

text \<open>\<open>None\<close> is the value \<open>false\<close>, \<open>Some\<close> the bytes copied out.\<close>

definition cb_PeekDataAt :: "nat \<Rightarrow> nat \<Rightarrow> CircularBuffer \<Rightarrow> byte list option res" where
  "cb_PeekDataAt nSize offset c =
     (if nSize = 0 then Inr (Some [])
      else if size_add nSize offset > cb_ReadableSize c then Inr None
      else
        let writePos = cb_writePos c; readPos = wrap c (size_add (cb_readPos c) offset) in
        if readPos < writePos then
          bindR (assertR (writePos - readPos \<ge> nSize) AssertFailed) (\<lambda>_.
          bindR (sliceR (cb_buffer c) readPos nSize) (\<lambda>bs. Inr (Some bs)))
        else
          bindR (assertR (readPos > writePos) AssertFailed) (\<lambda>_.
          let availBytes1 = cb_maxSize c - readPos; availBytes2 = writePos in
          bindR (assertR (availBytes1 + availBytes2 \<ge> nSize) AssertFailed) (\<lambda>_.
          if availBytes1 \<ge> nSize then
            bindR (sliceR (cb_buffer c) readPos nSize) (\<lambda>bs. Inr (Some bs))
          else
            bindR (sliceR (cb_buffer c) readPos availBytes1) (\<lambda>bs1.
            bindR (assertR (nSize - availBytes1 > 0) AssertFailed) (\<lambda>_.
            bindR (sliceR (cb_buffer c) 0 (nSize - availBytes1)) (\<lambda>bs2.
              Inr (Some (bs1 @ bs2))))))))"

definition cb_PeekData :: "nat \<Rightarrow> CircularBuffer \<Rightarrow> (byte list option \<times> CircularBuffer) res" where
  "cb_PeekData nSize c =
     bindR (cb_PeekDataAt nSize 0 c) (\<lambda>r. case r of
       None \<Rightarrow> Inr (None, c)
     | Some bs \<Rightarrow> Inr (Some bs, cb_AdjustReadPtr nSize c))"

definition cb_InitCapacity :: "nat \<Rightarrow> CircularBuffer \<Rightarrow> CircularBuffer res" where
  "cb_InitCapacity sz c =
     bindR (assertR (sz > 0 \<and> sz \<le> 1 * 1024 * 1024 * 1024) AssertFailed) (\<lambda>_.
     bindR (must_return (RoundUp2Power sz)) (\<lambda>m.
       Inr (c\<lparr>cb_maxSize := m, cb_buffer := resize m (cb_buffer c)\<rparr>)))"

text \<open>\<open>operator<<\<close> and \<open>operator>>\<close> on the bytes of the object.\<close>

definition cb_put :: "byte list \<Rightarrow> CircularBuffer \<Rightarrow> CircularBuffer res" where
  "cb_put data c =
     bindR (cb_PushData data c) (\<lambda>(ok, c). bindR (assertR ok AssertFailed) (\<lambda>_. Inr c))"

definition cb_get :: "nat \<Rightarrow> CircularBuffer \<Rightarrow> (byte list \<times> CircularBuffer) res" where
  "cb_get n c =
     bindR (cb_PeekData n c) (\<lambda>(r, c). case r of
       None \<Rightarrow> Inl AssertFailed
     | Some bs \<Rightarrow> Inr (bs, c))"

text \<open>The constructor of \<open>Buffer\<close>.\<close>

definition Buffer_new :: "nat \<Rightarrow> CircularBuffer res" where
  "Buffer_new maxSize =
     bindR (must_return (RoundUp2Power maxSize)) (\<lambda>m.
     bindR (assertR (m AND size_sub m 1 = 0) AssertFailed) (\<lambda>_.
       Inr \<lparr>cb_maxSize = m, cb_readPos = 0, cb_writePos = 0, cb_buffer = replicate m 0\<rparr>))"

text \<open>\<open>StackBuffer<N>\<close>: the array has \<open>N\<close> bytes, the capacity is rounded up.\<close>

definition StackBuffer_new :: "nat \<Rightarrow> CircularBuffer res" where
  "StackBuffer_new N =
     bindR (if N AND size_sub N 1 \<noteq> 0 then must_return (RoundUp2Power N) else Inr N) (\<lambda>m.
     bindR (assertR (m AND size_sub m 1 = 0) AssertFailed) (\<lambda>_.
       Inr \<lparr>cb_maxSize = m, cb_readPos = 0, cb_writePos = 0, cb_buffer = replicate N 0\<rparr>))"

text \<open>The constructors of \<open>AttachedBuffer\<close>: a view of one block, or of a sequence of blocks.\<close>

definition AttachedBuffer_new :: "byte list \<Rightarrow> CircularBuffer res" where
  "AttachedBuffer_new pBuf =
     bindR (must_return (RoundUp2Power (size_add (length pBuf) 1))) (\<lambda>m.
       Inr \<lparr>cb_maxSize = m, cb_readPos = 0, cb_writePos = length pBuf, cb_buffer = pBuf\<rparr>)"

definition AttachedBuffer_of :: "byte list list \<Rightarrow> CircularBuffer res" where
  "AttachedBuffer_of bf =
     bindR
       (if length bf = 0 then Inr ([], 0)
        else if length bf = 1 then
          Inr (hd bf, nat (int_cast (length (hd bf)) mod 2 ^ 64))
        else bindR (TotalBytes (map length bf)) (\<lambda>n. Inr (concat bf, n)))
       (\<lambda>(buffer, writePos).
         bindR (must_return (RoundUp2Power (size_add writePos 1))) (\<lambda>m.
           Inr \<lparr>cb_maxSize = m, cb_readPos = 0, cb_writePos = writePos, cb_buffer = buffer\<rparr>))"

definition OverwriteAt :: "byte list \<Rightarrow> nat \<Rightarrow> byte list \<Rightarrow> byte list res" where
  "OverwriteAt block addr data = copy_into block addr data"

section \<open>Invariant and content\<close>

text \<open>
  The capacity is a power of two, at most \<open>2^31\<close>: \<open>PushDataAt\<close> keeps the length of the
  second part in an \<open>int\<close>. The socket buffers are far below.
\<close>

definition cb_inv :: "CircularBuffer \<Rightarrow> bool" where
  "cb_inv c \<longleftrightarrow> (\<exists>k\<le>31. cb_maxSize c = 2 ^ k) \<and> length (cb_buffer c) = cb_maxSize c
     \<and> cb_readPos c < cb_maxSize c \<and> cb_writePos c < cb_maxSize c"

definition cb_content :: "CircularBuffer \<Rightarrow> byte list" where
  "cb_content c =
     (if cb_readPos c \<le> cb_writePos c
      then take (cb_writePos c - cb_readPos c) (drop (cb_readPos c) (cb_buffer c))
      else drop (cb_readPos c) (cb_buffer c) @ take (cb_writePos c) (cb_buffer c))"

lemma cb_invD:
  assumes "cb_inv c"
  shows "cb_maxSize c \<le> 2 ^ 31" "length (cb_buffer c) = cb_maxSize c" "0 < cb_maxSize c"
    "cb_readPos c < cb_maxSize c" "cb_writePos c < cb_maxSize c"
  using assms power_increasing [of _ 31 "2::nat"] by (auto simp: cb_inv_def)

lemma and_power_mask: "x AND (2 ^ k - 1) = x mod 2 ^ k" for x :: nat
  by (simp only: mask_eq_exp_minus_1 [symmetric] take_bit_eq_mask [symmetric] take_bit_eq_mod)

lemma wrap_mod:
  assumes "cb_inv c"
  shows "wrap c x = x mod cb_maxSize c"
proof -
  obtain k where k: "cb_maxSize c = 2 ^ k" using assms by (auto simp: cb_inv_def)
  have "size_sub (2 ^ k) 1 = 2 ^ k - 1"
    using cb_invD(1) [OF assms] k by (intro size_sub_le) auto
  then show ?thesis by (simp only: wrap_def k and_power_mask)
qed

lemma size_mod_max:
  fixes x :: nat
  assumes "cb_inv c"
  shows "x mod 2 ^ 64 mod cb_maxSize c = x mod cb_maxSize c"
proof -
  obtain k where k: "k \<le> 31" "cb_maxSize c = 2 ^ k" using assms by (auto simp: cb_inv_def)
  then have "(2::nat) ^ k dvd 2 ^ 64" by (intro le_imp_power_dvd) auto
  then show ?thesis unfolding k(2) by (rule mod_mod_cancel)
qed

lemma cb_ReadableSize_eq:
  assumes "cb_inv c"
  shows "cb_ReadableSize c =
    (if cb_readPos c \<le> cb_writePos c then cb_writePos c - cb_readPos c
     else cb_maxSize c - (cb_readPos c - cb_writePos c))"
proof (cases "cb_readPos c \<le> cb_writePos c")
  case True
  with cb_invD [OF assms] show ?thesis
    by (simp add: cb_ReadableSize_def wrap_mod [OF assms] size_sub_le)
next
  case False
  obtain k where k: "k \<le> 31" "cb_maxSize c = 2 ^ k" using assms by (auto simp: cb_inv_def)
  let ?d = "cb_readPos c - cb_writePos c"
  have d: "0 < ?d" "?d < cb_maxSize c" using False cb_invD [OF assms] by auto
  have "size_sub (cb_writePos c) (cb_readPos c) = 2 ^ 64 - ?d"
    using False cb_invD [OF assms] by (intro size_sub_wrap) auto
  moreover have "(2 ^ 64 - ?d) mod cb_maxSize c = cb_maxSize c - ?d"
  proof -
    have "(2::nat) ^ 64 = cb_maxSize c * 2 ^ (64 - k)" using k by (simp flip: power_add)
    moreover obtain m where "(2::nat) ^ (64 - k) = Suc m" by (cases "(2::nat) ^ (64 - k)") auto
    ultimately have "2 ^ 64 - ?d = cb_maxSize c * m + (cb_maxSize c - ?d)" using d by simp
    moreover have "(cb_maxSize c - ?d) mod cb_maxSize c = cb_maxSize c - ?d"
      using d by (intro mod_less) linarith
    ultimately show ?thesis by (simp only: mod_mult_self4)
  qed
  ultimately show ?thesis using False by (simp add: cb_ReadableSize_def wrap_mod [OF assms])
qed

lemma length_cb_content: "cb_inv c \<Longrightarrow> length (cb_content c) = cb_ReadableSize c"
  using cb_invD [of c] by (auto simp: cb_ReadableSize_eq cb_content_def)

lemma cb_ReadableSize_less: "cb_inv c \<Longrightarrow> cb_ReadableSize c < cb_maxSize c"
  using cb_invD [of c] by (auto simp: cb_ReadableSize_eq)

lemma cb_WriteableSize_eq: "cb_inv c \<Longrightarrow> cb_WriteableSize c = cb_maxSize c - 1 - cb_ReadableSize c"
  using cb_invD [of c] cb_ReadableSize_less [of c] by (simp add: cb_WriteableSize_def size_sub_le)

lemma cb_IsEmpty_iff: "cb_inv c \<Longrightarrow> cb_IsEmpty c \<longleftrightarrow> cb_content c = []"
  using cb_invD [of c] by (auto simp: cb_IsEmpty_def cb_content_def)

lemma cb_AdjustReadPtr_ok:
  assumes "cb_inv c" "n \<le> length (cb_content c)"
  shows "cb_inv (cb_AdjustReadPtr n c)" "cb_content (cb_AdjustReadPtr n c) = drop n (cb_content c)"
    "cb_maxSize (cb_AdjustReadPtr n c) = cb_maxSize c"
proof -
  note c = cb_invD [OF assms(1)]
  have n: "n < 2 ^ 31"
    using assms(2) length_cb_content [OF assms(1)] cb_ReadableSize_less [OF assms(1)] c(1) by simp
  then have "size_add (cb_readPos c) n = cb_readPos c + n" using c by (intro size_add_small) auto
  then have a: "cb_AdjustReadPtr n c = c\<lparr>cb_readPos := (cb_readPos c + n) mod cb_maxSize c\<rparr>"
    by (simp add: cb_AdjustReadPtr_def wrap_mod [OF assms(1)])
  show "cb_inv (cb_AdjustReadPtr n c)" using assms(1) c(3) by (auto simp: a cb_inv_def)
  show "cb_maxSize (cb_AdjustReadPtr n c) = cb_maxSize c" by (simp add: a)
  show "cb_content (cb_AdjustReadPtr n c) = drop n (cb_content c)"
  proof (cases "cb_readPos c + n < cb_maxSize c")
    case True
    then show ?thesis
      using assms(2) c length_cb_content [OF assms(1)]
      by (auto simp: a cb_content_def cb_ReadableSize_eq [OF assms(1)] drop_take add.commute)
  next
    case False
    then have "(cb_readPos c + n) mod cb_maxSize c = cb_readPos c + n - cb_maxSize c"
      using c n assms(2) length_cb_content [OF assms(1)] cb_ReadableSize_less [OF assms(1)]
      by (simp add: le_mod_geq)
    then show ?thesis
      using False assms(2) c length_cb_content [OF assms(1)]
      by (auto simp: a cb_content_def cb_ReadableSize_eq [OF assms(1)] drop_take add.commute)
  qed
qed

section \<open>Pushing and peeking\<close>

lemma if_P_if: "(\<not> P \<Longrightarrow> x = y) \<Longrightarrow> (if P then x else y) = x"
  by simp


lemma int_cast_small: "n < 2 ^ 31 \<Longrightarrow> int_cast n = int n"
  by (simp add: int_cast_def signed_of_nat signed_take_bit_int_eq_self)

text \<open>The ring after a push whose data wraps around the end.\<close>

lemma cb_content_wrapped:
  assumes "w \<le> m" "length buf = m" "r \<le> w" "m - w \<le> length data" "length data < m - w + r"
  shows "copy_into buf w (take (m - w) data) = Inr (take w buf @ take (m - w) data)"
    and "copy_into (take w buf @ take (m - w) data) 0 (drop (m - w) data) =
      Inr (drop (m - w) data @ drop (length data - (m - w)) (take w buf @ take (m - w) data))"
    and "drop r (drop (m - w) data @ drop (length data - (m - w)) (take w buf @ take (m - w) data)) @
      take (length data - (m - w)) (drop (m - w) data @ drop (length data - (m - w)) (take w buf @ take (m - w) data))
      = take (w - r) (drop r buf) @ data"
proof -
  let ?b = "length data - (m - w)"
  have b: "?b < r" using assms by linarith
  show "copy_into buf w (take (m - w) data) = Inr (take w buf @ take (m - w) data)"
    using assms by (simp add: min_def)
  show "copy_into (take w buf @ take (m - w) data) 0 (drop (m - w) data) =
      Inr (drop (m - w) data @ drop ?b (take w buf @ take (m - w) data))"
    using assms b by (simp add: min_def)
  have "drop r (drop (m - w) data @ drop ?b (take w buf @ take (m - w) data)) =
      drop (r - ?b) (drop ?b (take w buf @ take (m - w) data))"
    using b by simp
  also have "\<dots> = drop r (take w buf @ take (m - w) data)" using b by (simp only: drop_drop) simp
  also have "\<dots> = take (w - r) (drop r buf) @ take (m - w) data"
    using assms by (simp add: drop_take min_def)
  finally show "drop r (drop (m - w) data @ drop ?b (take w buf @ take (m - w) data)) @
      take ?b (drop (m - w) data @ drop ?b (take w buf @ take (m - w) data))
      = take (w - r) (drop r buf) @ data"
    by simp
qed

text \<open>
  \<open>stored c data c'\<close>: \<open>c'\<close> is the ring after \<open>data\<close> was stored at the write position (in two
  parts when it wraps) and the write position moved. It appends \<open>data\<close> to the content.
\<close>

definition stored :: "CircularBuffer \<Rightarrow> byte list \<Rightarrow> CircularBuffer" where
  "stored c data =
     (let n = length data; w = cb_writePos c; m = cb_maxSize c; buf = cb_buffer c in
      c\<lparr>cb_buffer :=
          (if w + n < m then take w buf @ data @ drop (w + n) buf
           else drop (m - w) data @ drop (n - (m - w)) (take w buf @ take (m - w) data)),
        cb_writePos := (w + n) mod m\<rparr>)"

lemma stored_ok:
  assumes "cb_inv c" "length data + cb_ReadableSize c < cb_maxSize c"
  shows "cb_inv (stored c data)" "cb_content (stored c data) = cb_content c @ data"
    "cb_maxSize (stored c data) = cb_maxSize c"
proof -
  note c = cb_invD [OF assms(1)]
  let ?m = "cb_maxSize c" and ?w = "cb_writePos c" and ?r = "cb_readPos c" and ?n = "length data"
  let ?buf = "cb_buffer c"
  have "cb_inv (stored c data) \<and> cb_content (stored c data) = cb_content c @ data"
  proof (cases "?w + ?n < ?m")
    case True
    then have eq: "stored c data =
        c\<lparr>cb_buffer := take ?w ?buf @ data @ drop (?w + ?n) ?buf, cb_writePos := ?w + ?n\<rparr>"
      by (simp add: stored_def Let_def)
    show ?thesis unfolding eq using True c assms
      by (auto simp: cb_content_def drop_take cb_inv_def cb_ReadableSize_eq [OF assms(1)] split: if_splits)
  next
    case wraps: False
    have hyps: "?w \<le> ?m" "length ?buf = ?m" "?r \<le> ?w" "?m - ?w \<le> ?n" "?n < ?m - ?w + ?r"
      using wraps assms(2) c by (auto simp: cb_ReadableSize_eq [OF assms(1)] split: if_splits)
    let ?b = "?n - (?m - ?w)"
    let ?buf' = "drop (?m - ?w) data @ drop ?b (take ?w ?buf @ take (?m - ?w) data)"
    have b: "?b < ?r" "(?w + ?n) mod ?m = ?b"
      using hyps wraps assms(2) c by (simp_all add: le_mod_geq)
    have eq: "stored c data = c\<lparr>cb_buffer := ?buf', cb_writePos := ?b\<rparr>"
      using wraps by (simp add: stored_def Let_def b)
    have "cb_content (c\<lparr>cb_buffer := ?buf', cb_writePos := ?b\<rparr>) = drop ?r ?buf' @ take ?b ?buf'"
      using b by (simp add: cb_content_def del: drop_append take_append)
    also have "\<dots> = cb_content c @ data"
      unfolding cb_content_wrapped(3) [OF hyps] using hyps(3) by (simp add: cb_content_def)
    finally have "cb_content (stored c data) = cb_content c @ data" unfolding eq .
    moreover have "length ?buf' = ?m" using hyps c by (auto simp: min_def)
    then have "cb_inv (stored c data)" unfolding eq
      using assms(1) b c by (auto simp: cb_inv_def simp del: length_append length_drop)
    ultimately show ?thesis by blast
  qed
  then show "cb_inv (stored c data)" "cb_content (stored c data) = cb_content c @ data" by simp_all
  show "cb_maxSize (stored c data) = ?m" by (simp add: stored_def Let_def)
qed

lemma cb_AdjustWritePtr_stored:
  assumes "cb_inv c" "length data < cb_maxSize c"
  shows "cb_AdjustWritePtr (length data) (c\<lparr>cb_buffer := cb_buffer (stored c data)\<rparr>) = stored c data"
proof -
  have "size_add (cb_writePos c) (length data) = cb_writePos c + length data"
    using cb_invD [OF assms(1)] assms(2) by (intro size_add_small) auto
  moreover have "wrap (c\<lparr>cb_buffer := buf\<rparr>) x = wrap c x" for buf x by (simp add: wrap_def)
  ultimately show ?thesis
    by (simp add: cb_AdjustWritePtr_def wrap_mod [OF assms(1)] stored_def Let_def)
qed

lemma cb_PushData_ok:
  assumes "cb_inv c" "length data \<le> cb_WriteableSize c"
  shows "\<exists>c'. cb_PushData data c = Inr (True, c') \<and> cb_inv c' \<and> cb_content c' = cb_content c @ data
    \<and> cb_maxSize c' = cb_maxSize c"
proof (cases "data = []")
  case True
  have "cb_AdjustWritePtr 0 c = c" if "cb_inv c"
    using cb_invD [OF that] by (simp add: cb_AdjustWritePtr_def wrap_mod [OF that] size_add_def)
  with True assms show ?thesis by (simp add: cb_PushData_def cb_PushDataAt_def)
next
  case False
  note c = cb_invD [OF assms(1)]
  let ?m = "cb_maxSize c" and ?w = "cb_writePos c" and ?r = "cb_readPos c" and ?n = "length data"
  let ?buf = "cb_buffer c"
  have n: "0 < ?n" "?n + cb_ReadableSize c < ?m"
    using False assms cb_ReadableSize_less [OF assms(1)] c(3) by (auto simp: cb_WriteableSize_eq)
  have w0: "wrap c (size_add ?w 0) = ?w" using c by (simp add: wrap_mod [OF assms(1)] size_add_def)
  have guard: "\<not> size_add 0 ?n > cb_WriteableSize c"
    using assms(2) n c by (simp add: size_add_def)
  have "cb_PushDataAt data 0 c = Inr (True, c\<lparr>cb_buffer := cb_buffer (stored c data)\<rparr>)"
  proof (cases "?w + ?n < ?m")
    case fits: True
    then have buf: "cb_buffer (stored c data) = take ?w ?buf @ data @ drop (?w + ?n) ?buf"
      by (simp add: stored_def Let_def)
    show ?thesis
      unfolding buf using False guard fits c n
      by (auto simp: cb_PushDataAt_def w0 Let_def assertR_def cb_ReadableSize_eq [OF assms(1)] split: if_splits)
  next
    case wraps: False
    have hyps: "?w \<le> ?m" "length ?buf = ?m" "?r \<le> ?w" "?m - ?w \<le> ?n" "?n < ?m - ?w + ?r"
      using wraps n c by (auto simp: cb_ReadableSize_eq [OF assms(1)] split: if_splits)
    note eqs = cb_content_wrapped [OF hyps]
    let ?b = "?n - (?m - ?w)"
    let ?buf' = "drop (?m - ?w) data @ drop ?b (take ?w ?buf @ take (?m - ?w) data)"
    have buf: "cb_buffer (stored c data) = ?buf'" using wraps by (simp add: stored_def Let_def)
    have b: "int_cast ?b = int ?b" using hyps c by (intro int_cast_small) linarith
    have buf0: "?b = 0 \<Longrightarrow> ?buf' = take ?w ?buf @ take (?m - ?w) data" using hyps by simp
    have "\<not> ?w < ?r" "1 + ?n \<le> ?m - ?w + ?r" "\<not> ?n + 1 \<le> ?m - ?w" using hyps wraps by auto
    then have "cb_PushDataAt data 0 c =
        (if int_cast ?b > 0 then
           bindR (copy_into (take ?w ?buf @ take (?m - ?w) data) 0 (take (nat (int_cast ?b)) (drop (?m - ?w) data)))
             (\<lambda>buf. Inr (True, c\<lparr>cb_buffer := buf\<rparr>))
         else Inr (True, c\<lparr>cb_buffer := take ?w ?buf @ take (?m - ?w) data\<rparr>))"
      using False guard by (simp only: cb_PushDataAt_def w0 Let_def eqs(1) bindR_simps assertR_simps if_False if_True)
    moreover have "take (nat (int ?b)) (drop (?m - ?w) data) = drop (?m - ?w) data" by simp
    moreover have "int_cast ?b > 0 \<longleftrightarrow> ?b \<noteq> 0" unfolding b by (simp only: of_nat_0_less_iff neq0_conv)
    ultimately have "cb_PushDataAt data 0 c =
        (if ?b \<noteq> 0 then Inr (True, c\<lparr>cb_buffer := ?buf'\<rparr>)
         else Inr (True, c\<lparr>cb_buffer := take ?w ?buf @ take (?m - ?w) data\<rparr>))"
      by (simp only: b eqs(2) bindR_simps)
    also have "\<dots> = Inr (True, c\<lparr>cb_buffer := ?buf'\<rparr>)"
      by (rule if_P_if, drule notnotD, drule buf0, simp only:)
    finally show ?thesis unfolding buf .
  qed
  moreover have "cb_AdjustWritePtr ?n (c\<lparr>cb_buffer := cb_buffer (stored c data)\<rparr>) = stored c data"
    by (rule cb_AdjustWritePtr_stored [OF assms(1)]) (use n c in auto)
  ultimately have "cb_PushData data c = Inr (True, stored c data)" by (simp add: cb_PushData_def)
  with stored_ok [OF assms(1) n(2)] show ?thesis by blast
qed

lemma cb_PushData_full:
  assumes "cb_inv c" "data \<noteq> []" "cb_WriteableSize c < length data" "length data < 2 ^ 64"
  shows "cb_PushData data c = Inr (False, c)"
  using assms by (simp add: cb_PushData_def cb_PushDataAt_def size_add_def)

lemma cb_PeekDataAt_ok:
  assumes "cb_inv c" "offset + n \<le> length (cb_content c)"
  shows "cb_PeekDataAt n offset c = Inr (Some (take n (drop offset (cb_content c))))"
proof (cases "n = 0")
  case False
  note c = cb_invD [OF assms(1)]
  let ?m = "cb_maxSize c" and ?w = "cb_writePos c" and ?r = "cb_readPos c"
  note len = assms(2) [unfolded length_cb_content [OF assms(1)]]
  have lt: "cb_ReadableSize c < ?m" by (rule cb_ReadableSize_less [OF assms(1)])
  have s: "size_add n offset = n + offset" "size_add ?r offset = ?r + offset"
    using len lt c by (auto intro!: size_add_small)
  have guard: "\<not> size_add n offset > cb_ReadableSize c" using len s by simp
  show ?thesis
  proof (cases "?r \<le> ?w")
    case le: True
    have "?r + offset + n \<le> ?w" using le len False by (auto simp: cb_ReadableSize_eq [OF assms(1)])
    moreover have "wrap c (?r + offset) = ?r + offset" using calculation c by (simp add: wrap_mod [OF assms(1)])
    ultimately show ?thesis using False guard le c s
      by (simp add: cb_PeekDataAt_def Let_def cb_content_def drop_take min_def add.commute)
  next
    case gt: False
    show ?thesis
    proof (cases "?r + offset < ?m")
      case True
      have rw: "wrap c (?r + offset) = ?r + offset" using True by (simp add: wrap_mod [OF assms(1)])
      have a: "?m - (?r + offset) + ?w \<ge> n"
        using len gt True by (auto simp: cb_ReadableSize_eq [OF assms(1)])
      have cont: "drop offset (cb_content c) = drop (?r + offset) (cb_buffer c) @ take ?w (cb_buffer c)"
        using gt True c by (simp add: cb_content_def add.commute)
      show ?thesis
      proof (cases "?m - (?r + offset) \<ge> n")
        case True
        with False guard gt rw a c s cont show ?thesis
          by (simp add: cb_PeekDataAt_def Let_def)
      next
        case wraps: False
        then have "n - (?m - (?r + offset)) \<le> ?w" "?m < n + (?r + offset)" using a by linarith+
        with wraps False guard gt True rw a c s cont show ?thesis
          by (simp add: cb_PeekDataAt_def Let_def min_def)
      qed
    next
      case past: False
      have rw: "wrap c (?r + offset) = ?r + offset - ?m"
        using past c len lt by (simp add: wrap_mod [OF assms(1)] le_mod_geq)
      have a: "?r + offset - ?m + n \<le> ?w"
        using len gt past c by (auto simp: cb_ReadableSize_eq [OF assms(1)])
      have cont: "drop offset (cb_content c) = drop (?r + offset - ?m) (take ?w (cb_buffer c))"
        using gt past c by (simp add: cb_content_def add.commute)
      show ?thesis using False guard rw a c s
        by (simp add: cb_PeekDataAt_def Let_def cont drop_take min_def)
    qed
  qed
qed (simp add: cb_PeekDataAt_def)

lemma cb_PeekData_ok:
  assumes "cb_inv c" "n \<le> length (cb_content c)"
  shows "\<exists>c'. cb_PeekData n c = Inr (Some (take n (cb_content c)), c') \<and> cb_inv c'
    \<and> cb_content c' = drop n (cb_content c) \<and> cb_maxSize c' = cb_maxSize c"
  using cb_PeekDataAt_ok [of c 0 n] cb_AdjustReadPtr_ok [OF assms] assms
  by (simp add: cb_PeekData_def)

lemma cb_PeekData_short:
  assumes "cb_inv c" "length (cb_content c) < n" "n < 2 ^ 64"
  shows "cb_PeekData n c = Inr (None, c)"
  using assms by (simp add: cb_PeekData_def cb_PeekDataAt_def size_add_def length_cb_content)

section \<open>Scatter and gather\<close>

text \<open>
  What \<open>writev\<close> reads through the parts of the ring, and where \<open>readv\<close> puts the bytes it
  received: it fills the parts in order.
\<close>

definition iov_bytes :: "byte list \<Rightarrow> iovec \<Rightarrow> byte list" where
  "iov_bytes buf v = take (snd v) (drop (fst v) buf)"

definition gather :: "byte list \<Rightarrow> iovec list \<Rightarrow> byte list" where
  "gather buf vs = concat (map (iov_bytes buf) vs)"

fun scatter :: "byte list \<Rightarrow> iovec list \<Rightarrow> byte list \<Rightarrow> byte list res" where
  "scatter buf [] data = Inr buf"
| "scatter buf ((b, l) # vs) data =
     bindR (copy_into buf b (take l data)) (\<lambda>buf. scatter buf vs (drop l data))"

definition iov_ok :: "CircularBuffer \<Rightarrow> iovec \<Rightarrow> bool" where
  "iov_ok c v \<longleftrightarrow> fst v + snd v \<le> length (cb_buffer c)"

lemma cb_GetDatum_ok:
  assumes "cb_inv c" "maxSize < 2 ^ 64" "offset < 2 ^ 32"
  shows "\<exists>vs. cb_GetDatum maxSize offset c = Inr vs \<and> length vs \<le> 2 \<and> list_all (iov_ok c) vs
    \<and> gather (cb_buffer c) vs = take maxSize (drop offset (cb_content c))"
proof (cases "maxSize = 0 \<or> offset \<ge> cb_ReadableSize c")
  case True
  then show ?thesis using length_cb_content [OF assms(1)] by (auto simp: cb_GetDatum_def gather_def)
next
  case False
  note c = cb_invD [OF assms(1)]
  let ?m = "cb_maxSize c" and ?w = "cb_writePos c" and ?r = "cb_readPos c" and ?buf = "cb_buffer c"
  have s: "size_add ?r offset = ?r + offset" using c assms(3) by (intro size_add_small) auto
  consider (straight) "?r \<le> ?w" "?r + offset < ?w"
    | (tail) "?w < ?r" "?r + offset < ?m"
    | (head) "?w < ?r" "?m \<le> ?r + offset" "?r + offset - ?m < ?w"
    using False c by (force simp: cb_ReadableSize_eq [OF assms(1)] split: if_splits)
  then show ?thesis
  proof cases
    case straight
    moreover have "wrap c (?r + offset) = ?r + offset" using straight c by (simp add: wrap_mod [OF assms(1)])
    ultimately show ?thesis using False c s
      by (auto simp: cb_GetDatum_def Let_def gather_def iov_bytes_def iov_ok_def cb_content_def
          drop_take min_def add.commute)
  next
    case tail
    have rw: "wrap c (?r + offset) = ?r + offset" using tail by (simp add: wrap_mod [OF assms(1)])
    have cont: "drop offset (cb_content c) = drop (?r + offset) ?buf @ take ?w ?buf"
      using tail c by (simp add: cb_content_def add.commute)
    show ?thesis using False c s tail rw
      by (auto simp: cb_GetDatum_def Let_def gather_def iov_bytes_def iov_ok_def cont min_def)
  next
    case head
    have rw: "wrap c (?r + offset) = ?r + offset - ?m"
      using head c by (simp add: wrap_mod [OF assms(1)] le_mod_geq)
    have cont: "drop offset (cb_content c) = drop (?r + offset - ?m) (take ?w ?buf)"
      using head c by (simp add: cb_content_def add.commute)
    show ?thesis using False c s head rw
      by (auto simp: cb_GetDatum_def Let_def gather_def iov_bytes_def iov_ok_def cont drop_take min_def)
  qed
qed

text \<open>
  All free bytes but one are offered: the guard is \<open>WriteableSize() <= offset + 1\<close>, so a
  ring with one free byte offers none.
\<close>

lemma cb_GetSpace_cases:
  assumes "cb_inv c"
  obtains (none) "cb_WriteableSize c \<le> 1" "cb_GetSpace 0 c = Inr []"
    | (gap) "cb_writePos c < cb_readPos c" "1 < cb_WriteableSize c"
        "cb_GetSpace 0 c = Inr [(cb_writePos c, cb_readPos c - cb_writePos c - 1)]"
    | (tail) "cb_readPos c = 0" "1 < cb_WriteableSize c"
        "cb_GetSpace 0 c = Inr [(cb_writePos c, cb_maxSize c - cb_writePos c - 1)]"
    | (exact) "cb_readPos c = 1" "1 \<le> cb_writePos c" "1 < cb_WriteableSize c"
        "cb_GetSpace 0 c = Inr [(cb_writePos c, cb_maxSize c - cb_writePos c)]"
    | (two) "1 < cb_readPos c" "cb_readPos c \<le> cb_writePos c" "1 < cb_WriteableSize c"
        "cb_GetSpace 0 c = Inr [(cb_writePos c, cb_maxSize c - cb_writePos c), (0, cb_readPos c - 1)]"
proof -
  note c = cb_invD [OF assms]
  have w: "wrap c (size_add (cb_writePos c) 0) = cb_writePos c" "size_add 0 1 = 1"
    using c by (simp_all add: wrap_mod [OF assms] size_add_def)
  have gap: "0 < cb_readPos c - cb_writePos c - 1" if "cb_writePos c < cb_readPos c" "1 < cb_WriteableSize c"
    using that c by (simp add: cb_WriteableSize_eq [OF assms] cb_ReadableSize_eq [OF assms])
  note eq = cb_GetSpace_def [of 0 c, unfolded w Let_def]
  consider "cb_WriteableSize c \<le> 1" | "1 < cb_WriteableSize c" "cb_writePos c < cb_readPos c"
    | "1 < cb_WriteableSize c" "cb_readPos c = 0" | "1 < cb_WriteableSize c" "cb_readPos c = 1" "1 \<le> cb_writePos c"
    | "1 < cb_WriteableSize c" "1 < cb_readPos c" "cb_readPos c \<le> cb_writePos c" by linarith
  then show thesis
  proof cases
    case 1 with c show ?thesis by (intro none) (simp_all add: eq)
  next
    case 2 with c gap show ?thesis by (intro that(2)) (simp_all add: eq)
  next
    case 3 with c show ?thesis by (intro tail) (simp_all add: eq)
  next
    case 4 with c show ?thesis by (intro exact) (simp_all add: eq)
  next
    case 5 with c show ?thesis by (intro two) (simp_all add: eq)
  qed
qed

lemma cb_GetSpace_ok:
  assumes "cb_inv c"
  shows "\<exists>vs. cb_GetSpace 0 c = Inr vs \<and> length vs \<le> 2 \<and> list_all (iov_ok c) vs
    \<and> sum_list (map snd vs) = (if cb_WriteableSize c \<le> 1 then 0 else cb_WriteableSize c)"
  using cb_invD [OF assms]
  by (cases rule: cb_GetSpace_cases [OF assms])
    (auto simp: iov_ok_def cb_WriteableSize_eq [OF assms] cb_ReadableSize_eq [OF assms])

text \<open>Receiving: the bytes scattered into the free parts are stored behind the content.\<close>

lemma cb_receive:
  assumes "cb_inv c" "cb_GetSpace 0 c = Inr vs" "length data \<le> sum_list (map snd vs)"
  shows "scatter (cb_buffer c) vs data = Inr (cb_buffer (stored c data))"
    and "length data + cb_ReadableSize c < cb_maxSize c"
proof -
  note c = cb_invD [OF assms(1)]
  have "sum_list (map snd vs) \<le> cb_WriteableSize c"
    using cb_GetSpace_ok [OF assms(1)] assms(2) by (auto split: if_splits)
  then show "length data + cb_ReadableSize c < cb_maxSize c"
    using assms(3) cb_ReadableSize_less [OF assms(1)] by (simp add: cb_WriteableSize_eq [OF assms(1)])
  have fits: "cb_buffer (stored c data) = take (cb_writePos c) (cb_buffer c) @ data @ drop (cb_writePos c + length data) (cb_buffer c)"
    if "cb_writePos c + length data < cb_maxSize c"
    using that by (simp add: stored_def Let_def)
  from assms(1) show "scatter (cb_buffer c) vs data = Inr (cb_buffer (stored c data))"
  proof (cases rule: cb_GetSpace_cases)
    case none
    with assms(2,3) c fits show ?thesis by simp
  next
    case gap
    with assms(2,3) c show ?thesis by (subst fits) auto
  next
    case tail
    with assms(2,3) c show ?thesis by (subst fits) auto
  next
    case exact
    with assms(2,3) c show ?thesis
      by (cases "cb_writePos c + length data < cb_maxSize c") (auto simp: stored_def Let_def)
  next
    case two
    let ?a = "cb_maxSize c - cb_writePos c"
    show ?thesis
    proof (cases "length data < ?a")
      case True
      with two assms(2,3) c show ?thesis by (subst fits) auto
    next
      case False
      have hyps: "cb_writePos c \<le> cb_maxSize c" "length (cb_buffer c) = cb_maxSize c"
        "cb_readPos c \<le> cb_writePos c" "?a \<le> length data" "length data < ?a + cb_readPos c"
        using two assms(2,3) c False by auto
      note eqs = cb_content_wrapped(1,2) [OF hyps]
      have vs: "vs = [(cb_writePos c, ?a), (0, cb_readPos c - 1)]" using two assms(2) by simp
      have "take (cb_readPos c - 1) (drop ?a data) = drop ?a data" using hyps by simp
      moreover have nf: "\<not> cb_writePos c + length data < cb_maxSize c" using hyps(1,4) by linarith
      have "cb_buffer (stored c data) = drop ?a data @
          drop (length data - ?a) (take (cb_writePos c) (cb_buffer c) @ take ?a data)"
        using nf by (simp add: stored_def Let_def)
      ultimately show ?thesis by (simp only: vs scatter.simps eqs bindR_simps)
    qed
  qed
qed

section \<open>The ring is a byte queue\<close>

definition cb_push :: "CircularBuffer \<Rightarrow> byte list \<Rightarrow> CircularBuffer res" where
  "cb_push c data = cb_put data c"

definition cb_pop :: "CircularBuffer \<Rightarrow> nat \<Rightarrow> (byte list \<times> CircularBuffer) res" where
  "cb_pop c n = cb_get n c"

definition cb_room :: "CircularBuffer \<Rightarrow> nat" where
  "cb_room c = cb_Capacity c - 1"

interpretation cb: byte_queue cb_push cb_pop cb_content cb_inv cb_room
proof
  fix c :: CircularBuffer and xs :: "byte list"
  assume c: "cb_inv c" "length (cb_content c) + length xs \<le> cb_room c"
  then have "length xs \<le> cb_WriteableSize c"
    by (simp add: cb_WriteableSize_eq cb_room_def cb_Capacity_def length_cb_content)
  from cb_PushData_ok [OF c(1) this] show "\<exists>c'. cb_push c xs = Inr c' \<and> cb_inv c' \<and>
      cb_content c' = cb_content c @ xs \<and> cb_room c' = cb_room c"
    by (auto simp: cb_push_def cb_put_def cb_room_def cb_Capacity_def)
next
  fix c n
  assume "cb_inv c" "n \<le> length (cb_content c)"
  from cb_PeekData_ok [OF this] show "\<exists>c'. cb_pop c n = Inr (take n (cb_content c), c') \<and>
      cb_inv c' \<and> cb_content c' = drop n (cb_content c) \<and> cb_room c' = cb_room c"
    by (auto simp: cb_pop_def cb_get_def cb_room_def cb_Capacity_def)
qed

section \<open>Properties\<close>

lemma cb_inv_fresh: "k \<le> 31 \<Longrightarrow> cb_inv \<lparr>cb_maxSize = 2 ^ k, cb_readPos = 0, cb_writePos = 0, cb_buffer = replicate (2 ^ k) 0\<rparr>"
  by (auto simp: cb_inv_def)

definition sample_ring :: CircularBuffer where
  "sample_ring = \<lparr>cb_maxSize = 4, cb_readPos = 3, cb_writePos = 1, cb_buffer = [2, 0, 0, 1]\<rparr>"

lemma sample_ring: "cb_inv sample_ring" "cb_content sample_ring = [1, 2]"
  by (auto simp: cb_inv_def sample_ring_def cb_content_def intro!: exI [of _ 2])

text \<open>\<open>RoundUp2Power\<close> returns the least power of two that is not below its argument, for
  every argument up to \<open>2^63\<close>; for a larger one its loop never ends.\<close>

lemma round_up_least_power:
  "(0 < sz \<and> sz \<le> 2 ^ 63 \<longrightarrow>
     (\<exists>k\<le>63. RoundUp2Power sz = Some (2 ^ k) \<and> sz \<le> 2 ^ k \<and> (1 < sz \<longrightarrow> 2 ^ k < 2 * sz)))
   \<and> (2 ^ 63 < sz \<longrightarrow> RoundUp2Power sz = None)"
  using RoundUp2Power_ok RoundUp2Power_diverges by blast

text \<open>C21: The ring is a FIFO of bytes: for every sequence of pushes and pops that stays within
  the capacity less one, across any number of wrap-arounds, no assertion fails, no access
  leaves the block, and what was popped followed by what is left is what was there followed
  by what was pushed.\<close>

theorem circular_buffer_fifo:
  assumes "cb_inv c" "cb.allowed (cb_room c) (length (cb_content c)) ops"
  shows "\<exists>xss c'. run_ops cb_push cb_pop ops c = Inr (xss, c') \<and> cb_inv c'
    \<and> concat xss @ cb_content c' = cb_content c @ pushed ops"
  using assms by (rule cb.fifo)

theorem circular_buffer_fifo_witness:
  "\<exists>xss c'. run_ops cb_push cb_pop [Push [3], Pop 2, Push [4, 5], Pop 1] sample_ring = Inr (xss, c')
    \<and> concat xss @ cb_content c' = [1, 2, 3, 4, 5]"
  using circular_buffer_fifo [of sample_ring "[Push [3], Pop 2, Push [4, 5], Pop 1]"] sample_ring
  by (auto simp: cb_room_def cb_Capacity_def sample_ring_def)

text \<open>What \<open>GetDatum\<close> hands to \<open>writev\<close> is the content: at most two parts, inside the
  block, that show the first \<open>maxSize\<close> bytes from \<open>offset\<close> on, in order.\<close>

lemma get_datum_shows_content:
  assumes "cb_inv c" "maxSize < 2 ^ 64" "offset < 2 ^ 32"
  shows "\<exists>vs. cb_GetDatum maxSize offset c = Inr vs \<and> length vs \<le> 2 \<and> list_all (iov_ok c) vs
    \<and> gather (cb_buffer c) vs = take maxSize (drop offset (cb_content c))"
  using assms by (rule cb_GetDatum_ok)

text \<open>Receiving appends: bytes scattered into the parts that \<open>GetSpace\<close> offers, followed by
  \<open>AdjustWritePtr\<close>, stand behind the content in the order received, and the invariant holds;
  the parts offer every free byte, except when only one is free.\<close>

lemma receive_appends:
  assumes "cb_inv c" "cb_GetSpace 0 c = Inr vs" "length data \<le> sum_list (map snd vs)"
  shows "\<exists>buf. scatter (cb_buffer c) vs data = Inr buf \<and>
    cb_inv (cb_AdjustWritePtr (length data) (c\<lparr>cb_buffer := buf\<rparr>)) \<and>
    cb_content (cb_AdjustWritePtr (length data) (c\<lparr>cb_buffer := buf\<rparr>)) = cb_content c @ data \<and>
    sum_list (map snd vs) = (if cb_WriteableSize c \<le> 1 then 0 else cb_WriteableSize c)"
proof -
  note r = cb_receive [OF assms]
  from r(2) have "cb_AdjustWritePtr (length data) (c\<lparr>cb_buffer := cb_buffer (stored c data)\<rparr>) = stored c data"
    by (intro cb_AdjustWritePtr_stored [OF assms(1)]) simp
  with r(1) stored_ok [OF assms(1) r(2)] cb_GetSpace_ok [OF assms(1)] assms(2) show ?thesis by auto
qed

text \<open>\<open>PushDataAt\<close> does not honour its offset: whenever it succeeds on data that is not
  empty, the first byte stands at the write position itself.\<close>

lemma push_at_ignores_offset:
  assumes "cb_inv c" "data \<noteq> []" "offset + length data < 2 ^ 64"
    and "cb_PushDataAt data offset c = Inr (True, c')"
  shows "cb_buffer c' ! cb_writePos c = hd data"
proof -
  note c = cb_invD [OF assms(1)]
  let ?w = "cb_writePos c" and ?a = "cb_maxSize c - cb_writePos c"
  have first: "buf' ! ?w = hd xs" if "copy_into (cb_buffer c) ?w xs = Inr buf'" "xs \<noteq> []" for buf' xs
    using that by (cases xs) (auto simp: copy_into_def nth_append split: if_splits)
  have part: "take ?a data \<noteq> []" "hd (take ?a data) = hd data"
    using c assms(2) by (simp_all add: hd_take)
  have keep: "buf'' ! ?w = buf' ! ?w" if "copy_into buf' 0 xs = Inr buf''" "length xs \<le> ?w" for buf' buf'' xs
    using that by (auto simp: copy_into_def nth_append split: if_splits)
  have guard: "offset + length data \<le> cb_WriteableSize c"
    using assms(2-4) by (auto simp: cb_PushDataAt_def size_add_small split: if_splits)
  have wp: "cb_readPos c \<le> ?w" if "\<not> wrap c (size_add ?w offset) < cb_readPos c"
  proof (rule ccontr)
    assume w: "\<not> cb_readPos c \<le> ?w"
    then have "?w + offset < cb_readPos c"
      using guard c assms(2) by (cases data) (auto simp: cb_WriteableSize_eq [OF assms(1)] cb_ReadableSize_eq [OF assms(1)])
    moreover from this have "wrap c (size_add ?w offset) = ?w + offset"
      using c by (simp add: size_add_small wrap_mod [OF assms(1)])
    ultimately show False using that by simp
  qed
  from assms(2,4) consider (one) buf where "copy_into (cb_buffer c) ?w data = Inr buf" "c' = c\<lparr>cb_buffer := buf\<rparr>"
    | (cut) buf where "copy_into (cb_buffer c) ?w (take ?a data) = Inr buf" "c' = c\<lparr>cb_buffer := buf\<rparr>"
    | (both) buf buf' k where "copy_into (cb_buffer c) ?w (take ?a data) = Inr buf"
        "copy_into buf 0 (take k (drop ?a data)) = Inr buf'" "c' = c\<lparr>cb_buffer := buf'\<rparr>"
        "\<not> wrap c (size_add ?w offset) < cb_readPos c" "1 + length data \<le> ?a + cb_readPos c"
    unfolding cb_PushDataAt_def Let_def by (auto split: if_splits elim!: bindR_InrE)
  then show ?thesis
  proof cases
    case one
    with first assms(2) show ?thesis by simp
  next
    case cut
    with first part show ?thesis by simp
  next
    case both
    have "length (take k (drop ?a data)) \<le> ?w" using both(5) wp [OF both(4)] by simp
    with keep [OF both(2)] first [OF both(1) part(1)] part(2) both(3) show ?thesis by simp
  qed
qed

theorem push_at_ignores_offset_witness:
  "\<exists>c'. cb_PushDataAt [5] 1 \<lparr>cb_maxSize = 4, cb_readPos = 0, cb_writePos = 0, cb_buffer = [0, 0, 0, 0]\<rparr> =
      Inr (True, c') \<and> cb_buffer c' ! 0 = 5"
proof -
  let ?c = "\<lparr>cb_maxSize = 4, cb_readPos = 0, cb_writePos = 0, cb_buffer = [0, 0, 0, 0]\<rparr>"
  let ?c' = "?c\<lparr>cb_buffer := [5, 0, 0, 0]\<rparr>"
  have c: "cb_inv ?c" by (auto simp: cb_inv_def intro!: exI [of _ 2])
  have p: "cb_PushDataAt [5] 1 ?c = Inr (True, ?c')"
    by (simp add: cb_PushDataAt_def wrap_mod [OF c] cb_WriteableSize_eq [OF c] cb_ReadableSize_eq [OF c]
        size_add_small copy_into_def)
  with push_at_ignores_offset [OF c _ _ p] show ?thesis by auto
qed

end
