(* ===== verification/Unbounded.thy ===== *)
theory Unbounded
  imports ByteQueue
begin

text \<open>
  \<open>network/unbounded_buffer.h\<close> and \<open>.cc\<close>: the growing buffer in which replies are built and
  into which the asynchronous buffer spills. Its bytes are \<open>buffer_[readPos_ .. writePos_)\<close>.
  A null data pointer behaves as an empty block (both return 0 at once), so a block is a
  list of bytes. Exhausting memory in \<open>vector::resize\<close> is not modelled.
\<close>

record UnboundedBuffer =
  ub_readPos :: nat
  ub_writePos :: nat
  ub_buffer :: "byte list"

definition UnboundedBuffer_new :: UnboundedBuffer where
  "UnboundedBuffer_new = \<lparr>ub_readPos = 0, ub_writePos = 0, ub_buffer = []\<rparr>"

definition MAX_BUFFER_SIZE :: nat where
  "MAX_BUFFER_SIZE = (2 ^ 64 - 1) div 2"

definition ub_ReadableSize :: "UnboundedBuffer \<Rightarrow> nat" where
  "ub_ReadableSize b = size_sub (ub_writePos b) (ub_readPos b)"

definition ub_WriteableSize :: "UnboundedBuffer \<Rightarrow> nat" where
  "ub_WriteableSize b = size_sub (length (ub_buffer b)) (ub_writePos b)"

definition ub_IsEmpty :: "UnboundedBuffer \<Rightarrow> bool" where
  "ub_IsEmpty b \<longleftrightarrow> ub_ReadableSize b = 0"

definition ub_AdjustWritePtr :: "nat \<Rightarrow> UnboundedBuffer \<Rightarrow> UnboundedBuffer" where
  "ub_AdjustWritePtr n b = b\<lparr>ub_writePos := size_add (ub_writePos b) n\<rparr>"

definition ub_AdjustReadPtr :: "nat \<Rightarrow> UnboundedBuffer \<Rightarrow> UnboundedBuffer" where
  "ub_AdjustReadPtr n b = b\<lparr>ub_readPos := size_add (ub_readPos b) n\<rparr>"

text \<open>The growth loop; it stops by itself or at \<open>MAX_BUFFER_SIZE\<close>.\<close>

function assure_loop :: "nat \<Rightarrow> nat \<Rightarrow> UnboundedBuffer \<Rightarrow> UnboundedBuffer" where
  "assure_loop nSize maxSize b =
     (if nSize > ub_WriteableSize b + ub_readPos b then
        (if maxSize < 64 then assure_loop nSize 64 (b\<lparr>ub_buffer := resize 64 (ub_buffer b)\<rparr>)
         else if maxSize \<le> MAX_BUFFER_SIZE then
           assure_loop nSize (maxSize + maxSize div 2)
             (b\<lparr>ub_buffer := resize (maxSize + maxSize div 2) (ub_buffer b)\<rparr>)
         else b)
      else b)"
  by pat_completeness auto
termination
  by (relation "measure (\<lambda>(n, m, b). Suc MAX_BUFFER_SIZE - m)") (auto simp: MAX_BUFFER_SIZE_def)

declare assure_loop.simps [simp del]

definition ub_AssureSpace :: "nat \<Rightarrow> UnboundedBuffer \<Rightarrow> UnboundedBuffer" where
  "ub_AssureSpace nSize b =
     (if nSize \<le> ub_WriteableSize b then b
      else
        let b = assure_loop nSize (length (ub_buffer b)) b in
        if ub_readPos b > 0 then
          let dataSize = ub_ReadableSize b;
              moved = take dataSize (drop (ub_readPos b) (ub_buffer b))
          in b\<lparr>ub_buffer := moved @ drop dataSize (ub_buffer b), ub_readPos := 0,
               ub_writePos := dataSize\<rparr>
        else b)"

definition ub_PushDataAt :: "byte list \<Rightarrow> nat \<Rightarrow> UnboundedBuffer \<Rightarrow> (nat \<times> UnboundedBuffer) res" where
  "ub_PushDataAt data offset b =
     (if data = [] then Inr (0, b)
      else if ub_ReadableSize b = MAX_BUFFER_SIZE then Inr (0, b)
      else
        let b = ub_AssureSpace (size_add (length data) offset) b in
        bindR (assertR (size_add (length data) offset \<le> ub_WriteableSize b) AssertFailed) (\<lambda>_.
        bindR (copy_into (ub_buffer b) (ub_writePos b + offset) data) (\<lambda>buf.
          Inr (length data, b\<lparr>ub_buffer := buf\<rparr>))))"

definition ub_PushData :: "byte list \<Rightarrow> UnboundedBuffer \<Rightarrow> (nat \<times> UnboundedBuffer) res" where
  "ub_PushData data b =
     bindR (ub_PushDataAt data 0 b) (\<lambda>(nBytes, b). Inr (nBytes, ub_AdjustWritePtr nBytes b))"

definition ub_Write :: "byte list \<Rightarrow> UnboundedBuffer \<Rightarrow> (nat \<times> UnboundedBuffer) res" where
  "ub_Write data b = ub_PushData data b"

text \<open>The bytes copied out; their number is the value returned.\<close>

definition ub_PeekDataAt :: "nat \<Rightarrow> nat \<Rightarrow> UnboundedBuffer \<Rightarrow> byte list res" where
  "ub_PeekDataAt nSize offset b =
     (let dataSize = ub_ReadableSize b in
      if nSize = 0 \<or> dataSize \<le> offset then Inr []
      else
        let nSize = (if size_add nSize offset > dataSize then size_sub dataSize offset else nSize) in
        sliceR (ub_buffer b) (ub_readPos b + offset) nSize)"

definition ub_PeekData :: "nat \<Rightarrow> UnboundedBuffer \<Rightarrow> (byte list \<times> UnboundedBuffer) res" where
  "ub_PeekData nSize b =
     bindR (ub_PeekDataAt nSize 0 b) (\<lambda>bs. Inr (bs, ub_AdjustReadPtr (length bs) b))"

text \<open>\<open>cap\<close> is \<open>buffer_.capacity()\<close>, which the library chooses.\<close>

definition ub_Shrink :: "nat \<Rightarrow> bool \<Rightarrow> UnboundedBuffer \<Rightarrow> UnboundedBuffer res" where
  "ub_Shrink cap tight b =
     bindR (assertR (cap = length (ub_buffer b)) AssertFailed) (\<lambda>_.
     if ub_buffer b = [] then
       bindR (assertR (ub_readPos b = 0) AssertFailed) (\<lambda>_.
       bindR (assertR (ub_writePos b = 0) AssertFailed) (\<lambda>_. Inr b))
     else
       let oldCap = length (ub_buffer b); dataSize = ub_ReadableSize b in
       if \<not> tight \<and> dataSize > oldCap div 2 then Inr b
       else bindR (sliceR (ub_buffer b) (ub_readPos b) dataSize) (\<lambda>tmp.
         Inr (b\<lparr>ub_buffer := tmp, ub_readPos := 0, ub_writePos := dataSize\<rparr>)))"

definition ub_Clear :: "UnboundedBuffer \<Rightarrow> UnboundedBuffer" where
  "ub_Clear b = b\<lparr>ub_readPos := 0, ub_writePos := 0\<rparr>"

definition ub_Swap :: "UnboundedBuffer \<Rightarrow> UnboundedBuffer \<Rightarrow> UnboundedBuffer \<times> UnboundedBuffer" where
  "ub_Swap b c =
     (b\<lparr>ub_buffer := ub_buffer c, ub_readPos := ub_readPos c, ub_writePos := ub_writePos c\<rparr>,
      c\<lparr>ub_buffer := ub_buffer b, ub_readPos := ub_readPos b, ub_writePos := ub_writePos b\<rparr>)"

section \<open>Invariant and content\<close>

definition ub_inv :: "UnboundedBuffer \<Rightarrow> bool" where
  "ub_inv b \<longleftrightarrow> ub_readPos b \<le> ub_writePos b \<and> ub_writePos b \<le> length (ub_buffer b)
     \<and> length (ub_buffer b) < 2 ^ 64"

definition ub_content :: "UnboundedBuffer \<Rightarrow> byte list" where
  "ub_content b = take (ub_writePos b - ub_readPos b) (drop (ub_readPos b) (ub_buffer b))"

lemma ub_inv_new [simp]: "ub_inv UnboundedBuffer_new" "ub_content UnboundedBuffer_new = []"
  by (simp_all add: ub_inv_def UnboundedBuffer_new_def ub_content_def)

lemma ub_ReadableSize_eq: "ub_inv b \<Longrightarrow> ub_ReadableSize b = ub_writePos b - ub_readPos b"
  by (simp add: ub_inv_def ub_ReadableSize_def size_sub_le)

lemma ub_WriteableSize_eq: "ub_inv b \<Longrightarrow> ub_WriteableSize b = length (ub_buffer b) - ub_writePos b"
  by (simp add: ub_inv_def ub_WriteableSize_def size_sub_le)

lemma length_ub_content: "ub_inv b \<Longrightarrow> length (ub_content b) = ub_ReadableSize b"
  by (simp add: ub_ReadableSize_eq) (auto simp: ub_inv_def ub_content_def)

lemma ub_content_rebased:
  "ub_content (b\<lparr>ub_buffer := xs @ ys, ub_readPos := 0, ub_writePos := length xs\<rparr>) = xs"
  "ub_content (b\<lparr>ub_buffer := xs, ub_readPos := 0, ub_writePos := length xs\<rparr>) = xs"
  by (simp_all add: ub_content_def)

lemma ub_IsEmpty_eq: "ub_inv b \<Longrightarrow> ub_IsEmpty b \<longleftrightarrow> ub_content b = []"
  using length_ub_content by (metis length_0_conv ub_IsEmpty_def)

text \<open>
  The growth loop keeps positions and data, and leaves room for the request or reaches the
  limit. Below \<open>2^63\<close> the size grows by half, so it stays below \<open>2^64\<close>.
\<close>

lemma assure_loop_props:
  fixes n :: nat
  assumes "ub_inv b" "maxSize = length (ub_buffer b)"
  defines "b' \<equiv> assure_loop n maxSize b"
  shows "ub_inv b' \<and> ub_readPos b' = ub_readPos b \<and> ub_writePos b' = ub_writePos b
    \<and> take (ub_writePos b) (ub_buffer b') = take (ub_writePos b) (ub_buffer b)
    \<and> (n \<le> ub_WriteableSize b' + ub_readPos b' \<or> MAX_BUFFER_SIZE < length (ub_buffer b'))"
  using assms(1,2) unfolding b'_def
proof (induction n maxSize b rule: assure_loop.induct)
  case (1 n m b)
  note inv = \<open>ub_inv b\<close> and m = \<open>m = length (ub_buffer b)\<close>
  have grow: "ub_inv (b\<lparr>ub_buffer := resize k (ub_buffer b)\<rparr>)"
    "take (ub_writePos b) (resize k (ub_buffer b)) = take (ub_writePos b) (ub_buffer b)"
    if "length (ub_buffer b) \<le> k" "k < 2 ^ 64" for k
    using inv that by (simp_all add: ub_inv_def take_resize)
  show ?case
  proof (cases "n > ub_WriteableSize b + ub_readPos b")
    case more: True
    show ?thesis
    proof (cases "m < 64")
      case True
      then have eq: "assure_loop n m b = assure_loop n 64 (b\<lparr>ub_buffer := resize 64 (ub_buffer b)\<rparr>)"
        using more by (subst assure_loop.simps) simp
      show ?thesis unfolding eq using "1.IH"(1) [OF more True] grow [of 64] m True by auto
    next
      case m64: False
      show ?thesis
      proof (cases "m \<le> MAX_BUFFER_SIZE")
        case True
        then have "m + m div 2 < 2 ^ 64" by (simp add: MAX_BUFFER_SIZE_def)
        moreover have eq: "assure_loop n m b =
            assure_loop n (m + m div 2) (b\<lparr>ub_buffer := resize (m + m div 2) (ub_buffer b)\<rparr>)"
          using more m64 True by (subst assure_loop.simps) simp
        ultimately show ?thesis unfolding eq
          using "1.IH"(2) [OF more m64 True] grow [of "m + m div 2"] m by auto
      next
        case False
        then have eq: "assure_loop n m b = b" using more m64 by (subst assure_loop.simps) simp
        show ?thesis unfolding eq using False inv m by simp
      qed
    qed
  next
    case False
    then have eq: "assure_loop n m b = b" by (subst assure_loop.simps) simp
    show ?thesis unfolding eq using False inv by simp
  qed
qed

lemma ub_AssureSpace_inv:
  fixes n :: nat
  assumes "ub_inv b"
  defines "b' \<equiv> ub_AssureSpace n b"
  shows "ub_inv b' \<and> ub_content b' = ub_content b \<and>
    (length (ub_content b) + n \<le> MAX_BUFFER_SIZE \<longrightarrow> n \<le> ub_WriteableSize b')"
proof (cases "n \<le> ub_WriteableSize b")
  case True
  with assms show ?thesis by (simp add: ub_AssureSpace_def)
next
  case False
  define c where "c = assure_loop n (length (ub_buffer b)) b"
  have c: "ub_inv c" "ub_readPos c = ub_readPos b" "ub_writePos c = ub_writePos b"
    "take (ub_writePos b) (ub_buffer c) = take (ub_writePos b) (ub_buffer b)"
    "n \<le> ub_WriteableSize c + ub_readPos c \<or> MAX_BUFFER_SIZE < length (ub_buffer c)"
    using assure_loop_props [OF assms(1) refl, of n, folded c_def] by blast+
  have cont: "ub_content c = ub_content b"
    using c(2,3,4) by (simp add: ub_content_def drop_take [symmetric])
  have len: "length (ub_content c) = ub_writePos c - ub_readPos c"
    using c(1) by (simp add: length_ub_content ub_ReadableSize_eq)
  have room: "n \<le> length (ub_buffer c) - ub_writePos c + ub_readPos c" if "length (ub_content b) + n \<le> MAX_BUFFER_SIZE"
    using c(5) that c(1) len cont by (auto simp: ub_WriteableSize_eq ub_inv_def)
  show ?thesis
  proof (cases "ub_readPos c > 0")
    case True
    then have b': "b' = c\<lparr>ub_buffer := ub_content c @ drop (length (ub_content c)) (ub_buffer c),
        ub_readPos := 0, ub_writePos := length (ub_content c)\<rparr>"
      using False c(1) length_ub_content [OF c(1)]
      by (simp add: b'_def ub_AssureSpace_def Let_def flip: c_def)
        (simp add: ub_content_def ub_ReadableSize_eq)
    have "length (ub_content c) \<le> length (ub_buffer c)" using c(1) len by (auto simp: ub_inv_def)
    then have inv: "ub_inv b'" using c(1) unfolding b' by (simp add: ub_inv_def)
    moreover have "ub_content b' = ub_content c" unfolding b' by (simp only: ub_content_rebased)
    moreover have "n \<le> ub_WriteableSize b'" if "length (ub_content b) + n \<le> MAX_BUFFER_SIZE"
      using room [OF that] len c(1) \<open>length (ub_content c) \<le> _\<close>
      unfolding ub_WriteableSize_eq [OF inv] unfolding b' by (auto simp: ub_inv_def)
    ultimately show ?thesis using cont by simp
  next
    case rp: False
    then have "b' = c" using False by (simp add: b'_def ub_AssureSpace_def Let_def flip: c_def)
    with c(1) cont room rp show ?thesis by (simp add: ub_WriteableSize_eq)
  qed
qed

lemma ub_AssureSpace_props:
  assumes "ub_inv b" "length (ub_content b) + n \<le> MAX_BUFFER_SIZE"
  shows "ub_inv (ub_AssureSpace n b) \<and> ub_content (ub_AssureSpace n b) = ub_content b \<and>
    n \<le> ub_WriteableSize (ub_AssureSpace n b)"
  using ub_AssureSpace_inv [OF assms(1), of n] assms(2) by simp

text \<open>A push that ends keeps the invariant, whatever the size.\<close>

lemma ub_PushData_keeps:
  assumes "ub_PushData data b = Inr (n, b')" "ub_inv b"
  shows "ub_inv b'"
proof (cases "data = [] \<or> ub_ReadableSize b = MAX_BUFFER_SIZE")
  case True
  have "size_add (ub_writePos b) 0 = ub_writePos b"
    using assms(2) by (intro size_add_small [of _ 0, simplified]) (auto simp: ub_inv_def)
  moreover have "ub_PushDataAt data 0 b = Inr (0, b)" using True by (auto simp: ub_PushDataAt_def)
  ultimately show ?thesis
    using assms by (auto simp: ub_PushData_def ub_AdjustWritePtr_def ub_inv_def)
next
  case False
  let ?c = "ub_AssureSpace (size_add (length data) 0) b"
  have c: "ub_inv ?c" using ub_AssureSpace_inv [OF assms(2)] by simp
  have fit: "ub_writePos ?c + length data \<le> length (ub_buffer ?c)"
    and b': "b' = ub_AdjustWritePtr (length data) (?c\<lparr>ub_buffer := take (ub_writePos ?c) (ub_buffer ?c) @ data @
      drop (ub_writePos ?c + length data) (ub_buffer ?c)\<rparr>)"
    using assms(1) False
    by (auto simp: ub_PushData_def ub_PushDataAt_def Let_def copy_into_def bindR_eq_Inr split: if_splits)
  have "size_add (ub_writePos ?c) (length data) = ub_writePos ?c + length data"
    using c fit by (intro size_add_small) (auto simp: ub_inv_def)
  with c fit show ?thesis unfolding b' by (auto simp: ub_AdjustWritePtr_def ub_inv_def)
qed

lemma ub_PushData_ok:
  assumes "ub_inv b" "length (ub_content b) + length data \<le> MAX_BUFFER_SIZE"
  shows "\<exists>b'. ub_PushData data b = Inr (length data, b') \<and> ub_inv b' \<and> ub_content b' = ub_content b @ data"
proof (cases "data = []")
  case True
  have "size_add (ub_writePos b) 0 = ub_writePos b"
    using assms(1) by (intro size_add_small [of _ 0, simplified]) (auto simp: ub_inv_def)
  with True assms(1) show ?thesis
    by (simp add: ub_PushData_def ub_PushDataAt_def ub_AdjustWritePtr_def)
next
  case False
  define c where "c = ub_AssureSpace (length data) b"
  have c: "ub_inv c" "ub_content c = ub_content b" "length data \<le> ub_WriteableSize c"
    using ub_AssureSpace_props [OF assms] by (simp_all add: c_def)
  have room: "ub_writePos c + length data \<le> length (ub_buffer c)" "length (ub_buffer c) < 2 ^ 64"
    using c(1,3) by (auto simp: ub_WriteableSize_eq ub_inv_def)
  have "0 < length data" using False by simp
  then have full: "ub_ReadableSize b \<noteq> MAX_BUFFER_SIZE"
    using assms by (simp add: length_ub_content del: length_greater_0_conv)
  have sz: "size_add (length data) 0 = length data" "size_add (ub_writePos c) (length data) = ub_writePos c + length data"
    using room by (simp_all add: size_add_def)
  let ?b = "c\<lparr>ub_buffer := take (ub_writePos c) (ub_buffer c) @ data @ drop (ub_writePos c + length data) (ub_buffer c),
      ub_writePos := ub_writePos c + length data\<rparr>"
  have "ub_PushData data b = Inr (length data, ?b)"
    using False full room c(3) \<open>0 < length data\<close>
    by (simp del: length_greater_0_conv add: ub_PushData_def ub_PushDataAt_def sz ub_AdjustWritePtr_def Let_def flip: c_def)
  moreover have "ub_inv ?b" using c(1) room by (auto simp: ub_inv_def)
  moreover have "ub_content ?b = ub_content c @ data"
  proof -
    have "ub_readPos c \<le> ub_writePos c" using c(1) by (simp add: ub_inv_def)
    moreover have "length (take (ub_writePos c) (ub_buffer c)) = ub_writePos c" using room by simp
    ultimately show ?thesis by (simp add: ub_content_def drop_take)
  qed
  ultimately show ?thesis using c(2) by auto
qed

lemma ub_PeekDataAt_ok:
  assumes "ub_inv b" "offset + n < 2 ^ 64"
  shows "ub_PeekDataAt n offset b = Inr (take n (drop offset (ub_content b)))"
proof (cases "n = 0 \<or> ub_ReadableSize b \<le> offset")
  case True
  with assms length_ub_content [OF assms(1)] show ?thesis by (auto simp: ub_PeekDataAt_def)
next
  case False
  have r: "ub_ReadableSize b = ub_writePos b - ub_readPos b" by (rule ub_ReadableSize_eq [OF assms(1)])
  define k where "k = (if n + offset > ub_ReadableSize b then ub_ReadableSize b - offset else n)"
  have "size_sub (ub_ReadableSize b) offset = ub_ReadableSize b - offset"
    using False assms(1) r by (intro size_sub_le) (auto simp: ub_inv_def)
  moreover have "size_add n offset = n + offset" using assms(2) by (simp add: size_add_def)
  moreover have "ub_readPos b + offset + k \<le> length (ub_buffer b)"
    using False assms(1) r by (auto simp: k_def ub_inv_def)
  ultimately have "ub_PeekDataAt n offset b = Inr (take k (drop (ub_readPos b + offset) (ub_buffer b)))"
    using False by (auto simp: ub_PeekDataAt_def Let_def k_def split: if_splits)
  moreover have "take k (drop (ub_readPos b + offset) (ub_buffer b)) = take n (drop offset (ub_content b))"
    using False r by (auto simp: ub_content_def k_def drop_take min_def add.commute)
  ultimately show ?thesis by simp
qed

lemma ub_PeekData_ok:
  assumes "ub_inv b" "n < 2 ^ 64"
  shows "\<exists>b'. ub_PeekData n b = Inr (take n (ub_content b), b') \<and> ub_inv b' \<and> ub_content b' = drop n (ub_content b)"
proof -
  define k where "k = length (take n (ub_content b))"
  have "k \<le> ub_writePos b - ub_readPos b"
    using assms(1) by (simp add: k_def length_ub_content ub_ReadableSize_eq)
  then have k: "ub_readPos b + k \<le> ub_writePos b" using assms(1) by (auto simp: ub_inv_def)
  then have a: "ub_AdjustReadPtr k b = b\<lparr>ub_readPos := ub_readPos b + k\<rparr>"
    using assms(1) by (simp add: ub_AdjustReadPtr_def ub_inv_def size_add_small)
  have "drop k (ub_content b) = drop n (ub_content b)" by (simp add: k_def min_def)
  moreover have "ub_content (ub_AdjustReadPtr k b) = drop k (ub_content b)"
    using k by (simp add: a ub_content_def drop_take add.commute)
  moreover have "ub_inv (ub_AdjustReadPtr k b)" using assms(1) k by (simp add: a ub_inv_def)
  ultimately show ?thesis
    using ub_PeekDataAt_ok [of b 0 n] assms by (simp add: ub_PeekData_def k_def)
qed

lemma ub_Clear_ok [simp]: "ub_inv b \<Longrightarrow> ub_inv (ub_Clear b)" "ub_content (ub_Clear b) = []"
  by (simp_all add: ub_inv_def ub_Clear_def ub_content_def)

lemma ub_Swap_eq: "ub_Swap b c = (c, b)" for b c :: UnboundedBuffer
  by (simp add: ub_Swap_def)

lemma ub_AdjustReadPtr_ok:
  assumes "ub_inv b" "n \<le> length (ub_content b)"
  shows "ub_inv (ub_AdjustReadPtr n b)" "ub_content (ub_AdjustReadPtr n b) = drop n (ub_content b)"
proof -
  have k: "ub_readPos b + n \<le> ub_writePos b"
    using assms by (simp add: length_ub_content ub_ReadableSize_eq) (auto simp: ub_inv_def)
  then have a: "ub_AdjustReadPtr n b = b\<lparr>ub_readPos := ub_readPos b + n\<rparr>"
    using assms(1) by (simp add: ub_AdjustReadPtr_def ub_inv_def size_add_small)
  show "ub_inv (ub_AdjustReadPtr n b)" using assms(1) k by (simp add: a ub_inv_def)
  show "ub_content (ub_AdjustReadPtr n b) = drop n (ub_content b)"
    using k by (simp add: a ub_content_def drop_take add.commute)
qed

lemma ub_Shrink_ok:
  assumes "ub_inv b" "cap = length (ub_buffer b)"
  shows "\<exists>b'. ub_Shrink cap tight b = Inr b' \<and> ub_inv b' \<and> ub_content b' = ub_content b
    \<and> (tight \<longrightarrow> length (ub_buffer b') = length (ub_content b))"
proof (cases "ub_buffer b = []")
  case True
  then have "ub_readPos b = 0" "ub_writePos b = 0" using assms(1) by (auto simp: ub_inv_def)
  with True assms show ?thesis by (simp add: ub_Shrink_def ub_content_def)
next
  case False
  have r: "ub_ReadableSize b = ub_writePos b - ub_readPos b" by (rule ub_ReadableSize_eq [OF assms(1)])
  then have s: "ub_readPos b + ub_ReadableSize b \<le> length (ub_buffer b)"
    using assms(1) by (auto simp: ub_inv_def)
  show ?thesis
  proof (cases "\<not> tight \<and> ub_ReadableSize b > length (ub_buffer b) div 2")
    case True
    with False assms show ?thesis by (simp add: ub_Shrink_def)
  next
    case shrink: False
    let ?b = "b\<lparr>ub_buffer := ub_content b, ub_readPos := 0, ub_writePos := length (ub_content b)\<rparr>"
    have "ub_Shrink cap tight b = Inr ?b"
      using False shrink assms s length_ub_content [OF assms(1)]
      by (auto simp: ub_Shrink_def Let_def ub_content_def r)
    moreover have "ub_inv ?b" using assms(1) length_ub_content [OF assms(1)] s by (simp add: ub_inv_def)
    moreover have "ub_content ?b = ub_content b" by (simp only: ub_content_rebased)
    ultimately show ?thesis by auto
  qed
qed

section \<open>The buffer is a byte queue\<close>

definition ub_push :: "UnboundedBuffer \<Rightarrow> byte list \<Rightarrow> UnboundedBuffer res" where
  "ub_push b xs = bindR (ub_PushData xs b) (\<lambda>(n, b). Inr b)"

definition ub_pop :: "UnboundedBuffer \<Rightarrow> nat \<Rightarrow> (byte list \<times> UnboundedBuffer) res" where
  "ub_pop b n = ub_PeekData n b"

lemma ub_content_bound: "ub_inv b \<Longrightarrow> length (ub_content b) < 2 ^ 64"
  by (simp add: length_ub_content ub_ReadableSize_eq) (auto simp: ub_inv_def)

interpretation ub: byte_queue ub_push ub_pop ub_content ub_inv "\<lambda>_. MAX_BUFFER_SIZE"
proof
  fix b :: UnboundedBuffer and xs :: "byte list"
  assume "ub_inv b" "length (ub_content b) + length xs \<le> MAX_BUFFER_SIZE"
  from ub_PushData_ok [OF this] show "\<exists>b'. ub_push b xs = Inr b' \<and> ub_inv b' \<and>
      ub_content b' = ub_content b @ xs \<and> MAX_BUFFER_SIZE = MAX_BUFFER_SIZE"
    by (auto simp: ub_push_def)
next
  fix b n
  assume b: "ub_inv b" "n \<le> length (ub_content b)"
  then have "n < 2 ^ 64" using ub_content_bound [of b] by simp
  from ub_PeekData_ok [OF b(1) this] show "\<exists>b'. ub_pop b n = Inr (take n (ub_content b), b') \<and>
      ub_inv b' \<and> ub_content b' = drop n (ub_content b) \<and> MAX_BUFFER_SIZE = MAX_BUFFER_SIZE"
    by (auto simp: ub_pop_def)
qed

section \<open>Properties\<close>

text \<open>C22: The growing buffer is a FIFO of bytes: for every sequence of pushes and pops that
  never asks for more bytes than there are nor holds more than \<open>MAX_BUFFER_SIZE\<close>, no
  assertion fails, no access leaves the block, and what the pops delivered followed by what
  is left is what was there followed by what was pushed.\<close>

theorem unbounded_buffer_fifo:
  assumes "ub_inv b" "ub.allowed MAX_BUFFER_SIZE (length (ub_content b)) ops"
  shows "\<exists>xss b'. run_ops ub_push ub_pop ops b = Inr (xss, b') \<and> ub_inv b'
    \<and> concat xss @ ub_content b' = ub_content b @ pushed ops"
  using assms by (rule ub.fifo)

theorem unbounded_buffer_fifo_witness:
  "\<exists>xss b'. run_ops ub_push ub_pop [Push [1, 2], Pop 1, Push [3]] UnboundedBuffer_new = Inr (xss, b')
    \<and> concat xss @ ub_content b' = [1, 2, 3]"
  using unbounded_buffer_fifo [of UnboundedBuffer_new "[Push [1, 2], Pop 1, Push [3]]"]
  by (auto simp: MAX_BUFFER_SIZE_def)

text \<open>\<open>Shrink\<close> loses no byte: it keeps the content and the invariant, and a tight shrink
  leaves a block of exactly the content's size. The premise is the assertion of the code
  that the block fills its capacity.\<close>

lemma shrink_keeps_content:
  assumes "ub_inv b" "cap = length (ub_buffer b)"
  shows "\<exists>b'. ub_Shrink cap tight b = Inr b' \<and> ub_inv b' \<and> ub_content b' = ub_content b
    \<and> (tight \<longrightarrow> length (ub_buffer b') = length (ub_content b))"
  using assms by (rule ub_Shrink_ok)

end
