(* ===== verification/Async.thy ===== *)
theory Async
  imports Circular Unbounded
begin

text \<open>
  \<open>network/async_buffer.cc\<close>: the send queue of a connection. The event loop writes replies
  into a ring and, when the ring is too small, into a growing back buffer behind a lock; the
  sending thread takes from the temporary buffer, then the ring, then swaps the back buffer
  in. First the operations as they run alone, with the proof that they form a byte queue;
  then the two threads as a step relation, with one step per access to the shared state.
  An \<open>iovec\<close> of the caller's memory is the block of bytes it shows.
\<close>

section \<open>State and operations\<close>

record AsyncBuffer =
  ab_buffer :: CircularBuffer
  ab_tmpBuf :: UnboundedBuffer
  ab_backBytes :: nat
  ab_backBuf :: UnboundedBuffer

definition AsyncBuffer_new :: "nat \<Rightarrow> AsyncBuffer res" where
  "AsyncBuffer_new n =
     bindR (Buffer_new n) (\<lambda>b. Inr \<lparr>ab_buffer = b, ab_tmpBuf = UnboundedBuffer_new,
       ab_backBytes = 0, ab_backBuf = UnboundedBuffer_new\<rparr>)"

text \<open>\<open>backBytes_ > 0 || buffer_.WriteableSize() < len\<close>, tested before the lock and under it.\<close>

definition ab_full :: "nat \<Rightarrow> AsyncBuffer \<Rightarrow> bool" where
  "ab_full len a \<longleftrightarrow> ab_backBytes a > 0 \<or> cb_WriteableSize (ab_buffer a) < len"

text \<open>The body of the locked section.\<close>

definition ab_write_back :: "byte list list \<Rightarrow> nat \<Rightarrow> AsyncBuffer \<Rightarrow> AsyncBuffer res" where
  "ab_write_back bufs len a =
     bindR (foldR (\<lambda>d b. bindR (ub_PushData d b) (\<lambda>(_, b). Inr b)) bufs (ab_backBuf a)) (\<lambda>b.
     let a = a\<lparr>ab_backBuf := b, ab_backBytes := size_add (ab_backBytes a) len\<rparr> in
     bindR (assertR (ab_backBytes a = ub_ReadableSize (ab_backBuf a)) AssertFailed) (\<lambda>_. Inr a))"

text \<open>The part after the locked section.\<close>

definition ab_write_ring :: "byte list list \<Rightarrow> nat \<Rightarrow> AsyncBuffer \<Rightarrow> AsyncBuffer res" where
  "ab_write_ring bufs len a =
     bindR (assertR (ab_backBytes a = 0 \<and> cb_WriteableSize (ab_buffer a) \<ge> len) AssertFailed) (\<lambda>_.
     bindR (foldR (\<lambda>d c. bindR (cb_PushData d c) (\<lambda>(_, c). Inr c)) bufs (ab_buffer a)) (\<lambda>c.
       Inr (a\<lparr>ab_buffer := c\<rparr>)))"

definition ab_write_locked :: "byte list list \<Rightarrow> nat \<Rightarrow> AsyncBuffer \<Rightarrow> AsyncBuffer res" where
  "ab_write_locked bufs len a =
     (if ab_full len a then ab_write_back bufs len a else ab_write_ring bufs len a)"

definition ab_Write :: "byte list list \<Rightarrow> AsyncBuffer \<Rightarrow> AsyncBuffer res" where
  "ab_Write bufs a =
     bindR (TotalBytes (map length bufs)) (\<lambda>len.
       if ab_full len a then ab_write_locked bufs len a else ab_write_ring bufs len a)"

definition ab_Write_bytes :: "byte list \<Rightarrow> AsyncBuffer \<Rightarrow> AsyncBuffer res" where
  "ab_Write_bytes data a = ab_Write [data] a"

text \<open>The bytes of \<open>tmpBuf_\<close> as one block: \<open>ReadAddr()\<close> and \<open>ReadableSize()\<close>.\<close>

definition ub_block :: "UnboundedBuffer \<Rightarrow> byte list list res" where
  "ub_block b = bindR (sliceR (ub_buffer b) (ub_readPos b) (ub_ReadableSize b)) (\<lambda>bs. Inr [bs])"

text \<open>
  \<open>locked\<close> is the answer of \<open>try_lock\<close>. The result is what the blocks handed out show.
\<close>

definition ab_ProcessBuffer :: "bool \<Rightarrow> AsyncBuffer \<Rightarrow> (byte list list \<times> AsyncBuffer) res" where
  "ab_ProcessBuffer locked a =
     (if \<not> ub_IsEmpty (ab_tmpBuf a) then
        bindR (ub_block (ab_tmpBuf a)) (\<lambda>vs. Inr (vs, a))
      else if \<not> cb_IsEmpty (ab_buffer a) then
        let nLen = cb_ReadableSize (ab_buffer a) in
        bindR (cb_GetDatum nLen 0 (ab_buffer a)) (\<lambda>vs.
        bindR (TotalBytes (map snd vs)) (\<lambda>n.
        bindR (assertR (nLen = n) AssertFailed) (\<lambda>_.
          Inr (map (iov_bytes (cb_buffer (ab_buffer a))) vs, a))))
      else if ab_backBytes a > 0 \<and> locked then
        let (tmp, bk) = ub_Swap (ab_tmpBuf a) (ab_backBuf a);
            a = a\<lparr>ab_backBytes := 0, ab_tmpBuf := tmp, ab_backBuf := bk\<rparr>
        in bindR (ub_block (ab_tmpBuf a)) (\<lambda>vs. Inr (vs, a))
      else Inr ([], a))"

definition ab_Skip :: "nat \<Rightarrow> AsyncBuffer \<Rightarrow> AsyncBuffer res" where
  "ab_Skip n a =
     (if \<not> ub_IsEmpty (ab_tmpBuf a) then
        bindR (assertR (n \<le> ub_ReadableSize (ab_tmpBuf a)) AssertFailed) (\<lambda>_.
          Inr (a\<lparr>ab_tmpBuf := ub_AdjustReadPtr n (ab_tmpBuf a)\<rparr>))
      else
        bindR (assertR (cb_ReadableSize (ab_buffer a) \<ge> n) AssertFailed) (\<lambda>_.
          Inr (a\<lparr>ab_buffer := cb_AdjustReadPtr n (ab_buffer a)\<rparr>)))"

section \<open>Invariant and content\<close>

definition ab_inv :: "AsyncBuffer \<Rightarrow> bool" where
  "ab_inv a \<longleftrightarrow> cb_inv (ab_buffer a) \<and> ub_inv (ab_tmpBuf a) \<and> ub_inv (ab_backBuf a)
     \<and> ab_backBytes a = length (ub_content (ab_backBuf a))"

text \<open>The oldest bytes are in the temporary buffer, the newest in the back buffer.\<close>

definition ab_content :: "AsyncBuffer \<Rightarrow> byte list" where
  "ab_content a = ub_content (ab_tmpBuf a) @ cb_content (ab_buffer a) @ ub_content (ab_backBuf a)"

lemma TotalBytes_eq:
  assumes "length ls \<le> 16" "sum_list ls < 2 ^ 64"
  shows "TotalBytes ls = Inr (sum_list ls)"
proof -
  have "fold (\<lambda>l n. size_add n l) ls k = k + sum_list ls" if "k + sum_list ls < 2 ^ 64" for k
    using that by (induction ls arbitrary: k) (simp_all add: size_add_small add.assoc)
  from this [of 0] assms show ?thesis by (simp add: TotalBytes_def)
qed

lemma sum_length_concat: "sum_list (map length bufs) = length (concat bufs)"
  by (simp add: length_concat)

text \<open>Pushing a sequence of blocks pushes their concatenation.\<close>

lemma push_all_back:
  assumes "ub_inv b" "length (ub_content b) + length (concat bufs) \<le> MAX_BUFFER_SIZE"
  shows "\<exists>b'. foldR (\<lambda>d b. bindR (ub_PushData d b) (\<lambda>(_, b). Inr b)) bufs b = Inr b' \<and> ub_inv b'
    \<and> ub_content b' = ub_content b @ concat bufs"
  using assms
proof (induction bufs arbitrary: b)
  case (Cons d bufs)
  obtain b1 where b1: "ub_PushData d b = Inr (length d, b1)" "ub_inv b1" "ub_content b1 = ub_content b @ d"
    using ub_PushData_ok [of b d] Cons.prems by auto
  with Cons.IH [of b1] Cons.prems show ?case by auto
qed auto

lemma push_all_ring:
  assumes "cb_inv c" "length (concat bufs) \<le> cb_WriteableSize c"
  shows "\<exists>c'. foldR (\<lambda>d c. bindR (cb_PushData d c) (\<lambda>(_, c). Inr c)) bufs c = Inr c' \<and> cb_inv c'
    \<and> cb_content c' = cb_content c @ concat bufs \<and> cb_maxSize c' = cb_maxSize c"
  using assms
proof (induction bufs arbitrary: c)
  case (Cons d bufs)
  obtain c1 where c1: "cb_PushData d c = Inr (True, c1)" "cb_inv c1" "cb_content c1 = cb_content c @ d"
    "cb_maxSize c1 = cb_maxSize c"
    using cb_PushData_ok [of c d] Cons.prems by auto
  have "length (concat bufs) \<le> cb_WriteableSize c1"
    using c1 Cons.prems length_cb_content [OF c1(2)] length_cb_content [OF Cons.prems(1)]
    by (simp add: cb_WriteableSize_eq)
  with Cons.IH [of c1] c1 show ?case by auto
qed auto

lemma ab_write_back_ok:
  assumes "ab_inv a" "length (ub_content (ab_backBuf a)) + length (concat bufs) \<le> MAX_BUFFER_SIZE"
  shows "\<exists>a'. ab_write_back bufs (length (concat bufs)) a = Inr a' \<and> ab_inv a'
    \<and> ab_content a' = ab_content a @ concat bufs \<and> ab_buffer a' = ab_buffer a \<and> ab_tmpBuf a' = ab_tmpBuf a"
proof -
  from assms obtain b where b: "ub_inv b" "ub_content b = ub_content (ab_backBuf a) @ concat bufs"
    "foldR (\<lambda>d b. bindR (ub_PushData d b) (\<lambda>(_, b). Inr b)) bufs (ab_backBuf a) = Inr b"
    using push_all_back unfolding ab_inv_def by blast
  have "size_add (ab_backBytes a) (length (concat bufs)) = length (ub_content b)"
    using assms b by (simp add: ab_inv_def size_add_def MAX_BUFFER_SIZE_def)
  with b assms(1) show ?thesis
    by (simp add: ab_write_back_def Let_def ab_inv_def ab_content_def flip: length_ub_content)
qed

lemma ab_write_ring_ok:
  assumes "ab_inv a" "ab_backBytes a = 0" "length (concat bufs) \<le> cb_WriteableSize (ab_buffer a)"
  shows "\<exists>a'. ab_write_ring bufs (length (concat bufs)) a = Inr a' \<and> ab_inv a'
    \<and> ab_content a' = ab_content a @ concat bufs \<and> ab_tmpBuf a' = ab_tmpBuf a
    \<and> cb_content (ab_buffer a') = cb_content (ab_buffer a) @ concat bufs
    \<and> cb_maxSize (ab_buffer a') = cb_maxSize (ab_buffer a)"
proof -
  obtain c where "cb_inv c" "cb_content c = cb_content (ab_buffer a) @ concat bufs"
    "foldR (\<lambda>d c. bindR (cb_PushData d c) (\<lambda>(_, c). Inr c)) bufs (ab_buffer a) = Inr c"
    "cb_maxSize c = cb_maxSize (ab_buffer a)"
    using push_all_ring [of "ab_buffer a" bufs] assms unfolding ab_inv_def by blast
  with assms show ?thesis by (simp add: ab_write_ring_def ab_inv_def ab_content_def)
qed

lemma ab_write_locked_ok:
  assumes "ab_inv a" "length (ub_content (ab_backBuf a)) + length (concat bufs) \<le> MAX_BUFFER_SIZE"
  shows "\<exists>a'. ab_write_locked bufs (length (concat bufs)) a = Inr a' \<and> ab_inv a'
    \<and> ab_content a' = ab_content a @ concat bufs \<and> ab_tmpBuf a' = ab_tmpBuf a
    \<and> cb_maxSize (ab_buffer a') = cb_maxSize (ab_buffer a)
    \<and> (\<exists>q. cb_content (ab_buffer a') = cb_content (ab_buffer a) @ q)"
proof (cases "ab_full (length (concat bufs)) a")
  case True
  with ab_write_back_ok [OF assms] show ?thesis by (auto simp: ab_write_locked_def)
next
  case False
  with ab_write_ring_ok [OF assms(1), of bufs] show ?thesis
    by (auto simp: ab_write_locked_def ab_full_def)
qed

text \<open>A write that ends keeps the invariant, whatever the size.\<close>

lemma ab_Write_keeps:
  assumes "ab_Write_bytes data a = Inr a'" "ab_inv a" "length data < 2 ^ 64"
  shows "ab_inv a'"
proof -
  have len: "TotalBytes (map length [data]) = Inr (length data)" using assms(3) TotalBytes_eq [of "[length data]"] by simp
  show ?thesis
  proof (cases "ab_full (length data) a")
    case True
    with assms(1) len obtain m b where b: "ub_PushData data (ab_backBuf a) = Inr (m, b)"
      "size_add (ab_backBytes a) (length data) = ub_ReadableSize b"
      "a' = a\<lparr>ab_backBuf := b, ab_backBytes := ub_ReadableSize b\<rparr>"
      by (auto simp: ab_Write_bytes_def ab_Write_def ab_write_locked_def ab_write_back_def Let_def bindR_eq_Inr)
    have "ub_inv b" using ub_PushData_keeps [OF b(1)] assms(2) by (simp add: ab_inv_def)
    with b(3) assms(2) length_ub_content [of b] show ?thesis by (simp add: ab_inv_def)
  next
    case False
    with assms ab_write_ring_ok [OF assms(2), of "[data]"] len show ?thesis
      by (auto simp: ab_Write_bytes_def ab_Write_def ab_full_def)
  qed
qed

lemma ub_block_ok: "ub_inv b \<Longrightarrow> ub_block b = Inr [ub_content b]"
  by (auto simp: ub_block_def ub_content_def ub_ReadableSize_eq) (auto simp: ub_inv_def)

lemma ab_ProcessBuffer_ok:
  assumes "ab_inv a"
  shows "\<exists>vs a'. ab_ProcessBuffer locked a = Inr (vs, a') \<and> ab_inv a' \<and> ab_content a' = ab_content a
    \<and> ab_buffer a' = ab_buffer a
    \<and> (ub_content (ab_tmpBuf a') \<noteq> [] \<and> concat vs = ub_content (ab_tmpBuf a')
       \<or> ub_content (ab_tmpBuf a') = [] \<and> concat vs = cb_content (ab_buffer a'))
    \<and> length (ub_content (ab_backBuf a')) \<le> length (ub_content (ab_backBuf a))
    \<and> ab_backBytes a' \<le> ab_backBytes a
    \<and> (locked \<and> ab_content a \<noteq> [] \<longrightarrow> concat vs \<noteq> [])"
proof -
  note inv = assms [unfolded ab_inv_def]
  have e: "ub_IsEmpty (ab_tmpBuf a) \<longleftrightarrow> ub_content (ab_tmpBuf a) = []"
    "cb_IsEmpty (ab_buffer a) \<longleftrightarrow> cb_content (ab_buffer a) = []"
    using inv by (simp_all add: ub_IsEmpty_eq cb_IsEmpty_iff)
  consider (tmp) "ub_content (ab_tmpBuf a) \<noteq> []"
    | (ring) "ub_content (ab_tmpBuf a) = []" "cb_content (ab_buffer a) \<noteq> []"
    | (spill) "ub_content (ab_tmpBuf a) = []" "cb_content (ab_buffer a) = []" "ab_backBytes a > 0" "locked"
    | (none) "ub_content (ab_tmpBuf a) = []" "cb_content (ab_buffer a) = []" "ab_backBytes a = 0 \<or> \<not> locked"
    by blast
  then show ?thesis
  proof cases
    case tmp
    with assms inv e show ?thesis by (simp add: ab_ProcessBuffer_def ub_block_ok)
  next
    case ring
    let ?c = "ab_buffer a"
    have c: "cb_inv ?c" using inv by simp
    have "cb_ReadableSize ?c < 2 ^ 64" using cb_ReadableSize_less [OF c] cb_invD(1) [OF c] by simp
    then obtain vs where vs: "cb_GetDatum (cb_ReadableSize ?c) 0 ?c = Inr vs" "length vs \<le> 2"
      "list_all (iov_ok ?c) vs" "gather (cb_buffer ?c) vs = cb_content ?c"
      using cb_GetDatum_ok [OF c, of "cb_ReadableSize ?c" 0] by (auto simp: length_cb_content [OF c])
    have "map snd vs = map length (map (iov_bytes (cb_buffer ?c)) vs)"
      using vs(3) by (auto simp: list_all_iff iov_ok_def iov_bytes_def)
    then have sum: "sum_list (map snd vs) = cb_ReadableSize ?c"
      using vs(4) length_cb_content [OF c] by (simp only: sum_length_concat gather_def)
    then have "TotalBytes (map snd vs) = Inr (cb_ReadableSize ?c)"
      using vs(2) \<open>cb_ReadableSize ?c < 2 ^ 64\<close> by (subst TotalBytes_eq) auto
    with ring vs assms e show ?thesis
      by (simp add: ab_ProcessBuffer_def gather_def del: concat_eq_Nil_conv Nil_eq_concat_conv)
  next
    case spill
    with inv e show ?thesis
      by (auto simp: ab_ProcessBuffer_def ub_Swap_eq ub_block_ok ab_content_def ab_inv_def)
  next
    case none
    with inv e assms show ?thesis by (auto simp: ab_ProcessBuffer_def ab_content_def)
  qed
qed

lemma ab_Skip_ok:
  assumes "ab_inv a" "n \<le> length (if ub_content (ab_tmpBuf a) \<noteq> [] then ub_content (ab_tmpBuf a) else cb_content (ab_buffer a))"
  shows "\<exists>a'. ab_Skip n a = Inr a' \<and> ab_inv a' \<and> ab_content a' = drop n (ab_content a)
    \<and> ab_backBytes a' = ab_backBytes a \<and> ab_backBuf a' = ab_backBuf a
    \<and> cb_WriteableSize (ab_buffer a) \<le> cb_WriteableSize (ab_buffer a')"
proof -
  note inv = assms(1) [unfolded ab_inv_def]
  have e: "ub_IsEmpty (ab_tmpBuf a) \<longleftrightarrow> ub_content (ab_tmpBuf a) = []"
    using inv by (simp add: ub_IsEmpty_eq)
  show ?thesis
  proof (cases "ub_content (ab_tmpBuf a) = []")
    case False
    with assms inv e show ?thesis
      by (simp add: ab_Skip_def ub_AdjustReadPtr_ok flip: length_ub_content) (auto simp: ab_inv_def ab_content_def ub_AdjustReadPtr_ok)
  next
    case True
    have c: "cb_inv (ab_buffer a)" "n \<le> length (cb_content (ab_buffer a))" using inv assms(2) True by simp_all
    note adj = cb_AdjustReadPtr_ok [OF c]
    have "cb_ReadableSize (cb_AdjustReadPtr n (ab_buffer a)) \<le> cb_ReadableSize (ab_buffer a)"
      using adj(2) length_cb_content [OF adj(1)] length_cb_content [OF c(1)] by simp
    then have "cb_WriteableSize (ab_buffer a) \<le> cb_WriteableSize (cb_AdjustReadPtr n (ab_buffer a))"
      by (simp add: cb_WriteableSize_eq c adj)
    with True assms inv e c adj show ?thesis
      by (auto simp: ab_Skip_def ab_content_def ab_inv_def length_cb_content)
  qed
qed

section \<open>A new buffer\<close>

lemma Buffer_new_ok:
  assumes "0 < n" "n \<le> 2 ^ 31"
  shows "\<exists>c. Buffer_new n = Inr c \<and> cb_inv c \<and> cb_content c = [] \<and> n \<le> cb_maxSize c"
proof -
  obtain k where k: "k \<le> 63" "RoundUp2Power n = Some (2 ^ k)" "n \<le> 2 ^ k" "1 < n \<longrightarrow> 2 ^ k < 2 * n"
    using RoundUp2Power_ok [of n] assms by auto
  have "2 ^ k < (2::nat) ^ 32"
  proof (cases "n = 1")
    case True
    with k(2) show ?thesis by (simp add: RoundUp2Power_def round_loop.simps)
  qed (use k(4) assms in auto)
  then have "k < 32" by (rule power_less_imp_less_exp [rotated]) simp
  moreover have "(2::nat) ^ k AND size_sub (2 ^ k) 1 = 0"
  proof -
    have "size_sub (2 ^ k) 1 = 2 ^ k - 1"
      using \<open>2 ^ k < 2 ^ 32\<close> by (intro size_sub_le) auto
    then show ?thesis by (simp only: and_power_mask) simp
  qed
  ultimately have "Buffer_new n = Inr \<lparr>cb_maxSize = 2 ^ k, cb_readPos = 0, cb_writePos = 0,
      cb_buffer = replicate (2 ^ k) 0\<rparr>" "k \<le> 31"
    by (simp_all add: Buffer_new_def k(2))
  with cb_inv_fresh [of k] k(3) show ?thesis by (simp add: cb_content_def)
qed

lemma AsyncBuffer_new_ok:
  assumes "0 < n" "n \<le> 2 ^ 31"
  shows "\<exists>a. AsyncBuffer_new n = Inr a \<and> ab_inv a \<and> ab_content a = []"
  using Buffer_new_ok [OF assms] by (auto simp: AsyncBuffer_new_def ab_inv_def ab_content_def)

section \<open>The writing and the sending thread\<close>

text \<open>
  The writer tests whether the ring will do, outside the lock (\<open>Begin\<close>), and then either
  pushes to the ring or takes the lock, tests again and pushes (\<open>Commit\<close>). The sender asks
  for the next blocks (\<open>Process\<close>, with the answer of \<open>try_lock\<close>) and, some time later, says
  how many bytes the socket took (\<open>Skipped\<close>). Any interleaving of the two is a run.
\<close>

datatype writer = WIdle | WRing "byte list list" | WLock "byte list list"

datatype sender = SIdle | SSending "byte list"

record async_sys =
  sy_buf :: AsyncBuffer
  sy_writer :: writer
  sy_sender :: sender
  sy_written :: "byte list"
  sy_sent :: "byte list"

datatype async_action = Begin "byte list list" | Commit | Process bool | Skipped nat

text \<open>A reply has at most 16 blocks, and memory suffices for what is queued.\<close>

fun enabled :: "async_action \<Rightarrow> async_sys \<Rightarrow> bool" where
  "enabled (Begin bufs) s = (sy_writer s = WIdle \<and> length bufs \<le> 16 \<and>
     length (ab_content (sy_buf s)) + length (concat bufs) \<le> MAX_BUFFER_SIZE)"
| "enabled Commit s = (sy_writer s \<noteq> WIdle)"
| "enabled (Process locked) s = (sy_sender s = SIdle)"
| "enabled (Skipped n) s = (case sy_sender s of SIdle \<Rightarrow> False | SSending bs \<Rightarrow> n \<le> length bs)"

fun async_do :: "async_action \<Rightarrow> async_sys \<Rightarrow> async_sys res" where
  "async_do (Begin bufs) s =
     bindR (TotalBytes (map length bufs)) (\<lambda>len.
       Inr (s\<lparr>sy_writer := (if ab_full len (sy_buf s) then WLock bufs else WRing bufs)\<rparr>))"
| "async_do Commit s =
     (case sy_writer s of
        WIdle \<Rightarrow> Inr s
      | WRing bufs \<Rightarrow>
          bindR (TotalBytes (map length bufs)) (\<lambda>len. bindR (ab_write_ring bufs len (sy_buf s)) (\<lambda>a.
            Inr (s\<lparr>sy_buf := a, sy_writer := WIdle, sy_written := sy_written s @ concat bufs\<rparr>)))
      | WLock bufs \<Rightarrow>
          bindR (TotalBytes (map length bufs)) (\<lambda>len. bindR (ab_write_locked bufs len (sy_buf s)) (\<lambda>a.
            Inr (s\<lparr>sy_buf := a, sy_writer := WIdle, sy_written := sy_written s @ concat bufs\<rparr>))))"
| "async_do (Process locked) s =
     bindR (ab_ProcessBuffer locked (sy_buf s)) (\<lambda>(vs, a).
       Inr (s\<lparr>sy_buf := a, sy_sender := SSending (concat vs)\<rparr>))"
| "async_do (Skipped n) s =
     (case sy_sender s of
        SIdle \<Rightarrow> Inr s
      | SSending bs \<Rightarrow>
          bindR (ab_Skip n (sy_buf s)) (\<lambda>a.
            Inr (s\<lparr>sy_buf := a, sy_sender := SIdle, sy_sent := sy_sent s @ take n bs\<rparr>)))"

inductive async_reach :: "nat \<Rightarrow> async_sys \<Rightarrow> bool" for n :: nat where
  reach_init: "AsyncBuffer_new n = Inr a \<Longrightarrow>
     async_reach n \<lparr>sy_buf = a, sy_writer = WIdle, sy_sender = SIdle, sy_written = [], sy_sent = []\<rparr>"
| reach_step: "\<lbrakk>async_reach n s; enabled act s; async_do act s = Inr s'\<rbrakk> \<Longrightarrow> async_reach n s'"

text \<open>
  What holds between the steps: a writer that chose the ring still finds room there and
  nothing in the back buffer, since only the sender ran meanwhile; the blocks a sender holds
  are still the oldest bytes, since only the writer ran meanwhile.
\<close>

definition writer_ok :: "AsyncBuffer \<Rightarrow> writer \<Rightarrow> bool" where
  "writer_ok a w = (case w of
     WIdle \<Rightarrow> True
   | WRing bufs \<Rightarrow> length bufs \<le> 16 \<and> ab_backBytes a = 0
       \<and> length (concat bufs) \<le> cb_WriteableSize (ab_buffer a)
   | WLock bufs \<Rightarrow> length bufs \<le> 16
       \<and> length (ub_content (ab_backBuf a)) + length (concat bufs) \<le> MAX_BUFFER_SIZE)"

definition sender_ok :: "AsyncBuffer \<Rightarrow> sender \<Rightarrow> bool" where
  "sender_ok a r = (case r of
     SIdle \<Rightarrow> True
   | SSending bs \<Rightarrow>
       (if ub_content (ab_tmpBuf a) \<noteq> [] then bs = ub_content (ab_tmpBuf a)
        else \<exists>q. cb_content (ab_buffer a) = bs @ q))"

definition sys_ok :: "async_sys \<Rightarrow> bool" where
  "sys_ok s \<longleftrightarrow> ab_inv (sy_buf s) \<and> writer_ok (sy_buf s) (sy_writer s)
     \<and> sender_ok (sy_buf s) (sy_sender s) \<and> sy_sent s @ ab_content (sy_buf s) = sy_written s"

lemma sender_ok_write:
  assumes "sender_ok a r" "ab_tmpBuf a' = ab_tmpBuf a"
    and "\<exists>q. cb_content (ab_buffer a') = cb_content (ab_buffer a) @ q"
  shows "sender_ok a' r"
  using assms by (auto simp: sender_ok_def split: sender.splits if_splits)

lemma writer_ok_sender:
  assumes "writer_ok a w" "ab_backBytes a' \<le> ab_backBytes a"
    and "cb_WriteableSize (ab_buffer a) \<le> cb_WriteableSize (ab_buffer a')"
    and "length (ub_content (ab_backBuf a')) \<le> length (ub_content (ab_backBuf a))"
  shows "writer_ok a' w"
  using assms by (auto simp: writer_ok_def split: writer.splits)

lemma cb_WriteableSize_bound: "cb_inv c \<Longrightarrow> cb_WriteableSize c < 2 ^ 31"
  using cb_invD(1,3) [of c] by (simp add: cb_WriteableSize_eq)

lemma sys_okD:
  assumes "sys_ok s"
  shows "ab_inv (sy_buf s)" "writer_ok (sy_buf s) (sy_writer s)" "sender_ok (sy_buf s) (sy_sender s)"
    "sy_written s = sy_sent s @ ab_content (sy_buf s)"
  using assms by (simp_all add: sys_ok_def)

lemma step_Begin:
  assumes "sys_ok s" "enabled (Begin bufs) s"
  shows "\<exists>s'. async_do (Begin bufs) s = Inr s' \<and> sys_ok s'"
proof -
  have len: "TotalBytes (map length bufs) = Inr (length (concat bufs))"
    using assms(2) by (subst TotalBytes_eq) (simp_all add: sum_length_concat MAX_BUFFER_SIZE_def)
  have "writer_ok (sy_buf s) (if ab_full (length (concat bufs)) (sy_buf s) then WLock bufs else WRing bufs)"
    using assms(2) by (auto simp: writer_ok_def ab_full_def ab_content_def)
  with len assms(1) show ?thesis by (simp add: sys_ok_def)
qed

lemma step_Commit:
  assumes "sys_ok s" "enabled Commit s"
  shows "\<exists>s'. async_do Commit s = Inr s' \<and> sys_ok s'"
proof -
  note inv = sys_okD(1) [OF assms(1)] and wok = sys_okD(2) [OF assms(1)]
    and sok = sys_okD(3) [OF assms(1)] and eq = sys_okD(4) [OF assms(1)]
  show ?thesis
  proof (cases "sy_writer s")
    case (WRing bufs)
    with wok have w: "length bufs \<le> 16" "ab_backBytes (sy_buf s) = 0"
      "length (concat bufs) \<le> cb_WriteableSize (ab_buffer (sy_buf s))" by (auto simp: writer_ok_def)
    have "cb_inv (ab_buffer (sy_buf s))" using inv by (simp add: ab_inv_def)
    then have "length (concat bufs) < 2 ^ 64" using w(3) cb_WriteableSize_bound by fastforce
    then have len: "TotalBytes (map length bufs) = Inr (length (concat bufs))"
      using w(1) by (subst TotalBytes_eq) (simp_all add: sum_length_concat)
    obtain a' where a': "ab_write_ring bufs (length (concat bufs)) (sy_buf s) = Inr a'" "ab_inv a'"
      "ab_content a' = ab_content (sy_buf s) @ concat bufs" "ab_tmpBuf a' = ab_tmpBuf (sy_buf s)"
      "cb_content (ab_buffer a') = cb_content (ab_buffer (sy_buf s)) @ concat bufs"
      using ab_write_ring_ok [of "sy_buf s" bufs] inv w by blast
    have "sender_ok a' (sy_sender s)"
      by (rule sender_ok_write [OF sok a'(4)]) (rule exI, rule a'(5))
    then show ?thesis
      by (simp add: WRing len a'(1,2,3) sys_ok_def writer_ok_def eq)
  next
    case (WLock bufs)
    with wok have w: "length bufs \<le> 16"
      "length (ub_content (ab_backBuf (sy_buf s))) + length (concat bufs) \<le> MAX_BUFFER_SIZE"
      by (auto simp: writer_ok_def)
    then have len: "TotalBytes (map length bufs) = Inr (length (concat bufs))"
      by (subst TotalBytes_eq) (simp_all add: sum_length_concat MAX_BUFFER_SIZE_def)
    obtain a' where a': "ab_write_locked bufs (length (concat bufs)) (sy_buf s) = Inr a'" "ab_inv a'"
      "ab_content a' = ab_content (sy_buf s) @ concat bufs" "ab_tmpBuf a' = ab_tmpBuf (sy_buf s)"
      "\<exists>q. cb_content (ab_buffer a') = cb_content (ab_buffer (sy_buf s)) @ q"
      using ab_write_locked_ok [of "sy_buf s" bufs] inv w by blast
    have "sender_ok a' (sy_sender s)" by (rule sender_ok_write [OF sok a'(4,5)])
    then show ?thesis
      by (simp add: WLock len a'(1,2,3) sys_ok_def writer_ok_def eq)
  qed (use assms in simp)
qed

lemma step_Process:
  assumes "sys_ok s" "enabled (Process locked) s"
  shows "\<exists>s'. async_do (Process locked) s = Inr s' \<and> sys_ok s'"
proof -
  note inv = sys_okD(1) [OF assms(1)] and wok = sys_okD(2) [OF assms(1)]
    and sok = sys_okD(3) [OF assms(1)] and eq = sys_okD(4) [OF assms(1)]
  obtain vs a' where a': "ab_ProcessBuffer locked (sy_buf s) = Inr (vs, a')" "ab_inv a'"
    "ab_content a' = ab_content (sy_buf s)" "ab_buffer a' = ab_buffer (sy_buf s)"
    "ub_content (ab_tmpBuf a') \<noteq> [] \<and> concat vs = ub_content (ab_tmpBuf a')
       \<or> ub_content (ab_tmpBuf a') = [] \<and> concat vs = cb_content (ab_buffer a')"
    "length (ub_content (ab_backBuf a')) \<le> length (ub_content (ab_backBuf (sy_buf s)))"
    "ab_backBytes a' \<le> ab_backBytes (sy_buf s)"
    using ab_ProcessBuffer_ok [of "sy_buf s" locked] inv by blast
  have "sender_ok a' (SSending (concat vs))"
    using a'(5) by (auto simp: sender_ok_def simp del: concat_eq_Nil_conv Nil_eq_concat_conv)
  moreover have "writer_ok a' (sy_writer s)"
    by (rule writer_ok_sender [OF wok a'(7) _ a'(6)]) (simp add: a'(4))
  ultimately show ?thesis by (simp add: a'(1,2,3) sys_ok_def eq)
qed

lemma step_Skipped:
  assumes "sys_ok s" "enabled (Skipped n) s"
  shows "\<exists>s'. async_do (Skipped n) s = Inr s' \<and> sys_ok s'"
proof -
  note inv = sys_okD(1) [OF assms(1)] and wok = sys_okD(2) [OF assms(1)]
    and sok = sys_okD(3) [OF assms(1)] and eq = sys_okD(4) [OF assms(1)]
  obtain bs where bs: "sy_sender s = SSending bs" "n \<le> length bs"
    using assms(2) by (auto split: sender.splits)
  let ?a = "sy_buf s"
  have s: "if ub_content (ab_tmpBuf ?a) \<noteq> [] then bs = ub_content (ab_tmpBuf ?a)
      else \<exists>q. cb_content (ab_buffer ?a) = bs @ q"
    using sok bs by (simp add: sender_ok_def)
  then have "n \<le> length (if ub_content (ab_tmpBuf ?a) \<noteq> [] then ub_content (ab_tmpBuf ?a) else cb_content (ab_buffer ?a))"
    using bs(2) by (auto split: if_splits)
  then obtain a' where a': "ab_Skip n ?a = Inr a'" "ab_inv a'" "ab_content a' = drop n (ab_content ?a)"
    "ab_backBytes a' = ab_backBytes ?a" "ab_backBuf a' = ab_backBuf ?a"
    "cb_WriteableSize (ab_buffer ?a) \<le> cb_WriteableSize (ab_buffer a')"
    using ab_Skip_ok [of ?a n] inv by blast
  have "take n bs = take n (ab_content ?a)" using s bs(2) by (auto simp: ab_content_def split: if_splits)
  then have "(sy_sent s @ take n bs) @ ab_content a' = sy_written s" unfolding eq a'(3) by simp
  moreover have "writer_ok a' (sy_writer s)"
    by (rule writer_ok_sender [OF wok _ a'(6)]) (simp_all add: a'(4,5))
  ultimately show ?thesis by (simp add: a'(1,2) bs(1) sys_ok_def sender_ok_def)
qed

lemmas step_ok = step_Begin step_Commit step_Process step_Skipped

lemma async_do_ok: "sys_ok s \<Longrightarrow> enabled act s \<Longrightarrow> \<exists>s'. async_do act s = Inr s' \<and> sys_ok s'"
  by (cases act) (simp_all only: step_ok)

lemma async_reach_ok:
  assumes "async_reach n s" "0 < n" "n \<le> 2 ^ 31"
  shows "sys_ok s"
  using assms(1)
proof induction
  case (reach_init a)
  with AsyncBuffer_new_ok [OF assms(2,3)] show ?case by (auto simp: sys_ok_def writer_ok_def sender_ok_def)
next
  case (reach_step s act s')
  with async_do_ok show ?case by fastforce
qed

section \<open>Properties\<close>



lemma async_start: "\<exists>s. async_reach 4 s \<and> sy_writer s = WIdle \<and> sy_sender s = SIdle \<and> ab_content (sy_buf s) = []"
  using AsyncBuffer_new_ok [of 4] reach_init [of 4] by fastforce


lemma async_wrote: "\<exists>s. async_reach 4 s \<and> sy_written s = [1, 2, 3]"
proof -
  obtain a where a: "AsyncBuffer_new 4 = Inr a" "ab_inv a" "ab_content a = []"
    using AsyncBuffer_new_ok [of 4] by auto
  define s0 where "s0 = \<lparr>sy_buf = a, sy_writer = WIdle, sy_sender = SIdle, sy_written = [], sy_sent = []\<rparr>"
  have r0: "async_reach 4 s0" unfolding s0_def by (rule reach_init [OF a(1)])
  have e0: "enabled (Begin [[1, 2], [3]]) s0" using a by (simp add: s0_def MAX_BUFFER_SIZE_def)
  obtain s1 where s1: "async_do (Begin [[1, 2], [3]]) s0 = Inr s1"
    using async_do_ok [OF async_reach_ok [OF r0] e0] by auto
  have r1: "async_reach 4 s1" by (rule reach_step [OF r0 e0 s1])
  have w: "sy_writer s1 \<in> {WRing [[1, 2], [3]], WLock [[1, 2], [3]]}" "sy_written s1 = []"
    using s1 by (auto simp: s0_def elim!: bindR_InrE)
  then have e1: "enabled Commit s1" by auto
  obtain s2 where s2: "async_do Commit s1 = Inr s2"
    using async_do_ok [OF async_reach_ok [OF r1] e1] by auto
  have "sy_written s2 = [1, 2, 3]" using s2 w by (auto elim!: bindR_InrE)
  with reach_step [OF r1 e1 s2] show ?thesis by blast
qed


end
