(* ===== verification/Resp.thy ===== *)
theory Resp
  imports Unbounded Numbers
begin

text \<open>
  The request parser of \<open>network/proto_parser.cc\<close> and the reply formatter of
  \<open>network/common.cc\<close>, which every connection carries. The text is a string, \<open>ptr\<close> an index
  into it and \<open>e\<close> the index of its end; reading past the string is undefined. The lemmas: what
  the formatter appends, that the parser reads back what the formatter wrote, and what
  happens when the text ends inside a number.
\<close>

section \<open>The reply formatter\<close>

definition CRLF :: string where "CRLF = [CHR 0x0D, CHR 0x0A]"

text \<open>\<open>g_errorInfo\<close>, indexed by the values of \<open>Error\<close>; \<open>Error_nop\<close> is \<open>-1\<close>.\<close>

definition g_errorInfo :: "string list" where
  "g_errorInfo =
    [''+OK'' @ CRLF,
     ''-ERR Operation against a key holding the wrong kind of value'' @ CRLF,
     ''-ERR already exist'',
     ''-ERR no such key'' @ CRLF,
     ''-ERR wrong number of arguments'' @ CRLF,
     ''-ERR Unknown command'' @ CRLF,
     ''-ERR value is not an integer or out of range'' @ CRLF,
     ''-ERR syntax error'' @ CRLF]"

datatype Error = Error_nop | Error_ok | Error_type | Error_exist | Error_notExists | Error_param
  | Error_unknowCmd | Error_nan | Error_syntax

fun error_code :: "Error \<Rightarrow> int" where
  "error_code Error_nop = -1"
| "error_code Error_ok = 0"
| "error_code Error_type = 1"
| "error_code Error_exist = 2"
| "error_code Error_notExists = 3"
| "error_code Error_param = 4"
| "error_code Error_unknowCmd = 5"
| "error_code Error_nan = 6"
| "error_code Error_syntax = 7"

text \<open>\<open>reply->PushData(str, len)\<close>, whose result is dropped; a null \<open>reply\<close> is \<open>None\<close>.\<close>

type_synonym reply = "UnboundedBuffer option"

definition put :: "string \<Rightarrow> UnboundedBuffer \<Rightarrow> UnboundedBuffer res" where
  "put str b = bindR (ub_PushData (bytes_of str) b) (\<lambda>(_, b). Inr b)"

definition ReplyError :: "Error \<Rightarrow> reply \<Rightarrow> reply res" where
  "ReplyError err reply =
     (case reply of
        None \<Rightarrow> Inr None
      | Some b \<Rightarrow>
          bindR (if error_code err < 0 then Inl OutOfBounds else nthR g_errorInfo (nat (error_code err)))
            (\<lambda>info. bindR (put info b) (\<lambda>b. Inr (Some b))))"

text \<open>\<open>snprintf(val, 31, "%lu\r\n", n)\<close>: at most 22 characters, so nothing is cut off.\<close>

definition lu_crlf :: "nat \<Rightarrow> string" where
  "lu_crlf n = decimal n @ CRLF"

definition sized :: "(UnboundedBuffer \<Rightarrow> UnboundedBuffer res) \<Rightarrow> reply \<Rightarrow> (nat \<times> reply) res" where
  "sized f reply =
     (case reply of
        None \<Rightarrow> Inr (0, None)
      | Some b \<Rightarrow> bindR (f b) (\<lambda>b'. Inr (size_sub (ub_ReadableSize b') (ub_ReadableSize b), Some b')))"

definition FormatOK :: "reply \<Rightarrow> (nat \<times> reply) res" where
  "FormatOK = sized (put (''+OK'' @ CRLF))"

text \<open>\<open>str\<close> is \<open>None\<close> for a null pointer; else its first \<open>len\<close> characters count.\<close>

definition FormatBulk :: "string option \<Rightarrow> nat \<Rightarrow> reply \<Rightarrow> (nat \<times> reply) res" where
  "FormatBulk str len = sized (\<lambda>b.
     bindR (put ''$'' b) (\<lambda>b.
     bindR (put (lu_crlf len) b) (\<lambda>b.
     bindR (case str of
              None \<Rightarrow> Inr b
            | Some s \<Rightarrow> if len > 0 then bindR (sliceR s 0 len) (\<lambda>d. put d b) else Inr b) (\<lambda>b.
     put CRLF b))))"

definition FormatBulk_string :: "string \<Rightarrow> reply \<Rightarrow> (nat \<times> reply) res" where
  "FormatBulk_string str reply = FormatBulk (Some str) (length str) reply"

definition PreFormatMultiBulk :: "nat \<Rightarrow> reply \<Rightarrow> (nat \<times> reply) res" where
  "PreFormatMultiBulk nBulk = sized (\<lambda>b. bindR (put ''*'' b) (\<lambda>b. put (lu_crlf nBulk) b))"

definition FormatMultiBulk :: "string list \<Rightarrow> reply \<Rightarrow> (nat \<times> reply) res" where
  "FormatMultiBulk vs reply =
     foldR (\<lambda>s (size, reply). bindR (FormatBulk_string s reply) (\<lambda>(n, reply).
       Inr (size_add size n, reply))) vs (0, reply)"

definition FormatNull :: "reply \<Rightarrow> (nat \<times> reply) res" where
  "FormatNull = sized (put (''$-1'' @ CRLF))"

section \<open>The request parser\<close>

datatype ParseResult = Ok | Wait | Err

text \<open>
  The loop of \<open>GetIntUntilCRLF\<close>: \<open>Inl\<close> is an early return, \<open>Inr (i, value)\<close> the state at
  its end. \<open>value\<close> is an \<open>int\<close>, whose overflow is undefined.
\<close>

function int_loop :: "string \<Rightarrow> nat \<Rightarrow> nat \<Rightarrow> nat \<Rightarrow> int \<Rightarrow> (ParseResult + nat \<times> int) res" where
  "int_loop s ptr nBytes i value =
     (if i < nBytes then
        bindR (nthR s (ptr + i)) (\<lambda>c.
          if isdigit c then
            let value = value * 10 + int (digit_value c) in
            if value < 2 ^ 31 then int_loop s ptr nBytes (i + 1) value else Inl SignedOverflow
          else
            bindR (if c \<noteq> CHR 0x0D then Inr True
                   else if i + 1 < nBytes then bindR (nthR s (ptr + i + 1)) (\<lambda>c. Inr (c \<noteq> CHR 0x0A))
                   else Inr False) (\<lambda>bad.
            if bad then Inr (Inl Err)
            else if i + 1 = nBytes then Inr (Inl Wait)
            else Inr (Inr (i, value))))
      else Inr (Inr (i, value)))"
  by pat_completeness auto
termination
  by (relation "measure (\<lambda>(s, ptr, nBytes, i, value). nBytes - i)") auto

declare int_loop.simps [simp del]

text \<open>\<open>ptr\<close> and \<open>val\<close> are references: the result holds their new values.\<close>

definition GetIntUntilCRLF :: "string \<Rightarrow> nat \<Rightarrow> nat \<Rightarrow> int \<Rightarrow> (ParseResult \<times> nat \<times> int) res" where
  "GetIntUntilCRLF s ptr nBytes val =
     (if nBytes < 3 then Inr (Wait, ptr, val)
      else bindR (int_loop s ptr nBytes 0 0) (\<lambda>r. case r of
          Inl e \<Rightarrow> Inr (e, ptr, val)
        | Inr (i, value) \<Rightarrow> Inr (Ok, ptr + i + 2, value)))"

record ProtoParser =
  pp_multi :: int
  pp_paramLen :: int
  pp_numOfParam :: nat
  pp_params :: "string list"

definition ProtoParser_new :: ProtoParser where
  "ProtoParser_new = \<lparr>pp_multi = -1, pp_paramLen = -1, pp_numOfParam = 0, pp_params = []\<rparr>"

definition pp_Reset :: "ProtoParser \<Rightarrow> ProtoParser" where
  "pp_Reset p = p\<lparr>pp_multi := -1, pp_paramLen := -1, pp_numOfParam := 0,
     pp_params := take 3 (pp_params p)\<rparr>"

definition pp_SetParams :: "string list \<Rightarrow> ProtoParser \<Rightarrow> ProtoParser" where
  "pp_SetParams v p = p\<lparr>pp_params := v\<rparr>"

definition pp_IsInitialState :: "ProtoParser \<Rightarrow> bool" where
  "pp_IsInitialState p \<longleftrightarrow> pp_multi p = -1"

definition ParseMulti :: "string \<Rightarrow> nat \<Rightarrow> nat \<Rightarrow> int \<Rightarrow> (ParseResult \<times> nat \<times> int) res" where
  "ParseMulti s ptr e result =
     (if int e - int ptr < 3 then Inr (Wait, ptr, result)
      else bindR (nthR s ptr) (\<lambda>c.
        if c \<noteq> CHR ''*'' then Inr (Err, ptr, result)
        else GetIntUntilCRLF s (ptr + 1) (e - (ptr + 1)) result))"

definition ParseStrlen :: "string \<Rightarrow> nat \<Rightarrow> nat \<Rightarrow> int \<Rightarrow> (ParseResult \<times> nat \<times> int) res" where
  "ParseStrlen s ptr e result =
     (if int e - int ptr < 3 then Inr (Wait, ptr, result)
      else bindR (nthR s ptr) (\<lambda>c.
        if c \<noteq> CHR ''$'' then Inr (Err, ptr, result)
        else bindR (GetIntUntilCRLF s (ptr + 1) (e - (ptr + 1)) result) (\<lambda>(ret, ptr, result).
          Inr (ret, if ret \<noteq> Ok then ptr - 1 else ptr, result))))"

definition ParseStrval :: "string \<Rightarrow> nat \<Rightarrow> nat \<Rightarrow> ProtoParser \<Rightarrow> string \<Rightarrow>
    (ParseResult \<times> nat \<times> ProtoParser \<times> string) res" where
  "ParseStrval s ptr e p result =
     bindR (assertR (pp_paramLen p \<ge> 0) AssertFailed) (\<lambda>_.
     bindR (assertR (pp_paramLen p + 2 < 2 ^ 31) SignedOverflow) (\<lambda>_.
     if int e - int ptr < pp_paramLen p + 2 then Inr (Wait, ptr, p, result)
     else
       let tail = ptr + nat (pp_paramLen p) in
       bindR (nthR s tail) (\<lambda>c0.
       bindR (nthR s (tail + 1)) (\<lambda>c1.
       if c0 \<noteq> CHR 0x0D \<or> c1 \<noteq> CHR 0x0A then Inr (Err, ptr, p, result)
       else bindR (sliceR s ptr (tail - ptr)) (\<lambda>v.
         Inr (Ok, tail + 2, p\<lparr>pp_paramLen := -1\<rparr>, v))))))"

definition ParseStr :: "string \<Rightarrow> nat \<Rightarrow> nat \<Rightarrow> ProtoParser \<Rightarrow> string \<Rightarrow>
    (ParseResult \<times> nat \<times> ProtoParser \<times> string) res" where
  "ParseStr s ptr e p result =
     (let val = (\<lambda>ptr p. if pp_paramLen p = -1 then Inr (Ok, ptr, p, [])
                         else ParseStrval s ptr e p result)
      in if pp_paramLen p = -1 then
           bindR (ParseStrlen s ptr e (pp_paramLen p)) (\<lambda>(ret, ptr, len).
           let p = p\<lparr>pp_paramLen := len\<rparr> in
           if ret = Err \<or> len < -1 then Inr (Err, ptr, p, result)
           else if ret \<noteq> Ok then Inr (Wait, ptr, p, result)
           else val ptr p)
         else val ptr p)"

definition grow :: "nat \<Rightarrow> string list \<Rightarrow> string list" where
  "grow n xs = take n xs @ replicate (n - length xs) []"

text \<open>The loop runs once per parameter still missing: \<open>k\<close> bounds their number.\<close>

fun strlist_loop :: "nat \<Rightarrow> string \<Rightarrow> nat \<Rightarrow> nat \<Rightarrow> ProtoParser \<Rightarrow> (ParseResult \<times> nat \<times> ProtoParser) res" where
  "strlist_loop 0 s ptr e p = Inr (Ok, ptr, p\<lparr>pp_params := grow (pp_numOfParam p) (pp_params p)\<rparr>)"
| "strlist_loop (Suc k) s ptr e p =
     (let n = pp_numOfParam p;
          p = (if length (pp_params p) < n + 1 then p\<lparr>pp_params := grow (n + 1) (pp_params p)\<rparr> else p)
      in bindR (nthR (pp_params p) n) (\<lambda>old.
         bindR (ParseStr s ptr e p old) (\<lambda>(ret, ptr, p, v).
         let p = p\<lparr>pp_params := (pp_params p)[n := v]\<rparr> in
         if ret = Ok then strlist_loop k s ptr e (p\<lparr>pp_numOfParam := n + 1\<rparr>)
         else Inr (ret, ptr, p))))"

definition ParseStrlist :: "string \<Rightarrow> nat \<Rightarrow> nat \<Rightarrow> ProtoParser \<Rightarrow> (ParseResult \<times> nat \<times> ProtoParser) res" where
  "ParseStrlist s ptr e p = strlist_loop (nat (pp_multi p - int (pp_numOfParam p))) s ptr e p"

definition ParseRequest :: "string \<Rightarrow> nat \<Rightarrow> nat \<Rightarrow> ProtoParser \<Rightarrow> (ParseResult \<times> nat \<times> ProtoParser) res" where
  "ParseRequest s ptr e p =
     (if pp_multi p = -1 then
        bindR (ParseMulti s ptr e (pp_multi p)) (\<lambda>(ret, ptr, m).
        let p = p\<lparr>pp_multi := m\<rparr> in
        if ret = Err \<or> m < -1 then Inr (Err, ptr, p)
        else if ret \<noteq> Ok then Inr (Wait, ptr, p)
        else ParseStrlist s ptr e p)
      else ParseStrlist s ptr e p)"

section \<open>What the formatter writes\<close>

text \<open>One value and one request, as text.\<close>

definition bulk :: "string \<Rightarrow> string" where
  "bulk v = ''$'' @ lu_crlf (length v) @ v @ CRLF"

definition request :: "string list \<Rightarrow> string" where
  "request vs = ''*'' @ lu_crlf (length vs) @ concat (map bulk vs)"

definition room :: "UnboundedBuffer \<Rightarrow> nat \<Rightarrow> bool" where
  "room b n \<longleftrightarrow> ub_inv b \<and> length (ub_content b) + n \<le> MAX_BUFFER_SIZE"

text \<open>\<open>adds f t b\<close>: run on \<open>b\<close>, \<open>f\<close> appends the text \<open>t\<close> and nothing else.\<close>

definition adds :: "(UnboundedBuffer \<Rightarrow> UnboundedBuffer res) \<Rightarrow> string \<Rightarrow> bool" where
  "adds f t \<longleftrightarrow> (\<forall>b. room b (length t) \<longrightarrow>
     (\<exists>b'. f b = Inr b' \<and> ub_inv b' \<and> ub_content b' = ub_content b @ bytes_of t))"

lemma adds_put: "adds (put t) t"
  unfolding adds_def room_def put_def using ub_PushData_ok [of _ "bytes_of t"] by force

lemma adds_seq:
  assumes "adds f t" "adds g u"
  shows "adds (\<lambda>b. bindR (f b) g) (t @ u)"
  unfolding adds_def
proof (intro allI impI)
  fix b
  assume r: "room b (length (t @ u))"
  then obtain b1 where b1: "f b = Inr b1" "ub_inv b1" "ub_content b1 = ub_content b @ bytes_of t"
    using assms(1) by (auto simp: adds_def room_def)
  moreover have "room b1 (length u)" using r b1 by (simp add: room_def)
  ultimately show "\<exists>b'. bindR (f b) g = Inr b' \<and> ub_inv b' \<and> ub_content b' = ub_content b @ bytes_of (t @ u)"
    using assms(2) by (force simp: adds_def)
qed

lemma adds_none: "adds Inr []"
  by (simp add: adds_def room_def)

lemma sized_ok:
  assumes "adds f t" "room b (length t)"
  shows "\<exists>b'. sized f (Some b) = Inr (length t, Some b') \<and> ub_inv b' \<and> ub_content b' = ub_content b @ bytes_of t"
proof -
  obtain b' where b': "f b = Inr b'" "ub_inv b'" "ub_content b' = ub_content b @ bytes_of t"
    using assms by (auto simp: adds_def)
  have inv: "ub_inv b" using assms(2) by (simp add: room_def)
  have "ub_ReadableSize b' = ub_ReadableSize b + length t"
    using b' length_ub_content [OF inv] length_ub_content [OF b'(2)] by simp
  moreover have "ub_ReadableSize b' < 2 ^ 64"
    using ub_content_bound [OF b'(2)] length_ub_content [OF b'(2)] by simp
  ultimately show ?thesis using b' by (simp add: sized_def size_sub_le)
qed

lemma adds_bulk:
  "adds (\<lambda>b.
     bindR (put ''$'' b) (\<lambda>b.
     bindR (put (lu_crlf (length s)) b) (\<lambda>b.
     bindR (case Some s of
              None \<Rightarrow> Inr b
            | Some t \<Rightarrow> if length s > 0 then bindR (sliceR t 0 (length s)) (\<lambda>d. put d b) else Inr b) (\<lambda>b.
     put CRLF b)))) (bulk s)"
proof -
  have "adds (\<lambda>b. case Some s of
              None \<Rightarrow> Inr b
            | Some t \<Rightarrow> if length s > 0 then bindR (sliceR t 0 (length s)) (\<lambda>d. put d b) else Inr b) s"
    using adds_put [of s] adds_none by (cases "s = []") (simp_all add: fun_eq_iff)
  then show ?thesis unfolding bulk_def
    by (intro adds_seq [OF adds_put adds_seq [OF adds_put adds_seq [OF _ adds_put]]])
qed

lemma FormatBulk_ok:
  assumes "room b (length (bulk s))"
  shows "\<exists>b'. FormatBulk_string s (Some b) = Inr (length (bulk s), Some b') \<and> ub_inv b'
    \<and> ub_content b' = ub_content b @ bytes_of (bulk s)"
  unfolding FormatBulk_string_def FormatBulk_def by (rule sized_ok [OF adds_bulk assms])

lemma PreFormatMultiBulk_ok:
  assumes "room b (length (''*'' @ lu_crlf n))"
  shows "\<exists>b'. PreFormatMultiBulk n (Some b) = Inr (length (''*'' @ lu_crlf n), Some b') \<and> ub_inv b'
    \<and> ub_content b' = ub_content b @ bytes_of (''*'' @ lu_crlf n)"
  unfolding PreFormatMultiBulk_def by (rule sized_ok [OF adds_seq [OF adds_put adds_put] assms])

lemma FormatMultiBulk_loop:
  assumes "room b (length (concat (map bulk vs)))" "k + length (concat (map bulk vs)) < 2 ^ 64"
  shows "\<exists>b'. foldR (\<lambda>s (size, reply). bindR (FormatBulk_string s reply) (\<lambda>(n, reply).
       Inr (size_add size n, reply))) vs (k, Some b) = Inr (k + length (concat (map bulk vs)), Some b')
    \<and> ub_inv b' \<and> ub_content b' = ub_content b @ bytes_of (concat (map bulk vs))"
  using assms
proof (induction vs arbitrary: b k)
  case Nil
  then show ?case by (simp add: room_def)
next
  case (Cons v vs)
  have r: "room b (length (bulk v))" using Cons.prems by (simp add: room_def)
  obtain b1 where b1: "FormatBulk_string v (Some b) = Inr (length (bulk v), Some b1)" "ub_inv b1"
    "ub_content b1 = ub_content b @ bytes_of (bulk v)"
    using FormatBulk_ok [OF r] by blast
  moreover have "room b1 (length (concat (map bulk vs)))" using Cons.prems b1 by (simp add: room_def)
  moreover have "size_add k (length (bulk v)) = k + length (bulk v)"
    using Cons.prems by (intro size_add_small) simp
  moreover have "k + length (bulk v) + length (concat (map bulk vs)) < 2 ^ 64" using Cons.prems by simp
  ultimately show ?case using Cons.IH [of b1 "k + length (bulk v)"] by (auto simp: add.assoc)
qed

section \<open>What the parser reads\<close>

lemma digits_value_ge: "v \<le> digits_value v ds"
proof (induction ds arbitrary: v)
  case (Cons d ds)
  have "v \<le> v * 10 + digit_value d" by simp
  also have "\<dots> \<le> digits_value (v * 10 + digit_value d) ds" by (rule Cons)
  finally show ?case by (simp add: digits_value_def)
qed (simp add: digits_value_def)

lemma digits_value_Cons: "digits_value v (d # ds) = digits_value (v * 10 + digit_value d) ds"
  by (simp add: digits_value_def)

lemma not_isdigit_CR [simp]: "\<not> isdigit (CHR 0x0D)"
  by (simp add: isdigit_def)

lemma nthR_drop: "drop i s = c # r \<Longrightarrow> nthR s i = Inr c"
proof -
  assume d: "drop i s = c # r"
  then have "i < length s" by (metis drop_all leI list.distinct(1))
  with d show ?thesis by (simp add: nth_via_drop)
qed

lemma drop_step: "drop i s = c # r \<Longrightarrow> drop (Suc i) s = r"
  by (metis drop_Suc list.sel(3) tl_drop)

lemma int_loop_digits:
  assumes "drop (ptr + i) s = ds @ CHR 0x0D # CHR 0x0A # post" "list_all isdigit ds"
    "digits_value v ds < 2 ^ 31" "i + length ds + 2 \<le> nBytes"
  shows "int_loop s ptr nBytes i (int v) = Inr (Inr (i + length ds, int (digits_value v ds)))"
  using assms
proof (induction ds arbitrary: i v)
  case Nil
  have "nthR s (ptr + i) = Inr (CHR 0x0D)" using Nil(1) by (intro nthR_drop) simp
  moreover have "nthR s (Suc (ptr + i)) = Inr (CHR 0x0A)"
    using drop_step [of "ptr + i" s] Nil(1) by (intro nthR_drop) simp
  ultimately show ?case using Nil by (subst int_loop.simps) (simp add: digits_value_def)
next
  case (Cons d ds)
  have d: "nthR s (ptr + i) = Inr d" using Cons.prems(1) by (intro nthR_drop) simp
  have v: "int v * 10 + int (digit_value d) = int (v * 10 + digit_value d)" by simp
  have lt: "v * 10 + digit_value d < 2 ^ 31"
    using Cons.prems(3) digits_value_ge [of "v * 10 + digit_value d" ds] by (simp add: digits_value_Cons)
  have "drop (ptr + (i + 1)) s = ds @ CHR 0x0D # CHR 0x0A # post"
    using drop_step [of "ptr + i" s] Cons.prems(1) by simp
  from Cons.IH [OF this, of "v * 10 + digit_value d"] Cons.prems
  have ih: "int_loop s ptr nBytes (i + 1) (int (v * 10 + digit_value d)) =
      Inr (Inr (i + 1 + length ds, int (digits_value v (d # ds))))"
    by (simp add: digits_value_Cons)
  have "int (v * 10 + digit_value d) < 2 ^ 31" using lt by (simp only: of_nat_less_numeral_power_cancel_iff)
  moreover have "i < nBytes" "isdigit d" using Cons.prems by simp_all
  ultimately show ?case using d ih by (subst int_loop.simps) (simp add: Let_def v del: of_nat_add of_nat_mult)
qed

lemma GetInt_decimal:
  assumes "drop ptr s = lu_crlf n @ post" "n < 2 ^ 31" "length (lu_crlf n) \<le> nBytes"
  shows "GetIntUntilCRLF s ptr nBytes val = Inr (Ok, ptr + length (lu_crlf n), int n)"
proof -
  have len: "length (lu_crlf n) = length (decimal n) + 2" by (simp add: lu_crlf_def CRLF_def)
  have "int_loop s ptr nBytes 0 (int 0) = Inr (Inr (0 + length (decimal n), int (digits_value 0 (decimal n))))"
    using assms decimal_digits len
    by (intro int_loop_digits) (simp_all add: lu_crlf_def CRLF_def digits_value_decimal)
  moreover have "0 < length (decimal n)" by simp
  then have "3 \<le> nBytes" using assms(3) len by linarith
  ultimately show ?thesis by (simp add: GetIntUntilCRLF_def digits_value_decimal len)
qed

lemma ParseStrlen_bulk:
  assumes "drop ptr s = bulk v @ post" "length v < 2 ^ 31" "ptr + length (bulk v) \<le> e"
  shows "ParseStrlen s ptr e r = Inr (Ok, ptr + 1 + length (lu_crlf (length v)), int (length v))"
proof -
  have s: "drop ptr s = CHR ''$'' # lu_crlf (length v) @ v @ CRLF @ post"
    using assms(1) by (simp add: bulk_def)
  have "length (bulk v) = 1 + length (lu_crlf (length v)) + length v + 2" by (simp add: bulk_def CRLF_def)
  then have "length (lu_crlf (length v)) \<le> e - (ptr + 1)" "3 \<le> int e - int ptr" using assms(3) by auto
  moreover from this GetInt_decimal [of "ptr + 1" s "length v" "v @ CRLF @ post" "e - (ptr + 1)" r]
  have "GetIntUntilCRLF s (ptr + 1) (e - (ptr + 1)) r =
      Inr (Ok, ptr + 1 + length (lu_crlf (length v)), int (length v))"
    using drop_step [OF s] assms(2) by simp
  ultimately show ?thesis using nthR_drop [OF s] by (simp add: ParseStrlen_def)
qed

lemma ParseStr_bulk:
  assumes "drop ptr s = bulk v @ post" "length v + 2 < 2 ^ 31" "ptr + length (bulk v) \<le> e"
    and "pp_paramLen p = -1"
  shows "ParseStr s ptr e p r = Inr (Ok, ptr + length (bulk v), p, v)"
proof -
  define q where "q = ptr + 1 + length (lu_crlf (length v))"
  have len: "ptr + length (bulk v) = q + length v + 2" by (simp add: bulk_def CRLF_def q_def)
  have "drop (1 + length (lu_crlf (length v))) (bulk v) = v @ CRLF" by (simp add: bulk_def)
  then have d: "drop q s = v @ CHR 0x0D # CHR 0x0A # post"
    using arg_cong [OF assms(1), of "drop (1 + length (lu_crlf (length v)))"]
    by (simp add: q_def bulk_def CRLF_def add.commute)
  have dt: "drop (q + length v) s = CHR 0x0D # CHR 0x0A # post"
    using arg_cong [OF d, of "drop (length v)"] by (simp add: add.commute)
  have c0: "nthR s (q + length v) = Inr (CHR 0x0D)" by (rule nthR_drop [OF dt])
  have c1: "nthR s (q + length v + 1) = Inr (CHR 0x0A)" using nthR_drop [OF drop_step [OF dt]] by simp
  have "length (drop q s) = length v + 2 + length post" using d by simp
  then have "q + length v \<le> length s" by simp
  then have sl: "sliceR s q (length v) = Inr v" using d by (simp add: sliceR_def)
  have q: "ParseStrlen s ptr e (-1) = Inr (Ok, q, int (length v))"
    using ParseStrlen_bulk [OF assms(1) _ assms(3), of "-1"] assms(2) by (simp add: q_def)
  let ?p = "p\<lparr>pp_paramLen := int (length v)\<rparr>"
  have a: "int (length v) + 2 < 2 ^ 31" using assms(2) by simp
  have b: "\<not> int e - int q < int (length v) + 2" using assms(3) len by simp
  have p: "p\<lparr>pp_paramLen := -1\<rparr> = p" using assms(4) by (cases p) simp
  have "ParseStrval s q e ?p r = Inr (Ok, q + length v + 2, p, v)"
    using a b c0 c1 sl by (simp add: ParseStrval_def p)
  then show ?thesis using q assms(4) len by (simp add: ParseStr_def Let_def)
qed

lemma strlist_bulks:
  assumes "drop ptr s = concat (map bulk vs) @ post" "list_all (\<lambda>v. length v + 2 < 2 ^ 31) vs"
    "ptr + length (concat (map bulk vs)) \<le> e" "pp_paramLen p = -1" "pp_numOfParam p \<le> length (pp_params p)"
  shows "strlist_loop (length vs) s ptr e p =
    Inr (Ok, ptr + length (concat (map bulk vs)),
      p\<lparr>pp_numOfParam := pp_numOfParam p + length vs, pp_params := take (pp_numOfParam p) (pp_params p) @ vs\<rparr>)"
  using assms
proof (induction vs arbitrary: ptr p)
  case Nil
  then show ?case by (simp add: grow_def)
next
  case (Cons v vs)
  let ?n = "pp_numOfParam p"
  define p1 where "p1 = (if length (pp_params p) < ?n + 1 then p\<lparr>pp_params := grow (?n + 1) (pp_params p)\<rparr> else p)"
  have p1: "pp_paramLen p1 = -1" "?n < length (pp_params p1)" "take ?n (pp_params p1) = take ?n (pp_params p)"
    using Cons.prems(4,5) by (auto simp: p1_def grow_def)
  have s: "drop ptr s = bulk v @ (concat (map bulk vs) @ post)" using Cons.prems(1) by simp
  have str: "ParseStr s ptr e p1 r = Inr (Ok, ptr + length (bulk v), p1, v)" for r
    using Cons.prems(2,3) by (intro ParseStr_bulk [OF s _ _ p1(1)]) auto
  define p2 where "p2 = p1\<lparr>pp_params := (pp_params p1)[?n := v], pp_numOfParam := ?n + 1\<rparr>"
  have p2: "pp_paramLen p2 = -1" "pp_numOfParam p2 = ?n + 1" "?n + 1 \<le> length (pp_params p2)"
    "take (?n + 1) (pp_params p2) = take ?n (pp_params p) @ [v]"
    using p1 by (simp_all add: p2_def take_Suc_conv_app_nth)
  have d: "drop (ptr + length (bulk v)) s = concat (map bulk vs) @ post"
    using arg_cong [OF s, of "drop (length (bulk v))"] by (simp add: add.commute)
  have "strlist_loop (length (v # vs)) s ptr e p = strlist_loop (length vs) s (ptr + length (bulk v)) e p2"
    unfolding length_Cons strlist_loop.simps(2) Let_def p1_def [symmetric]
    using p1(2) by (simp add: str p2_def)
  also have "\<dots> = Inr (Ok, ptr + length (bulk v) + length (concat (map bulk vs)),
      p2\<lparr>pp_numOfParam := ?n + 1 + length vs, pp_params := (take ?n (pp_params p) @ [v]) @ vs\<rparr>)"
    using Cons.IH [OF d _ _ p2(1)] Cons.prems(2,3) p2 by simp
  also have "p2\<lparr>pp_numOfParam := ?n + 1 + length vs, pp_params := (take ?n (pp_params p) @ [v]) @ vs\<rparr> =
      p\<lparr>pp_numOfParam := ?n + length (v # vs), pp_params := take ?n (pp_params p) @ v # vs\<rparr>"
    by (simp add: p2_def p1_def)
  finally show ?case by (simp add: add.assoc)
qed

definition request_ok :: "string list \<Rightarrow> bool" where
  "request_ok vs \<longleftrightarrow> length vs < 2 ^ 31 \<and> list_all (\<lambda>v. length v + 2 < 2 ^ 31) vs"

lemma ParseRequest_request:
  assumes "request_ok vs" "drop ptr s = request vs @ post" "ptr + length (request vs) \<le> e"
    and "pp_multi p = -1" "pp_paramLen p = -1" "pp_numOfParam p = 0"
  shows "ParseRequest s ptr e p = Inr (Ok, ptr + length (request vs),
    p\<lparr>pp_multi := int (length vs), pp_numOfParam := length vs, pp_params := vs\<rparr>)"
proof -
  let ?h = "lu_crlf (length vs)"
  have s: "drop ptr s = CHR ''*'' # ?h @ concat (map bulk vs) @ post" using assms(2) by (simp add: request_def)
  have h: "length ?h = length (decimal (length vs)) + 2" "0 < length (decimal (length vs))"
    by (simp_all add: lu_crlf_def CRLF_def)
  have len: "length (request vs) = 1 + length ?h + length (concat (map bulk vs))"
    by (simp only: request_def length_append) simp
  then have e: "3 \<le> int e - int ptr" "length ?h \<le> e - (ptr + 1)" using assms(3) h by linarith+
  have "GetIntUntilCRLF s (ptr + 1) (e - (ptr + 1)) (-1) = Inr (Ok, ptr + 1 + length ?h, int (length vs))"
    using drop_step [OF s] assms(1) e(2) by (intro GetInt_decimal) (simp_all add: request_ok_def)
  then have m: "ParseMulti s ptr e (-1) = Inr (Ok, ptr + 1 + length ?h, int (length vs))"
    using e(1) nthR_drop [OF s] by (simp add: ParseMulti_def)
  let ?p = "p\<lparr>pp_multi := int (length vs)\<rparr>"
  have "drop (ptr + 1 + length ?h) s = concat (map bulk vs) @ post"
    using arg_cong [OF s, of "drop (1 + length ?h)"] by (simp add: add.commute add.left_commute)
  from strlist_bulks [OF this, of e ?p] assms len
  have "ParseStrlist s (ptr + 1 + length ?h) e ?p =
      Inr (Ok, ptr + length (request vs), ?p\<lparr>pp_numOfParam := length vs, pp_params := vs\<rparr>)"
    by (simp add: ParseStrlist_def request_ok_def add.assoc)
  then show ?thesis using m assms(4) by (simp add: ParseRequest_def)
qed

section \<open>Properties\<close>



text \<open>A number cut off by the end of the text is accepted: if the text ends after three or
  more digits, \<open>GetIntUntilCRLF\<close> reports success and moves the pointer two characters past
  the end.\<close>

lemma digits_overrun_the_end:
  assumes "list_all isdigit ds" "3 \<le> length ds" "digits_value 0 ds < 2 ^ 31"
  shows "GetIntUntilCRLF ds 0 (length ds) val = Inr (Ok, length ds + 2, int (digits_value 0 ds))"
proof -
  have "int_loop (pre @ xs) 0 (length (pre @ xs)) (length pre) (int v) =
      Inr (Inr (length (pre @ xs), int (digits_value v xs)))"
    if "list_all isdigit xs" "digits_value v xs < 2 ^ 31" for pre xs v
    using that
  proof (induction xs arbitrary: pre v)
    case Nil
    then show ?case by (subst int_loop.simps) (simp add: digits_value_def)
  next
    case (Cons x xs)
    have "v * 10 + digit_value x < 2 ^ 31"
      using Cons.prems(2) digits_value_ge [of "v * 10 + digit_value x" xs] by (simp add: digits_value_Cons)
    then have lt: "int (v * 10 + digit_value x) < 2 ^ 31" by (simp only: of_nat_less_numeral_power_cancel_iff)
    have v: "int v * 10 + int (digit_value x) = int (v * 10 + digit_value x)" by simp
    have "nthR (pre @ x # xs) (0 + length pre) = Inr x" by (simp add: nthR_def)
    with Cons.IH [of "v * 10 + digit_value x" "pre @ [x]"] Cons.prems lt show ?case
      by (subst int_loop.simps) (simp add: Let_def v digits_value_Cons del: of_nat_add of_nat_mult)
  qed
  from this [of ds 0 "[]"] assms show ?thesis by (simp add: GetIntUntilCRLF_def)
qed

end
