(* ===== verification/Ast.thy ===== *)
theory Ast
  imports Prelude Numbers
begin

text \<open>
  The abstract syntax of the SQL parser (\<open>parser/expr.h\<close>, \<open>parser/expr.cc\<close>,
  \<open>parser/column_type.h\<close>, \<open>parser/table.h\<close>, the statement headers and
  \<open>parser/statements.cpp\<close>): the trees that the grammar actions build with the constructors
  below and that the executor reads. A null pointer is \<open>None\<close>; a node owns its children, so
  a tree is a value and the destructors, which free exactly the owned children, have no
  counterpart. A \<open>double\<close> is its 64 bits.
\<close>

section \<open>Column types\<close>

datatype DataType = DT_UNKNOWN | DT_INT | DT_LONG | DT_FLOAT | DT_DOUBLE | DT_DECIMAL | DT_REAL | DT_CHAR | DT_VARCHAR
  | DT_TEXT | DT_DATETIME | DT_DATE | DT_TIME | DT_SMALLINT

definition Int2DataType :: "int \<Rightarrow> DataType" where
  "Int2DataType n =
     (if n = 0 then DT_UNKNOWN else if n = 1 then DT_INT else if n = 2 then DT_LONG
      else if n = 3 then DT_FLOAT else if n = 4 then DT_DOUBLE else if n = 5 then DT_DECIMAL
      else if n = 6 then DT_REAL else if n = 7 then DT_CHAR else if n = 8 then DT_VARCHAR
      else if n = 9 then DT_TEXT else if n = 10 then DT_DATETIME else if n = 11 then DT_DATE
      else if n = 12 then DT_TIME else if n = 13 then DT_SMALLINT else DT_VARCHAR)"

fun DataType2Int :: "DataType \<Rightarrow> int" where
  "DataType2Int DT_UNKNOWN = 0"
| "DataType2Int DT_INT = 1"
| "DataType2Int DT_LONG = 2"
| "DataType2Int DT_FLOAT = 3"
| "DataType2Int DT_DOUBLE = 4"
| "DataType2Int DT_DECIMAL = 5"
| "DataType2Int DT_REAL = 6"
| "DataType2Int DT_CHAR = 7"
| "DataType2Int DT_VARCHAR = 8"
| "DataType2Int DT_TEXT = 9"
| "DataType2Int DT_DATETIME = 10"
| "DataType2Int DT_DATE = 11"
| "DataType2Int DT_TIME = 12"
| "DataType2Int DT_SMALLINT = 13"

lemma Int2DataType_DataType2Int [simp]: "Int2DataType (DataType2Int t) = t"
  by (cases t) (simp_all add: Int2DataType_def)

lemma DataType2Int_range: "0 \<le> DataType2Int t" "DataType2Int t < 14"
  by (cases t; simp)+

record ColumnSpecification =
  spec_precision :: int
  spec_scale :: int

definition ColumnSpecification_of :: "int \<Rightarrow> int \<Rightarrow> ColumnSpecification" where
  "ColumnSpecification_of precision scale = \<lparr>spec_precision = precision, spec_scale = scale\<rparr>"

definition ColumnSpecification_precision :: "int \<Rightarrow> ColumnSpecification" where
  "ColumnSpecification_precision precision = \<lparr>spec_precision = precision, spec_scale = 0\<rparr>"

record ColumnType =
  ct_data_type :: DataType
  ct_length :: int
  ct_specification :: ColumnSpecification

definition ColumnType_new :: "DataType \<Rightarrow> int \<Rightarrow> ColumnSpecification \<Rightarrow> ColumnType" where
  "ColumnType_new t len sp = \<lparr>ct_data_type = t, ct_length = len, ct_specification = sp\<rparr>"

definition ColumnType_eq :: "ColumnType \<Rightarrow> ColumnType \<Rightarrow> bool" where
  "ColumnType_eq lhs rhs =
     (if ct_data_type lhs \<noteq> ct_data_type rhs then False
      else if ct_data_type lhs = DT_VARCHAR \<or> ct_data_type lhs = DT_CHAR
      then ct_length lhs = ct_length rhs
      else True)"

definition ColumnType_neq :: "ColumnType \<Rightarrow> ColumnType \<Rightarrow> bool" where
  "ColumnType_neq lhs rhs \<longleftrightarrow> \<not> ColumnType_eq lhs rhs"

definition show_ColumnType :: "ColumnType \<Rightarrow> string" where
  "show_ColumnType c =
     (case ct_data_type c of
        DT_UNKNOWN \<Rightarrow> ''UNKNOWN'' | DT_INT \<Rightarrow> ''INT'' | DT_LONG \<Rightarrow> ''LONG'' | DT_FLOAT \<Rightarrow> ''FLOAT''
      | DT_DOUBLE \<Rightarrow> ''DOUBLE'' | DT_REAL \<Rightarrow> ''REAL''
      | DT_CHAR \<Rightarrow> ''CHAR('' @ to_string (ct_length c) @ '')''
      | DT_VARCHAR \<Rightarrow> ''VARCHAR('' @ to_string (ct_length c) @ '')''
      | DT_DECIMAL \<Rightarrow> ''DECIMAL'' | DT_TEXT \<Rightarrow> ''TEXT'' | DT_DATETIME \<Rightarrow> ''DATETIME'' | DT_DATE \<Rightarrow> ''DATE''
      | DT_TIME \<Rightarrow> ''TIME'' | DT_SMALLINT \<Rightarrow> ''SMALLINT'')"

section \<open>Expressions and selects\<close>

datatype ExprType = kExprLiteralFloat | kExprLiteralString | kExprLiteralInt | kExprLiteralNull
  | kExprLiteralDate | kExprLiteralInterval | kExprStar | kExprParameter | kExprColumnRef
  | kExprFunctionRef | kExprOperator | kExprSelect | kExprHint | kExprArray | kExprArrayIndex
  | kExprExtract | kExprCast

datatype OperatorType = kOpNone | kOpBetween | kOpCase | kOpCaseListElement | kOpPlus | kOpMinus
  | kOpAsterisk | kOpSlash | kOpPercentage | kOpCaret | kOpEquals | kOpNotEquals | kOpLess
  | kOpLessEq | kOpGreater | kOpGreaterEq | kOpLike | kOpNotLike | kOpILike | kOpAnd | kOpOr
  | kOpIn | kOpConcat | kOpNot | kOpUnaryMinus | kOpIsNull | kOpExists

datatype DatetimeField = kDatetimeNone | kDatetimeSecond | kDatetimeMinute | kDatetimeHour
  | kDatetimeDay | kDatetimeMonth | kDatetimeYear

datatype TableRefType = kTableName | kTableSelect | kTableJoin | kTableCrossProduct

datatype JoinType = kJoinInner | kJoinFull | kJoinLeft | kJoinRight | kJoinCross | kJoinNatural

datatype OrderType = kOrderAsc | kOrderDesc

datatype SetType = kSetUnion | kSetIntersect | kSetExcept

record TableName =
  tn_schema :: "string option"
  tn_name :: "string option"

record Alias =
  al_name :: "string option"
  al_columns :: "string option list option"

definition Alias_new :: "string option \<Rightarrow> string option list option \<Rightarrow> Alias" where
  "Alias_new name columns = \<lparr>al_name = name, al_columns = columns\<rparr>"

text \<open>
  The descriptions that only group pointers are parametrised by the types of the nodes they
  point to, so that expressions, selects and table references can be defined over them.
\<close>

datatype 'e OrderDescription = mkOrder (od_type: OrderType) (od_expr: "'e option")

datatype 'e LimitDescription = mkLimit (ld_limit: "'e option") (ld_offset: "'e option")

datatype 'e GroupByDescription = mkGroupBy (gb_columns: "'e list option") (gb_having: "'e option")

datatype 's WithDescription = mkWith (wd_alias: "string option") (wd_select: "'s option")

datatype ('s, 'e) SetOperation =
  mkSetOp (so_setType: SetType) (so_isAll: bool) (so_nested: "'s option")
    (so_resultOrder: "'e OrderDescription list option") (so_resultLimit: "'e LimitDescription option")

datatype ('t, 'e) JoinDefinition =
  mkJoin (jd_left: "'t option") (jd_right: "'t option") (jd_condition: "'e option") (jd_type: JoinType)

datatype Expr =
    mkExpr (e_type: ExprType) (e_expr: "Expr option") (e_expr2: "Expr option")
      (e_exprList: "Expr list option") (e_select: "SelectStatement option")
      (e_name: "string option") (e_table: "string option") (e_alias: "string option")
      (e_fval: u64) (e_ival: int) (e_ival2: int) (e_datetimeField: DatetimeField)
      (e_columnType: ColumnType) (e_isBoolLiteral: bool) (e_opType: OperatorType) (e_distinct: bool)
and SelectStatement =
    mkSelect (sel_hints: "Expr list option") (sel_fromTable: "TableRef option") (sel_distinct: bool)
      (sel_selectList: "Expr list option") (sel_whereClause: "Expr option")
      (sel_groupBy: "Expr GroupByDescription option")
      (sel_setOperations: "(SelectStatement, Expr) SetOperation list option")
      (sel_order: "Expr OrderDescription list option")
      (sel_withDescriptions: "SelectStatement WithDescription list option")
      (sel_limit: "Expr LimitDescription option")
and TableRef =
    mkTableRef (tr_type: TableRefType) (tr_schema: "string option") (tr_name: "string option")
      (tr_alias: "Alias option") (tr_select: "SelectStatement option")
      (tr_list: "TableRef list option") (tr_join: "(TableRef, Expr) JoinDefinition option")

text \<open>\<open>e->field = v\<close>, for the fields that the constructors assign.\<close>

definition set_expr :: "Expr option \<Rightarrow> Expr \<Rightarrow> Expr" where
  "set_expr v e =
     mkExpr (e_type e) v (e_expr2 e) (e_exprList e) (e_select e) (e_name e) (e_table e) (e_alias e)
       (e_fval e) (e_ival e) (e_ival2 e) (e_datetimeField e) (e_columnType e) (e_isBoolLiteral e) (e_opType e) (e_distinct e)"

definition set_expr2 :: "Expr option \<Rightarrow> Expr \<Rightarrow> Expr" where
  "set_expr2 v e =
     mkExpr (e_type e) (e_expr e) v (e_exprList e) (e_select e) (e_name e) (e_table e) (e_alias e)
       (e_fval e) (e_ival e) (e_ival2 e) (e_datetimeField e) (e_columnType e) (e_isBoolLiteral e) (e_opType e) (e_distinct e)"

definition set_exprList :: "Expr list option \<Rightarrow> Expr \<Rightarrow> Expr" where
  "set_exprList v e =
     mkExpr (e_type e) (e_expr e) (e_expr2 e) v (e_select e) (e_name e) (e_table e) (e_alias e)
       (e_fval e) (e_ival e) (e_ival2 e) (e_datetimeField e) (e_columnType e) (e_isBoolLiteral e) (e_opType e) (e_distinct e)"

definition set_select :: "SelectStatement option \<Rightarrow> Expr \<Rightarrow> Expr" where
  "set_select v e =
     mkExpr (e_type e) (e_expr e) (e_expr2 e) (e_exprList e) v (e_name e) (e_table e) (e_alias e)
       (e_fval e) (e_ival e) (e_ival2 e) (e_datetimeField e) (e_columnType e) (e_isBoolLiteral e) (e_opType e) (e_distinct e)"

definition set_name :: "string option \<Rightarrow> Expr \<Rightarrow> Expr" where
  "set_name v e =
     mkExpr (e_type e) (e_expr e) (e_expr2 e) (e_exprList e) (e_select e) v (e_table e) (e_alias e)
       (e_fval e) (e_ival e) (e_ival2 e) (e_datetimeField e) (e_columnType e) (e_isBoolLiteral e) (e_opType e) (e_distinct e)"

definition set_table :: "string option \<Rightarrow> Expr \<Rightarrow> Expr" where
  "set_table v e =
     mkExpr (e_type e) (e_expr e) (e_expr2 e) (e_exprList e) (e_select e) (e_name e) v (e_alias e)
       (e_fval e) (e_ival e) (e_ival2 e) (e_datetimeField e) (e_columnType e) (e_isBoolLiteral e) (e_opType e) (e_distinct e)"

definition set_fval :: "u64 \<Rightarrow> Expr \<Rightarrow> Expr" where
  "set_fval v e =
     mkExpr (e_type e) (e_expr e) (e_expr2 e) (e_exprList e) (e_select e) (e_name e) (e_table e) (e_alias e)
       v (e_ival e) (e_ival2 e) (e_datetimeField e) (e_columnType e) (e_isBoolLiteral e) (e_opType e) (e_distinct e)"

definition set_ival :: "int \<Rightarrow> Expr \<Rightarrow> Expr" where
  "set_ival v e =
     mkExpr (e_type e) (e_expr e) (e_expr2 e) (e_exprList e) (e_select e) (e_name e) (e_table e) (e_alias e)
       (e_fval e) v (e_ival2 e) (e_datetimeField e) (e_columnType e) (e_isBoolLiteral e) (e_opType e) (e_distinct e)"

definition set_datetimeField :: "DatetimeField \<Rightarrow> Expr \<Rightarrow> Expr" where
  "set_datetimeField v e =
     mkExpr (e_type e) (e_expr e) (e_expr2 e) (e_exprList e) (e_select e) (e_name e) (e_table e) (e_alias e)
       (e_fval e) (e_ival e) (e_ival2 e) v (e_columnType e) (e_isBoolLiteral e) (e_opType e) (e_distinct e)"

definition set_columnType :: "ColumnType \<Rightarrow> Expr \<Rightarrow> Expr" where
  "set_columnType v e =
     mkExpr (e_type e) (e_expr e) (e_expr2 e) (e_exprList e) (e_select e) (e_name e) (e_table e) (e_alias e)
       (e_fval e) (e_ival e) (e_ival2 e) (e_datetimeField e) v (e_isBoolLiteral e) (e_opType e) (e_distinct e)"

definition set_isBoolLiteral :: "bool \<Rightarrow> Expr \<Rightarrow> Expr" where
  "set_isBoolLiteral v e =
     mkExpr (e_type e) (e_expr e) (e_expr2 e) (e_exprList e) (e_select e) (e_name e) (e_table e) (e_alias e)
       (e_fval e) (e_ival e) (e_ival2 e) (e_datetimeField e) (e_columnType e) v (e_opType e) (e_distinct e)"

definition set_opType :: "OperatorType \<Rightarrow> Expr \<Rightarrow> Expr" where
  "set_opType v e =
     mkExpr (e_type e) (e_expr e) (e_expr2 e) (e_exprList e) (e_select e) (e_name e) (e_table e) (e_alias e)
       (e_fval e) (e_ival e) (e_ival2 e) (e_datetimeField e) (e_columnType e) (e_isBoolLiteral e) v (e_distinct e)"

definition set_distinct :: "bool \<Rightarrow> Expr \<Rightarrow> Expr" where
  "set_distinct v e =
     mkExpr (e_type e) (e_expr e) (e_expr2 e) (e_exprList e) (e_select e) (e_name e) (e_table e) (e_alias e)
       (e_fval e) (e_ival e) (e_ival2 e) (e_datetimeField e) (e_columnType e) (e_isBoolLiteral e) (e_opType e) v"

lemmas set_defs = set_expr_def set_expr2_def set_exprList_def set_select_def set_name_def 
  set_table_def set_fval_def set_ival_def set_datetimeField_def set_columnType_def set_isBoolLiteral_def 
  set_opType_def set_distinct_def

text \<open>The constructor \<open>Expr::Expr\<close> and the static makers.\<close>

definition Expr_new :: "ExprType \<Rightarrow> Expr" where
  "Expr_new t = mkExpr t None None None None None None None 0 0 0 kDatetimeNone
     (ColumnType_new DT_UNKNOWN 0 (ColumnSpecification_of 0 0)) False kOpNone False"

definition make :: "ExprType \<Rightarrow> Expr" where
  "make t = Expr_new t"

definition makeOpUnary :: "OperatorType \<Rightarrow> Expr option \<Rightarrow> Expr" where
  "makeOpUnary op x = set_expr2 None (set_expr x (set_opType op (Expr_new kExprOperator)))"

definition makeOpBinary :: "Expr option \<Rightarrow> OperatorType \<Rightarrow> Expr option \<Rightarrow> Expr" where
  "makeOpBinary expr1 op expr2 = set_expr2 expr2 (set_expr expr1 (set_opType op (Expr_new kExprOperator)))"

definition makeBetween :: "Expr option \<Rightarrow> Expr \<Rightarrow> Expr \<Rightarrow> Expr" where
  "makeBetween x left right =
     set_exprList (Some ([] @ [left] @ [right])) (set_opType kOpBetween (set_expr x (Expr_new kExprOperator)))"

definition makeCaseList :: "Expr \<Rightarrow> Expr" where
  "makeCaseList caseListElement =
     set_exprList (Some ([] @ [caseListElement])) (set_opType kOpNone (Expr_new kExprOperator))"

definition makeCaseListElement :: "Expr option \<Rightarrow> Expr option \<Rightarrow> Expr" where
  "makeCaseListElement whn thn =
     set_expr2 thn (set_expr whn (set_opType kOpCaseListElement (Expr_new kExprOperator)))"

definition caseListAppend :: "Expr \<Rightarrow> Expr \<Rightarrow> Expr res" where
  "caseListAppend caseList caseListElement =
     (case e_exprList caseList of
        None \<Rightarrow> Inl NullDeref
      | Some es \<Rightarrow> Inr (set_exprList (Some (es @ [caseListElement])) caseList))"

definition makeCase :: "Expr option \<Rightarrow> Expr \<Rightarrow> Expr option \<Rightarrow> Expr" where
  "makeCase x caseList elseExpr =
     set_exprList (e_exprList caseList)
       (set_expr2 elseExpr (set_expr x (set_opType kOpCase (Expr_new kExprOperator))))"

definition makeLiteral_int :: "int \<Rightarrow> Expr" where
  "makeLiteral_int val = set_ival val (Expr_new kExprLiteralInt)"

definition makeLiteral_double :: "u64 \<Rightarrow> Expr" where
  "makeLiteral_double value = set_fval value (Expr_new kExprLiteralFloat)"

definition makeLiteral_string :: "string option \<Rightarrow> Expr" where
  "makeLiteral_string s = set_name s (Expr_new kExprLiteralString)"

definition makeLiteral_bool :: "bool \<Rightarrow> Expr" where
  "makeLiteral_bool val = set_isBoolLiteral True (set_ival (if val then 1 else 0) (Expr_new kExprLiteralInt))"

definition makeNullLiteral :: Expr where
  "makeNullLiteral = Expr_new kExprLiteralNull"

definition makeDateLiteral :: "string option \<Rightarrow> Expr" where
  "makeDateLiteral s = set_name s (Expr_new kExprLiteralDate)"

definition makeIntervalLiteral :: "int \<Rightarrow> DatetimeField \<Rightarrow> Expr" where
  "makeIntervalLiteral duration unit = set_datetimeField unit (set_ival duration (Expr_new kExprLiteralInterval))"

definition makeColumnRef :: "string option \<Rightarrow> Expr" where
  "makeColumnRef name = set_name name (Expr_new kExprColumnRef)"

definition makeColumnRef_table :: "string option \<Rightarrow> string option \<Rightarrow> Expr" where
  "makeColumnRef_table table name = set_table table (set_name name (Expr_new kExprColumnRef))"

definition makeStar :: Expr where
  "makeStar = Expr_new kExprStar"

definition makeStar_table :: "string option \<Rightarrow> Expr" where
  "makeStar_table table = set_table table (Expr_new kExprStar)"

definition makeFunctionRef :: "string option \<Rightarrow> Expr list option \<Rightarrow> bool \<Rightarrow> Expr" where
  "makeFunctionRef func_name exprList dist =
     set_distinct dist (set_exprList exprList (set_name func_name (Expr_new kExprFunctionRef)))"

definition makeArray :: "Expr list option \<Rightarrow> Expr" where
  "makeArray exprList = set_exprList exprList (Expr_new kExprArray)"

definition makeArrayIndex :: "Expr option \<Rightarrow> int \<Rightarrow> Expr" where
  "makeArrayIndex x index = set_ival index (set_expr x (Expr_new kExprArrayIndex))"

definition makeParameter :: "int \<Rightarrow> Expr" where
  "makeParameter i = set_ival i (Expr_new kExprParameter)"

definition makeSelect :: "SelectStatement option \<Rightarrow> Expr" where
  "makeSelect select = set_select select (Expr_new kExprSelect)"

definition makeExists :: "SelectStatement option \<Rightarrow> Expr" where
  "makeExists select = set_select select (set_opType kOpExists (Expr_new kExprOperator))"

definition makeInOperator :: "Expr option \<Rightarrow> Expr list option \<Rightarrow> Expr" where
  "makeInOperator x exprList = set_exprList exprList (set_expr x (set_opType kOpIn (Expr_new kExprOperator)))"

definition makeInOperator_select :: "Expr option \<Rightarrow> SelectStatement option \<Rightarrow> Expr" where
  "makeInOperator_select x select = set_select select (set_expr x (set_opType kOpIn (Expr_new kExprOperator)))"

definition makeExtract :: "DatetimeField \<Rightarrow> Expr option \<Rightarrow> Expr" where
  "makeExtract datetimeField x = set_expr x (set_datetimeField datetimeField (Expr_new kExprExtract))"

definition makeCast :: "Expr option \<Rightarrow> ColumnType \<Rightarrow> Expr" where
  "makeCast x columnType = set_expr x (set_columnType columnType (Expr_new kExprCast))"

definition isType :: "Expr \<Rightarrow> ExprType \<Rightarrow> bool" where
  "isType e exprType \<longleftrightarrow> exprType = e_type e"

definition isLiteral :: "Expr \<Rightarrow> bool" where
  "isLiteral e \<longleftrightarrow> isType e kExprLiteralInt \<or> isType e kExprLiteralFloat \<or>
     isType e kExprLiteralString \<or> isType e kExprParameter \<or> isType e kExprLiteralNull \<or>
     isType e kExprLiteralDate \<or> isType e kExprLiteralInterval"

definition hasAlias :: "Expr \<Rightarrow> bool" where
  "hasAlias e \<longleftrightarrow> e_alias e \<noteq> None"

definition hasTable :: "Expr \<Rightarrow> bool" where
  "hasTable e \<longleftrightarrow> e_table e \<noteq> None"

definition getName :: "Expr \<Rightarrow> string option" where
  "getName e = (if e_alias e \<noteq> None then e_alias e else e_name e)"

text \<open>\<open>substr\<close> of the lexer: \<open>strncpy\<close> stops at a zero and pads with zeros.\<close>

definition lexer_substr :: "string \<Rightarrow> int \<Rightarrow> int \<Rightarrow> string res" where
  "lexer_substr source from until =
     (let len = until - from in
      if from < 0 \<or> len < 0 \<or> int (length source) < from then Inl OutOfBounds
      else let s = takeWhile (\<lambda>c. c \<noteq> CHR 0x00) (take (nat len) (drop (nat from) source)) in
        Inr (s @ replicate (nat len - length s) (CHR 0x00)))"

section \<open>Table references and selects\<close>

definition TableRef_new :: "TableRefType \<Rightarrow> TableRef" where
  "TableRef_new t = mkTableRef t None None None None None None"

definition hasSchema :: "TableRef \<Rightarrow> bool" where
  "hasSchema t \<longleftrightarrow> tr_schema t \<noteq> None"

definition TableRef_getName :: "TableRef \<Rightarrow> string option" where
  "TableRef_getName t = (case tr_alias t of Some a \<Rightarrow> al_name a | None \<Rightarrow> tr_name t)"

definition JoinDefinition_new :: "(TableRef, Expr) JoinDefinition" where
  "JoinDefinition_new = mkJoin None None None kJoinInner"

definition OrderDescription_new :: "OrderType \<Rightarrow> Expr option \<Rightarrow> Expr OrderDescription" where
  "OrderDescription_new t x = mkOrder t x"

definition LimitDescription_new :: "Expr option \<Rightarrow> Expr option \<Rightarrow> Expr LimitDescription" where
  "LimitDescription_new limit offset = mkLimit limit offset"

definition GroupByDescription_new :: "Expr GroupByDescription" where
  "GroupByDescription_new = mkGroupBy None None"

text \<open>The constructor leaves \<open>setType\<close> and \<open>isAll\<close> as they are in memory.\<close>

definition SetOperation_new :: "SetType \<Rightarrow> bool \<Rightarrow> (SelectStatement, Expr) SetOperation" where
  "SetOperation_new t all = mkSetOp t all None None None"

definition SelectStatement_new :: SelectStatement where
  "SelectStatement_new = mkSelect None None False None None None None None None None"

end
