(* ===== verification/Statements.thy ===== *)
theory Statements
  imports Ast
begin

text \<open>
  The statements (\<open>parser/*_statement.h\<close>, the constructors in \<open>parser/statements.cpp\<close>,
  \<open>sql_statement.cpp\<close> and \<open>prepare_statement.cpp\<close>), the result of the parser
  (\<open>parser/sql_parser_result.cpp\<close>) and its entry points (\<open>parser/sql_parser.cpp\<close>), which take the
  scanner and the parser as arguments (\<open>Scanner\<close> and \<open>Parser\<close> define them). Where a constructor
  leaves a field uninitialised, its value is an argument.
\<close>

section \<open>The base of a statement\<close>

datatype StatementType = kStmtError | kStmtSelect | kStmtImport | kStmtInsert | kStmtUpdate
  | kStmtDelete | kStmtCreate | kStmtDrop | kStmtPrepare | kStmtExecute | kStmtExport
  | kStmtRename | kStmtAlter | kStmtShow | kStmtTransaction

record SQLStatement =
  st_type :: StatementType
  st_hints :: "Expr list option"

definition SQLStatement_new :: "StatementType \<Rightarrow> SQLStatement" where
  "SQLStatement_new t = \<lparr>st_type = t, st_hints = None\<rparr>"

definition stmt_isType :: "StatementType \<Rightarrow> 'a SQLStatement_scheme \<Rightarrow> bool" where
  "stmt_isType t s \<longleftrightarrow> st_type s = t"

definition stmt_is :: "StatementType \<Rightarrow> 'a SQLStatement_scheme \<Rightarrow> bool" where
  "stmt_is t s \<longleftrightarrow> stmt_isType t s"

section \<open>CREATE\<close>

datatype ConstraintType = CNone | NotNull | Null | PrimaryKey | Unique

record TableConstraint =
  tc_type :: ConstraintType
  tc_columnNames :: "string list"

definition TableConstraint_new :: "ConstraintType \<Rightarrow> string list \<Rightarrow> TableConstraint" where
  "TableConstraint_new t columnNames = \<lparr>tc_type = t, tc_columnNames = columnNames\<rparr>"

record ColumnDefinition =
  cd_constraints :: "ConstraintType list"
  cd_name :: "string option"
  cd_type :: ColumnType
  cd_nullable :: bool

definition ColumnDefinition_new :: "string option \<Rightarrow> ColumnType \<Rightarrow> ConstraintType list \<Rightarrow> ColumnDefinition" where
  "ColumnDefinition_new name t column_constraints =
     \<lparr>cd_constraints = column_constraints, cd_name = name, cd_type = t, cd_nullable = False\<rparr>"

text \<open>
  The loop of \<open>setNullableExplicit\<close>: after erasing the element at the index, the index still
  moves on, so the element that took its place is not looked at.
\<close>

function nullable_loop :: "nat \<Rightarrow> ConstraintType list \<Rightarrow> bool \<Rightarrow> ConstraintType list \<times> bool" where
  "nullable_loop i cs nullable =
     (if i < length cs then
        if cs ! i = Null then nullable_loop (i + 1) (take i cs @ drop (i + 1) cs) True
        else if cs ! i = NotNull then nullable_loop (i + 1) (take i cs @ drop (i + 1) cs) nullable
        else nullable_loop (i + 1) cs nullable
      else (cs, nullable))"
  by pat_completeness auto
termination
  by (relation "measure (\<lambda>(i, cs, n). length cs - i)") auto

declare nullable_loop.simps [simp del]

definition setNullableExplicit :: "ColumnDefinition \<Rightarrow> ColumnDefinition" where
  "setNullableExplicit d =
     (let (cs, n) = nullable_loop 0 (cd_constraints d) False in
      d\<lparr>cd_constraints := cs, cd_nullable := n\<rparr>)"

datatype TableElement = ElemColumn ColumnDefinition | ElemConstraint TableConstraint

datatype CreateType = kCreateTable | kCreateTableFromTbl | kCreateView | kCreateIndex

record CreateStatement = SQLStatement +
  cs_type :: CreateType
  cs_ifNotExists :: bool
  cs_filePath :: "string option"
  cs_schema :: "string option"
  cs_tableName :: "string option"
  cs_indexName :: "string option"
  cs_indexColumns :: "string list option"
  cs_columns :: "ColumnDefinition list option"
  cs_tableConstraints :: "TableConstraint list option"
  cs_viewColumns :: "string list option"
  cs_select :: "SelectStatement option"

definition CreateStatement_new :: "CreateType \<Rightarrow> CreateStatement" where
  "CreateStatement_new t = SQLStatement.extend (SQLStatement_new kStmtCreate)
     \<lparr>cs_type = t, cs_ifNotExists = False, cs_filePath = None, cs_schema = None,
      cs_tableName = None, cs_indexName = None, cs_indexColumns = None, cs_columns = None,
      cs_tableConstraints = None, cs_viewColumns = None, cs_select = None\<rparr>"

fun elements_loop :: "TableElement list \<Rightarrow> ColumnDefinition list \<Rightarrow> TableConstraint list \<Rightarrow>
    ColumnDefinition list \<times> TableConstraint list" where
  "elements_loop [] columns tableConstraints = (columns, tableConstraints)"
| "elements_loop (ElemColumn colDef # es) columns tableConstraints =
     elements_loop es (columns @ [colDef]) tableConstraints"
| "elements_loop (ElemConstraint tableConstraint # es) columns tableConstraints =
     elements_loop es columns (tableConstraints @ [tableConstraint])"

definition setColumnDefsAndConstraints :: "TableElement list \<Rightarrow> CreateStatement \<Rightarrow> CreateStatement" where
  "setColumnDefsAndConstraints tableElements s =
     (let (columns, tableConstraints) = elements_loop tableElements [] [] in
      s\<lparr>cs_columns := Some columns, cs_tableConstraints := Some tableConstraints\<rparr>)"

section \<open>The other statements\<close>

record DeleteStatement = SQLStatement +
  del_schema :: "string option"
  del_tableName :: "string option"
  del_expr :: "Expr option"

definition DeleteStatement_new :: DeleteStatement where
  "DeleteStatement_new = SQLStatement.extend (SQLStatement_new kStmtDelete)
     \<lparr>del_schema = None, del_tableName = None, del_expr = None\<rparr>"

datatype DropType = kDropTable | kDropSchema | kDropIndex | kDropView | kDropPreparedStatement

record DropStatement = SQLStatement +
  drop_type :: DropType
  drop_ifExists :: bool
  drop_schema :: "string option"
  drop_name :: "string option"
  drop_indexName :: "string option"

text \<open>\<open>ifExists\<close> is not initialised.\<close>

definition DropStatement_new :: "bool \<Rightarrow> DropType \<Rightarrow> DropStatement" where
  "DropStatement_new uninit t = SQLStatement.extend (SQLStatement_new kStmtDrop)
     \<lparr>drop_type = t, drop_ifExists = uninit, drop_schema = None, drop_name = None, drop_indexName = None\<rparr>"

datatype ActionType = DropColumn

record AlterAction =
  aa_type :: ActionType

definition AlterAction_new :: "ActionType \<Rightarrow> AlterAction" where
  "AlterAction_new t = \<lparr>aa_type = t\<rparr>"

record DropColumnAction = AlterAction +
  dca_columnName :: "string option"
  dca_ifExists :: bool

definition DropColumnAction_new :: "string option \<Rightarrow> DropColumnAction" where
  "DropColumnAction_new column_name = AlterAction.extend (AlterAction_new DropColumn)
     \<lparr>dca_columnName = column_name, dca_ifExists = False\<rparr>"

record AlterStatement = SQLStatement +
  alt_schema :: "string option"
  alt_ifTableExists :: bool
  alt_name :: "string option"
  alt_action :: "DropColumnAction option"

definition AlterStatement_new :: "string option \<Rightarrow> DropColumnAction option \<Rightarrow> AlterStatement" where
  "AlterStatement_new name action = SQLStatement.extend (SQLStatement_new kStmtAlter)
     \<lparr>alt_schema = None, alt_ifTableExists = False, alt_name = name, alt_action = action\<rparr>"

datatype TransactionCommand = kBeginTransaction | kCommitTransaction | kRollbackTransaction

record TransactionStatement = SQLStatement +
  tx_command :: TransactionCommand

definition TransactionStatement_new :: "TransactionCommand \<Rightarrow> TransactionStatement" where
  "TransactionStatement_new c = SQLStatement.extend (SQLStatement_new kStmtTransaction) \<lparr>tx_command = c\<rparr>"

record ExecuteStatement = SQLStatement +
  exe_name :: "string option"
  exe_parameters :: "Expr list option"

definition ExecuteStatement_new :: ExecuteStatement where
  "ExecuteStatement_new = SQLStatement.extend (SQLStatement_new kStmtExecute)
     \<lparr>exe_name = None, exe_parameters = None\<rparr>"

record PrepareStatement = SQLStatement +
  prep_name :: "string option"
  prep_query :: "string option"

definition PrepareStatement_new :: PrepareStatement where
  "PrepareStatement_new = SQLStatement.extend (SQLStatement_new kStmtPrepare)
     \<lparr>prep_name = None, prep_query = None\<rparr>"

datatype ImportType = kImportCSV | kImportTbl | kImportBinary | kImportAuto

record ExportStatement = SQLStatement +
  exp_type :: ImportType
  exp_filePath :: "string option"
  exp_schema :: "string option"
  exp_tableName :: "string option"

definition ExportStatement_new :: "ImportType \<Rightarrow> ExportStatement" where
  "ExportStatement_new t = SQLStatement.extend (SQLStatement_new kStmtExport)
     \<lparr>exp_type = t, exp_filePath = None, exp_schema = None, exp_tableName = None\<rparr>"

record ImportStatement = SQLStatement +
  imp_type :: ImportType
  imp_filePath :: "string option"
  imp_schema :: "string option"
  imp_tableName :: "string option"

definition ImportStatement_new :: "ImportType \<Rightarrow> ImportStatement" where
  "ImportStatement_new t = SQLStatement.extend (SQLStatement_new kStmtImport)
     \<lparr>imp_type = t, imp_filePath = None, imp_schema = None, imp_tableName = None\<rparr>"

datatype InsertType = kInsertValues | kInsertSelect

record InsertStatement = SQLStatement +
  ins_type :: InsertType
  ins_schema :: "string option"
  ins_tableName :: "string option"
  ins_columns :: "string list option"
  ins_values :: "Expr list option"
  ins_select :: "SelectStatement option"

definition InsertStatement_new :: "InsertType \<Rightarrow> InsertStatement" where
  "InsertStatement_new t = SQLStatement.extend (SQLStatement_new kStmtInsert)
     \<lparr>ins_type = t, ins_schema = None, ins_tableName = None, ins_columns = None,
      ins_values = None, ins_select = None\<rparr>"

datatype ShowType = kShowColumns | kShowTables

record ShowStatement = SQLStatement +
  show_type :: ShowType
  show_schema :: "string option"
  show_name :: "string option"

definition ShowStatement_new :: "ShowType \<Rightarrow> ShowStatement" where
  "ShowStatement_new t = SQLStatement.extend (SQLStatement_new kStmtShow)
     \<lparr>show_type = t, show_schema = None, show_name = None\<rparr>"

record UpdateClause =
  uc_column :: "string option"
  uc_value :: "Expr option"

record UpdateStatement = SQLStatement +
  upd_table :: "TableRef option"
  upd_updates :: "UpdateClause list option"
  upd_where :: "Expr option"

definition UpdateStatement_new :: UpdateStatement where
  "UpdateStatement_new = SQLStatement.extend (SQLStatement_new kStmtUpdate)
     \<lparr>upd_table = None, upd_updates = None, upd_where = None\<rparr>"

text \<open>A pointer to a statement: what the casts in the executor recover from \<open>type()\<close>.\<close>

datatype stmt =
    SSelect SelectStatement
  | SImport ImportStatement
  | SInsert InsertStatement
  | SUpdate UpdateStatement
  | SDelete DeleteStatement
  | SCreate CreateStatement
  | SDrop DropStatement
  | SPrepare PrepareStatement
  | SExecute ExecuteStatement
  | SExport ExportStatement
  | SAlter AlterStatement
  | SShow ShowStatement
  | STransaction TransactionStatement

fun stmt_type :: "stmt \<Rightarrow> StatementType" where
  "stmt_type (SSelect _) = kStmtSelect"
| "stmt_type (SImport s) = st_type s"
| "stmt_type (SInsert s) = st_type s"
| "stmt_type (SUpdate s) = st_type s"
| "stmt_type (SDelete s) = st_type s"
| "stmt_type (SCreate s) = st_type s"
| "stmt_type (SDrop s) = st_type s"
| "stmt_type (SPrepare s) = st_type s"
| "stmt_type (SExecute s) = st_type s"
| "stmt_type (SExport s) = st_type s"
| "stmt_type (SAlter s) = st_type s"
| "stmt_type (SShow s) = st_type s"
| "stmt_type (STransaction s) = st_type s"

section \<open>The result of the parser\<close>

record SQLParserResult =
  res_statements :: "stmt list"
  res_isValid :: bool
  res_errorMsg :: "string option"
  res_errorLine :: int
  res_errorColumn :: int
  res_parameters :: "Expr list"

text \<open>The constructors leave the error position as it is in memory.\<close>

definition SQLParserResult_new :: "int \<Rightarrow> int \<Rightarrow> SQLParserResult" where
  "SQLParserResult_new line col = \<lparr>res_statements = [], res_isValid = False, res_errorMsg = None,
     res_errorLine = line, res_errorColumn = col, res_parameters = []\<rparr>"

definition addStatement :: "stmt \<Rightarrow> SQLParserResult \<Rightarrow> SQLParserResult" where
  "addStatement s r = r\<lparr>res_statements := res_statements r @ [s]\<rparr>"

definition SQLParserResult_of :: "int \<Rightarrow> int \<Rightarrow> stmt \<Rightarrow> SQLParserResult" where
  "SQLParserResult_of line col s = addStatement s (SQLParserResult_new line col)"

definition res_reset :: "SQLParserResult \<Rightarrow> SQLParserResult" where
  "res_reset r = r\<lparr>res_statements := [], res_isValid := False, res_errorMsg := None,
     res_errorLine := -1, res_errorColumn := -1\<rparr>"

text \<open>\<open>operator=(SQLParserResult&&)\<close>: the new target and what is left of the source.\<close>

definition res_move :: "SQLParserResult \<Rightarrow> SQLParserResult \<Rightarrow> SQLParserResult \<times> SQLParserResult" where
  "res_move this moved =
     (let this = this\<lparr>res_isValid := res_isValid moved, res_errorMsg := res_errorMsg moved,
            res_statements := res_statements moved\<rparr>;
          moved = moved\<lparr>res_statements := [], res_errorMsg := None\<rparr>
      in (this, res_reset moved))"

definition getStatement :: "nat \<Rightarrow> SQLParserResult \<Rightarrow> stmt res" where
  "getStatement i r = nthR (res_statements r) i"

definition getMutableStatement :: "nat \<Rightarrow> SQLParserResult \<Rightarrow> stmt res" where
  "getMutableStatement i r = nthR (res_statements r) i"

definition res_size :: "SQLParserResult \<Rightarrow> nat" where
  "res_size r = length (res_statements r)"

definition isValid :: "SQLParserResult \<Rightarrow> bool" where
  "isValid r = res_isValid r"

definition errorMsg :: "SQLParserResult \<Rightarrow> string option" where
  "errorMsg r = res_errorMsg r"

definition errorLine :: "SQLParserResult \<Rightarrow> int" where
  "errorLine r = res_errorLine r"

definition errorColumn :: "SQLParserResult \<Rightarrow> int" where
  "errorColumn r = res_errorColumn r"

definition setIsValid :: "bool \<Rightarrow> SQLParserResult \<Rightarrow> SQLParserResult" where
  "setIsValid v r = r\<lparr>res_isValid := v\<rparr>"

definition setErrorDetails :: "string option \<Rightarrow> int \<Rightarrow> int \<Rightarrow> SQLParserResult \<Rightarrow> SQLParserResult" where
  "setErrorDetails msg line col r =
     r\<lparr>res_errorMsg := msg, res_errorLine := line, res_errorColumn := col\<rparr>"

definition getStatements :: "SQLParserResult \<Rightarrow> stmt list" where
  "getStatements r = res_statements r"

definition releaseStatements :: "SQLParserResult \<Rightarrow> stmt list \<times> SQLParserResult" where
  "releaseStatements r = (res_statements r, r\<lparr>res_statements := []\<rparr>)"

text \<open>\<open>std::sort\<close> by \<open>ival\<close>, here stable; the library leaves the order of equal keys open.\<close>

definition addParameter :: "Expr \<Rightarrow> SQLParserResult \<Rightarrow> SQLParserResult" where
  "addParameter parameter r = r\<lparr>res_parameters := sort_key e_ival (res_parameters r @ [parameter])\<rparr>"

definition parameters :: "SQLParserResult \<Rightarrow> Expr list" where
  "parameters r = res_parameters r"

section \<open>The entry points\<close>

definition c_str :: "string \<Rightarrow> string" where
  "c_str s = takeWhile (\<lambda>c. c \<noteq> CHR 0x00) s"

text \<open>
  \<open>lex_fails\<close> is the answer of \<open>hsql_lex_init\<close>, \<open>hsql_parse\<close> the parser (theory \<open>Parser\<close>): its return
  code and the result it filled.
\<close>

definition parse :: "bool \<Rightarrow> (string \<Rightarrow> SQLParserResult \<Rightarrow> (int \<times> SQLParserResult) res) \<Rightarrow> string \<Rightarrow>
    SQLParserResult \<Rightarrow> (bool \<times> SQLParserResult) res" where
  "parse lex_fails hsql_parse sql result =
     (if lex_fails then Inr (False, result)
      else bindR (hsql_parse (c_str sql) result) (\<lambda>(ret, result).
        Inr (True, setIsValid (ret = 0) result)))"

definition parseSQLString :: "bool \<Rightarrow> (string \<Rightarrow> SQLParserResult \<Rightarrow> (int \<times> SQLParserResult) res) \<Rightarrow> string \<Rightarrow>
    SQLParserResult \<Rightarrow> (bool \<times> SQLParserResult) res" where
  "parseSQLString lex_fails hsql_parse sql result = parse lex_fails hsql_parse sql result"

text \<open>
  \<open>hsql_lex\<close> is a parameter here: a token and the next state of the scanner, or nothing when it
  does not return (\<open>ScanTotal\<close> instantiates it). The loop may not end either.
\<close>

partial_function (option) tokenize_loop :: "('s \<Rightarrow> (int \<times> 's) option) \<Rightarrow> 's \<Rightarrow> int \<Rightarrow> int list \<Rightarrow> int list option" where
  "tokenize_loop hsql_lex scanner token tokens =
     (if token \<noteq> 0 then
        (case hsql_lex scanner of
           None \<Rightarrow> None
         | Some (token', scanner) \<Rightarrow> tokenize_loop hsql_lex scanner token' (tokens @ [token]))
      else Some tokens)"

definition tokenize :: "bool \<Rightarrow> ('s \<Rightarrow> (int \<times> 's) option) \<Rightarrow> (string \<Rightarrow> 's) \<Rightarrow> string \<Rightarrow> (bool \<times> int list) option" where
  "tokenize lex_fails hsql_lex scan_string sql =
     (if lex_fails then Some (False, [])
      else (case hsql_lex (scan_string (c_str sql)) of
              None \<Rightarrow> None
            | Some (token, scanner) \<Rightarrow>
                map_option (\<lambda>tokens. (True, tokens)) (tokenize_loop hsql_lex scanner token [])))"

section \<open>Lemmas\<close>

lemma c_str_id: "CHR 0x00 \<notin> set s \<Longrightarrow> c_str s = s"
  by (auto simp: c_str_def takeWhile_eq_all_conv)

lemma elements_loop_eq:
  "elements_loop es cols tcs =
     (cols @ List.map_filter (\<lambda>e. case e of ElemColumn c \<Rightarrow> Some c | _ \<Rightarrow> None) es,
      tcs @ List.map_filter (\<lambda>e. case e of ElemConstraint c \<Rightarrow> Some c | _ \<Rightarrow> None) es)"
  by (induction es cols tcs rule: elements_loop.induct) (simp_all add: List.map_filter_simps)

text \<open>What \<open>setNullableExplicit\<close> computes, by recursion on the list.\<close>

fun nullable_rec :: "ConstraintType list \<Rightarrow> bool \<Rightarrow> ConstraintType list \<times> bool" where
  "nullable_rec [] n = ([], n)"
| "nullable_rec [c] n =
     (if c = Null then ([], True) else if c = NotNull then ([], n) else ([c], n))"
| "nullable_rec (c # d # cs) n =
     (if c = Null then apfst (Cons d) (nullable_rec cs True)
      else if c = NotNull then apfst (Cons d) (nullable_rec cs n)
      else apfst (Cons c) (nullable_rec (d # cs) n))"

lemma nullable_loop_end: "nullable_loop (length pre) pre n = (pre, n)"
  by (subst nullable_loop.simps) simp

lemma nullable_loop_past: "nullable_loop (length pre + 1) pre n = (pre, n)"
  by (subst nullable_loop.simps) simp

lemma nullable_loop_rec: "nullable_loop (length pre) (pre @ cs) n = apfst (append pre) (nullable_rec cs n)"
proof (induction cs n arbitrary: pre rule: nullable_rec.induct)
  case (1 n)
  then show ?case by (simp add: nullable_loop_end)
next
  case (2 c n)
  then show ?case
    using nullable_loop_past [of pre] nullable_loop_end [of "pre @ [c]"]
    by (subst nullable_loop.simps) simp
next
  case (3 c d cs n)
  show ?case
    using 3 [of "pre @ [d]"] "3.IH"(3) [of "pre @ [c]"]
    by (subst nullable_loop.simps) (auto simp: apfst_def map_prod_def split_beta)
qed

text \<open>No two nullability constraints in a row.\<close>

definition nullability :: "ConstraintType \<Rightarrow> bool" where
  "nullability c \<longleftrightarrow> c = Null \<or> c = NotNull"

fun spaced :: "ConstraintType list \<Rightarrow> bool" where
  "spaced (c # d # cs) = ((nullability c \<longrightarrow> \<not> nullability d) \<and> spaced (d # cs))"
| "spaced cs = True"

lemma nullable_rec_spaced:
  "spaced cs \<Longrightarrow> nullable_rec cs n = (filter (\<lambda>c. \<not> nullability c) cs, n \<or> Null \<in> set cs)"
proof (induction cs n rule: nullable_rec.induct)
  case (3 c d cs n)
  have "spaced cs" using 3(4) by (cases cs) simp_all
  with 3 show ?case by (auto simp: nullability_def)
qed (auto simp: nullability_def)

lemma setNullableExplicit_eq:
  "setNullableExplicit d =
     d\<lparr>cd_constraints := fst (nullable_rec (cd_constraints d) False),
       cd_nullable := snd (nullable_rec (cd_constraints d) False)\<rparr>"
  using nullable_loop_rec [of "[]" "cd_constraints d" False]
  by (simp add: setNullableExplicit_def split_beta apfst_def map_prod_def)

section \<open>Properties\<close>

text \<open>A column is nullable exactly if one of its constraints says \<open>NULL\<close>, and the
  nullability constraints are taken off the list while all others stay in order, provided
  no two nullability constraints stand next to each other.\<close>

lemma nullable_from_constraints:
  assumes "spaced (cd_constraints d)"
  shows "setNullableExplicit d =
    d\<lparr>cd_constraints := filter (\<lambda>c. \<not> nullability c) (cd_constraints d),
      cd_nullable := Null \<in> set (cd_constraints d)\<rparr>"
  using nullable_rec_spaced [OF assms, of False] by (simp add: setNullableExplicit_eq)

text \<open>Two nullability constraints in a row: the second is skipped by the loop that erases
  the first, so \<open>NOT NULL NULL\<close> leaves the column not nullable and the constraint on its
  list.\<close>

lemma adjacent_constraint_skipped:
  "setNullableExplicit (ColumnDefinition_new name t [NotNull, Null]) =
     ColumnDefinition_new name t [Null]"
  by (simp add: setNullableExplicit_eq ColumnDefinition_new_def)

text \<open>Moving a parser result hands over the validity, the message and the statements and
  empties the source, but the error position and the parameters of the target stay its own.\<close>

lemma move_keeps_stale_details:
  "res_move this moved =
    (moved\<lparr>res_errorLine := errorLine this, res_errorColumn := errorColumn this,
       res_parameters := parameters this\<rparr>,
     moved\<lparr>res_statements := [], res_isValid := False, res_errorMsg := None,
       res_errorLine := -1, res_errorColumn := -1\<rparr>)"
  by (simp add: res_move_def Let_def res_reset_def errorLine_def errorColumn_def parameters_def)

end
