(* ===== verification/Catalog.thy ===== *)
theory Catalog
  imports Statements StringUtils "HOL-Library.AList" "HOL-Library.Sublist"
begin

text \<open>
  The catalog (\<open>meta/\<close>): columns, tables, databases and the DBMS object, their in-memory maps
  and what they persist in the key-value store. The store, a Redis server reached through
  \<open>hiredis\<close>, is a parameter. The lemmas: a schema survives persisting, and restarting the
  server finds the tables that were created.
\<close>

section \<open>The key-value store\<close>

text \<open>
  The commands the code sends. \<open>%s\<close> passes a C string. A null reply (the connection is
  broken) and a reply without a string or without elements are different things to the code:
  \<open>GET\<close> yields \<open>None\<close> for a null reply and \<open>Some None\<close> for an absent key; \<open>SCAN\<close> yields the
  elements of \<open>element[1]\<close>, keys and values in turn, with its \<open>COUNT\<close> if there is one.
\<close>

record 'st redis =
  r_set :: "string \<Rightarrow> string \<Rightarrow> 'st \<Rightarrow> 'st"
  r_get :: "string \<Rightarrow> 'st \<Rightarrow> string option option"
  r_del :: "string \<Rightarrow> 'st \<Rightarrow> 'st"
  r_scan :: "nat option \<Rightarrow> string \<Rightarrow> 'st \<Rightarrow> string list option option"

definition cmd_SET :: "'st redis \<Rightarrow> string \<Rightarrow> string \<Rightarrow> 'st \<Rightarrow> 'st" where
  "cmd_SET R k v = r_set R (c_str k) (c_str v)"

definition cmd_GET :: "'st redis \<Rightarrow> string \<Rightarrow> 'st \<Rightarrow> string option res" where
  "cmd_GET R k st = (case r_get R (c_str k) st of None \<Rightarrow> Inl NullDeref | Some r \<Rightarrow> Inr r)"

definition cmd_DEL :: "'st redis \<Rightarrow> string \<Rightarrow> 'st \<Rightarrow> 'st" where
  "cmd_DEL R k = r_del R (c_str k)"

definition cmd_SCAN :: "'st redis \<Rightarrow> nat option \<Rightarrow> string \<Rightarrow> 'st \<Rightarrow> string list option res" where
  "cmd_SCAN R n p st = (case r_scan R n (c_str p) st of None \<Rightarrow> Inl NullDeref | Some r \<Rightarrow> Inr r)"

section \<open>Columns and tables\<close>

record TableColumn =
  col_name :: string
  col_type :: DataType
  col_val :: string

definition TableColumn_new :: "string \<Rightarrow> DataType \<Rightarrow> TableColumn" where
  "TableColumn_new name t = \<lparr>col_name = name, col_type = t, col_val = []\<rparr>"

definition TableColumn_val :: "string \<Rightarrow> DataType \<Rightarrow> string \<Rightarrow> TableColumn" where
  "TableColumn_val name t val = \<lparr>col_name = name, col_type = t, col_val = val\<rparr>"

definition GetColName :: "TableColumn \<Rightarrow> string" where
  "GetColName c = col_name c"
definition TableColumn_GetColType :: "TableColumn \<Rightarrow> int" where
  "TableColumn_GetColType c = DataType2Int (col_type c)"
definition GetColTyp :: "TableColumn \<Rightarrow> DataType" where
  "GetColTyp c = col_type c"
definition GetVal :: "TableColumn \<Rightarrow> string" where
  "GetVal c = col_val c"

record DataTable =
  dt_table_name :: string
  dt_cols :: "TableColumn list"
  dt_col_type :: "string \<rightharpoonup> DataType"
  dt_col_index :: "string \<rightharpoonup> int"
  dt_index_col :: "int \<rightharpoonup> string"

text \<open>
  The loop of the constructor. \<open>std::move\<close> of a \<open>TableColumn\<close> copies: the class declares its
  destructor and so has no move constructor. The caller's columns stay as they are.
\<close>

fun table_loop :: "int \<Rightarrow> TableColumn list \<Rightarrow> DataTable \<Rightarrow> DataTable" where
  "table_loop i [] t = t"
| "table_loop i (c # cols) t =
     table_loop (i + 1) cols
       (t\<lparr>dt_col_type := (dt_col_type t)(GetColName c \<mapsto> GetColTyp c),
          dt_col_index := (dt_col_index t)(GetColName c \<mapsto> i),
          dt_index_col := (dt_index_col t)(i \<mapsto> GetColName c),
          dt_cols := dt_cols t @ [c]\<rparr>)"

definition DataTable_new :: "string \<Rightarrow> TableColumn list \<Rightarrow> DataTable" where
  "DataTable_new table_name cols = table_loop 0 cols
     \<lparr>dt_table_name = table_name, dt_cols = [], dt_col_type = Map.empty,
      dt_col_index = Map.empty, dt_index_col = Map.empty\<rparr>"

definition DataTable_Recover :: "DataTable \<Rightarrow> bool" where
  "DataTable_Recover t = True"

definition GetColIndex :: "string \<Rightarrow> DataTable \<Rightarrow> int" where
  "GetColIndex name t = (case dt_col_index t name of Some i \<Rightarrow> i | None \<Rightarrow> -1)"

definition GetColType :: "string \<Rightarrow> DataTable \<Rightarrow> DataType" where
  "GetColType name t = (case dt_col_type t name of Some ty \<Rightarrow> ty | None \<Rightarrow> DT_VARCHAR)"

definition GetColCount :: "DataTable \<Rightarrow> u8" where
  "GetColCount t = word_of_nat (length (dt_cols t))"

definition GetColTypeMap :: "DataTable \<Rightarrow> string \<rightharpoonup> DataType" where
  "GetColTypeMap t = dt_col_type t"
definition GetColIndexMap :: "DataTable \<Rightarrow> string \<rightharpoonup> int" where
  "GetColIndexMap t = dt_col_index t"
definition GetTableName :: "DataTable \<Rightarrow> string" where
  "GetTableName t = dt_table_name t"
definition GetIndexColMap :: "DataTable \<Rightarrow> int \<rightharpoonup> string" where
  "GetIndexColMap t = dt_index_col t"

section \<open>Databases\<close>

record DataBase =
  db_table_count :: int
  db_name :: string
  db_tables :: "string \<rightharpoonup> DataTable"

text \<open>\<open>std::unordered_map::insert\<close> keeps an entry that is there.\<close>

definition insert_new :: "'k \<Rightarrow> 'v \<Rightarrow> ('k \<rightharpoonup> 'v) \<Rightarrow> 'k \<rightharpoonup> 'v" where
  "insert_new k v m = (if k \<in> dom m then m else m(k \<mapsto> v))"

definition table_prefix :: "string \<Rightarrow> string" where
  "table_prefix dbname = ''table_'' @ dbname @ ''_''"

text \<open>The loop over the columns: \<open>"$$"\<close> after each but the last.\<close>

fun schema_loop :: "nat \<Rightarrow> nat \<Rightarrow> TableColumn list \<Rightarrow> string \<Rightarrow> string" where
  "schema_loop n i [] value = value"
| "schema_loop n i (c # cols) value =
     schema_loop n (i + 1) cols
       ((value @ GetColName c @ ''^'' @ to_string (TableColumn_GetColType c))
          @ (if i \<noteq> n - 1 then ''$$'' else []))"

definition CreateTable :: "'st redis \<Rightarrow> string \<Rightarrow> TableColumn list \<Rightarrow> DataBase \<Rightarrow> 'st \<Rightarrow>
    bool \<times> DataBase \<times> 'st" where
  "CreateTable R table_name cols db st =
     (let newtable = DataTable_new table_name cols;
          db = db\<lparr>db_tables := insert_new table_name newtable (db_tables db),
                  db_table_count := db_table_count db + 1\<rparr>;
          key = table_prefix (db_name db) @ table_name;
          value = schema_loop (length cols) 0 cols [];
          st = cmd_SET R key value st
      in (True, db, st))"

definition DropTable :: "'st redis \<Rightarrow> string \<Rightarrow> DataBase \<Rightarrow> 'st \<Rightarrow> bool \<times> DataBase \<times> 'st" where
  "DropTable R table_name db st =
     (let key = table_prefix (db_name db) @ table_name;
          st = cmd_SET R key [] st
      in (True, db\<lparr>db_table_count := db_table_count db - 1\<rparr>, st))"

text \<open>
  \<open>GetColFromStr\<close> scans the characters; on \<open>$\<close> the index moves once more, over the second
  one. \<open>std::stoi\<close> throws when the type is missing.
\<close>

fun cols_loop :: "string \<Rightarrow> string \<Rightarrow> string \<Rightarrow> TableColumn list \<Rightarrow> TableColumn list res" where
  "cols_loop [] colname str ans =
     bindR (stoi str) (\<lambda>n. Inr (ans @ [TableColumn_new colname (Int2DataType n)]))"
| "cols_loop (c # cs) colname str ans =
     (if c = CHR ''^'' then cols_loop cs str [] ans
      else if c = CHR ''$'' then
        bindR (stoi str) (\<lambda>n.
          cols_loop (drop 1 cs) colname [] (ans @ [TableColumn_new colname (Int2DataType n)]))
      else cols_loop cs colname (str @ [c]) ans)"

definition GetColFromStr :: "string \<Rightarrow> TableColumn list res" where
  "GetColFromStr value = cols_loop value [] [] []"

text \<open>The loop over the reply: a key and a value per turn.\<close>

fun tables_loop :: "string list \<Rightarrow> DataBase \<Rightarrow> DataBase res" where
  "tables_loop [] db = Inr db"
| "tables_loop [k] db = Inl OutOfBounds"
| "tables_loop (tablenamekey # table # es) db =
     bindR (GetColFromStr table) (\<lambda>cols.
     bindR (must_return (StringSplit tablenamekey ''_'')) (\<lambda>keySplits.
     bindR (nthR keySplits (size_sub (length keySplits) 1)) (\<lambda>tablename.
     let newtable = DataTable_new tablename cols in
     tables_loop es (db\<lparr>db_tables := insert_new tablename newtable (db_tables db),
       db_table_count := db_table_count db + 1\<rparr>))))"

definition DataBase_Recover :: "'st redis \<Rightarrow> 'st \<Rightarrow> DataBase \<Rightarrow> (bool \<times> DataBase) res" where
  "DataBase_Recover R st db =
     bindR (cmd_SCAN R None (table_prefix (db_name db) @ ''*'') st) (\<lambda>reply.
     bindR (case reply of None \<Rightarrow> Inr db | Some es \<Rightarrow> tables_loop es db) (\<lambda>db.
       Inr (True, db)))"

definition DataBase_new :: "'st redis \<Rightarrow> 'st \<Rightarrow> string \<Rightarrow> bool \<Rightarrow> DataBase res" where
  "DataBase_new R st name needRecover =
     (let db = \<lparr>db_table_count = 0, db_name = name, db_tables = Map.empty\<rparr> in
      if needRecover then bindR (DataBase_Recover R st db) (\<lambda>(_, db). Inr db) else Inr db)"

definition GetTable :: "string \<Rightarrow> DataBase \<Rightarrow> DataTable option" where
  "GetTable table_name db = db_tables db table_name"

definition GetDbName :: "DataBase \<Rightarrow> string" where
  "GetDbName db = db_name db"

section \<open>The DBMS object\<close>

text \<open>
  \<open>dbs_\<close> and \<open>cur_db_\<close> point to databases on the heap: an address is an index into
  \<open>dm_heap\<close>. The list \<open>dm_dbs\<close> stands for the unordered map, in some order of iteration.
\<close>

record DBMS =
  dm_heap :: "DataBase list"
  dm_dbs :: "(string \<times> nat) list"
  dm_cur_db :: "nat option"

definition dbs_insert :: "string \<Rightarrow> nat \<Rightarrow> (string \<times> nat) list \<Rightarrow> (string \<times> nat) list" where
  "dbs_insert k a m = (if k \<in> set (map fst m) then m else m @ [(k, a)])"

definition DEFAULT_DATABASE_NAME :: string where
  "DEFAULT_DATABASE_NAME = ''default''"

definition CreateDataBase :: "'st redis \<Rightarrow> string \<Rightarrow> DBMS \<Rightarrow> 'st \<Rightarrow> (bool \<times> DBMS \<times> 'st) res" where
  "CreateDataBase R name d st =
     bindR (DataBase_new R st name False) (\<lambda>newdb.
     let a = length (dm_heap d);
         d = d\<lparr>dm_heap := dm_heap d @ [newdb], dm_dbs := dbs_insert name a (dm_dbs d)\<rparr>;
         st = cmd_SET R (''database_'' @ name) name st
     in Inr (True, d, st))"

definition OpenDataBase :: "string \<Rightarrow> DBMS \<Rightarrow> bool \<times> DBMS" where
  "OpenDataBase name d =
     (case map_of (dm_dbs d) name of
        Some a \<Rightarrow> (True, d\<lparr>dm_cur_db := Some a\<rparr>)
      | None \<Rightarrow> (False, d))"

definition SwitchDB :: "string \<Rightarrow> DBMS \<Rightarrow> bool \<times> DBMS" where
  "SwitchDB name d =
     (case map_of (dm_dbs d) name of
        Some a \<Rightarrow> (True, d\<lparr>dm_cur_db := Some a\<rparr>)
      | None \<Rightarrow> (False, d))"

definition DropDataBase :: "'st redis \<Rightarrow> string \<Rightarrow> DBMS \<Rightarrow> 'st \<Rightarrow> bool \<times> DBMS \<times> 'st" where
  "DropDataBase R name d st =
     (case map_of (dm_dbs d) name of
        Some a \<Rightarrow> (True, d, cmd_SET R name [] st)
      | None \<Rightarrow> (True, d, st))"

fun dbs_loop :: "'st redis \<Rightarrow> 'st \<Rightarrow> string list \<Rightarrow> DBMS \<Rightarrow> DBMS res" where
  "dbs_loop R st [] d = Inr d"
| "dbs_loop R st [k] d = Inl OutOfBounds"
| "dbs_loop R st (key # dbname # es) d =
     bindR (DataBase_new R st dbname True) (\<lambda>newdb.
     let a = length (dm_heap d) in
     dbs_loop R st es (d\<lparr>dm_heap := dm_heap d @ [newdb],
       dm_dbs := dbs_insert dbname a (dm_dbs d), dm_cur_db := Some a\<rparr>))"

definition DBMS_Recover :: "'st redis \<Rightarrow> DBMS \<Rightarrow> 'st \<Rightarrow> (bool \<times> DBMS \<times> 'st) res" where
  "DBMS_Recover R d st =
     bindR (cmd_SCAN R None ''database_*'' st) (\<lambda>reply. case reply of
       None \<Rightarrow> Inr (False, d, st)
     | Some [] \<Rightarrow>
         bindR (CreateDataBase R DEFAULT_DATABASE_NAME d st) (\<lambda>(_, d, st).
           Inr (False, snd (SwitchDB DEFAULT_DATABASE_NAME d), st))
     | Some es \<Rightarrow> bindR (dbs_loop R st es d) (\<lambda>d. Inr (False, d, st)))"

definition DBMS_new :: "'st redis \<Rightarrow> 'st \<Rightarrow> (DBMS \<times> 'st) res" where
  "DBMS_new R st =
     bindR (DBMS_Recover R \<lparr>dm_heap = [], dm_dbs = [], dm_cur_db = None\<rparr> st) (\<lambda>(_, d, st).
       Inr (d, st))"

text \<open>The object behind \<open>cur_db_\<close>, where a member function is called on it.\<close>

definition cur_db :: "DBMS \<Rightarrow> DataBase res" where
  "cur_db d = (case dm_cur_db d of None \<Rightarrow> Inl NullDeref | Some a \<Rightarrow> nthR (dm_heap d) a)"

definition GetCurDB :: "DBMS \<Rightarrow> nat option" where
  "GetCurDB d = dm_cur_db d"

definition HasTable :: "string \<Rightarrow> DBMS \<Rightarrow> bool res" where
  "HasTable tab_name d = bindR (cur_db d) (\<lambda>db. Inr (GetTable tab_name db \<noteq> None))"

definition ShowDataBases :: "DBMS \<Rightarrow> string list" where
  "ShowDataBases d = map fst (dm_dbs d)"

text \<open>\<open>GetCurDB()->CreateTable(...)\<close> changes the object on the heap.\<close>

definition cur_CreateTable :: "'st redis \<Rightarrow> string \<Rightarrow> TableColumn list \<Rightarrow> DBMS \<Rightarrow> 'st \<Rightarrow>
    (bool \<times> DBMS \<times> 'st) res" where
  "cur_CreateTable R table_name cols d st =
     (case dm_cur_db d of
        None \<Rightarrow> Inl NullDeref
      | Some a \<Rightarrow>
          bindR (nthR (dm_heap d) a) (\<lambda>db.
          let (ok, db, st) = CreateTable R table_name cols db st in
          Inr (ok, d\<lparr>dm_heap := (dm_heap d)[a := db]\<rparr>, st)))"

section \<open>What the store promises\<close>

text \<open>
  The documented behaviour of the commands, over the map \<open>view st\<close> of what the store holds:
  \<open>SET\<close> and \<open>DEL\<close> change one key, \<open>GET\<close> reads it, and one \<open>SCAN\<close> with a pattern that is a
  literal followed by \<open>*\<close> answers with every key of that prefix, once, and its value.
\<close>

definition flat :: "(string \<times> string) list \<Rightarrow> string list" where
  "flat kvs = concat (map (\<lambda>(k, v). [k, v]) kvs)"

definition glob_free :: "string \<Rightarrow> bool" where
  "glob_free p \<longleftrightarrow> list_all (\<lambda>c. c \<notin> {CHR ''*'', CHR ''?'', CHR ''['', CHR 0x5C}) p"

definition kv_laws :: "'st redis \<Rightarrow> ('st \<Rightarrow> string \<rightharpoonup> string) \<Rightarrow> bool" where
  "kv_laws R view \<longleftrightarrow>
     (\<forall>k v st. view (r_set R k v st) = (view st)(k \<mapsto> v)) \<and>
     (\<forall>k st. r_get R k st = Some (view st k)) \<and>
     (\<forall>k st. view (r_del R k st) = (view st)(k := None)) \<and>
     (\<forall>n p st. glob_free p \<longrightarrow>
        (\<exists>kvs. r_scan R n (p @ ''*'') st = Some (Some (flat kvs)) \<and> distinct (map fst kvs) \<and>
          (\<forall>k v. (k, v) \<in> set kvs \<longleftrightarrow> view st k = Some v \<and> prefix p k)))"

text \<open>A store that keeps the promise: an association list.\<close>

definition list_redis :: "(string \<times> string) list redis" where
  "list_redis =
     \<lparr>r_set = AList.update,
      r_get = (\<lambda>k st. Some (map_of st k)),
      r_del = AList.delete,
      r_scan = (\<lambda>n p st. Some (Some (flat (filter (\<lambda>kv. prefix (butlast p) (fst kv)) (AList.clearjunk st)))))\<rparr>"

lemma kv_laws_list: "kv_laws list_redis map_of"
proof -
  have scan: "\<exists>kvs. r_scan list_redis n (p @ ''*'') st = Some (Some (flat kvs)) \<and> distinct (map fst kvs) \<and>
      (\<forall>k v. (k, v) \<in> set kvs \<longleftrightarrow> map_of st k = Some v \<and> prefix p k)" for n p st
  proof (intro exI conjI)
    let ?kvs = "filter (\<lambda>kv. prefix p (fst kv)) (AList.clearjunk st)"
    show "r_scan list_redis n (p @ ''*'') st = Some (Some (flat ?kvs))" by (simp add: list_redis_def)
    show "distinct (map fst ?kvs)" by (simp add: distinct_map_filter)
    have "map_of (AList.clearjunk st) = map_of st" by (rule map_of_clearjunk)
    then have "(k, v) \<in> set (AList.clearjunk st) \<longleftrightarrow> map_of st k = Some v" for k v
      by (metis distinct_clearjunk map_of_eq_Some_iff)
    then show "\<forall>k v. (k, v) \<in> set ?kvs \<longleftrightarrow> map_of st k = Some v \<and> prefix p k" by simp
  qed
  then show ?thesis
    by (auto simp: kv_laws_def list_redis_def update_conv' delete_conv' simp del: butlast_append)
qed

lemma kv_set: "kv_laws R view \<Longrightarrow> view (r_set R k v st) = (view st)(k \<mapsto> v)"
  and kv_get: "kv_laws R view \<Longrightarrow> r_get R k st = Some (view st k)"
  and kv_del: "kv_laws R view \<Longrightarrow> view (r_del R k st) = (view st)(k := None)"
  by (simp_all add: kv_laws_def)

lemma kv_scan:
  assumes "kv_laws R view" "glob_free p"
  obtains kvs where "r_scan R n (p @ ''*'') st = Some (Some (flat kvs))" "distinct (map fst kvs)"
    "\<And>k v. (k, v) \<in> set kvs \<longleftrightarrow> view st k = Some v \<and> prefix p k"
  using assms unfolding kv_laws_def by meson

lemma flat_simps [simp]: "flat [] = []" "flat ((k, v) # kvs) = k # v # flat kvs"
  by (simp_all add: flat_def)

section \<open>Tables\<close>

lemma table_loop_cols: "dt_cols (table_loop i cols t) = dt_cols t @ cols"
  by (induction cols arbitrary: i t) simp_all

lemma table_loop_index_col:
  "dt_index_col (table_loop i cols t) j =
     (if i \<le> j \<and> j < i + int (length cols) then Some (GetColName (cols ! nat (j - i)))
      else dt_index_col t j)"
proof (induction cols arbitrary: i t)
  case (Cons c cols)
  have "nat (j - i) = Suc (nat (j - (i + 1)))" if "i < j" using that by simp
  with Cons show ?case by auto
qed auto

lemma table_loop_col_index_notin:
  "x \<notin> set (map GetColName cols) \<Longrightarrow> dt_col_index (table_loop i cols t) x = dt_col_index t x"
  by (induction cols arbitrary: i t) auto

lemma table_loop_col_type_notin:
  "x \<notin> set (map GetColName cols) \<Longrightarrow> dt_col_type (table_loop i cols t) x = dt_col_type t x"
  by (induction cols arbitrary: i t) auto

lemma table_loop_lookup:
  assumes "distinct (map GetColName cols)" "k < length cols"
  shows "dt_col_index (table_loop i cols t) (GetColName (cols ! k)) = Some (i + int k)
    \<and> dt_col_type (table_loop i cols t) (GetColName (cols ! k)) = Some (GetColTyp (cols ! k))"
  using assms
proof (induction cols arbitrary: i t k)
  case (Cons c cols)
  show ?case
  proof (cases k)
    case 0
    with Cons.prems(1) show ?thesis
      by (simp add: table_loop_col_index_notin table_loop_col_type_notin)
  next
    case (Suc j)
    with Cons.IH [of j] Cons.prems show ?thesis by simp
  qed
qed simp

text \<open>The two index maps are inverse to each other on the columns of the table.\<close>

lemma DataTable_columns:
  assumes "distinct (map GetColName cols)" "k < length cols"
  shows "GetColIndex (GetColName (cols ! k)) (DataTable_new t cols) = int k"
    "GetIndexColMap (DataTable_new t cols) (int k) = Some (GetColName (cols ! k))"
    "GetColType (GetColName (cols ! k)) (DataTable_new t cols) = GetColTyp (cols ! k)"
  using table_loop_lookup [OF assms, of 0] assms(2)
  by (simp_all add: GetColIndex_def GetIndexColMap_def GetColType_def DataTable_new_def table_loop_index_col)

lemma DataTable_unknown_column:
  assumes "x \<notin> set (map GetColName cols)"
  shows "GetColIndex x (DataTable_new t cols) = -1" "GetColType x (DataTable_new t cols) = DT_VARCHAR"
  using assms
  by (simp_all add: GetColIndex_def GetColType_def DataTable_new_def table_loop_col_index_notin
      table_loop_col_type_notin)

lemma DataTable_cols: "dt_cols (DataTable_new t cols) = cols"
  by (simp add: DataTable_new_def table_loop_cols)

lemma DataTable_past_end:
  "int (length cols) \<le> j \<Longrightarrow> GetIndexColMap (DataTable_new t cols) j = None"
  by (simp add: GetIndexColMap_def DataTable_new_def table_loop_index_col)

section \<open>Schemas\<close>

definition entry :: "TableColumn \<Rightarrow> string" where
  "entry c = GetColName c @ ''^'' @ to_string (TableColumn_GetColType c)"

lemma schema_loop_eq:
  assumes "i + length cols = n"
  shows "schema_loop n i cols value = value @ StringsJoin (map entry cols) ''$$''"
  using assms
proof (induction cols arbitrary: i "value")
  case (Cons c cols)
  show ?case
  proof (cases cols)
    case Nil
    with Cons.prems show ?thesis by (auto simp: entry_def)
  next
    case (Cons d ds)
    then have "i \<noteq> n - 1" using Cons.prems by simp
    with Cons Cons.IH [of "i + 1" "value @ entry c @ ''$$''"] Cons.prems show ?thesis
      by (simp add: entry_def)
  qed
qed simp

text \<open>Names that the schema string can carry.\<close>

definition colname_ok :: "string \<Rightarrow> bool" where
  "colname_ok s \<longleftrightarrow> CHR ''^'' \<notin> set s \<and> CHR ''$'' \<notin> set s \<and> CHR 0x00 \<notin> set s"

lemma cols_loop_plain:
  assumes "CHR ''^'' \<notin> set s" "CHR ''$'' \<notin> set s"
  shows "cols_loop (s @ cs) colname str ans = cols_loop cs colname (str @ s) ans"
  using assms by (induction s arbitrary: str) auto

lemma digits_plain:
  assumes "c \<in> set (to_string (DataType2Int t))"
  shows "c \<noteq> CHR ''^'' \<and> c \<noteq> CHR ''$'' \<and> c \<noteq> CHR 0x00"
proof -
  have "isdigit c"
    using assms decimal_digits [of "nat (DataType2Int t)"] DataType2Int_range(1) [of t]
    by (auto simp: to_string_def list_all_iff split: if_splits)
  then show ?thesis by (auto simp: isdigit_def)
qed

lemma stoi_type: "stoi (to_string (DataType2Int t)) = Inr (DataType2Int t)"
  using DataType2Int_range [of t] by (intro stoi_to_string) auto

lemma cols_loop_entry:
  assumes "colname_ok (GetColName c)"
  shows "cols_loop (entry c @ cs) colname [] ans =
    cols_loop cs (GetColName c) (to_string (TableColumn_GetColType c)) ans"
proof -
  have "CHR ''^'' \<notin> set (to_string (DataType2Int (col_type c)))"
    "CHR ''$'' \<notin> set (to_string (DataType2Int (col_type c)))"
    using digits_plain by blast+
  with assms show ?thesis
    by (simp add: entry_def colname_ok_def cols_loop_plain TableColumn_GetColType_def)
qed

definition plain_col :: "TableColumn \<Rightarrow> TableColumn" where
  "plain_col c = TableColumn_new (GetColName c) (GetColTyp c)"

lemma cols_loop_schema:
  assumes "cols \<noteq> []" "list_all (\<lambda>c. colname_ok (GetColName c)) cols"
  shows "cols_loop (StringsJoin (map entry cols) ''$$'') colname [] ans = Inr (ans @ map plain_col cols)"
  using assms
proof (induction cols arbitrary: colname ans)
  case (Cons c cols)
  have ok: "colname_ok (GetColName c)" using Cons.prems by simp
  show ?case
  proof (cases cols)
    case Nil
    then show ?thesis
      using cols_loop_entry [OF ok, of "[]"]
      by (simp add: TableColumn_GetColType_def stoi_type plain_col_def GetColTyp_def)
  next
    case (Cons d ds)
    have "cols_loop (StringsJoin (map entry (c # cols)) ''$$'') colname [] ans =
        cols_loop (''$$'' @ StringsJoin (map entry cols) ''$$'') (GetColName c) (to_string (TableColumn_GetColType c)) ans"
      using Cons cols_loop_entry [OF ok] by simp
    also have "\<dots> = cols_loop (StringsJoin (map entry cols) ''$$'') (GetColName c) [] (ans @ [plain_col c])"
      by (simp add: TableColumn_GetColType_def stoi_type plain_col_def GetColTyp_def)
    also have "\<dots> = Inr (ans @ map plain_col (c # cols))"
      using Cons.IH [of "GetColName c" "ans @ [plain_col c]"] Cons.prems Cons by simp
    finally show ?thesis .
  qed
qed simp

definition schema :: "TableColumn list \<Rightarrow> string" where
  "schema cols = schema_loop (length cols) 0 cols []"

lemma schema_eq: "schema cols = StringsJoin (map entry cols) ''$$''"
  by (simp add: schema_def schema_loop_eq)

lemma GetColFromStr_schema:
  assumes "cols \<noteq> []" "list_all (\<lambda>c. colname_ok (GetColName c)) cols"
  shows "GetColFromStr (schema cols) = Inr (map plain_col cols)"
  using cols_loop_schema [OF assms, of "[]" "[]"] by (simp add: GetColFromStr_def schema_eq)

section \<open>Persisting and recovering the tables of a database\<close>

lemma c_str_Nil [simp]: "c_str [] = []"
  by (simp add: c_str_def)

text \<open>Names that survive in a key: not empty, no underscore, no blank ends, no zero, no glob character.\<close>

definition ident :: "string \<Rightarrow> bool" where
  "ident s \<longleftrightarrow> s \<noteq> [] \<and> tight s \<and> CHR ''_'' \<notin> set s \<and> CHR 0x00 \<notin> set s \<and> glob_free s
     \<and> length s < 2 ^ 32"

definition table_ok :: "string \<times> TableColumn list \<Rightarrow> bool" where
  "table_ok tc \<longleftrightarrow> ident (fst tc) \<and> snd tc \<noteq> [] \<and>
     list_all (\<lambda>c. colname_ok (GetColName c) \<and> GetVal c = []) (snd tc)"

definition saved :: "string \<Rightarrow> string \<times> TableColumn list \<Rightarrow> string \<times> string" where
  "saved dbname tc = (table_prefix dbname @ fst tc, schema (snd tc))"

definition create_tables :: "'st redis \<Rightarrow> (string \<times> TableColumn list) list \<Rightarrow> DataBase \<Rightarrow> 'st \<Rightarrow> DataBase \<times> 'st" where
  "create_tables R ts db st =
     fold (\<lambda>(t, cols) (db, st). snd (CreateTable R t cols db st)) ts (db, st)"

lemma plain_col_id: "GetVal c = [] \<Longrightarrow> plain_col c = c"
  by (cases c) (simp add: plain_col_def TableColumn_new_def GetColName_def GetColTyp_def GetVal_def)

lemma ident_table: "ident ''table''"
  by (simp add: ident_def tight_def blank_def char_value_def glob_free_def)

lemma splittable_idents: "v \<noteq> [] \<Longrightarrow> list_all ident v \<Longrightarrow> splittable ''_'' v"
  using last_in_set [of v] unfolding splittable_def list_all_iff ident_def by auto

lemma key_splits:
  assumes "ident dbname" "ident t"
  shows "StringSplit (table_prefix dbname @ t) ''_'' = Some [''table'', dbname, t]"
proof -
  have "StringsJoin [''table'', dbname, t] ''_'' = table_prefix dbname @ t" by (simp add: table_prefix_def)
  moreover have "splittable ''_'' [''table'', dbname, t]"
    using assms ident_table by (intro splittable_idents) simp_all
  moreover have "delimiter_ok ''_''" by (simp add: delimiter_ok_def blank_def char_value_def)
  moreover have "length (StringsJoin [''table'', dbname, t] ''_'') < 2 ^ 64"
    using assms by (simp add: ident_def)
  ultimately show ?thesis using StringSplit_StringsJoin by metis
qed

lemma GetColFromStr_saved: "table_ok tc \<Longrightarrow> GetColFromStr (schema (snd tc)) = Inr (snd tc)"
proof -
  assume ok: "table_ok tc"
  have "GetColFromStr (schema (snd tc)) = Inr (map plain_col (snd tc))"
    using ok by (intro GetColFromStr_schema) (auto simp: table_ok_def list_all_iff)
  also have "map plain_col (snd tc) = snd tc"
    using ok by (intro map_idI plain_col_id) (auto simp: table_ok_def list_all_iff)
  finally show ?thesis .
qed

text \<open>What recovery does with one saved table.\<close>

lemma tables_loop_saved:
  assumes "ident dbname" "table_ok tc"
  shows "tables_loop (flat (saved dbname tc # kvs)) db =
    tables_loop (flat kvs) (db\<lparr>db_tables := insert_new (fst tc) (DataTable_new (fst tc) (snd tc)) (db_tables db),
      db_table_count := db_table_count db + 1\<rparr>)"
proof -
  have "ident (fst tc)" using assms(2) by (simp add: table_ok_def)
  moreover have "size_sub (Suc (Suc (Suc 0))) (Suc 0) = 2"
    using size_sub_le [of "Suc 0" "Suc (Suc (Suc 0))"] by simp
  ultimately show ?thesis
    using key_splits [OF assms(1)] GetColFromStr_saved [OF assms(2)] by (simp add: saved_def Let_def)
qed

definition loaded :: "(string \<times> TableColumn list) list \<Rightarrow> (string \<rightharpoonup> DataTable) \<Rightarrow> string \<rightharpoonup> DataTable" where
  "loaded ts m t = (case map_of ts t of Some cols \<Rightarrow> Some (DataTable_new t cols) | None \<Rightarrow> m t)"

lemma loaded_Cons:
  assumes "t \<notin> set (map fst ts)" "t \<notin> dom m"
  shows "loaded ts (insert_new t (DataTable_new t cols) m) = loaded ((t, cols) # ts) m"
proof
  fix x
  show "loaded ts (insert_new t (DataTable_new t cols) m) x = loaded ((t, cols) # ts) m x"
    using assms by (cases "x = t") (simp_all add: loaded_def insert_new_def map_of_eq_None_iff [THEN iffD2]
        split: option.splits)
qed

lemma tables_loop_all:
  assumes "ident dbname" "list_all table_ok ts" "distinct (map fst ts)"
    "set (map fst ts) \<inter> dom (db_tables db) = {}"
  shows "tables_loop (flat (map (saved dbname) ts)) db =
    Inr (db\<lparr>db_tables := loaded ts (db_tables db), db_table_count := db_table_count db + int (length ts)\<rparr>)"
  using assms(2-4)
proof (induction ts arbitrary: db)
  case Nil
  have "loaded [] (db_tables db) = db_tables db" by (rule ext) (simp add: loaded_def)
  then show ?case by (simp add: flat_def)
next
  case (Cons tc ts)
  let ?db = "db\<lparr>db_tables := insert_new (fst tc) (DataTable_new (fst tc) (snd tc)) (db_tables db),
      db_table_count := db_table_count db + 1\<rparr>"
  have fresh: "fst tc \<notin> set (map fst ts)" "fst tc \<notin> dom (db_tables db)" using Cons.prems by auto
  have "set (map fst ts) \<inter> dom (db_tables ?db) = {}"
    using Cons.prems(3) fresh by (auto simp: insert_new_def)
  then have "tables_loop (flat (map (saved dbname) ts)) ?db =
      Inr (?db\<lparr>db_tables := loaded ts (db_tables ?db), db_table_count := db_table_count ?db + int (length ts)\<rparr>)"
    using Cons.prems by (intro Cons.IH) auto
  moreover have "tables_loop (flat (map (saved dbname) (tc # ts))) db = tables_loop (flat (map (saved dbname) ts)) ?db"
    using tables_loop_saved [OF assms(1)] Cons.prems(1) by simp
  moreover have "loaded ts (db_tables ?db) = loaded (tc # ts) (db_tables db)"
    using loaded_Cons [OF fresh, of "snd tc"] by simp
  ultimately show ?case by simp
qed

lemma no_zero_saved:
  assumes "ident dbname" "table_ok tc"
  shows "c_str (table_prefix dbname @ fst tc) = table_prefix dbname @ fst tc"
    "c_str (schema (snd tc)) = schema (snd tc)"
proof -
  show "c_str (table_prefix dbname @ fst tc) = table_prefix dbname @ fst tc"
    using assms by (intro c_str_id) (auto simp: table_prefix_def ident_def table_ok_def)
  have "CHR 0x00 \<notin> set (entry c)" if "c \<in> set (snd tc)" for c
    using that assms(2) digits_plain [of "CHR 0x00" "col_type c"]
    by (auto simp: entry_def table_ok_def list_all_iff colname_ok_def TableColumn_GetColType_def)
  then have "CHR 0x00 \<notin> set (StringsJoin (map entry cs) ''$$'')" if "set cs \<subseteq> set (snd tc)" for cs
    using that
  proof (induction cs)
    case (Cons c cs)
    then show ?case by (cases cs) auto
  qed simp
  then show "c_str (schema (snd tc)) = schema (snd tc)" by (intro c_str_id) (simp add: schema_eq)
qed

lemma CreateTable_saved:
  assumes "kv_laws R view" "ident (db_name db)" "table_ok (t, cols)"
  shows "\<exists>st'. CreateTable R t cols db st =
      (True, db\<lparr>db_tables := insert_new t (DataTable_new t cols) (db_tables db),
        db_table_count := db_table_count db + 1\<rparr>, st')
    \<and> view st' = (view st)(fst (saved (db_name db) (t, cols)) \<mapsto> snd (saved (db_name db) (t, cols)))"
  using no_zero_saved [OF assms(2,3)] kv_set [OF assms(1)]
  by (simp add: CreateTable_def Let_def saved_def cmd_SET_def flip: schema_def)

lemma saved_key_inj: "fst (saved n tc) = fst (saved n tc') \<longleftrightarrow> fst tc = fst tc'"
  by (simp add: saved_def)

lemma create_tables_ok:
  assumes "kv_laws R view" "ident (db_name db)" "list_all table_ok ts" "distinct (map fst ts)"
    "set (map fst ts) \<inter> dom (db_tables db) = {}"
  shows "\<exists>st'. create_tables R ts db st =
      (db\<lparr>db_tables := loaded ts (db_tables db), db_table_count := db_table_count db + int (length ts)\<rparr>, st')
    \<and> view st' = view st ++ map_of (map (saved (db_name db)) ts)"
  using assms(2-5)
proof (induction ts arbitrary: db st)
  case Nil
  have "loaded [] (db_tables db) = db_tables db" by (rule ext) (simp add: loaded_def)
  then show ?case by (simp add: create_tables_def)
next
  case (Cons tc ts)
  obtain t cols where tc: "tc = (t, cols)" by (cases tc)
  let ?db = "db\<lparr>db_tables := insert_new t (DataTable_new t cols) (db_tables db), db_table_count := db_table_count db + 1\<rparr>"
  obtain st1 where st1: "CreateTable R t cols db st = (True, ?db, st1)"
    "view st1 = (view st)(fst (saved (db_name db) tc) \<mapsto> snd (saved (db_name db) tc))"
    using CreateTable_saved [OF assms(1) Cons.prems(1)] Cons.prems(2) tc by fastforce
  have fresh: "t \<notin> set (map fst ts)" "t \<notin> dom (db_tables db)" using Cons.prems tc by auto
  have "set (map fst ts) \<inter> dom (db_tables ?db) = {}"
    using Cons.prems(4) fresh by (auto simp: insert_new_def)
  then obtain st' where st': "create_tables R ts ?db st1 =
      (?db\<lparr>db_tables := loaded ts (db_tables ?db), db_table_count := db_table_count ?db + int (length ts)\<rparr>, st')"
    "view st' = view st1 ++ map_of (map (saved (db_name db)) ts)"
    using Cons.IH [of ?db st1] Cons.prems by auto
  have "create_tables R (tc # ts) db st = create_tables R ts ?db st1"
    by (simp add: create_tables_def tc st1(1))
  moreover have "loaded ts (db_tables ?db) = loaded (tc # ts) (db_tables db)"
    using loaded_Cons [OF fresh] tc by simp
  ultimately have created: "create_tables R (tc # ts) db st =
      (db\<lparr>db_tables := loaded (tc # ts) (db_tables db),
        db_table_count := db_table_count db + int (length (tc # ts))\<rparr>, st')"
    using st'(1) by simp
  have "fst (saved (db_name db) tc) \<notin> dom (map_of (map (saved (db_name db)) ts))"
    using fresh tc by (auto simp: dom_map_of_conv_image_fst image_image saved_def)
  then have "view st' = view st ++ map_of (map (saved (db_name db)) (tc # ts))"
    unfolding st'(2) st1(2) by (simp add: map_add_upd_left)
  with created show ?case by blast
qed

text \<open>No table of the database is in the store yet.\<close>

definition no_tables :: "('st \<Rightarrow> string \<rightharpoonup> string) \<Rightarrow> string \<Rightarrow> 'st \<Rightarrow> bool" where
  "no_tables view dbname st \<longleftrightarrow> (\<forall>k \<in> dom (view st). \<not> prefix (table_prefix dbname) k)"

lemma scan_saved:
  assumes "kv_laws R view" "ident dbname" "no_tables view dbname st0" "distinct (map fst ts)"
    and "view st = view st0 ++ map_of (map (saved dbname) ts)"
  obtains ts' where "cmd_SCAN R None (table_prefix dbname @ ''*'') st = Inr (Some (flat (map (saved dbname) ts')))"
    "distinct (map fst ts')" "set ts' = set ts"
proof -
  let ?p = "table_prefix dbname"
  have dist: "distinct (map fst (map (saved dbname) ts))"
    using assms(4) by (simp add: distinct_map inj_on_def saved_key_inj comp_def)
  have "glob_free ?p" using assms(2) by (simp add: table_prefix_def glob_free_def ident_def)
  then obtain kvs where kvs: "r_scan R None (?p @ ''*'') st = Some (Some (flat kvs))" "distinct (map fst kvs)"
    "\<And>k v. (k, v) \<in> set kvs \<longleftrightarrow> view st k = Some v \<and> prefix ?p k"
    using kv_scan [OF assms(1)] by blast
  have "(k, v) \<in> set kvs \<longleftrightarrow> (k, v) \<in> set (map (saved dbname) ts)" for k v
  proof
    assume "(k, v) \<in> set kvs"
    then have "view st k = Some v" "prefix ?p k" using kvs(3) by auto
    then have "map_of (map (saved dbname) ts) k = Some v"
      using assms(3) unfolding assms(5) no_tables_def by (auto simp: map_add_Some_iff)
    then show "(k, v) \<in> set (map (saved dbname) ts)" by (rule map_of_SomeD)
  next
    assume *: "(k, v) \<in> set (map (saved dbname) ts)"
    then have "map_of (map (saved dbname) ts) k = Some v" using dist by simp
    then have "view st k = Some v" unfolding assms(5) by simp
    moreover have "prefix ?p k" using * by (auto simp: saved_def)
    ultimately show "(k, v) \<in> set kvs" using kvs(3) by simp
  qed
  then have set: "set kvs = saved dbname ` set ts" by auto
  define ts' where "ts' = map (inv_into (set ts) (saved dbname)) kvs"
  have ts': "kvs = map (saved dbname) ts'" "set ts' \<subseteq> set ts"
    using set by (auto simp: ts'_def f_inv_into_f inv_into_into intro!: map_idI [symmetric])
  have "set ts \<subseteq> set ts'"
  proof
    fix tc
    assume "tc \<in> set ts"
    then have "saved dbname tc \<in> saved dbname ` set ts'" using set ts'(1) by auto
    then obtain tc' where "tc' \<in> set ts'" "saved dbname tc = saved dbname tc'" by auto
    moreover from this have "tc' \<in> set ts" "fst tc = fst tc'" using ts'(2) saved_key_inj [of dbname tc tc'] by auto
    ultimately show "tc \<in> set ts'" using assms(4) \<open>tc \<in> set ts\<close> by (metis eq_key_imp_eq_value prod.collapse)
  qed
  moreover have "c_str (?p @ ''*'') = ?p @ ''*''"
    using assms(2) by (intro c_str_id) (auto simp: table_prefix_def ident_def)
  moreover have "distinct (map fst ts')"
    using kvs(2) ts'(1) by (simp add: distinct_map inj_on_def saved_key_inj comp_def)
  ultimately show thesis
    using that [of ts'] ts' kvs(1) by (simp add: cmd_SCAN_def)
qed

lemma DataBase_recovers:
  assumes "kv_laws R view" "ident dbname" "no_tables view dbname st0" "list_all table_ok ts"
    "distinct (map fst ts)" "view st = view st0 ++ map_of (map (saved dbname) ts)"
  shows "DataBase_new R st dbname True =
    Inr \<lparr>db_table_count = int (length ts), db_name = dbname, db_tables = loaded ts Map.empty\<rparr>"
proof -
  obtain ts' where scan: "cmd_SCAN R None (table_prefix dbname @ ''*'') st = Inr (Some (flat (map (saved dbname) ts')))"
    and ts': "distinct (map fst ts')" "set ts' = set ts"
    using scan_saved [OF assms(1-3,5,6)] by blast
  let ?db = "\<lparr>db_table_count = 0, db_name = dbname, db_tables = Map.empty\<rparr>"
  have "list_all table_ok ts'" using assms(4) ts'(2) by (simp add: list_all_iff)
  then have "tables_loop (flat (map (saved dbname) ts')) ?db =
      Inr (?db\<lparr>db_tables := loaded ts' (db_tables ?db), db_table_count := db_table_count ?db + int (length ts')\<rparr>)"
    using ts'(1) by (intro tables_loop_all [OF assms(2)]) auto
  moreover have "loaded ts' Map.empty = loaded ts Map.empty"
    using map_of_inject_set [OF ts'(1) assms(5)] ts'(2) by (auto simp: loaded_def fun_eq_iff)
  moreover have "length ts' = length ts"
    using ts' assms(5) by (metis distinct_card length_map list.set_map)
  ultimately show ?thesis using scan by (simp add: DataBase_new_def DataBase_Recover_def)
qed

section \<open>Persisting and recovering the server\<close>

text \<open>The tables, created one after the other in the current database.\<close>

fun create_all :: "'st redis \<Rightarrow> (string \<times> TableColumn list) list \<Rightarrow> DBMS \<Rightarrow> 'st \<Rightarrow> (DBMS \<times> 'st) res" where
  "create_all R [] d st = Inr (d, st)"
| "create_all R ((t, cols) # ts) d st =
     bindR (cur_CreateTable R t cols d st) (\<lambda>(_, d, st). create_all R ts d st)"

lemma create_all_eq:
  assumes "dm_cur_db d = Some a" "a < length (dm_heap d)"
  shows "create_all R ts d st =
    (let (db, st') = create_tables R ts (dm_heap d ! a) st in Inr (d\<lparr>dm_heap := (dm_heap d)[a := db]\<rparr>, st'))"
  using assms
proof (induction ts arbitrary: d st)
  case (Cons tc ts)
  obtain t cols where tc: "tc = (t, cols)" by (cases tc)
  obtain ok db st1 where c: "CreateTable R t cols (dm_heap d ! a) st = (ok, db, st1)" by (metis prod_cases3)
  let ?d = "d\<lparr>dm_heap := (dm_heap d)[a := db]\<rparr>"
  have "create_all R (tc # ts) d st = create_all R ts ?d st1"
    using Cons.prems c by (simp add: tc cur_CreateTable_def nthR_def)
  moreover have "create_tables R (tc # ts) (dm_heap d ! a) st = create_tables R ts db st1"
    by (simp add: create_tables_def tc c)
  ultimately show ?case using Cons.IH [of ?d st1] Cons.prems by simp
qed (simp add: create_tables_def)

text \<open>A store no server has used: no database in it, and no table of the default database.\<close>

definition unused :: "('st \<Rightarrow> string \<rightharpoonup> string) \<Rightarrow> 'st \<Rightarrow> bool" where
  "unused view st \<longleftrightarrow> (\<forall>k \<in> dom (view st). \<not> prefix ''database_'' k \<and> \<not> prefix ''table_default_'' k)"

definition default_key :: string where
  "default_key = ''database_default''"

lemma ident_default: "ident ''default''"
  by (simp add: ident_def tight_def blank_def char_value_def glob_free_def)

lemma flat_empty: "(\<And>k v. (k, v) \<notin> set kvs) \<Longrightarrow> kvs = []"
  by (cases kvs) auto

lemma single_entry:
  assumes "\<And>x. x \<in> set xs \<Longrightarrow> x = y" "y \<in> set xs" "distinct (map fst xs)"
  shows "xs = [y]"
proof (cases xs)
  case (Cons x xs')
  have "xs' = []"
  proof (rule ccontr)
    assume "xs' \<noteq> []"
    then have "hd xs' \<in> set xs'" by simp
    moreover from this have "hd xs' = x" using assms(1) Cons by (metis list.set_intros)
    ultimately show False using assms(3) Cons by auto
  qed
  with assms(1) Cons show ?thesis by simp
qed (use assms(2) in simp)

lemma scan_databases:
  assumes "kv_laws R view"
  shows "\<exists>kvs. cmd_SCAN R None ''database_*'' st = Inr (Some (flat kvs)) \<and> distinct (map fst kvs) \<and>
    (\<forall>k v. (k, v) \<in> set kvs \<longleftrightarrow> view st k = Some v \<and> prefix ''database_'' k)"
proof -
  have "glob_free ''database_''" by (simp add: glob_free_def)
  then obtain kvs where scan: "r_scan R None (''database_'' @ ''*'') st = Some (Some (flat kvs))"
    and kvs: "distinct (map fst kvs)"
      "\<And>k v. (k, v) \<in> set kvs \<longleftrightarrow> view st k = Some v \<and> prefix ''database_'' k"
    using kv_scan [OF assms] by blast
  have "c_str ''database_*'' = ''database_*''" by (intro c_str_id) simp
  with scan have "cmd_SCAN R None ''database_*'' st = Inr (Some (flat kvs))" by (simp add: cmd_SCAN_def)
  with kvs show ?thesis by blast
qed

text \<open>The first start creates the default database and makes it the current one.\<close>

definition fresh_db :: DataBase where
  "fresh_db = \<lparr>db_table_count = 0, db_name = ''default'', db_tables = Map.empty\<rparr>"

definition fresh_dbms :: DBMS where
  "fresh_dbms = \<lparr>dm_heap = [fresh_db], dm_dbs = [(''default'', 0)], dm_cur_db = Some 0\<rparr>"

lemma first_start:
  assumes "kv_laws R view" "unused view st"
  shows "\<exists>st'. DBMS_new R st = Inr (fresh_dbms, st') \<and> view st' = (view st)(default_key \<mapsto> ''default'')"
proof -
  obtain kvs where scan: "cmd_SCAN R None ''database_*'' st = Inr (Some (flat kvs))"
    and "distinct (map fst kvs)"
    and kvs: "\<forall>k v. (k, v) \<in> set kvs \<longleftrightarrow> view st k = Some v \<and> prefix ''database_'' k"
    using scan_databases [OF assms(1), of st] by metis
  have "(k, v) \<notin> set kvs" for k v
    using assms(2) domI [of "view st" k v] kvs unfolding unused_def by blast
  then have "kvs = []" by (rule flat_empty)
  then have scan': "cmd_SCAN R None ''database_*'' st = Inr (Some [])" using scan by simp
  let ?st = "cmd_SET R (''database_'' @ ''default'') ''default'' st"
  have "DBMS_new R st = Inr (fresh_dbms, ?st)"
    using scan' by (simp add: DBMS_new_def DBMS_Recover_def CreateDataBase_def DataBase_new_def SwitchDB_def
        DEFAULT_DATABASE_NAME_def dbs_insert_def fresh_dbms_def fresh_db_def)
  moreover have "c_str ''database_default'' = ''database_default''" "c_str ''default'' = ''default''"
    by (intro c_str_id; simp)+
  then have "view ?st = (view st)(default_key \<mapsto> ''default'')"
    using kv_set [OF assms(1)] by (simp add: cmd_SET_def default_key_def)
  ultimately show ?thesis by blast
qed

text \<open>A later start recovers the one database.\<close>

lemma later_start:
  assumes "kv_laws R view" "\<And>k. k \<in> dom (view st) \<Longrightarrow> prefix ''database_'' k \<Longrightarrow> k = default_key"
    "view st default_key = Some ''default''"
  shows "DBMS_new R st = bindR (DataBase_new R st ''default'' True) (\<lambda>db.
    Inr (\<lparr>dm_heap = [db], dm_dbs = [(''default'', 0)], dm_cur_db = Some 0\<rparr>, st))"
proof -
  obtain kvs where scan: "cmd_SCAN R None ''database_*'' st = Inr (Some (flat kvs))"
    and dist: "distinct (map fst kvs)"
    and kvs: "\<forall>k v. (k, v) \<in> set kvs \<longleftrightarrow> view st k = Some v \<and> prefix ''database_'' k"
    using scan_databases [OF assms(1), of st] by metis
  have only: "kv = (default_key, ''default'')" if "kv \<in> set kvs" for kv
  proof -
    obtain k v where kv: "kv = (k, v)" by (cases kv)
    with that have v: "view st k = Some v" and "prefix ''database_'' k" using kvs by blast+
    then have "k = default_key" using assms(2) [of k] by blast
    with v assms(3) kv show ?thesis by simp
  qed
  have mem: "(default_key, ''default'') \<in> set kvs"
    using kvs assms(3) by (simp add: default_key_def)
  have "kvs = [(default_key, ''default'')]" using only mem dist by (rule single_entry)
  then show ?thesis
    using scan by (simp add: DBMS_new_def DBMS_Recover_def dbs_insert_def bindR_assoc)
qed

section \<open>Properties\<close>

text \<open>a schema survives being persisted: reading back the string that \<open>CreateTable\<close> stores
  yields the columns, names and types, in their order.\<close>

lemma schema_roundtrip:
  assumes "cols \<noteq> []" "list_all (\<lambda>c. colname_ok (GetColName c)) cols"
  shows "GetColFromStr (schema_loop (length cols) 0 cols []) = Inr (map plain_col cols)"
  using GetColFromStr_schema [OF assms] by (simp add: schema_def)


text \<open>the columns of a table: the name-to-position and position-to-name maps are inverse to
  each other, a column has its type, an unknown name has position -1 and a position past the
  end has no name.\<close>

lemma column_maps:
  assumes "distinct (map GetColName cols)"
  shows "(\<forall>k < length cols.
      GetColIndex (GetColName (cols ! k)) (DataTable_new t cols) = int k \<and>
      GetIndexColMap (DataTable_new t cols) (int k) = Some (GetColName (cols ! k)) \<and>
      GetColType (GetColName (cols ! k)) (DataTable_new t cols) = GetColTyp (cols ! k)) \<and>
    (\<forall>x. x \<notin> set (map GetColName cols) \<longrightarrow> GetColIndex x (DataTable_new t cols) = -1) \<and>
    (\<forall>j. int (length cols) \<le> j \<longrightarrow> GetIndexColMap (DataTable_new t cols) j = None)"
  using DataTable_columns [OF assms] DataTable_unknown_column DataTable_past_end by blast

lemma restart_finds_tables_witness_eq:
  "table_ok (''t'', [TableColumn_new ''id'' DT_INT])"
  by (simp add: table_ok_def ident_def tight_def blank_def char_value_def glob_free_def colname_ok_def
      GetColName_def GetVal_def TableColumn_new_def)


text \<open>What a table dropped from the store does to recovery: its key is there with an empty schema.\<close>

lemma tables_loop_dropped:
  assumes "ident dbname"
    "\<forall>kv \<in> set kvs. (\<exists>tc. table_ok tc \<and> kv = saved dbname tc) \<or> snd kv = []"
    "\<exists>kv \<in> set kvs. snd kv = []"
  shows "tables_loop (flat kvs) db = Inl InvalidArgument"
  using assms(2,3)
proof (induction kvs arbitrary: db)
  case (Cons kv kvs)
  obtain k v where kv: "kv = (k, v)" by (cases kv)
  show ?case
  proof (cases "v = []")
    case True
    then show ?thesis by (simp add: kv GetColFromStr_def)
  next
    case False
    then obtain tc where "table_ok tc" "kv = saved dbname tc" using Cons.prems(1) kv by auto
    moreover have "\<exists>kv \<in> set kvs. snd kv = []" using Cons.prems(2) False kv by auto
    ultimately show ?thesis using tables_loop_saved [OF assms(1)] Cons by simp
  qed
qed simp



text \<open>the key of a table is split at every underscore and the last part is taken for the name:
  a table \<open>a_b\<close> comes back from a restart as \<open>b\<close>.\<close>

lemma underscore_table_renamed:
  assumes "kv_laws R view" "ident dbname" "no_tables view dbname st" "ident a" "ident b"
    "cols \<noteq> []" "list_all (\<lambda>c. colname_ok (GetColName c) \<and> GetVal c = []) cols"
  shows "\<exists>db st'. CreateTable R (a @ ''_'' @ b) cols
      \<lparr>db_table_count = 0, db_name = dbname, db_tables = Map.empty\<rparr> st = (True, db, st') \<and>
    db_tables db = [a @ ''_'' @ b \<mapsto> DataTable_new (a @ ''_'' @ b) cols] \<and>
    DataBase_new R st' dbname True =
      Inr \<lparr>db_table_count = 1, db_name = dbname, db_tables = [b \<mapsto> DataTable_new b cols]\<rparr>"
proof -
  let ?p = "table_prefix dbname" and ?t = "a @ ''_'' @ b"
  have "table_ok (b, cols)" using assms(5-7) by (simp add: table_ok_def)
  then have s: "c_str (schema cols) = schema cols" "GetColFromStr (schema cols) = Inr cols"
    using no_zero_saved(2) [OF assms(2), of "(b, cols)"] GetColFromStr_saved [of "(b, cols)"] by simp_all
  have c: "c_str (?p @ ?t) = ?p @ ?t" "c_str (?p @ ''*'') = ?p @ ''*''"
    using assms(2,4,5) by (intro c_str_id; auto simp: table_prefix_def ident_def)+
  let ?st = "r_set R (?p @ ?t) (schema cols) st"
  let ?db = "\<lparr>db_table_count = 1, db_name = dbname, db_tables = [?t \<mapsto> DataTable_new ?t cols]\<rparr>"
  have create: "CreateTable R ?t cols \<lparr>db_table_count = 0, db_name = dbname, db_tables = Map.empty\<rparr> st = (True, ?db, ?st)"
    using c s by (simp add: CreateTable_def Let_def cmd_SET_def insert_new_def flip: schema_def)
  have "StringsJoin [''table'', dbname, a, b] ''_'' = ?p @ ?t" by (simp add: table_prefix_def)
  moreover have "splittable ''_'' [''table'', dbname, a, b]"
    using assms(2,4,5) ident_table by (intro splittable_idents) simp_all
  moreover have "delimiter_ok ''_''" by (simp add: delimiter_ok_def blank_def char_value_def)
  moreover have "length (StringsJoin [''table'', dbname, a, b] ''_'') < 2 ^ 64"
    using assms(2,4,5) by (simp add: ident_def)
  ultimately have split: "StringSplit (?p @ ?t) ''_'' = Some [''table'', dbname, a, b]"
    using StringSplit_StringsJoin by metis
  have "glob_free ?p" using assms(2) by (simp add: table_prefix_def glob_free_def ident_def)
  then obtain kvs where scan: "r_scan R None (?p @ ''*'') ?st = Some (Some (flat kvs))"
    and dist: "distinct (map fst kvs)"
    and kvs: "\<And>k v. (k, v) \<in> set kvs \<longleftrightarrow> view ?st k = Some v \<and> prefix ?p k"
    using kv_scan [OF assms(1)] by blast
  have view: "view ?st = (view st)(?p @ ?t \<mapsto> schema cols)" by (rule kv_set [OF assms(1)])
  have "kv = (?p @ ?t, schema cols)" if "kv \<in> set kvs" for kv
  proof -
    obtain k v where kv: "kv = (k, v)" by (cases kv)
    with that have v: "((view st)(?p @ ?t \<mapsto> schema cols)) k = Some v" and pre: "prefix ?p k"
      using kvs unfolding view by blast+
    have "k = ?p @ ?t" using v pre assms(3) unfolding no_tables_def by (auto split: if_splits)
    with v kv show ?thesis by simp
  qed
  moreover have "(?p @ ?t, schema cols) \<in> set kvs" using kvs unfolding view by simp
  ultimately have "kvs = [(?p @ ?t, schema cols)]" using dist by (rule single_entry)
  then have "DataBase_new R ?st dbname True =
      Inr \<lparr>db_table_count = 1, db_name = dbname, db_tables = [b \<mapsto> DataTable_new b cols]\<rparr>"
    using scan c s split size_sub_le [of "Suc 0" "Suc (Suc (Suc (Suc 0)))"]
    by (simp add: DataBase_new_def DataBase_Recover_def cmd_SCAN_def insert_new_def)
  with create show ?thesis by simp
qed


text \<open>creating a table again: the object in memory keeps its first columns, the store gets the
  second ones, so that a restart changes the table.\<close>

lemma recreated_table_differs_after_restart:
  assumes "kv_laws R view" "ident dbname" "no_tables view dbname st" "table_ok (t, cols)" "table_ok (t, cols')"
  shows "\<exists>db st1 db2 st2.
    CreateTable R t cols \<lparr>db_table_count = 0, db_name = dbname, db_tables = Map.empty\<rparr> st = (True, db, st1) \<and>
    CreateTable R t cols' db st1 = (True, db2, st2) \<and>
    GetTable t db2 = Some (DataTable_new t cols) \<and>
    DataBase_new R st2 dbname True =
      Inr \<lparr>db_table_count = 1, db_name = dbname, db_tables = [t \<mapsto> DataTable_new t cols']\<rparr>"
proof -
  let ?db = "\<lparr>db_table_count = 0, db_name = dbname, db_tables = Map.empty\<rparr>"
  obtain st1 where st1: "CreateTable R t cols ?db st =
      (True, ?db\<lparr>db_tables := [t \<mapsto> DataTable_new t cols], db_table_count := 1\<rparr>, st1)"
    "view st1 = (view st)(fst (saved dbname (t, cols)) \<mapsto> snd (saved dbname (t, cols)))"
    using CreateTable_saved [OF assms(1) _ assms(4), of ?db st] assms(2) by (auto simp: insert_new_def)
  let ?db1 = "?db\<lparr>db_tables := [t \<mapsto> DataTable_new t cols], db_table_count := 1\<rparr>"
  obtain st2 where st2: "CreateTable R t cols' ?db1 st1 =
      (True, ?db1\<lparr>db_table_count := 2\<rparr>, st2)"
    "view st2 = (view st1)(fst (saved dbname (t, cols')) \<mapsto> snd (saved dbname (t, cols')))"
    using CreateTable_saved [OF assms(1) _ assms(5), of ?db1 st1] assms(2) by (auto simp: insert_new_def)
  have "view st2 = view st ++ map_of (map (saved dbname) [(t, cols')])"
    unfolding st2(2) st1(2) by (auto simp: saved_def)
  then have "DataBase_new R st2 dbname True =
      Inr \<lparr>db_table_count = int (length [(t, cols')]), db_name = dbname, db_tables = loaded [(t, cols')] Map.empty\<rparr>"
    using assms(5) by (intro DataBase_recovers [OF assms(1-3)]) simp_all
  moreover have "loaded [(t, cols')] Map.empty = [t \<mapsto> DataTable_new t cols']"
    by (rule ext) (simp add: loaded_def)
  ultimately show ?thesis using st1(1) st2(1) by (simp add: GetTable_def)
qed

text \<open>\<open>DropDataBase\<close> changes nothing in memory, and in the store it writes an empty value under the
  bare name, while \<open>CreateDataBase\<close> wrote under \<open>database_\<close> and the name: the database stays.\<close>

lemma dropped_database_remains:
  assumes "kv_laws R view" "ident name"
  shows "\<exists>d1 st1 st2. CreateDataBase R name \<lparr>dm_heap = [], dm_dbs = [], dm_cur_db = None\<rparr> st = Inr (True, d1, st1) \<and>
    DropDataBase R name d1 st1 = (True, d1, st2) \<and> name \<in> set (ShowDataBases d1) \<and>
    view st2 (''database_'' @ name) = Some name"
proof -
  have c: "c_str name = name" "c_str (''database_'' @ name) = ''database_'' @ name"
    using assms(2) by (intro c_str_id; auto simp: ident_def)+
  have ne: "''database_'' @ name \<noteq> name" by (metis append_self_conv2 list.distinct(1))
  let ?st1 = "r_set R (''database_'' @ name) name st"
  let ?d = "\<lparr>dm_heap = [\<lparr>db_table_count = 0, db_name = name, db_tables = Map.empty\<rparr>], dm_dbs = [(name, 0)], dm_cur_db = None\<rparr>"
  have "CreateDataBase R name \<lparr>dm_heap = [], dm_dbs = [], dm_cur_db = None\<rparr> st = Inr (True, ?d, ?st1)"
    unfolding CreateDataBase_def cmd_SET_def c by (simp add: DataBase_new_def dbs_insert_def)
  moreover have "DropDataBase R name ?d ?st1 = (True, ?d, r_set R name [] ?st1)"
    unfolding DropDataBase_def cmd_SET_def c by simp
  moreover have "view (r_set R name [] ?st1) (''database_'' @ name) = Some name"
    using ne unfolding kv_set [OF assms(1)] by simp
  ultimately show ?thesis by (auto simp: ShowDataBases_def)
qed

end
