(* ===== verification/Sockets.thy ===== *)
theory Sockets
  imports Async Numbers
begin

text \<open>
  \<open>network/socket.h\<close>, \<open>socket.cc\<close> and \<open>stream_socket.cc\<close>: the address of a peer, the base class
  of the sockets and the connection with its two buffers. What the kernel answers to \<open>readv\<close>
  and \<open>writev\<close> is an argument; what the connection asks of the thread pool is a result. The
  lemmas: receiving and sending keep the byte order, and a whole receive buffer is one message.
\<close>

section \<open>Addresses\<close>

record SocketAddr =
  sin_family :: u16
  sin_addr :: u32
  sin_port :: u16

definition AF_INET :: u16 where "AF_INET = 2"
definition INVALID_SOCKET :: int where "INVALID_SOCKET = -1"

text \<open>\<open>htons\<close> and \<open>ntohs\<close> on a little-endian machine.\<close>

definition swap16 :: "u16 \<Rightarrow> u16" where
  "swap16 w = or (push_bit 8 w) (drop_bit 8 w)"

definition SocketAddr_Clear :: SocketAddr where
  "SocketAddr_Clear = \<lparr>sin_family = 0, sin_addr = 0, sin_port = 0\<rparr>"

definition SocketAddr_net :: "u32 \<Rightarrow> u16 \<Rightarrow> SocketAddr" where
  "SocketAddr_net netip netport = \<lparr>sin_family = AF_INET, sin_addr = netip, sin_port = netport\<rparr>"

text \<open>\<open>inet_addr\<close> is a library function: a parameter.\<close>

definition SocketAddr_host :: "(string \<Rightarrow> u32) \<Rightarrow> string \<Rightarrow> u16 \<Rightarrow> SocketAddr" where
  "SocketAddr_host inet_addr ip hostport =
     \<lparr>sin_family = AF_INET, sin_addr = inet_addr ip, sin_port = swap16 hostport\<rparr>"

text \<open>From \<open>"ip:port"\<close>. Without a colon both parts are the whole text: \<open>npos + 1\<close> is 0.\<close>

definition SocketAddr_text :: "(string \<Rightarrow> u32) \<Rightarrow> string \<Rightarrow> SocketAddr res" where
  "SocketAddr_text inet_addr ipport =
     (let ip = takeWhile (\<lambda>c. c \<noteq> CHR '':'') ipport;
          port = (if CHR '':'' \<in> set ipport then drop 1 (dropWhile (\<lambda>c. c \<noteq> CHR '':'') ipport) else ipport)
      in bindR (stoi port) (\<lambda>n. Inr (SocketAddr_host inet_addr ip (word_of_int n))))"

definition GetPort :: "SocketAddr \<Rightarrow> u16" where
  "GetPort a = swap16 (sin_port a)"

definition SocketAddr_ToString :: "(u32 \<Rightarrow> string) \<Rightarrow> SocketAddr \<Rightarrow> string" where
  "SocketAddr_ToString inet_ntop a = inet_ntop (sin_addr a) @ '':'' @ to_string (uint (swap16 (sin_port a)))"

definition SocketAddr_Empty :: "SocketAddr \<Rightarrow> bool" where
  "SocketAddr_Empty a \<longleftrightarrow> sin_family a = 0"

definition SocketAddr_eq :: "SocketAddr \<Rightarrow> SocketAddr \<Rightarrow> bool" where
  "SocketAddr_eq a b \<longleftrightarrow> sin_family a = sin_family b \<and> sin_addr a = sin_addr b \<and> sin_port a = sin_port b"

definition SocketAddr_neq :: "SocketAddr \<Rightarrow> SocketAddr \<Rightarrow> bool" where
  "SocketAddr_neq a b \<longleftrightarrow> \<not> SocketAddr_eq a b"

text \<open>The hash: \<open>std::hash\<close> of the integral types is a parameter.\<close>

definition SocketAddr_hash :: "(int \<Rightarrow> u64) \<Rightarrow> SocketAddr \<Rightarrow> u64" where
  "SocketAddr_hash h s =
     (let h1 = h (sint (sin_family s)); h2 = h (uint (sin_port s)); h3 = h (uint (sin_addr s));
          tmp = xor h1 (push_bit 1 h2)
      in xor h3 (push_bit 1 tmp))"

section \<open>The base class\<close>

datatype SocketType = SocketType_Invalid | SocketType_Listen | SocketType_Client | SocketType_Stream

record Socket =
  so_localSock :: int
  so_epollOut :: bool
  so_invalid :: bool
  so_id :: nat

text \<open>
  The identifier comes from the counter \<open>sid_\<close>, which skips 0 when it wraps. Read twice, it is
  not the value this constructor produced when two threads create sockets at once; here one does.
\<close>

definition next_sid :: "nat \<Rightarrow> nat" where
  "next_sid sid = (let sid = size_add sid 1 in if sid = 0 then 1 else sid)"

definition Socket_new :: "nat \<Rightarrow> Socket \<times> nat" where
  "Socket_new sid =
     (let sid = next_sid sid in
      (\<lparr>so_localSock = INVALID_SOCKET, so_epollOut = False, so_invalid = False, so_id = sid\<rparr>, sid))"

definition Socket_OnError :: "'a Socket_scheme \<Rightarrow> bool \<times> 'a Socket_scheme" where
  "Socket_OnError s = (if \<not> so_invalid s then (True, s\<lparr>so_invalid := True\<rparr>) else (False, s))"

definition CloseSocket :: "int \<Rightarrow> int" where
  "CloseSocket sock = (if sock \<noteq> INVALID_SOCKET then INVALID_SOCKET else sock)"

text \<open>The virtual functions of the base class.\<close>

definition Socket_OnReadable :: "'a Socket_scheme \<Rightarrow> bool" where
  "Socket_OnReadable s = False"
definition Socket_OnWritable :: "'a Socket_scheme \<Rightarrow> bool" where
  "Socket_OnWritable s = False"

section \<open>Connections\<close>

record StreamSocket = Socket +
  ss_peerAddr :: SocketAddr
  ss_recvBuf :: CircularBuffer
  ss_sendBuf :: AsyncBuffer

definition ERRORSOCKET :: int where "ERRORSOCKET = -1"
definition EOFSOCKET :: int where "EOFSOCKET = -2"

definition StreamSocket_Init :: "int \<Rightarrow> SocketAddr \<Rightarrow> 'a StreamSocket_scheme \<Rightarrow> bool \<times> 'a StreamSocket_scheme" where
  "StreamSocket_Init fd peer s =
     (if fd < 0 then (False, s) else (True, s\<lparr>ss_peerAddr := peer, so_localSock := fd\<rparr>))"

text \<open>The kernel's answer to \<open>readv\<close>: bytes (none at the end of the stream), try again, or an error.\<close>

datatype recv_outcome = Received "byte list" | RecvAgain | RecvFailed

definition Recv :: "recv_outcome \<Rightarrow> 'a StreamSocket_scheme \<Rightarrow> (int \<times> 'a StreamSocket_scheme) res" where
  "Recv r s =
     bindR (if cb_Capacity (ss_recvBuf s) = 0
            then bindR (cb_InitCapacity (64 * 1024) (ss_recvBuf s)) (\<lambda>c. Inr (s\<lparr>ss_recvBuf := c\<rparr>))
            else Inr s) (\<lambda>s.
     bindR (cb_GetSpace 0 (ss_recvBuf s)) (\<lambda>buffers.
     if length buffers = 0 then Inr (0, s)
     else case r of
       RecvAgain \<Rightarrow> Inr (0, s)
     | RecvFailed \<Rightarrow> Inr (ERRORSOCKET, s)
     | Received data \<Rightarrow>
         bindR (scatter (cb_buffer (ss_recvBuf s)) buffers data) (\<lambda>buf.
         let c = (ss_recvBuf s)\<lparr>cb_buffer := buf\<rparr>; ret = int (length data);
             c = (if ret > 0 then cb_AdjustWritePtr (length data) c else c)
         in Inr (if ret = 0 then EOFSOCKET else ret, s\<lparr>ss_recvBuf := c\<rparr>))))"

text \<open>The kernel's answer to \<open>writev\<close>.\<close>

datatype send_outcome = Wrote nat | SendAgain | SendFailed

definition Send_blocks :: "send_outcome \<Rightarrow> byte list list \<Rightarrow> 'a StreamSocket_scheme \<Rightarrow> (int \<times> 'a StreamSocket_scheme) res" where
  "Send_blocks w bf s =
     bindR (TotalBytes (map length bf)) (\<lambda>total.
     if total = 0 then Inr (0, s)
     else case w of
       SendAgain \<Rightarrow> Inr (0, s\<lparr>so_epollOut := True\<rparr>)
     | SendFailed \<Rightarrow> Inr (ERRORSOCKET, s)
     | Wrote n \<Rightarrow>
         if n > 0 \<and> n < total then Inr (int n, s\<lparr>so_epollOut := True\<rparr>)
         else if n = total then Inr (int n, s\<lparr>so_epollOut := False\<rparr>)
         else Inr (int n, s))"

definition SendPacket :: "byte list \<Rightarrow> 'a StreamSocket_scheme \<Rightarrow> 'a StreamSocket_scheme res" where
  "SendPacket data s =
     (if length data > 0 then bindR (ab_Write_bytes data (ss_sendBuf s)) (\<lambda>b. Inr (s\<lparr>ss_sendBuf := b\<rparr>))
      else Inr s)"

text \<open>
  The overloads for \<open>Buffer\<close> and \<open>AttachedBuffer\<close> pass \<open>ReadAddr()\<close> and \<open>ReadableSize()\<close>: when the
  content wraps, the bytes run past the end of the array.
\<close>

definition SendPacket_cb :: "CircularBuffer \<Rightarrow> 'a StreamSocket_scheme \<Rightarrow> 'a StreamSocket_scheme res" where
  "SendPacket_cb bf s =
     bindR (sliceR (cb_buffer bf) (cb_readPos bf) (cb_ReadableSize bf)) (\<lambda>bs. SendPacket bs s)"

text \<open>The overload for \<open>UnboundedBuffer\<close>: \<open>ReadAddr()\<close> and \<open>ReadableSize()\<close>.\<close>

definition SendPacket_ub :: "UnboundedBuffer \<Rightarrow> 'a StreamSocket_scheme \<Rightarrow> 'a StreamSocket_scheme res" where
  "SendPacket_ub ubf s = bindR (ub_block ubf) (\<lambda>vs. SendPacket (concat vs) s)"

text \<open>What a connection asks of the thread pool, for itself.\<close>

datatype pool_request = EnableRead | EnableWrite | DisableRead | DisableWrite

definition Stream_OnReadable :: "recv_outcome \<Rightarrow> 'a StreamSocket_scheme \<Rightarrow>
    (bool \<times> pool_request list \<times> 'a StreamSocket_scheme) res" where
  "Stream_OnReadable r s =
     bindR (Recv r s) (\<lambda>(nBytes, s).
       if nBytes < 0 then Inr (False, [DisableRead], s) else Inr (True, [], s))"

definition Send :: "bool \<Rightarrow> send_outcome \<Rightarrow> 'a StreamSocket_scheme \<Rightarrow>
    (bool \<times> pool_request list \<times> 'a StreamSocket_scheme) res" where
  "Send locked w s =
     (if so_epollOut s then Inr (True, [], s)
      else
        bindR (ab_ProcessBuffer locked (ss_sendBuf s)) (\<lambda>(bf, b).
        let s = s\<lparr>ss_sendBuf := b\<rparr> in
        bindR (TotalBytes (map length bf)) (\<lambda>total.
        if total = 0 then Inr (True, [], s)
        else
          bindR (Send_blocks w bf s) (\<lambda>(nSent, s).
          bindR (if nSent > 0 then bindR (ab_Skip (nat nSent) (ss_sendBuf s)) (\<lambda>b. Inr (s\<lparr>ss_sendBuf := b\<rparr>))
                 else Inr s) (\<lambda>s.
          Inr (nSent \<ge> 0, if so_epollOut s then [EnableWrite] else [], s))))))"

definition OnWriteable :: "bool \<Rightarrow> send_outcome \<Rightarrow> 'a StreamSocket_scheme \<Rightarrow>
    (bool \<times> pool_request list \<times> 'a StreamSocket_scheme) res" where
  "OnWriteable locked w s =
     bindR (ab_ProcessBuffer locked (ss_sendBuf s)) (\<lambda>(bf, b).
     let s = s\<lparr>ss_sendBuf := b\<rparr> in
     bindR (TotalBytes (map length bf)) (\<lambda>total.
     bindR (if total > 0 then
              bindR (Send_blocks w bf s) (\<lambda>(nSent, s).
              if nSent > 0 then bindR (ab_Skip (nat nSent) (ss_sendBuf s)) (\<lambda>b. Inr (nSent, s\<lparr>ss_sendBuf := b\<rparr>))
              else Inr (nSent, s))
            else Inr (0, s\<lparr>so_epollOut := False\<rparr>)) (\<lambda>(nSent, s).
     Inr (nSent \<ge> 0, if so_epollOut s then [] else [DisableWrite], s))))"

text \<open>The callback \<open>onDisconnect_\<close> is called on the first error, if there is one.\<close>

definition Stream_OnError :: "'a StreamSocket_scheme \<Rightarrow> bool \<times> 'a StreamSocket_scheme" where
  "Stream_OnError s = Socket_OnError s"

text \<open>
  The loop over the receive buffer. \<open>handle\<close> is the virtual \<open>_HandlePacket\<close>: it gets the bytes
  and the connection, and answers how many bytes it has consumed. \<open>None\<close> is not returning.
\<close>

definition parse_step :: "(byte list \<Rightarrow> 'a StreamSocket_scheme \<Rightarrow> (int \<times> 'a StreamSocket_scheme) res) \<Rightarrow>
    'a StreamSocket_scheme \<Rightarrow> (int \<times> 'a StreamSocket_scheme) res" where
  "parse_step handle s =
     (let c = ss_recvBuf s in
      bindR (cb_GetDatum (cb_ReadableSize c) 0 c) (\<lambda>datum.
      bindR (AttachedBuffer_of (map (iov_bytes (cb_buffer c)) datum)) (\<lambda>af.
      bindR (sliceR (cb_buffer af) (cb_readPos af) (cb_ReadableSize af)) (\<lambda>bytes.
        handle bytes s))))"

partial_function (option) parse_loop ::
  "(byte list \<Rightarrow> 'a StreamSocket_scheme \<Rightarrow> (int \<times> 'a StreamSocket_scheme) res) \<Rightarrow> bool \<Rightarrow>
   'a StreamSocket_scheme \<Rightarrow> ((bool \<times> 'a StreamSocket_scheme) res) option" where
  "parse_loop handle busy s =
     (if cb_IsEmpty (ss_recvBuf s) then Some (Inr (busy, s))
      else case parse_step handle s of
        Inl e \<Rightarrow> Some (Inl e)
      | Inr (bodyLen, s) \<Rightarrow>
          if bodyLen > 0 then
            parse_loop handle True (s\<lparr>ss_recvBuf := cb_AdjustReadPtr (nat bodyLen) (ss_recvBuf s)\<rparr>)
          else Some (Inr (busy, s)))"

definition DoMsgParse :: "(byte list \<Rightarrow> 'a StreamSocket_scheme \<Rightarrow> (int \<times> 'a StreamSocket_scheme) res) \<Rightarrow>
    'a StreamSocket_scheme \<Rightarrow> (bool \<times> 'a StreamSocket_scheme) res" where
  "DoMsgParse handle s = bindR (must_return (parse_loop handle False s)) id"

section \<open>Invariant and lemmas\<close>

definition ss_inv :: "'a StreamSocket_scheme \<Rightarrow> bool" where
  "ss_inv s \<longleftrightarrow> cb_inv (ss_recvBuf s) \<and> ab_inv (ss_sendBuf s)"

text \<open>What is queued for the peer, and what has been received and not yet handled.\<close>

definition outbox :: "'a StreamSocket_scheme \<Rightarrow> byte list" where
  "outbox s = ab_content (ss_sendBuf s)"

definition inbox :: "'a StreamSocket_scheme \<Rightarrow> byte list" where
  "inbox s = cb_content (ss_recvBuf s)"

lemma ss_inv_simps [simp]:
  "ss_inv (s\<lparr>so_epollOut := b\<rparr>) = ss_inv s" "ss_inv (s\<lparr>so_invalid := b\<rparr>) = ss_inv s"
  "outbox (s\<lparr>so_epollOut := b\<rparr>) = outbox s" "inbox (s\<lparr>so_epollOut := b\<rparr>) = inbox s"
  "outbox (s\<lparr>ss_recvBuf := c\<rparr>) = outbox s" "inbox (s\<lparr>ss_sendBuf := a\<rparr>) = inbox s"
  "outbox (s\<lparr>ss_sendBuf := a\<rparr>) = ab_content a" "inbox (s\<lparr>ss_recvBuf := c\<rparr>) = cb_content c"
  "ss_inv (s\<lparr>ss_sendBuf := a\<rparr>) \<longleftrightarrow> cb_inv (ss_recvBuf s) \<and> ab_inv a"
  "ss_inv (s\<lparr>ss_recvBuf := c\<rparr>) \<longleftrightarrow> cb_inv c \<and> ab_inv (ss_sendBuf s)"
  by (simp_all add: ss_inv_def outbox_def inbox_def)

subsection \<open>Queueing a reply\<close>

lemma back_le_content: "length (ub_content (ab_backBuf a)) \<le> length (ab_content a)"
  by (simp add: ab_content_def)

lemma ab_Write_ok:
  assumes "ab_inv a" "length bufs \<le> 16" "length (ab_content a) + length (concat bufs) \<le> MAX_BUFFER_SIZE"
  shows "\<exists>a'. ab_Write bufs a = Inr a' \<and> ab_inv a' \<and> ab_content a' = ab_content a @ concat bufs"
proof -
  have "length (concat bufs) < 2 ^ 64" using assms(3) by (simp add: MAX_BUFFER_SIZE_def)
  then have "TotalBytes (map length bufs) = Inr (length (concat bufs))"
    using assms(2) by (subst TotalBytes_eq) (simp_all add: sum_length_concat)
  moreover have room: "length (ub_content (ab_backBuf a)) + length (concat bufs) \<le> MAX_BUFFER_SIZE"
    using assms(3) back_le_content [of a] by simp
  ultimately show ?thesis
    using ab_write_locked_ok [OF assms(1) room] ab_write_ring_ok [OF assms(1), of bufs]
    by (cases "ab_full (length (concat bufs)) a") (auto simp: ab_Write_def ab_full_def)
qed

lemma SendPacket_ok:
  assumes "ss_inv s" "length (outbox s) + length data \<le> MAX_BUFFER_SIZE"
  shows "\<exists>a. SendPacket data s = Inr (s\<lparr>ss_sendBuf := a\<rparr>) \<and> ab_inv a \<and> ab_content a = outbox s @ data"
proof (cases "data = []")
  case True
  with assms show ?thesis by (auto simp: SendPacket_def ss_inv_def outbox_def intro!: exI [of _ "ss_sendBuf s"])
next
  case False
  with assms ab_Write_ok [of "ss_sendBuf s" "[data]"] show ?thesis
    by (auto simp: SendPacket_def ab_Write_bytes_def ss_inv_def outbox_def)
qed

lemma SendPacket_ub_ok:
  assumes "ss_inv s" "ub_inv b" "length (outbox s) + length (ub_content b) \<le> MAX_BUFFER_SIZE"
  shows "\<exists>a. SendPacket_ub b s = Inr (s\<lparr>ss_sendBuf := a\<rparr>) \<and> ab_inv a \<and> ab_content a = outbox s @ ub_content b"
  using SendPacket_ok [OF assms(1,3)] ub_block_ok [OF assms(2)] by (simp add: SendPacket_ub_def)


text \<open>Queueing that ends keeps the invariant of the send buffer, whatever the size.\<close>

lemma SendPacket_ub_keeps:
  assumes "SendPacket_ub b s = Inr s'" "ub_inv b"
  shows "\<exists>a. s' = s\<lparr>ss_sendBuf := a\<rparr> \<and> (ab_inv (ss_sendBuf s) \<longrightarrow> ab_inv a)"
proof -
  have "SendPacket (ub_content b) s = Inr s'" using assms ub_block_ok by (simp add: SendPacket_ub_def)
  then show ?thesis
    using ab_Write_keeps [OF _ _ ub_content_bound [OF assms(2)]]
    by (auto simp: SendPacket_def bindR_eq_Inr split: if_splits intro: exI [of _ "ss_sendBuf s"])
qed

subsection \<open>Sending\<close>

text \<open>The bytes \<open>ProcessBuffer\<close> hands to \<open>writev\<close>; the kernel takes at most these.\<close>

definition offered :: "bool \<Rightarrow> 'a StreamSocket_scheme \<Rightarrow> byte list" where
  "offered locked s = (case ab_ProcessBuffer locked (ss_sendBuf s) of Inl _ \<Rightarrow> [] | Inr (vs, _) \<Rightarrow> concat vs)"

definition kernel_ok :: "send_outcome \<Rightarrow> byte list \<Rightarrow> bool" where
  "kernel_ok w bs \<longleftrightarrow> (case w of Wrote n \<Rightarrow> n \<le> length bs | _ \<Rightarrow> True)"

definition taken :: "send_outcome \<Rightarrow> byte list \<Rightarrow> byte list" where
  "taken w bs = (case w of Wrote n \<Rightarrow> take n bs | _ \<Rightarrow> [])"

lemma ProcessBuffer_blocks:
  assumes "ab_inv a" "ab_ProcessBuffer locked a = Inr (vs, a')"
  shows "length vs \<le> 2"
proof -
  note inv = assms(1) [unfolded ab_inv_def]
  have ring: "length vs \<le> 2" if "cb_GetDatum n 0 (ab_buffer a) = Inr vs" "n < 2 ^ 64" for n vs
    using cb_GetDatum_ok [of "ab_buffer a" n 0] inv that by auto
  show ?thesis
    using assms(2) ring cb_ReadableSize_less [of "ab_buffer a"] cb_invD(1) [of "ab_buffer a"] inv
    by (auto simp: ab_ProcessBuffer_def ub_block_def ub_Swap_eq Let_def bindR_eq_Inr split: if_splits)
qed

text \<open>One \<open>Send\<close>: what the kernel took is the front of the queue, in order.\<close>

lemma Send_core:
  assumes "ab_inv (ss_sendBuf s)" "\<not> so_epollOut s" "kernel_ok w (offered locked s)"
  shows "\<exists>ok req s'. Send locked w s = Inr (ok, req, s') \<and> ab_inv (ss_sendBuf s') \<and>
    s' = s\<lparr>so_epollOut := so_epollOut s', ss_sendBuf := ss_sendBuf s'\<rparr> \<and>
    outbox s = (if offered locked s = [] then [] else taken w (offered locked s)) @ outbox s' \<and>
    (ok \<longleftrightarrow> offered locked s = [] \<or> w \<noteq> SendFailed) \<and>
    (so_epollOut s' \<longleftrightarrow> offered locked s \<noteq> [] \<and>
       (w = SendAgain \<or> (\<exists>n. w = Wrote n \<and> 0 < n \<and> n < length (offered locked s)))) \<and>
    req = (if so_epollOut s' then [EnableWrite] else [])"
proof -
  note a = assms(1)
  obtain vs b where pb: "ab_ProcessBuffer locked (ss_sendBuf s) = Inr (vs, b)" "ab_inv b"
    "ab_content b = outbox s" and b:
    "ub_content (ab_tmpBuf b) \<noteq> [] \<and> concat vs = ub_content (ab_tmpBuf b) \<or>
      ub_content (ab_tmpBuf b) = [] \<and> concat vs = cb_content (ab_buffer b)"
    using ab_ProcessBuffer_ok [OF a, of locked] by (auto simp: outbox_def)
  have off: "offered locked s = concat vs" by (simp add: offered_def pb)
  have "concat vs @ drop (length (concat vs)) (outbox s) = outbox s"
    using b unfolding pb(3) [symmetric] ab_content_def by (elim disjE conjE) simp_all
  then obtain tl where tl: "outbox s = concat vs @ tl" by metis
  have "length vs \<le> 2" using ProcessBuffer_blocks [OF a pb(1)] .
  moreover have "length (concat vs) < 2 ^ 64"
    using b ub_content_bound [of "ab_tmpBuf b"] cb_ReadableSize_less [of "ab_buffer b"] cb_invD(1) [of "ab_buffer b"]
      length_cb_content [of "ab_buffer b"] pb(2) by (auto simp: ab_inv_def)
  ultimately have total: "TotalBytes (map length vs) = Inr (length (concat vs))"
    by (subst TotalBytes_eq) (simp_all add: sum_length_concat)
  let ?s = "s\<lparr>ss_sendBuf := b\<rparr>"
  have s: "ab_inv (ss_sendBuf ?s)" "outbox ?s = outbox s" using pb(2,3) by simp_all
  have frame: "s\<lparr>so_epollOut := e, ss_sendBuf := x\<rparr> = s\<lparr>ss_sendBuf := x\<rparr>" if "e = so_epollOut s" for e x
    using that by (cases s) simp
  then have frame': "s\<lparr>ss_sendBuf := x\<rparr> = s\<lparr>so_epollOut := False, ss_sendBuf := x\<rparr>" for x
    using assms(2) by simp
  show ?thesis
  proof (cases "concat vs = []")
    case True
    then have "Send locked w s = Inr (True, [], ?s)"
      using assms(2) total by (simp add: Send_def pb(1) del: concat_eq_Nil_conv)
    with s True off assms(2) show ?thesis by (intro exI [of _ True]) (simp del: concat_eq_Nil_conv)
  next
    case ne: False
    show ?thesis
    proof (cases w)
      case (Wrote n)
      then have n: "n \<le> length (concat vs)" using assms(3) off by (simp add: kernel_ok_def)
      show ?thesis
      proof (cases "n = 0")
        case True
        then have "Send locked w s = Inr (True, [], ?s)"
          using assms(2) total ne
          by (simp add: Send_def pb(1) Send_blocks_def Wrote Let_def del: length_concat concat_eq_Nil_conv)
        with s True off assms(2) Wrote show ?thesis by (intro exI [of _ True]) (simp add: taken_def)
      next
        case False
        have "n \<le> length (if ub_content (ab_tmpBuf b) \<noteq> [] then ub_content (ab_tmpBuf b) else cb_content (ab_buffer b))"
          using b n by auto
        then obtain c where c: "ab_Skip n b = Inr c" "ab_inv c" "ab_content c = drop n (outbox s)"
          using ab_Skip_ok [OF pb(2)] pb(3) by metis
        let ?e = "n < length (concat vs)"
        let ?s' = "s\<lparr>so_epollOut := ?e, ss_sendBuf := c\<rparr>"
        have "Send locked w s = Inr (True, if ?e then [EnableWrite] else [], ?s')"
        proof (cases ?e)
          case True
          with assms(2) total ne c(1) False show ?thesis
            by (simp add: Send_def pb(1) Send_blocks_def Wrote Let_def del: length_concat concat_eq_Nil_conv)
        next
          case all: False
          then have "TotalBytes (map length vs) = Inr n" using total n by simp
          with assms(2) ne c(1) False all show ?thesis
            by (simp add: Send_def pb(1) Send_blocks_def Wrote Let_def del: length_concat concat_eq_Nil_conv)
        qed
        moreover have "outbox s = take n (concat vs) @ drop n (outbox s)"
          unfolding tl using n by (simp flip: append_assoc del: length_concat)
        ultimately show ?thesis
          using Wrote s(1) c False off assms(1) ne by (auto simp: taken_def outbox_def simp del: length_concat)
      qed
    next
      case SendAgain
      then have "Send locked w s = Inr (True, [EnableWrite], ?s\<lparr>so_epollOut := True\<rparr>)"
        using assms(2) total ne
        by (simp add: Send_def pb(1) Send_blocks_def Let_def del: length_concat concat_eq_Nil_conv)
      with s SendAgain off ne show ?thesis by (intro exI [of _ True]) (simp add: taken_def)
    next
      case SendFailed
      then have "Send locked w s = Inr (False, [], ?s)"
        using assms(2) total ne
        by (simp add: Send_def pb(1) Send_blocks_def ERRORSOCKET_def Let_def del: length_concat concat_eq_Nil_conv)
      with s SendFailed off ne assms(2) show ?thesis by (intro exI [of _ False]) (simp add: taken_def del: concat_eq_Nil_conv)
    qed
  qed
qed

lemma Send_ok:
  assumes "ss_inv s" "\<not> so_epollOut s" "kernel_ok w (offered locked s)"
  shows "\<exists>ok req s'. Send locked w s = Inr (ok, req, s') \<and> ss_inv s' \<and> inbox s' = inbox s \<and>
    outbox s = (if offered locked s = [] then [] else taken w (offered locked s)) @ outbox s' \<and>
    (ok \<longleftrightarrow> offered locked s = [] \<or> w \<noteq> SendFailed) \<and>
    req = (if so_epollOut s' then [EnableWrite] else [])"
proof -
  obtain ok req s' where s': "Send locked w s = Inr (ok, req, s')" "ab_inv (ss_sendBuf s')"
    "s' = s\<lparr>so_epollOut := so_epollOut s', ss_sendBuf := ss_sendBuf s'\<rparr>"
    "outbox s = (if offered locked s = [] then [] else taken w (offered locked s)) @ outbox s'"
    "ok \<longleftrightarrow> offered locked s = [] \<or> w \<noteq> SendFailed" "req = (if so_epollOut s' then [EnableWrite] else [])"
    using Send_core [OF _ assms(2,3)] assms(1) by (auto simp: ss_inv_def)
  have "ss_recvBuf s' = ss_recvBuf s" by (subst s'(3)) simp
  then show ?thesis using s' assms(1) by (auto simp: ss_inv_def inbox_def)
qed

subsection \<open>The receive buffer as one message\<close>

lemma RoundUp2Power_above:
  assumes "n < 2 ^ 31"
  shows "\<exists>k\<le>31. RoundUp2Power (size_add n 1) = Some (2 ^ k) \<and> n < 2 ^ k"
proof -
  have sz: "size_add n 1 = n + 1" using assms by (intro size_add_small) simp
  obtain k where k: "RoundUp2Power (n + 1) = Some (2 ^ k)" "n + 1 \<le> 2 ^ k" "1 < n + 1 \<longrightarrow> 2 ^ k < 2 * (n + 1)"
    using RoundUp2Power_ok [of "n + 1"] assms by auto
  have "2 ^ k < (2::nat) ^ 32"
  proof (cases "n = 0")
    case True
    with k(1) show ?thesis by (simp add: RoundUp2Power_def round_loop.simps)
  qed (use k(3) assms in auto)
  then have "k < 32" by (rule power_less_imp_less_exp [rotated]) simp
  with k sz show ?thesis by (intro exI [of _ k]) simp
qed

lemma AttachedBuffer_of_ok:
  assumes "length bf \<le> 16" "length (concat bf) < 2 ^ 31"
  shows "\<exists>k\<le>31. AttachedBuffer_of bf =
      Inr \<lparr>cb_maxSize = 2 ^ k, cb_readPos = 0, cb_writePos = length (concat bf), cb_buffer = concat bf\<rparr>
    \<and> length (concat bf) < 2 ^ k"
proof -
  obtain k where k: "k \<le> 31" "RoundUp2Power (size_add (length (concat bf)) 1) = Some (2 ^ k)"
    "length (concat bf) < 2 ^ k"
    using RoundUp2Power_above [OF assms(2)] by blast
  have total: "TotalBytes (map length bf) = Inr (length (concat bf))"
    using assms by (subst TotalBytes_eq) (simp_all add: sum_length_concat)
  have "AttachedBuffer_of bf =
      Inr \<lparr>cb_maxSize = 2 ^ k, cb_readPos = 0, cb_writePos = length (concat bf), cb_buffer = concat bf\<rparr>"
  proof (cases bf)
    case Nil
    with k(2) show ?thesis by (simp add: AttachedBuffer_of_def)
  next
    case (Cons b bs)
    show ?thesis
    proof (cases bs)
      case Nil
      then have b: "concat bf = b" "hd bf = b" "length bf = 1" using Cons by simp_all
      have "nat (int_cast (length b) mod 2 ^ 64) = length b"
        using assms(2) b(1) by (simp add: int_cast_small)
      with k(2) b show ?thesis by (simp add: AttachedBuffer_of_def)
    next
      case (Cons c cs)
      with \<open>bf = b # bs\<close> have "length bf \<noteq> 0" "length bf \<noteq> 1" by simp_all
      with total k(2) show ?thesis by (simp add: AttachedBuffer_of_def del: length_concat)
    qed
  qed
  with k show ?thesis by blast
qed

lemma parse_step_ok:
  assumes "ss_inv s"
  shows "parse_step handle s = handle (inbox s) s"
proof -
  let ?c = "ss_recvBuf s"
  have c: "cb_inv ?c" using assms by (simp add: ss_inv_def)
  have len: "length (cb_content ?c) < 2 ^ 31"
    using cb_ReadableSize_less [OF c] cb_invD(1) [OF c] by (simp add: length_cb_content [OF c])
  then have "cb_ReadableSize ?c < 2 ^ 64" using length_cb_content [OF c] by simp
  then obtain vs where vs: "cb_GetDatum (cb_ReadableSize ?c) 0 ?c = Inr vs" "length vs \<le> 2"
    "gather (cb_buffer ?c) vs = cb_content ?c"
    using cb_GetDatum_ok [OF c, of "cb_ReadableSize ?c" 0] length_cb_content [OF c] by auto
  then have g: "concat (map (iov_bytes (cb_buffer ?c)) vs) = cb_content ?c" by (simp add: gather_def)
  obtain k where k: "k \<le> 31" "AttachedBuffer_of (map (iov_bytes (cb_buffer ?c)) vs) =
      Inr \<lparr>cb_maxSize = 2 ^ k, cb_readPos = 0, cb_writePos = length (cb_content ?c), cb_buffer = cb_content ?c\<rparr>"
    "length (cb_content ?c) < 2 ^ k"
    using AttachedBuffer_of_ok [of "map (iov_bytes (cb_buffer ?c)) vs"] vs(2) len g by auto
  have "2 ^ k \<le> (2::nat) ^ 31" using k(1) by (rule power_increasing) simp
  then have "size_sub (2 ^ k) 1 = 2 ^ k - 1" by (intro size_sub_le) simp_all
  then have "cb_ReadableSize \<lparr>cb_maxSize = 2 ^ k, cb_readPos = 0, cb_writePos = length (cb_content ?c), cb_buffer = cb_content ?c\<rparr>
      = length (cb_content ?c)"
    using k(3) len size_sub_le [of 0 "length (cb_content ?c)"]
    using and_power_mask [of "length (cb_content ?c)" k] by (simp add: cb_ReadableSize_def wrap_def)
  with vs(1) k(2) show ?thesis by (simp add: parse_step_def Let_def inbox_def)
qed

text \<open>A handler that consumes all it is given is called once.\<close>

lemma DoMsgParse_one_message:
  assumes "ss_inv s" "inbox s \<noteq> []" "handle (inbox s) s = Inr (int (length (inbox s)), s')"
    "ss_recvBuf s' = ss_recvBuf s"
  shows "DoMsgParse handle s = Inr (True, s'\<lparr>ss_recvBuf := cb_AdjustReadPtr (length (inbox s)) (ss_recvBuf s)\<rparr>)
    \<and> cb_inv (cb_AdjustReadPtr (length (inbox s)) (ss_recvBuf s))
    \<and> cb_content (cb_AdjustReadPtr (length (inbox s)) (ss_recvBuf s)) = []"
proof -
  let ?c = "ss_recvBuf s"
  have c: "cb_inv ?c" "cb_content ?c \<noteq> []" using assms(1,2) by (simp_all add: ss_inv_def inbox_def)
  have adj: "cb_inv (cb_AdjustReadPtr (length (inbox s)) ?c)" "cb_content (cb_AdjustReadPtr (length (inbox s)) ?c) = []"
    using cb_AdjustReadPtr_ok [OF c(1), of "length (cb_content ?c)"] by (simp_all add: inbox_def)
  have "parse_loop handle False s =
      parse_loop handle True (s'\<lparr>ss_recvBuf := cb_AdjustReadPtr (length (inbox s)) ?c\<rparr>)"
    using assms c by (subst parse_loop.simps) (simp add: parse_step_ok cb_IsEmpty_iff)
  also have "\<dots> = Some (Inr (True, s'\<lparr>ss_recvBuf := cb_AdjustReadPtr (length (inbox s)) ?c\<rparr>))"
    using adj by (subst parse_loop.simps) (simp add: cb_IsEmpty_iff)
  finally show ?thesis using adj by (simp add: DoMsgParse_def)
qed

lemma DoMsgParse_fault:
  assumes "ss_inv s" "inbox s \<noteq> []" "handle (inbox s) s = Inl e"
  shows "DoMsgParse handle s = Inl e"
  using assms by (simp add: DoMsgParse_def parse_loop.simps parse_step_ok cb_IsEmpty_iff ss_inv_def inbox_def)

lemma DoMsgParse_idle:
  "ss_inv s \<Longrightarrow> inbox s = [] \<Longrightarrow> DoMsgParse handle s = Inr (False, s)"
  by (simp add: DoMsgParse_def parse_loop.simps cb_IsEmpty_iff ss_inv_def inbox_def)


subsection \<open>Receiving\<close>

text \<open>A connection that has not received yet has a buffer without capacity.\<close>

definition ss_fresh :: "'a StreamSocket_scheme \<Rightarrow> bool" where
  "ss_fresh s \<longleftrightarrow> cb_maxSize (ss_recvBuf s) = 0 \<and> cb_readPos (ss_recvBuf s) = 0 \<and> cb_writePos (ss_recvBuf s) = 0 \<and>
     cb_buffer (ss_recvBuf s) = [] \<and> ab_inv (ss_sendBuf s)"

definition ss_ok :: "'a StreamSocket_scheme \<Rightarrow> bool" where
  "ss_ok s \<longleftrightarrow> ss_inv s \<or> ss_fresh s"

text \<open>The room \<open>readv\<close> is offered; the kernel delivers at most as much.\<close>

definition recv_space :: "'a StreamSocket_scheme \<Rightarrow> nat" where
  "recv_space s = (if cb_maxSize (ss_recvBuf s) = 0 then 65535
     else if cb_WriteableSize (ss_recvBuf s) \<le> 1 then 0 else cb_WriteableSize (ss_recvBuf s))"

definition received :: "recv_outcome \<Rightarrow> byte list" where
  "received r = (case r of Received d \<Rightarrow> d | _ \<Rightarrow> [])"

definition readv_ok :: "recv_outcome \<Rightarrow> 'a StreamSocket_scheme \<Rightarrow> bool" where
  "readv_ok r s \<longleftrightarrow> length (received r) \<le> recv_space s"

definition recv_result :: "recv_outcome \<Rightarrow> 'a StreamSocket_scheme \<Rightarrow> int" where
  "recv_result r s = (if recv_space s = 0 then 0 else case r of
     Received d \<Rightarrow> if d = [] then EOFSOCKET else int (length d)
   | RecvAgain \<Rightarrow> 0 | RecvFailed \<Rightarrow> ERRORSOCKET)"

lemma cb_InitCapacity_fresh:
  assumes "cb_maxSize c = 0" "cb_readPos c = 0" "cb_writePos c = 0" "cb_buffer c = []"
  shows "\<exists>c'. cb_InitCapacity (64 * 1024) c = Inr c' \<and> cb_inv c' \<and> cb_content c' = [] \<and> cb_WriteableSize c' = 65535
    \<and> cb_maxSize c' \<noteq> 0"
proof -
  obtain k where k: "RoundUp2Power 65536 = Some (2 ^ k)" "65536 \<le> (2::nat) ^ k" "(2::nat) ^ k < 2 * 65536"
    using RoundUp2Power_ok [of 65536] by auto
  have "(2::nat) ^ 16 \<le> 2 ^ k" "(2::nat) ^ k < 2 ^ 17" using k(2,3) by simp_all
  then have "16 \<le> k" "k < 17" by (simp_all only: power_increasing_iff power_strict_increasing_iff)
  then have "k = 16" by simp
  with k(1) have r: "RoundUp2Power 65536 = Some 65536" by simp
  let ?c = "c\<lparr>cb_maxSize := 65536, cb_buffer := resize 65536 []\<rparr>"
  have init: "cb_InitCapacity (64 * 1024) c = Inr ?c" by (simp add: cb_InitCapacity_def r assms)
  have inv: "cb_inv ?c" using assms by (auto simp: cb_inv_def intro!: exI [of _ 16])
  have "cb_content ?c = []" using assms by (simp add: cb_content_def)
  with init inv assms show ?thesis
    by (intro exI [of _ ?c]) (simp add: cb_WriteableSize_eq [OF inv] cb_ReadableSize_eq [OF inv])
qed

lemma Recv_inv:
  assumes "ss_inv s" "readv_ok r s"
  shows "\<exists>c. Recv r s = Inr (recv_result r s, s\<lparr>ss_recvBuf := c\<rparr>) \<and> cb_inv c \<and>
    cb_content c = inbox s @ received r"
proof -
  let ?c = "ss_recvBuf s"
  have c: "cb_inv ?c" "cb_Capacity ?c \<noteq> 0" using assms(1) cb_invD [of ?c] by (auto simp: ss_inv_def cb_Capacity_def)
  obtain vs where vs: "cb_GetSpace 0 ?c = Inr vs" "sum_list (map snd vs) = recv_space s"
    using cb_GetSpace_ok [OF c(1)] c(2) by (auto simp: recv_space_def cb_Capacity_def)
  have empty: "vs = [] \<longleftrightarrow> recv_space s = 0"
    using vs c(2) cb_invD [OF c(1)]
    by (cases rule: cb_GetSpace_cases [OF c(1)]) (auto simp: recv_space_def cb_Capacity_def)
  show ?thesis
  proof (cases "recv_space s = 0")
    case True
    then have "received r = []" using assms(2) by (simp add: readv_ok_def)
    with True empty vs(1) c show ?thesis
      by (intro exI [of _ ?c]) (simp add: Recv_def recv_result_def inbox_def)
  next
    case False
    show ?thesis
    proof (cases r)
      case (Received d)
      have len: "length d \<le> sum_list (map snd vs)" using assms(2) Received vs(2) by (simp add: readv_ok_def received_def)
      note rc = cb_receive [OF c(1) vs(1) len]
      have st: "cb_inv (stored ?c d)" "cb_content (stored ?c d) = inbox s @ d"
        using stored_ok [OF c(1) rc(2)] by (simp_all add: inbox_def)
      have adj: "cb_AdjustWritePtr (length d) (?c\<lparr>cb_buffer := cb_buffer (stored ?c d)\<rparr>) = stored ?c d"
        using rc(2) by (intro cb_AdjustWritePtr_stored [OF c(1)]) simp
      have nil: "?c\<lparr>cb_buffer := cb_buffer (stored ?c [])\<rparr> = stored ?c []"
        using cb_AdjustWritePtr_stored [OF c(1), of "[]"] cb_invD [OF c(1)]
        by (simp add: stored_def Let_def)
      show ?thesis
        using False empty vs(1) c(2) rc(1) st adj nil
        by (intro exI [of _ "stored ?c d"]) (auto simp: Recv_def Received recv_result_def received_def Let_def)
    next
      case RecvAgain
      with False empty vs(1) c show ?thesis
        by (intro exI [of _ ?c]) (simp add: Recv_def recv_result_def inbox_def received_def)
    next
      case RecvFailed
      with False empty vs(1) c show ?thesis
        by (intro exI [of _ ?c]) (simp add: Recv_def recv_result_def inbox_def received_def)
    qed
  qed
qed

lemma Recv_ok:
  assumes "ss_ok s" "readv_ok r s"
  shows "\<exists>c. Recv r s = Inr (recv_result r s, s\<lparr>ss_recvBuf := c\<rparr>) \<and> cb_inv c \<and>
    cb_content c = inbox s @ received r"
proof (cases "ss_fresh s")
  case True
  then obtain c' where c': "cb_InitCapacity (64 * 1024) (ss_recvBuf s) = Inr c'" "cb_inv c'" "cb_content c' = []"
    "cb_WriteableSize c' = 65535" "cb_maxSize c' \<noteq> 0"
    using cb_InitCapacity_fresh [of "ss_recvBuf s"] by (auto simp: ss_fresh_def)
  let ?s = "s\<lparr>ss_recvBuf := c'\<rparr>"
  have "ss_inv ?s" using True c'(2) by (simp add: ss_fresh_def)
  moreover have sp: "recv_space ?s = recv_space s" using True c'(4,5) by (simp add: recv_space_def ss_fresh_def)
  then have "readv_ok r ?s" "recv_result r ?s = recv_result r s" using assms(2) by (simp_all add: readv_ok_def recv_result_def)
  moreover have "inbox s = []" using True by (simp add: ss_fresh_def inbox_def cb_content_def)
  moreover have "Recv r s = Recv r ?s"
    using True c'(1,5) by (simp add: Recv_def ss_fresh_def cb_Capacity_def)
  ultimately show ?thesis using Recv_inv [of ?s r] c'(3) by auto
next
  case False
  then show ?thesis using assms Recv_inv by (simp add: ss_ok_def)
qed


section \<open>The contract of a reply queue\<close>

text \<open>
  What a command that answers a client relies on: a connection in a good state with room takes
  the bytes behind those queued, and nothing else of it changes. \<open>sends f bs\<close> says that the
  operation \<open>f\<close> queues exactly \<open>bs\<close>; such operations compose.
\<close>

locale reply_queue =
  fixes good :: "'c \<Rightarrow> bool"
    and room :: "'c \<Rightarrow> nat \<Rightarrow> bool"
    and queued :: "'c \<Rightarrow> byte list \<Rightarrow> 'c \<Rightarrow> bool"
  assumes queued_none: "good c \<Longrightarrow> queued c [] c"
    and queued_more: "\<lbrakk>queued c bs d; queued d bs' e\<rbrakk> \<Longrightarrow> queued c (bs @ bs') e"
    and queued_good: "queued c bs d \<Longrightarrow> good d"
    and queued_room: "\<lbrakk>queued c bs d; room c (length bs + n)\<rbrakk> \<Longrightarrow> room d n"
    and room_mono: "\<lbrakk>room c n; m \<le> n\<rbrakk> \<Longrightarrow> room c m"
begin

definition sends :: "('c \<Rightarrow> 'c res) \<Rightarrow> byte list \<Rightarrow> bool" where
  "sends f bs \<longleftrightarrow> (\<forall>c. good c \<longrightarrow> room c (length bs) \<longrightarrow> (\<exists>d. f c = Inr d \<and> queued c bs d))"

lemma sendsD: "\<lbrakk>sends f bs; good c; room c (length bs)\<rbrakk> \<Longrightarrow> \<exists>d. f c = Inr d \<and> queued c bs d"
  by (simp add: sends_def)

lemma sends_none: "sends Inr []"
  by (simp add: sends_def queued_none)

lemma sends_then:
  assumes "sends f bs" "sends g bs'"
  shows "sends (\<lambda>c. bindR (f c) g) (bs @ bs')"
  unfolding sends_def
proof (intro allI impI)
  fix c
  assume c: "good c" "room c (length (bs @ bs'))"
  then have "room c (length bs)" by (auto elim: room_mono)
  with assms(1) c(1) obtain d where d: "f c = Inr d" "queued c bs d" by (auto dest: sendsD)
  then have "room d (length bs')" using c(2) by (auto intro: queued_room)
  with assms(2) d(2) obtain e where "g d = Inr e" "queued d bs' e" by (auto dest: sendsD queued_good)
  with d show "\<exists>e. bindR (f c) g = Inr e \<and> queued c (bs @ bs') e" by (auto intro: queued_more)
qed

lemma sends_cong: "sends f bs \<Longrightarrow> (\<And>c. f c = g c) \<Longrightarrow> sends g bs"
  by (simp add: sends_def)

text \<open>A loop that sends one thing per element and counts the sequence number up.\<close>

lemma sends_numbered:
  fixes n :: "'n::semiring_1"
  assumes "\<And>x n. x \<in> set xs \<Longrightarrow> sends (f x n) (out x n)" "\<And>n. sends (k n) (rest n)"
  shows "sends (\<lambda>c. bindR (foldR (\<lambda>x (n, c). bindR (f x n c) (\<lambda>c. Inr (n + 1, c))) xs (n, c)) (\<lambda>(n, c). k n c))
    (snd (fold (\<lambda>x (n, bs). (n + 1, bs @ out x n)) xs (n, [])) @ rest (n + of_nat (length xs)))"
    (is "sends _ (?bs xs n)")
  using assms(1)
proof (induction xs arbitrary: n)
  case Nil
  show ?case using assms(2) by (auto intro: sends_cong)
next
  case (Cons x xs)
  have acc: "snd (fold (\<lambda>x (n, bs). (n + 1, bs @ out x n)) ys (m, bs)) =
      bs @ snd (fold (\<lambda>x (n, bs). (n + 1, bs @ out x n)) ys (m, []))" for ys m bs
  proof (induction ys arbitrary: m bs)
    case (Cons y ys)
    show ?case using Cons [of "m + 1" "bs @ out y m"] Cons [of "m + 1" "out y m"] by simp
  qed simp
  have "sends (\<lambda>c. bindR (f x n c) (\<lambda>c. bindR (foldR (\<lambda>x (n, c). bindR (f x n c) (\<lambda>c. Inr (n + 1, c))) xs (n + 1, c))
      (\<lambda>(n, c). k n c))) (out x n @ ?bs xs (n + 1))"
    using Cons by (intro sends_then) auto
  moreover have "?bs (x # xs) n = out x n @ ?bs xs (n + 1)"
    using acc [of xs "n + 1" "out x n"] by (simp add: add.assoc)
  ultimately show ?case by (auto simp: bindR_assoc intro: sends_cong)
qed

end

text \<open>The connection provides it.\<close>

definition ss_room :: "'a StreamSocket_scheme \<Rightarrow> nat \<Rightarrow> bool" where
  "ss_room s n \<longleftrightarrow> length (outbox s) + n \<le> MAX_BUFFER_SIZE"

definition ss_queued :: "'a StreamSocket_scheme \<Rightarrow> byte list \<Rightarrow> 'a StreamSocket_scheme \<Rightarrow> bool" where
  "ss_queued s bs s' \<longleftrightarrow> ss_inv s' \<and> outbox s' = outbox s @ bs \<and> (\<exists>a. s' = s\<lparr>ss_sendBuf := a\<rparr>)"

interpretation replies: reply_queue ss_inv ss_room ss_queued
proof
  fix c d e :: "'a StreamSocket_scheme" and bs bs' :: "byte list" and n m :: nat
  show "ss_inv c \<Longrightarrow> ss_queued c [] c"
    by (auto simp: ss_queued_def intro: exI [of _ "ss_sendBuf c"])
  show "ss_queued c bs d \<Longrightarrow> ss_queued d bs' e \<Longrightarrow> ss_queued c (bs @ bs') e"
    by (auto simp: ss_queued_def)
  show "ss_queued c bs d \<Longrightarrow> ss_inv d" by (simp add: ss_queued_def)
  show "ss_queued c bs d \<Longrightarrow> ss_room c (length bs + n) \<Longrightarrow> ss_room d n"
    by (auto simp: ss_queued_def ss_room_def)
  show "ss_room c n \<Longrightarrow> m \<le> n \<Longrightarrow> ss_room c m" by (simp add: ss_room_def)
qed

lemma sends_packet: "replies.sends (SendPacket data) data"
  unfolding replies.sends_def ss_room_def ss_queued_def
  using SendPacket_ok by (fastforce simp: ss_inv_def)

lemma sends_packet_ub:
  assumes "ub_inv b" "ub_content b = bs"
  shows "replies.sends (SendPacket_ub b) bs"
  using ub_block_ok [OF assms(1)] assms(2)
  by (intro replies.sends_cong [OF sends_packet [of bs]]) (simp add: SendPacket_ub_def)

lemma ss_queued_frame:
  assumes "ss_queued s bs s'"
  shows "inbox s' = inbox s" "ss_recvBuf s' = ss_recvBuf s" "so_epollOut s' = so_epollOut s" "so_invalid s' = so_invalid s"
  using assms by (auto simp: ss_queued_def)


section \<open>A connection to apply the results to\<close>

definition small_ring :: CircularBuffer where
  "small_ring = \<lparr>cb_maxSize = 4, cb_readPos = 0, cb_writePos = 0, cb_buffer = [0, 0, 0, 0]\<rparr>"

definition sample_socket :: StreamSocket where
  "sample_socket = \<lparr>so_localSock = 5, so_epollOut = False, so_invalid = False, so_id = 1,
     ss_peerAddr = SocketAddr_Clear, ss_recvBuf = small_ring,
     ss_sendBuf = \<lparr>ab_buffer = small_ring, ab_tmpBuf = UnboundedBuffer_new, ab_backBytes = 0, ab_backBuf = UnboundedBuffer_new\<rparr>\<rparr>"

lemma small_ring: "cb_inv small_ring" "cb_content small_ring = []"
  by (auto simp: small_ring_def cb_inv_def cb_content_def intro!: exI [of _ 2])

lemma sample_socket: "ss_inv sample_socket" "outbox sample_socket = []" "inbox sample_socket = []"
  by (simp_all add: sample_socket_def ss_inv_def outbox_def inbox_def ab_inv_def ab_content_def small_ring)

end
