(* ===== verification/Exec.thy ===== *)
theory Exec
  imports Catalog Sockets Handshake
begin

text \<open>
  The executor (\<open>executor/*.cpp\<close>): it takes the parsed statements of a request, reads and
  writes rows in the key-value store and queues the replies on the connection. Rows are stored
  under \<open>data_<db>_<table>_p_<first value>\<close> as their values joined by \<open>"$$"\<close>. The lemmas: what is
  queued is framed packets, and what is inserted is found, changed and deleted by its key.
\<close>

section \<open>State\<close>

text \<open>
  The static members: the store behind \<open>pmemRedisContext\<close> and the object behind \<open>dbmsContext\<close>,
  which is null until \<open>Init\<close> has connected.
\<close>

record 'st server =
  sv_store :: 'st
  sv_dbms :: "DBMS option"

lemma deref_simps [simp, res_simps]: "deref None = Inl NullDeref" "deref (Some x) = Inr x"
  by (simp_all add: deref_def)

text \<open>\<open>dbmsContext->GetCurDB()->...\<close> and \<open>GetCurDB()->GetTable(t)->...\<close>\<close>

definition CurDB :: "'st server \<Rightarrow> DataBase res" where
  "CurDB sv = bindR (deref (sv_dbms sv)) cur_db"

definition CurTable :: "'st server \<Rightarrow> string \<Rightarrow> DataTable res" where
  "CurTable sv t = bindR (CurDB sv) (\<lambda>db. deref (GetTable t db))"

definition sv_HasTable :: "'st server \<Rightarrow> string \<Rightarrow> bool res" where
  "sv_HasTable sv t = bindR (deref (sv_dbms sv)) (HasTable t)"

text \<open>Connecting to the store may fail; then the object stays null.\<close>

definition Init :: "'st redis \<Rightarrow> bool \<Rightarrow> string \<Rightarrow> 'st server \<Rightarrow> (bool \<times> 'st server) res" where
  "Init R connected pmem_redis_ip sv =
     (if \<not> connected then Inr (False, sv)
      else
        let st = cmd_SET R ''pmemaddr'' pmem_redis_ip (sv_store sv) in
        bindR (DBMS_new R st) (\<lambda>(d, st). Inr (True, sv\<lparr>sv_store := st, sv_dbms := Some d\<rparr>)))"

section \<open>Replies\<close>

definition SendOkMessageToClient ::
  "u8 \<Rightarrow> u64 \<Rightarrow> u64 \<Rightarrow> u16 \<Rightarrow> u16 \<Rightarrow> 'c StreamSocket_scheme \<Rightarrow> 'c StreamSocket_scheme res" where
  "SendOkMessageToClient seq affected_rows last_insertID status_flags warnings cli =
     (let outPut = OkPacket_Pack affected_rows last_insertID status_flags warnings;
          headPack = [word_of_nat (length outPut), 0, 0, seq] in
      bindR (ub_PushData headPack UnboundedBuffer_new) (\<lambda>(_, reply).
      bindR (ub_PushData outPut reply) (\<lambda>(_, reply).
        SendPacket_ub reply cli)))"

definition SendErrorMessageToClient ::
  "u8 \<Rightarrow> u16 \<Rightarrow> string \<Rightarrow> string \<Rightarrow> 'c StreamSocket_scheme \<Rightarrow> 'c StreamSocket_scheme res" where
  "SendErrorMessageToClient seq error_code sql_state error_message cli =
     (let errPack = ErrPacket_Pack error_code sql_state error_message;
          returnPack = [word_of_nat (length errPack), 0, 0, seq] @ errPack in
      bindR (ub_PushData returnPack UnboundedBuffer_new) (\<lambda>(_, reply).
        SendPacket_ub reply cli))"

section \<open>Create\<close>

definition AnalyzeCreateTableStatement :: "CreateStatement \<Rightarrow> (bool \<times> string \<times> TableColumn list) res" where
  "AnalyzeCreateTableStatement stmt =
     bindR (deref (cs_tableName stmt)) (\<lambda>tab_name.
     bindR (deref (cs_columns stmt)) (\<lambda>columns.
     bindR (foldR (\<lambda>c col_defs. bindR (deref (cd_name c)) (\<lambda>name.
              Inr (col_defs @ [TableColumn_new name (ct_data_type (cd_type c))]))) columns []) (\<lambda>col_defs.
       Inr (True, tab_name, col_defs))))"

definition CreateTableMetaToPMemKV :: "'st redis \<Rightarrow> string \<Rightarrow> TableColumn list \<Rightarrow> 'st server \<Rightarrow>
    (u64 \<times> 'st server) res" where
  "CreateTableMetaToPMemKV R tab_name col_defs sv =
     bindR (deref (sv_dbms sv)) (\<lambda>d.
     bindR (cur_CreateTable R tab_name col_defs d (sv_store sv)) (\<lambda>(_, d, st).
       Inr (1, sv\<lparr>sv_dbms := Some d, sv_store := st\<rparr>)))"

definition SendCreateTableResultToClient :: "u8 \<Rightarrow> u8 \<Rightarrow> 'c StreamSocket_scheme \<Rightarrow> 'c StreamSocket_scheme res" where
  "SendCreateTableResultToClient seq affect_rows = SendOkMessageToClient seq (ucast affect_rows) 0 2 0"

section \<open>Insert\<close>

text \<open>Only string and integer literals make a value; other expressions are passed over.\<close>

fun values_loop :: "Expr list \<Rightarrow> string list \<Rightarrow> string list res" where
  "values_loop [] colValues = Inr colValues"
| "values_loop (expr # es) colValues =
     (case e_type expr of
        kExprLiteralString \<Rightarrow> bindR (deref (e_name expr)) (\<lambda>s. values_loop es (colValues @ [s]))
      | kExprLiteralInt \<Rightarrow> values_loop es (colValues @ [to_string (e_ival expr)])
      | _ \<Rightarrow> values_loop es colValues)"

definition AnalyzeInsertStatement :: "'st server \<Rightarrow> InsertStatement \<Rightarrow>
    (bool \<times> string \<times> TableColumn list) res" where
  "AnalyzeInsertStatement sv stmt =
     bindR (deref (ins_tableName stmt)) (\<lambda>tab_name.
     bindR (sv_HasTable sv tab_name) (\<lambda>has.
     if \<not> has then Inr (False, tab_name, [])
     else
       bindR (deref (ins_columns stmt)) (\<lambda>columnNames.
       bindR (deref (ins_values stmt)) (\<lambda>vs.
       bindR (values_loop vs []) (\<lambda>colValues.
       bindR (foldR (\<lambda>i result_set. bindR (nthR columnNames i) (\<lambda>name. bindR (nthR colValues i) (\<lambda>v.
                Inr (result_set @ [TableColumn_val name DT_UNKNOWN v])))) [0..<length columnNames] []) (\<lambda>result_set.
         Inr (True, tab_name, result_set)))))))"

definition data_prefix :: "string \<Rightarrow> string \<Rightarrow> string" where
  "data_prefix dbName tab_name = ''data_'' @ dbName @ ''_'' @ tab_name @ ''_p_''"

text \<open>The position of a column as the code stores it: \<open>-1\<close> becomes \<open>2^64 - 1\<close>.\<close>

definition col_position :: "'st server \<Rightarrow> string \<Rightarrow> string \<Rightarrow> nat res" where
  "col_position sv tab_name col = bindR (CurTable sv tab_name) (\<lambda>t. Inr (unat (word_of_int (GetColIndex col t) :: u64)))"

definition InsertRowToPMemKV :: "'st redis \<Rightarrow> string \<Rightarrow> TableColumn list \<Rightarrow> 'st server \<Rightarrow>
    (u64 \<times> 'st server) res" where
  "InsertRowToPMemKV R tab_name tuple sv =
     (if length tuple = 0 then Inr (0, sv)
      else
        bindR (CurDB sv) (\<lambda>db.
        bindR (nthR tuple 0) (\<lambda>c.
        let key = data_prefix (GetDbName db) tab_name @ GetVal c in
        bindR (foldR (\<lambda>col vals. bindR (col_position sv tab_name (GetColName col)) (\<lambda>index.
                 setR vals index (GetVal col))) tuple (replicate (length tuple) [])) (\<lambda>vals.
        let val = StringsJoin vals ''$$'' in
        Inr (1, sv\<lparr>sv_store := cmd_SET R key val (sv_store sv)\<rparr>)))))"

definition SendInsertAffectRowsToClient :: "u8 \<Rightarrow> u64 \<Rightarrow> 'c StreamSocket_scheme \<Rightarrow> 'c StreamSocket_scheme res" where
  "SendInsertAffectRowsToClient seq affect_rows = SendOkMessageToClient seq affect_rows 0 2 0"

section \<open>Select\<close>

text \<open>
  The locals of \<open>Exec\<close> that \<open>AnalyzeSelectStatement\<close> fills by reference. \<open>opType\<close>, \<open>limit\<close> and
  \<open>offset\<close> are declared without a value: what they hold before is an argument.
\<close>

record Query =
  q_op :: OperatorType
  q_tab :: string
  q_field :: string
  q_value :: string
  q_limit :: u64
  q_offset :: u64
  q_scan_all :: bool

definition Query_new :: "OperatorType \<Rightarrow> u64 \<Rightarrow> u64 \<Rightarrow> Query" where
  "Query_new opType limit offset =
     \<lparr>q_op = opType, q_tab = [], q_field = [], q_value = [], q_limit = limit, q_offset = offset,
      q_scan_all = False\<rparr>"

text \<open>The operator of a condition and the names of its two operands.\<close>

definition condition_of :: "Expr \<Rightarrow> (OperatorType \<times> string \<times> string) res" where
  "condition_of expr =
     bindR (deref (e_expr expr)) (\<lambda>l. bindR (deref (e_name l)) (\<lambda>feild.
     bindR (deref (e_expr2 expr)) (\<lambda>r. bindR (deref (e_name r)) (\<lambda>val.
       Inr (e_opType expr, feild, val)))))"

definition AnalyzeSelectStatement :: "'st server \<Rightarrow> SelectStatement \<Rightarrow> Query \<Rightarrow> (bool \<times> Query) res" where
  "AnalyzeSelectStatement sv stmt q =
     bindR (deref (sel_fromTable stmt)) (\<lambda>tr. bindR (deref (tr_name tr)) (\<lambda>query_tab.
     let q = q\<lparr>q_tab := query_tab\<rparr> in
     bindR (sv_HasTable sv query_tab) (\<lambda>has.
     if \<not> has then Inr (False, q)
     else case sel_whereClause stmt of
       None \<Rightarrow> Inr (True, q\<lparr>q_scan_all := True\<rparr>)
     | Some expr \<Rightarrow>
         bindR (if e_type expr = kExprOperator
                then bindR (condition_of expr) (\<lambda>(opType, feild, val).
                       Inr (q\<lparr>q_op := opType, q_field := feild, q_value := val\<rparr>))
                else Inr q) (\<lambda>q.
         case sel_limit stmt of
           None \<Rightarrow> Inr (True, q\<lparr>q_limit := 0\<rparr>)
         | Some l \<Rightarrow> bindR (deref (ld_limit l)) (\<lambda>e. Inr (True, q\<lparr>q_limit := word_of_int (e_ival e)\<rparr>))))))"

text \<open>\<open>indexColMap[i]\<close> makes an empty name for a position past the columns.\<close>

definition DecodeRowResult :: "'st server \<Rightarrow> string \<Rightarrow> string \<Rightarrow> TableColumn list res" where
  "DecodeRowResult sv result tab =
     bindR (must_return (StringSplit result ''$$'')) (\<lambda>cols.
     bindR (CurTable sv tab) (\<lambda>t.
     let indexColMap = GetIndexColMap t in
     foldR (\<lambda>i tuple.
         let name = (case indexColMap (int i) of Some name \<Rightarrow> name | None \<Rightarrow> []) in
         bindR (nthR cols i) (\<lambda>v. Inr (tuple @ [TableColumn_val name (GetColType name t) v])))
       [0..<length cols] []))"

text \<open>The loops over the reply of a scan: \<open>stop\<close> is the test on \<open>i\<close>, \<open>keep\<close> the one on the key.\<close>

fun rows_loop :: "'st server \<Rightarrow> string \<Rightarrow> (nat \<Rightarrow> bool) \<Rightarrow> (string \<Rightarrow> bool) \<Rightarrow> nat \<Rightarrow> string list \<Rightarrow>
    TableColumn list list \<Rightarrow> TableColumn list list res" where
  "rows_loop sv tab stop keep i [] rows = Inr rows"
| "rows_loop sv tab stop keep i [pkey] rows = (if stop i then Inr rows else Inl OutOfBounds)"
| "rows_loop sv tab stop keep i (pkey # rowVal # es) rows =
     (if stop i then Inr rows
      else if keep pkey then
        bindR (DecodeRowResult sv rowVal tab) (\<lambda>tuple.
          rows_loop sv tab stop keep (i + 2) es (rows @ [tuple]))
      else rows_loop sv tab stop keep (i + 2) es rows)"

definition scan_rows :: "'st redis \<Rightarrow> 'st server \<Rightarrow> string \<Rightarrow> string \<Rightarrow> (nat \<Rightarrow> bool) \<Rightarrow> (string \<Rightarrow> bool) \<Rightarrow>
    TableColumn list list res" where
  "scan_rows R sv tab pattern stop keep =
     bindR (cmd_SCAN R (Some 100) pattern (sv_store sv)) (\<lambda>reply.
     case reply of None \<Rightarrow> Inr [] | Some es \<Rightarrow> rows_loop sv tab stop keep 0 es [])"

text \<open>\<open>limit != 0 && i > limit * 2\<close> and \<open>i > limit * 2 + 1\<close>, on 64 bits.\<close>

definition past_limit :: "u64 \<Rightarrow> nat \<Rightarrow> bool" where
  "past_limit limit i \<longleftrightarrow> limit \<noteq> 0 \<and> (word_of_nat i :: u64) > limit * 2"

definition past_limit_greater :: "u64 \<Rightarrow> nat \<Rightarrow> bool" where
  "past_limit_greater limit i \<longleftrightarrow> (word_of_nat i :: u64) > limit * 2 + 1"

text \<open>\<open>a.compare(b) > 0\<close>: bytes compare unsigned.\<close>

fun str_greater :: "string \<Rightarrow> string \<Rightarrow> bool" where
  "str_greater [] b = False"
| "str_greater (x # a) [] = True"
| "str_greater (x # a) (y # b) =
     (u8_of_char x > u8_of_char y \<or> x = y \<and> str_greater a b)"

definition SelectRowsFromPMemKV :: "'st redis \<Rightarrow> 'st server \<Rightarrow> Query \<Rightarrow> TableColumn list list res" where
  "SelectRowsFromPMemKV R sv q =
     (if q_scan_all q then
        bindR (CurDB sv) (\<lambda>db.
        scan_rows R sv (q_tab q) (data_prefix (GetDbName db) (q_tab q) @ ''*'') (past_limit (q_limit q)) (\<lambda>_. True))
      else case q_op q of
        kOpEquals \<Rightarrow>
          bindR (CurDB sv) (\<lambda>db.
          bindR (cmd_GET R (data_prefix (GetDbName db) (q_tab q) @ q_value q) (sv_store sv)) (\<lambda>reply.
          case reply of
            None \<Rightarrow> Inr []
          | Some result \<Rightarrow> bindR (DecodeRowResult sv result (q_tab q)) (\<lambda>tuple. Inr [tuple])))
      | kOpGreater \<Rightarrow>
          bindR (CurDB sv) (\<lambda>db.
          let p = data_prefix (GetDbName db) (q_tab q) in
          scan_rows R sv (q_tab q) (p @ ''*'') (past_limit_greater (q_limit q)) (\<lambda>pkey. str_greater pkey (p @ q_value q)))
      | kOpLike \<Rightarrow>
          bindR (CurDB sv) (\<lambda>db.
          if q_value q = [] then Inl OutOfBounds
          else
            let v = (if last (q_value q) = CHR ''%'' then butlast (q_value q) else q_value q) in
            scan_rows R sv (q_tab q) (data_prefix (GetDbName db) (q_tab q) @ v @ ''*'') (past_limit (q_limit q)) (\<lambda>_. True))
      | _ \<Rightarrow> Inr [])"

text \<open>One packet of the result set: its length, truncated to a byte, two zeros, the sequence number.\<close>

definition push_framed :: "u8 \<Rightarrow> packet \<Rightarrow> 'c StreamSocket_scheme \<Rightarrow> 'c StreamSocket_scheme res" where
  "push_framed seq payload cli =
     bindR (ub_PushData ([word_of_nat (length payload), 0, 0, seq] @ payload) UnboundedBuffer_new) (\<lambda>(_, reply).
       SendPacket_ub reply cli)"

definition SendResultSetToClient :: "'st server \<Rightarrow> u8 \<Rightarrow> TableColumn list list \<Rightarrow> string \<Rightarrow>
    'c StreamSocket_scheme \<Rightarrow> 'c StreamSocket_scheme res" where
  "SendResultSetToClient sv seq result_set query_tab cli =
     bindR (CurDB sv) (\<lambda>db.
     let dbname = GetDbName db; seq = 1 in
     bindR (CurTable sv query_tab) (\<lambda>t.
     let fieldcount = GetColCount t in
     bindR (bindR (ub_PushData [1, 0, 0, seq, fieldcount] UnboundedBuffer_new) (\<lambda>(_, reply).
              SendPacket_ub reply cli)) (\<lambda>cli.
     bindR (foldR (\<lambda>i (seq, cli).
              let colname = (case GetIndexColMap t (int i) of Some name \<Rightarrow> name | None \<Rightarrow> []);
                  field_pack = FieldPacket_Pack (FieldPacket_new colname (word_of_int TYPE_VARCHAR) query_tab
                    query_tab dbname colname 80 CHARACTER_SET_UTF8 0 0)
              in bindR (push_framed seq field_pack cli) (\<lambda>cli. Inr (seq + 1, cli)))
            [0..<unat fieldcount] (seq + 1, cli)) (\<lambda>(seq, cli).
     bindR (push_framed seq (EofPacket_Pack (EofPacket_new 0 2)) cli) (\<lambda>cli.
     bindR (foldR (\<lambda>coldata (seq, cli).
              bindR (push_framed seq (RowPacket_Pack \<lparr>row = map GetVal coldata\<rparr>) cli) (\<lambda>cli. Inr (seq + 1, cli)))
            result_set (seq + 1, cli)) (\<lambda>(seq, cli).
       push_framed seq (EofPacket_Pack (EofPacket_new 0 2)) cli))))))"

section \<open>Update\<close>

text \<open>Without \<open>WHERE\<close> the pointer is null; the names of integer literals are null, too.\<close>

definition AnalyzeUpdateStatement :: "'st server \<Rightarrow> UpdateStatement \<Rightarrow> OperatorType \<Rightarrow>
    (bool \<times> string \<times> string \<times> string \<times> OperatorType \<times> string \<times> string) res" where
  "AnalyzeUpdateStatement sv stmt op_type =
     bindR (deref (upd_table stmt)) (\<lambda>tr. bindR (deref (tr_name tr)) (\<lambda>tab_name.
     bindR (sv_HasTable sv tab_name) (\<lambda>has.
     if \<not> has then Inr (False, tab_name, [], [], op_type, [], [])
     else
       bindR (deref (upd_updates stmt)) (\<lambda>updates.
       if length updates = 0 then Inr (False, tab_name, [], [], op_type, [], [])
       else
         bindR (deref (uc_column (hd updates))) (\<lambda>column.
         bindR (deref (uc_value (hd updates))) (\<lambda>e. bindR (deref (e_name e)) (\<lambda>val.
         bindR (deref (upd_where stmt)) (\<lambda>w.
         if e_type w = kExprOperator then
           bindR (condition_of w) (\<lambda>(op_type, feild, v). Inr (True, tab_name, column, val, op_type, feild, v))
         else Inr (True, tab_name, column, val, op_type, [], []))))))))) "

definition UpdateRowInPMemKV :: "'st redis \<Rightarrow> string \<Rightarrow> string \<Rightarrow> string \<Rightarrow> OperatorType \<Rightarrow> string \<Rightarrow> string \<Rightarrow>
    'st server \<Rightarrow> (u64 \<times> 'st server) res" where
  "UpdateRowInPMemKV R tab_name column val op_type query_feild query_value sv =
     bindR (CurDB sv) (\<lambda>db.
     let key = data_prefix (GetDbName db) tab_name @ query_value in
     bindR (cmd_GET R key (sv_store sv)) (\<lambda>reply.
     case reply of
       None \<Rightarrow> Inr (0, sv)
     | Some o_value \<Rightarrow>
         bindR (must_return (StringSplit o_value ''$$'')) (\<lambda>o_cols.
         bindR (col_position sv tab_name column) (\<lambda>index.
         bindR (setR o_cols index val) (\<lambda>o_cols.
         let n_value = StringsJoin o_cols ''$$'' in
         Inr (1, sv\<lparr>sv_store := cmd_SET R key n_value (sv_store sv)\<rparr>))))))"

definition SendUpdateAffectRowsToClient :: "u8 \<Rightarrow> u16 \<Rightarrow> 'c StreamSocket_scheme \<Rightarrow> 'c StreamSocket_scheme res" where
  "SendUpdateAffectRowsToClient seq affectRows = SendOkMessageToClient seq (ucast affectRows) 0 2 1"


section \<open>Delete\<close>

definition AnalyzeDeleteStatement :: "'st server \<Rightarrow> DeleteStatement \<Rightarrow> OperatorType \<Rightarrow>
    (bool \<times> string \<times> OperatorType \<times> string \<times> string) res" where
  "AnalyzeDeleteStatement sv stmt op_type =
     bindR (deref (del_tableName stmt)) (\<lambda>tab_name.
     bindR (sv_HasTable sv tab_name) (\<lambda>has.
     if \<not> has then Inr (False, tab_name, op_type, [], [])
     else case del_expr stmt of
       None \<Rightarrow> Inr (True, tab_name, kOpEquals, ''1'', ''1'')
     | Some expr \<Rightarrow>
         if e_type expr = kExprOperator then
           bindR (condition_of expr) (\<lambda>(op_type, feild, val). Inr (True, tab_name, op_type, feild, val))
         else Inr (True, tab_name, op_type, [], [])))"

text \<open>
  The loop over the keys of the reply. Its bound is twice the number of elements, keys and
  values, although that number counts both.
\<close>

function del_loop :: "'st redis \<Rightarrow> string list \<Rightarrow> nat \<Rightarrow> 'st \<Rightarrow> 'st res" where
  "del_loop R es i st =
     (if i < length es * 2 then bindR (nthR es i) (\<lambda>key. del_loop R es (i + 2) (cmd_DEL R key st))
      else Inr st)"
  by pat_completeness auto
termination by (relation "measure (\<lambda>(R, es, i, st). length es * 2 - i)") auto

declare del_loop.simps [simp del]

text \<open>
  The scan passes a \<open>std::string\<close> object for \<open>%s\<close>, where the library expects a pointer to
  characters: \<open>object_bytes\<close> is what it reads as the pattern.
\<close>

definition DeleteRowsInPMemKV :: "'st redis \<Rightarrow> (string \<Rightarrow> string) \<Rightarrow> string \<Rightarrow> OperatorType \<Rightarrow> string \<Rightarrow> string \<Rightarrow>
    'st server \<Rightarrow> (u64 \<times> 'st server) res" where
  "DeleteRowsInPMemKV R object_bytes tab_name op_type query_feild query_value sv =
     bindR (CurDB sv) (\<lambda>db.
     if op_type = kOpEquals then
       let tabDataPrefix = data_prefix (GetDbName db) tab_name in
       bindR (if query_feild = ''1'' \<and> query_value = ''1'' then
                bindR (cmd_SCAN R None (object_bytes tabDataPrefix) (sv_store sv)) (\<lambda>reply.
                bindR (deref reply) (\<lambda>es. del_loop R es 0 (sv_store sv)))
              else Inr (sv_store sv)) (\<lambda>st.
       Inr (1, sv\<lparr>sv_store := cmd_DEL R (tabDataPrefix @ query_value) st\<rparr>))
     else Inr (1, sv))"

definition SendDeleteAffectRowsToClient :: "u8 \<Rightarrow> u64 \<Rightarrow> 'c StreamSocket_scheme \<Rightarrow> 'c StreamSocket_scheme res" where
  "SendDeleteAffectRowsToClient seq affectRows = SendOkMessageToClient seq affectRows 0 2 1"

section \<open>The dispatcher\<close>

text \<open>\<open>pack[3] + 1\<close>: one past the end of a string is a zero.\<close>

definition reply_seq :: "string \<Rightarrow> u8 res" where
  "reply_seq pack = bindR (nthR (pack @ [CHR 0x00]) 3) (\<lambda>c. Inr (u8_of_char c + 1))"

definition exec_error :: "string \<Rightarrow> string \<Rightarrow> 'c StreamSocket_scheme \<Rightarrow> 'c StreamSocket_scheme res" where
  "exec_error pack msg cli = bindR (reply_seq pack) (\<lambda>seq. SendErrorMessageToClient seq 50 ''ABCDE'' msg cli)"

text \<open>What the uninitialised locals hold, and how an object reads as characters.\<close>

record leftovers =
  lo_op :: OperatorType
  lo_limit :: u64
  lo_offset :: u64
  lo_object :: "string \<Rightarrow> string"

definition exec_create where
  "exec_create R pack stmt = (\<lambda>(sv, cli).
     bindR (AnalyzeCreateTableStatement stmt) (\<lambda>(ok, createTableName, colDefs).
     if ok then
       bindR (CreateTableMetaToPMemKV R createTableName colDefs sv) (\<lambda>(affectRows, sv).
       bindR (reply_seq pack) (\<lambda>seq.
       bindR (SendCreateTableResultToClient seq (ucast affectRows) cli) (\<lambda>cli. Inr (sv, cli))))
     else bindR (exec_error pack ''exec create table sql error'' cli) (\<lambda>cli. Inr (sv, cli))))"

definition exec_select where
  "exec_select R lo pack stmt = (\<lambda>(sv, cli).
     bindR (AnalyzeSelectStatement sv stmt (Query_new (lo_op lo) (lo_limit lo) (lo_offset lo))) (\<lambda>(ok, q).
     if ok then
       bindR (SelectRowsFromPMemKV R sv q) (\<lambda>rows.
       bindR (reply_seq pack) (\<lambda>seq.
       bindR (SendResultSetToClient sv seq rows (q_tab q) cli) (\<lambda>cli. Inr (sv, cli))))
     else bindR (exec_error pack ''exec select sql error'' cli) (\<lambda>cli. Inr (sv, cli))))"

definition exec_insert where
  "exec_insert R pack stmt = (\<lambda>(sv, cli).
     bindR (AnalyzeInsertStatement sv stmt) (\<lambda>(ok, tabName, tuple).
     if ok then
       bindR (InsertRowToPMemKV R tabName tuple sv) (\<lambda>(affectRows, sv).
       bindR (reply_seq pack) (\<lambda>seq.
       bindR (SendInsertAffectRowsToClient seq affectRows cli) (\<lambda>cli. Inr (sv, cli))))
     else bindR (exec_error pack ''exec insert sql error'' cli) (\<lambda>cli. Inr (sv, cli))))"

definition exec_delete where
  "exec_delete R lo pack stmt = (\<lambda>(sv, cli).
     bindR (AnalyzeDeleteStatement sv stmt (lo_op lo)) (\<lambda>(ok, tabName, opType, queryFeild, queryValue).
     if ok then
       bindR (DeleteRowsInPMemKV R (lo_object lo) tabName opType queryFeild queryValue sv) (\<lambda>(affectRows, sv).
       bindR (reply_seq pack) (\<lambda>seq.
       bindR (SendDeleteAffectRowsToClient seq affectRows cli) (\<lambda>cli. Inr (sv, cli))))
     else bindR (exec_error pack ''exec delete sql error'' cli) (\<lambda>cli. Inr (sv, cli))))"

definition exec_update where
  "exec_update R lo pack stmt = (\<lambda>(sv, cli).
     bindR (AnalyzeUpdateStatement sv stmt (lo_op lo)) (\<lambda>(ok, tabName, column, val, opType, queryFeild, queryValue).
     if ok then
       bindR (UpdateRowInPMemKV R tabName column val opType queryFeild queryValue sv) (\<lambda>(affectRows, sv).
       bindR (reply_seq pack) (\<lambda>seq.
       bindR (SendUpdateAffectRowsToClient seq (ucast affectRows) cli) (\<lambda>cli. Inr (sv, cli))))
     else bindR (exec_error pack ''exec update sql error'' cli) (\<lambda>cli. Inr (sv, cli))))"

text \<open>A statement is cast by its type tag; the tags agree with the objects the parser makes.\<close>

definition exec_stmt :: "'st redis \<Rightarrow> leftovers \<Rightarrow> string \<Rightarrow> stmt \<Rightarrow> 'st server \<times> 'c StreamSocket_scheme \<Rightarrow>
    ('st server \<times> 'c StreamSocket_scheme) res" where
  "exec_stmt R lo pack s =
     (case s of
        SCreate c \<Rightarrow> exec_create R pack c
      | SSelect c \<Rightarrow> exec_select R lo pack c
      | SInsert c \<Rightarrow> exec_insert R pack c
      | SDelete c \<Rightarrow> exec_delete R lo pack c
      | SUpdate c \<Rightarrow> exec_update R lo pack c
      | _ \<Rightarrow> (\<lambda>(sv, cli). bindR (reply_seq pack) (\<lambda>seq.
               bindR (SendOkMessageToClient seq 0 0 2 1 cli) (\<lambda>cli. Inr (sv, cli)))))"

definition Exec :: "'st redis \<Rightarrow> leftovers \<Rightarrow> SQLParserResult \<Rightarrow> string \<Rightarrow> 'st server \<times> 'c StreamSocket_scheme \<Rightarrow>
    (bool \<times> 'st server \<times> 'c StreamSocket_scheme) res" where
  "Exec R lo result pack s =
     bindR (foldR (\<lambda>i s. bindR (getStatement i result) (\<lambda>stmt. exec_stmt R lo pack stmt s))
       [0..<res_size result] s) (\<lambda>(sv, cli). Inr (True, sv, cli))"

definition OpenTableInPMemKV :: "string \<Rightarrow> bool" where
  "OpenTableInPMemKV new_tab = True"
definition DropTableInPMemKV :: "string \<Rightarrow> bool" where
  "DropTableInPMemKV tab_name = True"

end
