(* ===== verification/Rows.thy ===== *)
theory Rows
  imports Exec
begin

text \<open>
  The rows of a table as a map from keys to values, read off the store, and the four statements
  as operations on that map: insertion adds an entry, update changes one value of an entry,
  deletion removes an entry, selection by key looks one up; the rows of other tables stay.
\<close>

section \<open>The abstract table\<close>

definition table_rows :: "('st \<Rightarrow> string \<rightharpoonup> string) \<Rightarrow> string \<Rightarrow> string \<Rightarrow> 'st \<Rightarrow> string \<rightharpoonup> string list" where
  "table_rows view dbname tab st k =
     (case view st (data_prefix dbname tab @ k) of None \<Rightarrow> None | Some v \<Rightarrow> StringSplit v ''$$'')"

text \<open>The server has a current database of that name, and in it a table with these columns.\<close>

definition serving :: "'st server \<Rightarrow> string \<Rightarrow> string \<Rightarrow> TableColumn list \<Rightarrow> bool" where
  "serving sv dbname tab cols \<longleftrightarrow>
     (\<exists>db. CurDB sv = Inr db \<and> GetDbName db = dbname) \<and> CurTable sv tab = Inr (DataTable_new tab cols) \<and>
     ident dbname \<and> ident tab \<and> distinct (map GetColName cols) \<and> length cols < 2 ^ 63"

text \<open>Values that a stored row can carry: no zero and no dollar in them, no blank ends, the last not empty.\<close>

definition plain :: "string \<Rightarrow> bool" where
  "plain s \<longleftrightarrow> CHR 0x00 \<notin> set s"

definition row_ok :: "string list \<Rightarrow> bool" where
  "row_ok vals \<longleftrightarrow> splittable ''$$'' vals \<and> list_all plain vals \<and> length (StringsJoin vals ''$$'') < 2 ^ 64"

lemma delimiter_dollars: "delimiter_ok ''$$''"
  by (simp add: delimiter_ok_def blank_def char_value_def)

lemma row_ok_split: "row_ok vals \<Longrightarrow> StringSplit (StringsJoin vals ''$$'') ''$$'' = Some vals"
  by (simp add: row_ok_def StringSplit_StringsJoin delimiter_dollars)

lemma plain_join: "list_all plain vals \<Longrightarrow> CHR 0x00 \<notin> set (StringsJoin vals ''$$'')"
proof (induction vals)
  case (Cons v vs)
  then show ?case by (cases vs) (auto simp: plain_def)
qed simp

lemma row_ok_c_str: "row_ok vals \<Longrightarrow> c_str (StringsJoin vals ''$$'') = StringsJoin vals ''$$''"
  by (simp add: row_ok_def plain_join c_str_id)

lemma key_c_str: "ident dbname \<Longrightarrow> ident tab \<Longrightarrow> plain k \<Longrightarrow>
    c_str (data_prefix dbname tab @ k) = data_prefix dbname tab @ k"
  by (intro c_str_id) (auto simp: data_prefix_def ident_def plain_def)

text \<open>Keys of different tables never meet, because names carry no underscore.\<close>

lemma segment_inj:
  assumes "CHR ''_'' \<notin> set a" "CHR ''_'' \<notin> set b" "a @ CHR ''_'' # x = b @ CHR ''_'' # y"
  shows "a = b \<and> x = y"
proof -
  have seg: "takeWhile (\<lambda>c. c \<noteq> CHR ''_'') (s @ CHR ''_'' # z) = s" if "CHR ''_'' \<notin> set s" for s z
    using that by (induction s) auto
  have "a = takeWhile (\<lambda>c. c \<noteq> CHR ''_'') (a @ CHR ''_'' # x)" using seg [OF assms(1)] by (rule sym)
  also have "\<dots> = takeWhile (\<lambda>c. c \<noteq> CHR ''_'') (b @ CHR ''_'' # y)" by (simp only: assms(3))
  also have "\<dots> = b" using seg [OF assms(2)] .
  finally show ?thesis using assms(3) by simp
qed

lemma data_key_inj:
  assumes "ident d" "ident t" "ident d'" "ident t'" "data_prefix d t @ k = data_prefix d' t' @ k'"
  shows "d = d' \<and> t = t' \<and> k = k'"
proof -
  have "d @ CHR ''_'' # (t @ CHR ''_'' # (''p_'' @ k)) = d' @ CHR ''_'' # (t' @ CHR ''_'' # (''p_'' @ k'))"
    using assms(5) by (simp add: data_prefix_def)
  then have "d = d'" "t @ CHR ''_'' # (''p_'' @ k) = t' @ CHR ''_'' # (''p_'' @ k')"
    using segment_inj assms(1,3) unfolding ident_def by blast+
  moreover from this(2) have "t = t'" "''p_'' @ k = ''p_'' @ k'"
    using segment_inj assms(2,4) unfolding ident_def by blast+
  ultimately show ?thesis by simp
qed

lemma table_rows_None: "table_rows view dbname tab st k = None \<longleftrightarrow> view st (data_prefix dbname tab @ k) = None"
proof (cases "view st (data_prefix dbname tab @ k)")
  case (Some v)
  obtain vs where "StringSplit v ''$$'' = Some vs" using StringSplit_returns [of "''$$''" v] by auto
  with Some show ?thesis by (simp add: table_rows_def)
qed (simp add: table_rows_def)

text \<open>Storing or removing one key changes one entry of one table.\<close>

lemma table_rows_update:
  assumes "view st' = (view st)(data_prefix dbname tab @ k := v)" "ident dbname" "ident tab"
  shows "table_rows view dbname tab st' =
      (table_rows view dbname tab st)(k := (case v of None \<Rightarrow> None | Some s \<Rightarrow> StringSplit s ''$$''))"
    "ident d \<Longrightarrow> ident t \<Longrightarrow> (d, t) \<noteq> (dbname, tab) \<Longrightarrow> table_rows view d t st' = table_rows view d t st"
proof -
  show "table_rows view dbname tab st' =
      (table_rows view dbname tab st)(k := (case v of None \<Rightarrow> None | Some s \<Rightarrow> StringSplit s ''$$''))"
    by (rule ext) (simp add: table_rows_def assms(1))
  assume d: "ident d" "ident t" "(d, t) \<noteq> (dbname, tab)"
  have "data_prefix d t @ x \<noteq> data_prefix dbname tab @ k" for x
    using data_key_inj [OF d(1,2) assms(2,3)] d(3) by blast
  then show "table_rows view d t st' = table_rows view d t st"
    by (intro ext) (simp add: table_rows_def assms(1))
qed

lemma set_row:
  assumes "kv_laws R view" "ident dbname" "ident tab"
  shows "table_rows view dbname tab (r_set R (data_prefix dbname tab @ k) s st) =
      (table_rows view dbname tab st)(k := StringSplit s ''$$'')"
    "ident d \<Longrightarrow> ident t \<Longrightarrow> (d, t) \<noteq> (dbname, tab) \<Longrightarrow>
      table_rows view d t (r_set R (data_prefix dbname tab @ k) s st) = table_rows view d t st"
  using table_rows_update [of view "r_set R (data_prefix dbname tab @ k) s st" st dbname tab k "Some s"]
    kv_set [OF assms(1)] assms(2,3) by simp_all

lemma del_row:
  assumes "kv_laws R view" "ident dbname" "ident tab"
  shows "table_rows view dbname tab (r_del R (data_prefix dbname tab @ k) st) =
      (table_rows view dbname tab st)(k := None)"
    "ident d \<Longrightarrow> ident t \<Longrightarrow> (d, t) \<noteq> (dbname, tab) \<Longrightarrow>
      table_rows view d t (r_del R (data_prefix dbname tab @ k) st) = table_rows view d t st"
  using table_rows_update [of view "r_del R (data_prefix dbname tab @ k) st" st dbname tab k None]
    kv_del [OF assms(1)] assms(2,3) by simp_all

section \<open>Columns of the current table\<close>

lemma col_position_at:
  assumes "serving sv dbname tab cols" "i < length cols"
  shows "col_position sv tab (GetColName (cols ! i)) = Inr i"
proof -
  have "GetColIndex (GetColName (cols ! i)) (DataTable_new tab cols) = int i"
    using assms by (intro DataTable_columns) (simp_all add: serving_def)
  moreover have "unat (word_of_nat i :: u64) = i"
    using assms by (simp add: serving_def unsigned_of_nat take_bit_nat_eq_self)
  ultimately show ?thesis using assms(1) by (simp add: col_position_def serving_def)
qed

lemma col_position_unknown:
  assumes "serving sv dbname tab cols" "name \<notin> set (map GetColName cols)"
  shows "col_position sv tab name = Inr (2 ^ 64 - 1)"
  using assms DataTable_unknown_column(1) [OF assms(2), of tab]
  by (simp add: col_position_def serving_def unsigned_minus_1_eq_mask mask_eq_exp_minus_1)

lemma serving_store [simp]: "serving (sv\<lparr>sv_store := st\<rparr>) dbname tab cols = serving sv dbname tab cols"
  by (simp add: serving_def CurDB_def CurTable_def)

section \<open>Insertion\<close>

lemma fold_update_other:
  "i \<notin> p ` set xs \<Longrightarrow> fold (\<lambda>x vs. vs[p x := v x]) xs acc ! i = acc ! i"
  by (induction xs arbitrary: acc) auto

lemma length_fold_update [simp]: "length (fold (\<lambda>x vs. vs[p x := v x]) xs acc) = length acc"
  by (induction xs arbitrary: acc) auto

lemma fold_update_nth:
  assumes "inj_on p (set xs)" "distinct xs" "x \<in> set xs" "p x < length acc"
  shows "fold (\<lambda>x vs. vs[p x := v x]) xs acc ! p x = v x"
  using assms
proof (induction xs arbitrary: acc)
  case (Cons y ys)
  show ?case
  proof (cases "x = y")
    case True
    then have "p x \<notin> p ` set ys" using Cons.prems by (auto simp: inj_on_def)
    with True Cons.prems(4) show ?thesis by (simp add: fold_update_other)
  next
    case False
    with Cons show ?thesis by simp
  qed
qed simp

lemma foldR_setR:
  assumes "\<And>x. x \<in> set xs \<Longrightarrow> f x = Inr (p x) \<and> p x < length acc"
  shows "foldR (\<lambda>x vs. bindR (f x) (\<lambda>i. setR vs i (v x))) xs acc = Inr (fold (\<lambda>x vs. vs[p x := v x]) xs acc)"
  using assms by (induction xs arbitrary: acc) simp_all

text \<open>The values of a tuple in the order of the table's columns.\<close>

definition in_order :: "TableColumn list \<Rightarrow> TableColumn list \<Rightarrow> string list" where
  "in_order cols tuple = map (\<lambda>c. the (map_of (map (\<lambda>d. (GetColName d, GetVal d)) tuple) (GetColName c))) cols"

definition covers :: "TableColumn list \<Rightarrow> TableColumn list \<Rightarrow> bool" where
  "covers cols tuple \<longleftrightarrow> length tuple = length cols \<and> set (map GetColName tuple) = set (map GetColName cols)"

lemma insert_vals:
  assumes "serving sv dbname tab cols" "covers cols tuple"
  shows "foldR (\<lambda>col vals. bindR (col_position sv tab (GetColName col)) (\<lambda>index. setR vals index (GetVal col)))
      tuple (replicate (length tuple) []) = Inr (in_order cols tuple)"
proof -
  let ?n = "length cols"
  let ?names = "map GetColName cols"
  have len: "length tuple = ?n" and names: "set (map GetColName tuple) = set ?names" and dist: "distinct ?names"
    using assms by (simp_all add: covers_def serving_def)
  have dt: "distinct (map GetColName tuple)"
    using names dist len by (metis card_distinct distinct_card length_map)
  define p where "p c = (THE i. i < ?n \<and> GetColName (cols ! i) = GetColName c)" for c
  have p_eq: "p c = i" if "i < ?n" "GetColName (cols ! i) = GetColName c" for c i
    unfolding p_def
  proof (rule the_equality)
    fix j
    assume "j < ?n \<and> GetColName (cols ! j) = GetColName c"
    with that dist show "j = i" using nth_eq_iff_index_eq [of ?names j i] by simp
  qed (use that in simp)
  have ex: "\<exists>i < ?n. GetColName (cols ! i) = GetColName c" if "c \<in> set tuple" for c
  proof -
    have "GetColName c \<in> set ?names" using that names by auto
    then show ?thesis by (auto simp: in_set_conv_nth)
  qed
  have pos: "col_position sv tab (GetColName c) = Inr (p c) \<and> p c < length (replicate (length tuple) ([] :: string))"
    if "c \<in> set tuple" for c
    using ex [OF that] p_eq col_position_at [OF assms(1)] len by (metis length_replicate)
  have inj: "inj_on p (set tuple)"
  proof (rule inj_onI)
    fix c d
    assume cd: "c \<in> set tuple" "d \<in> set tuple" "p c = p d"
    then have "GetColName c = GetColName d" using ex p_eq by metis
    with cd dt show "c = d" by (auto simp: distinct_map inj_on_def)
  qed
  let ?vs = "fold (\<lambda>c vs. vs[p c := GetVal c]) tuple (replicate (length tuple) [])"
  have "?vs = in_order cols tuple"
  proof (rule nth_equalityI)
    show "length ?vs = length (in_order cols tuple)" by (simp add: in_order_def len)
    fix i
    assume "i < length ?vs"
    then have i: "i < ?n" by (simp add: len)
    then have "GetColName (cols ! i) \<in> set (map GetColName tuple)" unfolding names by simp
    then obtain c where c: "c \<in> set tuple" "GetColName (cols ! i) = GetColName c" by auto
    then have "p c = i" using p_eq i by simp
    then have "?vs ! i = GetVal c"
      using fold_update_nth [OF inj _ c(1), of "replicate (length tuple) []" GetVal] dt i len
      by (simp add: distinct_map)
    moreover have "map_of (map (\<lambda>d. (GetColName d, GetVal d)) tuple) (GetColName c) = Some (GetVal c)"
      using dt c(1) by (intro map_of_is_SomeI) (auto simp: comp_def)
    ultimately show "?vs ! i = in_order cols tuple ! i" using i c(2) by (simp add: in_order_def)
  qed
  then show ?thesis using foldR_setR [OF pos, where v = GetVal] by simp
qed


section \<open>Reading a row\<close>

text \<open>The values with the names and types of the columns they belong to.\<close>

definition labelled :: "TableColumn list \<Rightarrow> string list \<Rightarrow> TableColumn list" where
  "labelled cols vals = map2 (\<lambda>c v. TableColumn_val (GetColName c) (GetColTyp c) v) cols vals"

lemma foldR_collect:
  assumes "\<And>i. i \<in> set is \<Longrightarrow> f i = Inr (g i)"
  shows "foldR (\<lambda>i acc. bindR (f i) (\<lambda>v. Inr (acc @ [v]))) is acc = Inr (acc @ map g is)"
  using assms by (induction "is" arbitrary: acc) simp_all

lemma DecodeRowResult_labelled:
  assumes "serving sv dbname tab cols" "StringSplit s ''$$'' = Some vals" "length vals = length cols"
  shows "DecodeRowResult sv s tab = Inr (labelled cols vals)"
proof -
  let ?t = "DataTable_new tab cols"
  let ?name = "\<lambda>i. case GetIndexColMap ?t (int i) of Some name \<Rightarrow> name | None \<Rightarrow> []"
  let ?g = "\<lambda>i. TableColumn_val (?name i) (GetColType (?name i) ?t) (vals ! i)"
  have t: "CurTable sv tab = Inr ?t" and dist: "distinct (map GetColName cols)"
    using assms(1) by (simp_all add: serving_def)
  have "DecodeRowResult sv s tab = foldR (\<lambda>i tuple. bindR
      (bindR (nthR vals i) (\<lambda>v. Inr (TableColumn_val (?name i) (GetColType (?name i) ?t) v))) (\<lambda>c. Inr (tuple @ [c])))
      [0..<length vals] []"
    using t assms(2) by (simp add: DecodeRowResult_def bindR_assoc Let_def)
  also have "\<dots> = Inr ([] @ map ?g [0..<length vals])"
    by (rule foldR_collect) simp
  also have "map ?g [0..<length vals] = labelled cols vals"
    using DataTable_columns [OF dist] assms(3) by (intro nth_equalityI) (simp_all add: labelled_def)
  finally show ?thesis by simp
qed

section \<open>Properties\<close>

text \<open>Inserting a tuple that names every column once, in any order, adds one row to the table: the
  values in the order of the table's columns, under the first value of the tuple as key. The
  rows of every other table stay.\<close>

lemma insert_adds_row:
  assumes "kv_laws R view" "serving sv dbname tab cols" "covers cols tuple" "tuple \<noteq> []"
    "row_ok (in_order cols tuple)" "plain (GetVal (hd tuple))"
  shows "\<exists>st'. InsertRowToPMemKV R tab tuple sv = Inr (1, sv\<lparr>sv_store := st'\<rparr>) \<and>
    table_rows view dbname tab st' =
      (table_rows view dbname tab (sv_store sv))(GetVal (hd tuple) \<mapsto> in_order cols tuple) \<and>
    (\<forall>d t. ident d \<and> ident t \<and> (d, t) \<noteq> (dbname, tab) \<longrightarrow> table_rows view d t st' = table_rows view d t (sv_store sv))"
proof -
  obtain db where db: "CurDB sv = Inr db" "GetDbName db = dbname" and names: "ident dbname" "ident tab"
    using assms(2) by (auto simp: serving_def)
  let ?key = "data_prefix dbname tab @ GetVal (hd tuple)" and ?v = "StringsJoin (in_order cols tuple) ''$$''"
  let ?st = "r_set R ?key ?v (sv_store sv)"
  have "nthR tuple 0 = Inr (hd tuple)" using assms(4) by (simp add: hd_conv_nth)
  then have "InsertRowToPMemKV R tab tuple sv = Inr (1, sv\<lparr>sv_store := ?st\<rparr>)"
    using assms(4) db insert_vals [OF assms(2,3)] key_c_str [OF names assms(6)] row_ok_c_str [OF assms(5)]
    by (simp add: InsertRowToPMemKV_def Let_def cmd_SET_def)
  then show ?thesis using row_ok_split [OF assms(5)] set_row [OF assms(1) names]
    by (intro exI [of _ ?st]) simp
qed

text \<open>Selecting with \<open>=\<close> looks the key up: no row when it is absent, and else the stored values
  with the names and types of the table's columns.\<close>

lemma select_finds_row:
  assumes "kv_laws R view" "serving sv dbname tab cols" "plain k"
    "\<And>vals. table_rows view dbname tab (sv_store sv) k = Some vals \<Longrightarrow> length vals = length cols"
    "q_op q = kOpEquals" "q_tab q = tab" "q_value q = k" "\<not> q_scan_all q"
  shows "SelectRowsFromPMemKV R sv q =
    Inr (case table_rows view dbname tab (sv_store sv) k of None \<Rightarrow> [] | Some vals \<Rightarrow> [labelled cols vals])"
proof -
  obtain db where db: "CurDB sv = Inr db" "GetDbName db = dbname" and names: "ident dbname" "ident tab"
    using assms(2) by (auto simp: serving_def)
  let ?key = "data_prefix dbname tab @ k"
  have get: "cmd_GET R ?key (sv_store sv) = Inr (view (sv_store sv) ?key)"
    by (simp add: cmd_GET_def key_c_str [OF names assms(3)] kv_get [OF assms(1)])
  show ?thesis
  proof (cases "view (sv_store sv) ?key")
    case None
    with get db assms(5-8) show ?thesis by (simp add: SelectRowsFromPMemKV_def table_rows_def)
  next
    case (Some s)
    obtain vals where vals: "StringSplit s ''$$'' = Some vals" using StringSplit_returns [of "''$$''" s] by auto
    then have r: "table_rows view dbname tab (sv_store sv) k = Some vals" using Some by (simp add: table_rows_def)
    with DecodeRowResult_labelled [OF assms(2) vals] assms(4) get db assms(5-8) Some show ?thesis
      by (simp add: SelectRowsFromPMemKV_def)
  qed
qed

text \<open>Updating by key changes one value of one row: the value of the named column becomes the new
  one, and the row keeps its other values and its key; a key that is absent changes nothing and
  counts no row.\<close>

lemma update_changes_value:
  assumes "kv_laws R view" "serving sv dbname tab cols" "plain k" "i < length cols"
    "\<And>vals. table_rows view dbname tab (sv_store sv) k = Some vals \<Longrightarrow>
      length vals = length cols \<and> row_ok (vals[i := val])"
  shows "(table_rows view dbname tab (sv_store sv) k = None \<longrightarrow>
      UpdateRowInPMemKV R tab (GetColName (cols ! i)) val op f k sv = Inr (0, sv)) \<and>
    (\<forall>vals. table_rows view dbname tab (sv_store sv) k = Some vals \<longrightarrow>
      (\<exists>st'. UpdateRowInPMemKV R tab (GetColName (cols ! i)) val op f k sv = Inr (1, sv\<lparr>sv_store := st'\<rparr>) \<and>
        table_rows view dbname tab st' = (table_rows view dbname tab (sv_store sv))(k \<mapsto> vals[i := val]) \<and>
        (\<forall>d t. ident d \<and> ident t \<and> (d, t) \<noteq> (dbname, tab) \<longrightarrow> table_rows view d t st' = table_rows view d t (sv_store sv))))"
proof -
  obtain db where db: "CurDB sv = Inr db" "GetDbName db = dbname" and names: "ident dbname" "ident tab"
    using assms(2) by (auto simp: serving_def)
  let ?key = "data_prefix dbname tab @ k"
  have get: "cmd_GET R ?key (sv_store sv) = Inr (view (sv_store sv) ?key)"
    by (simp add: cmd_GET_def key_c_str [OF names assms(3)] kv_get [OF assms(1)])
  have none: "UpdateRowInPMemKV R tab (GetColName (cols ! i)) val op f k sv = Inr (0, sv)"
    if "table_rows view dbname tab (sv_store sv) k = None"
  proof -
    have "view (sv_store sv) ?key = None"
      using that table_rows_None by metis
    with get db show ?thesis by (simp add: UpdateRowInPMemKV_def)
  qed
  have some: "\<exists>st'. UpdateRowInPMemKV R tab (GetColName (cols ! i)) val op f k sv = Inr (1, sv\<lparr>sv_store := st'\<rparr>) \<and>
      table_rows view dbname tab st' = (table_rows view dbname tab (sv_store sv))(k \<mapsto> vals[i := val]) \<and>
      (\<forall>d t. ident d \<and> ident t \<and> (d, t) \<noteq> (dbname, tab) \<longrightarrow> table_rows view d t st' = table_rows view d t (sv_store sv))"
    if vals: "table_rows view dbname tab (sv_store sv) k = Some vals" for vals
  proof -
    obtain s where s: "view (sv_store sv) ?key = Some s" "StringSplit s ''$$'' = Some vals"
      using vals by (auto simp: table_rows_def split: option.splits)
    have ok: "length vals = length cols" "row_ok (vals[i := val])" using assms(5) [OF vals] by simp_all
    let ?v = "StringsJoin (vals[i := val]) ''$$''"
    let ?st = "r_set R ?key ?v (sv_store sv)"
    have "UpdateRowInPMemKV R tab (GetColName (cols ! i)) val op f k sv = Inr (1, sv\<lparr>sv_store := ?st\<rparr>)"
      using get s db ok assms(4) col_position_at [OF assms(2,4)] key_c_str [OF names assms(3)] row_ok_c_str [OF ok(2)]
      by (simp add: UpdateRowInPMemKV_def cmd_SET_def)
    moreover have "table_rows view dbname tab ?st = (table_rows view dbname tab (sv_store sv))(k \<mapsto> vals[i := val])"
      using set_row(1) [OF assms(1) names] row_ok_split [OF ok(2)] by simp
    ultimately show ?thesis using set_row(2) [OF assms(1) names] by blast
  qed
  from none some show ?thesis by blast
qed

text \<open>Deleting by key removes that row and no other, of this table or another. The comparison of
  the column \<open>1\<close> with \<open>1\<close> is set apart: the code takes it for the deletion of all rows.\<close>

lemma delete_removes_row:
  assumes "kv_laws R view" "serving sv dbname tab cols" "plain k" "(f, k) \<noteq> (''1'', ''1'')"
  shows "\<exists>st'. DeleteRowsInPMemKV R object_bytes tab kOpEquals f k sv = Inr (1, sv\<lparr>sv_store := st'\<rparr>) \<and>
    table_rows view dbname tab st' = (table_rows view dbname tab (sv_store sv))(k := None) \<and>
    (\<forall>d t. ident d \<and> ident t \<and> (d, t) \<noteq> (dbname, tab) \<longrightarrow> table_rows view d t st' = table_rows view d t (sv_store sv))"
proof -
  obtain db where db: "CurDB sv = Inr db" "GetDbName db = dbname" and names: "ident dbname" "ident tab"
    using assms(2) by (auto simp: serving_def)
  let ?st = "r_del R (data_prefix dbname tab @ k) (sv_store sv)"
  have "DeleteRowsInPMemKV R object_bytes tab kOpEquals f k sv = Inr (1, sv\<lparr>sv_store := ?st\<rparr>)"
    using db assms(4) key_c_str [OF names assms(3)] by (auto simp: DeleteRowsInPMemKV_def Let_def cmd_DEL_def)
  then show ?thesis using del_row [OF assms(1) names]
    by (intro exI [of _ ?st]) simp
qed


section \<open>A server to apply them to\<close>

definition sample_cols :: "TableColumn list" where
  "sample_cols = [TableColumn_new ''id'' DT_INT, TableColumn_new ''name'' DT_TEXT]"

definition sample_server :: "(string \<times> string) list \<Rightarrow> (string \<times> string) list server" where
  "sample_server st = \<lparr>sv_store = st, sv_dbms = Some
     \<lparr>dm_heap = [\<lparr>db_table_count = 1, db_name = ''default'', db_tables = [''t'' \<mapsto> DataTable_new ''t'' sample_cols]\<rparr>],
      dm_dbs = [(''default'', 0)], dm_cur_db = Some 0\<rparr>\<rparr>"

definition sample_store :: "(string \<times> string) list" where
  "sample_store = [(data_prefix ''default'' ''t'' @ ''7'', ''7$$ann'')]"

lemma sample_serving: "serving (sample_server st) ''default'' ''t'' sample_cols"
  by (simp add: serving_def sample_server_def CurDB_def CurTable_def cur_db_def GetDbName_def GetTable_def
      nthR_def ident_def tight_def blank_def char_value_def glob_free_def sample_cols_def
      TableColumn_new_def GetColName_def)

lemma plain_seven: "plain ''7''"
  by (simp add: plain_def)

lemma sample_row_ok: "row_ok [''7'', ''ann'']" "row_ok [''7'', ''bob'']"
  by (simp_all add: row_ok_def splittable_def tight_def blank_def char_value_def plain_def)

lemma sample_row: "table_rows map_of ''default'' ''t'' sample_store ''7'' = Some [''7'', ''ann'']"
  using row_ok_split [OF sample_row_ok(1)] by (simp add: table_rows_def sample_store_def)

section \<open>Limits\<close>

lemma rows_loop_flat:
  assumes "\<forall>kv \<in> set kvs. DecodeRowResult sv (snd kv) tab = Inr (dec (snd kv))"
    "\<And>j. j < i + length kvs \<Longrightarrow> stop (2 * j) \<longleftrightarrow> n < j"
  shows "rows_loop sv tab stop keep (2 * i) (flat kvs) rows =
    Inr (rows @ map (dec \<circ> snd) (filter (keep \<circ> fst) (take (Suc n - i) kvs)))"
  using assms
proof (induction kvs arbitrary: i rows)
  case (Cons kv kvs)
  obtain k v where kv: "kv = (k, v)" by (cases kv)
  have stop: "stop (2 * i) \<longleftrightarrow> n < i" using Cons.prems(2) [of i] by simp
  have IH: "rows_loop sv tab stop keep (2 * i + 2) (flat kvs) rs =
      Inr (rs @ map (dec \<circ> snd) (filter (keep \<circ> fst) (take (n - i) kvs)))" for rs
    using Cons.IH [of "Suc i" rs] Cons.prems by (simp add: comp_def)
  show ?case
  proof (cases "n < i")
    case False
    then have "Suc n - i = Suc (n - i)" by simp
    with False stop IH Cons.prems(1) show ?thesis by (simp add: kv comp_def)
  qed (simp add: kv stop)
qed simp

lemma past_limit_double:
  assumes "n < 2 ^ 62" "j < 2 ^ 62"
  shows "past_limit (of_nat n) (2 * j) \<longleftrightarrow> n \<noteq> 0 \<and> n < j"
    "past_limit_greater (of_nat n) (2 * j) \<longleftrightarrow> n < j"
proof -
  have u: "unat (word_of_nat m :: u64) = m" if "m < 2 ^ 64" for m
    using that by (simp add: unsigned_of_nat take_bit_nat_eq_self)
  have e: "(word_of_nat n :: u64) * 2 = word_of_nat (2 * n)" "(word_of_nat n :: u64) * 2 + 1 = word_of_nat (2 * n + 1)"
    by (simp_all add: mult.commute add.commute)
  have zero: "(word_of_nat n :: u64) = 0 \<longleftrightarrow> n = 0"
  proof
    assume "(word_of_nat n :: u64) = 0"
    then have "unat (word_of_nat n :: u64) = 0" by (simp only: unsigned_0)
    with u [of n] assms(1) show "n = 0" by simp
  qed simp
  show "past_limit (of_nat n) (2 * j) \<longleftrightarrow> n \<noteq> 0 \<and> n < j"
    unfolding past_limit_def e word_less_nat_alt zero using u [of "2 * n"] u [of "2 * j"] assms by simp
  show "past_limit_greater (of_nat n) (2 * j) \<longleftrightarrow> n < j"
  proof -
    have a: "2 * n + 1 < 2 ^ 64" "2 * j < 2 ^ 64" using assms by simp_all
    show ?thesis unfolding past_limit_greater_def e(2) word_less_nat_alt u [OF a(1)] u [OF a(2)] by linarith
  qed
qed



definition two_rows :: "(string \<times> string) list" where
  "two_rows = [(data_prefix ''default'' ''t'' @ ''7'', ''7$$ann''), (data_prefix ''default'' ''t'' @ ''8'', ''8$$bob'')]"

lemma two_rows_scan:
  "cmd_SCAN list_redis (Some 100) (data_prefix ''default'' ''t'' @ ''*'') (sv_store (sample_server two_rows)) =
    Inr (Some (flat two_rows))"
proof -
  have "c_str (data_prefix ''default'' ''t'' @ ''*'') = data_prefix ''default'' ''t'' @ ''*''"
    by (intro c_str_id) (simp add: data_prefix_def)
  then show ?thesis
    by (simp add: cmd_SCAN_def list_redis_def two_rows_def sample_server_def data_prefix_def)
qed

lemma two_rows_split:
  "StringSplit ''7$$ann'' ''$$'' = Some [''7'', ''ann'']" "StringSplit ''8$$bob'' ''$$'' = Some [''8'', ''bob'']"
proof -
  have "row_ok [''8'', ''bob'']" by (simp add: row_ok_def splittable_def tight_def blank_def char_value_def plain_def)
  from row_ok_split [OF this] show "StringSplit ''8$$bob'' ''$$'' = Some [''8'', ''bob'']" by simp
  from row_ok_split [OF sample_row_ok(1)] show "StringSplit ''7$$ann'' ''$$'' = Some [''7'', ''ann'']" by simp
qed


section \<open>Statements that end the server\<close>

text \<open>C34: Statements the parser accepts and the executor cannot take, on a table that exists: an
  insertion without a column list, an update without a condition, a condition that compares
  with an integer literal or an update to one (only string literals have a name) dereference null.\<close>

theorem null_pointer_statements:
  assumes "sv_HasTable sv tab = Inr True" "tr_name tr = Some tab"
  shows "AnalyzeInsertStatement sv ((InsertStatement_new kInsertValues)\<lparr>ins_tableName := Some tab, ins_values := vs\<rparr>) =
      Inl NullDeref \<and>
    AnalyzeUpdateStatement sv (UpdateStatement_new\<lparr>upd_table := Some tr,
      upd_updates := Some [\<lparr>uc_column = Some col, uc_value = Some (makeLiteral_string (Some s))\<rparr>]\<rparr>) op = Inl NullDeref \<and>
    AnalyzeUpdateStatement sv (UpdateStatement_new\<lparr>upd_table := Some tr,
      upd_updates := Some [\<lparr>uc_column = Some col, uc_value = Some (makeLiteral_int n)\<rparr>], upd_where := w\<rparr>) op = Inl NullDeref \<and>
    AnalyzeDeleteStatement sv (DeleteStatement_new\<lparr>del_tableName := Some tab, del_expr :=
      Some (makeOpBinary (Some (makeColumnRef (Some col))) kOpEquals (Some (makeLiteral_int n)))\<rparr>) op = Inl NullDeref"
  using assms
  by (simp add: AnalyzeInsertStatement_def AnalyzeUpdateStatement_def AnalyzeDeleteStatement_def condition_of_def
      InsertStatement_new_def UpdateStatement_new_def DeleteStatement_new_def SQLStatement_new_def
      SQLStatement.defs InsertStatement.defs UpdateStatement.defs DeleteStatement.defs
      makeLiteral_string_def makeLiteral_int_def makeOpBinary_def makeColumnRef_def Expr_new_def set_defs)

theorem null_pointer_statements_witness:
  "AnalyzeUpdateStatement (sample_server sample_store) (UpdateStatement_new\<lparr>upd_table := Some
      (mkTableRef kTableName None (Some ''t'') None None None None),
      upd_updates := Some [\<lparr>uc_column = Some ''name'', uc_value = Some (makeLiteral_string (Some ''bob''))\<rparr>]\<rparr>) kOpNone =
    Inl NullDeref"
  using null_pointer_statements [of "sample_server sample_store" "''t''" "mkTableRef kTableName None (Some ''t'') None None None None"]
  by (simp add: sv_HasTable_def HasTable_def sample_server_def cur_db_def nthR_def GetTable_def)

text \<open>Deleting all rows overruns the reply: whenever the scan finds anything, the loop, which counts
  to twice the number of elements, reads past the last of them.\<close>

lemma del_loop_overruns: "length es \<ge> 2 \<Longrightarrow> i \<le> length es + 1 \<Longrightarrow> del_loop R es i st = Inl OutOfBounds"
proof (induction "length es + 1 - i" arbitrary: i st rule: less_induct)
  case less
  show ?case
  proof (cases "i < length es")
    case True
    then have "del_loop R es i st = del_loop R es (i + 2) (cmd_DEL R (es ! i) st)"
      by (simp add: del_loop.simps [of R es i])
    with less True show ?thesis by simp
  next
    case False
    with less.prems show ?thesis by (simp add: del_loop.simps [of R es i] nthR_def)
  qed
qed

lemma delete_all_overruns_reply:
  assumes "CurDB sv = Inr db" "sv_HasTable sv tab = Inr True"
    "cmd_SCAN R None (object_bytes (data_prefix (GetDbName db) tab)) (sv_store sv) = Inr (Some (flat kvs))" "kvs \<noteq> []"
  shows "AnalyzeDeleteStatement sv (DeleteStatement_new\<lparr>del_tableName := Some tab\<rparr>) op =
      Inr (True, tab, kOpEquals, ''1'', ''1'') \<and>
    DeleteRowsInPMemKV R object_bytes tab kOpEquals ''1'' ''1'' sv = Inl OutOfBounds"
proof -
  have "2 \<le> length (flat kvs)" using assms(4) by (cases kvs) auto
  with assms show ?thesis
    by (simp add: AnalyzeDeleteStatement_def DeleteRowsInPMemKV_def del_loop_overruns
        DeleteStatement_new_def SQLStatement_new_def SQLStatement.defs DeleteStatement.defs)
qed

text \<open>A tuple with a column the table does not have writes outside the vector of values: the
  position -1 becomes the largest 64-bit number.\<close>

lemma unknown_column_writes_outside:
  assumes "serving sv dbname tab cols" "c \<in> set tuple" "GetColName c \<notin> set (map GetColName cols)"
    "\<forall>d \<in> set tuple. GetColName d \<in> set (map GetColName (take (length tuple) cols)) \<or> GetColName d = GetColName c"
    "length tuple < 2 ^ 63"
  shows "InsertRowToPMemKV R tab tuple sv = Inl OutOfBounds"
proof -
  obtain db where db: "CurDB sv = Inr db" using assms(1) by (auto simp: serving_def)
  obtain x xs where t: "tuple = x # xs" using assms(2) by (cases tuple) auto
  have u: "col_position sv tab (GetColName c) = Inr (2 ^ 64 - 1)" by (rule col_position_unknown [OF assms(1,3)])
  have "foldR (\<lambda>col vals. bindR (col_position sv tab (GetColName col)) (\<lambda>index. setR vals index (GetVal col))) ds acc =
      Inl OutOfBounds"
    if "c \<in> set ds" "set ds \<subseteq> set tuple" "length acc = length tuple" for ds acc
    using that
  proof (induction ds arbitrary: acc)
    case (Cons d ds)
    show ?case
    proof (cases "GetColName d = GetColName c")
      case True
      then show ?thesis using u Cons.prems(3) assms(5) by (simp add: setR_def)
    next
      case False
      moreover have "d \<in> set tuple" using Cons.prems(2) by simp
      ultimately have "GetColName d \<in> set (map GetColName (take (length tuple) cols))" using assms(4) by blast
      then obtain i where "i < length (map GetColName (take (length tuple) cols))"
        "map GetColName (take (length tuple) cols) ! i = GetColName d"
        by (meson in_set_conv_nth)
      then have i: "i < length (take (length tuple) cols)" "GetColName (cols ! i) = GetColName d" by simp_all
      then have "col_position sv tab (GetColName d) = Inr i" using col_position_at [OF assms(1), of i] by simp
      with i Cons False show ?thesis by auto
    qed
  qed simp
  from this [OF assms(2) subset_refl] have "foldR (\<lambda>col vals. bindR (col_position sv tab (GetColName col))
      (\<lambda>index. setR vals index (GetVal col))) tuple (replicate (length tuple) []) = Inl OutOfBounds"
    by simp
  with db t show ?thesis by (simp add: InsertRowToPMemKV_def Let_def)
qed

end
