(* ===== verification/Replies.thy ===== *)
theory Replies
  imports Rows
begin

text \<open>
  What the executor sends: every reply is a sequence of framed packets with rising sequence
  numbers, queued behind what the connection already holds. The lemmas follow the operations of
  \<open>Exec\<close>; the properties describe whole replies.
\<close>

section \<open>Frames\<close>

definition framed :: "u8 \<Rightarrow> packet \<Rightarrow> byte list" where
  "framed seq p = [word_of_nat (length p), 0, 0, seq] @ p"

fun frames :: "u8 \<Rightarrow> packet list \<Rightarrow> byte list" where
  "frames seq [] = []"
| "frames seq (p # ps) = framed seq p @ frames (seq + 1) ps"

lemma frames_append: "frames seq (ps @ qs) = frames seq ps @ frames (seq + of_nat (length ps)) qs"
  by (induction ps arbitrary: seq) (simp_all add: add.assoc)

lemma length_framed [simp]: "length (framed seq p) = length p + 4"
  by (simp add: framed_def)

lemma push_frame:
  assumes "length p + 4 \<le> MAX_BUFFER_SIZE"
  shows "\<exists>b. ub_PushData (framed seq p) UnboundedBuffer_new = Inr (length p + 4, b) \<and> ub_inv b \<and> ub_content b = framed seq p"
  using ub_PushData_ok [of UnboundedBuffer_new "framed seq p"] assms by auto

lemma sends_framed: "replies.sends (push_framed seq p) (framed seq p)"
  unfolding replies.sends_def
proof (intro allI impI)
  fix c :: "'a StreamSocket_scheme"
  assume c: "ss_inv c" "ss_room c (length (framed seq p))"
  then obtain b where "ub_PushData (framed seq p) UnboundedBuffer_new = Inr (length p + 4, b)"
    and b: "ub_inv b" "ub_content b = framed seq p"
    using push_frame [of p seq] by (auto simp: ss_room_def)
  then have "push_framed seq p c = SendPacket_ub b c" by (simp add: push_framed_def framed_def)
  with replies.sendsD [OF sends_packet_ub [OF b] c]
  show "\<exists>d. push_framed seq p c = Inr d \<and> ss_queued c (framed seq p) d" by simp
qed

lemma sends_error: "replies.sends (SendErrorMessageToClient seq code state msg) (framed seq (ErrPacket_Pack code state msg))"
  by (rule replies.sends_cong [OF sends_framed]) (simp add: SendErrorMessageToClient_def push_framed_def Let_def)

lemma sends_ok: "replies.sends (SendOkMessageToClient seq affected lastid flags warnings)
    (framed seq (OkPacket_Pack affected lastid flags warnings))"
  unfolding replies.sends_def
proof (intro allI impI)
  fix c :: "'a StreamSocket_scheme"
  let ?p = "OkPacket_Pack affected lastid flags warnings"
  let ?h = "[word_of_nat (length ?p), 0, 0, seq] :: byte list"
  assume c: "ss_inv c" "ss_room c (length (framed seq ?p))"
  then have len: "length ?p + 4 \<le> MAX_BUFFER_SIZE" by (simp add: ss_room_def)
  obtain b where b: "ub_PushData ?h UnboundedBuffer_new = Inr (length ?h, b)" "ub_inv b" "ub_content b = ?h"
    using ub_PushData_ok [of UnboundedBuffer_new ?h] by (auto simp: MAX_BUFFER_SIZE_def)
  obtain b' where b': "ub_PushData ?p b = Inr (length ?p, b')" "ub_inv b'" "ub_content b' = framed seq ?p"
    using ub_PushData_ok [OF b(2), of ?p] b(3) len by (auto simp: framed_def)
  have "SendOkMessageToClient seq affected lastid flags warnings c = SendPacket_ub b' c"
    using b(1) b'(1) by (simp add: SendOkMessageToClient_def Let_def)
  with replies.sendsD [OF sends_packet_ub [OF b'(2,3)] c]
  show "\<exists>d. SendOkMessageToClient seq affected lastid flags warnings c = Inr d \<and> ss_queued c (framed seq ?p) d"
    by simp
qed


section \<open>Result sets\<close>

lemma fold_frames:
  "snd (fold (\<lambda>x (n, bs). (n + 1, bs @ framed n (g x))) xs (seq, acc)) = acc @ frames seq (map g xs)"
  by (induction xs arbitrary: seq acc) simp_all

lemma sends_frames:
  assumes "\<And>n. replies.sends (k n) (rest n)"
  shows "replies.sends (\<lambda>c. bindR (foldR (\<lambda>x (n, c). bindR (push_framed n (g x) c) (\<lambda>c. Inr (n + 1, c))) xs (seq, c))
      (\<lambda>(n, c). k n c))
    (frames seq (map g xs) @ rest (seq + of_nat (length xs)))"
proof -
  have "replies.sends (\<lambda>c. bindR (foldR (\<lambda>x (n, c). bindR (push_framed n (g x) c) (\<lambda>c. Inr (n + 1, c))) xs (seq, c))
      (\<lambda>(n, c). k n c))
    (snd (fold (\<lambda>x (n, bs). (n + 1, bs @ framed n (g x))) xs (seq, [])) @ rest (seq + of_nat (length xs)))"
    by (rule replies.sends_numbered) (rule sends_framed, rule assms)
  then show ?thesis by (simp only: fold_frames append_Nil)
qed

text \<open>The packets of a result set: the column count, one packet per column, an end marker, one per row, another.\<close>

definition field_packet :: "string \<Rightarrow> string \<Rightarrow> DataTable \<Rightarrow> nat \<Rightarrow> packet" where
  "field_packet dbname tab t i =
     (let colname = (case GetIndexColMap t (int i) of Some name \<Rightarrow> name | None \<Rightarrow> []) in
      FieldPacket_Pack (FieldPacket_new colname (word_of_int TYPE_VARCHAR) tab tab dbname colname 80 CHARACTER_SET_UTF8 0 0))"

definition row_packet :: "TableColumn list \<Rightarrow> packet" where
  "row_packet coldata = RowPacket_Pack \<lparr>row = map GetVal coldata\<rparr>"

definition eof_packet :: packet where
  "eof_packet = EofPacket_Pack (EofPacket_new 0 2)"

definition result_packets :: "string \<Rightarrow> string \<Rightarrow> DataTable \<Rightarrow> TableColumn list list \<Rightarrow> packet list" where
  "result_packets dbname tab t rows =
     [[GetColCount t]] @ map (field_packet dbname tab t) [0..<unat (GetColCount t)] @ [eof_packet] @
     map row_packet rows @ [eof_packet]"

lemma sends_result_set:
  assumes "CurDB sv = Inr db" "CurTable sv tab = Inr t"
  shows "replies.sends (SendResultSetToClient sv seq rows tab) (frames 1 (result_packets (GetDbName db) tab t rows))"
proof -
  let ?n = "unat (GetColCount t)"
  let ?fields = "map (field_packet (GetDbName db) tab t) [0..<?n]"
  let ?tail = "\<lambda>m. frames m (map row_packet rows) @ framed (m + of_nat (length rows)) eof_packet"
  have rows: "replies.sends (\<lambda>c. bindR (foldR (\<lambda>x (n, c). bindR (push_framed n (row_packet x) c) (\<lambda>c. Inr (n + 1, c))) rows (m, c))
      (\<lambda>(n, c). push_framed n eof_packet c)) (?tail m)" for m
    by (rule sends_frames) (rule sends_framed)
  have fields: "replies.sends (\<lambda>c. bindR (foldR (\<lambda>i (n, c). bindR (push_framed n (field_packet (GetDbName db) tab t i) c)
        (\<lambda>c. Inr (n + 1, c))) [0..<?n] (2, c))
      (\<lambda>(n, c). bindR (push_framed n eof_packet c) (\<lambda>c.
        bindR (foldR (\<lambda>x (n, c). bindR (push_framed n (row_packet x) c) (\<lambda>c. Inr (n + 1, c))) rows (n + 1, c))
          (\<lambda>(n, c). push_framed n eof_packet c))))
    (frames 2 ?fields @ (framed (2 + of_nat (length [0..<?n])) eof_packet @ ?tail (2 + of_nat (length [0..<?n]) + 1)))"
    by (rule sends_frames) (intro replies.sends_then sends_framed rows)
  note all = replies.sends_then [OF sends_framed [of 1 "[GetColCount t]"] fields]
  have eq: "frames 1 (result_packets (GetDbName db) tab t rows) =
      framed 1 [GetColCount t] @ frames 2 ?fields @ framed (2 + of_nat (length [0..<?n])) eof_packet @
        ?tail (2 + of_nat (length [0..<?n]) + 1)"
    by (simp add: result_packets_def frames_append add.commute add.left_commute)
  have "SendResultSetToClient sv seq rows tab c =
      bindR (push_framed 1 [GetColCount t] c) (\<lambda>c. bindR (foldR (\<lambda>i (n, c). bindR (push_framed n (field_packet (GetDbName db) tab t i) c)
        (\<lambda>c. Inr (n + 1, c))) [0..<?n] (2, c))
      (\<lambda>(n, c). bindR (push_framed n eof_packet c) (\<lambda>c.
        bindR (foldR (\<lambda>x (n, c). bindR (push_framed n (row_packet x) c) (\<lambda>c. Inr (n + 1, c))) rows (n + 1, c))
          (\<lambda>(n, c). push_framed n eof_packet c))))" for c
    using assms
    by (simp add: SendResultSetToClient_def Let_def push_framed_def [of 1 "[GetColCount t]"] field_packet_def row_packet_def eof_packet_def)
  then show ?thesis unfolding eq by (intro replies.sends_cong [OF all]) (rule sym)
qed

section \<open>Sizes\<close>

lemma length_writes:
  "length (WriteU8 p v8) = length p + 1" "length (WriteU16 p v16) = length p + 2"
  "length (WriteU32 p v32) = length p + 4"
  "length (WriteLenEncode p v64) \<le> length p + 9"
  "length (WriteLenEncodeString p s) \<le> length p + 9 + length s"
  by (auto simp: write_defs)

lemma length_FieldPacket_Pack:
  "length (FieldPacket_Pack f) \<le> 80 + length (fp_dataBase f) + length (fp_table f) + length (fp_orgTable f) +
    length (fp_name f) + length (fp_orgName f)"
proof -
  note s = length_writes(5)
  show ?thesis
    unfolding FieldPacket_Pack_def Let_def length_writes(1-3)
    using length_writes(4) [of "WriteLenEncodeString (WriteLenEncodeString (WriteLenEncodeString (WriteLenEncodeString
        (WriteLenEncodeString (WriteLenEncodeString [] ''def'') (fp_dataBase f)) (fp_table f)) (fp_orgTable f)) (fp_name f)) (fp_orgName f)" "0x0c"]
      s [of "WriteLenEncodeString (WriteLenEncodeString (WriteLenEncodeString (WriteLenEncodeString
        (WriteLenEncodeString [] ''def'') (fp_dataBase f)) (fp_table f)) (fp_orgTable f)) (fp_name f)" "fp_orgName f"]
      s [of "WriteLenEncodeString (WriteLenEncodeString (WriteLenEncodeString
        (WriteLenEncodeString [] ''def'') (fp_dataBase f)) (fp_table f)) (fp_orgTable f)" "fp_name f"]
      s [of "WriteLenEncodeString (WriteLenEncodeString (WriteLenEncodeString [] ''def'') (fp_dataBase f)) (fp_table f)" "fp_orgTable f"]
      s [of "WriteLenEncodeString (WriteLenEncodeString [] ''def'') (fp_dataBase f)" "fp_table f"]
      s [of "WriteLenEncodeString [] ''def''" "fp_dataBase f"] s [of "[]" "''def''"]
    by simp
qed

lemma length_field_packet:
  "length (field_packet db tab t i) \<le> 80 + length db + 2 * length tab +
    2 * length (case GetIndexColMap t (int i) of Some name \<Rightarrow> name | None \<Rightarrow> [])"
  unfolding field_packet_def Let_def
  by (rule order_trans [OF length_FieldPacket_Pack]) (simp add: FieldPacket_new_def)

lemma length_frames_le: "\<forall>p\<in>set ps. length p \<le> k \<Longrightarrow> length (frames seq ps) \<le> length ps * (k + 4)"
  by (induction ps arbitrary: seq) (auto simp: framed_def intro: add_mono)

lemma length_sample_result:
  "length (frames 1 (result_packets ''default'' ''t'' (DataTable_new ''t'' sample_cols)
      [[TableColumn_val ''id'' DT_INT ''7'']])) \<le> 6 * (200 + 4)"
proof -
  let ?t = "DataTable_new ''t'' sample_cols"
  have n: "GetColCount ?t = 2" by code_simp
  have c: "GetIndexColMap ?t 0 = Some ''id''" "GetIndexColMap ?t 1 = Some ''name''" by code_simp+
  have upt: "[0..<2] = [0, 1]" by (simp add: upt_rec)
  have f: "length (field_packet ''default'' ''t'' ?t 0) \<le> 200" "length (field_packet ''default'' ''t'' ?t 1) \<le> 200"
    using length_field_packet [of "''default''" "''t''" ?t 0] length_field_packet [of "''default''" "''t''" ?t 1] c
    by simp_all
  have r: "length (row_packet [TableColumn_val ''id'' DT_INT ''7'']) \<le> 200"
    using length_writes(5) [of "[]" "''7''"] by (simp add: row_packet_def RowPacket_Pack_def TableColumn_val_def GetVal_def)
  have e: "length eof_packet \<le> 200" by (simp add: eof_packet_def EofPacket_Pack_def)
  have ps: "result_packets ''default'' ''t'' ?t [[TableColumn_val ''id'' DT_INT ''7'']] =
      [[2], field_packet ''default'' ''t'' ?t 0, field_packet ''default'' ''t'' ?t 1, eof_packet,
       row_packet [TableColumn_val ''id'' DT_INT ''7''], eof_packet]"
    by (simp add: result_packets_def n upt)
  show ?thesis unfolding ps by (rule order_trans [OF length_frames_le [where k = 200]]) (use f r e in auto)
qed

lemma length_empty_result:
  "length (frames 1 (result_packets ''default'' ''t'' (DataTable_new ''t'' sample_cols) [])) \<le> 6 * (200 + 4)"
  using length_sample_result by (simp add: result_packets_def frames_append)

section \<open>Properties\<close>

text \<open>C35: The answer to a query is one well-ordered result set: behind what is queued come the column
  count, one packet for every column, an end marker, one packet for every row in the order of the
  result and an end marker, with sequence numbers from 1 on, modulo 256.\<close>

theorem result_set_frames:
  assumes "CurDB sv = Inr db" "CurTable sv tab = Inr t" "ss_inv cli"
    "ss_room cli (length (frames 1 (result_packets (GetDbName db) tab t rows)))"
  shows "\<exists>cli'. SendResultSetToClient sv seq rows tab cli = Inr cli' \<and> ss_inv cli' \<and>
    outbox cli' = outbox cli @ frames 1 (result_packets (GetDbName db) tab t rows)"
  using replies.sendsD [OF sends_result_set [OF assms(1,2)] assms(3,4)] by (auto simp: ss_queued_def)


theorem result_set_frames_witness:
  "\<exists>cli'. SendResultSetToClient (sample_server []) 9 [[TableColumn_val ''id'' DT_INT ''7'']] ''t'' sample_socket = Inr cli' \<and>
    ss_inv cli' \<and> outbox cli' = outbox sample_socket @
      frames 1 (result_packets ''default'' ''t'' (DataTable_new ''t'' sample_cols) [[TableColumn_val ''id'' DT_INT ''7'']])"
proof -
  let ?db = "\<lparr>db_table_count = 1, db_name = ''default'', db_tables = [''t'' \<mapsto> DataTable_new ''t'' sample_cols]\<rparr>"
  have db: "CurDB (sample_server []) = Inr ?db" "GetDbName ?db = ''default''"
    by (simp_all add: CurDB_def sample_server_def cur_db_def nthR_def GetDbName_def)
  have t: "CurTable (sample_server []) ''t'' = Inr (DataTable_new ''t'' sample_cols)"
    using sample_serving by (simp add: serving_def)
  have room: "ss_room sample_socket (length (frames 1 (result_packets ''default'' ''t'' (DataTable_new ''t'' sample_cols)
      [[TableColumn_val ''id'' DT_INT ''7'']])))"
    using length_sample_result by (simp add: ss_room_def sample_socket MAX_BUFFER_SIZE_def)
  show ?thesis using result_set_frames [OF db(1) t sample_socket(1), of "[[TableColumn_val ''id'' DT_INT ''7'']]" 9] room
    unfolding db(2) by blast
qed

end
