(* ===== verification/Session.thy ===== *)
theory Session
  imports Replies Resp
begin

text \<open>
  A client's session (\<open>network/client.cc\<close>): the greeting on connect, the login, and the requests,
  which are parsed and handed to the executor. The handler takes the whole receive buffer as one
  packet. The lemmas follow a request from the receive buffer to the reply.
\<close>

section \<open>The client\<close>

record Client = StreamSocket +
  cl_reply :: UnboundedBuffer
  cl_parser :: ProtoParser

text \<open>The handler also reaches the static members of the executor; they travel with the client.\<close>

record 'st session = Client +
  se_server :: "'st server"

definition INIT_PACKET_CNT :: u8 where "INIT_PACKET_CNT = 1"

definition cl_Reset :: "'a Client_scheme \<Rightarrow> 'a Client_scheme" where
  "cl_Reset c = c\<lparr>cl_parser := pp_Reset (cl_parser c), cl_reply := ub_Clear (cl_reply c)\<rparr>"

text \<open>The constructors of \<open>Socket\<close>, \<open>StreamSocket\<close> and \<open>Client\<close>: a fresh client and the new counter.\<close>

definition Client_new :: "nat \<Rightarrow> (Client \<times> nat) res" where
  "Client_new sid =
     (let (base, sid) = Socket_new sid in
      bindR (Buffer_new 0) (\<lambda>recv.
      bindR (AsyncBuffer_new (128 * 1024)) (\<lambda>snd.
        Inr (cl_Reset \<lparr>so_localSock = so_localSock base, so_epollOut = so_epollOut base,
          so_invalid = so_invalid base, so_id = so_id base, ss_peerAddr = SocketAddr_Clear,
          ss_recvBuf = recv, ss_sendBuf = snd, cl_reply = UnboundedBuffer_new, cl_parser = ProtoParser_new\<rparr>, sid))))"

text \<open>\<open>reply_.PushData(...); SendPacket(reply_);\<close>\<close>

definition push_reply :: "byte list \<Rightarrow> 'a Client_scheme \<Rightarrow> 'a Client_scheme res" where
  "push_reply data c =
     bindR (ub_PushData data (cl_reply c)) (\<lambda>(_, b). SendPacket_ub b (c\<lparr>cl_reply := b\<rparr>))"

text \<open>The vector \<open>OkPacket\<close> with the sequence number after \<open>seq\<close>.\<close>

definition ok_bytes :: "u8 \<Rightarrow> byte list" where
  "ok_bytes seq = [7, 0, 0, seq + 1, 0, 0, 0, 2, 0, 0, 0]"

definition OnConnect :: "(nat \<Rightarrow> u8) \<Rightarrow> 'a Client_scheme \<Rightarrow> 'a Client_scheme res" where
  "OnConnect rnd c =
     (let outputPacket = GreetingPacket_Pack (GreetingPacket_new rnd 1 ''UHP-SQL-v0.1'');
          greetingPacket = [word_of_nat (length outputPacket), 0, 0, 0] @ outputPacket in
      bindR (push_reply greetingPacket c) (\<lambda>c. Inr (cl_Reset c)))"

text \<open>
  What surrounds the handler: the key-value server, the leftovers of the executor, the scanner and
  parser (\<open>hsql_parse\<close> of the theory \<open>Parser\<close> in the properties about texts), and the error position
  in a fresh result, which is not initialised.
\<close>

record 'st env =
  en_redis :: "'st redis"
  en_leftovers :: leftovers
  en_lex_fails :: bool
  en_parse :: "string \<Rightarrow> SQLParserResult \<Rightarrow> (int \<times> SQLParserResult) res"
  en_line :: int
  en_column :: int

definition parse_query :: "'st env \<Rightarrow> string \<Rightarrow> SQLParserResult res" where
  "parse_query E queryStr =
     bindR (parse (en_lex_fails E) (en_parse E) queryStr (SQLParserResult_new (en_line E) (en_column E)))
       (\<lambda>(_, result). Inr result)"

definition run_query :: "'st env \<Rightarrow> string \<Rightarrow> string \<Rightarrow> 'st session \<Rightarrow> 'st session res" where
  "run_query E queryStr pack c =
     bindR (parse_query E queryStr) (\<lambda>result.
      if isValid result then
        bindR (Exec (en_redis E) (en_leftovers E) result pack (se_server c, c)) (\<lambda>(_, sv, c).
          Inr (c\<lparr>se_server := sv\<rparr>))
      else bindR (deref (errorMsg result)) (\<lambda>msg. exec_error pack msg c))"

text \<open>
  The answer of \<open>AuthPacket::UnPack\<close> is not looked at. Building \<open>std::string(start + 5, end)\<close>
  from fewer than five bytes throws; before that \<open>start[3]\<close> is read.
\<close>

definition HandlePacket :: "'st env \<Rightarrow> byte list \<Rightarrow> 'st session \<Rightarrow> (int \<times> 'st session) res" where
  "HandlePacket E start c =
     bindR (nthR start 3) (\<lambda>seq.
     if length start < 5 then Inl LengthError
     else
       let pack = string_of start; queryStr = string_of (drop 5 start) in
       if seq = INIT_PACKET_CNT then
         bindR (AuthPacket_UnPack (drop 4 start) AuthPacket_new) (\<lambda>_.
         bindR (push_reply (ok_bytes seq) c) (\<lambda>c.
           Inr (int (length start), cl_Reset c)))
       else if queryStr \<noteq> ''select @@version_comment limit 1'' then
         bindR (run_query E queryStr pack c) (\<lambda>c. Inr (int (length start), c))
       else
         bindR (push_reply (ok_bytes seq) c) (\<lambda>c.
           Inr (int (length start), c\<lparr>cl_reply := ub_Clear (cl_reply c)\<rparr>)))"

text \<open>One turn of the main loop for this client.\<close>

definition serve :: "'st env \<Rightarrow> 'st session \<Rightarrow> (bool \<times> 'st session) res" where
  "serve E c = DoMsgParse (HandlePacket E) c"

section \<open>Only the send buffer changes\<close>

text \<open>Whatever queues a reply leaves the rest of the connection as it is.\<close>

definition quiet :: "'a StreamSocket_scheme \<Rightarrow> 'a StreamSocket_scheme \<Rightarrow> bool" where
  "quiet c c' \<longleftrightarrow> (\<exists>a. c' = c\<lparr>ss_sendBuf := a\<rparr> \<and> (ab_inv (ss_sendBuf c) \<longrightarrow> ab_inv a))"

lemma quiet_refl [simp]: "quiet c c"
  by (auto simp: quiet_def intro: exI [of _ "ss_sendBuf c"])

lemma quiet_trans [trans]: "quiet c d \<Longrightarrow> quiet d e \<Longrightarrow> quiet c e"
  by (auto simp: quiet_def)

lemma quiet_recvBuf: "quiet c d \<Longrightarrow> ss_recvBuf d = ss_recvBuf c"
  by (auto simp: quiet_def)

lemma foldR_inv:
  assumes "foldR f xs s = Inr t" "P s" "\<And>x s t. f x s = Inr t \<Longrightarrow> P s \<Longrightarrow> P t"
  shows "P t"
  using assms(1,2) by (induction xs arbitrary: s) (auto elim: bindR_InrE dest: assms(3))

lemma quiet_SendPacket_ub:
  assumes "SendPacket_ub b c = Inr d" "ub_PushData data r = Inr (n, b)" "ub_inv r"
  shows "quiet c d"
  using SendPacket_ub_keeps [OF assms(1)] ub_PushData_keeps [OF assms(2,3)] by (auto simp: quiet_def)

lemmas quiet_first = quiet_SendPacket_ub [OF _ _ ub_inv_new(1)]

lemma quiet_push:
  "bindR (ub_PushData data UnboundedBuffer_new) (\<lambda>(_, b). SendPacket_ub b c) = Inr d \<Longrightarrow> quiet c d"
  by (auto simp: bindR_eq_Inr dest: quiet_first)

lemma quiet_replies:
  "SendOkMessageToClient seq a l f w c = Inr d \<Longrightarrow> quiet c d"
  "SendErrorMessageToClient seq e st msg c = Inr d \<Longrightarrow> quiet c d"
  "push_framed seq p c = Inr d \<Longrightarrow> quiet c d"
  "exec_error pack msg c = Inr d \<Longrightarrow> quiet c d"
proof -
  show e: "SendErrorMessageToClient seq e st msg c = Inr d \<Longrightarrow> quiet c d" for e seq st
    by (simp add: SendErrorMessageToClient_def Let_def quiet_push)
  show "push_framed seq p c = Inr d \<Longrightarrow> quiet c d" by (simp add: push_framed_def quiet_push)
  show "exec_error pack msg c = Inr d \<Longrightarrow> quiet c d" by (auto simp: exec_error_def bindR_eq_Inr dest: e)
  assume "SendOkMessageToClient seq a l f w c = Inr d"
  then obtain h y b n m where p: "ub_PushData h UnboundedBuffer_new = Inr (n, y)"
    "ub_PushData (OkPacket_Pack a l f w) y = Inr (m, b)" "SendPacket_ub b c = Inr d"
    by (auto simp: SendOkMessageToClient_def Let_def bindR_eq_Inr)
  show "quiet c d" by (rule quiet_SendPacket_ub [OF p(3,2) ub_PushData_keeps [OF p(1) ub_inv_new(1)]])
qed

lemma quiet_numbered:
  assumes "foldR (\<lambda>x (n, c). bindR (push_framed n (p x) c) (\<lambda>c. Inr (n + 1, c))) xs (n, c) = Inr (m, d)"
  shows "quiet c d"
proof -
  have "quiet c (snd (m, d))"
    by (rule foldR_inv [OF assms, where P = "\<lambda>s. quiet c (snd s)"])
      (auto simp: bindR_eq_Inr dest!: quiet_replies(3) elim: quiet_trans)
  then show ?thesis by simp
qed

lemma quiet_result_set:
  assumes "SendResultSetToClient sv seq rows tab c = Inr d"
  shows "quiet c d"
  using assms
  by (auto simp: SendResultSetToClient_def Let_def bindR_eq_Inr
      dest!: quiet_first quiet_replies(3) quiet_numbered) (meson quiet_trans)

lemmas quiet_sends = quiet_replies quiet_result_set

lemma quiet_exec_stmt:
  assumes "exec_stmt R lo pack s (sv, c) = Inr (sv', d)"
  shows "quiet c d"
  using assms
  by (auto simp: exec_stmt_def exec_create_def exec_select_def exec_insert_def exec_delete_def exec_update_def
      SendCreateTableResultToClient_def SendInsertAffectRowsToClient_def SendUpdateAffectRowsToClient_def
      SendDeleteAffectRowsToClient_def bindR_eq_Inr split: stmt.splits if_splits dest!: quiet_sends)

lemma quiet_Exec:
  assumes "Exec R lo result pack (sv, c) = Inr (b, sv', d)"
  shows "quiet c d"
proof -
  obtain sv2 where "foldR (\<lambda>i s. bindR (getStatement i result) (\<lambda>stmt. exec_stmt R lo pack stmt s))
      [0..<res_size result] (sv, c) = Inr (sv2, d)"
    using assms by (auto simp: Exec_def)
  then have "quiet c (snd (sv2, d))"
    by (rule foldR_inv [where P = "\<lambda>s. quiet c (snd s)"]) (auto simp: bindR_eq_Inr dest!: quiet_exec_stmt elim: quiet_trans)
  then show ?thesis by simp
qed

lemma push_reply_frame:
  assumes "push_reply data c = Inr d"
  shows "\<exists>b a. d = c\<lparr>cl_reply := b, ss_sendBuf := a\<rparr> \<and>
    (ub_inv (cl_reply c) \<longrightarrow> ub_inv b \<and> (ab_inv (ss_sendBuf c) \<longrightarrow> ab_inv a))"
proof -
  obtain n b where b: "ub_PushData data (cl_reply c) = Inr (n, b)" "SendPacket_ub b (c\<lparr>cl_reply := b\<rparr>) = Inr d"
    using assms by (auto simp: push_reply_def bindR_eq_Inr)
  have "\<exists>a. d = c\<lparr>cl_reply := b, ss_sendBuf := a\<rparr>"
    using b(2) by (auto simp: SendPacket_ub_def SendPacket_def bindR_eq_Inr split: if_splits
        intro: exI [of _ "ss_sendBuf c"])
  then show ?thesis
    using ub_PushData_keeps [OF b(1)] SendPacket_ub_keeps [OF b(2)] by auto
qed

text \<open>The handler consumes all it is given and keeps the invariants of the buffers.\<close>

lemma HandlePacket_frame:
  assumes "HandlePacket E start c = Inr (n, d)"
  shows "n = int (length start) \<and> ss_recvBuf d = ss_recvBuf c"
  using assms
  by (auto simp: HandlePacket_def run_query_def cl_Reset_def Let_def bindR_eq_Inr split: if_splits
      dest!: push_reply_frame quiet_Exec quiet_replies(4) quiet_recvBuf)

lemma HandlePacket_keeps:
  assumes "HandlePacket E start c = Inr (n, d)" "ab_inv (ss_sendBuf c)" "ub_inv (cl_reply c)"
  shows "ab_inv (ss_sendBuf d) \<and> ub_inv (cl_reply d) \<and> so_localSock d = so_localSock c \<and> so_id d = so_id c \<and>
    so_invalid d = so_invalid c \<and> so_epollOut d = so_epollOut c"
  using assms
  by (auto simp: HandlePacket_def run_query_def cl_Reset_def Let_def bindR_eq_Inr quiet_def split: if_splits
      dest!: push_reply_frame quiet_Exec quiet_replies(4))

end
