(* ===== verification/Requests.thy ===== *)
theory Requests
  imports Session
begin

text \<open>
  Whole turns of a session: from the bytes in the receive buffer to the bytes in the send buffer.
  A turn takes everything received as one packet; a login is accepted, a statement the parser
  rejects is answered with its message, and the four row statements do to the table what they
  say and report it.
\<close>

section \<open>One turn\<close>

text \<open>The handler is called once, with all that has been received.\<close>

lemma serve_once:
  assumes "ss_inv c" "inbox c \<noteq> []"
  shows "\<exists>r. cb_inv r \<and> cb_content r = [] \<and>
    serve E c = bindR (HandlePacket E (inbox c) c) (\<lambda>(_, d). Inr (True, d\<lparr>ss_recvBuf := r\<rparr>))"
proof -
  let ?r = "cb_AdjustReadPtr (length (inbox c)) (ss_recvBuf c)"
  have r: "cb_inv ?r" "cb_content ?r = []"
    using cb_AdjustReadPtr_ok [of "ss_recvBuf c" "length (cb_content (ss_recvBuf c))"] assms(1)
    by (simp_all add: ss_inv_def inbox_def)
  show ?thesis
  proof (cases "HandlePacket E (inbox c) c")
    case (Inl e)
    with DoMsgParse_fault [OF assms] r show ?thesis by (auto simp: serve_def)
  next
    case (Inr nd)
    then obtain d where d: "HandlePacket E (inbox c) c = Inr (int (length (inbox c)), d)"
      "ss_recvBuf d = ss_recvBuf c"
      using HandlePacket_frame [of E "inbox c" c] by (cases nd) auto
    with DoMsgParse_one_message [where handle = "HandlePacket E", OF assms d] r show ?thesis
      by (auto simp: serve_def)
  qed
qed

text \<open>What a turn leaves: the replies \<open>bs\<close> queued, the receive buffer empty, the server in state \<open>sv\<close>.\<close>

definition replied :: "'st env \<Rightarrow> 'st session \<Rightarrow> byte list \<Rightarrow> 'st server \<Rightarrow> bool" where
  "replied E c bs sv \<longleftrightarrow> (\<exists>d. serve E c = Inr (True, d) \<and> ss_inv d \<and> inbox d = [] \<and>
     outbox d = outbox c @ bs \<and> se_server d = sv)"

lemma se_server_simps [simp]:
  "ss_inv (c\<lparr>se_server := sv\<rparr>) = ss_inv c" "outbox (c\<lparr>se_server := sv\<rparr>) = outbox c"
  "ss_inv (cl_Reset c) = ss_inv c" "outbox (cl_Reset c) = outbox c" "se_server (cl_Reset c) = se_server c"
  "ss_inv (c\<lparr>cl_reply := b\<rparr>) = ss_inv c" "outbox (c\<lparr>cl_reply := b\<rparr>) = outbox c"
  for c :: "'st session"
  by (simp_all add: ss_inv_def outbox_def cl_Reset_def)

lemma repliedI:
  assumes "ss_inv c" "inbox c \<noteq> []" "HandlePacket E (inbox c) c = Inr (n, d)"
    "ss_inv d" "outbox d = outbox c @ bs" "se_server d = sv"
  shows "replied E c bs sv"
proof -
  obtain r where r: "cb_inv r" "cb_content r = []" "serve E c = Inr (True, d\<lparr>ss_recvBuf := r\<rparr>)"
    using serve_once [OF assms(1,2), of E] assms(3) by auto
  then show ?thesis
    using assms(4-6) by (auto simp: replied_def ss_inv_def inbox_def outbox_def)
qed

text \<open>The reply buffer of a client between two packets.\<close>

definition reply_clear :: "'a Client_scheme \<Rightarrow> bool" where
  "reply_clear c \<longleftrightarrow> ub_inv (cl_reply c) \<and> ub_content (cl_reply c) = []"

lemma push_reply_ok:
  assumes "ss_inv c" "reply_clear c" "ss_room c (length bs)"
  shows "\<exists>d. push_reply bs c = Inr d \<and> ss_inv d \<and> outbox d = outbox c @ bs \<and> inbox d = inbox c \<and>
    ub_inv (cl_reply d) \<and> (\<exists>b a. d = c\<lparr>cl_reply := b, ss_sendBuf := a\<rparr>)"
proof -
  obtain b where b: "ub_PushData bs (cl_reply c) = Inr (length bs, b)" "ub_inv b" "ub_content b = bs"
    using ub_PushData_ok [of "cl_reply c" bs] assms by (auto simp: reply_clear_def ss_room_def)
  let ?c = "c\<lparr>cl_reply := b\<rparr>"
  have "ss_inv ?c" "length (outbox ?c) + length (ub_content b) \<le> MAX_BUFFER_SIZE"
    using assms b(3) by (simp_all add: ss_inv_def ss_room_def outbox_def)
  from SendPacket_ub_ok [OF this(1) b(2) this(2)]
  obtain a where "SendPacket_ub b ?c = Inr (?c\<lparr>ss_sendBuf := a\<rparr>)" "ab_inv a" "ab_content a = outbox ?c @ bs"
    using b(3) by auto
  with b assms(1) show ?thesis
    by (intro exI [of _ "?c\<lparr>ss_sendBuf := a\<rparr>"])
      (auto simp: push_reply_def ss_inv_def outbox_def inbox_def)
qed

section \<open>Requests\<close>

text \<open>A \<open>COM_QUERY\<close> packet: length, sequence number, command byte and the text.\<close>

definition query_packet :: "u8 \<Rightarrow> string \<Rightarrow> byte list" where
  "query_packet seq sql = [word_of_nat (length sql + 1), 0, 0, seq, 3] @ bytes_of sql"

definition version_comment :: string where
  "version_comment = ''select @@version_comment limit 1''"

text \<open>The receive buffer holds one request, which is not a login and not the version query.\<close>

definition asks :: "'st session \<Rightarrow> u8 \<Rightarrow> string \<Rightarrow> bool" where
  "asks c seq sql \<longleftrightarrow> ss_inv c \<and> inbox c = query_packet seq sql \<and> seq \<noteq> INIT_PACKET_CNT \<and> sql \<noteq> version_comment"

lemma HandlePacket_query:
  assumes "seq \<noteq> INIT_PACKET_CNT" "sql \<noteq> version_comment"
  shows "HandlePacket E (query_packet seq sql) c =
    bindR (run_query E sql (string_of (query_packet seq sql)) c) (\<lambda>d. Inr (int (length (query_packet seq sql)), d))"
proof -
  have s: "string_of (drop 5 (query_packet seq sql)) = sql" by (simp add: query_packet_def)
  have l: "\<not> length (query_packet seq sql) < 5" "nthR (query_packet seq sql) 3 = Inr seq"
    by (simp_all add: query_packet_def eval_nat_numeral)
  show ?thesis using assms l by (simp add: HandlePacket_def Let_def s version_comment_def)
qed

lemma asks_turn:
  assumes "asks c seq sql"
  shows "inbox c \<noteq> []" "HandlePacket E (inbox c) c =
      bindR (run_query E sql (string_of (inbox c)) c) (\<lambda>d. Inr (int (length (inbox c)), d))"
    "reply_seq (string_of (inbox c)) = Inr (seq + 1)"
proof -
  show "inbox c \<noteq> []" using assms by (simp add: asks_def query_packet_def)
  show "HandlePacket E (inbox c) c =
      bindR (run_query E sql (string_of (inbox c)) c) (\<lambda>d. Inr (int (length (inbox c)), d))"
    using assms unfolding asks_def by (elim conjE) (simp only: HandlePacket_query not_False_eq_True)
  have "nthR (string_of (query_packet seq sql) @ [CHR 0x00]) 3 = Inr (char_of_u8 seq)"
    by (simp add: query_packet_def string_of_def eval_nat_numeral)
  then show "reply_seq (string_of (inbox c)) = Inr (seq + 1)"
    using assms by (simp add: asks_def reply_seq_def)
qed

lemma replied_query:
  assumes "asks c seq sql" "run_query E sql (string_of (inbox c)) c = Inr d"
    "ss_inv d" "outbox d = outbox c @ bs" "se_server d = sv"
  shows "replied E c bs sv"
proof (rule repliedI)
  show "HandlePacket E (inbox c) c = Inr (int (length (inbox c)), d)"
    using asks_turn(2) [OF assms(1)] assms(2) by simp
qed (use assms asks_turn(1) [OF assms(1)] in \<open>auto simp: asks_def\<close>)

text \<open>The parser makes one statement of it.\<close>

definition means :: "'st env \<Rightarrow> string \<Rightarrow> stmt \<Rightarrow> bool" where
  "means E sql s \<longleftrightarrow> (\<exists>result. parse_query E sql = Inr result \<and> isValid result \<and> res_statements result = [s])"

lemma replied_statement:
  assumes "asks c seq sql" "means E sql s" "ss_room c (length bs)"
    "\<And>pack. reply_seq pack = Inr (seq + 1) \<Longrightarrow>
      \<exists>f. exec_stmt (en_redis E) (en_leftovers E) pack s (se_server c, c) = bindR (f c) (\<lambda>d. Inr (sv, d))
        \<and> replies.sends f bs"
  shows "replied E c bs sv"
proof -
  let ?pack = "string_of (inbox c)"
  obtain f where f: "exec_stmt (en_redis E) (en_leftovers E) ?pack s (se_server c, c) = bindR (f c) (\<lambda>d. Inr (sv, d))"
    "replies.sends f bs"
    using assms(4) asks_turn(3) [OF assms(1)] by blast
  obtain d where d: "f c = Inr d" "ss_queued c bs d"
    using replies.sendsD [OF f(2) _ assms(3)] assms(1) by (auto simp: asks_def)
  have "run_query E sql ?pack c = Inr (d\<lparr>se_server := sv\<rparr>)"
    using assms(2) f(1) d(1)
    by (auto simp: run_query_def means_def Exec_def res_size_def getStatement_def)
  then show ?thesis
    by (rule replied_query [OF assms(1)]) (use d(2) in \<open>simp_all add: ss_queued_def\<close>)
qed

section \<open>The four statements\<close>

lemma serving_has: "serving sv dbname tab cols \<Longrightarrow> sv_HasTable sv tab = Inr True"
  by (auto simp: serving_def CurDB_def CurTable_def sv_HasTable_def HasTable_def bindR_eq_Inr deref_def
      split: option.splits)

text \<open>The value of a literal, as an insertion reads it.\<close>

definition literal_value :: "Expr \<Rightarrow> string option" where
  "literal_value e = (case e_type e of kExprLiteralString \<Rightarrow> e_name e
     | kExprLiteralInt \<Rightarrow> Some (to_string (e_ival e)) | _ \<Rightarrow> None)"

lemma values_loop_literals: "map literal_value es = map Some vals \<Longrightarrow> values_loop es acc = Inr (acc @ vals)"
proof (induction es arbitrary: vals acc)
  case (Cons e es)
  then obtain v vs where v: "vals = v # vs" "literal_value e = Some v" "map literal_value es = map Some vs"
    by (cases vals) auto
  with Cons.IH [OF v(3)] show ?case by (auto simp: literal_value_def split: ExprType.splits)
qed simp

definition listed :: "string list \<Rightarrow> string list \<Rightarrow> TableColumn list" where
  "listed names vals = map2 (\<lambda>n v. TableColumn_val n DT_UNKNOWN v) names vals"

lemma AnalyzeInsert_listed:
  assumes "sv_HasTable sv tab = Inr True" "ins_tableName stmt = Some tab" "ins_columns stmt = Some names"
    "ins_values stmt = Some es" "map literal_value es = map Some vals" "length names = length vals"
  shows "AnalyzeInsertStatement sv stmt = Inr (True, tab, listed names vals)"
proof -
  have step: "foldR (\<lambda>i acc. bindR (nthR names i) (\<lambda>name. bindR (nthR vals i) (\<lambda>v.
      Inr (acc @ [TableColumn_val name DT_UNKNOWN v])))) is acc =
    Inr (acc @ map (\<lambda>i. TableColumn_val (names ! i) DT_UNKNOWN (vals ! i)) is)"
    if "set is \<subseteq> {0..<length names}" for "is" acc
    using that assms(6) by (induction "is" arbitrary: acc) auto
  have "map (\<lambda>i. TableColumn_val (names ! i) DT_UNKNOWN (vals ! i)) [0..<length names] = listed names vals"
    using assms(6) by (intro nth_equalityI) (simp_all add: listed_def)
  with step [of "[0..<length names]" "[]"] assms show ?thesis
    by (simp add: AnalyzeInsertStatement_def values_loop_literals [OF assms(5)])
qed

lemma sends_ok_frame:
  "ss_room c 27 \<Longrightarrow> ss_room c (length (framed seq (OkPacket_Pack a l s w)))"
  using length_OkPacket [of a l s w] by (auto simp: ss_room_def)

text \<open>A comparison of a column with a string literal.\<close>

definition compares :: "Expr \<Rightarrow> OperatorType \<Rightarrow> string \<Rightarrow> string \<Rightarrow> bool" where
  "compares e op f k \<longleftrightarrow> e_type e = kExprOperator \<and> e_opType e = op \<and>
     (\<exists>l r. e_expr e = Some l \<and> e_name l = Some f \<and> e_expr2 e = Some r \<and> e_name r = Some k)"

lemma condition_of_compares: "compares e op f k \<Longrightarrow> condition_of e = Inr (op, f, k)"
  by (auto simp: compares_def condition_of_def)

section \<open>Properties\<close>

text \<open>An \<open>INSERT\<close> request that lists every column of its table with a literal for each: the
  row is stored under its first listed value, its values in the order of the columns, no other row
  and no other table changes, and the client gets one OK packet that reports one row.\<close>

lemma insert_request:
  assumes "asks c seq sql" "means E sql (SInsert stmt)" "ss_room c 27"
    "kv_laws (en_redis E) view" "serving (se_server c) dbname tab cols"
    "ins_tableName stmt = Some tab" "ins_columns stmt = Some names" "ins_values stmt = Some es"
    "map literal_value es = map Some (v # vals)" "length names = length (v # vals)"
    "covers cols (listed names (v # vals))" "row_ok (in_order cols (listed names (v # vals)))" "plain v"
  shows "\<exists>st'. replied E c (framed (seq + 1) (OkPacket_Pack 1 0 2 0)) ((se_server c)\<lparr>sv_store := st'\<rparr>) \<and>
    table_rows view dbname tab st' = (table_rows view dbname tab (sv_store (se_server c)))
      (v \<mapsto> in_order cols (listed names (v # vals))) \<and>
    (\<forall>d t. ident d \<and> ident t \<and> (d, t) \<noteq> (dbname, tab) \<longrightarrow>
      table_rows view d t st' = table_rows view d t (sv_store (se_server c)))"
proof -
  let ?tuple = "listed names (v # vals)"
  have hd: "?tuple \<noteq> []" "GetVal (hd ?tuple) = v"
    using assms(10) by (cases names; simp add: listed_def TableColumn_val_def GetVal_def)+
  obtain st' where st': "InsertRowToPMemKV (en_redis E) tab ?tuple (se_server c) =
      Inr (1, (se_server c)\<lparr>sv_store := st'\<rparr>)"
    "table_rows view dbname tab st' = (table_rows view dbname tab (sv_store (se_server c)))(v \<mapsto> in_order cols ?tuple)"
    "\<forall>d t. ident d \<and> ident t \<and> (d, t) \<noteq> (dbname, tab) \<longrightarrow>
      table_rows view d t st' = table_rows view d t (sv_store (se_server c))"
    using insert_adds_row [OF assms(4,5,11) hd(1) assms(12)] assms(13) unfolding hd(2) by blast
  have an: "AnalyzeInsertStatement (se_server c) stmt = Inr (True, tab, ?tuple)"
    by (rule AnalyzeInsert_listed [OF serving_has [OF assms(5)] assms(6-10)])
  have "replied E c (framed (seq + 1) (OkPacket_Pack 1 0 2 0)) ((se_server c)\<lparr>sv_store := st'\<rparr>)"
    by (rule replied_statement [OF assms(1,2) sends_ok_frame [OF assms(3)]])
      (auto simp: exec_stmt_def exec_insert_def an st'(1) SendInsertAffectRowsToClient_def
        intro!: exI [of _ "SendOkMessageToClient (seq + 1) 1 0 2 0"] sends_ok)
  with st'(2,3) show ?thesis by blast
qed

text \<open>A \<open>SELECT\<close> request for a key: the client gets the result set with the row stored under the
  key, labelled with the columns of the table, or with no row, and the server does not change.\<close>

lemma select_request:
  assumes "asks c seq sql" "means E sql (SSelect stmt)"
    "kv_laws (en_redis E) view" "serving (se_server c) dbname tab cols" "plain k"
    "sel_fromTable stmt = Some tr" "tr_name tr = Some tab" "sel_whereClause stmt = Some e" "compares e kOpEquals f k"
    "sel_limit stmt = None \<or> (\<exists>l x. sel_limit stmt = Some l \<and> ld_limit l = Some x)"
    "rows = (case table_rows view dbname tab (sv_store (se_server c)) k of None \<Rightarrow> [] | Some vals \<Rightarrow> [labelled cols vals])"
    "\<And>vals. table_rows view dbname tab (sv_store (se_server c)) k = Some vals \<Longrightarrow> length vals = length cols"
    "bs = frames 1 (result_packets dbname tab (DataTable_new tab cols) rows)" "ss_room c (length bs)"
  shows "replied E c bs (se_server c)"
proof -
  obtain db where db: "CurDB (se_server c) = Inr db" "GetDbName db = dbname"
    and t: "CurTable (se_server c) tab = Inr (DataTable_new tab cols)"
    using assms(4) by (auto simp: serving_def)
  let ?q = "Query_new (lo_op (en_leftovers E)) (lo_limit (en_leftovers E)) (lo_offset (en_leftovers E))"
  obtain lim where an: "AnalyzeSelectStatement (se_server c) stmt ?q =
      Inr (True, ?q\<lparr>q_tab := tab, q_op := kOpEquals, q_field := f, q_value := k, q_limit := lim\<rparr>)"
    using assms(6-10) serving_has [OF assms(4)] condition_of_compares [OF assms(9)]
    by (auto simp: AnalyzeSelectStatement_def compares_def Let_def)
  let ?q' = "?q\<lparr>q_tab := tab, q_op := kOpEquals, q_field := f, q_value := k, q_limit := lim\<rparr>"
  have sel: "SelectRowsFromPMemKV (en_redis E) (se_server c) ?q' = Inr rows"
    unfolding assms(11) by (rule select_finds_row [OF assms(3-5,12)]) (simp_all add: Query_new_def)
  have "exec_stmt (en_redis E) (en_leftovers E) pack (SSelect stmt) (se_server c, c) =
      bindR (SendResultSetToClient (se_server c) (seq + 1) rows tab c) (\<lambda>d. Inr (se_server c, d))"
    if "reply_seq pack = Inr (seq + 1)" for pack
    using that by (simp add: exec_stmt_def exec_select_def an sel)
  moreover have "replies.sends (SendResultSetToClient (se_server c) (seq + 1) rows tab) bs"
    unfolding assms(13) db(2) [symmetric] by (rule sends_result_set [OF db(1) t])
  ultimately show ?thesis by (intro replied_statement [OF assms(1,2,14)]) blast
qed

text \<open>An \<open>UPDATE\<close> request that sets a column to a string where any column equals \<open>k\<close>: the row
  under the key \<open>k\<close>, whatever column the comparison names, gets the new value in that column; no
  other row or table changes; the OK packet reports one row, or none and a server as before.\<close>

lemma update_request:
  assumes "asks c seq sql" "means E sql (SUpdate stmt)" "ss_room c 27"
    "kv_laws (en_redis E) view" "serving (se_server c) dbname tab cols" "plain k"
    "upd_table stmt = Some tr" "tr_name tr = Some tab"
    "upd_updates stmt = Some (\<lparr>uc_column = Some (GetColName (cols ! i)), uc_value = Some x\<rparr> # us)" "e_name x = Some val"
    "upd_where stmt = Some e" "compares e kOpEquals f k" "i < length cols"
    "\<And>vals. table_rows view dbname tab (sv_store (se_server c)) k = Some vals \<Longrightarrow>
      length vals = length cols \<and> row_ok (vals[i := val])"
    "before = table_rows view dbname tab (sv_store (se_server c))"
  shows "\<exists>st'. replied E c (framed (seq + 1) (OkPacket_Pack (if before k = None then 0 else 1) 0 2 1))
      ((se_server c)\<lparr>sv_store := st'\<rparr>) \<and>
    table_rows view dbname tab st' = (case before k of None \<Rightarrow> before | Some vals \<Rightarrow> before(k \<mapsto> vals[i := val])) \<and>
    (\<forall>d t. ident d \<and> ident t \<and> (d, t) \<noteq> (dbname, tab) \<longrightarrow>
      table_rows view d t st' = table_rows view d t (sv_store (se_server c)))"
proof -
  let ?n = "if before k = None then 0 else 1 :: u64"
  have an: "AnalyzeUpdateStatement (se_server c) stmt op =
      Inr (True, tab, GetColName (cols ! i), val, kOpEquals, f, k)" for op
    using assms(7-11) serving_has [OF assms(5)] condition_of_compares [OF assms(12)] assms(12)
    by (simp add: AnalyzeUpdateStatement_def compares_def)
  obtain st' where st': "UpdateRowInPMemKV (en_redis E) tab (GetColName (cols ! i)) val kOpEquals f k (se_server c) =
      Inr (?n, (se_server c)\<lparr>sv_store := st'\<rparr>)"
    "table_rows view dbname tab st' = (case before k of None \<Rightarrow> before | Some vals \<Rightarrow> before(k \<mapsto> vals[i := val]))"
    "\<forall>d t. ident d \<and> ident t \<and> (d, t) \<noteq> (dbname, tab) \<longrightarrow>
      table_rows view d t st' = table_rows view d t (sv_store (se_server c))"
  proof (cases "before k")
    case None
    then show ?thesis
      using update_changes_value [OF assms(4-6,13,14), of kOpEquals f] assms(15)
      by (intro that [of "sv_store (se_server c)"]) simp_all
  next
    case (Some vals)
    then show ?thesis
      using update_changes_value [OF assms(4-6,13,14), of kOpEquals f] assms(15) that by auto
  qed
  have "replied E c (framed (seq + 1) (OkPacket_Pack ?n 0 2 1)) ((se_server c)\<lparr>sv_store := st'\<rparr>)"
    by (rule replied_statement [OF assms(1,2) sends_ok_frame [OF assms(3)]])
      (auto simp: exec_stmt_def exec_update_def an st'(1) SendUpdateAffectRowsToClient_def
        intro!: exI [of _ "SendOkMessageToClient (seq + 1) ?n 0 2 1"] sends_ok)
  with st'(2,3) show ?thesis by blast
qed

text \<open>A \<open>DELETE\<close> request for a key removes the row under the key, whatever column the comparison
  names, and nothing else; the OK packet reports one row, present or not.\<close>

lemma delete_request:
  assumes "asks c seq sql" "means E sql (SDelete stmt)" "ss_room c 27"
    "kv_laws (en_redis E) view" "serving (se_server c) dbname tab cols" "plain k"
    "del_tableName stmt = Some tab" "del_expr stmt = Some e" "compares e kOpEquals f k" "(f, k) \<noteq> (''1'', ''1'')"
  shows "\<exists>st'. replied E c (framed (seq + 1) (OkPacket_Pack 1 0 2 1)) ((se_server c)\<lparr>sv_store := st'\<rparr>) \<and>
    table_rows view dbname tab st' = (table_rows view dbname tab (sv_store (se_server c)))(k := None) \<and>
    (\<forall>d t. ident d \<and> ident t \<and> (d, t) \<noteq> (dbname, tab) \<longrightarrow>
      table_rows view d t st' = table_rows view d t (sv_store (se_server c)))"
proof -
  have an: "AnalyzeDeleteStatement (se_server c) stmt op = Inr (True, tab, kOpEquals, f, k)" for op
    using assms(7,8) serving_has [OF assms(5)] condition_of_compares [OF assms(9)] assms(9)
    by (simp add: AnalyzeDeleteStatement_def compares_def)
  obtain st' where st': "DeleteRowsInPMemKV (en_redis E) (lo_object (en_leftovers E)) tab kOpEquals f k (se_server c) =
      Inr (1, (se_server c)\<lparr>sv_store := st'\<rparr>)"
    "table_rows view dbname tab st' = (table_rows view dbname tab (sv_store (se_server c)))(k := None)"
    "\<forall>d t. ident d \<and> ident t \<and> (d, t) \<noteq> (dbname, tab) \<longrightarrow>
      table_rows view d t st' = table_rows view d t (sv_store (se_server c))"
    using delete_removes_row [OF assms(4-6,10)] by blast
  have "replied E c (framed (seq + 1) (OkPacket_Pack 1 0 2 1)) ((se_server c)\<lparr>sv_store := st'\<rparr>)"
    by (rule replied_statement [OF assms(1,2) sends_ok_frame [OF assms(3)]])
      (auto simp: exec_stmt_def exec_delete_def an st'(1) SendDeleteAffectRowsToClient_def
        intro!: exI [of _ "SendOkMessageToClient (seq + 1) 1 0 2 1"] sends_ok)
  with st'(2,3) show ?thesis by blast
qed

text \<open>C6: A \<open>CREATE TABLE\<close> request for a new table: from then on the server serves the table with the
  requested columns, its schema is in the store, and the OK packet reports one row.\<close>

theorem create_request:
  assumes "asks c seq sql" "means E sql (SCreate stmt)" "ss_room c 27"
    "kv_laws (en_redis E) view" "CurDB (se_server c) = Inr db" "ident (GetDbName db)" "GetTable tab db = None"
    "cs_tableName stmt = Some tab" "cs_columns stmt = Some defs" "map cd_name defs = map Some names"
    "cols = map2 (\<lambda>n d. TableColumn_new n (ct_data_type (cd_type d))) names defs"
    "table_ok (tab, cols)" "distinct names" "length cols < 2 ^ 63"
  shows "\<exists>sv'. replied E c (framed (seq + 1) (OkPacket_Pack 1 0 2 0)) sv' \<and> serving sv' (GetDbName db) tab cols \<and>
    view (sv_store sv') = (view (sv_store (se_server c)))
      (fst (saved (GetDbName db) (tab, cols)) \<mapsto> snd (saved (GetDbName db) (tab, cols)))"
proof -
  have cols: "foldR (\<lambda>c col_defs. bindR (deref (cd_name c)) (\<lambda>name.
      Inr (col_defs @ [TableColumn_new name (ct_data_type (cd_type c))]))) defs acc = Inr (acc @ cols)" for acc
    using assms(10) unfolding assms(11)
  proof (induction defs arbitrary: names acc)
    case (Cons d ds)
    then show ?case by (cases names) auto
  qed simp
  have "length names = length defs" using assms(10) by (metis length_map)
  then have names: "map GetColName cols = names"
    unfolding assms(11) by (induction names defs rule: list_induct2) (simp_all add: TableColumn_new_def GetColName_def)
  have an: "AnalyzeCreateTableStatement stmt = Inr (True, tab, cols)"
    by (simp add: AnalyzeCreateTableStatement_def assms(8,9) cols)
  obtain d a where d: "sv_dbms (se_server c) = Some d" "dm_cur_db d = Some a" "a < length (dm_heap d)"
    "db = dm_heap d ! a"
    using assms(5) by (auto simp: CurDB_def deref_def cur_db_def nthR_def split: option.splits if_splits)
  let ?db = "db\<lparr>db_tables := insert_new tab (DataTable_new tab cols) (db_tables db), db_table_count := db_table_count db + 1\<rparr>"
  obtain st' where st': "CreateTable (en_redis E) tab cols db (sv_store (se_server c)) = (True, ?db, st')"
    "view st' = (view (sv_store (se_server c)))
      (fst (saved (GetDbName db) (tab, cols)) \<mapsto> snd (saved (GetDbName db) (tab, cols)))"
    using CreateTable_saved [OF assms(4), of db tab cols "sv_store (se_server c)"] assms(6,12) by (auto simp: GetDbName_def)
  let ?sv = "(se_server c)\<lparr>sv_dbms := Some (d\<lparr>dm_heap := (dm_heap d)[a := ?db]\<rparr>), sv_store := st'\<rparr>"
  have cr: "CreateTableMetaToPMemKV (en_redis E) tab cols (se_server c) = Inr (1, ?sv)"
    using d st'(1) by (simp add: CreateTableMetaToPMemKV_def cur_CreateTable_def)
  have cur: "CurDB ?sv = Inr ?db" using d by (simp add: CurDB_def cur_db_def)
  have "replied E c (framed (seq + 1) (OkPacket_Pack 1 0 2 0)) ?sv"
    by (rule replied_statement [OF assms(1,2) sends_ok_frame [OF assms(3)]])
      (auto simp: exec_stmt_def exec_create_def an cr SendCreateTableResultToClient_def
        intro!: exI [of _ "SendOkMessageToClient (seq + 1) 1 0 2 0"] sends_ok)
  moreover have "serving ?sv (GetDbName db) tab cols"
    using cur assms(6,7,12,13,14) names
    by (simp add: serving_def CurTable_def GetDbName_def GetTable_def insert_new_def table_ok_def domIff)
  ultimately show ?thesis using st'(2) by (intro exI [of _ ?sv]) simp
qed

text \<open>C7: A request the parser does not accept is answered with one error packet that carries the
  parser's message, under the next sequence number; the server does not change.\<close>

theorem rejected_request:
  assumes "asks c seq sql" "parse_query E sql = Inr result" "\<not> isValid result" "errorMsg result = Some msg"
    "bs = framed (seq + 1) (ErrPacket_Pack 50 ''ABCDE'' msg)" "ss_room c (length bs)"
  shows "replied E c bs (se_server c)"
proof -
  obtain d where d: "SendErrorMessageToClient (seq + 1) 50 ''ABCDE'' msg c = Inr d" "ss_queued c bs d"
    using replies.sendsD [OF sends_error, of c "seq + 1" 50 "''ABCDE''" msg] assms(1,6) unfolding assms(5)
    by (auto simp: asks_def)
  then have "run_query E sql (string_of (inbox c)) c = Inr d"
    using assms(2-4) asks_turn(3) [OF assms(1)] by (simp add: run_query_def exec_error_def)
  then show ?thesis
    by (rule replied_query [OF assms(1)]) (use d(2) in \<open>auto simp: ss_queued_def\<close>)
qed


text \<open>C37: Fewer than five bytes in the receive buffer stop the server: with four the construction of
  the request text throws, with fewer the sequence number is read past the end.\<close>

theorem short_packet_stops_server:
  assumes "ss_inv c" "inbox c \<noteq> []" "length (inbox c) < 5"
  shows "serve E c = Inl (if length (inbox c) = 4 then LengthError else OutOfBounds)"
proof -
  have "HandlePacket E (inbox c) c = Inl (if length (inbox c) = 4 then LengthError else OutOfBounds)"
    using assms(3) by (auto simp: HandlePacket_def)
  with DoMsgParse_fault [OF assms(1,2)] show ?thesis by (simp add: serve_def)
qed

lemma greeting_length: "length (GreetingPacket_Pack (GreetingPacket_new rnd 1 ''UHP-SQL-v0.1'')) = 80"
  unfolding GreetingPacket_layout
  by (simp add: GreetingPacket_new_def emit_def write_defs DEFAULT_AUTH_PLUGIN_NAME_def)

text \<open>C9: A new connection is greeted: the frame in the send buffer carries sequence number 0 and the
  greeting of the server, and its length byte is the number of bytes that follow the header.\<close>

theorem greeting_queued:
  assumes "ss_inv c" "reply_clear c" "ss_room c 84" "g = GreetingPacket_new rnd 1 ''UHP-SQL-v0.1''"
  shows "\<exists>d. OnConnect rnd c = Inr d \<and> ss_inv d \<and> reply_clear d \<and> inbox d = inbox c \<and>
    outbox d = outbox c @ [80, 0, 0, 0] @ GreetingPacket_Pack g \<and> length (GreetingPacket_Pack g) = 80"
proof -
  have len: "length (GreetingPacket_Pack g) = 80" unfolding assms(4) by (rule greeting_length)
  let ?bs = "[80, 0, 0, 0] @ GreetingPacket_Pack g"
  have "ss_room c (length ?bs)" using assms(3) len by simp
  then obtain d b a where d: "push_reply ?bs c = Inr d" "ss_inv d" "outbox d = outbox c @ ?bs" "inbox d = inbox c"
    "ub_inv (cl_reply d)" "d = c\<lparr>cl_reply := b, ss_sendBuf := a\<rparr>"
    using push_reply_ok [OF assms(1,2)] by blast
  then have "OnConnect rnd c = Inr (cl_Reset d)"
    using len assms(4) by (simp add: OnConnect_def Let_def)
  with d len show ?thesis
    by (auto simp: cl_Reset_def reply_clear_def ss_inv_def outbox_def inbox_def)
qed

text \<open>The second of two requests in one read reaches the parser as one more character.\<close>

lemma exec_stmt_pack:
  assumes "reply_seq pack = reply_seq pack'"
  shows "exec_stmt R lo pack s = exec_stmt R lo pack' s"
  unfolding exec_stmt_def exec_create_def exec_select_def exec_insert_def exec_delete_def exec_update_def
    exec_error_def assms ..

lemma run_query_pack:
  assumes "reply_seq pack = reply_seq pack'"
  shows "run_query E sql pack c = run_query E sql pack' c"
  unfolding run_query_def Let_def Exec_def exec_error_def exec_stmt_pack [OF assms] assms ..

text \<open>C36: Requests are not told apart: when two have arrived before the turn, the second is lost, and
  the first is run with the length byte of the second as one more character of its text.\<close>

theorem second_request_is_lost:
  assumes "ss_inv c" "inbox c = query_packet s1 sql1 @ query_packet s2 sql2" "s1 \<noteq> INIT_PACKET_CNT"
    "CHR 0x00 \<notin> set sql1" "ch = char_of_u8 (word_of_nat (length sql2 + 1))" "ch \<noteq> CHR 0x00"
    "sql1 @ [ch] \<noteq> version_comment"
  shows "\<exists>r. cb_inv r \<and> cb_content r = [] \<and>
    serve E c = bindR (HandlePacket E (query_packet s1 (sql1 @ [ch])) c) (\<lambda>(_, d). Inr (True, d\<lparr>ss_recvBuf := r\<rparr>))"
proof -
  let ?tail = "[CHR 0x00, CHR 0x00, char_of_u8 s2, CHR 0x03] @ sql2"
  let ?text = "sql1 @ [ch] @ ?tail"
  have zero: "char_of_u8 0 = CHR 0x00" "char_of_u8 3 = CHR 0x03" by code_simp+
  have chars: "map char_of_u8 (bytes_of s) = s" for s using string_of_bytes_of [of s] by (simp add: string_of_def)
  have tx: "string_of (drop 5 (inbox c)) = ?text"
    by (simp add: assms(2,5) query_packet_def string_of_def zero chars)
  have cut: "c_str ?text = sql1 @ [ch]" "c_str (sql1 @ [ch]) = sql1 @ [ch]"
    using assms(4,6) by (auto simp: c_str_def takeWhile_append takeWhile_eq_all_conv)
  then have pq: "parse_query E ?text = parse_query E (sql1 @ [ch])"
    by (simp add: parse_query_def parse_def)
  have "CHR 0x00 \<in> set ?text" "CHR 0x00 \<notin> set version_comment" by (simp_all add: version_comment_def)
  then have vc: "?text \<noteq> version_comment" by metis
  have seq: "reply_seq (string_of (inbox c)) = reply_seq (string_of (query_packet s1 (sql1 @ [ch])))"
    by (simp add: assms(2) query_packet_def reply_seq_def string_of_def eval_nat_numeral)
  have "HandlePacket E (inbox c) c = bindR (run_query E ?text (string_of (inbox c)) c) (\<lambda>d. Inr (int (length (inbox c)), d))"
    using vc assms(2,3) tx by (simp add: HandlePacket_def version_comment_def query_packet_def eval_nat_numeral)
  moreover have "HandlePacket E (query_packet s1 (sql1 @ [ch])) c =
      bindR (run_query E (sql1 @ [ch]) (string_of (query_packet s1 (sql1 @ [ch]))) c)
        (\<lambda>d. Inr (int (length (query_packet s1 (sql1 @ [ch]))), d))"
    by (rule HandlePacket_query [OF assms(3,7)])
  moreover have "run_query E ?text (string_of (inbox c)) c = run_query E (sql1 @ [ch]) (string_of (query_packet s1 (sql1 @ [ch]))) c"
    unfolding run_query_pack [OF seq] unfolding run_query_def pq ..
  moreover have "inbox c \<noteq> []" by (simp add: assms(2) query_packet_def)
  ultimately show ?thesis
    using serve_once [OF assms(1), of E] by (simp add: bindR_assoc)
qed

section \<open>A session to apply them to\<close>

definition ring_of :: "byte list \<Rightarrow> CircularBuffer" where
  "ring_of bs = \<lparr>cb_maxSize = 1024, cb_readPos = 0, cb_writePos = length bs,
     cb_buffer = bs @ replicate (1024 - length bs) 0\<rparr>"

lemma ring_of:
  assumes "length bs < 1024"
  shows "cb_inv (ring_of bs)" "cb_content (ring_of bs) = bs"
  using assms by (auto simp: ring_of_def cb_inv_def cb_content_def intro!: exI [of _ 10])

definition sample_session :: "byte list \<Rightarrow> 'st server \<Rightarrow> 'st session" where
  "sample_session bs sv =
     \<lparr>so_localSock = 5, so_epollOut = False, so_invalid = False, so_id = 1, ss_peerAddr = SocketAddr_Clear,
      ss_recvBuf = ring_of bs, ss_sendBuf = ss_sendBuf sample_socket, cl_reply = UnboundedBuffer_new,
      cl_parser = ProtoParser_new, se_server = sv\<rparr>"

lemma sample_session:
  assumes "length bs < 1024"
  shows "ss_inv (sample_session bs sv)" "inbox (sample_session bs sv) = bs" "outbox (sample_session bs sv) = []"
    "reply_clear (sample_session bs sv)" "se_server (sample_session bs sv) = sv"
    "n \<le> MAX_BUFFER_SIZE \<Longrightarrow> ss_room (sample_session bs sv) n"
  using ring_of [OF assms] sample_socket
  by (simp_all add: sample_session_def ss_inv_def inbox_def outbox_def reply_clear_def ss_room_def)

text \<open>A parser that makes the given statement of every text, and one that rejects every text.\<close>

definition sample_env :: "stmt \<Rightarrow> (string \<times> string) list env" where
  "sample_env s = \<lparr>en_redis = list_redis,
     en_leftovers = \<lparr>lo_op = kOpNone, lo_limit = 0, lo_offset = 0, lo_object = (\<lambda>s. s)\<rparr>,
     en_lex_fails = False, en_parse = (\<lambda>sql r. Inr (0, addStatement s r)), en_line = 0, en_column = 0\<rparr>"

definition rejecting_env :: "(string \<times> string) list env" where
  "rejecting_env = (sample_env (SDelete DeleteStatement_new))\<lparr>en_parse := (\<lambda>sql r. Inr (1, setErrorDetails (Some ''syntax error'') 1 2 r))\<rparr>"

lemma sample_env [simp]: "en_redis (sample_env s) = list_redis" "means (sample_env s) sql s"
  by (simp_all add: sample_env_def means_def parse_query_def parse_def isValid_def setIsValid_def addStatement_def
      SQLParserResult_new_def)

lemma sample_asks:
  assumes "length sql < 1000" "sql \<noteq> version_comment"
  shows "asks (sample_session (query_packet 0 sql) sv) 0 sql"
  using assms sample_session [where bs = "query_packet 0 sql" and sv = sv]
  by (simp add: asks_def query_packet_def INIT_PACKET_CNT_def)

lemma small_text: "length ''select'' < 1000" "''select'' \<noteq> version_comment" "length (query_packet 0 ''select'') < 1024"
  by (simp_all add: version_comment_def query_packet_def)

lemmas select_asks = sample_asks [OF small_text(1,2)] and select_session = sample_session [OF small_text(3)]

definition create_u :: CreateStatement where
  "create_u = (CreateStatement_new kCreateTable)\<lparr>cs_tableName := Some ''u'', cs_columns :=
     Some [ColumnDefinition_new (Some ''id'') (ColumnType_new DT_INT 0 (ColumnSpecification_of 0 0)) []]\<rparr>"

theorem create_request_witness:
  "\<exists>sv'. replied (sample_env (SCreate create_u)) (sample_session (query_packet 0 ''select'') (sample_server []))
      (framed 1 (OkPacket_Pack 1 0 2 0)) sv' \<and> serving sv' ''default'' ''u'' [TableColumn_new ''id'' DT_INT]"
proof -
  let ?c = "sample_session (query_packet 0 ''select'') (sample_server [])"
  let ?db = "\<lparr>db_table_count = 1, db_name = ''default'', db_tables = [''t'' \<mapsto> DataTable_new ''t'' sample_cols]\<rparr>"
  let ?defs = "[ColumnDefinition_new (Some ''id'') (ColumnType_new DT_INT 0 (ColumnSpecification_of 0 0)) []]"
  have kv: "kv_laws (en_redis (sample_env (SCreate create_u))) map_of" by (simp add: kv_laws_list)
  have room: "ss_room ?c 27" by (simp add: select_session MAX_BUFFER_SIZE_def)
  have db: "CurDB (se_server ?c) = Inr ?db" "ident (GetDbName ?db)" "GetTable ''u'' ?db = None"
    using ident_default by (simp_all add: select_session CurDB_def sample_server_def cur_db_def GetDbName_def GetTable_def)
  have def1: "map cd_name ?defs = map Some [''id'']" "ct_data_type (cd_type (hd ?defs)) = DT_INT"
    by (simp_all add: ColumnDefinition_new_def setNullableExplicit_eq ColumnType_new_def)
  have st: "cs_tableName create_u = Some ''u''" "cs_columns create_u = Some ?defs" by (simp_all add: create_u_def)
  have cols: "[TableColumn_new ''id'' DT_INT] = map2 (\<lambda>n d. TableColumn_new n (ct_data_type (cd_type d))) [''id''] ?defs"
    using def1(2) by simp
  have ok: "table_ok (''u'', [TableColumn_new ''id'' DT_INT])" "distinct [''id'']" "length [TableColumn_new ''id'' DT_INT] < 2 ^ 63"
    by (simp_all add: table_ok_def ident_def tight_def blank_def char_value_def glob_free_def colname_ok_def
      GetColName_def GetVal_def TableColumn_new_def)
  show ?thesis
    using create_request [OF select_asks sample_env(2) room kv db st def1(1) cols ok]
    by (auto simp: GetDbName_def)
qed

theorem rejected_request_witness:
  "replied rejecting_env (sample_session (query_packet 0 ''select'') (sample_server []))
      (framed 1 (ErrPacket_Pack 50 ''ABCDE'' ''syntax error'')) (sample_server [])"
proof -
  let ?c = "sample_session (query_packet 0 ''select'') (sample_server [])"
  obtain result where p: "parse_query rejecting_env ''select'' = Inr result" "\<not> isValid result"
    "errorMsg result = Some ''syntax error''"
    by (simp_all add: rejecting_env_def sample_env_def parse_query_def parse_def isValid_def setIsValid_def
        setErrorDetails_def errorMsg_def SQLParserResult_new_def)
  have "length (framed (0 + 1) (ErrPacket_Pack 50 ''ABCDE'' ''syntax error'')) = 25" by code_simp
  then have room: "ss_room ?c (length (framed (0 + 1) (ErrPacket_Pack 50 ''ABCDE'' ''syntax error'')))"
    by (simp add: select_session MAX_BUFFER_SIZE_def)
  show ?thesis using rejected_request [OF select_asks p refl room] by (simp add: select_session)
qed


theorem short_packet_stops_server_witness:
  "serve rejecting_env (sample_session [0, 0, 0, 0] (sample_server [])) = Inl LengthError"
proof -
  have len: "length [0, 0, 0, 0 :: byte] < 1024" by simp
  note ss = sample_session [OF len]
  show ?thesis using short_packet_stops_server [OF ss(1)] by (simp add: ss(2))
qed

theorem greeting_queued_witness:
  "\<exists>d. OnConnect (\<lambda>k. 65) (sample_session [] (sample_server [])) = Inr d \<and>
    outbox d = [80, 0, 0, 0] @ GreetingPacket_Pack (GreetingPacket_new (\<lambda>k. 65) 1 ''UHP-SQL-v0.1'')"
proof -
  have len: "length ([] :: byte list) < 1024" by simp
  note ss = sample_session [OF len]
  show ?thesis using greeting_queued [OF ss(1,4) ss(6) refl, where rnd = "\<lambda>k. 65"] by (force simp: ss MAX_BUFFER_SIZE_def)
qed

theorem second_request_is_lost_witness:
  "\<exists>r. cb_content r = [] \<and>
    serve rejecting_env (sample_session (query_packet 0 ''ab'' @ query_packet 0 (replicate 32 CHR ''c'')) (sample_server [])) =
      bindR (HandlePacket rejecting_env (query_packet 0 ''ab!'')
          (sample_session (query_packet 0 ''ab'' @ query_packet 0 (replicate 32 CHR ''c'')) (sample_server [])))
        (\<lambda>(_, d). Inr (True, d\<lparr>ss_recvBuf := r\<rparr>))"
proof -
  have len: "length (query_packet 0 ''ab'' @ query_packet 0 (replicate 32 CHR ''c'')) < 1024" by (simp add: query_packet_def)
  note ss = sample_session [OF len]
  have ch: "CHR ''!'' = char_of_u8 (word_of_nat (length (replicate 32 CHR ''c'') + 1))" by code_simp
  show ?thesis
    using second_request_is_lost [OF ss(1,2) _ _ ch, of rejecting_env] by (auto simp: INIT_PACKET_CNT_def version_comment_def)
qed

end
