(* ===== verification/Poll.thy ===== *)
theory Poll
  imports Prelude
begin

text \<open>
  The event poller (\<open>network/poller.h\<close>, \<open>epoller.cc\<close>): registering a socket for events, and
  translating what \<open>epoll_wait\<close> reports. The kernel is a parameter: \<open>ctl\<close> answers \<open>epoll_ctl\<close> on
  an epoll instance of type \<open>'k\<close>. The lemmas: registration ends, and sets exactly the interest asked for.
\<close>

section \<open>Events\<close>

definition EventTypeRead :: u32 where "EventTypeRead = 1"
definition EventTypeWrite :: u32 where "EventTypeWrite = 2"
definition EventTypeError :: u32 where "EventTypeError = 4"

lemmas event_types = EventTypeRead_def EventTypeWrite_def EventTypeError_def

text \<open>The flags of the kernel.\<close>

definition EPOLLIN :: u32 where "EPOLLIN = 1"
definition EPOLLOUT :: u32 where "EPOLLOUT = 4"
definition EPOLLERR :: u32 where "EPOLLERR = 8"
definition EPOLLHUP :: u32 where "EPOLLHUP = 16"

lemmas epoll_flags = EPOLLIN_def EPOLLOUT_def EPOLLERR_def EPOLLHUP_def

record FiredEvent =
  fe_events :: u32
  fe_userdata :: nat

definition FiredEvent_new :: FiredEvent where
  "FiredEvent_new = \<lparr>fe_events = 0, fe_userdata = 0\<rparr>"

section \<open>Registration\<close>

datatype errno = EEXIST | ENOENT | EINTR | EWOULDBLOCK | ECONNABORTED | EMFILE | ENFILE | ENOBUFS | OtherErrno

datatype ctl = CtlAdd int u32 nat | CtlDel int | CtlMod int u32 nat

type_synonym 'k epoll_ctl = "ctl \<Rightarrow> 'k \<Rightarrow> errno option \<times> 'k"

text \<open>The epoll instance and \<open>errno\<close>, which keeps its value when no call is made.\<close>

record 'k os =
  os_errno :: errno
  os_epoll :: 'k

definition call :: "'k epoll_ctl \<Rightarrow> ctl \<Rightarrow> 'k os \<Rightarrow> bool \<times> 'k os" where
  "call ctl op s =
     (case ctl op (os_epoll s) of
        (None, k) \<Rightarrow> (True, s\<lparr>os_epoll := k\<rparr>)
      | (Some e, k) \<Rightarrow> (False, s\<lparr>os_epoll := k, os_errno := e\<rparr>))"

definition interest_mask :: "u32 \<Rightarrow> u32" where
  "interest_mask events =
     or (if and events EventTypeRead \<noteq> 0 then EPOLLIN else 0)
        (if and events EventTypeWrite \<noteq> 0 then EPOLLOUT else 0)"

definition Epoll_AddSocket :: "'k epoll_ctl \<Rightarrow> int \<Rightarrow> u32 \<Rightarrow> nat \<Rightarrow> 'k os \<Rightarrow> bool \<times> 'k os" where
  "Epoll_AddSocket ctl socket events ptr s =
     (if socket < 0 then (False, s) else call ctl (CtlAdd socket (interest_mask events) ptr) s)"

definition Epoll_DelSocket :: "'k epoll_ctl \<Rightarrow> int \<Rightarrow> 'k os \<Rightarrow> bool \<times> 'k os" where
  "Epoll_DelSocket ctl socket s = (if socket < 0 then (False, s) else call ctl (CtlDel socket) s)"

definition Epoll_ModSocket :: "'k epoll_ctl \<Rightarrow> int \<Rightarrow> u32 \<Rightarrow> nat \<Rightarrow> 'k os \<Rightarrow> bool \<times> 'k os" where
  "Epoll_ModSocket ctl socket events ptr s =
     (if socket < 0 then (False, s) else call ctl (CtlMod socket (interest_mask events) ptr) s)"

text \<open>
  \<open>Epoller::AddSocket\<close> (\<open>add\<close>) and \<open>Epoller::ModSocket\<close> call each other; nothing in them bounds
  the recursion: \<open>None\<close> is not returning.
\<close>

partial_function (option) add_or_mod ::
  "'k epoll_ctl \<Rightarrow> bool \<Rightarrow> int \<Rightarrow> u32 \<Rightarrow> nat \<Rightarrow> 'k os \<Rightarrow> (bool \<times> 'k os) option" where
  "add_or_mod ctl add sock events ptr s =
     (if add then
        let (ok, s) = Epoll_AddSocket ctl sock events ptr s in
        if ok then Some (True, s)
        else if os_errno s = EEXIST then add_or_mod ctl False sock events ptr s
        else Some (False, s)
      else if events = 0 then Some (Epoll_DelSocket ctl sock s)
      else
        let (ok, s) = Epoll_ModSocket ctl sock events ptr s in
        if ok then Some (True, s)
        else if os_errno s = ENOENT then add_or_mod ctl True sock events ptr s
        else Some (False, s))"

definition Epoller_AddSocket :: "'k epoll_ctl \<Rightarrow> int \<Rightarrow> u32 \<Rightarrow> nat \<Rightarrow> 'k os \<Rightarrow> (bool \<times> 'k os) res" where
  "Epoller_AddSocket ctl sock events ptr s = must_return (add_or_mod ctl True sock events ptr s)"

definition Epoller_ModSocket :: "'k epoll_ctl \<Rightarrow> int \<Rightarrow> u32 \<Rightarrow> nat \<Rightarrow> 'k os \<Rightarrow> (bool \<times> 'k os) res" where
  "Epoller_ModSocket ctl sock events ptr s = must_return (add_or_mod ctl False sock events ptr s)"

definition Epoller_DelSocket :: "'k epoll_ctl \<Rightarrow> int \<Rightarrow> u32 \<Rightarrow> 'k os \<Rightarrow> bool \<times> 'k os" where
  "Epoller_DelSocket ctl sock events s = Epoll_DelSocket ctl sock s"

section \<open>Polling\<close>

text \<open>What \<open>epoll_wait\<close> answers; interrupted calls are repeated before it does.\<close>

datatype wait_outcome = Ready "(u32 \<times> nat) list" | WaitFailed errno

text \<open>The buffer for the kernel's events, doubled until it is long enough.\<close>

function grow_loop :: "nat \<Rightarrow> nat \<Rightarrow> nat" where
  "grow_loop maxEvent n = (if n < maxEvent then grow_loop maxEvent (2 * n + 1) else n)"
  by pat_completeness auto
termination by (relation "measure (\<lambda>(m, n). m - n)") auto

declare grow_loop.simps [simp del]

text \<open>The last condition compares and drops the result: an error leaves no trace.\<close>

definition fired_of :: "u32 \<times> nat \<Rightarrow> FiredEvent" where
  "fired_of e =
     \<lparr>fe_events =
        or (if and (fst e) EPOLLIN \<noteq> 0 then EventTypeRead else 0)
           (if and (fst e) EPOLLOUT \<noteq> 0 then EventTypeWrite else 0),
      fe_userdata = snd e\<rparr>"

text \<open>The result, the new length of the kernel buffer and the vector of the caller.\<close>

definition Poll :: "wait_outcome \<Rightarrow> nat \<Rightarrow> nat \<Rightarrow> FiredEvent list \<Rightarrow> (int \<times> nat \<times> FiredEvent list) res" where
  "Poll w maxEvent buf events =
     (if maxEvent = 0 then Inr (0, buf, events)
      else
        let buf = grow_loop maxEvent buf in
        case w of
          WaitFailed e \<Rightarrow> Inr (-1, buf, events)
        | Ready rs \<Rightarrow>
            if length rs > buf then Inl OutOfBounds
            else
              let events = (if length rs > length events
                            then events @ replicate (length rs - length events) FiredEvent_new else events)
              in Inr (int (length rs), buf, map fired_of rs @ drop (length rs) events))"

section \<open>What the kernel promises\<close>

text \<open>
  \<open>interest k\<close> is the interest list of an instance. Adding fails with \<open>EEXIST\<close> exactly on a
  registered descriptor, changing and removing with \<open>ENOENT\<close> exactly on an unregistered one; the
  other failures of \<open>epoll_ctl\<close> (no memory, not a pollable file) are left out.
\<close>

definition epoll_laws :: "'k epoll_ctl \<Rightarrow> ('k \<Rightarrow> int \<rightharpoonup> u32 \<times> nat) \<Rightarrow> bool" where
  "epoll_laws ctl interest \<longleftrightarrow>
     (\<forall>k s m p.
       (case interest k s of
          None \<Rightarrow>
            (\<exists>k'. ctl (CtlAdd s m p) k = (None, k') \<and> interest k' = (interest k)(s \<mapsto> (m, p))) \<and>
            ctl (CtlMod s m p) k = (Some ENOENT, k) \<and> ctl (CtlDel s) k = (Some ENOENT, k)
        | Some _ \<Rightarrow>
            ctl (CtlAdd s m p) k = (Some EEXIST, k) \<and>
            (\<exists>k'. ctl (CtlMod s m p) k = (None, k') \<and> interest k' = (interest k)(s \<mapsto> (m, p))) \<and>
            (\<exists>k'. ctl (CtlDel s) k = (None, k') \<and> interest k' = (interest k)(s := None))))"

text \<open>An instance: the interest list itself.\<close>

fun map_ctl :: "(int \<rightharpoonup> u32 \<times> nat) epoll_ctl" where
  "map_ctl (CtlAdd s m p) k = (if k s \<noteq> None then (Some EEXIST, k) else (None, k(s \<mapsto> (m, p))))"
| "map_ctl (CtlMod s m p) k = (if k s = None then (Some ENOENT, k) else (None, k(s \<mapsto> (m, p))))"
| "map_ctl (CtlDel s) k = (if k s = None then (Some ENOENT, k) else (None, k(s := None)))"

lemma map_ctl_laws: "epoll_laws map_ctl id"
  by (auto simp: epoll_laws_def split: option.split)

lemma call_laws:
  assumes "epoll_laws ctl interest" "k = interest (os_epoll s)"
  shows "sock \<notin> dom k \<Longrightarrow> \<exists>s'. call ctl (CtlAdd sock m p) s = (True, s') \<and> interest (os_epoll s') = k(sock \<mapsto> (m, p))"
    "sock \<in> dom k \<Longrightarrow> \<exists>s'. call ctl (CtlAdd sock m p) s = (False, s') \<and> os_errno s' = EEXIST \<and> os_epoll s' = os_epoll s"
    "sock \<in> dom k \<Longrightarrow> \<exists>s'. call ctl (CtlMod sock m p) s = (True, s') \<and> interest (os_epoll s') = k(sock \<mapsto> (m, p))"
    "sock \<notin> dom k \<Longrightarrow> \<exists>s'. call ctl (CtlMod sock m p) s = (False, s') \<and> os_errno s' = ENOENT \<and> os_epoll s' = os_epoll s"
    "\<exists>s'. call ctl (CtlDel sock) s = (sock \<in> dom k, s') \<and> interest (os_epoll s') = k(sock := None)"
proof -
  note laws = assms(1) [unfolded epoll_laws_def, rule_format, of sock _ _ "os_epoll s"]
  show "sock \<notin> dom k \<Longrightarrow> \<exists>s'. call ctl (CtlAdd sock m p) s = (True, s') \<and> interest (os_epoll s') = k(sock \<mapsto> (m, p))"
    using laws [of m p] assms(2) by (cases "k sock") (auto simp: call_def)
  show "sock \<in> dom k \<Longrightarrow> \<exists>s'. call ctl (CtlAdd sock m p) s = (False, s') \<and> os_errno s' = EEXIST \<and> os_epoll s' = os_epoll s"
    using laws [of m p] assms(2) by (cases "k sock") (auto simp: call_def)
  show "sock \<in> dom k \<Longrightarrow> \<exists>s'. call ctl (CtlMod sock m p) s = (True, s') \<and> interest (os_epoll s') = k(sock \<mapsto> (m, p))"
    using laws [of m p] assms(2) by (cases "k sock") (auto simp: call_def)
  show "sock \<notin> dom k \<Longrightarrow> \<exists>s'. call ctl (CtlMod sock m p) s = (False, s') \<and> os_errno s' = ENOENT \<and> os_epoll s' = os_epoll s"
    using laws [of m p] assms(2) by (cases "k sock") (auto simp: call_def)
  show "\<exists>s'. call ctl (CtlDel sock) s = (sock \<in> dom k, s') \<and> interest (os_epoll s') = k(sock := None)"
    using laws [of m p] assms(2) by (cases "k sock") (auto simp: call_def domIff fun_upd_idem)
qed

text \<open>Both operations end and set the interest, whether or not the socket was registered before.\<close>

lemma register_ok:
  assumes "epoll_laws ctl interest" "0 \<le> sock" "events \<noteq> 0"
  shows "\<exists>s'. add_or_mod ctl add sock events ptr s = Some (True, s') \<and>
    interest (os_epoll s') = (interest (os_epoll s))(sock \<mapsto> (interest_mask events, ptr))"
proof (cases "sock \<in> dom (interest (os_epoll s))")
  case True
  obtain s1 where s1: "call ctl (CtlAdd sock (interest_mask events) ptr) s = (False, s1)" "os_errno s1 = EEXIST"
    "os_epoll s1 = os_epoll s"
    using call_laws(2) [OF assms(1) refl True] by blast
  have modif: "\<exists>s'. add_or_mod ctl False sock events ptr t = Some (True, s') \<and>
      interest (os_epoll s') = (interest (os_epoll s))(sock \<mapsto> (interest_mask events, ptr))"
    if t: "os_epoll t = os_epoll s" for t
  proof -
    obtain t' where "call ctl (CtlMod sock (interest_mask events) ptr) t = (True, t')"
      "interest (os_epoll t') = (interest (os_epoll s))(sock \<mapsto> (interest_mask events, ptr))"
      using call_laws(3) [OF assms(1) refl, of sock t "interest_mask events" ptr] True unfolding t by blast
    then show ?thesis using assms(2,3) by (subst add_or_mod.simps) (simp add: Epoll_ModSocket_def)
  qed
  show ?thesis
  proof (cases add)
    case True
    then have "add_or_mod ctl add sock events ptr s = add_or_mod ctl False sock events ptr s1"
      using s1(1,2) assms(2) by (subst add_or_mod.simps) (simp add: Epoll_AddSocket_def)
    with modif [OF s1(3)] show ?thesis by simp
  qed (use modif in simp)
next
  case False
  obtain s1 where s1: "call ctl (CtlMod sock (interest_mask events) ptr) s = (False, s1)" "os_errno s1 = ENOENT"
    "os_epoll s1 = os_epoll s"
    using call_laws(4) [OF assms(1) refl False] by blast
  have adding: "\<exists>s'. add_or_mod ctl True sock events ptr t = Some (True, s') \<and>
      interest (os_epoll s') = (interest (os_epoll s))(sock \<mapsto> (interest_mask events, ptr))"
    if t: "os_epoll t = os_epoll s" for t
  proof -
    obtain t' where "call ctl (CtlAdd sock (interest_mask events) ptr) t = (True, t')"
      "interest (os_epoll t') = (interest (os_epoll s))(sock \<mapsto> (interest_mask events, ptr))"
      using call_laws(1) [OF assms(1) refl, of sock t "interest_mask events" ptr] False unfolding t by blast
    then show ?thesis using assms(2,3) by (subst add_or_mod.simps) (simp add: Epoll_AddSocket_def)
  qed
  show ?thesis
  proof (cases add)
    case False
    then have "add_or_mod ctl add sock events ptr s = add_or_mod ctl True sock events ptr s1"
      using s1(1,2) assms(2,3) by (subst add_or_mod.simps) (simp add: Epoll_ModSocket_def)
    with adding [OF s1(3)] show ?thesis by simp
  qed (use adding in simp)
qed

lemma unregister_ok:
  assumes "epoll_laws ctl interest" "0 \<le> sock"
  shows "\<exists>s'. add_or_mod ctl False sock 0 ptr s = Some (sock \<in> dom (interest (os_epoll s)), s') \<and>
    interest (os_epoll s') = (interest (os_epoll s))(sock := None)"
  using call_laws(5) [OF assms(1) refl, of sock s] assms(2)
  by (subst add_or_mod.simps) (auto simp: Epoll_DelSocket_def)

section \<open>Properties\<close>

text \<open>C38: Registering a socket always ends, although adding and changing call each other, and leaves
  exactly the interest asked for, whether the socket was registered or not; asking for no event
  takes the socket off.\<close>

theorem registration_sets_interest:
  assumes "epoll_laws ctl interest" "0 \<le> sock"
  shows "(events \<noteq> 0 \<longrightarrow> (\<exists>s1 s2. Epoller_AddSocket ctl sock events ptr s = Inr (True, s1) \<and>
      Epoller_ModSocket ctl sock events ptr s = Inr (True, s2) \<and>
      interest (os_epoll s1) = (interest (os_epoll s))(sock \<mapsto> (interest_mask events, ptr)) \<and>
      interest (os_epoll s2) = interest (os_epoll s1))) \<and>
    (\<exists>s3. Epoller_ModSocket ctl sock 0 ptr s = Inr (sock \<in> dom (interest (os_epoll s)), s3) \<and>
      interest (os_epoll s3) = (interest (os_epoll s))(sock := None))"
proof -
  obtain s3 where s3: "add_or_mod ctl False sock 0 ptr s = Some (sock \<in> dom (interest (os_epoll s)), s3)"
    "interest (os_epoll s3) = (interest (os_epoll s))(sock := None)"
    using unregister_ok [OF assms] by blast
  have "\<exists>s1 s2. Epoller_AddSocket ctl sock events ptr s = Inr (True, s1) \<and>
      Epoller_ModSocket ctl sock events ptr s = Inr (True, s2) \<and>
      interest (os_epoll s1) = (interest (os_epoll s))(sock \<mapsto> (interest_mask events, ptr)) \<and>
      interest (os_epoll s2) = interest (os_epoll s1)" if "events \<noteq> 0"
    using register_ok [OF assms that, of True ptr s] register_ok [OF assms that, of False ptr s]
    by (auto simp: Epoller_AddSocket_def Epoller_ModSocket_def)
  with s3 show ?thesis by (auto simp: Epoller_ModSocket_def)
qed

theorem registration_sets_interest_witness:
  "\<exists>s1. Epoller_AddSocket map_ctl 7 EventTypeRead 3 \<lparr>os_errno = EINTR, os_epoll = [7 \<mapsto> (EPOLLOUT, 9)]\<rparr> = Inr (True, s1) \<and>
    os_epoll s1 = [7 \<mapsto> (interest_mask EventTypeRead, 3)]"
  using registration_sets_interest [OF map_ctl_laws, where sock = 7 and events = EventTypeRead and ptr = 3
      and s = "\<lparr>os_errno = EINTR, os_epoll = [7 \<mapsto> (EPOLLOUT, 9)]\<rparr>"]
  by (auto simp: event_types)

text \<open>Errors are never reported: whatever the kernel answers, the events that \<open>Poll\<close> hands on never
  carry the error flag, and a socket with an error or a hangup alone is reported with no event.\<close>

lemma errors_never_reported:
  assumes "Poll (Ready rs) maxEvent buf events = Inr (n, buf', events')" "0 < maxEvent" "i < length rs"
  shows "and (fe_events (events' ! i)) EventTypeError = 0 \<and> fe_userdata (events' ! i) = snd (rs ! i) \<and>
    (and (fst (rs ! i)) (or EPOLLIN EPOLLOUT) = 0 \<longrightarrow> fe_events (events' ! i) = 0)"
proof -
  have e: "events' ! i = fired_of (rs ! i)"
    using assms by (auto simp: Poll_def Let_def nth_append split: if_splits)
  have "and (fst (rs ! i)) EPOLLIN = 0 \<and> and (fst (rs ! i)) EPOLLOUT = 0" if "and (fst (rs ! i)) (or EPOLLIN EPOLLOUT) = 0"
    using that by (simp add: bit.conj_disj_distrib or_eq_0_iff)
  then show ?thesis unfolding e by (auto simp: fired_of_def event_types)
qed

end
