(* ===== verification/Net.thy ===== *)
theory Net
  imports Session Poll
begin

text \<open>
  The network layer around the sessions: the receiving and the sending thread with their pollers
  (\<open>network/net_thread_pool.cc\<close>), the listening socket (\<open>listen_socket.cc\<close>), the tasks of the main
  thread (\<open>task_manager.cc\<close>) and the server (\<open>server.cc\<close>, \<open>server/uhpsqld.cpp\<close>). One turn of a
  thread's loop is a function on the state of the process; what the kernel answers in the turn,
  and whether a lock is free, are arguments.
\<close>

section \<open>State\<close>

record ListenSocket = Socket +
  ls_localPort :: u16
  ls_tag :: int

datatype any_socket = AListen ListenSocket | AStream Client

fun sock_fd :: "any_socket \<Rightarrow> int" where
  "sock_fd (AListen l) = so_localSock l"
| "sock_fd (AStream c) = so_localSock c"

fun sock_invalid :: "any_socket \<Rightarrow> bool" where
  "sock_invalid (AListen l) = so_invalid l"
| "sock_invalid (AStream c) = so_invalid c"

fun sock_epollOut :: "any_socket \<Rightarrow> bool" where
  "sock_epollOut (AListen l) = so_epollOut l"
| "sock_epollOut (AStream c) = so_epollOut c"

fun GetSocketType :: "any_socket \<Rightarrow> SocketType" where
  "GetSocketType (AListen l) = SocketType_Listen"
| "GetSocketType (AStream c) = SocketType_Stream"

text \<open>A thread: its flag, its poller, the vector of fired events, its sockets and the ones handed to it.\<close>

record 'k NetThread =
  nt_running :: bool
  nt_os :: "'k os"
  nt_buf :: nat
  nt_fired :: "FiredEvent list"
  nt_tasks :: "nat list"
  nt_newTasks :: "(nat \<times> u32) list"
  nt_newCnt :: int

definition NetThread_new :: "'k os \<Rightarrow> 'k NetThread" where
  "NetThread_new os = \<lparr>nt_running = True, nt_os = os, nt_buf = 0, nt_fired = [], nt_tasks = [], nt_newTasks = [], nt_newCnt = 0\<rparr>"

text \<open>The map of the main thread is sorted by its integer key; the values are addresses.\<close>

record TaskManager =
  tm_tcpSockets :: "(int \<times> nat) list"
  tm_newTasks :: "nat list"
  tm_newCnt :: int

definition TaskManager_new :: TaskManager where
  "TaskManager_new = \<lparr>tm_tcpSockets = [], tm_newTasks = [], tm_newCnt = 0\<rparr>"

text \<open>
  The process: the sockets (an address is an index), the counter of identifiers, the two threads
  with the local of the receiving loop, the tasks, the listening descriptors, the flags of the
  server and the static members of the executor.
\<close>

record ('st, 'k) net =
  nw_heap :: "any_socket list"
  nw_sid :: nat
  nw_recvThread :: "'k NetThread option"
  nw_loopCount :: int
  nw_sendThread :: "'k NetThread option"
  nw_tasks :: TaskManager
  nw_slistenSocks :: "int set"
  nw_bTerminate :: bool
  nw_reloadCfg :: bool
  nw_server :: "'st server"

text \<open>Looking at a socket, and assigning to one.\<close>

definition sock_at :: "('st, 'k) net \<Rightarrow> nat \<Rightarrow> any_socket res" where
  "sock_at w p = nthR (nw_heap w) p"

definition put_sock :: "nat \<Rightarrow> any_socket \<Rightarrow> ('st, 'k) net \<Rightarrow> ('st, 'k) net" where
  "put_sock p s w = w\<lparr>nw_heap := (nw_heap w)[p := s]\<rparr>"

section \<open>One thread's poller\<close>

definition nt_AddSocket :: "nat \<Rightarrow> u32 \<Rightarrow> 'k NetThread \<Rightarrow> 'k NetThread res" where
  "nt_AddSocket p events t =
     (let t = t\<lparr>nt_newTasks := nt_newTasks t @ [(p, events)], nt_newCnt := nt_newCnt t + 1\<rparr> in
      bindR (assertR (nt_newCnt t = int (length (nt_newTasks t))) AssertFailed) (\<lambda>_. Inr t))"

definition nt_ModSocket :: "'k epoll_ctl \<Rightarrow> int \<Rightarrow> nat \<Rightarrow> u32 \<Rightarrow> 'k NetThread \<Rightarrow> 'k NetThread res" where
  "nt_ModSocket ctl fd p events t =
     bindR (Epoller_ModSocket ctl fd events p (nt_os t)) (\<lambda>(_, os). Inr (t\<lparr>nt_os := os\<rparr>))"

definition nt_RemoveSocket :: "'k epoll_ctl \<Rightarrow> int \<Rightarrow> u32 \<Rightarrow> 'k NetThread \<Rightarrow> 'k NetThread" where
  "nt_RemoveSocket ctl fd events t = t\<lparr>nt_os := snd (Epoller_DelSocket ctl fd events (nt_os t))\<rparr>"

text \<open>\<open>_AddSocket\<close> and \<open>_TryAddNewTasks\<close>: \<open>fd_of\<close> reads the descriptor of a socket.\<close>

definition nt_add_task :: "'k epoll_ctl \<Rightarrow> (nat \<Rightarrow> int res) \<Rightarrow> nat \<times> u32 \<Rightarrow> 'k NetThread \<Rightarrow> 'k NetThread res" where
  "nt_add_task ctl fd_of task t =
     bindR (fd_of (fst task)) (\<lambda>fd.
     bindR (Epoller_AddSocket ctl fd (snd task) (fst task) (nt_os t)) (\<lambda>(ok, os).
       Inr (if ok then t\<lparr>nt_os := os, nt_tasks := nt_tasks t @ [fst task]\<rparr> else t\<lparr>nt_os := os\<rparr>)))"

definition TryAddNewTasks :: "'k epoll_ctl \<Rightarrow> (nat \<Rightarrow> int res) \<Rightarrow> bool \<Rightarrow> 'k NetThread \<Rightarrow> 'k NetThread res" where
  "TryAddNewTasks ctl fd_of locked t =
     (if nt_newCnt t > 0 \<and> locked then
        let tmp = nt_newTasks t in
        foldR (nt_add_task ctl fd_of) tmp (t\<lparr>nt_newTasks := [], nt_newCnt := 0\<rparr>)
      else Inr t)"

section \<open>The pool\<close>

definition fd_at :: "('st, 'k) net \<Rightarrow> nat \<Rightarrow> int res" where
  "fd_at w p = bindR (sock_at w p) (\<lambda>s. Inr (sock_fd s))"

definition pool_AddSocket :: "nat \<Rightarrow> u32 \<Rightarrow> ('st, 'k) net \<Rightarrow> (bool \<times> ('st, 'k) net) res" where
  "pool_AddSocket p events w =
     bindR (if and events EventTypeRead \<noteq> 0 then
              case nw_recvThread w of
                None \<Rightarrow> Inr (False, w)
              | Some t \<Rightarrow> bindR (nt_AddSocket p EventTypeRead t) (\<lambda>t. Inr (True, w\<lparr>nw_recvThread := Some t\<rparr>))
            else Inr (True, w)) (\<lambda>(ok, w).
     if \<not> ok then Inr (False, w)
     else if and events EventTypeWrite \<noteq> 0 then
       case nw_sendThread w of
         None \<Rightarrow> Inr (False, w)
       | Some t \<Rightarrow> bindR (nt_AddSocket p EventTypeWrite t) (\<lambda>t. Inr (True, w\<lparr>nw_sendThread := Some t\<rparr>))
     else Inr (True, w))"

definition recv_mod :: "'k epoll_ctl \<Rightarrow> nat \<Rightarrow> u32 \<Rightarrow> ('st, 'k) net \<Rightarrow> ('st, 'k) net res" where
  "recv_mod ctl p events w =
     (case nw_recvThread w of
        None \<Rightarrow> Inr w
      | Some t \<Rightarrow> bindR (fd_at w p) (\<lambda>fd. bindR (nt_ModSocket ctl fd p events t) (\<lambda>t.
          Inr (w\<lparr>nw_recvThread := Some t\<rparr>))))"

definition send_mod :: "'k epoll_ctl \<Rightarrow> nat \<Rightarrow> u32 \<Rightarrow> ('st, 'k) net \<Rightarrow> ('st, 'k) net res" where
  "send_mod ctl p events w =
     (case nw_sendThread w of
        None \<Rightarrow> Inr w
      | Some t \<Rightarrow> bindR (fd_at w p) (\<lambda>fd. bindR (nt_ModSocket ctl fd p events t) (\<lambda>t.
          Inr (w\<lparr>nw_sendThread := Some t\<rparr>))))"

text \<open>\<open>EnableRead\<close>, \<open>EnableWrite\<close>, \<open>DisableRead\<close> and \<open>DisableWrite\<close>.\<close>

fun pool_do :: "'k epoll_ctl \<Rightarrow> nat \<Rightarrow> pool_request \<Rightarrow> ('st, 'k) net \<Rightarrow> ('st, 'k) net res" where
  "pool_do ctl p EnableRead w = recv_mod ctl p EventTypeRead w"
| "pool_do ctl p EnableWrite w = send_mod ctl p EventTypeWrite w"
| "pool_do ctl p DisableRead w = recv_mod ctl p 0 w"
| "pool_do ctl p DisableWrite w = send_mod ctl p 0 w"

definition StartAllThreads :: "'k os \<Rightarrow> 'k os \<Rightarrow> ('st, 'k) net \<Rightarrow> bool \<times> ('st, 'k) net" where
  "StartAllThreads os1 os2 w =
     (True, w\<lparr>nw_recvThread := Some (NetThread_new os1), nw_loopCount := 0, nw_sendThread := Some (NetThread_new os2)\<rparr>)"

text \<open>
  The pool lets go of its threads, which see their flag down and leave their loops. The function is
  declared \<open>bool\<close> and has no \<open>return\<close>: its value is \<open>None\<close>.
\<close>

definition StopAllThreads :: "('st, 'k) net \<Rightarrow> (bool option \<times> ('st, 'k) net) res" where
  "StopAllThreads w =
     bindR (deref (nw_recvThread w)) (\<lambda>_. bindR (deref (nw_sendThread w)) (\<lambda>_.
       Inr (None, w\<lparr>nw_recvThread := None, nw_sendThread := None\<rparr>)))"

section \<open>Tasks of the main thread\<close>

text \<open>The conversion of an identifier to the \<open>int\<close> of the map, and \<open>std::map::insert\<close>.\<close>

definition int_key :: "nat \<Rightarrow> int" where
  "int_key i = sint (word_of_nat i :: u32)"

fun insert_key :: "int \<Rightarrow> 'v \<Rightarrow> (int \<times> 'v) list \<Rightarrow> bool \<times> (int \<times> 'v) list" where
  "insert_key k v [] = (True, [(k, v)])"
| "insert_key k v ((k', v') # m) =
     (if k < k' then (True, (k, v) # (k', v') # m)
      else if k = k' then (False, (k', v') # m)
      else let (new, m) = insert_key k v m in (new, (k', v') # m))"

definition AddTask :: "nat \<Rightarrow> TaskManager \<Rightarrow> TaskManager" where
  "AddTask task tm = tm\<lparr>tm_newTasks := tm_newTasks tm @ [task], tm_newCnt := tm_newCnt tm + 1\<rparr>"

definition FindTCP :: "u32 \<Rightarrow> TaskManager \<Rightarrow> nat option" where
  "FindTCP i tm = (if i > 0 then map_of (tm_tcpSockets tm) (sint i) else None)"

definition tm_Empty :: "TaskManager \<Rightarrow> bool" where
  "tm_Empty tm \<longleftrightarrow> tm_tcpSockets tm = []"

definition tm_Clear :: "TaskManager \<Rightarrow> TaskManager" where
  "tm_Clear tm = tm\<lparr>tm_tcpSockets := []\<rparr>"

definition TCPSize :: "TaskManager \<Rightarrow> nat" where
  "TCPSize tm = length (tm_tcpSockets tm)"

text \<open>The tasks are connections; the object behind one, or a wrong pointer.\<close>

definition client_at :: "('st, 'k) net \<Rightarrow> nat \<Rightarrow> Client res" where
  "client_at w p = bindR (sock_at w p) (\<lambda>s. case s of AStream c \<Rightarrow> Inr c | AListen _ \<Rightarrow> Inl OutOfBounds)"

text \<open>A new connection is entered under its identifier and greeted; \<open>rnd p\<close> are its random bytes.\<close>

definition connect_task :: "(nat \<Rightarrow> nat \<Rightarrow> u8) \<Rightarrow> nat \<Rightarrow> ('st, 'k) net \<Rightarrow> ('st, 'k) net res" where
  "connect_task rnd p w =
     bindR (client_at w p) (\<lambda>c.
     let (succ, m) = insert_key (int_key (so_id c)) p (tm_tcpSockets (nw_tasks w)) in
     if \<not> succ then Inr w
     else bindR (OnConnect (rnd p) c) (\<lambda>c.
       Inr (put_sock p (AStream c) (w\<lparr>nw_tasks := (nw_tasks w)\<lparr>tm_tcpSockets := m\<rparr>\<rparr>))))"

text \<open>The handler needs the static members of the executor next to the client.\<close>

definition with_server :: "Client \<Rightarrow> 'st server \<Rightarrow> 'st session" where
  "with_server c sv = Client.extend c (session.fields sv)"

text \<open>The walk over the map: invalid connections are removed, the others parse what they received.\<close>

fun tasks_loop :: "'st env \<Rightarrow> (int \<times> nat) list \<Rightarrow> bool \<Rightarrow> (int \<times> nat) list \<Rightarrow> ('st, 'k) net \<Rightarrow>
    (bool \<times> (int \<times> nat) list \<times> ('st, 'k) net) res" where
  "tasks_loop E [] busy kept w = Inr (busy, kept, w)"
| "tasks_loop E ((k, p) # ts) busy kept w =
     bindR (client_at w p) (\<lambda>c.
     if so_invalid c then tasks_loop E ts busy kept w
     else
       bindR (serve E (with_server c (nw_server w))) (\<lambda>(b, s).
         tasks_loop E ts (busy \<or> b) (kept @ [(k, p)])
           (put_sock p (AStream (Client.truncate s)) (w\<lparr>nw_server := se_server s\<rparr>))))"

definition tm_DoMsgParse :: "'st env \<Rightarrow> (nat \<Rightarrow> nat \<Rightarrow> u8) \<Rightarrow> bool \<Rightarrow> ('st, 'k) net \<Rightarrow> (bool \<times> ('st, 'k) net) res" where
  "tm_DoMsgParse E rnd locked w =
     bindR (if tm_newCnt (nw_tasks w) > 0 \<and> locked then
              let tmp = tm_newTasks (nw_tasks w) in
              foldR (connect_task rnd) tmp (w\<lparr>nw_tasks := (nw_tasks w)\<lparr>tm_newTasks := [], tm_newCnt := 0\<rparr>\<rparr>)
            else Inr w) (\<lambda>w.
     bindR (tasks_loop E (tm_tcpSockets (nw_tasks w)) False [] w) (\<lambda>(busy, kept, w).
       Inr (busy, w\<lparr>nw_tasks := (nw_tasks w)\<lparr>tm_tcpSockets := kept\<rparr>\<rparr>)))"

section \<open>Accepting connections\<close>

text \<open>\<open>peer\<close> is what \<open>getpeername\<close> finds; the descriptor comes from \<open>accept\<close>.\<close>

definition OnNewConnection :: "int \<Rightarrow> SocketAddr \<Rightarrow> ('st, 'k) net \<Rightarrow> (nat option \<times> ('st, 'k) net) res" where
  "OnNewConnection connfd peer w =
     bindR (Client_new (nw_sid w)) (\<lambda>(c, sid).
     let w = w\<lparr>nw_sid := sid\<rparr>; (ok, c) = StreamSocket_Init connfd peer c in
     if ok then Inr (Some (length (nw_heap w)), w\<lparr>nw_heap := nw_heap w @ [AStream c]\<rparr>) else Inr (None, w))"

definition NewConnection :: "int \<Rightarrow> SocketAddr \<Rightarrow> ('st, 'k) net \<Rightarrow> ('st, 'k) net res" where
  "NewConnection sock peer w =
     (if sock = INVALID_SOCKET then Inr w
      else
        bindR (OnNewConnection sock peer w) (\<lambda>(conn, w).
        case conn of
          None \<Rightarrow> Inr w
        | Some p \<Rightarrow>
            bindR (pool_AddSocket p (or EventTypeRead EventTypeWrite) w) (\<lambda>(ok, w).
              Inr (if ok then w\<lparr>nw_tasks := AddTask p (nw_tasks w)\<rparr> else w))))"

definition DelListenSock :: "int \<Rightarrow> ('st, 'k) net \<Rightarrow> ('st, 'k) net" where
  "DelListenSock sock w = (if sock = INVALID_SOCKET then w else w\<lparr>nw_slistenSocks := nw_slistenSocks w - {sock}\<rparr>)"

text \<open>The connections the kernel hands out, and the error that ends the loop.\<close>

record accepts =
  ac_conns :: "(int \<times> SocketAddr) list"
  ac_errno :: errno

definition accept_ends_well :: "errno \<Rightarrow> bool" where
  "accept_ends_well e \<longleftrightarrow> (case e of
     EWOULDBLOCK \<Rightarrow> True | ECONNABORTED \<Rightarrow> True | EINTR \<Rightarrow> True | EMFILE \<Rightarrow> True | ENFILE \<Rightarrow> True | ENOBUFS \<Rightarrow> True
   | _ \<Rightarrow> False)"

definition Listen_OnReadable :: "accepts \<Rightarrow> ('st, 'k) net \<Rightarrow> (bool \<times> ('st, 'k) net) res" where
  "Listen_OnReadable a w =
     bindR (foldR (\<lambda>(fd, peer). NewConnection fd peer) (ac_conns a) w) (\<lambda>w. Inr (accept_ends_well (ac_errno a), w))"

definition ListenSocket_new :: "nat \<Rightarrow> int \<Rightarrow> ListenSocket \<times> nat" where
  "ListenSocket_new sid tag =
     (let (base, sid) = Socket_new sid in
      (\<lparr>so_localSock = so_localSock base, so_epollOut = so_epollOut base, so_invalid = so_invalid base, so_id = so_id base,
        ls_localPort = -1, ls_tag = tag\<rparr>, sid))"

text \<open>\<open>Bind\<close>: the answers of \<open>socket\<close>, \<open>bind\<close> and \<open>listen\<close> are arguments.\<close>

definition Bind :: "int \<Rightarrow> bool \<Rightarrow> bool \<Rightarrow> SocketAddr \<Rightarrow> nat \<Rightarrow> ('st, 'k) net \<Rightarrow> (bool \<times> ('st, 'k) net) res" where
  "Bind fd bound listening addr p w =
     (if SocketAddr_Empty addr then Inr (False, w)
      else
        bindR (sock_at w p) (\<lambda>s. case s of
          AStream _ \<Rightarrow> Inl OutOfBounds
        | AListen l \<Rightarrow>
            if so_localSock l \<noteq> INVALID_SOCKET then Inr (False, w)
            else
              let l = l\<lparr>ls_localPort := GetPort addr, so_localSock := fd\<rparr> in
              if \<not> bound then Inr (False, put_sock p (AListen (l\<lparr>so_localSock := CloseSocket fd\<rparr>)) w)
              else if \<not> listening then Inr (False, put_sock p (AListen (l\<lparr>so_localSock := CloseSocket fd\<rparr>)) w)
              else bindR (pool_AddSocket p EventTypeRead (put_sock p (AListen l) w)) (\<lambda>(ok, w). Inr (ok, w))))"

text \<open>A listening socket that could not be bound is destroyed at once.\<close>

definition TCPBind :: "int \<Rightarrow> bool \<Rightarrow> bool \<Rightarrow> SocketAddr \<Rightarrow> int \<Rightarrow> ('st, 'k) net \<Rightarrow> (bool \<times> ('st, 'k) net) res" where
  "TCPBind fd bound listening addr tag w =
     (let (l, sid) = ListenSocket_new (nw_sid w) tag; p = length (nw_heap w);
          w = w\<lparr>nw_sid := sid, nw_heap := nw_heap w @ [AListen l]\<rparr> in
      bindR (Bind fd bound listening addr p w) (\<lambda>(ok, w).
      bindR (fd_at w p) (\<lambda>sock.
        Inr (ok, if ok then w\<lparr>nw_slistenSocks := insert sock (nw_slistenSocks w)\<rparr> else DelListenSock sock w))))"

section \<open>Errors on a socket\<close>

definition Listen_OnError :: "nat \<Rightarrow> ListenSocket \<Rightarrow> ('st, 'k) net \<Rightarrow> ('st, 'k) net" where
  "Listen_OnError p l w =
     (let (first, l') = Socket_OnError l; w = put_sock p (AListen l') w in
      if first then DelListenSock (so_localSock l) w else w)"

definition sock_OnError :: "nat \<Rightarrow> ('st, 'k) net \<Rightarrow> ('st, 'k) net res" where
  "sock_OnError p w =
     bindR (sock_at w p) (\<lambda>s. case s of
       AListen l \<Rightarrow> Inr (Listen_OnError p l w)
     | AStream c \<Rightarrow> Inr (put_sock p (AStream (snd (Stream_OnError c))) w))"

section \<open>The receiving thread\<close>

text \<open>
  What the kernel answers in one turn: to \<open>epoll_wait\<close>, which sees the epoll instance and the number of
  events asked for; to \<open>readv\<close> and \<open>writev\<close> on a socket, which see how many bytes are offered; to
  \<open>accept\<close>. \<open>an_lock\<close> and \<open>an_swap\<close> say whether the locks tried are free.
\<close>

record 'k answers =
  an_lock :: bool
  an_wait :: "nat \<Rightarrow> 'k \<Rightarrow> wait_outcome"
  an_read :: "nat \<Rightarrow> nat \<Rightarrow> recv_outcome"
  an_accept :: "nat \<Rightarrow> accepts"
  an_swap :: "nat \<Rightarrow> bool"
  an_write :: "nat \<Rightarrow> nat \<Rightarrow> send_outcome"

text \<open>The virtual \<open>OnReadable\<close>.\<close>

definition sock_OnReadable :: "'k epoll_ctl \<Rightarrow> 'k answers \<Rightarrow> nat \<Rightarrow> ('st, 'k) net \<Rightarrow> (bool \<times> ('st, 'k) net) res" where
  "sock_OnReadable ctl a p w =
     bindR (sock_at w p) (\<lambda>s. case s of
       AListen l \<Rightarrow> Listen_OnReadable (an_accept a p) w
     | AStream c \<Rightarrow>
         bindR (Stream_OnReadable (an_read a p (recv_space c)) c) (\<lambda>(ok, reqs, c).
         bindR (foldR (pool_do ctl p) reqs (put_sock p (AStream c) w)) (\<lambda>w. Inr (ok, w))))"

definition recv_event :: "'k epoll_ctl \<Rightarrow> 'k answers \<Rightarrow> FiredEvent \<Rightarrow> ('st, 'k) net \<Rightarrow> ('st, 'k) net res" where
  "recv_event ctl a e w =
     bindR (assertR (and (fe_events e) EventTypeWrite = 0) AssertFailed) (\<lambda>_.
     let p = fe_userdata e in
     bindR (if and (fe_events e) EventTypeRead \<noteq> 0 then
              bindR (sock_OnReadable ctl a p w) (\<lambda>(ok, w). if ok then Inr w else sock_OnError p w)
            else Inr w) (\<lambda>w.
     if and (fe_events e) EventTypeError \<noteq> 0 then sock_OnError p w else Inr w))"

text \<open>\<open>Poll\<close> on the thread's own state: the number of events, and the thread.\<close>

definition nt_Poll :: "'k answers \<Rightarrow> 'k NetThread \<Rightarrow> (int \<times> 'k NetThread) res" where
  "nt_Poll a t =
     (let maxEvent = length (nt_tasks t) in
      bindR (Poll (an_wait a maxEvent (os_epoll (nt_os t))) maxEvent (nt_buf t) (nt_fired t)) (\<lambda>(nReady, buf, fired).
        Inr (nReady, t\<lparr>nt_buf := buf, nt_fired := fired\<rparr>)))"

text \<open>The walk over the sockets of a thread; \<open>f\<close> says whether one is kept. Kept ones are collected.\<close>

fun sweep :: "(nat \<Rightarrow> 'w \<Rightarrow> (bool \<times> 'w) res) \<Rightarrow> nat list \<Rightarrow> nat list \<Rightarrow> 'w \<Rightarrow> (nat list \<times> 'w) res" where
  "sweep f [] kept w = Inr (kept, w)"
| "sweep f (p # ps) kept w =
     bindR (f p w) (\<lambda>(keep, w). sweep f ps (if keep then kept @ [p] else kept) w)"

text \<open>An invalid socket leaves the poller, by \<open>DisableRead\<close> and once more by \<open>RemoveSocket\<close>.\<close>

definition recv_sweep :: "'k epoll_ctl \<Rightarrow> nat \<Rightarrow> ('st, 'k) net \<Rightarrow> (bool \<times> ('st, 'k) net) res" where
  "recv_sweep ctl p w =
     bindR (sock_at w p) (\<lambda>s.
     if sock_invalid s then
       bindR (recv_mod ctl p 0 w) (\<lambda>w.
       bindR (deref (nw_recvThread w)) (\<lambda>t.
         Inr (False, w\<lparr>nw_recvThread := Some (nt_RemoveSocket ctl (sock_fd s) EventTypeRead t)\<rparr>)))
     else Inr (True, w))"

definition set_recv_tasks :: "nat list \<Rightarrow> ('st, 'k) net \<Rightarrow> ('st, 'k) net res" where
  "set_recv_tasks ps w = bindR (deref (nw_recvThread w)) (\<lambda>t. Inr (w\<lparr>nw_recvThread := Some (t\<lparr>nt_tasks := ps\<rparr>)\<rparr>))"

text \<open>One turn of \<open>RecvThread::Run\<close>.\<close>

definition RecvThread_turn :: "'k epoll_ctl \<Rightarrow> 'k answers \<Rightarrow> ('st, 'k) net \<Rightarrow> ('st, 'k) net res" where
  "RecvThread_turn ctl a w =
     bindR (deref (nw_recvThread w)) (\<lambda>t.
     if \<not> nt_running t then Inr w
     else
     bindR (TryAddNewTasks ctl (fd_at w) (an_lock a) t) (\<lambda>t.
     if nt_tasks t = [] then Inr (w\<lparr>nw_recvThread := Some t\<rparr>)
     else
       bindR (nt_Poll a t) (\<lambda>(nReady, t).
       bindR (foldR (\<lambda>i w. bindR (nthR (nt_fired t) i) (\<lambda>e. recv_event ctl a e w))
                [0..<nat nReady] (w\<lparr>nw_recvThread := Some t\<rparr>)) (\<lambda>w.
       let loopCount = (if nReady = 0 then nw_loopCount w * 2 else nw_loopCount w) + 1 in
       if loopCount < 100000 then Inr (w\<lparr>nw_loopCount := loopCount\<rparr>)
       else
         bindR (deref (nw_recvThread w)) (\<lambda>t.
         bindR (sweep (recv_sweep ctl) (nt_tasks t) [] (w\<lparr>nw_loopCount := 0\<rparr>)) (\<lambda>(kept, w).
           set_recv_tasks kept w))))))"

section \<open>The sending thread\<close>

definition send_sweep :: "'k epoll_ctl \<Rightarrow> 'k answers \<Rightarrow> nat \<Rightarrow> ('st, 'k) net \<Rightarrow> (bool \<times> ('st, 'k) net) res" where
  "send_sweep ctl a p w =
     bindR (sock_at w p) (\<lambda>s.
     bindR (case s of
         AStream c \<Rightarrow>
           bindR (Send (an_swap a p) (an_write a p (length (offered (an_swap a p) c))) c) (\<lambda>(ok, reqs, c).
           bindR (foldR (pool_do ctl p) reqs (put_sock p (AStream c) w)) (\<lambda>w.
             if ok then Inr w else sock_OnError p w))
       | AListen _ \<Rightarrow> Inr w) (\<lambda>w.
     bindR (sock_at w p) (\<lambda>s.
     if sock_invalid s then
       bindR (send_mod ctl p 0 w) (\<lambda>w.
       bindR (deref (nw_sendThread w)) (\<lambda>t.
         Inr (False, w\<lparr>nw_sendThread := Some (nt_RemoveSocket ctl (sock_fd s) EventTypeWrite t)\<rparr>)))
     else Inr (True, w))))"

text \<open>
  The virtual \<open>OnWritable\<close> is the one of the base class: \<open>StreamSocket\<close> and \<open>ListenSocket\<close> declare
  \<open>OnWriteable\<close>, which is another function.
\<close>

definition sock_OnWritable :: "any_socket \<Rightarrow> bool" where
  "sock_OnWritable s = (case s of AListen l \<Rightarrow> Socket_OnWritable l | AStream c \<Rightarrow> Socket_OnWritable c)"

definition send_event :: "FiredEvent \<Rightarrow> ('st, 'k) net \<Rightarrow> ('st, 'k) net res" where
  "send_event e w =
     bindR (assertR (and (fe_events e) EventTypeRead = 0) AssertFailed) (\<lambda>_.
     let p = fe_userdata e in
     bindR (if and (fe_events e) EventTypeWrite \<noteq> 0 then
              bindR (sock_at w p) (\<lambda>s. if sock_OnWritable s then Inr w else sock_OnError p w)
            else Inr w) (\<lambda>w.
     if and (fe_events e) EventTypeError \<noteq> 0 then sock_OnError p w else Inr w))"

text \<open>One turn of \<open>SendThread::Run\<close>; \<open>nOut\<close> counts the kept sockets that wait for the poller.\<close>

definition SendThread_turn :: "'k epoll_ctl \<Rightarrow> 'k answers \<Rightarrow> ('st, 'k) net \<Rightarrow> ('st, 'k) net res" where
  "SendThread_turn ctl a w =
     bindR (deref (nw_sendThread w)) (\<lambda>t.
     if \<not> nt_running t then Inr w
     else
     bindR (TryAddNewTasks ctl (fd_at w) (an_lock a) t) (\<lambda>t.
     bindR (sweep (send_sweep ctl a) (nt_tasks t) [] (w\<lparr>nw_sendThread := Some t\<rparr>)) (\<lambda>(kept, w).
     bindR (deref (nw_sendThread w)) (\<lambda>t.
     let t = t\<lparr>nt_tasks := kept\<rparr>; w = w\<lparr>nw_sendThread := Some t\<rparr>;
         nOut = length (filter (\<lambda>p. sock_epollOut (nw_heap w ! p)) kept) in
     if nOut = 0 then Inr w
     else
       bindR (nt_Poll a t) (\<lambda>(nReady, t).
         foldR (\<lambda>i w. bindR (nthR (nt_fired t) i) (\<lambda>e. send_event e w))
           [0..<nat nReady] (w\<lparr>nw_sendThread := Some t\<rparr>))))))"

section \<open>The server\<close>

definition net_new :: "'st server \<Rightarrow> ('st, 'k) net" where
  "net_new sv = \<lparr>nw_heap = [], nw_sid = 0, nw_recvThread = None, nw_loopCount = 0, nw_sendThread = None,
     nw_tasks = TaskManager_new, nw_slistenSocks = {}, nw_bTerminate = False, nw_reloadCfg = False, nw_server = sv\<rparr>"

definition IntHandler :: "('st, 'k) net \<Rightarrow> ('st, 'k) net" where
  "IntHandler w = w\<lparr>nw_bTerminate := True\<rparr>"
definition HupHandler :: "('st, 'k) net \<Rightarrow> ('st, 'k) net" where
  "HupHandler w = w\<lparr>nw_reloadCfg := True\<rparr>"

definition DEMO_SERVER_ADDR :: string where "DEMO_SERVER_ADDR = ''0.0.0.0:12306''"
definition MOCK_PMEMKV_REDIS_IP :: string where "MOCK_PMEMKV_REDIS_IP = ''172.17.0.2''"

text \<open>\<open>Uhpsqld::_Init\<close> does not look at the answer of \<open>Executor::Init\<close>.\<close>

definition uhpsqld_Init :: "'st redis \<Rightarrow> bool \<Rightarrow> (string \<Rightarrow> u32) \<Rightarrow> int \<Rightarrow> bool \<Rightarrow> bool \<Rightarrow> ('st, 'k) net \<Rightarrow>
    (bool \<times> ('st, 'k) net) res" where
  "uhpsqld_Init R connected inet_addr fd bound listening w =
     bindR (SocketAddr_text inet_addr DEMO_SERVER_ADDR) (\<lambda>addr.
     bindR (Init R connected MOCK_PMEMKV_REDIS_IP (nw_server w)) (\<lambda>(_, sv).
       TCPBind fd bound listening addr 1 (w\<lparr>nw_server := sv\<rparr>)))"

text \<open>One turn of the main loop: whether it goes on, and whether anything was parsed.\<close>

definition MainLoop_turn :: "'st env \<Rightarrow> (nat \<Rightarrow> nat \<Rightarrow> u8) \<Rightarrow> bool \<Rightarrow> ('st, 'k) net \<Rightarrow> (bool \<times> ('st, 'k) net) res" where
  "MainLoop_turn E rnd locked w =
     (if nw_bTerminate w then Inr (False, w)
      else
        let w = (if nw_reloadCfg w then w\<lparr>nw_reloadCfg := False\<rparr> else w) in
        bindR (tm_DoMsgParse E rnd locked w) (\<lambda>(_, w). Inr (True, w)))"

text \<open>Before and after the loop.\<close>

definition MainLoop_start :: "'k os \<Rightarrow> 'k os \<Rightarrow> 'st redis \<Rightarrow> bool \<Rightarrow> (string \<Rightarrow> u32) \<Rightarrow> int \<Rightarrow> bool \<Rightarrow> bool \<Rightarrow>
    ('st, 'k) net \<Rightarrow> (bool \<times> ('st, 'k) net) res" where
  "MainLoop_start os1 os2 R connected inet_addr fd bound listening w =
     uhpsqld_Init R connected inet_addr fd bound listening (snd (StartAllThreads os1 os2 w))"

definition MainLoop_end :: "('st, 'k) net \<Rightarrow> ('st, 'k) net res" where
  "MainLoop_end w =
     bindR (StopAllThreads (w\<lparr>nw_tasks := tm_Clear (nw_tasks w)\<rparr>)) (\<lambda>(_, w). Inr w)"

end
