(* ===== verification/NetInv.thy ===== *)
theory NetInv
  imports Net
begin

text \<open>
  The invariant of the process and the steps of its three loops: every address in a thread's list,
  in an interest list or in the tasks is a socket of the right kind, counters agree with lists, and
  the buffers of every connection are well formed. The receiving and the sending thread never fault.
\<close>

section \<open>Totality of loops\<close>

lemma foldR_total:
  assumes "P s" "\<And>x s. x \<in> set xs \<Longrightarrow> P s \<Longrightarrow> \<exists>t. f x s = Inr t \<and> P t"
  shows "\<exists>t. foldR f xs s = Inr t \<and> P t"
  using assms
proof (induction xs arbitrary: s)
  case (Cons x xs)
  then obtain t where "f x s = Inr t" "P t" by (meson list.set_intros(1))
  with Cons.IH [of t] Cons.prems(2) show ?case by simp
qed simp

lemma sweep_total:
  assumes "P w" "\<And>p w. p \<in> set ps \<Longrightarrow> P w \<Longrightarrow> \<exists>keep w'. f p w = Inr (keep, w') \<and> P w'"
  shows "\<exists>kept' w'. sweep f ps kept w = Inr (kept', w') \<and> P w' \<and> set kept' \<subseteq> set kept \<union> set ps"
  using assms
proof (induction ps arbitrary: kept w)
  case (Cons p ps)
  then obtain keep w' where w': "f p w = Inr (keep, w')" "P w'" by (meson list.set_intros(1))
  obtain kept' w'' where "sweep f ps (if keep then kept @ [p] else kept) w' = Inr (kept', w'')" "P w''"
    "set kept' \<subseteq> set (if keep then kept @ [p] else kept) \<union> set ps"
    using Cons.IH [OF w'(2)] Cons.prems(2) by (metis list.set_intros(2))
  with w' show ?case by (auto split: if_splits)
qed simp

section \<open>Interest lists only gain what is asked for\<close>

lemma add_or_mod_total:
  assumes "epoll_laws ctl interest" "events \<noteq> 0 \<or> \<not> add"
  shows "\<exists>ok s'. add_or_mod ctl add sock events p s = Some (ok, s') \<and>
    ran (interest (os_epoll s')) \<subseteq> ran (interest (os_epoll s)) \<union> (if events = 0 then {} else {(interest_mask events, p)})"
proof (cases "sock < 0")
  case True
  have m: "add_or_mod ctl False sock events p s = Some (False, s)" if "events \<noteq> 0"
  proof (cases "os_errno s = ENOENT")
    case True
    then have "add_or_mod ctl True sock events p s = Some (False, s)"
      using \<open>sock < 0\<close> by (subst add_or_mod.simps) (simp add: Epoll_AddSocket_def)
    then show ?thesis using \<open>sock < 0\<close> that
      by (subst add_or_mod.simps) (simp add: Epoll_ModSocket_def)
  qed (use \<open>sock < 0\<close> that in \<open>subst add_or_mod.simps, simp add: Epoll_ModSocket_def\<close>)
  show ?thesis
  proof (cases "events = 0")
    case True
    with assms(2) \<open>sock < 0\<close> show ?thesis
      by (subst add_or_mod.simps) (auto simp: Epoll_DelSocket_def)
  next
    case False
    with m have "add_or_mod ctl True sock events p s = Some (False, s)"
      using \<open>sock < 0\<close> by (subst add_or_mod.simps) (simp add: Epoll_AddSocket_def)
    with m [OF False] show ?thesis by (cases add) auto
  qed
next
  case False
  then have sock: "0 \<le> sock" by simp
  have upd: "ran (m(a := None)) \<subseteq> ran m" "ran (m(a \<mapsto> b)) \<subseteq> insert b (ran m)" for m :: "int \<rightharpoonup> u32 \<times> nat" and a b
    by (auto simp: ran_def split: if_splits)
  show ?thesis
  proof (cases "events = 0")
    case ev: False
    show ?thesis using register_ok [OF assms(1) sock ev, of add p s] upd ev by fastforce
  next
    case ev: True
    then have "\<not> add" using assms(2) by simp
    then show ?thesis using unregister_ok [OF assms(1) sock, of p s] upd(1) ev by auto
  qed
qed

section \<open>The invariant\<close>

fun is_stream :: "any_socket \<Rightarrow> bool" where
  "is_stream (AListen l) = False"
| "is_stream (AStream c) = True"

fun sock_ok :: "any_socket \<Rightarrow> bool" where
  "sock_ok (AListen l) = True"
| "sock_ok (AStream c) \<longleftrightarrow> ss_ok c \<and> ub_inv (cl_reply c)"

definition socks :: "('st, 'k) net \<Rightarrow> nat set" where
  "socks w = {..<length (nw_heap w)}"

definition conns :: "('st, 'k) net \<Rightarrow> nat set" where
  "conns w = {p. p < length (nw_heap w) \<and> is_stream (nw_heap w ! p)}"

lemma conns_socks: "conns w \<subseteq> socks w"
  by (auto simp: conns_def socks_def)

text \<open>A thread polls for one kind of event, on sockets of the set \<open>V\<close>.\<close>

definition thread_ok :: "('k \<Rightarrow> int \<rightharpoonup> u32 \<times> nat) \<Rightarrow> u32 \<Rightarrow> nat set \<Rightarrow> 'k NetThread \<Rightarrow> bool" where
  "thread_ok interest ev V t \<longleftrightarrow>
     nt_newCnt t = int (length (nt_newTasks t)) \<and> set (nt_newTasks t) \<subseteq> V \<times> {ev} \<and> set (nt_tasks t) \<subseteq> V \<and>
     ran (interest (os_epoll (nt_os t))) \<subseteq> {interest_mask ev} \<times> V"

definition tasks_ok :: "nat set \<Rightarrow> TaskManager \<Rightarrow> bool" where
  "tasks_ok V tm \<longleftrightarrow> tm_newCnt tm = int (length (tm_newTasks tm)) \<and> set (tm_newTasks tm) \<subseteq> V \<and>
     snd ` set (tm_tcpSockets tm) \<subseteq> V"

definition net_ok :: "('k \<Rightarrow> int \<rightharpoonup> u32 \<times> nat) \<Rightarrow> ('st, 'k) net \<Rightarrow> bool" where
  "net_ok interest w \<longleftrightarrow>
     (\<forall>s\<in>set (nw_heap w). sock_ok s) \<and>
     pred_option (thread_ok interest EventTypeRead (socks w)) (nw_recvThread w) \<and>
     pred_option (thread_ok interest EventTypeWrite (conns w)) (nw_sendThread w) \<and>
     tasks_ok (conns w) (nw_tasks w) \<and> 0 \<le> nw_loopCount w \<and> nw_loopCount w < 100000"

text \<open>What no operation undoes: sockets stay, and so does their kind; threads stay.\<close>

definition grows :: "('st, 'k) net \<Rightarrow> ('st, 'k) net \<Rightarrow> bool" where
  "grows w w' \<longleftrightarrow> socks w \<subseteq> socks w' \<and> conns w \<subseteq> conns w' \<and>
     (nw_recvThread w' = None \<longleftrightarrow> nw_recvThread w = None) \<and> (nw_sendThread w' = None \<longleftrightarrow> nw_sendThread w = None)"

lemma grows_refl [simp]: "grows w w" by (simp add: grows_def)
lemma grows_trans [trans]: "grows u v \<Longrightarrow> grows v w \<Longrightarrow> grows u w" by (auto simp: grows_def)

text \<open>An operation that ends well.\<close>

definition steps :: "('k \<Rightarrow> int \<rightharpoonup> u32 \<times> nat) \<Rightarrow> ('st, 'k) net \<Rightarrow> ('st, 'k) net \<Rightarrow> bool" where
  "steps interest w w' \<longleftrightarrow> net_ok interest w' \<and> grows w w'"

lemma steps_refl: "net_ok interest w \<Longrightarrow> steps interest w w" by (simp add: steps_def)
lemma steps_trans [trans]: "steps interest u v \<Longrightarrow> steps interest v w \<Longrightarrow> steps interest u w"
  by (auto simp: steps_def intro: grows_trans)

lemma steps_ok: "steps interest w w' \<Longrightarrow> net_ok interest w'" by (simp add: steps_def)
lemma steps_socks: "steps interest w w' \<Longrightarrow> p \<in> socks w \<Longrightarrow> p \<in> socks w'" by (auto simp: steps_def grows_def)
lemma steps_conns: "steps interest w w' \<Longrightarrow> p \<in> conns w \<Longrightarrow> p \<in> conns w'" by (auto simp: steps_def grows_def)

lemma thread_ok_mono: "thread_ok interest ev V t \<Longrightarrow> V \<subseteq> V' \<Longrightarrow> thread_ok interest ev V' t"
  by (auto simp: thread_ok_def)

lemma tasks_ok_mono: "tasks_ok V tm \<Longrightarrow> V \<subseteq> V' \<Longrightarrow> tasks_ok V' tm"
  by (auto simp: tasks_ok_def)

lemma net_ok_heap:
  assumes "net_ok interest w" "socks w \<subseteq> socks w'" "conns w \<subseteq> conns w'" "\<forall>s\<in>set (nw_heap w'). sock_ok s"
    "nw_recvThread w' = nw_recvThread w" "nw_sendThread w' = nw_sendThread w" "nw_tasks w' = nw_tasks w"
    "nw_loopCount w' = nw_loopCount w"
  shows "steps interest w w'"
  using assms by (auto simp: steps_def grows_def net_ok_def option.pred_mono_strong
      intro: thread_ok_mono tasks_ok_mono elim!: option.pred_mono_strong)

section \<open>Sockets\<close>

lemma sock_at_in: "p \<in> socks w \<Longrightarrow> sock_at w p = Inr (nw_heap w ! p)"
  by (simp add: sock_at_def socks_def)

lemma fd_at_in: "p \<in> socks w \<Longrightarrow> fd_at w p = Inr (sock_fd (nw_heap w ! p))"
  by (simp add: fd_at_def sock_at_in)

lemma sock_in_ok: "net_ok interest w \<Longrightarrow> p \<in> socks w \<Longrightarrow> sock_ok (nw_heap w ! p)"
  by (simp add: net_ok_def socks_def)

lemma put_sock_steps:
  assumes "net_ok interest w" "p \<in> socks w" "sock_ok s" "is_stream s = is_stream (nw_heap w ! p)"
  shows "steps interest w (put_sock p s w)"
  using assms
  by (intro net_ok_heap) (auto simp: put_sock_def socks_def conns_def nth_list_update net_ok_def
      dest!: set_update_subset_insert [THEN subsetD])

lemma append_sock_steps:
  assumes "net_ok interest w" "sock_ok s"
  shows "steps interest w (w\<lparr>nw_heap := nw_heap w @ [s]\<rparr>)"
  using assms by (intro net_ok_heap) (auto simp: socks_def conns_def nth_append net_ok_def)

lemma DelListenSock_steps: "net_ok interest w \<Longrightarrow> steps interest w (DelListenSock fd w)"
  by (intro net_ok_heap) (auto simp: DelListenSock_def socks_def conns_def net_ok_def)

lemma sock_OnError_ok:
  assumes "net_ok interest w" "p \<in> socks w"
  shows "\<exists>w'. sock_OnError p w = Inr w' \<and> steps interest w w'"
proof (cases "nw_heap w ! p")
  case (AListen l)
  obtain first l' where l': "Socket_OnError l = (first, l')" by fastforce
  have "steps interest w (put_sock p (AListen l') w)" using assms AListen by (intro put_sock_steps) auto
  then have "steps interest w (DelListenSock fd (put_sock p (AListen l') w))" for fd
    by (meson DelListenSock_steps steps_ok steps_trans)
  with \<open>steps interest w (put_sock p (AListen l') w)\<close> show ?thesis
    using AListen assms(2) l' by (simp add: sock_OnError_def sock_at_in Listen_OnError_def Let_def)
next
  case (AStream c)
  have "sock_ok (AStream (snd (Stream_OnError c)))"
    using sock_in_ok [OF assms] AStream by (auto simp: Stream_OnError_def Socket_OnError_def ss_ok_def ss_fresh_def)
  then have "steps interest w (put_sock p (AStream (snd (Stream_OnError c))) w)"
    using assms AStream by (intro put_sock_steps) auto
  then show ?thesis using AStream assms(2) by (simp add: sock_OnError_def sock_at_in)
qed

section \<open>The pollers\<close>

lemma thread_ok_poll:
  assumes "thread_ok interest ev V t" "epoll_laws ctl interest" "p \<in> V" "e = ev \<or> e = 0"
  shows "\<exists>t'. nt_ModSocket ctl fd p e t = Inr t' \<and> thread_ok interest ev V t' \<and> nt_tasks t' = nt_tasks t"
proof -
  obtain ok s' where s': "add_or_mod ctl False fd e p (nt_os t) = Some (ok, s')"
    "ran (interest (os_epoll s')) \<subseteq> ran (interest (os_epoll (nt_os t))) \<union> (if e = 0 then {} else {(interest_mask e, p)})"
    using add_or_mod_total [OF assms(2), of e False fd p "nt_os t"] by auto
  then have "ran (interest (os_epoll s')) \<subseteq> {interest_mask ev} \<times> V"
    using assms(1,3,4) by (fastforce simp: thread_ok_def split: if_splits)
  then show ?thesis using s'(1) assms(1) by (simp add: nt_ModSocket_def Epoller_ModSocket_def thread_ok_def)
qed

lemma thread_ok_remove:
  assumes "thread_ok interest ev V t" "epoll_laws ctl interest"
  shows "thread_ok interest ev V (nt_RemoveSocket ctl fd e t)"
proof -
  have "ran ((interest k)(fd := None)) \<subseteq> ran (interest k)" for k by (auto simp: ran_def split: if_splits)
  moreover obtain s' where "call ctl (CtlDel fd) (nt_os t) = (fd \<in> dom (interest (os_epoll (nt_os t))), s')"
    "interest (os_epoll s') = (interest (os_epoll (nt_os t)))(fd := None)"
    using call_laws(5) [OF assms(2) refl, of fd "nt_os t"] by blast
  ultimately show ?thesis
    using assms(1) by (auto simp: nt_RemoveSocket_def Epoller_DelSocket_def Epoll_DelSocket_def thread_ok_def) blast+
qed

lemma nt_AddSocket_ok:
  assumes "thread_ok interest ev V t" "p \<in> V"
  shows "\<exists>t'. nt_AddSocket p ev t = Inr t' \<and> thread_ok interest ev V t'"
  using assms by (simp add: nt_AddSocket_def thread_ok_def Let_def)

lemma nt_add_task_ok:
  assumes "thread_ok interest ev V t" "epoll_laws ctl interest" "task \<in> V \<times> {ev}" "ev \<noteq> 0" "\<And>p. p \<in> V \<Longrightarrow> \<exists>fd. fd_of p = Inr fd"
  shows "\<exists>t'. nt_add_task ctl fd_of task t = Inr t' \<and> thread_ok interest ev V t'"
proof -
  obtain p where p: "task = (p, ev)" "p \<in> V" using assms(3) by auto
  obtain fd where fd: "fd_of p = Inr fd" using assms(5) [OF p(2)] by blast
  obtain ok s' where s': "add_or_mod ctl True fd ev p (nt_os t) = Some (ok, s')"
    "ran (interest (os_epoll s')) \<subseteq> ran (interest (os_epoll (nt_os t))) \<union> {(interest_mask ev, p)}"
    using add_or_mod_total [OF assms(2), of ev True fd p "nt_os t"] assms(4) by auto
  then have "ran (interest (os_epoll s')) \<subseteq> {interest_mask ev} \<times> V"
    using assms(1) p(2) by (fastforce simp: thread_ok_def)
  then show ?thesis using s'(1) assms(1) fd p by (simp add: nt_add_task_def Epoller_AddSocket_def thread_ok_def)
qed

lemma TryAddNewTasks_ok:
  assumes "thread_ok interest ev V t" "epoll_laws ctl interest" "ev \<noteq> 0" "\<And>p. p \<in> V \<Longrightarrow> \<exists>fd. fd_of p = Inr fd"
  shows "\<exists>t'. TryAddNewTasks ctl fd_of locked t = Inr t' \<and> thread_ok interest ev V t'"
proof (cases "nt_newCnt t > 0 \<and> locked")
  case True
  have "\<exists>t'. foldR (nt_add_task ctl fd_of) (nt_newTasks t) (t\<lparr>nt_newTasks := [], nt_newCnt := 0\<rparr>) = Inr t' \<and>
      thread_ok interest ev V t'"
  proof (rule foldR_total)
    fix task s
    assume "task \<in> set (nt_newTasks t)" "thread_ok interest ev V s"
    moreover from this(1) have "task \<in> V \<times> {ev}" using assms(1) by (auto simp: thread_ok_def)
    ultimately show "\<exists>t'. nt_add_task ctl fd_of task s = Inr t' \<and> thread_ok interest ev V t'"
      by (intro nt_add_task_ok assms(2,3,4))
  qed (use assms(1) in \<open>simp add: thread_ok_def\<close>)
  with True show ?thesis by (simp add: TryAddNewTasks_def)
qed (use assms(1) in \<open>auto simp: TryAddNewTasks_def\<close>)

text \<open>Replacing a thread of the process.\<close>

lemma recv_thread_steps:
  assumes "net_ok interest w" "nw_recvThread w = Some t" "thread_ok interest EventTypeRead (socks w) t'"
  shows "steps interest w (w\<lparr>nw_recvThread := Some t'\<rparr>)"
  using assms by (auto simp: steps_def grows_def net_ok_def socks_def conns_def)

lemma send_thread_steps:
  assumes "net_ok interest w" "nw_sendThread w = Some t" "thread_ok interest EventTypeWrite (conns w) t'"
  shows "steps interest w (w\<lparr>nw_sendThread := Some t'\<rparr>)"
  using assms by (auto simp: steps_def grows_def net_ok_def socks_def conns_def)

lemma recv_thread_ok: "net_ok interest w \<Longrightarrow> nw_recvThread w = Some t \<Longrightarrow> thread_ok interest EventTypeRead (socks w) t"
  by (simp add: net_ok_def)

lemma send_thread_ok: "net_ok interest w \<Longrightarrow> nw_sendThread w = Some t \<Longrightarrow> thread_ok interest EventTypeWrite (conns w) t"
  by (simp add: net_ok_def)

lemma recv_mod_ok:
  assumes "net_ok interest w" "epoll_laws ctl interest" "p \<in> socks w" "e = EventTypeRead \<or> e = 0"
  shows "\<exists>w'. recv_mod ctl p e w = Inr w' \<and> steps interest w w'"
proof (cases "nw_recvThread w")
  case (Some t)
  obtain t' where "nt_ModSocket ctl (sock_fd (nw_heap w ! p)) p e t = Inr t'" "thread_ok interest EventTypeRead (socks w) t'"
    using thread_ok_poll [OF recv_thread_ok [OF assms(1) Some] assms(2,3,4)] by blast
  then show ?thesis
    using Some recv_thread_steps [OF assms(1) Some] assms(3) by (simp add: recv_mod_def fd_at_in)
qed (use assms(1) in \<open>simp add: recv_mod_def steps_refl\<close>)

lemma send_mod_ok:
  assumes "net_ok interest w" "epoll_laws ctl interest" "p \<in> conns w" "e = EventTypeWrite \<or> e = 0"
  shows "\<exists>w'. send_mod ctl p e w = Inr w' \<and> steps interest w w'"
proof (cases "nw_sendThread w")
  case (Some t)
  have p: "p \<in> socks w" using assms(3) conns_socks by blast
  obtain t' where "nt_ModSocket ctl (sock_fd (nw_heap w ! p)) p e t = Inr t'" "thread_ok interest EventTypeWrite (conns w) t'"
    using thread_ok_poll [OF send_thread_ok [OF assms(1) Some] assms(2,3,4)] by blast
  then show ?thesis
    using Some send_thread_steps [OF assms(1) Some] p by (simp add: send_mod_def fd_at_in)
qed (use assms(1) in \<open>simp add: send_mod_def steps_refl\<close>)

lemma pool_do_ok:
  assumes "net_ok interest w" "epoll_laws ctl interest" "p \<in> conns w"
  shows "\<exists>w'. pool_do ctl p r w = Inr w' \<and> steps interest w w'"
proof -
  have "p \<in> socks w" using assms(3) conns_socks by blast
  then show ?thesis
    using recv_mod_ok [OF assms(1,2), of p] send_mod_ok [OF assms] by (cases r) simp_all
qed

text \<open>Loops of steps.\<close>

lemma foldR_steps:
  assumes "net_ok interest w"
    "\<And>x v. x \<in> set xs \<Longrightarrow> steps interest w v \<Longrightarrow> \<exists>v'. f x v = Inr v' \<and> steps interest v v'"
  shows "\<exists>w'. foldR f xs w = Inr w' \<and> steps interest w w'"
proof (rule foldR_total)
  fix x v assume "x \<in> set xs" "steps interest w v"
  then show "\<exists>v'. f x v = Inr v' \<and> steps interest w v'" using assms(2) by (meson steps_trans)
qed (rule steps_refl [OF assms(1)])

lemma requests_ok:
  assumes "net_ok interest w" "epoll_laws ctl interest" "p \<in> conns w"
  shows "\<exists>w'. foldR (pool_do ctl p) rs w = Inr w' \<and> steps interest w w'"
  by (rule foldR_steps [OF assms(1)]) (use assms in \<open>auto intro: pool_do_ok dest: steps_ok steps_conns\<close>)

section \<open>New connections\<close>

lemma pool_AddSocket_ok:
  assumes "net_ok interest w" "p \<in> socks w" "and events EventTypeWrite \<noteq> 0 \<longrightarrow> p \<in> conns w"
  shows "\<exists>ok w'. pool_AddSocket p events w = Inr (ok, w') \<and> steps interest w w'"
proof -
  have recv: "\<exists>ok v. (case nw_recvThread w of None \<Rightarrow> Inr (False, w)
      | Some t \<Rightarrow> bindR (nt_AddSocket p EventTypeRead t) (\<lambda>t. Inr (True, w\<lparr>nw_recvThread := Some t\<rparr>))) = Inr (ok, v) \<and>
      steps interest w v"
  proof (cases "nw_recvThread w")
    case (Some t)
    obtain t' where "nt_AddSocket p EventTypeRead t = Inr t'" "thread_ok interest EventTypeRead (socks w) t'"
      using nt_AddSocket_ok [OF recv_thread_ok [OF assms(1) Some] assms(2)] by blast
    then show ?thesis using Some recv_thread_steps [OF assms(1) Some] by auto
  qed (use assms(1) in \<open>auto simp: steps_refl\<close>)
  have send: "\<exists>ok v'. (case nw_sendThread v of None \<Rightarrow> Inr (False, v)
      | Some t \<Rightarrow> bindR (nt_AddSocket p EventTypeWrite t) (\<lambda>t. Inr (True, v\<lparr>nw_sendThread := Some t\<rparr>))) = Inr (ok, v') \<and>
      steps interest v v'" if pre: "net_ok interest v" "p \<in> conns v" for v :: "('b, 'a) net"
  proof (cases "nw_sendThread v")
    case (Some t)
    obtain t' where "nt_AddSocket p EventTypeWrite t = Inr t'" "thread_ok interest EventTypeWrite (conns v) t'"
      using nt_AddSocket_ok [OF send_thread_ok [OF pre(1) Some] pre(2)] by blast
    then show ?thesis using Some send_thread_steps [OF pre(1) Some] by auto
  qed (use pre in \<open>auto simp: steps_refl\<close>)
  obtain ok v where v: "(if and events EventTypeRead \<noteq> 0 then case nw_recvThread w of None \<Rightarrow> Inr (False, w)
      | Some t \<Rightarrow> bindR (nt_AddSocket p EventTypeRead t) (\<lambda>t. Inr (True, w\<lparr>nw_recvThread := Some t\<rparr>))
      else Inr (True, w)) = Inr (ok, v)" "steps interest w v"
    using recv steps_refl [OF assms(1)] by (cases "and events EventTypeRead \<noteq> 0") auto
  show ?thesis
  proof (cases "ok \<and> and events EventTypeWrite \<noteq> 0")
    case True
    then obtain ok' v' where "(case nw_sendThread v of None \<Rightarrow> Inr (False, v)
      | Some t \<Rightarrow> bindR (nt_AddSocket p EventTypeWrite t) (\<lambda>t. Inr (True, v\<lparr>nw_sendThread := Some t\<rparr>))) = Inr (ok', v')"
      "steps interest v v'"
      using send [OF steps_ok [OF v(2)] steps_conns [OF v(2)]] assms(3) by blast
    then show ?thesis using True v by (auto simp: pool_AddSocket_def intro: steps_trans)
  qed (use v in \<open>auto simp: pool_AddSocket_def\<close>)
qed

lemma Client_new_ok: "\<exists>c sid'. Client_new sid = Inr (c, sid') \<and> ss_ok c \<and> ub_inv (cl_reply c)"
proof -
  obtain a where a: "AsyncBuffer_new (128 * 1024) = Inr a" "ab_inv a" using AsyncBuffer_new_ok [of "128 * 1024"] by auto
  have r: "Buffer_new 0 = Inr \<lparr>cb_maxSize = 0, cb_readPos = 0, cb_writePos = 0, cb_buffer = []\<rparr>"
    by (simp add: Buffer_new_def RoundUp2Power_def)
  show ?thesis
    using a by (simp add: Client_new_def Socket_new_def r cl_Reset_def ss_ok_def ss_fresh_def ub_inv_new Let_def)
qed

lemma OnNewConnection_ok:
  assumes "net_ok interest w"
  shows "\<exists>conn w'. OnNewConnection fd peer w = Inr (conn, w') \<and> steps interest w w' \<and> (\<forall>p. conn = Some p \<longrightarrow> p \<in> conns w')"
proof -
  obtain c sid' where c: "Client_new (nw_sid w) = Inr (c, sid')" "ss_ok c" "ub_inv (cl_reply c)"
    using Client_new_ok [of "nw_sid w"] by blast
  obtain ok c' where c': "StreamSocket_Init fd peer c = (ok, c')" by fastforce
  have "sock_ok (AStream c')"
    using c c' by (auto simp: StreamSocket_Init_def ss_ok_def ss_fresh_def ss_inv_def split: if_splits)
  moreover have w: "steps interest w (w\<lparr>nw_sid := sid'\<rparr>)"
    using assms by (intro net_ok_heap) (auto simp: socks_def conns_def net_ok_def)
  ultimately have "steps interest w (w\<lparr>nw_sid := sid', nw_heap := nw_heap w @ [AStream c']\<rparr>)"
    using append_sock_steps [OF steps_ok [OF w], of "AStream c'"] steps_trans [OF w] by simp
  with c(1) c' w show ?thesis by (auto simp: OnNewConnection_def Let_def conns_def nth_append)
qed

lemma AddTask_steps:
  assumes "net_ok interest w" "p \<in> conns w"
  shows "steps interest w (w\<lparr>nw_tasks := AddTask p (nw_tasks w)\<rparr>)"
  using assms by (auto simp: steps_def grows_def net_ok_def socks_def conns_def AddTask_def tasks_ok_def)

lemma NewConnection_ok:
  assumes "net_ok interest w"
  shows "\<exists>w'. NewConnection fd peer w = Inr w' \<and> steps interest w w'"
proof (cases "fd = INVALID_SOCKET")
  case False
  obtain conn v where v: "OnNewConnection fd peer w = Inr (conn, v)" "steps interest w v" "\<forall>p. conn = Some p \<longrightarrow> p \<in> conns v"
    using OnNewConnection_ok [OF assms] by blast
  show ?thesis
  proof (cases conn)
    case (Some p)
    obtain ok v' where v': "pool_AddSocket p (or EventTypeRead EventTypeWrite) v = Inr (ok, v')" "steps interest v v'"
      using pool_AddSocket_ok [OF steps_ok [OF v(2)]] v(3) Some conns_socks by blast
    have "steps interest v' (v'\<lparr>nw_tasks := AddTask p (nw_tasks v')\<rparr>)"
      using v(3) v'(2) Some by (auto intro: AddTask_steps steps_ok steps_conns)
    then have "steps interest w (v'\<lparr>nw_tasks := AddTask p (nw_tasks v')\<rparr>)" "steps interest w v'"
      using v(2) v'(2) by (meson steps_trans)+
    with False Some v(1) v'(1) show ?thesis by (simp add: NewConnection_def)
  qed (use False v in \<open>simp add: NewConnection_def\<close>)
qed (use assms in \<open>simp add: NewConnection_def steps_refl\<close>)

lemma Listen_OnReadable_ok:
  assumes "net_ok interest w"
  shows "\<exists>ok w'. Listen_OnReadable a w = Inr (ok, w') \<and> steps interest w w'"
proof -
  obtain w' where "foldR (\<lambda>(fd, peer). NewConnection fd peer) (ac_conns a) w = Inr w'" "steps interest w w'"
    using foldR_steps [OF assms, of "ac_conns a" "\<lambda>(fd, peer). NewConnection fd peer"] NewConnection_ok steps_ok by fastforce
  then show ?thesis by (simp add: Listen_OnReadable_def)
qed

section \<open>What the kernel promises in a turn\<close>

text \<open>
  \<open>epoll_wait\<close> reports at most as many events as it is given room for, each for a registered
  socket and an event asked for (errors and hangups are always reported); \<open>readv\<close> and \<open>writev\<close> move
  at most the bytes offered.
\<close>

definition fires :: "(u32 \<times> nat) set \<Rightarrow> u32 \<times> nat \<Rightarrow> bool" where
  "fires asked e \<longleftrightarrow> (\<exists>m. (m, snd e) \<in> asked \<and> (\<forall>flag\<in>{EPOLLIN, EPOLLOUT}. and (fst e) flag \<noteq> 0 \<longrightarrow> and m flag \<noteq> 0))"

definition kernel_promises :: "('k \<Rightarrow> int \<rightharpoonup> u32 \<times> nat) \<Rightarrow> 'k answers \<Rightarrow> bool" where
  "kernel_promises interest a \<longleftrightarrow>
     (\<forall>n k rs. an_wait a n k = Ready rs \<longrightarrow> length rs \<le> n \<and> (\<forall>e\<in>set rs. fires (ran (interest k)) e)) \<and>
     (\<forall>p n. length (received (an_read a p n)) \<le> n) \<and> (\<forall>p n m. an_write a p n = Wrote m \<longrightarrow> m \<le> n)"

lemma grow_loop_ge: "m \<le> grow_loop m n"
  by (induction m n rule: grow_loop.induct) (subst grow_loop.simps, simp)

text \<open>A thread that polls for \<open>ev\<close> alone sees no event of the other kind.\<close>

definition event_ok :: "u32 \<Rightarrow> nat set \<Rightarrow> FiredEvent \<Rightarrow> bool" where
  "event_ok ev V e \<longleftrightarrow> (fe_events e = ev \<or> fe_events e = 0) \<and> fe_userdata e \<in> V"

lemma fired_event_ok:
  assumes "fires ({interest_mask ev} \<times> V) e" "ev = EventTypeRead \<or> ev = EventTypeWrite"
  shows "event_ok ev V (fired_of e)"
  using assms by (auto simp: fires_def event_ok_def fired_of_def interest_mask_def event_types epoll_flags)

lemma nt_Poll_ok:
  assumes "thread_ok interest ev V t" "kernel_promises interest a" "ev = EventTypeRead \<or> ev = EventTypeWrite"
  shows "\<exists>nReady t'. nt_Poll a t = Inr (nReady, t') \<and> thread_ok interest ev V t' \<and> nt_tasks t' = nt_tasks t \<and>
    nat nReady \<le> length (nt_fired t') \<and> (\<forall>i<nat nReady. event_ok ev V (nt_fired t' ! i))"
proof (cases "nt_tasks t = [] \<or> (\<exists>e. an_wait a (length (nt_tasks t)) (os_epoll (nt_os t)) = WaitFailed e)")
  case True
  then show ?thesis using assms(1) by (auto simp: nt_Poll_def Poll_def thread_ok_def Let_def)
next
  case False
  let ?n = "length (nt_tasks t)" and ?k = "os_epoll (nt_os t)"
  obtain rs where rs: "an_wait a ?n ?k = Ready rs" using False by (cases "an_wait a ?n ?k") auto
  then have len: "length rs \<le> ?n" and f: "\<forall>e\<in>set rs. fires (ran (interest ?k)) e"
    using assms(2) by (auto simp: kernel_promises_def)
  have "fires ({interest_mask ev} \<times> V) e" if "e \<in> set rs" for e
    using f that assms(1) by (fastforce simp: fires_def thread_ok_def)
  then have ok: "event_ok ev V (fired_of (rs ! i))" if "i < length rs" for i
    using fired_event_ok [OF _ assms(3)] that by simp
  have "length rs \<le> grow_loop ?n (nt_buf t)" using len grow_loop_ge [of ?n "nt_buf t"] by simp
  with False rs ok assms(1) show ?thesis
    by (auto simp: nt_Poll_def Poll_def Let_def thread_ok_def nth_append)
qed

section \<open>The receiving thread\<close>

lemma sock_OnReadable_ok:
  assumes "net_ok interest w" "epoll_laws ctl interest" "kernel_promises interest a" "p \<in> socks w"
  shows "\<exists>ok w'. sock_OnReadable ctl a p w = Inr (ok, w') \<and> steps interest w w'"
proof (cases "nw_heap w ! p")
  case (AListen l)
  then show ?thesis using Listen_OnReadable_ok [OF assms(1)] assms(4) by (simp add: sock_OnReadable_def sock_at_in)
next
  case (AStream c)
  let ?r = "an_read a p (recv_space c)"
  have c: "ss_ok c" "ub_inv (cl_reply c)" using sock_in_ok [OF assms(1,4)] AStream by simp_all
  have p: "p \<in> conns w" using AStream assms(4) by (simp add: conns_def socks_def)
  have "readv_ok ?r c" using assms(3) by (simp add: kernel_promises_def readv_ok_def)
  then obtain b where b: "Recv ?r c = Inr (recv_result ?r c, c\<lparr>ss_recvBuf := b\<rparr>)" "cb_inv b" using Recv_ok [OF c(1)] by blast
  then obtain ok rs where r: "Stream_OnReadable ?r c = Inr (ok, rs, c\<lparr>ss_recvBuf := b\<rparr>)"
    by (cases "recv_result ?r c < 0") (auto simp: Stream_OnReadable_def)
  have "sock_ok (AStream (c\<lparr>ss_recvBuf := b\<rparr>))"
    using b(2) c by (auto simp: ss_ok_def ss_fresh_def ss_inv_def)
  then have w: "steps interest w (put_sock p (AStream (c\<lparr>ss_recvBuf := b\<rparr>)) w)"
    using assms(1,4) AStream by (intro put_sock_steps) simp_all
  obtain w' where "foldR (pool_do ctl p) rs (put_sock p (AStream (c\<lparr>ss_recvBuf := b\<rparr>)) w) = Inr w'"
    "steps interest (put_sock p (AStream (c\<lparr>ss_recvBuf := b\<rparr>)) w) w'"
    using requests_ok [OF steps_ok [OF w] assms(2) steps_conns [OF w p]] by blast
  with w r AStream assms(4) show ?thesis by (auto simp: sock_OnReadable_def sock_at_in intro: steps_trans)
qed

lemma maybe_error_ok:
  assumes "net_ok interest w" "p \<in> socks w"
  shows "\<exists>w'. (if b then Inr w else sock_OnError p w) = Inr w' \<and> steps interest w w'"
  using sock_OnError_ok [OF assms] steps_refl [OF assms(1)] by simp

lemma recv_event_ok:
  assumes "net_ok interest w" "epoll_laws ctl interest" "kernel_promises interest a" "event_ok EventTypeRead (socks w) e"
  shows "\<exists>w'. recv_event ctl a e w = Inr w' \<and> steps interest w w'"
proof -
  have e: "fe_events e = EventTypeRead \<or> fe_events e = 0" and p: "fe_userdata e \<in> socks w"
    using assms(4) by (auto simp: event_ok_def)
  then have bits: "and (fe_events e) EventTypeWrite = 0" "and (fe_events e) EventTypeError = 0"
    "and (fe_events e) EventTypeRead \<noteq> 0 \<longleftrightarrow> fe_events e = EventTypeRead"
    by (auto simp: event_types)
  show ?thesis
  proof (cases "fe_events e = EventTypeRead")
    case True
    obtain ok v where v: "sock_OnReadable ctl a (fe_userdata e) w = Inr (ok, v)" "steps interest w v"
      using sock_OnReadable_ok [OF assms(1-3) p] by blast
    obtain w' where "(if ok then Inr v else sock_OnError (fe_userdata e) v) = Inr w'" "steps interest v w'"
      using maybe_error_ok [OF steps_ok [OF v(2)] steps_socks [OF v(2) p]] by blast
    with v True show ?thesis
      using bits by (auto simp: recv_event_def Let_def intro: steps_trans)
  qed (use bits assms(1) in \<open>simp add: recv_event_def Let_def steps_refl\<close>)
qed

lemma recv_sweep_ok:
  assumes "net_ok interest w" "epoll_laws ctl interest" "p \<in> socks w" "nw_recvThread w \<noteq> None"
  shows "\<exists>keep w'. recv_sweep ctl p w = Inr (keep, w') \<and> steps interest w w'"
proof (cases "sock_invalid (nw_heap w ! p)")
  case True
  obtain v where v: "recv_mod ctl p 0 w = Inr v" "steps interest w v"
    using recv_mod_ok [OF assms(1-3), of 0] by blast
  obtain t where t: "nw_recvThread v = Some t" using v(2) assms(4) by (auto simp: steps_def grows_def)
  have "steps interest v (v\<lparr>nw_recvThread := Some (nt_RemoveSocket ctl fd EventTypeRead t)\<rparr>)" for fd
    using recv_thread_steps [OF steps_ok [OF v(2)] t] thread_ok_remove [OF recv_thread_ok [OF steps_ok [OF v(2)] t] assms(2)]
    by blast
  with v(2) have "steps interest w (v\<lparr>nw_recvThread := Some (nt_RemoveSocket ctl fd EventTypeRead t)\<rparr>)" for fd
    by (meson steps_trans)
  with True v(1) t assms(3) show ?thesis by (auto simp: recv_sweep_def sock_at_in)
qed (use assms in \<open>auto simp: recv_sweep_def sock_at_in steps_refl\<close>)

lemma sweep_steps:
  assumes "net_ok interest w" "set ps \<subseteq> V"
    "\<And>p v. p \<in> set ps \<Longrightarrow> steps interest w v \<Longrightarrow> \<exists>keep v'. f p v = Inr (keep, v') \<and> steps interest v v'"
  shows "\<exists>kept w'. sweep f ps [] w = Inr (kept, w') \<and> steps interest w w' \<and> set kept \<subseteq> V"
proof -
  have "\<exists>kept w'. sweep f ps [] w = Inr (kept, w') \<and> steps interest w w' \<and> set kept \<subseteq> set [] \<union> set ps"
  proof (rule sweep_total)
    fix p v assume "p \<in> set ps" "steps interest w v"
    then show "\<exists>keep v'. f p v = Inr (keep, v') \<and> steps interest w v'" using assms(3) by (meson steps_trans)
  qed (rule steps_refl [OF assms(1)])
  then show ?thesis using assms(2) by fastforce
qed

text \<open>The counter of empty rounds never leaves the bounds of the invariant.\<close>

lemma loopCount_steps:
  assumes "net_ok interest w" "0 \<le> n" "n < 100000"
  shows "steps interest w (w\<lparr>nw_loopCount := n\<rparr>)"
  using assms by (auto simp: steps_def grows_def net_ok_def socks_def conns_def)

lemma events_steps:
  assumes "net_ok interest w" "n \<le> length fired" "\<forall>i<n. event_ok ev V (fired ! i)"
    "\<And>e v. event_ok ev V e \<Longrightarrow> steps interest w v \<Longrightarrow> \<exists>v'. f e v = Inr v' \<and> steps interest v v'"
  shows "\<exists>w'. foldR (\<lambda>i w. bindR (nthR fired i) (\<lambda>e. f e w)) [0..<n] w = Inr w' \<and> steps interest w w'"
  by (rule foldR_steps [OF assms(1)]) (use assms(2-4) in \<open>simp add: nthR_in\<close>)

lemma event_ok_mono: "event_ok ev V e \<Longrightarrow> V \<subseteq> V' \<Longrightarrow> event_ok ev V' e"
  by (auto simp: event_ok_def)

lemma steps_present:
  "steps interest w v \<Longrightarrow> nw_recvThread w \<noteq> None \<Longrightarrow> \<exists>t. nw_recvThread v = Some t"
  "steps interest w v \<Longrightarrow> nw_sendThread w \<noteq> None \<Longrightarrow> \<exists>t. nw_sendThread v = Some t"
  by (auto simp: steps_def grows_def)

text \<open>The invalid sockets leave the receiving thread.\<close>

lemma recv_clean_ok:
  assumes "net_ok interest w" "epoll_laws ctl interest" "nw_recvThread w = Some t"
  shows "\<exists>w'. bindR (sweep (recv_sweep ctl) (nt_tasks t) [] (w\<lparr>nw_loopCount := 0\<rparr>)) (\<lambda>(kept, w). set_recv_tasks kept w) = Inr w' \<and>
    steps interest w w'"
proof -
  let ?v = "w\<lparr>nw_loopCount := 0\<rparr>"
  have v: "steps interest w ?v" using loopCount_steps [OF assms(1)] by simp
  have ts: "set (nt_tasks t) \<subseteq> socks ?v"
    using recv_thread_ok [OF assms(1,3)] by (simp add: thread_ok_def socks_def)
  have one: "\<exists>keep u'. recv_sweep ctl p u = Inr (keep, u') \<and> steps interest u u'"
    if "p \<in> set (nt_tasks t)" "steps interest ?v u" for p u
    using that ts steps_present(1) [OF steps_trans [OF v that(2)]] assms(3)
    by (intro recv_sweep_ok [OF steps_ok [OF that(2)] assms(2)] steps_socks [OF that(2)]) auto
  obtain kept u where u: "sweep (recv_sweep ctl) (nt_tasks t) [] ?v = Inr (kept, u)" "steps interest ?v u"
    "set kept \<subseteq> socks ?v"
    using sweep_steps [where f = "recv_sweep ctl", OF steps_ok [OF v] ts] one by blast
  have wu: "steps interest w u" using steps_trans [OF v u(2)] .
  obtain t' where t': "nw_recvThread u = Some t'" using steps_present(1) [OF wu] assms(3) by auto
  have "thread_ok interest EventTypeRead (socks u) (t'\<lparr>nt_tasks := kept\<rparr>)"
    using recv_thread_ok [OF steps_ok [OF wu] t'] u(2,3) by (auto simp: thread_ok_def steps_def grows_def)
  then have "steps interest w (u\<lparr>nw_recvThread := Some (t'\<lparr>nt_tasks := kept\<rparr>)\<rparr>)"
    using steps_trans [OF wu recv_thread_steps [OF steps_ok [OF wu] t']] by blast
  with u(1) t' show ?thesis by (simp add: set_recv_tasks_def)
qed

lemma RecvThread_turn_ok:
  assumes "net_ok interest w" "epoll_laws ctl interest" "kernel_promises interest a" "nw_recvThread w \<noteq> None"
  shows "\<exists>w'. RecvThread_turn ctl a w = Inr w' \<and> steps interest w w'"
proof -
  obtain t where t: "nw_recvThread w = Some t" using assms(4) by auto
  obtain t1 where t1: "TryAddNewTasks ctl (fd_at w) (an_lock a) t = Inr t1" "thread_ok interest EventTypeRead (socks w) t1"
    using TryAddNewTasks_ok [OF recv_thread_ok [OF assms(1) t] assms(2), of "fd_at w" "an_lock a"]
    by (auto simp: event_types fd_at_in)
  show ?thesis
  proof (cases "\<not> nt_running t \<or> nt_tasks t1 = []")
    case True
    with t t1 recv_thread_steps [OF assms(1) t t1(2)] assms(1) show ?thesis
      by (auto simp: RecvThread_turn_def steps_refl)
  next
    case False
    obtain n t2 where t2: "nt_Poll a t1 = Inr (n, t2)" "thread_ok interest EventTypeRead (socks w) t2"
      "nat n \<le> length (nt_fired t2)" "\<forall>i<nat n. event_ok EventTypeRead (socks w) (nt_fired t2 ! i)"
      using nt_Poll_ok [OF t1(2) assms(3)] by auto
    let ?w2 = "w\<lparr>nw_recvThread := Some t2\<rparr>"
    have s2: "steps interest w ?w2" using recv_thread_steps [OF assms(1) t t2(2)] .
    have one: "\<exists>v'. recv_event ctl a e v = Inr v' \<and> steps interest v v'"
      if "event_ok EventTypeRead (socks w) e" "steps interest ?w2 v" for e v
      using recv_event_ok [OF steps_ok [OF that(2)] assms(2,3) event_ok_mono [OF that(1)]] steps_trans [OF s2 that(2)]
      by (simp add: steps_def grows_def)
    obtain v where v: "foldR (\<lambda>i w. bindR (nthR (nt_fired t2) i) (\<lambda>e. recv_event ctl a e w)) [0..<nat n] ?w2 = Inr v"
      "steps interest ?w2 v"
      using events_steps [where f = "recv_event ctl a", OF steps_ok [OF s2] t2(3,4)] one by blast
    have wv: "steps interest w v" using s2 v(2) by (rule steps_trans)
    let ?lc = "(if n = 0 then nw_loopCount v * 2 else nw_loopCount v) + 1"
    show ?thesis
    proof (cases "?lc < 100000")
      case True
      have "0 \<le> ?lc" using steps_ok [OF wv] by (simp add: net_ok_def)
      then have "steps interest w (v\<lparr>nw_loopCount := ?lc\<rparr>)"
        using steps_trans [OF wv loopCount_steps [OF steps_ok [OF wv]]] True by blast
      with False t t1(1) t2(1) v(1) True show ?thesis by (simp add: RecvThread_turn_def)
    next
      case lc: False
      obtain t3 where t3: "nw_recvThread v = Some t3" using steps_present(1) [OF wv assms(4)] by blast
      obtain w' where "bindR (sweep (recv_sweep ctl) (nt_tasks t3) [] (v\<lparr>nw_loopCount := 0\<rparr>))
          (\<lambda>(kept, w). set_recv_tasks kept w) = Inr w'" "steps interest v w'"
        using recv_clean_ok [OF steps_ok [OF wv] assms(2) t3] by blast
      with False t t1(1) t2(1) v(1) lc t3 wv show ?thesis
        by (auto simp: RecvThread_turn_def intro: steps_trans)
    qed
  qed
qed

section \<open>The sending thread\<close>

lemma Send_keeps:
  assumes "ss_ok c" "ub_inv (cl_reply c)" "kernel_promises interest a"
  shows "\<exists>ok rs c'. Send (an_swap a p) (an_write a p (length (offered (an_swap a p) c))) c = Inr (ok, rs, c') \<and>
    sock_ok (AStream c')"
proof (cases "so_epollOut c")
  case True
  with assms show ?thesis by (auto simp: Send_def)
next
  case False
  let ?k = "an_write a p (length (offered (an_swap a p) c))"
  have a: "ab_inv (ss_sendBuf c)" using assms(1) by (auto simp: ss_ok_def ss_inv_def ss_fresh_def)
  have "kernel_ok ?k (offered (an_swap a p) c)"
    using assms(3) by (auto simp: kernel_ok_def kernel_promises_def split: send_outcome.split)
  from Send_core [OF a False this]
  obtain ok rs c' where c': "Send (an_swap a p) ?k c = Inr (ok, rs, c')" "ab_inv (ss_sendBuf c')"
    "c' = c\<lparr>so_epollOut := so_epollOut c', ss_sendBuf := ss_sendBuf c'\<rparr>"
    by (elim exE conjE) (rule that)
  have "ss_ok (c\<lparr>so_epollOut := e, ss_sendBuf := b\<rparr>) \<and> cl_reply (c\<lparr>so_epollOut := e, ss_sendBuf := b\<rparr>) = cl_reply c"
    if "ab_inv b" for e b
    using assms(1) that by (auto simp: ss_ok_def ss_inv_def ss_fresh_def)
  from this [OF c'(2), of "so_epollOut c'"] c'(3) assms(2) have "sock_ok (AStream c')" by (metis sock_ok.simps(2))
  with c'(1) show ?thesis by blast
qed

lemma send_sweep_ok:
  assumes "net_ok interest w" "epoll_laws ctl interest" "kernel_promises interest a" "p \<in> conns w" "nw_sendThread w \<noteq> None"
  shows "\<exists>keep w'. send_sweep ctl a p w = Inr (keep, w') \<and> steps interest w w'"
proof -
  have p: "p \<in> socks w" using assms(4) conns_socks by blast
  obtain c where c: "nw_heap w ! p = AStream c" using assms(4) by (cases "nw_heap w ! p") (auto simp: conns_def)
  have cok: "ss_ok c" "ub_inv (cl_reply c)" using sock_in_ok [OF assms(1) p] c by simp_all
  obtain ok rs c' where c': "Send (an_swap a p) (an_write a p (length (offered (an_swap a p) c))) c = Inr (ok, rs, c')"
    "sock_ok (AStream c')"
    using Send_keeps [OF cok assms(3)] by blast
  have w1: "steps interest w (put_sock p (AStream c') w)" using assms(1) p c'(2) c by (intro put_sock_steps) simp_all
  obtain v where v: "foldR (pool_do ctl p) rs (put_sock p (AStream c') w) = Inr v" "steps interest (put_sock p (AStream c') w) v"
    using requests_ok [OF steps_ok [OF w1] assms(2) steps_conns [OF w1 assms(4)]] by blast
  have wv: "steps interest w v" using w1 v(2) by (rule steps_trans)
  obtain v2 where v2: "(if ok then Inr v else sock_OnError p v) = Inr v2" "steps interest v v2"
    using maybe_error_ok [OF steps_ok [OF wv] steps_socks [OF wv p]] by blast
  have wv2: "steps interest w v2" using wv v2(2) by (rule steps_trans)
  note p2 = steps_socks [OF wv2 p]
  show ?thesis
  proof (cases "sock_invalid (nw_heap v2 ! p)")
    case False
    with c c'(1) v(1) v2(1) wv2 p p2 show ?thesis by (auto simp: send_sweep_def sock_at_in)
  next
    case True
    obtain u where u: "send_mod ctl p 0 v2 = Inr u" "steps interest v2 u"
      using send_mod_ok [OF steps_ok [OF wv2] assms(2) steps_conns [OF wv2 assms(4)], of 0] by blast
    have wu: "steps interest w u" using wv2 u(2) by (rule steps_trans)
    obtain t where t: "nw_sendThread u = Some t" using steps_present(2) [OF wu assms(5)] by blast
    have "steps interest w (u\<lparr>nw_sendThread := Some (nt_RemoveSocket ctl fd EventTypeWrite t)\<rparr>)" for fd
      using steps_trans [OF wu send_thread_steps [OF steps_ok [OF wu] t]]
        thread_ok_remove [OF send_thread_ok [OF steps_ok [OF wu] t] assms(2)] by blast
    with True c c'(1) v(1) v2(1) u(1) t p p2 show ?thesis by (auto simp: send_sweep_def sock_at_in)
  qed
qed

lemma send_event_ok:
  assumes "net_ok interest w" "event_ok EventTypeWrite (conns w) e"
  shows "\<exists>w'. send_event e w = Inr w' \<and> steps interest w w'"
proof -
  have e: "fe_events e = EventTypeWrite \<or> fe_events e = 0" and p: "fe_userdata e \<in> socks w"
    using assms(2) conns_socks by (auto simp: event_ok_def)
  then have bits: "and (fe_events e) EventTypeRead = 0" "and (fe_events e) EventTypeError = 0"
    "and (fe_events e) EventTypeWrite \<noteq> 0 \<longleftrightarrow> fe_events e = EventTypeWrite"
    by (auto simp: event_types)
  obtain w' where w': "(if sock_OnWritable (nw_heap w ! fe_userdata e) then Inr w else sock_OnError (fe_userdata e) w) = Inr w'"
    "steps interest w w'"
    using maybe_error_ok [OF assms(1) p] by blast
  with bits p assms(1) show ?thesis
    by (cases "fe_events e = EventTypeWrite") (simp_all add: send_event_def Let_def sock_at_in steps_refl)
qed

lemma SendThread_turn_ok:
  assumes "net_ok interest w" "epoll_laws ctl interest" "kernel_promises interest a" "nw_sendThread w \<noteq> None"
  shows "\<exists>w'. SendThread_turn ctl a w = Inr w' \<and> steps interest w w'"
proof -
  obtain t where t: "nw_sendThread w = Some t" using assms(4) by auto
  have "\<exists>fd. fd_at w p = Inr fd" if "p \<in> conns w" for p using that conns_socks fd_at_in by blast
  then obtain t1 where t1: "TryAddNewTasks ctl (fd_at w) (an_lock a) t = Inr t1" "thread_ok interest EventTypeWrite (conns w) t1"
    using TryAddNewTasks_ok [OF send_thread_ok [OF assms(1) t] assms(2), of "fd_at w" "an_lock a"] by (auto simp: event_types)
  let ?w1 = "w\<lparr>nw_sendThread := Some t1\<rparr>"
  have s1: "steps interest w ?w1" using send_thread_steps [OF assms(1) t t1(2)] .
  have ts: "set (nt_tasks t1) \<subseteq> conns ?w1" using t1(2) by (simp add: thread_ok_def conns_def)
  have one: "\<exists>keep v'. send_sweep ctl a p v = Inr (keep, v') \<and> steps interest v v'"
    if "p \<in> set (nt_tasks t1)" "steps interest ?w1 v" for p v
    using that ts steps_present(2) [OF that(2)]
    by (intro send_sweep_ok [OF steps_ok [OF that(2)] assms(2,3)] steps_conns [OF that(2)]) auto
  obtain kept v where v: "sweep (send_sweep ctl a) (nt_tasks t1) [] ?w1 = Inr (kept, v)" "steps interest ?w1 v"
    "set kept \<subseteq> conns ?w1"
    using sweep_steps [where f = "send_sweep ctl a", OF steps_ok [OF s1] ts] one by blast
  have wv: "steps interest w v" using s1 v(2) by (rule steps_trans)
  obtain t2 where t2: "nw_sendThread v = Some t2" using steps_present(2) [OF wv assms(4)] by blast
  let ?t2 = "t2\<lparr>nt_tasks := kept\<rparr>"
  have t2ok: "thread_ok interest EventTypeWrite (conns v) ?t2"
    using send_thread_ok [OF steps_ok [OF wv] t2] v(2,3) by (auto simp: thread_ok_def steps_def grows_def)
  let ?v = "v\<lparr>nw_sendThread := Some ?t2\<rparr>"
  have wv2: "steps interest w ?v" using steps_trans [OF wv send_thread_steps [OF steps_ok [OF wv] t2 t2ok]] .
  obtain n t3 where t3: "nt_Poll a ?t2 = Inr (n, t3)" "thread_ok interest EventTypeWrite (conns v) t3"
    "nat n \<le> length (nt_fired t3)" "\<forall>i<nat n. event_ok EventTypeWrite (conns v) (nt_fired t3 ! i)"
    using nt_Poll_ok [OF t2ok assms(3)] by auto
  let ?v3 = "v\<lparr>nw_sendThread := Some t3\<rparr>"
  have s3: "steps interest w ?v3" using steps_trans [OF wv send_thread_steps [OF steps_ok [OF wv] t2 t3(2)]] .
  have two: "\<exists>u'. send_event e u = Inr u' \<and> steps interest u u'"
    if "event_ok EventTypeWrite (conns v) e" "steps interest ?v3 u" for e u
  proof -
    have "conns v \<subseteq> conns u" using that(2) by (simp add: steps_def grows_def conns_def)
    then show ?thesis using send_event_ok [OF steps_ok [OF that(2)] event_ok_mono [OF that(1)]] by blast
  qed
  obtain u where "foldR (\<lambda>i w. bindR (nthR (nt_fired t3) i) (\<lambda>e. send_event e w)) [0..<nat n] ?v3 = Inr u" "steps interest ?v3 u"
    using events_steps [where f = send_event, OF steps_ok [OF s3] t3(3,4)] two by blast
  with s3 have u: "foldR (\<lambda>i w. bindR (nthR (nt_fired t3) i) (\<lambda>e. send_event e w)) [0..<nat n] ?v3 = Inr u" "steps interest w u"
    by (auto intro: steps_trans)
  show ?thesis
    using t t1(1) v(1) t2 wv2 t3(1) u assms(1)
    by (cases "nt_running t") (auto simp: SendThread_turn_def Let_def steps_refl)
qed

section \<open>The main thread\<close>

lemma with_server_fields [simp]:
  "ss_recvBuf (with_server c sv) = ss_recvBuf c" "ss_sendBuf (with_server c sv) = ss_sendBuf c"
  "cl_reply (with_server c sv) = cl_reply c" "so_invalid (with_server c sv) = so_invalid c"
  by (simp_all add: with_server_def Client.defs session.defs)

lemma truncate_fields [simp]:
  "ss_recvBuf (Client.truncate s) = ss_recvBuf s" "ss_sendBuf (Client.truncate s) = ss_sendBuf s"
  "cl_reply (Client.truncate s) = cl_reply s"
  by (simp_all add: Client.defs)

lemma ss_ok_cong:
  "ss_recvBuf s = ss_recvBuf t \<Longrightarrow> ss_sendBuf s = ss_sendBuf t \<Longrightarrow> ss_ok s = ss_ok t"
  by (simp add: ss_ok_def ss_inv_def ss_fresh_def)

lemma ss_ok_sendBuf: "ss_ok c \<Longrightarrow> ab_inv (ss_sendBuf c)"
  by (auto simp: ss_ok_def ss_inv_def ss_fresh_def)

lemma ss_ok_change:
  "ss_ok c \<Longrightarrow> ss_recvBuf d = ss_recvBuf c \<Longrightarrow> ab_inv (ss_sendBuf d) \<Longrightarrow> ss_ok d"
  by (auto simp: ss_ok_def ss_inv_def ss_fresh_def)

lemma OnConnect_keeps:
  assumes "OnConnect rnd c = Inr d" "ss_ok c" "ub_inv (cl_reply c)"
  shows "ss_ok d \<and> ub_inv (cl_reply d)"
proof -
  obtain b a where "d = cl_Reset (c\<lparr>cl_reply := b, ss_sendBuf := a\<rparr>)" "ub_inv b" "ab_inv a"
    using assms ss_ok_sendBuf [OF assms(2)] by (auto simp: OnConnect_def Let_def bindR_eq_Inr dest!: push_reply_frame)
  then show ?thesis using ss_ok_change [OF assms(2), of d] by (simp add: cl_Reset_def)
qed

lemma serve_keeps:
  assumes "serve E s = Inr (busy, s')" "ss_ok s" "ub_inv (cl_reply s)"
  shows "ss_ok s' \<and> ub_inv (cl_reply s')"
proof (cases "ss_inv s \<and> inbox s \<noteq> []")
  case False
  then have "ss_inv s \<and> inbox s = [] \<or> ss_fresh s" using assms(2) by (auto simp: ss_ok_def)
  then have "cb_IsEmpty (ss_recvBuf s)"
  proof
    assume "ss_fresh s"
    then show ?thesis by (simp add: ss_fresh_def cb_IsEmpty_def)
  qed (simp add: ss_inv_def inbox_def cb_IsEmpty_iff)
  then have "s' = s" using assms(1) by (simp add: serve_def DoMsgParse_def parse_loop.simps)
  with assms show ?thesis by simp
next
  case True
  show ?thesis
  proof (cases "HandlePacket E (inbox s) s")
    case (Inl e)
    with True assms(1) show ?thesis by (simp add: serve_def DoMsgParse_fault)
  next
    case (Inr r)
    then obtain d where d: "HandlePacket E (inbox s) s = Inr (int (length (inbox s)), d)" "ss_recvBuf d = ss_recvBuf s"
      using HandlePacket_frame by (metis prod.collapse)
    then have "s' = d\<lparr>ss_recvBuf := cb_AdjustReadPtr (length (inbox s)) (ss_recvBuf s)\<rparr>"
      "cb_inv (cb_AdjustReadPtr (length (inbox s)) (ss_recvBuf s))"
      using DoMsgParse_one_message [where handle = "HandlePacket E", OF _ _ d(1,2)] True assms(1) by (simp_all add: serve_def)
    then show ?thesis
      using HandlePacket_keeps [OF d(1) ss_ok_sendBuf [OF assms(2)] assms(3)] by (simp add: ss_ok_def)
  qed
qed

lemma tasks_steps:
  assumes "net_ok interest w" "tasks_ok (conns w) tm"
  shows "steps interest w (w\<lparr>nw_tasks := tm\<rparr>)"
  using assms by (auto simp: steps_def grows_def net_ok_def socks_def conns_def)

lemma client_at_conns:
  assumes "p \<in> conns w"
  shows "\<exists>c. client_at w p = Inr c \<and> nw_heap w ! p = AStream c"
  using assms by (cases "nw_heap w ! p") (auto simp: client_at_def conns_def sock_at_def)

lemma client_steps:
  assumes "net_ok interest w" "p \<in> conns w" "ss_ok c" "ub_inv (cl_reply c)"
  shows "steps interest w (put_sock p (AStream c) w)"
  using assms conns_socks by (intro put_sock_steps) (auto simp: conns_def)

lemma server_steps: "net_ok interest w \<Longrightarrow> steps interest w (w\<lparr>nw_server := sv\<rparr>)"
  by (intro net_ok_heap) (auto simp: net_ok_def socks_def conns_def)

lemma insert_key_values: "insert_key k v m = (new, m') \<Longrightarrow> set m' \<subseteq> insert (k, v) (set m)"
proof (induction m arbitrary: m' new)
  case (Cons a m)
  obtain new2 m2 where m2: "insert_key k v m = (new2, m2)" by fastforce
  with Cons.IH [OF m2] Cons.prems show ?case by (cases a) (auto split: if_splits)
qed simp

lemma connect_task_keeps:
  assumes "connect_task rnd p w = Inr w'" "net_ok interest w" "p \<in> conns w"
  shows "steps interest w w'"
proof -
  obtain c where c: "client_at w p = Inr c" "nw_heap w ! p = AStream c" using client_at_conns [OF assms(3)] by blast
  obtain new m where m: "insert_key (int_key (so_id c)) p (tm_tcpSockets (nw_tasks w)) = (new, m)" by fastforce
  show ?thesis
  proof (cases new)
    case False
    with assms c m show ?thesis by (simp add: connect_task_def steps_refl)
  next
    case True
    then obtain d where d: "OnConnect (rnd p) c = Inr d"
      "w' = put_sock p (AStream d) (w\<lparr>nw_tasks := (nw_tasks w)\<lparr>tm_tcpSockets := m\<rparr>\<rparr>)"
      using assms(1) c m by (auto simp: connect_task_def)
    have cok: "ss_ok c" "ub_inv (cl_reply c)"
      using sock_in_ok [OF assms(2)] assms(3) conns_socks c(2) by fastforce+
    have tm: "tasks_ok (conns w) (nw_tasks w)" using assms(2) by (simp add: net_ok_def)
    have "snd ` set m \<subseteq> insert p (snd ` set (tm_tcpSockets (nw_tasks w)))" using insert_key_values [OF m] by auto
    then have "snd ` set m \<subseteq> conns w" using tm assms(3) unfolding tasks_ok_def by blast
    with tm have "tasks_ok (conns w) ((nw_tasks w)\<lparr>tm_tcpSockets := m\<rparr>)" by (simp add: tasks_ok_def)
    then have t: "steps interest w (w\<lparr>nw_tasks := (nw_tasks w)\<lparr>tm_tcpSockets := m\<rparr>\<rparr>)" using assms(2) by (intro tasks_steps)
    then have "steps interest (w\<lparr>nw_tasks := (nw_tasks w)\<lparr>tm_tcpSockets := m\<rparr>\<rparr>) w'"
      unfolding d(2) using OnConnect_keeps [OF d(1) cok] assms(3) by (intro client_steps) (auto dest: steps_ok steps_conns)
    with t show ?thesis by (rule steps_trans)
  qed
qed

lemma tasks_loop_keeps:
  assumes "tasks_loop E ts busy kept w = Inr (busy', kept', w')" "net_ok interest w" "snd ` set ts \<subseteq> conns w"
  shows "steps interest w w' \<and> snd ` set kept' \<subseteq> snd ` (set kept \<union> set ts)"
  using assms
proof (induction E ts busy kept w rule: tasks_loop.induct)
  case (1 E busy kept w)
  then show ?case by (auto intro: steps_refl)
next
  case (2 E k p ts busy kept w)
  have p: "p \<in> conns w" using "2.prems"(3) by simp
  obtain c where c: "client_at w p = Inr c" "nw_heap w ! p = AStream c" using client_at_conns [OF p] by blast
  have cok: "ss_ok c" "ub_inv (cl_reply c)"
    using sock_in_ok [OF "2.prems"(2)] p conns_socks c(2) by fastforce+
  show ?case
  proof (cases "so_invalid c")
    case True
    with "2.IH"(1) [OF c(1) True] "2.prems" c show ?thesis by auto
  next
    case False
    then obtain b s where s: "serve E (with_server c (nw_server w)) = Inr (b, s)"
      "tasks_loop E ts (busy \<or> b) (kept @ [(k, p)]) (put_sock p (AStream (Client.truncate s)) (w\<lparr>nw_server := se_server s\<rparr>)) =
        Inr (busy', kept', w')"
      using "2.prems"(1) c by auto
    let ?w = "put_sock p (AStream (Client.truncate s)) (w\<lparr>nw_server := se_server s\<rparr>)"
    have "ss_ok s \<and> ub_inv (cl_reply s)"
      using serve_keeps [OF s(1)] cok ss_ok_cong [of "with_server c (nw_server w)" c] by simp
    then have "ss_ok (Client.truncate s)" "ub_inv (cl_reply (Client.truncate s))"
      using ss_ok_cong [of "Client.truncate s" s] by simp_all
    moreover have v: "steps interest w (w\<lparr>nw_server := se_server s\<rparr>)" using "2.prems"(2) by (rule server_steps)
    ultimately have w: "steps interest w ?w"
      using client_steps [OF steps_ok [OF v] steps_conns [OF v p]] v by (blast intro: steps_trans)
    have "snd ` set ts \<subseteq> conns ?w" using "2.prems"(3) w by (auto dest: steps_conns)
    with "2.IH"(2) [OF c(1) False s(1) refl s(2) steps_ok [OF w]] w show ?thesis by (auto dest: steps_trans)
  qed
qed

lemma foldR_keeps:
  assumes "foldR f xs w = Inr w'" "net_ok interest w"
    "\<And>x v v'. x \<in> set xs \<Longrightarrow> steps interest w v \<Longrightarrow> f x v = Inr v' \<Longrightarrow> steps interest v v'"
  shows "steps interest w w'"
proof -
  have "foldR f ys v = Inr w' \<Longrightarrow> steps interest w v \<Longrightarrow> set ys \<subseteq> set xs \<Longrightarrow> steps interest w w'" for ys v
  proof (induction ys arbitrary: v)
    case (Cons y ys)
    then obtain u where u: "f y v = Inr u" "foldR f ys u = Inr w'" by auto
    then have "steps interest w u" using Cons.prems(2,3) assms(3) by (meson list.set_intros(1) steps_trans subsetD)
    then show ?case using Cons.IH [OF u(2)] Cons.prems(3) by simp
  qed simp
  then show ?thesis using assms(1) steps_refl [OF assms(2)] by blast
qed

lemma DoMsgParse_keeps:
  assumes "tm_DoMsgParse E rnd locked w = Inr (busy, w')" "net_ok interest w"
  shows "steps interest w w'"
proof -
  let ?tm = "nw_tasks w" and ?w = "w\<lparr>nw_tasks := (nw_tasks w)\<lparr>tm_newTasks := [], tm_newCnt := 0\<rparr>\<rparr>"
  have tm: "tasks_ok (conns w) ?tm" using assms(2) by (simp add: net_ok_def)
  obtain v kept w2 where v: "(if tm_newCnt ?tm > 0 \<and> locked then foldR (connect_task rnd) (tm_newTasks ?tm) ?w else Inr w) = Inr v"
    and w2: "tasks_loop E (tm_tcpSockets (nw_tasks v)) False [] v = Inr (busy, kept, w2)"
      "w' = w2\<lparr>nw_tasks := (nw_tasks w2)\<lparr>tm_tcpSockets := kept\<rparr>\<rparr>"
    using assms(1) unfolding tm_DoMsgParse_def Let_def by (auto elim!: bindR_InrE)
  have w: "steps interest w ?w" using tm by (intro tasks_steps [OF assms(2)]) (simp add: tasks_ok_def)
  have "steps interest ?w v" if "foldR (connect_task rnd) (tm_newTasks ?tm) ?w = Inr v"
  proof (rule foldR_keeps [OF that steps_ok [OF w]])
    fix p u u' assume h: "p \<in> set (tm_newTasks ?tm)" "steps interest ?w u" "connect_task rnd p u = Inr u'"
    then have "p \<in> conns w" using tm by (auto simp: tasks_ok_def)
    then show "steps interest u u'"
      using connect_task_keeps [OF h(3) steps_ok [OF h(2)]] steps_conns [OF steps_trans [OF w h(2)]] by blast
  qed
  then have wv: "steps interest w v" using v w steps_refl [OF assms(2)] by (auto split: if_splits intro: steps_trans)
  have vt: "snd ` set (tm_tcpSockets (nw_tasks v)) \<subseteq> conns v"
    using steps_ok [OF wv] by (simp add: net_ok_def tasks_ok_def)
  have loop: "steps interest v w2" "snd ` set kept \<subseteq> snd ` (set [] \<union> set (tm_tcpSockets (nw_tasks v)))"
    using tasks_loop_keeps [OF w2(1) steps_ok [OF wv] vt] by simp_all
  have "snd ` set kept \<subseteq> conns w2" using loop(2) vt steps_conns [OF loop(1)] by auto
  then have "tasks_ok (conns w2) ((nw_tasks w2)\<lparr>tm_tcpSockets := kept\<rparr>)"
    using steps_ok [OF loop(1)] by (simp add: net_ok_def tasks_ok_def)
  then show ?thesis
    unfolding w2(2) using steps_trans [OF wv loop(1)] tasks_steps [OF steps_ok [OF loop(1)]] steps_trans by blast
qed

lemma flags_steps:
  assumes "net_ok interest w"
  shows "steps interest w (IntHandler w)" "steps interest w (HupHandler w)" "steps interest w (w\<lparr>nw_reloadCfg := b\<rparr>)"
  using assms by (auto simp: IntHandler_def HupHandler_def net_ok_def socks_def conns_def intro!: net_ok_heap)

lemma MainLoop_turn_keeps:
  assumes "MainLoop_turn E rnd locked w = Inr (goes_on, w')" "net_ok interest w"
  shows "steps interest w w'"
proof -
  have "steps interest w (if nw_reloadCfg w then w\<lparr>nw_reloadCfg := False\<rparr> else w)"
    using flags_steps(3) steps_refl assms(2) by auto
  then show ?thesis
    using assms DoMsgParse_keeps steps_ok steps_refl
    by (fastforce simp: MainLoop_turn_def Let_def bindR_eq_Inr split: if_splits intro: steps_trans)
qed

section \<open>The start\<close>

lemma Bind_keeps:
  assumes "Bind fd bound listening addr p w = Inr (ok, w')" "net_ok interest w" "p \<in> socks w"
  shows "steps interest w w'"
proof -
  have put: "steps interest w (put_sock p (AListen l') w)" if "nw_heap w ! p = AListen l" for l l'
    using put_sock_steps [OF assms(2,3), of "AListen l'"] that by simp
  have add: "steps interest w w2" if "nw_heap w ! p = AListen l" "pool_AddSocket p EventTypeRead (put_sock p (AListen l') w) = Inr (b, w2)"
    for l l' b w2
  proof -
    note v = put [OF that(1), of l']
    have "and EventTypeRead EventTypeWrite = 0" by (simp add: event_types)
    then show ?thesis
      using pool_AddSocket_ok [OF steps_ok [OF v] steps_socks [OF v assms(3)], of EventTypeRead] that(2) v
      by (auto intro: steps_trans)
  qed
  show ?thesis
    using assms(1,3) put add steps_refl [OF assms(2)]
    by (cases "nw_heap w ! p") (auto simp: Bind_def sock_at_in Let_def bindR_eq_Inr split: if_splits)
qed

lemma TCPBind_keeps:
  assumes "TCPBind fd bound listening addr tag w = Inr (ok, w')" "net_ok interest w"
  shows "steps interest w w'"
proof -
  obtain l sid where l: "ListenSocket_new (nw_sid w) tag = (l, sid)" by fastforce
  let ?w = "w\<lparr>nw_sid := sid, nw_heap := nw_heap w @ [AListen l]\<rparr>"
  obtain w2 fd2 where w2: "Bind fd bound listening addr (length (nw_heap w)) ?w = Inr (ok, w2)"
    "w' = (if ok then w2\<lparr>nw_slistenSocks := insert fd2 (nw_slistenSocks w2)\<rparr> else DelListenSock fd2 w2)"
    using assms(1) l by (auto simp: TCPBind_def Let_def bindR_eq_Inr)
  have "steps interest w (w\<lparr>nw_sid := sid\<rparr>)"
    using assms(2) by (intro net_ok_heap) (auto simp: socks_def conns_def net_ok_def)
  then have w: "steps interest w ?w"
    using append_sock_steps [OF steps_ok, of interest w "w\<lparr>nw_sid := sid\<rparr>" "AListen l"] steps_trans by fastforce
  have "length (nw_heap w) \<in> socks ?w" by (simp add: socks_def)
  then have "steps interest ?w w2" using Bind_keeps [OF w2(1) steps_ok [OF w]] by blast
  with w have v: "steps interest w w2" by (rule steps_trans)
  have "steps interest w2 (w2\<lparr>nw_slistenSocks := x\<rparr>)" for x
    using steps_ok [OF v] by (intro net_ok_heap) (auto simp: socks_def conns_def net_ok_def)
  with v DelListenSock_steps [OF steps_ok [OF v]] show ?thesis unfolding w2(2) by (auto intro: steps_trans)
qed

lemma MainLoop_start_keeps:
  assumes "MainLoop_start os1 os2 R connected inet_addr fd bound listening (net_new sv) = Inr (ok, w)"
    "interest (os_epoll os1) = Map.empty" "interest (os_epoll os2) = Map.empty"
  shows "net_ok interest w \<and> nw_recvThread w \<noteq> None \<and> nw_sendThread w \<noteq> None"
proof -
  let ?w = "snd (StartAllThreads os1 os2 (net_new sv))"
  have w: "net_ok interest ?w" "nw_recvThread ?w \<noteq> None" "nw_sendThread ?w \<noteq> None"
    using assms(2,3) by (simp_all add: StartAllThreads_def net_new_def net_ok_def thread_ok_def NetThread_new_def
        tasks_ok_def TaskManager_new_def)
  obtain addr sv' where "TCPBind fd bound listening addr 1 (?w\<lparr>nw_server := sv'\<rparr>) = Inr (ok, w)"
    using assms(1) by (auto simp: MainLoop_start_def uhpsqld_Init_def bindR_eq_Inr)
  then have "steps interest (?w\<lparr>nw_server := sv'\<rparr>) w" by (rule TCPBind_keeps) (rule steps_ok [OF server_steps [OF w(1)]])
  then have "steps interest ?w w" using steps_trans server_steps [OF w(1)] by blast
  then show ?thesis using steps_ok steps_present w(2,3) by blast
qed

section \<open>The process\<close>

text \<open>
  The three loops take turns in any order, signals arrive in between. A state is reachable when the
  turns that lead to it have returned.
\<close>

inductive net_reach :: "'k epoll_ctl \<Rightarrow> ('k \<Rightarrow> int \<rightharpoonup> u32 \<times> nat) \<Rightarrow> 'st env \<Rightarrow> ('st, 'k) net \<Rightarrow> bool"
  for ctl :: "'k epoll_ctl" and interest :: "'k \<Rightarrow> int \<rightharpoonup> u32 \<times> nat" and E :: "'st env" where
  start: "MainLoop_start os1 os2 (en_redis E) connected inet_addr fd bound listening (net_new sv) = Inr (True, w) \<Longrightarrow>
    interest (os_epoll os1) = Map.empty \<Longrightarrow> interest (os_epoll os2) = Map.empty \<Longrightarrow> net_reach ctl interest E w"
| recv: "net_reach ctl interest E w \<Longrightarrow> kernel_promises interest a \<Longrightarrow> RecvThread_turn ctl a w = Inr w' \<Longrightarrow> net_reach ctl interest E w'"
| send: "net_reach ctl interest E w \<Longrightarrow> kernel_promises interest a \<Longrightarrow> SendThread_turn ctl a w = Inr w' \<Longrightarrow> net_reach ctl interest E w'"
| main: "net_reach ctl interest E w \<Longrightarrow> MainLoop_turn E rnd locked w = Inr (True, w') \<Longrightarrow> net_reach ctl interest E w'"
| terminate: "net_reach ctl interest E w \<Longrightarrow> net_reach ctl interest E (IntHandler w)"
| reload: "net_reach ctl interest E w \<Longrightarrow> net_reach ctl interest E (HupHandler w)"

lemma net_reach_ok:
  assumes "net_reach ctl interest E w" "epoll_laws ctl interest"
  shows "net_ok interest w \<and> nw_recvThread w \<noteq> None \<and> nw_sendThread w \<noteq> None"
  using assms(1)
proof induction
  case (start os1 os2 connected inet_addr fd bound listening sv w)
  then show ?case by (rule MainLoop_start_keeps)
next
  case (recv w a w')
  then have "steps interest w w'" using RecvThread_turn_ok [OF _ assms(2), of w a] by auto
  with recv.IH show ?case using steps_ok steps_present by blast
next
  case (send w a w')
  then have "steps interest w w'" using SendThread_turn_ok [OF _ assms(2), of w a] by auto
  with send.IH show ?case using steps_ok steps_present by blast
next
  case (main w rnd locked w')
  then have "steps interest w w'" using MainLoop_turn_keeps by blast
  with main.IH show ?case using steps_ok steps_present by blast
next
  case (terminate w)
  then show ?case using flags_steps(1) [of interest w] by (auto simp: IntHandler_def dest: steps_ok)
next
  case (reload w)
  then show ?case using flags_steps(2) [of interest w] by (auto simp: HupHandler_def dest: steps_ok)
qed

end
