(* ===== verification/Process.thy ===== *)
theory Process
  imports NetInv Requests
begin

text \<open>
  The running server: what holds in every state its three loops can reach, what becomes of a
  connection from \<open>accept\<close> to its removal, and how the queue of a connection is drained.
\<close>

section \<open>Starting\<close>

definition empty_os :: "(int \<rightharpoonup> u32 \<times> nat) os" where
  "empty_os = \<lparr>os_errno = EINTR, os_epoll = Map.empty\<rparr>"

definition listener :: ListenSocket where
  "listener = \<lparr>so_localSock = 3, so_epollOut = False, so_invalid = False, so_id = 1,
     ls_localPort = swap16 (swap16 12306), ls_tag = 1\<rparr>"

definition started :: "'st server \<Rightarrow> 'k os \<Rightarrow> 'k os \<Rightarrow> ('st, 'k) net" where
  "started sv os1 os2 =
     \<lparr>nw_heap = [AListen listener], nw_sid = 1,
      nw_recvThread = Some ((NetThread_new os1)\<lparr>nt_newTasks := [(0, EventTypeRead)], nt_newCnt := 1\<rparr>),
      nw_loopCount = 0, nw_sendThread = Some (NetThread_new os2), nw_tasks = TaskManager_new,
      nw_slistenSocks = {3}, nw_bTerminate = False, nw_reloadCfg = False, nw_server = sv\<rparr>"

lemma demo_addr: "SocketAddr_text inet_addr DEMO_SERVER_ADDR =
    Inr \<lparr>sin_family = AF_INET, sin_addr = inet_addr ''0.0.0.0'', sin_port = swap16 12306\<rparr>"
proof -
  have "stoi ''12306'' = Inr 12306" by code_simp
  then show ?thesis by (simp add: SocketAddr_text_def DEMO_SERVER_ADDR_def SocketAddr_host_def)
qed

lemma TCPBind_started:
  "TCPBind 3 True True \<lparr>sin_family = AF_INET, sin_addr = x, sin_port = swap16 12306\<rparr> 1
     ((snd (StartAllThreads os1 os2 (net_new sv)))\<lparr>nw_server := sv'\<rparr>) = Inr (True, started sv' os1 os2)"
  by (simp add: TCPBind_def StartAllThreads_def net_new_def ListenSocket_new_def Socket_new_def next_sid_def size_add_def
      Bind_def SocketAddr_Empty_def AF_INET_def sock_at_def put_sock_def pool_AddSocket_def event_types NetThread_new_def
      nt_AddSocket_def fd_at_def started_def listener_def GetPort_def Let_def)

text \<open>Whether or not the key-value server answers, the server starts.\<close>

lemma start_without_store:
  "MainLoop_start os1 os2 R False inet_addr 3 True True (net_new sv) = Inr (True, started sv os1 os2)"
  using TCPBind_started [where x = "inet_addr ''0.0.0.0''" and sv = sv and sv' = sv]
  by (simp add: MainLoop_start_def uhpsqld_Init_def demo_addr Init_def net_new_def StartAllThreads_def)

section \<open>A kernel that reports a knocking client\<close>

definition knock :: "(int \<rightharpoonup> u32 \<times> nat) answers" where
  "knock = \<lparr>an_lock = True,
     an_wait = (\<lambda>n k. if 0 < n \<and> k 3 = Some (EPOLLIN, 0) then Ready [(EPOLLIN, 0)] else Ready []),
     an_read = (\<lambda>p n. RecvAgain), an_accept = (\<lambda>p. \<lparr>ac_conns = [(9, SocketAddr_Clear)], ac_errno = EWOULDBLOCK\<rparr>),
     an_swap = (\<lambda>p. True), an_write = (\<lambda>p n. SendAgain)\<rparr>"

lemma knock_promises: "kernel_promises id knock"
  by (auto simp: kernel_promises_def knock_def received_def fires_def intro: ranI split: if_splits)

lemma started_reach:
  "net_reach map_ctl id (sample_env s) (started sv empty_os empty_os)"
  using start_without_store by (rule net_reach.start) (simp_all add: empty_os_def)

section \<open>Queues drain\<close>

text \<open>\<open>n\<close> turns of sending with the locks free, in which the kernel takes all it is offered.\<close>

fun send_turns :: "nat \<Rightarrow> 'a StreamSocket_scheme \<Rightarrow> 'a StreamSocket_scheme res" where
  "send_turns 0 s = Inr s"
| "send_turns (Suc n) s =
     bindR (Send True (Wrote (length (offered True s))) s) (\<lambda>(_, _, s). send_turns n s)"

lemma Send_progress:
  assumes "ss_inv s" "\<not> so_epollOut s"
  shows "\<exists>s'. Send True (Wrote (length (offered True s))) s = Inr (True, [], s') \<and> ss_inv s' \<and> \<not> so_epollOut s' \<and>
    outbox s = offered True s @ outbox s' \<and> (outbox s \<noteq> [] \<longrightarrow> offered True s \<noteq> [])"
proof -
  have ab: "ab_inv (ss_sendBuf s)" using assms(1) by (simp add: ss_inv_def)
  have k: "kernel_ok (Wrote (length (offered True s))) (offered True s)" by (simp add: kernel_ok_def)
  from Send_core [OF ab assms(2) k]
  obtain ok req s' where s': "Send True (Wrote (length (offered True s))) s = Inr (ok, req, s')" "ab_inv (ss_sendBuf s')"
    "s' = s\<lparr>so_epollOut := so_epollOut s', ss_sendBuf := ss_sendBuf s'\<rparr>"
    "outbox s = (if offered True s = [] then [] else taken (Wrote (length (offered True s))) (offered True s)) @ outbox s'"
    "ok \<longleftrightarrow> offered True s = [] \<or> Wrote (length (offered True s)) \<noteq> SendFailed"
    "so_epollOut s' \<longleftrightarrow> offered True s \<noteq> [] \<and> (Wrote (length (offered True s)) = SendAgain \<or>
       (\<exists>n. Wrote (length (offered True s)) = Wrote n \<and> 0 < n \<and> n < length (offered True s)))"
    "req = (if so_epollOut s' then [EnableWrite] else [])"
    by (elim exE conjE) (rule that)
  have "ss_inv s'" using s'(2) assms(1) by (subst (asm) ss_inv_def, subst ss_inv_def, subst s'(3)) simp
  moreover have off: "\<not> so_epollOut s'" using s'(6) by simp
  moreover have "ok" "req = []" using s'(5,7) off by simp_all
  moreover have "outbox s = offered True s @ outbox s'"
    using s'(4) by (cases "offered True s = []") (simp_all add: taken_def)
  moreover have "outbox s \<noteq> [] \<longrightarrow> offered True s \<noteq> []"
    using ab_ProcessBuffer_ok [OF ab, of True] by (auto simp: offered_def outbox_def)
  ultimately show ?thesis using s'(1) by (intro exI [of _ s']) simp
qed

lemma fresh_client:
  "\<exists>c. Client_new sid = Inr (c, next_sid sid) \<and> ss_ok c \<and> inbox c = [] \<and> outbox c = [] \<and> so_id c = next_sid sid \<and>
    \<not> so_invalid c \<and> \<not> so_epollOut c"
proof -
  obtain a where "AsyncBuffer_new (128 * 1024) = Inr a" "ab_inv a" "ab_content a = []"
    using AsyncBuffer_new_ok [of "128 * 1024"] by auto
  moreover have "Buffer_new 0 = Inr \<lparr>cb_maxSize = 0, cb_readPos = 0, cb_writePos = 0, cb_buffer = []\<rparr>"
    by (simp add: Buffer_new_def RoundUp2Power_def)
  ultimately show ?thesis
    by (simp add: Client_new_def Socket_new_def Let_def cl_Reset_def ss_ok_def ss_fresh_def inbox_def outbox_def cb_content_def)
qed

section \<open>The map of the main thread\<close>

lemma insert_key_ok:
  assumes "sorted_wrt (<) (map fst m)" "insert_key k v m = (new, m')"
  shows "sorted_wrt (<) (map fst m') \<and> (new \<longleftrightarrow> k \<notin> fst ` set m) \<and>
    (if new then map_of m' = (map_of m)(k \<mapsto> v) else m' = m)"
  using assms
proof (induction m arbitrary: new m')
  case (Cons a m)
  obtain k' v' where a: "a = (k', v')" by fastforce
  have above: "\<forall>x\<in>fst ` set m. k' < x" using Cons.prems(1) a by auto
  consider "k < k'" | "k = k'" | "k' < k" by linarith
  then show ?case
  proof cases
    case 1
    with above have "\<forall>x\<in>set m. k < fst x" "k \<notin> fst ` set m" by fastforce+
    with 1 a Cons.prems show ?thesis by auto
  next
    case 2
    with a Cons.prems show ?thesis by auto
  next
    case 3
    obtain m2 where m2: "insert_key k v m = (new, m2)" "m' = (k', v') # m2"
      using Cons.prems(2) 3 a by (cases "insert_key k v m") auto
    have ih: "sorted_wrt (<) (map fst m2)" "new \<longleftrightarrow> k \<notin> fst ` set m"
      "if new then map_of m2 = (map_of m)(k \<mapsto> v) else m2 = m"
      using Cons.IH [OF _ m2(1)] Cons.prems(1) by simp_all
    have "set m2 \<subseteq> insert (k, v) (set m)" using insert_key_values [OF m2(1)] .
    then have "\<forall>x\<in>set m2. k' < fst x" using above 3 by fastforce
    with ih 3 show ?thesis by (auto simp: m2(2) a fun_upd_twist)
  qed
qed auto

section \<open>Properties\<close>

text \<open>C11: Once the peer reads again nothing stays behind: if the locks are free and the kernel takes what
  it is offered, a connection that is not waiting for the poller has an empty queue after at most as
  many turns as there are bytes, and every byte went out in order.\<close>

theorem queue_drains:
  assumes "ss_inv s" "\<not> so_epollOut s"
  shows "\<exists>n\<le>length (outbox s). \<exists>s'. send_turns n s = Inr s' \<and> outbox s' = [] \<and> inbox s' = inbox s"
  using assms
proof (induction "length (outbox s)" arbitrary: s rule: less_induct)
  case less
  show ?case
  proof (cases "outbox s = []")
    case True
    then show ?thesis by (intro exI [of _ 0]) simp
  next
    case False
    obtain s' where s': "Send True (Wrote (length (offered True s))) s = Inr (True, [], s')" "ss_inv s'" "\<not> so_epollOut s'"
      "outbox s = offered True s @ outbox s'" "offered True s \<noteq> []"
      using Send_progress [OF less.prems] False by blast
    have lt: "length (outbox s') < length (outbox s)"
      using arg_cong [OF s'(4), of length] s'(5) by simp
    obtain n s'' where n: "n \<le> length (outbox s')" "send_turns n s' = Inr s''" "outbox s'' = []" "inbox s'' = inbox s'"
      using less.hyps [OF lt s'(2,3)] by blast
    have "inbox s' = inbox s"
      using s'(1) less.prems Send_ok [of s "Wrote (length (offered True s))" True] by (auto simp: kernel_ok_def)
    then show ?thesis using s'(1) lt n by (intro exI [of _ "Suc n"]) simp
  qed
qed

text \<open>C10: No turn of the two network threads gets stuck: whatever the kernel answers within its promises,
  no assertion fails, no pointer handed to \<open>epoll\<close> is wild, no buffer is overrun, and the turn ends in
  a state the process may be in.\<close>

theorem threads_never_stop:
  assumes "net_reach ctl interest E w" "epoll_laws ctl interest" "kernel_promises interest a"
  shows "(\<exists>w1. RecvThread_turn ctl a w = Inr w1 \<and> net_reach ctl interest E w1) \<and>
    (\<exists>w2. SendThread_turn ctl a w = Inr w2 \<and> net_reach ctl interest E w2)"
proof -
  have w: "net_ok interest w" "nw_recvThread w \<noteq> None" "nw_sendThread w \<noteq> None"
    using net_reach_ok [OF assms(1,2)] by blast+
  obtain w1 w2 where "RecvThread_turn ctl a w = Inr w1" "SendThread_turn ctl a w = Inr w2"
    using RecvThread_turn_ok [OF w(1) assms(2,3) w(2)] SendThread_turn_ok [OF w(1) assms(2,3) w(3)] by blast
  then show ?thesis using net_reach.recv [OF assms(1,3)] net_reach.send [OF assms(1,3)] by blast
qed

theorem threads_never_stop_witness:
  "\<exists>w1 w2. RecvThread_turn map_ctl knock (started (sample_server []) empty_os empty_os) = Inr w1 \<and>
    SendThread_turn map_ctl knock (started (sample_server []) empty_os empty_os) = Inr w2"
  using threads_never_stop [OF started_reach [where s = "SDelete DeleteStatement_new"] map_ctl_laws knock_promises] by blast

text \<open>C12: Every socket is of the kind its user takes it for: the sending thread and the main thread, which
  cast to a connection, hold connections only, and every address in an interest list is a socket.\<close>

theorem sockets_of_the_right_kind:
  assumes "net_reach ctl interest E w" "epoll_laws ctl interest"
  shows "(\<forall>t p. nw_sendThread w = Some t \<longrightarrow> p \<in> set (nt_tasks t) \<union> snd ` ran (interest (os_epoll (nt_os t))) \<longrightarrow>
      (\<exists>c. sock_at w p = Inr (AStream c))) \<and>
    (\<forall>t p. nw_recvThread w = Some t \<longrightarrow> p \<in> set (nt_tasks t) \<union> snd ` ran (interest (os_epoll (nt_os t))) \<longrightarrow>
      (\<exists>s. sock_at w p = Inr s)) \<and>
    (\<forall>p\<in>set (tm_newTasks (nw_tasks w)) \<union> snd ` set (tm_tcpSockets (nw_tasks w)). \<exists>c. client_at w p = Inr c)"
proof -
  have w: "net_ok interest w" using net_reach_ok [OF assms] by blast
  have stream: "\<exists>c. sock_at w p = Inr (AStream c)" if "p \<in> conns w" for p
    using client_at_conns [OF that] that conns_socks sock_at_in by fastforce
  have sending: "set (nt_tasks t) \<union> snd ` ran (interest (os_epoll (nt_os t))) \<subseteq> conns w" if "nw_sendThread w = Some t" for t
    using send_thread_ok [OF w that] by (auto simp: thread_ok_def)
  have receiving: "set (nt_tasks t) \<union> snd ` ran (interest (os_epoll (nt_os t))) \<subseteq> socks w" if "nw_recvThread w = Some t" for t
    using recv_thread_ok [OF w that] by (auto simp: thread_ok_def)
  have tasks: "set (tm_newTasks (nw_tasks w)) \<union> snd ` set (tm_tcpSockets (nw_tasks w)) \<subseteq> conns w"
    using w by (simp add: net_ok_def tasks_ok_def)
  show ?thesis
  proof (intro conjI allI impI ballI)
    fix t p assume "nw_sendThread w = Some t" "p \<in> set (nt_tasks t) \<union> snd ` ran (interest (os_epoll (nt_os t)))"
    then show "\<exists>c. sock_at w p = Inr (AStream c)" using sending stream by (meson subsetD)
  next
    fix t p assume "nw_recvThread w = Some t" "p \<in> set (nt_tasks t) \<union> snd ` ran (interest (os_epoll (nt_os t)))"
    then show "\<exists>s. sock_at w p = Inr s" using receiving sock_at_in by (meson subsetD)
  next
    fix p assume "p \<in> set (tm_newTasks (nw_tasks w)) \<union> snd ` set (tm_tcpSockets (nw_tasks w))"
    then show "\<exists>c. client_at w p = Inr c" using tasks client_at_conns by (meson subsetD)
  qed
qed

theorem sockets_of_the_right_kind_witness:
  "\<exists>w1 t. RecvThread_turn map_ctl knock (started (sample_server []) empty_os empty_os) = Inr w1 \<and> nw_sendThread w1 = Some t \<and>
    (\<forall>p\<in>set (nt_tasks t). \<exists>c. sock_at w1 p = Inr (AStream c))"
proof -
  let ?w = "started (sample_server []) empty_os empty_os"
  have r: "net_reach map_ctl id (sample_env (SDelete DeleteStatement_new)) ?w" by (rule started_reach)
  obtain w1 where w1: "RecvThread_turn map_ctl knock ?w = Inr w1" "steps id ?w w1"
    using RecvThread_turn_ok [OF _ map_ctl_laws knock_promises] net_reach_ok [OF r map_ctl_laws] by blast
  have "nw_sendThread ?w \<noteq> None" by (simp add: started_def)
  then obtain t where "nw_sendThread w1 = Some t" using steps_present(2) [OF w1(2)] by blast
  moreover from this have "\<forall>p\<in>set (nt_tasks t). \<exists>c. sock_at w1 p = Inr (AStream c)"
    using conjunct1 [OF sockets_of_the_right_kind [OF net_reach.recv [OF r knock_promises w1(1)] map_ctl_laws]] by simp
  ultimately show ?thesis using w1(1) by (intro exI conjI)
qed

text \<open>C15: A connection whose output was blocked is lost when it can go on: the virtual function the
  sending thread calls is not the one the connection overrides, so the event that says that there is
  room makes the connection invalid with its queue unsent, and the next round of the main thread
  forgets it.\<close>

theorem blocked_connection_is_lost:
  assumes "p < length (nw_heap w)" "nw_heap w ! p = AStream c" "and m EPOLLOUT \<noteq> 0" "and m EPOLLIN = 0"
  shows "\<exists>w'. send_event (fired_of (m, p)) w = Inr w' \<and> nw_heap w' ! p = AStream (c\<lparr>so_invalid := True\<rparr>) \<and>
    outbox (c\<lparr>so_invalid := True\<rparr>) = outbox c \<and> tasks_loop E [(k, p)] False [] w' = Inr (False, [], w')"
proof -
  let ?c = "c\<lparr>so_invalid := True\<rparr>"
  have c: "snd (Stream_OnError c) = ?c" by (cases "so_invalid c") (simp_all add: Stream_OnError_def Socket_OnError_def)
  have "send_event (fired_of (m, p)) w = Inr (put_sock p (AStream ?c) w)"
    using assms c by (simp add: send_event_def fired_of_def event_types sock_at_def sock_OnWritable_def
        Socket_OnWritable_def sock_OnError_def)
  moreover have "client_at (put_sock p (AStream ?c) w) p = Inr ?c"
    using assms(1) by (simp add: client_at_def sock_at_def put_sock_def)
  ultimately show ?thesis using assms(1) by (simp add: put_sock_def outbox_def)
qed


text \<open>C13: A connection that is accepted is entered everywhere at once: it is a new, empty, valid socket for
  its descriptor and peer, waiting to be registered for reading with the one thread and for writing
  with the other, and waiting to be greeted by the main thread.\<close>

theorem accepted_connection_is_entered:
  assumes "net_reach ctl interest E w" "epoll_laws ctl interest" "0 \<le> fd"
  shows "\<exists>c r s p. NewConnection fd peer w = Inr
      (w\<lparr>nw_sid := next_sid (nw_sid w), nw_heap := nw_heap w @ [AStream c],
         nw_recvThread := Some (r\<lparr>nt_newTasks := nt_newTasks r @ [(p, EventTypeRead)], nt_newCnt := nt_newCnt r + 1\<rparr>),
         nw_sendThread := Some (s\<lparr>nt_newTasks := nt_newTasks s @ [(p, EventTypeWrite)], nt_newCnt := nt_newCnt s + 1\<rparr>),
         nw_tasks := AddTask p (nw_tasks w)\<rparr>) \<and>
    nw_recvThread w = Some r \<and> nw_sendThread w = Some s \<and> p = length (nw_heap w) \<and>
    so_localSock c = fd \<and> ss_peerAddr c = peer \<and> so_id c = next_sid (nw_sid w) \<and> \<not> so_invalid c \<and> \<not> so_epollOut c \<and>
    ss_ok c \<and> inbox c = [] \<and> outbox c = []"
proof -
  have w: "net_ok interest w" using net_reach_ok [OF assms(1,2)] by blast
  obtain r s where rs: "nw_recvThread w = Some r" "nw_sendThread w = Some s" using net_reach_ok [OF assms(1,2)] by auto
  have cnt: "nt_newCnt r = int (length (nt_newTasks r))" "nt_newCnt s = int (length (nt_newTasks s))"
    using recv_thread_ok [OF w rs(1)] send_thread_ok [OF w rs(2)] by (simp_all add: thread_ok_def)
  obtain c where c: "Client_new (nw_sid w) = Inr (c, next_sid (nw_sid w))" "ss_ok c" "inbox c = []" "outbox c = []"
    "so_id c = next_sid (nw_sid w)" "\<not> so_invalid c" "\<not> so_epollOut c"
    using fresh_client by blast
  let ?c = "c\<lparr>so_localSock := fd, ss_peerAddr := peer\<rparr>"
  have "ss_ok ?c" "inbox ?c = []" "outbox ?c = []"
    using c(2-4) ss_ok_cong [of ?c c] by (simp_all add: inbox_def outbox_def)
  moreover have "StreamSocket_Init fd peer c = (True, ?c)"
    using assms(3) by (simp add: StreamSocket_Init_def)
  ultimately show ?thesis
    using assms(3) rs cnt c by (intro exI [of _ ?c] exI [of _ r] exI [of _ s] exI [of _ "length (nw_heap w)"])
      (simp add: NewConnection_def OnNewConnection_def pool_AddSocket_def nt_AddSocket_def INVALID_SOCKET_def event_types Let_def)
qed

text \<open>C14: A new connection is greeted and can be found under its identifier, unless the low 32 bits of
  the identifier, read as an \<open>int\<close>, are taken: then nothing happens, and the connection is neither
  greeted nor ever served.\<close>

theorem connection_found_by_identifier:
  assumes "connect_task rnd p w = Inr w'" "client_at w p = Inr c" "sorted_wrt (<) (map fst (tm_tcpSockets (nw_tasks w)))"
  shows "sorted_wrt (<) (map fst (tm_tcpSockets (nw_tasks w'))) \<and>
    (if int_key (so_id c) \<in> fst ` set (tm_tcpSockets (nw_tasks w)) then w' = w
     else (\<exists>d. OnConnect (rnd p) c = Inr d \<and> client_at w' p = Inr d) \<and>
       (\<forall>i. i \<noteq> 0 \<longrightarrow> FindTCP i (nw_tasks w') =
          (if i = word_of_nat (so_id c) then Some p else FindTCP i (nw_tasks w))))"
proof -
  let ?k = "int_key (so_id c)" and ?m = "tm_tcpSockets (nw_tasks w)"
  obtain new m where m: "insert_key ?k p ?m = (new, m)" by fastforce
  note ins = insert_key_ok [OF assms(3) m]
  have new: "new \<longleftrightarrow> ?k \<notin> fst ` set ?m" using ins by simp
  show ?thesis
  proof (cases new)
    case False
    with assms m new show ?thesis by (simp add: connect_task_def)
  next
    case True
    then obtain d where d: "OnConnect (rnd p) c = Inr d"
      "w' = put_sock p (AStream d) (w\<lparr>nw_tasks := (nw_tasks w)\<lparr>tm_tcpSockets := m\<rparr>\<rparr>)"
      using assms(1,2) m by (auto simp: connect_task_def)
    have p: "p < length (nw_heap w)"
      using assms(2) by (auto simp: client_at_def sock_at_def nthR_def split: if_splits)
    have t: "tm_tcpSockets (nw_tasks w') = m" by (simp add: d(2) put_sock_def)
    have "map_of m = (map_of ?m)(?k \<mapsto> p)" using ins True by simp
    moreover have "sint i = ?k \<longleftrightarrow> i = word_of_nat (so_id c)" for i :: u32
      by (auto simp: int_key_def intro: signed_word_eqI)
    ultimately have "FindTCP i (nw_tasks w') = (if i = word_of_nat (so_id c) then Some p else FindTCP i (nw_tasks w))"
      if "i \<noteq> 0" for i
      using that t by (simp add: FindTCP_def word_gt_0)
    moreover have "client_at w' p = Inr d" using p by (simp add: d(2) put_sock_def client_at_def sock_at_def)
    ultimately show ?thesis using ins new True t d(1) by simp
  qed
qed

section \<open>Applying them\<close>

definition queued_ring :: CircularBuffer where
  "queued_ring = \<lparr>cb_maxSize = 4, cb_readPos = 0, cb_writePos = 2, cb_buffer = [7, 8, 0, 0]\<rparr>"

definition queued_socket :: StreamSocket where
  "queued_socket = sample_socket\<lparr>ss_sendBuf := (ss_sendBuf sample_socket)\<lparr>ab_buffer := queued_ring\<rparr>\<rparr>"

lemma queued_socket: "ss_inv queued_socket" "outbox queued_socket = [7, 8]" "\<not> so_epollOut queued_socket"
proof -
  have "cb_inv queued_ring" "cb_content queued_ring = [7, 8]"
    by (auto simp: queued_ring_def cb_inv_def cb_content_def intro!: exI [of _ 2])
  then show "ss_inv queued_socket" "outbox queued_socket = [7, 8]" "\<not> so_epollOut queued_socket"
    using sample_socket(1) by (simp_all add: queued_socket_def sample_socket_def ss_inv_def outbox_def ab_inv_def ab_content_def)
qed

theorem queue_drains_witness: "\<exists>n\<le>2. \<exists>s'. send_turns n queued_socket = Inr s' \<and> outbox s' = []"
  using queue_drains [OF queued_socket(1,3)] by (auto simp: queued_socket(2) numeral_2_eq_2)

definition sample_client :: Client where
  "sample_client = \<lparr>so_localSock = 9, so_epollOut = True, so_invalid = False, so_id = 5, ss_peerAddr = SocketAddr_Clear,
     ss_recvBuf = small_ring, ss_sendBuf = ss_sendBuf sample_socket, cl_reply = UnboundedBuffer_new, cl_parser = ProtoParser_new\<rparr>"

lemma sample_client: "ss_inv sample_client" "reply_clear sample_client" "outbox sample_client = []"
  using sample_socket by (simp_all add: sample_client_def ss_inv_def outbox_def sample_socket_def reply_clear_def)

definition one_client :: "((string \<times> string) list, int \<rightharpoonup> u32 \<times> nat) net" where
  "one_client = (started (sample_server []) empty_os empty_os)\<lparr>nw_heap := [AStream sample_client]\<rparr>"

theorem blocked_connection_is_lost_witness:
  "\<exists>w'. send_event (fired_of (EPOLLOUT, 0)) one_client = Inr w' \<and>
    nw_heap w' ! 0 = AStream (sample_client\<lparr>so_invalid := True\<rparr>)"
  using blocked_connection_is_lost [of 0 one_client sample_client EPOLLOUT] by (auto simp: one_client_def epoll_flags)


theorem accepted_connection_is_entered_witness:
  "\<exists>w' c. NewConnection 9 SocketAddr_Clear (started (sample_server []) empty_os empty_os) = Inr w' \<and>
    nw_heap w' ! 1 = AStream c \<and> so_localSock c = 9"
proof -
  have fd: "(0::int) \<le> 9" by simp
  note r = started_reach [where sv = "sample_server []" and s = "SDelete DeleteStatement_new"]
  from accepted_connection_is_entered [OF r map_ctl_laws fd, where peer = SocketAddr_Clear]
  show ?thesis by (elim exE conjE) (simp add: started_def)
qed

theorem connection_found_by_identifier_witness:
  "\<exists>w'. connect_task (\<lambda>_ _. 65) 0 one_client = Inr w' \<and> FindTCP 5 (nw_tasks w') = Some 0"
proof -
  let ?g = "[word_of_nat (length (GreetingPacket_Pack (GreetingPacket_new (\<lambda>_. 65) 1 ''UHP-SQL-v0.1''))), 0, 0, 0] @
    GreetingPacket_Pack (GreetingPacket_new (\<lambda>_. 65) 1 ''UHP-SQL-v0.1'')"
  have room: "ss_room sample_client (length ?g)"
    by (simp add: ss_room_def sample_client(3) MAX_BUFFER_SIZE_def greeting_length)
  obtain d where d: "OnConnect (\<lambda>_. 65) sample_client = Inr d"
    using push_reply_ok [OF sample_client(1,2) room] by (auto simp: OnConnect_def Let_def)
  have c: "client_at one_client 0 = Inr sample_client" by (simp add: client_at_def sock_at_def one_client_def)
  have m: "sorted_wrt (<) (map fst (tm_tcpSockets (nw_tasks one_client)))"
    by (simp add: one_client_def started_def TaskManager_new_def)
  obtain w' where w': "connect_task (\<lambda>_ _. 65) 0 one_client = Inr w'"
    using d c by (simp add: connect_task_def one_client_def started_def TaskManager_new_def)
  have "int_key (so_id sample_client) \<notin> fst ` set (tm_tcpSockets (nw_tasks one_client))"
    by (simp add: one_client_def started_def TaskManager_new_def)
  then have "FindTCP 5 (nw_tasks w') = Some 0"
    using connection_found_by_identifier [OF w' c m] by (simp add: sample_client_def)
  with w' show ?thesis by blast
qed

end
