(* ===== verification/Threads.thy ===== *)
theory Threads
  imports Prelude
begin

text \<open>
  The thread pool (\<open>network/thread_pool.h\<close>, \<open>thread_pool.cc\<close>): tasks are taken from a queue by
  workers, which wait on a condition variable; a monitor sends superfluous workers home. Whatever
  happens under the mutex is one step. The lemmas: the counters agree with what the workers do,
  and tasks that never return do not share a worker.
\<close>

section \<open>State\<close>

text \<open>A task of the caller, or the monitor's \<open>[this]() { working_ = false; }\<close>.\<close>

datatype job = Task nat | StopWorker

text \<open>
  Where a worker is: before the mutex, in the wait, in a job, behind the loop with \<open>pendingStopSignal_\<close>
  not yet lowered, or returned.
\<close>

datatype worker = Entering | Waiting | Running job | Stopping | Finished

text \<open>The threads, and the handles to them in \<open>workers_\<close>; counters are \<open>unsigned\<close>.\<close>

record ThreadPool =
  tp_maxIdle :: u32
  tp_pending :: u32
  tp_waiters :: u32
  tp_shutdown :: bool
  tp_tasks :: "job list"
  tp_workers :: "nat list"
  tp_threads :: "worker list"

definition kMaxThreads :: u32 where "kMaxThreads = 256"

text \<open>\<open>cores\<close> is what \<open>hardware_concurrency\<close> answers.\<close>

definition ThreadPool_new :: "u32 \<Rightarrow> ThreadPool" where
  "ThreadPool_new cores = \<lparr>tp_maxIdle = max 1 cores, tp_pending = 0, tp_waiters = 0, tp_shutdown = False,
     tp_tasks = [], tp_workers = [], tp_threads = []\<rparr>"

section \<open>Operations\<close>

definition SetMaxIdleThread :: "u32 \<Rightarrow> ThreadPool \<Rightarrow> ThreadPool" where
  "SetMaxIdleThread m p = (if 0 < m \<and> m \<le> kMaxThreads then p\<lparr>tp_maxIdle := m\<rparr> else p)"

definition CreateWorker :: "ThreadPool \<Rightarrow> ThreadPool" where
  "CreateWorker p = p\<lparr>tp_threads := tp_threads p @ [Entering], tp_workers := tp_workers p @ [length (tp_threads p)]\<rparr>"

text \<open>Whether the caller gets a future that will ever be ready.\<close>

definition ExecuteTask :: "nat \<Rightarrow> ThreadPool \<Rightarrow> bool \<times> ThreadPool" where
  "ExecuteTask f p =
     (if tp_shutdown p then (False, p)
      else
        let p = p\<lparr>tp_tasks := tp_tasks p @ [Task f]\<rparr> in
        (True, if tp_waiters p = 0 then CreateWorker p else p))"

text \<open>\<open>JoinAll\<close> up to the joins: the handles to join, unless another call was first.\<close>

definition JoinAll :: "ThreadPool \<Rightarrow> nat list option \<times> ThreadPool" where
  "JoinAll p =
     (if tp_shutdown p then (None, p) else (Some (tp_workers p), p\<lparr>tp_shutdown := True, tp_workers := []\<rparr>))"

section \<open>Workers\<close>

definition set_worker :: "nat \<Rightarrow> worker \<Rightarrow> ThreadPool \<Rightarrow> ThreadPool" where
  "set_worker i v p = p\<lparr>tp_threads := (tp_threads p)[i := v]\<rparr>"

definition may_go :: "ThreadPool \<Rightarrow> bool" where
  "may_go p \<longleftrightarrow> tp_shutdown p \<or> tp_tasks p \<noteq> []"

text \<open>Behind the wait: a worker returns when the pool shuts down with nothing left, or takes a job.\<close>

definition worker_take :: "nat \<Rightarrow> ThreadPool \<Rightarrow> ThreadPool" where
  "worker_take i p =
     (let p = p\<lparr>tp_waiters := tp_waiters p - 1\<rparr> in
      case tp_tasks p of
        [] \<Rightarrow> set_worker i Finished p
      | j # js \<Rightarrow> set_worker i (Running j) (p\<lparr>tp_tasks := js\<rparr>))"

definition worker_lock :: "nat \<Rightarrow> ThreadPool \<Rightarrow> ThreadPool" where
  "worker_lock i p =
     (let p = p\<lparr>tp_waiters := tp_waiters p + 1\<rparr> in
      if may_go p then worker_take i p else set_worker i Waiting p)"

text \<open>A notification, or a spurious one, after which the worker looks at the condition again.\<close>

definition worker_wake :: "nat \<Rightarrow> ThreadPool \<Rightarrow> ThreadPool" where
  "worker_wake i p = (if may_go p then worker_take i p else p)"

text \<open>The job of a worker returns; a stop ends the loop.\<close>

definition worker_done :: "nat \<Rightarrow> job \<Rightarrow> ThreadPool \<Rightarrow> ThreadPool" where
  "worker_done i j p = set_worker i (case j of Task f \<Rightarrow> Entering | StopWorker \<Rightarrow> Stopping) p"

definition worker_exit :: "nat \<Rightarrow> ThreadPool \<Rightarrow> ThreadPool" where
  "worker_exit i p = set_worker i Finished (p\<lparr>tp_pending := tp_pending p - 1\<rparr>)"

section \<open>The monitor\<close>

lemma unat_pred: "m < nw \<Longrightarrow> unat nw = Suc (unat (nw - 1))" for nw m :: u32
  by (simp add: unat_minus_one word_less_nat_alt unat_eq_0 [symmetric])

text \<open>\<open>while (nw-- > maxIdleThread_)\<close>, on \<open>unsigned\<close>.\<close>

function monitor_loop :: "u32 \<Rightarrow> ThreadPool \<Rightarrow> ThreadPool" where
  "monitor_loop nw p =
     (if nw > tp_maxIdle p
      then monitor_loop (nw - 1) (p\<lparr>tp_tasks := tp_tasks p @ [StopWorker], tp_pending := tp_pending p + 1\<rparr>)
      else p)"
  by pat_completeness auto
termination
proof (relation "measure (unat \<circ> fst)", goal_cases)
  case (2 nw p)
  then show ?case using unat_pred [OF 2] by simp
qed simp

declare monitor_loop.simps [simp del]

definition monitor_turn :: "ThreadPool \<Rightarrow> ThreadPool" where
  "monitor_turn p = (if tp_shutdown p then p else monitor_loop (tp_waiters p - tp_pending p) p)"

section \<open>Any order of steps\<close>

datatype tp_step = Submit nat | SetIdle u32 | Lock nat | Wake nat | Finish nat | Leave nat | Monitor | Join

definition worker_at :: "ThreadPool \<Rightarrow> nat \<Rightarrow> worker option" where
  "worker_at p i = (if i < length (tp_threads p) then Some (tp_threads p ! i) else None)"

text \<open>A step that is possible, and the pool after it.\<close>

fun tp_do :: "tp_step \<Rightarrow> ThreadPool \<Rightarrow> ThreadPool option" where
  "tp_do (Submit f) p = Some (snd (ExecuteTask f p))"
| "tp_do (SetIdle m) p = Some (SetMaxIdleThread m p)"
| "tp_do (Lock i) p = (if worker_at p i = Some Entering then Some (worker_lock i p) else None)"
| "tp_do (Wake i) p = (if worker_at p i = Some Waiting then Some (worker_wake i p) else None)"
| "tp_do (Finish i) p = (case worker_at p i of Some (Running j) \<Rightarrow> Some (worker_done i j p) | _ \<Rightarrow> None)"
| "tp_do (Leave i) p = (if worker_at p i = Some Stopping then Some (worker_exit i p) else None)"
| "tp_do Monitor p = Some (monitor_turn p)"
| "tp_do Join p = Some (snd (JoinAll p))"

fun tp_run :: "tp_step list \<Rightarrow> ThreadPool \<Rightarrow> ThreadPool option" where
  "tp_run [] p = Some p"
| "tp_run (s # ss) p = (case tp_do s p of None \<Rightarrow> None | Some p \<Rightarrow> tp_run ss p)"

lemma tp_run_inv:
  assumes "tp_run ss p = Some p'" "P p" "\<And>s p p'. s \<in> set ss \<Longrightarrow> tp_do s p = Some p' \<Longrightarrow> P p \<Longrightarrow> P p'"
  shows "P p'"
  using assms
proof (induction ss arbitrary: p)
  case (Cons s ss)
  obtain q where q: "tp_do s p = Some q" "tp_run ss q = Some p'" using Cons.prems(1) by (auto split: option.splits)
  then have "P q" using Cons.prems(2,3) by (meson list.set_intros(1))
  then show ?case using Cons.IH [OF q(2)] Cons.prems(3) by (meson list.set_intros(2))
qed simp

section \<open>Counting workers\<close>

lemma count_list_update:
  "i < length xs \<Longrightarrow> count_list (xs[i := b]) v + (if xs ! i = v then 1 else 0) = count_list xs v + (if b = v then 1 else 0)"
proof (induction xs arbitrary: i)
  case (Cons x xs)
  show ?case
  proof (cases i)
    case (Suc k)
    then show ?thesis using Cons.IH [of k] Cons.prems by auto
  qed simp
qed simp

text \<open>The stop signals on their way: queued, being run, and run but not yet counted down.\<close>

definition stops :: "ThreadPool \<Rightarrow> nat" where
  "stops p = count_list (tp_tasks p) StopWorker + count_list (tp_threads p) (Running StopWorker) +
     count_list (tp_threads p) Stopping"

definition waiting :: "ThreadPool \<Rightarrow> nat" where
  "waiting p = count_list (tp_threads p) Waiting"

definition counted :: "ThreadPool \<Rightarrow> bool" where
  "counted p \<longleftrightarrow> tp_waiters p = word_of_nat (waiting p) \<and> tp_pending p = word_of_nat (stops p)"

text \<open>A worker moves from \<open>a\<close> to \<open>b\<close>.\<close>

lemma set_worker_counts:
  assumes "worker_at p i = Some a"
  shows "waiting (set_worker i b p) + (if a = Waiting then 1 else 0) = waiting p + (if b = Waiting then 1 else 0)"
    "stops (set_worker i b p) + (if a \<in> {Running StopWorker, Stopping} then 1 else 0) =
      stops p + (if b \<in> {Running StopWorker, Stopping} then 1 else 0)"
proof -
  have i: "i < length (tp_threads p)" "tp_threads p ! i = a" using assms by (auto simp: worker_at_def split: if_splits)
  note upd = count_list_update [OF i(1), of b]
  show "waiting (set_worker i b p) + (if a = Waiting then 1 else 0) = waiting p + (if b = Waiting then 1 else 0)"
    using upd [of Waiting] i(2) by (simp add: waiting_def set_worker_def)
  show "stops (set_worker i b p) + (if a \<in> {Running StopWorker, Stopping} then 1 else 0) =
      stops p + (if b \<in> {Running StopWorker, Stopping} then 1 else 0)"
    using upd [of "Running StopWorker"] upd [of Stopping] i(2) by (auto simp: stops_def set_worker_def split: if_splits)
qed

text \<open>The monitor in one step.\<close>

lemma monitor_loop_eq:
  "monitor_loop nw p = p\<lparr>tp_tasks := tp_tasks p @ replicate (unat nw - unat (tp_maxIdle p)) StopWorker,
     tp_pending := tp_pending p + word_of_nat (unat nw - unat (tp_maxIdle p))\<rparr>"
proof (induction nw p rule: monitor_loop.induct)
  case (1 nw p)
  show ?case
  proof (cases "tp_maxIdle p < nw")
    case True
    then have "unat nw - unat (tp_maxIdle p) = Suc (unat (nw - 1) - unat (tp_maxIdle p))"
      using unat_pred [OF True] by (simp add: word_less_nat_alt)
    with 1 [OF True] True show ?thesis
      by (subst monitor_loop.simps) (simp add: replicate_append_same [symmetric] add.assoc)
  next
    case False
    then have "unat nw - unat (tp_maxIdle p) = 0" by (simp add: word_less_nat_alt)
    with False show ?thesis by (subst monitor_loop.simps) simp
  qed
qed

section \<open>What the steps keep\<close>

lemma worker_at_tasks [simp]:
  "worker_at (p\<lparr>tp_tasks := js\<rparr>) i = worker_at p i" "worker_at (p\<lparr>tp_waiters := n\<rparr>) i = worker_at p i"
  "worker_at (p\<lparr>tp_pending := n\<rparr>) i = worker_at p i"
  by (simp_all add: worker_at_def)

lemma counts_simps [simp]:
  "waiting (p\<lparr>tp_tasks := js\<rparr>) = waiting p" "waiting (p\<lparr>tp_waiters := n\<rparr>) = waiting p"
  "waiting (p\<lparr>tp_pending := n\<rparr>) = waiting p" "stops (p\<lparr>tp_waiters := n\<rparr>) = stops p" "stops (p\<lparr>tp_pending := n\<rparr>) = stops p"
  "stops (p\<lparr>tp_waiters := n, tp_tasks := js\<rparr>) = stops (p\<lparr>tp_tasks := js\<rparr>)"
  "stops (p\<lparr>tp_pending := n, tp_tasks := js\<rparr>) = stops (p\<lparr>tp_tasks := js\<rparr>)"
  by (simp_all add: waiting_def stops_def)

lemma set_worker_fields [simp]:
  "tp_waiters (set_worker i b p) = tp_waiters p" "tp_pending (set_worker i b p) = tp_pending p"
  "tp_tasks (set_worker i b p) = tp_tasks p"
  "set_worker i b (p\<lparr>tp_waiters := n\<rparr>) = (set_worker i b p)\<lparr>tp_waiters := n\<rparr>"
  "set_worker i b (p\<lparr>tp_pending := n\<rparr>) = (set_worker i b p)\<lparr>tp_pending := n\<rparr>"
  "set_worker i b (p\<lparr>tp_tasks := js\<rparr>) = (set_worker i b p)\<lparr>tp_tasks := js\<rparr>"
  by (simp_all add: set_worker_def)

text \<open>Taking a job or going home: \<open>n\<close> says whether the worker was counted as waiting.\<close>

lemma worker_take_counted:
  assumes "worker_at p i = Some a" "a = Entering \<or> a = Waiting" "may_go p" "tp_pending p = word_of_nat (stops p)"
    "tp_waiters p = word_of_nat (waiting p) + (if a = Waiting then 0 else 1)"
  shows "counted (worker_take i p)"
proof (cases "tp_tasks p")
  case Nil
  have "waiting p = waiting (set_worker i Finished p) + (if a = Waiting then 1 else 0)" "stops (set_worker i Finished p) = stops p"
    using set_worker_counts [OF assms(1), of Finished] assms(2) by auto
  then show ?thesis using assms(2,4,5) Nil by (auto simp: counted_def worker_take_def)
next
  case (Cons j js)
  have "waiting p = waiting (set_worker i (Running j) p) + (if a = Waiting then 1 else 0)"
    "stops (set_worker i (Running j) p) = stops p + (if j = StopWorker then 1 else 0)"
    using set_worker_counts [OF assms(1), of "Running j"] assms(2) by auto
  moreover have "stops (set_worker i (Running j) p) = stops ((set_worker i (Running j) p)\<lparr>tp_tasks := js\<rparr>) + (if j = StopWorker then 1 else 0)"
    using Cons by (simp add: stops_def)
  ultimately show ?thesis using assms(2,4,5) Cons by (auto simp: counted_def worker_take_def)
qed

lemma tp_do_counted:
  assumes "tp_do s p = Some p'" "counted p"
  shows "counted p'"
proof (cases s)
  case (Submit f)
  have "count_list (tp_threads p @ [Entering]) v = count_list (tp_threads p) v" if "v \<noteq> Entering" for v
    using that by simp
  then show ?thesis
    using assms Submit by (auto simp: ExecuteTask_def CreateWorker_def counted_def waiting_def stops_def Let_def)
next
  case (SetIdle m)
  with assms show ?thesis by (auto simp: SetMaxIdleThread_def counted_def waiting_def stops_def)
next
  case (Lock i)
  then have i: "worker_at p i = Some Entering" "p' = worker_lock i p" using assms(1) by (auto split: if_splits)
  let ?p = "p\<lparr>tp_waiters := tp_waiters p + 1\<rparr>"
  show ?thesis
  proof (cases "may_go ?p")
    case True
    then show ?thesis using worker_take_counted [of ?p i Entering] i assms(2) by (simp add: worker_lock_def counted_def)
  next
    case False
    then show ?thesis using set_worker_counts [of ?p i Entering Waiting] i assms(2) by (simp add: worker_lock_def counted_def)
  qed
next
  case (Wake i)
  then have i: "worker_at p i = Some Waiting" "p' = worker_wake i p" using assms(1) by (auto split: if_splits)
  then show ?thesis using worker_take_counted [of p i Waiting] assms(2) by (auto simp: worker_wake_def counted_def)
next
  case (Finish i)
  then obtain j where j: "worker_at p i = Some (Running j)" "p' = worker_done i j p"
    using assms(1) by (auto split: option.splits worker.splits)
  moreover have "waiting (worker_done i j p) = waiting p \<and> stops (worker_done i j p) = stops p"
  proof (cases j)
    case (Task f)
    then show ?thesis using set_worker_counts [OF j(1), of Entering] by (simp add: worker_done_def)
  next
    case StopWorker
    then show ?thesis using set_worker_counts [OF j(1), of Stopping] by (simp add: worker_done_def)
  qed
  ultimately show ?thesis using assms(2) by (simp add: counted_def worker_done_def)
next
  case (Leave i)
  then have i: "worker_at p i = Some Stopping" "p' = worker_exit i p" using assms(1) by (auto split: if_splits)
  have "stops p = stops (set_worker i Finished p) + 1" "waiting (set_worker i Finished p) = waiting p"
    using set_worker_counts [OF i(1), of Finished] by simp_all
  then show ?thesis using i(2) assms(2) by (simp add: worker_exit_def counted_def)
next
  case Monitor
  let ?n = "unat (tp_waiters p - tp_pending p) - unat (tp_maxIdle p)"
  have "count_list (replicate n StopWorker) StopWorker = n" for n by (induction n) simp_all
  then have "stops (p\<lparr>tp_tasks := tp_tasks p @ replicate ?n StopWorker\<rparr>) = stops p + ?n" by (simp add: stops_def)
  moreover have "p' = p \<or> p' = p\<lparr>tp_tasks := tp_tasks p @ replicate ?n StopWorker, tp_pending := tp_pending p + word_of_nat ?n\<rparr>"
    using Monitor assms(1) monitor_loop_eq by (auto simp: monitor_turn_def split: if_splits)
  ultimately show ?thesis using assms(2) by (elim disjE) (simp_all add: counted_def del: of_nat_diff)
next
  case Join
  with assms show ?thesis by (auto simp: JoinAll_def counted_def waiting_def stops_def)
qed

lemma tp_run_counted: "tp_run ss (ThreadPool_new cores) = Some p \<Longrightarrow> counted p"
  by (erule tp_run_inv) (auto simp: ThreadPool_new_def counted_def waiting_def stops_def dest: tp_do_counted)

text \<open>While no job returns, nobody waits: every queued task has a worker of its own on the way to it.\<close>

definition all_busy :: "ThreadPool \<Rightarrow> bool" where
  "all_busy p \<longleftrightarrow> \<not> tp_shutdown p \<and> tp_waiters p = 0 \<and> tp_pending p = 0 \<and>
     set (tp_threads p) \<subseteq> insert Entering (range (Running \<circ> Task)) \<and> set (tp_tasks p) \<subseteq> range Task \<and>
     length (tp_tasks p) = count_list (tp_threads p) Entering"

lemma all_busy_lock:
  assumes "all_busy p" "worker_at p i = Some Entering"
  shows "\<exists>f js. tp_tasks p = Task f # js \<and> all_busy (worker_lock i p) \<and> worker_at (worker_lock i p) i = Some (Running (Task f))"
proof -
  have i: "i < length (tp_threads p)" "tp_threads p ! i = Entering" using assms(2) by (auto simp: worker_at_def split: if_splits)
  then have "Entering \<in> set (tp_threads p)" using nth_mem by fastforce
  then have "tp_tasks p \<noteq> []" using assms(1) by (auto simp: all_busy_def count_list_0_iff)
  then obtain f js where fjs: "tp_tasks p = Task f # js" using assms(1) by (cases "tp_tasks p") (auto simp: all_busy_def)
  let ?ts = "(tp_threads p)[i := Running (Task f)]"
  have l: "worker_lock i p = p\<lparr>tp_threads := ?ts, tp_tasks := js\<rparr>"
    using fjs by (simp add: worker_lock_def may_go_def worker_take_def set_worker_def Let_def)
  have "count_list ?ts Entering + 1 = count_list (tp_threads p) Entering"
    using count_list_update [OF i(1), of "Running (Task f)" Entering] i(2) by simp
  moreover have "set ?ts \<subseteq> insert (Running (Task f)) (set (tp_threads p))" by (rule set_update_subset_insert)
  ultimately have "all_busy (worker_lock i p)" using assms(1) fjs unfolding l all_busy_def by auto
  then show ?thesis using fjs i(1) by (simp add: l worker_at_def)
qed

lemma tp_do_busy:
  assumes "tp_do s p = Some p'" "all_busy p" "s \<noteq> Join" "\<forall>i. s \<noteq> Finish i"
  shows "all_busy p'"
proof (cases s)
  case (Submit f)
  then show ?thesis using assms(1,2) by (auto simp: ExecuteTask_def CreateWorker_def all_busy_def Let_def)
next
  case (SetIdle m)
  then show ?thesis using assms(1,2) by (cases "0 < m \<and> m \<le> kMaxThreads") (auto simp: SetMaxIdleThread_def all_busy_def)
next
  case (Lock i)
  then show ?thesis using assms(1) all_busy_lock [OF assms(2)] by (auto split: if_splits)
next
  case (Wake i)
  then show ?thesis using assms(1,2) by (auto simp: all_busy_def worker_at_def split: if_splits dest!: nth_mem)
next
  case (Leave i)
  then show ?thesis using assms(1,2) by (auto simp: all_busy_def worker_at_def split: if_splits dest!: nth_mem)
next
  case Monitor
  then show ?thesis using assms(1,2) by (auto simp: monitor_turn_def all_busy_def monitor_loop_eq)
qed (use assms(3,4) in simp_all)

section \<open>Properties\<close>

text \<open>C20: The two counters of the pool are exact: whatever the order of submissions, workers, monitor and
  shutdown, \<open>waiters_\<close> counts the workers in the wait and \<open>pendingStopSignal_\<close> the stop signals that
  are queued, running or not yet counted down.\<close>

theorem pool_counters_exact:
  assumes "tp_run steps (ThreadPool_new cores) = Some p"
  shows "tp_waiters p = word_of_nat (waiting p) \<and> tp_pending p = word_of_nat (stops p)"
  using tp_run_counted [OF assms] by (simp add: counted_def)

text \<open>C19: Tasks that do not return, such as the loops of the network threads, never wait for each other:
  every task in the queue has a worker of its own that takes the next one as soon as it gets the lock.\<close>

theorem endless_tasks_get_workers:
  assumes "tp_run steps (ThreadPool_new cores) = Some p" "Join \<notin> set steps" "\<forall>i. Finish i \<notin> set steps"
  shows "length (tp_tasks p) = count_list (tp_threads p) Entering \<and> waiting p = 0 \<and>
    (\<forall>i. worker_at p i = Some Entering \<longrightarrow>
      (\<exists>f js. tp_tasks p = Task f # js \<and> worker_at (worker_lock i p) i = Some (Running (Task f))))"
proof -
  have p: "all_busy p"
  proof (rule tp_run_inv [OF assms(1)])
    fix s q q' assume "s \<in> set steps" "tp_do s q = Some q'" "all_busy q"
    moreover from this(1) have "s \<noteq> Join" "\<forall>i. s \<noteq> Finish i" using assms(2,3) by auto
    ultimately show "all_busy q'" using tp_do_busy by blast
  qed (simp add: all_busy_def ThreadPool_new_def)
  then have "waiting p = 0" by (auto simp: all_busy_def waiting_def count_list_0_iff)
  moreover have "length (tp_tasks p) = count_list (tp_threads p) Entering" using p by (simp add: all_busy_def)
  ultimately show ?thesis using all_busy_lock [OF p] by blast
qed

text \<open>The monitor can flood the queue: it subtracts the stop signals on their way from the waiting
  workers on \<open>unsigned\<close>, and when two workers have taken their signal and not yet counted it down the
  difference wraps, so that it queues about \<open>2^32\<close> more signals while it holds the lock.\<close>

lemma monitor_floods_queue:
  assumes "tp_run steps (ThreadPool_new cores) = Some p" "\<not> tp_shutdown p" "waiting p < stops p" "stops p < 2 ^ 32"
  shows "tp_tasks (monitor_turn p) =
    tp_tasks p @ replicate (2 ^ 32 - (stops p - waiting p) - unat (tp_maxIdle p)) StopWorker"
proof -
  have c: "tp_waiters p = word_of_nat (waiting p)" "tp_pending p = word_of_nat (stops p)"
    using tp_run_counted [OF assms(1)] by (simp_all add: counted_def)
  have d: "tp_waiters p - tp_pending p = - word_of_nat (stops p - waiting p)"
    using c assms(3) by (simp add: of_nat_diff)
  have neg: "unat (- word_of_nat k :: u32) = 2 ^ 32 - k" if "0 < k" "k < 2 ^ 32" for k
  proof -
    have "(word_of_nat (2 ^ 32 - k + k) :: u32) = 0" using that(2) by (simp add: word_of_nat_eq_0_iff)
    then have "- word_of_nat k = (word_of_nat (2 ^ 32 - k) :: u32)"
      by (simp only: of_nat_add) (simp add: minus_unique add.commute)
    moreover have "unat (word_of_nat (2 ^ 32 - k) :: u32) = 2 ^ 32 - k"
      using that by (simp add: unsigned_of_nat take_bit_nat_eq_self del: of_nat_diff)
    ultimately show ?thesis by (simp only:)
  qed
  have "unat (tp_waiters p - tp_pending p) = 2 ^ 32 - (stops p - waiting p)"
    unfolding d using assms(3,4) by (intro neg) simp_all
  then show ?thesis using assms(2) by (simp add: monitor_turn_def monitor_loop_eq)
qed

section \<open>Applying them\<close>

text \<open>Three workers fall idle, the monitor sends two of them home, and both take their signal.\<close>

definition flood_steps :: "tp_step list" where
  "flood_steps = [Submit 0, Submit 1, Submit 2, Lock 0, Lock 1, Lock 2, Finish 0, Finish 1, Finish 2, Lock 0, Lock 1, Lock 2,
     Monitor, Wake 0, Wake 1]"

lemma flood_run: "tp_run flood_steps (ThreadPool_new 1) =
    Some \<lparr>tp_maxIdle = 1, tp_pending = 2, tp_waiters = 1, tp_shutdown = False, tp_tasks = [], tp_workers = [0, 1, 2],
      tp_threads = [Running StopWorker, Running StopWorker, Waiting]\<rparr>"
  by code_simp

theorem pool_counters_exact_witness:
  "\<exists>p. tp_run flood_steps (ThreadPool_new 1) = Some p \<and> waiting p = 1 \<and> tp_waiters p = 1 \<and> tp_pending p = word_of_nat (stops p)"
  using pool_counters_exact [OF flood_run] by (simp add: flood_run waiting_def)

theorem endless_tasks_get_workers_witness:
  "\<exists>p. tp_run [Submit 0, Lock 0, Submit 1] (ThreadPool_new 4) = Some p \<and> length (tp_tasks p) = 1 \<and>
    count_list (tp_threads p) Entering = 1"
proof -
  have r: "tp_run [Submit 0, Lock 0, Submit 1] (ThreadPool_new 4) = Some \<lparr>tp_maxIdle = 4, tp_pending = 0, tp_waiters = 0,
      tp_shutdown = False, tp_tasks = [Task 1], tp_workers = [0, 1], tp_threads = [Running (Task 0), Entering]\<rparr>"
    by code_simp
  have n: "Join \<notin> set [Submit 0, Lock 0, Submit 1]" "\<forall>i. Finish i \<notin> set [Submit 0, Lock 0, Submit 1]" by simp_all
  show ?thesis by (intro exI conjI, rule r) (use endless_tasks_get_workers [OF r n] in simp_all)
qed

end
