(* ===== verification/Print.thy ===== *)
theory Print
  imports Statements
begin

text \<open>
  The printer of syntax trees (\<open>parser/sqlhelper.cpp\<close>): a summary of a statement, one line per node,
  indented by its depth. A line is its number of tabs and its text; \<open>show_double\<close>, the formatting
  of a \<open>double\<close>, is a parameter. Printing a null string or looking into a null node is a fault.
\<close>

section \<open>Lines\<close>

type_synonym lines = "(nat \<times> string) list"

definition render :: "lines \<Rightarrow> string" where
  "render ls = concat (map (\<lambda>(n, t). replicate n (CHR 0x09) @ t @ [CHR 0x0A]) ls)"

definition line :: "string \<Rightarrow> nat \<Rightarrow> lines res" where
  "line t n = Inr [(n, t)]"

text \<open>The overloads of \<open>inprint\<close> for C strings and integers.\<close>

definition inprint :: "string option \<Rightarrow> nat \<Rightarrow> lines res" where
  "inprint val n = bindR (deref val) (\<lambda>t. line t n)"

definition inprint_int :: "int \<Rightarrow> nat \<Rightarrow> lines res" where
  "inprint_int val n = line (to_string val @ ''  '') n"

text \<open>One after the other, up to the first fault.\<close>

fun printed :: "lines res list \<Rightarrow> lines res" where
  "printed [] = Inr []"
| "printed (p # ps) = bindR p (\<lambda>a. bindR (printed ps) (\<lambda>b. Inr (a @ b)))"

section \<open>Operators and fields\<close>

fun show_OperatorType :: "OperatorType \<Rightarrow> string" where
  "show_OperatorType kOpNone = ''None''"
| "show_OperatorType kOpBetween = ''BETWEEN''"
| "show_OperatorType kOpCase = ''CASE''"
| "show_OperatorType kOpCaseListElement = ''CASE LIST ELEMENT''"
| "show_OperatorType kOpPlus = ''+''"
| "show_OperatorType kOpMinus = ''-''"
| "show_OperatorType kOpAsterisk = ''*''"
| "show_OperatorType kOpSlash = ''/''"
| "show_OperatorType kOpPercentage = ''%''"
| "show_OperatorType kOpCaret = ''^''"
| "show_OperatorType kOpEquals = ''=''"
| "show_OperatorType kOpNotEquals = ''!=''"
| "show_OperatorType kOpLess = ''<''"
| "show_OperatorType kOpLessEq = ''<=''"
| "show_OperatorType kOpGreater = ''>''"
| "show_OperatorType kOpGreaterEq = ''>=''"
| "show_OperatorType kOpLike = ''LIKE''"
| "show_OperatorType kOpNotLike = ''NOT LIKE''"
| "show_OperatorType kOpILike = ''ILIKE''"
| "show_OperatorType kOpAnd = ''AND''"
| "show_OperatorType kOpOr = ''OR''"
| "show_OperatorType kOpIn = ''IN''"
| "show_OperatorType kOpConcat = ''CONCAT''"
| "show_OperatorType kOpNot = ''NOT''"
| "show_OperatorType kOpUnaryMinus = ''-''"
| "show_OperatorType kOpIsNull = ''IS NULL''"
| "show_OperatorType kOpExists = ''EXISTS''"

fun show_DatetimeField :: "DatetimeField \<Rightarrow> string" where
  "show_DatetimeField kDatetimeNone = ''None''"
| "show_DatetimeField kDatetimeSecond = ''SECOND''"
| "show_DatetimeField kDatetimeMinute = ''MINUTE''"
| "show_DatetimeField kDatetimeHour = ''HOUR''"
| "show_DatetimeField kDatetimeDay = ''DAY''"
| "show_DatetimeField kDatetimeMonth = ''MONTH''"
| "show_DatetimeField kDatetimeYear = ''YEAR''"

section \<open>Nodes are smaller than their trees\<close>

lemma expr_smaller:
  "e_expr e = Some x \<Longrightarrow> size x < size e" "e_expr2 e = Some x \<Longrightarrow> size x < size e"
  "e_exprList e = Some es \<Longrightarrow> x \<in> set es \<Longrightarrow> size x < size e" "e_select e = Some s \<Longrightarrow> size s < size e"
  by (cases e; auto dest: size_list_estimation' [where f = size] simp: less_Suc_eq_le size_list_estimation' trans_le_add1 trans_le_add2)+

lemma order_smaller:
  "od_expr d = Some x \<Longrightarrow> size x < size_OrderDescription size d"
  by (cases d) auto

lemma limit_smaller:
  "ld_limit d = Some x \<Longrightarrow> size x < size_LimitDescription size d" "ld_offset d = Some x \<Longrightarrow> size x < size_LimitDescription size d"
  by (cases d; auto)+

lemma in_list_smaller: "x \<in> set xs \<Longrightarrow> n < f x \<Longrightarrow> n < size_list f xs"
  by (induction xs) auto

lemma orders_smaller: "d \<in> set ds \<Longrightarrow> od_expr d = Some e \<Longrightarrow> size e < size_list (size_OrderDescription size) ds"
  by (erule in_list_smaller [where f = "size_OrderDescription size"]) (rule order_smaller)

lemma select_smaller:
  "sel_selectList s = Some es \<Longrightarrow> e \<in> set es \<Longrightarrow> size e < size s"
  "sel_fromTable s = Some t \<Longrightarrow> size t < size s"
  "sel_whereClause s = Some e \<Longrightarrow> size e < size s"
  "sel_groupBy s = Some g \<Longrightarrow> gb_columns g = Some es \<Longrightarrow> e \<in> set es \<Longrightarrow> size e < size s"
  "sel_groupBy s = Some g \<Longrightarrow> gb_having g = Some e \<Longrightarrow> size e < size s"
  "sel_order s = Some ds \<Longrightarrow> d \<in> set ds \<Longrightarrow> od_expr d = Some e \<Longrightarrow> size e < size s"
  "sel_limit s = Some l \<Longrightarrow> ld_limit l = Some e \<Longrightarrow> size e < size s"
  "sel_limit s = Some l \<Longrightarrow> ld_offset l = Some e \<Longrightarrow> size e < size s"
proof -
  show "sel_selectList s = Some es \<Longrightarrow> e \<in> set es \<Longrightarrow> size e < size s"
    by (cases s) (auto dest: size_list_estimation' [where f = size, OF _ order_refl] simp: less_Suc_eq_le)
  show "sel_fromTable s = Some t \<Longrightarrow> size t < size s" by (cases s) auto
  show "sel_whereClause s = Some e \<Longrightarrow> size e < size s" by (cases s) auto
  show "sel_groupBy s = Some g \<Longrightarrow> gb_columns g = Some es \<Longrightarrow> e \<in> set es \<Longrightarrow> size e < size s"
    by (cases s; cases g) (auto dest: size_list_estimation' [where f = size, OF _ order_refl])
  show "sel_groupBy s = Some g \<Longrightarrow> gb_having g = Some e \<Longrightarrow> size e < size s" by (cases s; cases g) auto
  show "sel_order s = Some ds \<Longrightarrow> d \<in> set ds \<Longrightarrow> od_expr d = Some e \<Longrightarrow> size e < size s"
    using orders_smaller [of d ds e] by (cases s) auto
  show "sel_limit s = Some l \<Longrightarrow> ld_limit l = Some e \<Longrightarrow> size e < size s"
    using limit_smaller(1) [of l e] by (cases s) auto
  show "sel_limit s = Some l \<Longrightarrow> ld_offset l = Some e \<Longrightarrow> size e < size s"
    using limit_smaller(2) [of l e] by (cases s) auto
qed

lemma table_smaller:
  "tr_select t = Some s \<Longrightarrow> size s < size t"
  "tr_list t = Some ts \<Longrightarrow> x \<in> set ts \<Longrightarrow> size x < size t"
  "tr_join t = Some j \<Longrightarrow> jd_left j = Some x \<Longrightarrow> size x < size t"
  "tr_join t = Some j \<Longrightarrow> jd_right j = Some x \<Longrightarrow> size x < size t"
  "tr_join t = Some j \<Longrightarrow> jd_condition j = Some e \<Longrightarrow> size e < size t"
  by (cases t; auto dest: size_list_estimation' [where f = size, OF _ order_refl])
    (cases t; cases j; auto dest: size_list_estimation' [where f = size, OF _ order_refl])+

lemmas smaller = expr_smaller select_smaller table_smaller

lemma more_smaller:
  "sel_order s = Some ds \<Longrightarrow> size_list (size_OrderDescription size) ds < size s"
  "sel_setOperations s = Some ops \<Longrightarrow> op \<in> set ops \<Longrightarrow> size_SetOperation size size op < size s"
  "so_resultOrder op = Some ds \<Longrightarrow> size_list (size_OrderDescription size) ds < size_SetOperation size size op"
  "so_resultLimit op = Some l \<Longrightarrow> ld_limit l = Some e \<Longrightarrow> size e < size_SetOperation size size op"
  "so_resultLimit op = Some l \<Longrightarrow> ld_offset l = Some e \<Longrightarrow> size e < size_SetOperation size size op"
  "so_nested op = Some s' \<Longrightarrow> size s' < size_SetOperation size size op"
proof -
  show "sel_order s = Some ds \<Longrightarrow> size_list (size_OrderDescription size) ds < size s" by (cases s) auto
  show "sel_setOperations s = Some ops \<Longrightarrow> op \<in> set ops \<Longrightarrow> size_SetOperation size size op < size s"
    using size_list_estimation' [where f = "size_SetOperation size size", of op ops, OF _ order_refl] by (cases s) auto
  show "so_resultOrder op = Some ds \<Longrightarrow> size_list (size_OrderDescription size) ds < size_SetOperation size size op"
    by (cases op) auto
  show "so_resultLimit op = Some l \<Longrightarrow> ld_limit l = Some e \<Longrightarrow> size e < size_SetOperation size size op"
    using limit_smaller(1) [of l e] by (cases op) auto
  show "so_resultLimit op = Some l \<Longrightarrow> ld_offset l = Some e \<Longrightarrow> size e < size_SetOperation size size op"
    using limit_smaller(2) [of l e] by (cases op) auto
  show "so_nested op = Some s' \<Longrightarrow> size s' < size_SetOperation size size op" by (cases op) auto
qed

section \<open>The printer\<close>

definition printAlias :: "Alias \<Rightarrow> nat \<Rightarrow> lines res" where
  "printAlias alias n =
     printed ([line ''Alias'' (n + 1), inprint (al_name alias) (n + 2)] @
       (case al_columns alias of None \<Rightarrow> [] | Some cs \<Rightarrow> map (\<lambda>c. inprint c (n + 3)) cs))"

text \<open>A null expression prints nothing; the other functions look into their argument.\<close>

function (sequential)
  printExpression :: "(u64 \<Rightarrow> string) \<Rightarrow> Expr \<Rightarrow> nat \<Rightarrow> lines res" and
  printOperatorExpression :: "(u64 \<Rightarrow> string) \<Rightarrow> Expr \<Rightarrow> nat \<Rightarrow> lines res" and
  printOrderBy :: "(u64 \<Rightarrow> string) \<Rightarrow> Expr OrderDescription list \<Rightarrow> nat \<Rightarrow> lines res" and
  printSetOperation :: "(u64 \<Rightarrow> string) \<Rightarrow> (SelectStatement, Expr) SetOperation \<Rightarrow> nat \<Rightarrow> lines res" and
  printSelectStatementInfo :: "(u64 \<Rightarrow> string) \<Rightarrow> SelectStatement \<Rightarrow> nat \<Rightarrow> lines res" and
  printTableRefInfo :: "(u64 \<Rightarrow> string) \<Rightarrow> TableRef \<Rightarrow> nat \<Rightarrow> lines res"
where
  "printExpression sd e n =
     (let body = (case e_type e of
          kExprStar \<Rightarrow> line ''*'' n
        | kExprColumnRef \<Rightarrow> printed ([inprint (e_name e) n] @
            (case e_table e of None \<Rightarrow> [] | Some t \<Rightarrow> [line ''Table:'' (n + 1), line t (n + 2)]))
        | kExprLiteralFloat \<Rightarrow> line (sd (e_fval e)) n
        | kExprLiteralInt \<Rightarrow> inprint_int (e_ival e) n
        | kExprLiteralString \<Rightarrow> inprint (e_name e) n
        | kExprLiteralDate \<Rightarrow> inprint (e_name e) n
        | kExprLiteralNull \<Rightarrow> line ''NULL'' n
        | kExprLiteralInterval \<Rightarrow> printed [line ''INTERVAL'' n, inprint_int (e_ival e) (n + 1),
            line (show_DatetimeField (e_datetimeField e)) (n + 1)]
        | kExprFunctionRef \<Rightarrow> printed [inprint (e_name e) n,
            (case e_exprList e of None \<Rightarrow> Inl NullDeref | Some es \<Rightarrow> printed (map (\<lambda>x. printExpression sd x (n + 1)) es))]
        | kExprExtract \<Rightarrow> printed [line ''EXTRACT'' n, line (show_DatetimeField (e_datetimeField e)) (n + 1),
            (case e_expr e of None \<Rightarrow> Inr [] | Some x \<Rightarrow> printExpression sd x (n + 1))]
        | kExprCast \<Rightarrow> printed [line ''CAST'' n, line (show_ColumnType (e_columnType e)) (n + 1),
            (case e_expr e of None \<Rightarrow> Inr [] | Some x \<Rightarrow> printExpression sd x (n + 1))]
        | kExprOperator \<Rightarrow> printOperatorExpression sd e n
        | kExprSelect \<Rightarrow> (case e_select e of None \<Rightarrow> Inl NullDeref | Some s \<Rightarrow> printSelectStatementInfo sd s n)
        | kExprParameter \<Rightarrow> inprint_int (e_ival e) n
        | kExprArray \<Rightarrow>
            (case e_exprList e of None \<Rightarrow> Inl NullDeref | Some es \<Rightarrow> printed (map (\<lambda>x. printExpression sd x (n + 1)) es))
        | kExprArrayIndex \<Rightarrow> printed [(case e_expr e of None \<Rightarrow> Inr [] | Some x \<Rightarrow> printExpression sd x (n + 1)),
            inprint_int (e_ival e) n]
        | kExprHint \<Rightarrow> Inr [])
      in if e_type e = kExprHint then body
         else printed [body, case e_alias e of None \<Rightarrow> Inr [] | Some a \<Rightarrow> printed [line ''Alias'' (n + 1), line a (n + 2)]])"
| "printOperatorExpression sd e n =
     printed [line (show_OperatorType (e_opType e)) n,
       (case e_expr e of None \<Rightarrow> Inr [] | Some x \<Rightarrow> printExpression sd x (n + 1)),
       (case e_expr2 e of
          Some x \<Rightarrow> printExpression sd x (n + 1)
        | None \<Rightarrow> (case e_exprList e of None \<Rightarrow> Inr [] | Some es \<Rightarrow> printed (map (\<lambda>x. printExpression sd x (n + 1)) es)))]"
| "printOrderBy sd ds n =
     printed (map (\<lambda>d. printed
       [(case od_expr d of None \<Rightarrow> Inr [] | Some x \<Rightarrow> printExpression sd x n),
        line (if od_type d = kOrderAsc then ''ascending'' else ''descending'') n]) ds)"
| "printSetOperation sd op n =
     printed
       [line (case so_setType op of kSetIntersect \<Rightarrow> ''Intersect:'' | kSetUnion \<Rightarrow> ''Union:'' | kSetExcept \<Rightarrow> ''Except:'') (n + 1),
        (case so_nested op of None \<Rightarrow> Inl NullDeref | Some s \<Rightarrow> printSelectStatementInfo sd s (n + 2)),
        (case so_resultOrder op of None \<Rightarrow> Inr []
         | Some ds \<Rightarrow> printed [line ''SetResultOrderBy:'' (n + 1), printOrderBy sd ds (n + 2)]),
        (case so_resultLimit op of None \<Rightarrow> Inr []
         | Some l \<Rightarrow> printed
             [(case ld_limit l of None \<Rightarrow> Inr [] | Some x \<Rightarrow> printed [line ''SetResultLimit:'' (n + 1), printExpression sd x (n + 2)]),
              (case ld_offset l of None \<Rightarrow> Inr [] | Some x \<Rightarrow> printed [line ''SetResultOffset:'' (n + 1), printExpression sd x (n + 2)])])]"
| "printSelectStatementInfo sd s n =
     printed
       [line ''SelectStatement'' n, line ''Fields:'' (n + 1),
        (case sel_selectList s of None \<Rightarrow> Inl NullDeref | Some es \<Rightarrow> printed (map (\<lambda>x. printExpression sd x (n + 2)) es)),
        (case sel_fromTable s of None \<Rightarrow> Inr [] | Some t \<Rightarrow> printed [line ''Sources:'' (n + 1), printTableRefInfo sd t (n + 2)]),
        (case sel_whereClause s of None \<Rightarrow> Inr []
         | Some x \<Rightarrow> printed [line ''Search Conditions:'' (n + 1), printExpression sd x (n + 2)]),
        (case sel_groupBy s of None \<Rightarrow> Inr []
         | Some g \<Rightarrow> printed
             [line ''GroupBy:'' (n + 1),
              (case gb_columns g of None \<Rightarrow> Inl NullDeref | Some es \<Rightarrow> printed (map (\<lambda>x. printExpression sd x (n + 2)) es)),
              (case gb_having g of None \<Rightarrow> Inr [] | Some x \<Rightarrow> printed [line ''Having:'' (n + 1), printExpression sd x (n + 2)])]),
        (case sel_setOperations s of None \<Rightarrow> Inr [] | Some ops \<Rightarrow> printed (map (\<lambda>op. printSetOperation sd op n) ops)),
        (case sel_order s of None \<Rightarrow> Inr [] | Some ds \<Rightarrow> printed [line ''OrderBy:'' (n + 1), printOrderBy sd ds (n + 2)]),
        (case sel_limit s of None \<Rightarrow> Inr []
         | Some l \<Rightarrow> printed
             [(case ld_limit l of None \<Rightarrow> Inr [] | Some x \<Rightarrow> printed [line ''Limit:'' (n + 1), printExpression sd x (n + 2)]),
              (case ld_offset l of None \<Rightarrow> Inr [] | Some x \<Rightarrow> printed [line ''Offset:'' (n + 1), printExpression sd x (n + 2)])])]"
| "printTableRefInfo sd t n =
     printed
       [(case tr_type t of
           kTableName \<Rightarrow> printed [inprint (tr_name t) n,
             (case tr_schema t of None \<Rightarrow> Inr [] | Some sc \<Rightarrow> printed [line ''Schema'' (n + 1), line sc (n + 2)])]
         | kTableSelect \<Rightarrow> (case tr_select t of None \<Rightarrow> Inl NullDeref | Some s \<Rightarrow> printSelectStatementInfo sd s n)
         | kTableJoin \<Rightarrow>
             printed [line ''Join Table'' n, line ''Left'' (n + 1),
               (case tr_join t of None \<Rightarrow> Inl NullDeref
                | Some j \<Rightarrow> printed
                    [(case jd_left j of None \<Rightarrow> Inl NullDeref | Some x \<Rightarrow> printTableRefInfo sd x (n + 2)),
                     line ''Right'' (n + 1),
                     (case jd_right j of None \<Rightarrow> Inl NullDeref | Some x \<Rightarrow> printTableRefInfo sd x (n + 2)),
                     line ''Join Condition'' (n + 1),
                     (case jd_condition j of None \<Rightarrow> Inr [] | Some x \<Rightarrow> printExpression sd x (n + 2))])]
         | kTableCrossProduct \<Rightarrow>
             (case tr_list t of None \<Rightarrow> Inl NullDeref | Some ts \<Rightarrow> printed (map (\<lambda>x. printTableRefInfo sd x n) ts))),
        (case tr_alias t of None \<Rightarrow> Inr [] | Some a \<Rightarrow> printAlias a n)]"
  by pat_completeness auto
termination
proof (relation "measure (case_sum
    (case_sum (\<lambda>(_, e, _). 2 * size e + 1)
      (case_sum (\<lambda>(_, e, _). 2 * size e) (\<lambda>(_, ds, _). 2 * size_list (size_OrderDescription size) ds)))
    (case_sum (\<lambda>(_, op, _). 2 * size_SetOperation size size op)
      (case_sum (\<lambda>(_, s, _). 2 * size s) (\<lambda>(_, t, _). 2 * size t))))", goal_cases)
  case 1
  show ?case by simp
qed (auto dest: smaller more_smaller orders_smaller)

declare printExpression.simps [simp del] printOperatorExpression.simps [simp del] printOrderBy.simps [simp del]
  printSetOperation.simps [simp del] printSelectStatementInfo.simps [simp del] printTableRefInfo.simps [simp del]

section \<open>Statements\<close>

fun show_ImportType :: "ImportType \<Rightarrow> string" where
  "show_ImportType kImportCSV = ''CSV''"
| "show_ImportType kImportTbl = ''TBL''"
| "show_ImportType kImportBinary = ''BINARY''"
| "show_ImportType kImportAuto = ''AUTO''"

definition printImportStatementInfo :: "ImportStatement \<Rightarrow> nat \<Rightarrow> lines res" where
  "printImportStatementInfo s n =
     printed [line ''ImportStatement'' n, inprint (imp_filePath s) (n + 1), line (show_ImportType (imp_type s)) (n + 1),
       inprint (imp_tableName s) (n + 1)]"

definition printExportStatementInfo :: "ExportStatement \<Rightarrow> nat \<Rightarrow> lines res" where
  "printExportStatementInfo s n =
     printed [line ''ExportStatement'' n, inprint (exp_filePath s) (n + 1), line (show_ImportType (exp_type s)) (n + 1),
       inprint (exp_tableName s) (n + 1)]"

definition printCreateStatementInfo :: "CreateStatement \<Rightarrow> nat \<Rightarrow> lines res" where
  "printCreateStatementInfo s n =
     printed [line ''CreateStatement'' n, inprint (cs_tableName s) (n + 1),
       (case cs_filePath s of None \<Rightarrow> Inr [] | Some f \<Rightarrow> line f (n + 1))]"

definition printInsertStatementInfo :: "(u64 \<Rightarrow> string) \<Rightarrow> InsertStatement \<Rightarrow> nat \<Rightarrow> lines res" where
  "printInsertStatementInfo sd s n =
     printed [line ''InsertStatement'' n, inprint (ins_tableName s) (n + 1),
       (case ins_columns s of None \<Rightarrow> Inr [] | Some cs \<Rightarrow> printed (line ''Columns'' (n + 1) # map (\<lambda>c. line c (n + 2)) cs)),
       (case ins_type s of
          kInsertValues \<Rightarrow> printed [line ''Values'' (n + 1),
            (case ins_values s of None \<Rightarrow> Inl NullDeref | Some es \<Rightarrow> printed (map (\<lambda>x. printExpression sd x (n + 2)) es))]
        | kInsertSelect \<Rightarrow>
            (case ins_select s of None \<Rightarrow> Inl NullDeref | Some t \<Rightarrow> printSelectStatementInfo sd t (n + 1)))]"

definition printTransactionStatementInfo :: "TransactionStatement \<Rightarrow> nat \<Rightarrow> lines res" where
  "printTransactionStatementInfo s n =
     printed [line ''TransactionStatement'' n,
       line (case tx_command s of kBeginTransaction \<Rightarrow> ''BEGIN'' | kCommitTransaction \<Rightarrow> ''COMMIT''
         | kRollbackTransaction \<Rightarrow> ''ROLLBACK'') (n + 1)]"

definition printStatementInfo :: "(u64 \<Rightarrow> string) \<Rightarrow> stmt \<Rightarrow> lines res" where
  "printStatementInfo sd s =
     (case s of
        SSelect t \<Rightarrow> printSelectStatementInfo sd t 0
      | SInsert t \<Rightarrow> printInsertStatementInfo sd t 0
      | SCreate t \<Rightarrow> printCreateStatementInfo t 0
      | SImport t \<Rightarrow> printImportStatementInfo t 0
      | SExport t \<Rightarrow> printExportStatementInfo t 0
      | STransaction t \<Rightarrow> printTransactionStatementInfo t 0
      | _ \<Rightarrow> Inr [])"

section \<open>Indentation\<close>

definition moved :: "nat \<Rightarrow> lines res \<Rightarrow> lines res" where
  "moved k p = bindR p (\<lambda>ls. Inr (map (\<lambda>(n, t). (k + n, t)) ls))"

lemma moved_simps [simp]:
  "moved k (Inl f) = Inl f" "moved k (Inr []) = Inr []" "moved k (line t n) = line t (k + n)"
  "moved k (inprint v n) = inprint v (k + n)" "moved k (inprint_int i n) = inprint_int i (k + n)"
  by (simp_all add: moved_def line_def inprint_def inprint_int_def deref_def split: option.split)

lemma moved_append:
  "moved k (bindR p (\<lambda>a. bindR q (\<lambda>b. Inr (a @ b)))) = bindR (moved k p) (\<lambda>a. bindR (moved k q) (\<lambda>b. Inr (a @ b)))"
  by (cases p; cases q) (simp_all add: moved_def)

lemma moved_printed [simp]: "moved k (printed ps) = printed (map (moved k) ps)"
  by (induction ps) (simp_all add: moved_append)

declare printed.simps [simp del]

lemma moved_alias [simp]: "moved k (printAlias a n) = printAlias a (k + n)"
  by (simp add: printAlias_def comp_def add.assoc split: option.split)

lemma print_moved:
  "moved k (printExpression sd e n) = printExpression sd e (k + n)"
  "moved k (printOperatorExpression sd e n) = printOperatorExpression sd e (k + n)"
  "moved k (printOrderBy sd ds n) = printOrderBy sd ds (k + n)"
  "moved k (printSetOperation sd op n) = printSetOperation sd op (k + n)"
  "moved k (printSelectStatementInfo sd s n) = printSelectStatementInfo sd s (k + n)"
  "moved k (printTableRefInfo sd t n) = printTableRefInfo sd t (k + n)"
proof (induction sd e n and sd e n and sd ds n and sd op n and sd s n and sd t n
    rule: printExpression_printOperatorExpression_printOrderBy_printSetOperation_printSelectStatementInfo_printTableRefInfo.induct)
  case (1 sd e n)
  then show ?case
    by (subst (1 2) printExpression.simps, cases "e_type e")
      (simp_all add: comp_def Let_def split: option.split cong: map_cong)
next
  case (2 sd e n)
  then show ?case
    by (subst (1 2) printOperatorExpression.simps) (simp add: comp_def split: option.split cong: map_cong)
next
  case (3 sd ds n)
  then show ?case
    by (subst (1 2) printOrderBy.simps)
      (auto simp: comp_def intro!: arg_cong [where f = printed] map_cong split: option.split)
next
  case (4 sd op n)
  then show ?case
    by (subst (1 2) printSetOperation.simps) (simp add: comp_def split: option.split SetType.split)
next
  case (5 sd s n)
  then show ?case
    by (subst (1 2) printSelectStatementInfo.simps)
      (simp add: comp_def option.case_distrib [of "moved k"] cong: map_cong option.case_cong)
next
  case (6 sd t n)
  then show ?case
    by (subst (1 2) printTableRefInfo.simps, cases "tr_type t")
      (simp_all add: comp_def split: option.split cong: map_cong)
qed

section \<open>Properties\<close>

text \<open>The printer's indentation is uniform: a tree printed at depth \<open>n\<close> is the same tree printed at
  depth 0 with every line moved by \<open>n\<close>, faults included, so that no line of it is left of its head.\<close>

lemma print_uniform:
  "printExpression sd e n = moved n (printExpression sd e 0) \<and>
   printSelectStatementInfo sd s n = moved n (printSelectStatementInfo sd s 0) \<and>
   printTableRefInfo sd t n = moved n (printTableRefInfo sd t 0) \<and>
   (\<forall>ls. printSelectStatementInfo sd s n = Inr ls \<longrightarrow> (\<forall>l\<in>set ls. n \<le> fst l) \<and> hd ls = (n, ''SelectStatement''))"
proof -
  have hd: "hd ls = (n, ''SelectStatement'')" if "printSelectStatementInfo sd s n = Inr ls" for ls
    using that by (subst (asm) printSelectStatementInfo.simps) (auto simp: printed.simps line_def bindR_eq_Inr)
  have "\<forall>l\<in>set ls. n \<le> fst l" if "printSelectStatementInfo sd s n = Inr ls" for ls
    using that print_moved(5) [of n sd s 0] by (auto simp: moved_def bindR_eq_Inr)
  with hd show ?thesis using print_moved(1) [of n sd e 0] print_moved(5) [of n sd s 0] print_moved(6) [of n sd t 0] by simp
qed

definition select_star :: SelectStatement where
  "select_star = mkSelect None None False (Some [makeStar]) None None None None None None"

end
