(* ===== verification/Config.thy ===== *)
theory Config
  imports Prelude
begin

text \<open>
  The configuration of the server (\<open>network/config.h\<close>, \<open>config.cc\<close>). The TOML library is a
  parameter: \<open>None\<close> is a text it cannot parse, otherwise the value answers what stands under a dotted
  name: nothing, a string, or a value of another type.
\<close>

record Config =
  cfg_listenAddr :: string
  cfg_logDir :: string
  cfg_dbPath :: string

datatype toml_value = TomlString string | TomlOther

type_synonym toml = "(string \<Rightarrow> toml_value option) option"

text \<open>A field is assigned as soon as it is found, whatever becomes of the later ones.\<close>

definition LoadServerConfig :: "toml \<Rightarrow> Config \<Rightarrow> bool \<times> Config" where
  "LoadServerConfig pr cfg =
     (case pr of
        None \<Rightarrow> (False, cfg)
      | Some v \<Rightarrow>
          (case v ''server.addr'' of
             Some (TomlString addr) \<Rightarrow>
               let cfg = cfg\<lparr>cfg_listenAddr := addr\<rparr> in
               (case v ''server.logdir'' of
                  Some (TomlString logDir) \<Rightarrow>
                    let cfg = cfg\<lparr>cfg_logDir := logDir\<rparr> in
                    (case v ''db.path'' of
                       Some (TomlString path) \<Rightarrow> (True, cfg\<lparr>cfg_dbPath := path\<rparr>)
                     | _ \<Rightarrow> (False, cfg))
                | _ \<Rightarrow> (False, cfg))
           | _ \<Rightarrow> (False, cfg)))"

text \<open>Loading succeeds exactly when the three strings are there, and then overwrites every field.\<close>

lemma LoadServerConfig_ok:
  "LoadServerConfig pr cfg = (True, cfg') \<longleftrightarrow>
     (\<exists>v addr logDir path. pr = Some v \<and> v ''server.addr'' = Some (TomlString addr) \<and>
        v ''server.logdir'' = Some (TomlString logDir) \<and> v ''db.path'' = Some (TomlString path) \<and>
        cfg' = \<lparr>cfg_listenAddr = addr, cfg_logDir = logDir, cfg_dbPath = path\<rparr>)"
  by (cases cfg) (auto simp: LoadServerConfig_def Let_def split: option.splits toml_value.splits)

end
