(* ===== verification/Tables.thy ===== *)
theory Tables
  imports Prelude "HOL-Library.Monad_Syntax"
begin

text \<open>
  Reading the integer tables of the generated scanner and parser. A table is a list, written
  in blocks of a hundred as the generators print them; \<open>look\<close> reads an entry, and \<open>None\<close>
  stands for a read outside the array. The rules \<open>look_100\<close>, \<open>look_10\<close> and \<open>look_1\<close> turn a
  table, block by block, into one equation per entry, so that evaluating a table costs one
  rewrite step; the table theories collect these equations as simplification rules.
\<close>

definition look :: "int list \<Rightarrow> int \<Rightarrow> int option" where
  "look T i = (if 0 \<le> i \<and> nat i < length T then Some (T ! nat i) else None)"

text \<open>What a table holds from an index on.\<close>

definition from_index :: "int \<Rightarrow> int list \<Rightarrow> int list \<Rightarrow> bool" where
  "from_index n T xs \<longleftrightarrow> 0 \<le> n \<and> drop (nat n) T = xs"

lemma from_index_start: "T = xs \<Longrightarrow> from_index 0 T xs"
  by (simp add: from_index_def)

lemma look_from_index:
  "from_index n T xs \<Longrightarrow> 0 \<le> k \<Longrightarrow> nat k < length xs \<Longrightarrow> look T (n + k) = Some (xs ! nat k)"
  by (auto simp: from_index_def look_def nat_add_distrib)

lemma from_index_next: "from_index n T (xs @ ys) \<Longrightarrow> from_index (n + int (length xs)) T ys"
proof -
  assume "from_index n T (xs @ ys)"
  then have "0 \<le> n" and "drop (length xs) (drop (nat n) T) = ys" by (simp_all add: from_index_def)
  then show ?thesis by (simp add: from_index_def nat_add_distrib add.commute)
qed

lemma look_1: "from_index n T (x # r) \<Longrightarrow> look T n = Some x"
  using look_from_index [of n T "x # r" 0] by simp

lemma next_1: "from_index n T (x # r) \<Longrightarrow> from_index (n + 1) T r"
  using from_index_next [of n T "[x]" r] by simp

lemma from_index_end: "from_index n T [] \<Longrightarrow> n \<le> i \<Longrightarrow> look T i = None"
  by (auto simp: from_index_def look_def)

lemma look_neg: "i < 0 \<Longrightarrow> look T i = None"
  by (simp add: look_def)

lemma look_10:
  assumes "from_index n T ([x0, x1, x2, x3, x4, x5, x6, x7, x8, x9] @ r)"
  shows "look T (n + 0) = Some x0 \<and>
    look T (n + 1) = Some x1 \<and>
    look T (n + 2) = Some x2 \<and>
    look T (n + 3) = Some x3 \<and>
    look T (n + 4) = Some x4 \<and>
    look T (n + 5) = Some x5 \<and>
    look T (n + 6) = Some x6 \<and>
    look T (n + 7) = Some x7 \<and>
    look T (n + 8) = Some x8 \<and>
    look T (n + 9) = Some x9"
  by (intro conjI; subst look_from_index [OF assms]; simp)

lemma next_10:
  assumes "from_index n T ([x0, x1, x2, x3, x4, x5, x6, x7, x8, x9] @ r)"
  shows "from_index (n + 10) T r"
  using from_index_next [OF assms] by simp

lemma look_100:
  assumes "from_index n T ([x0, x1, x2, x3, x4, x5, x6, x7, x8, x9, 
    x10, x11, x12, x13, x14, x15, x16, x17, x18, x19, 
    x20, x21, x22, x23, x24, x25, x26, x27, x28, x29, 
    x30, x31, x32, x33, x34, x35, x36, x37, x38, x39, 
    x40, x41, x42, x43, x44, x45, x46, x47, x48, x49, 
    x50, x51, x52, x53, x54, x55, x56, x57, x58, x59, 
    x60, x61, x62, x63, x64, x65, x66, x67, x68, x69, 
    x70, x71, x72, x73, x74, x75, x76, x77, x78, x79, 
    x80, x81, x82, x83, x84, x85, x86, x87, x88, x89, 
    x90, x91, x92, x93, x94, x95, x96, x97, x98, x99] @ r)"
  shows "look T (n + 0) = Some x0 \<and>
    look T (n + 1) = Some x1 \<and>
    look T (n + 2) = Some x2 \<and>
    look T (n + 3) = Some x3 \<and>
    look T (n + 4) = Some x4 \<and>
    look T (n + 5) = Some x5 \<and>
    look T (n + 6) = Some x6 \<and>
    look T (n + 7) = Some x7 \<and>
    look T (n + 8) = Some x8 \<and>
    look T (n + 9) = Some x9 \<and>
    look T (n + 10) = Some x10 \<and>
    look T (n + 11) = Some x11 \<and>
    look T (n + 12) = Some x12 \<and>
    look T (n + 13) = Some x13 \<and>
    look T (n + 14) = Some x14 \<and>
    look T (n + 15) = Some x15 \<and>
    look T (n + 16) = Some x16 \<and>
    look T (n + 17) = Some x17 \<and>
    look T (n + 18) = Some x18 \<and>
    look T (n + 19) = Some x19 \<and>
    look T (n + 20) = Some x20 \<and>
    look T (n + 21) = Some x21 \<and>
    look T (n + 22) = Some x22 \<and>
    look T (n + 23) = Some x23 \<and>
    look T (n + 24) = Some x24 \<and>
    look T (n + 25) = Some x25 \<and>
    look T (n + 26) = Some x26 \<and>
    look T (n + 27) = Some x27 \<and>
    look T (n + 28) = Some x28 \<and>
    look T (n + 29) = Some x29 \<and>
    look T (n + 30) = Some x30 \<and>
    look T (n + 31) = Some x31 \<and>
    look T (n + 32) = Some x32 \<and>
    look T (n + 33) = Some x33 \<and>
    look T (n + 34) = Some x34 \<and>
    look T (n + 35) = Some x35 \<and>
    look T (n + 36) = Some x36 \<and>
    look T (n + 37) = Some x37 \<and>
    look T (n + 38) = Some x38 \<and>
    look T (n + 39) = Some x39 \<and>
    look T (n + 40) = Some x40 \<and>
    look T (n + 41) = Some x41 \<and>
    look T (n + 42) = Some x42 \<and>
    look T (n + 43) = Some x43 \<and>
    look T (n + 44) = Some x44 \<and>
    look T (n + 45) = Some x45 \<and>
    look T (n + 46) = Some x46 \<and>
    look T (n + 47) = Some x47 \<and>
    look T (n + 48) = Some x48 \<and>
    look T (n + 49) = Some x49 \<and>
    look T (n + 50) = Some x50 \<and>
    look T (n + 51) = Some x51 \<and>
    look T (n + 52) = Some x52 \<and>
    look T (n + 53) = Some x53 \<and>
    look T (n + 54) = Some x54 \<and>
    look T (n + 55) = Some x55 \<and>
    look T (n + 56) = Some x56 \<and>
    look T (n + 57) = Some x57 \<and>
    look T (n + 58) = Some x58 \<and>
    look T (n + 59) = Some x59 \<and>
    look T (n + 60) = Some x60 \<and>
    look T (n + 61) = Some x61 \<and>
    look T (n + 62) = Some x62 \<and>
    look T (n + 63) = Some x63 \<and>
    look T (n + 64) = Some x64 \<and>
    look T (n + 65) = Some x65 \<and>
    look T (n + 66) = Some x66 \<and>
    look T (n + 67) = Some x67 \<and>
    look T (n + 68) = Some x68 \<and>
    look T (n + 69) = Some x69 \<and>
    look T (n + 70) = Some x70 \<and>
    look T (n + 71) = Some x71 \<and>
    look T (n + 72) = Some x72 \<and>
    look T (n + 73) = Some x73 \<and>
    look T (n + 74) = Some x74 \<and>
    look T (n + 75) = Some x75 \<and>
    look T (n + 76) = Some x76 \<and>
    look T (n + 77) = Some x77 \<and>
    look T (n + 78) = Some x78 \<and>
    look T (n + 79) = Some x79 \<and>
    look T (n + 80) = Some x80 \<and>
    look T (n + 81) = Some x81 \<and>
    look T (n + 82) = Some x82 \<and>
    look T (n + 83) = Some x83 \<and>
    look T (n + 84) = Some x84 \<and>
    look T (n + 85) = Some x85 \<and>
    look T (n + 86) = Some x86 \<and>
    look T (n + 87) = Some x87 \<and>
    look T (n + 88) = Some x88 \<and>
    look T (n + 89) = Some x89 \<and>
    look T (n + 90) = Some x90 \<and>
    look T (n + 91) = Some x91 \<and>
    look T (n + 92) = Some x92 \<and>
    look T (n + 93) = Some x93 \<and>
    look T (n + 94) = Some x94 \<and>
    look T (n + 95) = Some x95 \<and>
    look T (n + 96) = Some x96 \<and>
    look T (n + 97) = Some x97 \<and>
    look T (n + 98) = Some x98 \<and>
    look T (n + 99) = Some x99"
  by (intro conjI; subst look_from_index [OF assms]; simp)

lemma next_100:
  assumes "from_index n T ([x0, x1, x2, x3, x4, x5, x6, x7, x8, x9, 
    x10, x11, x12, x13, x14, x15, x16, x17, x18, x19, 
    x20, x21, x22, x23, x24, x25, x26, x27, x28, x29, 
    x30, x31, x32, x33, x34, x35, x36, x37, x38, x39, 
    x40, x41, x42, x43, x44, x45, x46, x47, x48, x49, 
    x50, x51, x52, x53, x54, x55, x56, x57, x58, x59, 
    x60, x61, x62, x63, x64, x65, x66, x67, x68, x69, 
    x70, x71, x72, x73, x74, x75, x76, x77, x78, x79, 
    x80, x81, x82, x83, x84, x85, x86, x87, x88, x89, 
    x90, x91, x92, x93, x94, x95, x96, x97, x98, x99] @ r)"
  shows "from_index (n + 100) T r"
  using from_index_next [OF assms] by simp

lemmas index_sums = add_0 add_0_right numeral_plus_numeral numeral_plus_one one_plus_numeral add_num_simps

text \<open>The weak congruence for sequencing: the continuation is evaluated when its argument is known.\<close>

lemma bind_weak_cong: "x = y \<Longrightarrow> Option.bind x f = Option.bind y f"
  by simp

end
