(* ===== verification/Values.thy ===== *)
theory Values
  imports Statements
begin

text \<open>
  The semantic values and locations of the generated parser (\<open>parser/bison_parser.h\<close>,
  \<open>parser_typedef.h\<close>). The union \<open>HSQL_STYPE\<close> is a datatype with one constructor per member
  that an action stores; all pointers to statements share one, since a statement knows its
  class. Reading a member other than the one stored is the fault \<open>Uninitialised\<close>.
\<close>

datatype YYSTYPE =
    U_undef
  | U_bval bool
  | U_sval "string option"
  | U_fval u64
  | U_ival int
  | U_stmt stmt
  | U_alias "Alias option"
  | U_drop_action DropColumnAction
  | U_column ColumnDefinition
  | U_column_specification ColumnSpecification
  | U_column_type ColumnType
  | U_column_constraint ConstraintType
  | U_datetime_field DatetimeField
  | U_expr "Expr option"
  | U_group "Expr GroupByDescription option"
  | U_import_type ImportType
  | U_join_type JoinType
  | U_limit "Expr LimitDescription option"
  | U_order "Expr OrderDescription"
  | U_order_type OrderType
  | U_set_operator "(SelectStatement, Expr) SetOperation"
  | U_table_constraint TableConstraint
  | U_table_element TableElement
  | U_table_name TableName
  | U_table "TableRef option"
  | U_update UpdateClause
  | U_with_description "SelectStatement WithDescription"
  | U_str_vec "string list option"
  | U_column_constraint_vec "ConstraintType list"
  | U_expr_vec "Expr list option"
  | U_order_vec "Expr OrderDescription list option"
  | U_stmt_vec "stmt list"
  | U_table_element_vec "TableElement list"
  | U_table_vec "TableRef list"
  | U_update_vec "UpdateClause list"
  | U_with_description_vec "SelectStatement WithDescription list option"

text \<open>
  A location: the span of a symbol, and, in the variables of the parser, the running position
  in the text and the parameters read so far.
\<close>

record YYLTYPE =
  first_line :: int
  first_column :: int
  last_line :: int
  last_column :: int
  total_column :: int
  string_length :: int
  param_list :: "Expr list"

text \<open>The static \<open>yyloc_default\<close>: all zero, with an empty vector.\<close>

definition yyloc_default :: YYLTYPE where
  "yyloc_default = \<lparr>first_line = 0, first_column = 0, last_line = 0, last_column = 0,
     total_column = 0, string_length = 0, param_list = []\<rparr>"

section \<open>Reading a member of the union\<close>

definition of_bval :: "YYSTYPE \<Rightarrow> bool res" where
  "of_bval v = (case v of U_bval x \<Rightarrow> Inr x | _ \<Rightarrow> Inl Uninitialised)"

definition of_sval :: "YYSTYPE \<Rightarrow> (string option) res" where
  "of_sval v = (case v of U_sval x \<Rightarrow> Inr x | _ \<Rightarrow> Inl Uninitialised)"

definition of_fval :: "YYSTYPE \<Rightarrow> u64 res" where
  "of_fval v = (case v of U_fval x \<Rightarrow> Inr x | _ \<Rightarrow> Inl Uninitialised)"

definition of_ival :: "YYSTYPE \<Rightarrow> int res" where
  "of_ival v = (case v of U_ival x \<Rightarrow> Inr x | _ \<Rightarrow> Inl Uninitialised)"

definition of_statement :: "YYSTYPE \<Rightarrow> stmt res" where
  "of_statement v = (case v of U_stmt x \<Rightarrow> Inr x | _ \<Rightarrow> Inl Uninitialised)"

definition of_alias_t :: "YYSTYPE \<Rightarrow> (Alias option) res" where
  "of_alias_t v = (case v of U_alias x \<Rightarrow> Inr x | _ \<Rightarrow> Inl Uninitialised)"

definition of_drop_action_t :: "YYSTYPE \<Rightarrow> DropColumnAction res" where
  "of_drop_action_t v = (case v of U_drop_action x \<Rightarrow> Inr x | _ \<Rightarrow> Inl Uninitialised)"

definition of_column_t :: "YYSTYPE \<Rightarrow> ColumnDefinition res" where
  "of_column_t v = (case v of U_column x \<Rightarrow> Inr x | _ \<Rightarrow> Inl Uninitialised)"

definition of_column_specification_t :: "YYSTYPE \<Rightarrow> ColumnSpecification res" where
  "of_column_specification_t v = (case v of U_column_specification x \<Rightarrow> Inr x | _ \<Rightarrow> Inl Uninitialised)"

definition of_column_type_t :: "YYSTYPE \<Rightarrow> ColumnType res" where
  "of_column_type_t v = (case v of U_column_type x \<Rightarrow> Inr x | _ \<Rightarrow> Inl Uninitialised)"

definition of_column_constraint_t :: "YYSTYPE \<Rightarrow> ConstraintType res" where
  "of_column_constraint_t v = (case v of U_column_constraint x \<Rightarrow> Inr x | _ \<Rightarrow> Inl Uninitialised)"

definition of_datetime_field :: "YYSTYPE \<Rightarrow> DatetimeField res" where
  "of_datetime_field v = (case v of U_datetime_field x \<Rightarrow> Inr x | _ \<Rightarrow> Inl Uninitialised)"

definition of_expr :: "YYSTYPE \<Rightarrow> (Expr option) res" where
  "of_expr v = (case v of U_expr x \<Rightarrow> Inr x | _ \<Rightarrow> Inl Uninitialised)"

definition of_group_t :: "YYSTYPE \<Rightarrow> (Expr GroupByDescription option) res" where
  "of_group_t v = (case v of U_group x \<Rightarrow> Inr x | _ \<Rightarrow> Inl Uninitialised)"

definition of_import_type_t :: "YYSTYPE \<Rightarrow> ImportType res" where
  "of_import_type_t v = (case v of U_import_type x \<Rightarrow> Inr x | _ \<Rightarrow> Inl Uninitialised)"

definition of_join_type :: "YYSTYPE \<Rightarrow> JoinType res" where
  "of_join_type v = (case v of U_join_type x \<Rightarrow> Inr x | _ \<Rightarrow> Inl Uninitialised)"

definition of_limit :: "YYSTYPE \<Rightarrow> (Expr LimitDescription option) res" where
  "of_limit v = (case v of U_limit x \<Rightarrow> Inr x | _ \<Rightarrow> Inl Uninitialised)"

definition of_order :: "YYSTYPE \<Rightarrow> (Expr OrderDescription) res" where
  "of_order v = (case v of U_order x \<Rightarrow> Inr x | _ \<Rightarrow> Inl Uninitialised)"

definition of_order_type :: "YYSTYPE \<Rightarrow> OrderType res" where
  "of_order_type v = (case v of U_order_type x \<Rightarrow> Inr x | _ \<Rightarrow> Inl Uninitialised)"

definition of_set_operator_t :: "YYSTYPE \<Rightarrow> ((SelectStatement, Expr) SetOperation) res" where
  "of_set_operator_t v = (case v of U_set_operator x \<Rightarrow> Inr x | _ \<Rightarrow> Inl Uninitialised)"

definition of_table_constraint_t :: "YYSTYPE \<Rightarrow> TableConstraint res" where
  "of_table_constraint_t v = (case v of U_table_constraint x \<Rightarrow> Inr x | _ \<Rightarrow> Inl Uninitialised)"

definition of_table_element_t :: "YYSTYPE \<Rightarrow> TableElement res" where
  "of_table_element_t v = (case v of U_table_element x \<Rightarrow> Inr x | _ \<Rightarrow> Inl Uninitialised)"

definition of_table_name :: "YYSTYPE \<Rightarrow> TableName res" where
  "of_table_name v = (case v of U_table_name x \<Rightarrow> Inr x | _ \<Rightarrow> Inl Uninitialised)"

definition of_table :: "YYSTYPE \<Rightarrow> (TableRef option) res" where
  "of_table v = (case v of U_table x \<Rightarrow> Inr x | _ \<Rightarrow> Inl Uninitialised)"

definition of_update_t :: "YYSTYPE \<Rightarrow> UpdateClause res" where
  "of_update_t v = (case v of U_update x \<Rightarrow> Inr x | _ \<Rightarrow> Inl Uninitialised)"

definition of_with_description_t :: "YYSTYPE \<Rightarrow> (SelectStatement WithDescription) res" where
  "of_with_description_t v = (case v of U_with_description x \<Rightarrow> Inr x | _ \<Rightarrow> Inl Uninitialised)"

definition of_str_vec :: "YYSTYPE \<Rightarrow> (string list option) res" where
  "of_str_vec v = (case v of U_str_vec x \<Rightarrow> Inr x | _ \<Rightarrow> Inl Uninitialised)"

definition of_column_constraint_vec :: "YYSTYPE \<Rightarrow> (ConstraintType list) res" where
  "of_column_constraint_vec v = (case v of U_column_constraint_vec x \<Rightarrow> Inr x | _ \<Rightarrow> Inl Uninitialised)"

definition of_expr_vec :: "YYSTYPE \<Rightarrow> (Expr list option) res" where
  "of_expr_vec v = (case v of U_expr_vec x \<Rightarrow> Inr x | _ \<Rightarrow> Inl Uninitialised)"

definition of_order_vec :: "YYSTYPE \<Rightarrow> (Expr OrderDescription list option) res" where
  "of_order_vec v = (case v of U_order_vec x \<Rightarrow> Inr x | _ \<Rightarrow> Inl Uninitialised)"

definition of_stmt_vec :: "YYSTYPE \<Rightarrow> (stmt list) res" where
  "of_stmt_vec v = (case v of U_stmt_vec x \<Rightarrow> Inr x | _ \<Rightarrow> Inl Uninitialised)"

definition of_table_element_vec :: "YYSTYPE \<Rightarrow> (TableElement list) res" where
  "of_table_element_vec v = (case v of U_table_element_vec x \<Rightarrow> Inr x | _ \<Rightarrow> Inl Uninitialised)"

definition of_table_vec :: "YYSTYPE \<Rightarrow> (TableRef list) res" where
  "of_table_vec v = (case v of U_table_vec x \<Rightarrow> Inr x | _ \<Rightarrow> Inl Uninitialised)"

definition of_update_vec :: "YYSTYPE \<Rightarrow> (UpdateClause list) res" where
  "of_update_vec v = (case v of U_update_vec x \<Rightarrow> Inr x | _ \<Rightarrow> Inl Uninitialised)"

definition of_with_description_vec :: "YYSTYPE \<Rightarrow> (SelectStatement WithDescription list option) res" where
  "of_with_description_vec v = (case v of U_with_description_vec x \<Rightarrow> Inr x | _ \<Rightarrow> Inl Uninitialised)"

definition of_select_stmt :: "YYSTYPE \<Rightarrow> SelectStatement res" where
  "of_select_stmt v = (case v of U_stmt (SSelect x) \<Rightarrow> Inr x | _ \<Rightarrow> Inl Uninitialised)"

lemma of_simps [simp]:
  "of_bval (U_bval x0) = Inr x0"
  "of_sval (U_sval x1) = Inr x1"
  "of_fval (U_fval x2) = Inr x2"
  "of_ival (U_ival x3) = Inr x3"
  "of_statement (U_stmt x4) = Inr x4"
  "of_alias_t (U_alias x5) = Inr x5"
  "of_drop_action_t (U_drop_action x6) = Inr x6"
  "of_column_t (U_column x7) = Inr x7"
  "of_column_specification_t (U_column_specification x8) = Inr x8"
  "of_column_type_t (U_column_type x9) = Inr x9"
  "of_column_constraint_t (U_column_constraint x10) = Inr x10"
  "of_datetime_field (U_datetime_field x11) = Inr x11"
  "of_expr (U_expr x12) = Inr x12"
  "of_group_t (U_group x13) = Inr x13"
  "of_import_type_t (U_import_type x14) = Inr x14"
  "of_join_type (U_join_type x15) = Inr x15"
  "of_limit (U_limit x16) = Inr x16"
  "of_order (U_order x17) = Inr x17"
  "of_order_type (U_order_type x18) = Inr x18"
  "of_set_operator_t (U_set_operator x19) = Inr x19"
  "of_table_constraint_t (U_table_constraint x20) = Inr x20"
  "of_table_element_t (U_table_element x21) = Inr x21"
  "of_table_name (U_table_name x22) = Inr x22"
  "of_table (U_table x23) = Inr x23"
  "of_update_t (U_update x24) = Inr x24"
  "of_with_description_t (U_with_description x25) = Inr x25"
  "of_str_vec (U_str_vec x26) = Inr x26"
  "of_column_constraint_vec (U_column_constraint_vec x27) = Inr x27"
  "of_expr_vec (U_expr_vec x28) = Inr x28"
  "of_order_vec (U_order_vec x29) = Inr x29"
  "of_stmt_vec (U_stmt_vec x30) = Inr x30"
  "of_table_element_vec (U_table_element_vec x31) = Inr x31"
  "of_table_vec (U_table_vec x32) = Inr x32"
  "of_update_vec (U_update_vec x33) = Inr x33"
  "of_with_description_vec (U_with_description_vec x34) = Inr x34"
  "of_select_stmt (U_stmt (SSelect x)) = Inr x"
  by (simp_all add: of_bval_def of_sval_def of_fval_def of_ival_def of_statement_def
    of_alias_t_def of_drop_action_t_def of_column_t_def of_column_specification_t_def of_column_type_t_def
    of_column_constraint_t_def of_datetime_field_def of_expr_def of_group_t_def of_import_type_t_def
    of_join_type_def of_limit_def of_order_def of_order_type_def of_set_operator_t_def
    of_table_constraint_t_def of_table_element_t_def of_table_name_def of_table_def of_update_t_def
    of_with_description_t_def of_str_vec_def of_column_constraint_vec_def of_expr_vec_def of_order_vec_def
    of_stmt_vec_def of_table_element_vec_def of_table_vec_def of_update_vec_def of_with_description_vec_def of_select_stmt_def)

end
