(* ===== verification/Scanner.thy ===== *)
theory Scanner
  imports ScanTables Values
begin

text \<open>
  The scanner that flex generated (\<open>parser/flex_lexer.cpp\<close>, from \<open>flex_lexer.l\<close>): the automaton
  over the tables of \<open>ScanTables\<close>, the treatment of the end of the buffer, the actions of the
  rules, and the update of the location before each action. The text is a C string, so it holds
  no zero byte and the two zero bytes behind it are the marks of its end; a read outside a
  table, and a loop that never ends, is \<open>None\<close>.
\<close>

section \<open>The automaton\<close>

text \<open>
  One transition from state \<open>s\<close> on class \<open>c\<close>: while the entry belongs to another state, fall
  back to the default state, a template above 1169 reading the class through \<open>yy_meta\<close>.
\<close>

partial_function (option) yy_next :: "int \<Rightarrow> int \<Rightarrow> int option" where
  "yy_next s c = do {
     b \<leftarrow> look yy_base s;
     k \<leftarrow> look yy_chk (b + c);
     if k \<noteq> s then do {
       d \<leftarrow> look yy_def s;
       if d \<ge> 1170 then do {
         m \<leftarrow> look yy_meta c;
         yy_next d m
       } else yy_next d c
     } else look yy_nxt (b + c)
   }"

text \<open>
  \<open>yy_match\<close>: run until the jam state 1169; \<open>seen\<close> is the last accepting state and where it
  was met. The bytes are those of the buffer and the two marks behind it.
\<close>

fun yy_match :: "int \<Rightarrow> int list \<Rightarrow> nat \<Rightarrow> (int \<times> nat) option \<Rightarrow> (int \<times> nat) option" where
  "yy_match s [] n seen = None"
| "yy_match s (b # bs) n seen = do {
     c \<leftarrow> look yy_ec b;
     a \<leftarrow> look yy_accept s;
     t \<leftarrow> yy_next s c;
     if t \<noteq> 1169 then yy_match t bs (n + 1) (if a \<noteq> 0 then Some (s, n) else seen)
     else (if a \<noteq> 0 then Some (s, n) else seen)
   }"

text \<open>\<open>yy_get_previous_state\<close>: the state after the given bytes.\<close>

fun yy_get_previous_state :: "int \<Rightarrow> int list \<Rightarrow> nat \<Rightarrow> int \<times> nat \<Rightarrow> (int \<times> (int \<times> nat)) option" where
  "yy_get_previous_state s [] n seen = Some (s, seen)"
| "yy_get_previous_state s (b # bs) n seen = do {
     c \<leftarrow> (if b \<noteq> 0 then look yy_ec b else Some 1);
     a \<leftarrow> look yy_accept s;
     t \<leftarrow> yy_next s c;
     yy_get_previous_state t bs (n + 1) (if a \<noteq> 0 then (s, n) else seen)
   }"

text \<open>\<open>yy_find_action\<close>: rule 0 means to back up to the last accepting state.\<close>

definition yy_find_action :: "int \<Rightarrow> nat \<Rightarrow> int \<times> nat \<Rightarrow> (int \<times> nat) option" where
  "yy_find_action s n seen = do {
     act \<leftarrow> look yy_accept s;
     if act \<noteq> 0 then Some (act, n)
     else do {
       act' \<leftarrow> look yy_accept (fst seen);
       if act' \<noteq> 0 then Some (act', snd seen) else None
     }
   }"

definition buffer_bytes :: "string \<Rightarrow> int list" where
  "buffer_bytes buf = map of_char buf"

definition YY_END_OF_BUFFER :: int where
  "YY_END_OF_BUFFER = 171"

text \<open>\<open>YY_START\<close> and \<open>YY_STATE_EOF\<close> of the start state that \<open>yy_start\<close> holds.\<close>

definition YY_START :: "int \<Rightarrow> int" where
  "YY_START start = (start - 1) div 2"

definition YY_STATE_EOF :: "int \<Rightarrow> int" where
  "YY_STATE_EOF sc = YY_END_OF_BUFFER + sc + 1"

text \<open>
  The rule for the text at the front of the buffer and the length of its match. At the mark of
  the end (the rule \<open>YY_END_OF_BUFFER\<close>, whose match includes the mark) there is either nothing
  before it, and the rule is that of the end of the file, or the text before it is matched
  once more without the mark.
\<close>

definition yy_rule :: "int \<Rightarrow> string \<Rightarrow> (int \<times> nat) option" where
  "yy_rule start buf = do {
     seen \<leftarrow> yy_match start (buffer_bytes buf @ [0, 0]) 0 None;
     (act, n) \<leftarrow> yy_find_action (fst seen) (snd seen) seen;
     if act \<noteq> YY_END_OF_BUFFER then Some (act, n)
     else if n \<le> length buf then None
     else if n = 1 then Some (YY_STATE_EOF (YY_START start), 0)
     else do {
       (s, seen') \<leftarrow> yy_get_previous_state start (buffer_bytes buf) 0 seen;
       yy_find_action s (length buf) seen'
     }
   }"

section \<open>The actions\<close>

record lexer =
  lx_buf :: string
  lx_start :: int
  lx_strbuf :: string

text \<open>\<open>hsql_lex_init\<close> and \<open>yy_scan_string\<close>; the string stream is cleared before it is used.\<close>

definition yy_scan_string :: "string \<Rightarrow> lexer" where
  "yy_scan_string s = \<lparr>lx_buf = c_str s, lx_start = 1, lx_strbuf = []\<rparr>"

definition INITIAL :: int where
  "INITIAL = 0"
definition singlequotedstring :: int where
  "singlequotedstring = 1"
definition COMMENT :: int where
  "COMMENT = 2"

definition BEGIN :: "int \<Rightarrow> lexer \<Rightarrow> lexer" where
  "BEGIN sc lx = lx\<lparr>lx_start := 1 + 2 * sc\<rparr>"

text \<open>\<open>YY_USER_ACTION\<close>: the location moves over the matched text.\<close>

definition user_action_step :: "char \<Rightarrow> YYLTYPE \<Rightarrow> YYLTYPE" where
  "user_action_step ch l =
     (let l = l\<lparr>total_column := total_column l + 1, string_length := string_length l + 1\<rparr> in
      if ch = CHR 0x0A then l\<lparr>last_line := last_line l + 1, last_column := 0\<rparr>
      else l\<lparr>last_column := last_column l + 1\<rparr>)"

definition YY_USER_ACTION :: "string \<Rightarrow> YYLTYPE \<Rightarrow> YYLTYPE" where
  "YY_USER_ACTION yytext l =
     fold user_action_step yytext (l\<lparr>first_line := last_line l, first_column := last_column l\<rparr>)"

text \<open>
  \<open>strtoll\<close> of a string of digits with base 0: a leading zero means octal, and reading stops at
  the first digit that is none. The flag is \<open>errno = ERANGE\<close>.
\<close>

definition digit_of :: "char \<Rightarrow> int" where
  "digit_of ch = of_char ch - 48"

definition digits_int :: "int \<Rightarrow> string \<Rightarrow> int" where
  "digits_int base s = foldl (\<lambda>n ch. n * base + digit_of ch) 0 s"

definition strtoll0 :: "string \<Rightarrow> int \<times> bool" where
  "strtoll0 s =
     (let n = (case s of
                 ch # _ \<Rightarrow> if ch = CHR ''0'' then digits_int 8 (takeWhile (\<lambda>d. digit_of d < 8) s)
                          else digits_int 10 s
               | [] \<Rightarrow> 0)
      in if n > 2 ^ 63 - 1 then (2 ^ 63 - 1, True) else (n, False))"

text \<open>
  The rules that only return their token, 5 to 151: the name that \<open>flex_lexer.l\<close> matches without
  regard to case, and the code of the token of that name (\<open>hsql_tokentype\<close>).
\<close>

definition keyword_rules_0 :: "(string \<times> int) list" where
  "keyword_rules_0 =
    [(''DEALLOCATE'', 262), (''PARAMETERS'', 263), (''INTERSECT'', 264), (''TEMPORARY'', 265),
     (''TIMESTAMP'', 266), (''DESCRIBE'', 291), (''DISTINCT'', 267), (''NVARCHAR'', 268),
     (''RESTRICT'', 269), (''TRUNCATE'', 270), (''ANALYZE'', 271), (''BETWEEN'', 272),
     (''CASCADE'', 273), (''COLUMNS'', 274), (''CONTROL'', 275), (''DEFAULT'', 276),
     (''EXECUTE'', 277), (''EXPLAIN'', 278), (''INTEGER'', 279), (''NATURAL'', 280),
     (''PREPARE'', 281), (''PRIMARY'', 282), (''SCHEMAS'', 283), (''SPATIAL'', 288),
     (''VARCHAR'', 289), (''CHARACTER'', 284), (''VARYING'', 285), (''TIME'', 363),
     (''DECIMAL'', 287), (''REAL'', 286)]"

definition keyword_rules_1 :: "(string \<times> int) list" where
  "keyword_rules_1 =
    [(''VIRTUAL'', 290), (''BEFORE'', 292), (''COLUMN'', 293), (''CREATE'', 294),
     (''DELETE'', 295), (''DIRECT'', 296), (''DOUBLE'', 297), (''ESCAPE'', 298),
     (''EXCEPT'', 299), (''EXISTS'', 300), (''EXTRACT'', 301), (''CAST'', 302),
     (''FORMAT'', 303), (''GLOBAL'', 304), (''HAVING'', 305), (''IMPORT'', 306),
     (''INSERT'', 307), (''ISNULL'', 308), (''OFFSET'', 309), (''RENAME'', 310),
     (''SCHEMA'', 311), (''SELECT'', 312), (''SORTED'', 313), (''TABLES'', 314),
     (''UNIQUE'', 315), (''UNLOAD'', 316), (''UPDATE'', 317), (''VALUES'', 318),
     (''AFTER'', 319), (''ALTER'', 320)]"

definition keyword_rules_2 :: "(string \<times> int) list" where
  "keyword_rules_2 =
    [(''ARRAY'', 388), (''CROSS'', 321), (''DELTA'', 322), (''FLOAT'', 323), (''GROUP'', 324),
     (''INDEX'', 325), (''INNER'', 326), (''LIMIT'', 327), (''LOCAL'', 328), (''MERGE'', 329),
     (''MINUS'', 330), (''ORDER'', 331), (''OUTER'', 332), (''RIGHT'', 333), (''TABLE'', 334),
     (''UNION'', 335), (''USING'', 336), (''WHERE'', 337), (''CALL'', 338), (''CASE'', 339),
     (''CHAR'', 340), (''COPY'', 341), (''DATE'', 342), (''DATETIME'', 343), (''DESC'', 344),
     (''DROP'', 345), (''ELSE'', 346), (''FILE'', 347), (''FROM'', 348), (''FULL'', 349)]"

definition keyword_rules_3 :: "(string \<times> int) list" where
  "keyword_rules_3 =
    [(''HASH'', 350), (''HINT'', 351), (''INTO'', 352), (''JOIN'', 353), (''LEFT'', 354),
     (''LIKE'', 355), (''ILIKE'', 390), (''LOAD'', 356), (''LONG'', 357), (''NULL'', 358),
     (''PLAN'', 359), (''SHOW'', 360), (''TEXT'', 361), (''THEN'', 362), (''VIEW'', 364),
     (''WHEN'', 365), (''WITH'', 366), (''ADD'', 367), (''ALL'', 368), (''AND'', 369),
     (''ASC'', 370), (''END'', 371), (''FOR'', 372), (''INT'', 373), (''KEY'', 374),
     (''NOT'', 375), (''OFF'', 376), (''SET'', 377), (''TOP'', 378), (''AS'', 379)]"

definition keyword_rules_4 :: "(string \<times> int) list" where
  "keyword_rules_4 =
    [(''BY'', 380), (''IF'', 381), (''IN'', 382), (''IS'', 383), (''OF'', 384), (''ON'', 385),
     (''OR'', 386), (''TO'', 387), (''SECOND'', 391), (''MINUTE'', 392), (''HOUR'', 393),
     (''DAY'', 394), (''MONTH'', 395), (''YEAR'', 396), (''SECONDS'', 397), (''MINUTES'', 398),
     (''HOURS'', 399), (''DAYS'', 400), (''MONTHS'', 401), (''YEARS'', 402), (''TRUE'', 404),
     (''FALSE'', 405), (''TRANSACTION'', 406), (''BEGIN'', 407), (''ROLLBACK'', 409),
     (''COMMIT'', 408), (''INTERVAL'', 403)]"

definition keyword_rules :: "(string \<times> int) list" where
  "keyword_rules = keyword_rules_0 @ keyword_rules_1 @ keyword_rules_2 @ keyword_rules_3 @ keyword_rules_4"

lemmas keyword_rules_defs = keyword_rules_def keyword_rules_0_def keyword_rules_1_def
  keyword_rules_2_def keyword_rules_3_def keyword_rules_4_def

definition SQL_IDENTIFIER :: int where "SQL_IDENTIFIER = 258"
definition SQL_STRING :: int where "SQL_STRING = 259"
definition SQL_FLOATVAL :: int where "SQL_FLOATVAL = 260"
definition SQL_INTVAL :: int where "SQL_INTVAL = 261"

lemmas token_defs = SQL_IDENTIFIER_def SQL_STRING_def SQL_FLOATVAL_def SQL_INTVAL_def

text \<open>
  The action of a rule: the token it returns, if it does, and the state behind it. The number
  of characters that \<open>fprintf\<close> reports for the message about an integer out of range is the
  token that rule 162 returns then. \<open>atof\<close> of the standard library is a parameter.
\<close>

definition yy_action :: "(string \<Rightarrow> u64) \<Rightarrow> int \<Rightarrow> string \<Rightarrow> lexer \<times> YYSTYPE \<Rightarrow>
    (int option \<times> lexer \<times> YYSTYPE) option" where
  "yy_action atof act yytext st =
     (let (lx, yylval) = st in
      if act = 1 then Some (None, BEGIN COMMENT lx, yylval)
      else if act = 2 then Some (None, st)
      else if act = 3 then Some (None, BEGIN INITIAL lx, yylval)
      else if act = 4 then Some (None, st)
      else if act \<le> 151 then Some (Some (snd (keyword_rules ! nat (act - 5))), st)
      else if act = 152 then Some (Some 410, st)
      else if act = 153 \<or> act = 154 then Some (Some 411, st)
      else if act = 155 then Some (Some 414, st)
      else if act = 156 then Some (Some 415, st)
      else if act = 157 then Some (Some 389, st)
      else if act = 158 then Some (Some (of_char (hd yytext)), st)
      else if act = 159 \<or> act = 160 then Some (Some SQL_FLOATVAL, lx, U_fval (atof yytext))
      else if act = 161 then Some (Some SQL_INTVAL, lx, U_ival (- (2 ^ 63)))
      else if act = 162 then
        (let (n, errno) = strtoll0 yytext in
         if errno
         then Some (Some (int (length ''[SQL-Lexer-Error] Integer cannot be parsed - is it out of range?'')),
                lx, U_ival n)
         else Some (Some SQL_INTVAL, lx, U_ival n))
      else if act = 163 then
        (case lexer_substr yytext 1 (int (length yytext) - 1) of
           Inl _ \<Rightarrow> None
         | Inr s \<Rightarrow> Some (Some SQL_IDENTIFIER, lx, U_sval (Some s)))
      else if act = 164 then Some (Some SQL_IDENTIFIER, lx, U_sval (Some yytext))
      else if act = 165 then Some (None, (BEGIN singlequotedstring lx)\<lparr>lx_strbuf := []\<rparr>, yylval)
      else if act = 166 then Some (None, lx\<lparr>lx_strbuf := lx_strbuf lx @ [CHR 0x27]\<rparr>, yylval)
      else if act = 167 then Some (None, lx\<lparr>lx_strbuf := lx_strbuf lx @ yytext\<rparr>, yylval)
      else if act = 168 then Some (Some SQL_STRING, BEGIN INITIAL lx, U_sval (Some (c_str (lx_strbuf lx))))
      else if act = 169 then Some (Some 0, st)
      else if act = 170 then Some (None, st)
      else if act = YY_STATE_EOF INITIAL \<or> act = YY_STATE_EOF COMMENT then Some (Some 0, st)
      else if act = YY_STATE_EOF singlequotedstring then Some (Some 0, st)
      else None)"

text \<open>
  One call of the scanner: match, act, and go on until an action returns a token. A rule of the
  grammar, not the end of the file, moves the location first.
\<close>

definition yy_turn :: "(string \<Rightarrow> u64) \<Rightarrow> lexer \<Rightarrow> YYSTYPE \<Rightarrow> YYLTYPE \<Rightarrow>
    (int option \<times> lexer \<times> YYSTYPE \<times> YYLTYPE) option" where
  "yy_turn atof lx yylval yylloc = do {
     (act, n) \<leftarrow> yy_rule (lx_start lx) (lx_buf lx);
     let yytext = take n (lx_buf lx);
     let yylloc = (if act < YY_END_OF_BUFFER then YY_USER_ACTION yytext yylloc else yylloc);
     (token, lx, yylval) \<leftarrow> yy_action atof act yytext (lx\<lparr>lx_buf := drop n (lx_buf lx)\<rparr>, yylval);
     Some (token, lx, yylval, yylloc)
   }"

partial_function (option) yylex :: "(string \<Rightarrow> u64) \<Rightarrow> lexer \<Rightarrow> YYSTYPE \<Rightarrow> YYLTYPE \<Rightarrow>
    (int \<times> lexer \<times> YYSTYPE \<times> YYLTYPE) option" where
  "yylex atof lx yylval yylloc =
     (case yy_turn atof lx yylval yylloc of
        None \<Rightarrow> None
      | Some (token, lx, yylval, yylloc) \<Rightarrow>
          (case token of
             Some t \<Rightarrow> Some (t, lx, yylval, yylloc)
           | None \<Rightarrow> yylex atof lx yylval yylloc))"

end
