(* ===== verification/Params.thy ===== *)
theory Params
  imports Values
begin

text \<open>
  The parameters \<open>?\<close> of a statement. The parser keeps pointers to their nodes and, when the
  input is complete, writes their numbers into the nodes (\<open>parser/bison_parser.y\<close>, rule
  \<open>input\<close>). A node of a parameter knows its place in the parser's list (\<open>ival2\<close>), so writing
  through the pointers is a pass over the trees, and what a pointer shows is found in them.
\<close>

section \<open>Writing the numbers\<close>

primrec num_expr :: "Expr \<Rightarrow> Expr" and num_select :: "SelectStatement \<Rightarrow> SelectStatement"
  and num_table :: "TableRef \<Rightarrow> TableRef" where
  "num_expr (mkExpr t e1 e2 es s n tb al fv iv iv2 dt ct b op d) =
     mkExpr t (map_option num_expr e1) (map_option num_expr e2) (map_option (map num_expr) es)
       (map_option num_select s) n tb al fv (if t = kExprParameter then iv2 else iv) iv2 dt ct b op d"
| "num_select (mkSelect h f d l w g so od wi li) =
     mkSelect (map_option (map num_expr) h) (map_option num_table f) d (map_option (map num_expr) l)
       (map_option num_expr w) (map_option (map_GroupByDescription num_expr) g)
       (map_option (map (map_SetOperation num_select num_expr)) so)
       (map_option (map (map_OrderDescription num_expr)) od)
       (map_option (map (map_WithDescription num_select)) wi)
       (map_option (map_LimitDescription num_expr) li)"
| "num_table (mkTableRef t sc n al s l j) =
     mkTableRef t sc n al (map_option num_select s) (map_option (map num_table) l)
       (map_option (map_JoinDefinition num_table num_expr) j)"

definition num_clause :: "UpdateClause \<Rightarrow> UpdateClause" where
  "num_clause u = u\<lparr>uc_value := map_option num_expr (uc_value u)\<rparr>"

definition num_hints :: "'a SQLStatement_scheme \<Rightarrow> 'a SQLStatement_scheme" where
  "num_hints s = s\<lparr>st_hints := map_option (map num_expr) (st_hints s)\<rparr>"

fun num_stmt :: "stmt \<Rightarrow> stmt" where
  "num_stmt (SSelect s) = SSelect (num_select s)"
| "num_stmt (SImport s) = SImport (num_hints s)"
| "num_stmt (SInsert s) = SInsert ((num_hints s)\<lparr>
     ins_values := map_option (map num_expr) (ins_values s),
     ins_select := map_option num_select (ins_select s)\<rparr>)"
| "num_stmt (SUpdate s) = SUpdate ((num_hints s)\<lparr>
     upd_table := map_option num_table (upd_table s),
     upd_updates := map_option (map num_clause) (upd_updates s),
     upd_where := map_option num_expr (upd_where s)\<rparr>)"
| "num_stmt (SDelete s) = SDelete ((num_hints s)\<lparr>del_expr := map_option num_expr (del_expr s)\<rparr>)"
| "num_stmt (SCreate s) = SCreate ((num_hints s)\<lparr>cs_select := map_option num_select (cs_select s)\<rparr>)"
| "num_stmt (SDrop s) = SDrop (num_hints s)"
| "num_stmt (SPrepare s) = SPrepare (num_hints s)"
| "num_stmt (SExecute s) = SExecute ((num_hints s)\<lparr>
     exe_parameters := map_option (map num_expr) (exe_parameters s)\<rparr>)"
| "num_stmt (SExport s) = SExport (num_hints s)"
| "num_stmt (SAlter s) = SAlter (num_hints s)"
| "num_stmt (SShow s) = SShow (num_hints s)"
| "num_stmt (STransaction s) = STransaction (num_hints s)"

section \<open>Finding the nodes\<close>

definition all_of :: "'a list option \<Rightarrow> 'a list" where
  "all_of p = (case p of None \<Rightarrow> [] | Some xs \<Rightarrow> xs)"

primrec params_expr :: "Expr \<Rightarrow> Expr list" and params_select :: "SelectStatement \<Rightarrow> Expr list"
  and params_table :: "TableRef \<Rightarrow> Expr list" where
  "params_expr (mkExpr t e1 e2 es s n tb al fv iv iv2 dt ct b op d) =
     (if t = kExprParameter then [mkExpr t e1 e2 es s n tb al fv iv iv2 dt ct b op d] else []) @
     all_of (map_option params_expr e1) @ all_of (map_option params_expr e2) @
     concat (all_of (map_option (map params_expr) es)) @ all_of (map_option params_select s)"
| "params_select (mkSelect h f d l w g so od wi li) =
     concat (all_of (map_option (map params_expr) h)) @ all_of (map_option params_table f) @
     concat (all_of (map_option (map params_expr) l)) @ all_of (map_option params_expr w) @
     (case map_option (map_GroupByDescription params_expr) g of None \<Rightarrow> []
      | Some g' \<Rightarrow> concat (all_of (gb_columns g')) @ all_of (gb_having g')) @
     concat (map (\<lambda>s. all_of (so_nested s) @ concat (map (all_of \<circ> od_expr) (all_of (so_resultOrder s))) @
         (case so_resultLimit s of None \<Rightarrow> [] | Some l' \<Rightarrow> all_of (ld_limit l') @ all_of (ld_offset l')))
       (all_of (map_option (map (map_SetOperation params_select params_expr)) so))) @
     concat (map (all_of \<circ> od_expr) (all_of (map_option (map (map_OrderDescription params_expr)) od))) @
     concat (map (all_of \<circ> wd_select) (all_of (map_option (map (map_WithDescription params_select)) wi))) @
     (case map_option (map_LimitDescription params_expr) li of None \<Rightarrow> []
      | Some l' \<Rightarrow> all_of (ld_limit l') @ all_of (ld_offset l'))"
| "params_table (mkTableRef t sc n al s l j) =
     all_of (map_option params_select s) @ concat (all_of (map_option (map params_table) l)) @
     (case map_option (map_JoinDefinition params_table params_expr) j of None \<Rightarrow> []
      | Some j' \<Rightarrow> all_of (jd_left j') @ all_of (jd_right j') @ all_of (jd_condition j'))"

definition params_exprs :: "Expr list option \<Rightarrow> Expr list" where
  "params_exprs es = concat (map params_expr (all_of es))"

definition params_opt :: "Expr option \<Rightarrow> Expr list" where
  "params_opt e = all_of (map_option params_expr e)"

fun params_stmt :: "stmt \<Rightarrow> Expr list" where
  "params_stmt (SSelect s) = params_select s"
| "params_stmt (SImport s) = params_exprs (st_hints s)"
| "params_stmt (SInsert s) =
     params_exprs (st_hints s) @ params_exprs (ins_values s) @ all_of (map_option params_select (ins_select s))"
| "params_stmt (SUpdate s) =
     params_exprs (st_hints s) @ all_of (map_option params_table (upd_table s)) @
     concat (map (params_opt \<circ> uc_value) (all_of (upd_updates s))) @ params_opt (upd_where s)"
| "params_stmt (SDelete s) = params_exprs (st_hints s) @ params_opt (del_expr s)"
| "params_stmt (SCreate s) = params_exprs (st_hints s) @ all_of (map_option params_select (cs_select s))"
| "params_stmt (SDrop s) = params_exprs (st_hints s)"
| "params_stmt (SPrepare s) = params_exprs (st_hints s)"
| "params_stmt (SExecute s) = params_exprs (st_hints s) @ params_exprs (exe_parameters s)"
| "params_stmt (SExport s) = params_exprs (st_hints s)"
| "params_stmt (SAlter s) = params_exprs (st_hints s)"
| "params_stmt (SShow s) = params_exprs (st_hints s)"
| "params_stmt (STransaction s) = params_exprs (st_hints s)"

text \<open>The node that the \<open>k\<close>-th pointer shows.\<close>

definition param_node :: "stmt list \<Rightarrow> Expr list \<Rightarrow> nat \<Rightarrow> Expr" where
  "param_node stmts ps k =
     (case List.find (\<lambda>e. e_ival2 e = int k) (concat (map params_stmt stmts)) of
        Some e \<Rightarrow> e
      | None \<Rightarrow> ps ! k)"

end
