(* ===== verification/Grammar.thy ===== *)
theory Grammar
  imports Params
begin

text \<open>
  The semantic actions of the grammar (\<open>parser/bison_parser.y\<close>, as they stand in the switch of
  \<open>yyparse\<close> in \<open>parser/bison_parser.cpp\<close>), by the number of the rule. \<open>v i\<close> is the value
  \<open>yyvsp[-i]\<close>; an action takes members out of these values and yields \<open>yyval\<close>. The actions
  that do more than that, because they report an error or touch the result or the locations,
  have definitions of their own, and a rule without an action keeps \<open>$$ = $1\<close>; the release of memory and \<open>stringLength\<close>, which nothing
  reads, are left out.
\<close>

type_synonym vals = "nat \<Rightarrow> YYSTYPE res"

definition get :: "vals \<Rightarrow> (YYSTYPE \<Rightarrow> 'a res) \<Rightarrow> nat \<Rightarrow> ('a \<Rightarrow> 'b res) \<Rightarrow> 'b res" where
  "get v member i f = bindR (v i) (\<lambda>x. bindR (member x) f)"

lemma get_simps [simp]:
  "v i = Inr x \<Longrightarrow> member x = Inr y \<Longrightarrow> get v member i f = f y"
  by (simp add: get_def)

text \<open>\<open>new std::vector\<close> with one element, and \<open>push_back\<close>, for the vectors of expressions.\<close>

definition first_expr :: "vals \<Rightarrow> YYSTYPE res" where
  "first_expr v = get v of_expr 0 (\<lambda>p. bindR (deref p) (\<lambda>e. Inr (U_expr_vec (Some ([] @ [e])))))"

definition next_expr :: "vals \<Rightarrow> YYSTYPE res" where
  "next_expr v = get v of_expr_vec 2 (\<lambda>q. bindR (deref q) (\<lambda>es.
     get v of_expr 0 (\<lambda>p. bindR (deref p) (\<lambda>e. Inr (U_expr_vec (Some (es @ [e])))))))"

section \<open>Statements, hints, transactions, prepared statements\<close>

fun set_hints :: "Expr list option \<Rightarrow> stmt \<Rightarrow> stmt" where
  "set_hints h (SSelect (mkSelect _ f d l w g so od wi li)) = SSelect (mkSelect h f d l w g so od wi li)"
| "set_hints h (SImport s) = SImport (s\<lparr>st_hints := h\<rparr>)"
| "set_hints h (SInsert s) = SInsert (s\<lparr>st_hints := h\<rparr>)"
| "set_hints h (SUpdate s) = SUpdate (s\<lparr>st_hints := h\<rparr>)"
| "set_hints h (SDelete s) = SDelete (s\<lparr>st_hints := h\<rparr>)"
| "set_hints h (SCreate s) = SCreate (s\<lparr>st_hints := h\<rparr>)"
| "set_hints h (SDrop s) = SDrop (s\<lparr>st_hints := h\<rparr>)"
| "set_hints h (SPrepare s) = SPrepare (s\<lparr>st_hints := h\<rparr>)"
| "set_hints h (SExecute s) = SExecute (s\<lparr>st_hints := h\<rparr>)"
| "set_hints h (SExport s) = SExport (s\<lparr>st_hints := h\<rparr>)"
| "set_hints h (SAlter s) = SAlter (s\<lparr>st_hints := h\<rparr>)"
| "set_hints h (SShow s) = SShow (s\<lparr>st_hints := h\<rparr>)"
| "set_hints h (STransaction s) = STransaction (s\<lparr>st_hints := h\<rparr>)"

definition act_statement :: "int \<Rightarrow> vals \<Rightarrow> YYSTYPE res" where
  "act_statement yyn v =
     (if yyn \<le> 6 then
        get v of_statement 1 (\<lambda>s. get v of_expr_vec 0 (\<lambda>h. Inr (U_stmt (set_hints h s))))
      else get v of_statement 0 (\<lambda>s. Inr (U_stmt s)))"

definition act_hints :: "int \<Rightarrow> vals \<Rightarrow> YYSTYPE res" where
  "act_hints yyn v =
     (if yyn = 20 then get v of_expr_vec 1 (\<lambda>h. Inr (U_expr_vec h))
      else if yyn = 21 then Inr (U_expr_vec None)
      else if yyn = 22 then first_expr v
      else if yyn = 23 then next_expr v
      else if yyn = 24 then get v of_sval 0 (\<lambda>s. Inr (U_expr (Some (set_name s (Ast.make kExprHint)))))
      else if yyn = 25 then get v of_sval 3 (\<lambda>s. get v of_expr_vec 1 (\<lambda>es.
        Inr (U_expr (Some (set_exprList es (set_name s (Ast.make kExprHint)))))))
      else if yyn = 26 then Inr (U_stmt (STransaction (TransactionStatement_new kBeginTransaction)))
      else if yyn = 27 then Inr (U_stmt (STransaction (TransactionStatement_new kRollbackTransaction)))
      else if yyn = 28 then Inr (U_stmt (STransaction (TransactionStatement_new kCommitTransaction)))
      else if yyn = 31 then get v of_sval 2 (\<lambda>n. get v of_sval 0 (\<lambda>q.
        Inr (U_stmt (SPrepare (PrepareStatement_new\<lparr>prep_name := n, prep_query := q\<rparr>)))))
      else if yyn = 33 then get v of_sval 0 (\<lambda>n.
        Inr (U_stmt (SExecute (ExecuteStatement_new\<lparr>exe_name := n\<rparr>))))
      else get v of_sval 3 (\<lambda>n. get v of_expr_vec 1 (\<lambda>ps.
        Inr (U_stmt (SExecute (ExecuteStatement_new\<lparr>exe_name := n, exe_parameters := ps\<rparr>))))))"

section \<open>Import, export, show\<close>

definition act_import :: "int \<Rightarrow> vals \<Rightarrow> YYSTYPE res" where
  "act_import yyn v =
     (if yyn = 35 then get v of_import_type_t 4 (\<lambda>t. get v of_sval 2 (\<lambda>p. get v of_table_name 0 (\<lambda>n.
        Inr (U_stmt (SImport ((ImportStatement_new t)\<lparr>imp_filePath := p,
          imp_schema := tn_schema n, imp_tableName := tn_name n\<rparr>))))))
      else if yyn = 36 then get v of_import_type_t 0 (\<lambda>t. get v of_sval 1 (\<lambda>p. get v of_table_name 3 (\<lambda>n.
        Inr (U_stmt (SImport ((ImportStatement_new t)\<lparr>imp_filePath := p,
          imp_schema := tn_schema n, imp_tableName := tn_name n\<rparr>))))))
      else if yyn = 38 then get v of_expr 0 (\<lambda>p. bindR (deref p) (\<lambda>e.
        bindR (deref (e_name e)) (\<lambda>s. Inr (U_sval (Some s)))))
      else if yyn = 39 then get v of_import_type_t 0 (\<lambda>t. Inr (U_import_type t))
      else if yyn = 40 then Inr (U_import_type kImportAuto)
      else if yyn = 41 then get v of_import_type_t 0 (\<lambda>t. get v of_sval 1 (\<lambda>p. get v of_table_name 3 (\<lambda>n.
        Inr (U_stmt (SExport ((ExportStatement_new t)\<lparr>exp_filePath := p,
          exp_schema := tn_schema n, exp_tableName := tn_name n\<rparr>))))))
      else if yyn = 42 then Inr (U_stmt (SShow (ShowStatement_new kShowTables)))
      else get v of_table_name 0 (\<lambda>n.
        Inr (U_stmt (SShow ((ShowStatement_new kShowColumns)\<lparr>show_schema := tn_schema n, show_name := tn_name n\<rparr>)))))"

text \<open>What an action yields that may raise an error with \<open>yyerror\<close> and \<open>YYERROR\<close>.\<close>

datatype outcome = Value YYSTYPE | Error string

definition tolower :: "char \<Rightarrow> char" where
  "tolower ch = (if 65 \<le> (of_char ch :: nat) \<and> (of_char ch :: nat) \<le> 90
     then char_of ((of_char ch :: nat) + 32) else ch)"

definition strcasecmp_eq :: "string \<Rightarrow> string \<Rightarrow> bool" where
  "strcasecmp_eq a b \<longleftrightarrow> map tolower a = map tolower b"

definition act_file_type :: "vals \<Rightarrow> outcome res" where
  "act_file_type v = get v of_sval 0 (\<lambda>p. bindR (deref p) (\<lambda>s.
     Inr (if strcasecmp_eq s ''csv'' then Value (U_import_type kImportCSV)
          else if strcasecmp_eq s ''tbl'' then Value (U_import_type kImportTbl)
          else if strcasecmp_eq s ''binary'' \<or> strcasecmp_eq s ''bin'' then Value (U_import_type kImportBinary)
          else Error ''File type is unknown.'')))"

section \<open>CREATE\<close>

definition act_create_from :: "vals \<Rightarrow> outcome res" where
  "act_create_from v = get v of_bval 5 (\<lambda>b. get v of_table_name 4 (\<lambda>n. get v of_sval 2 (\<lambda>p.
     bindR (deref p) (\<lambda>ft. get v of_sval 0 (\<lambda>path.
       if \<not> strcasecmp_eq ft ''tbl'' then Inr (Error ''File type is unknown.'')
       else Inr (Value (U_stmt (SCreate ((CreateStatement_new kCreateTableFromTbl)\<lparr>cs_ifNotExists := b,
         cs_schema := tn_schema n, cs_tableName := tn_name n, cs_filePath := path\<rparr>)))))))))"

definition act_create :: "int \<Rightarrow> vals \<Rightarrow> YYSTYPE res" where
  "act_create yyn v =
     (if yyn = 46 then get v of_bval 4 (\<lambda>b. get v of_table_name 3 (\<lambda>n. get v of_table_element_vec 1 (\<lambda>es.
        Inr (U_stmt (SCreate (setColumnDefsAndConstraints es ((CreateStatement_new kCreateTable)\<lparr>
          cs_ifNotExists := b, cs_schema := tn_schema n, cs_tableName := tn_name n\<rparr>)))))))
      else if yyn = 47 then get v of_bval 3 (\<lambda>b. get v of_table_name 2 (\<lambda>n. get v of_select_stmt 0 (\<lambda>s.
        Inr (U_stmt (SCreate ((CreateStatement_new kCreateTable)\<lparr>cs_ifNotExists := b,
          cs_schema := tn_schema n, cs_tableName := tn_name n, cs_select := Some s\<rparr>))))))
      else if yyn = 48 then get v of_bval 6 (\<lambda>b. get v of_sval 5 (\<lambda>i. get v of_table_name 3 (\<lambda>n.
        get v of_str_vec 1 (\<lambda>cs.
        Inr (U_stmt (SCreate ((CreateStatement_new kCreateIndex)\<lparr>cs_indexName := i,
          cs_ifNotExists := b, cs_tableName := tn_name n, cs_indexColumns := cs\<rparr>)))))))
      else if yyn = 49 then get v of_bval 4 (\<lambda>b. get v of_table_name 3 (\<lambda>n. get v of_str_vec 2 (\<lambda>cs.
        get v of_select_stmt 0 (\<lambda>s.
        Inr (U_stmt (SCreate ((CreateStatement_new kCreateView)\<lparr>cs_ifNotExists := b,
          cs_schema := tn_schema n, cs_tableName := tn_name n, cs_viewColumns := cs, cs_select := Some s\<rparr>)))))))
      else if yyn = 50 then Inr (U_bval True)
      else if yyn = 51 then Inr (U_bval False)
      else if yyn = 52 then get v of_table_element_t 0 (\<lambda>e. Inr (U_table_element_vec ([] @ [e])))
      else if yyn = 53 then get v of_table_element_vec 2 (\<lambda>es. get v of_table_element_t 0 (\<lambda>e.
        Inr (U_table_element_vec (es @ [e]))))
      else if yyn = 54 then get v of_column_t 0 (\<lambda>c. Inr (U_table_element (ElemColumn c)))
      else if yyn = 55 then get v of_table_constraint_t 0 (\<lambda>c. Inr (U_table_element (ElemConstraint c)))
      else get v of_sval 2 (\<lambda>n. get v of_column_type_t 1 (\<lambda>t. get v of_column_constraint_vec 0 (\<lambda>cs.
        Inr (U_column (setNullableExplicit (ColumnDefinition_new n t cs)))))))"

text \<open>\<open>ColumnType{t}\<close>, \<open>ColumnType{t, n}\<close> and \<open>ColumnSpecification{}\<close>: the rest is zero.\<close>

definition no_specification :: ColumnSpecification where
  "no_specification = ColumnSpecification_of 0 0"

definition sized_type :: "vals \<Rightarrow> DataType \<Rightarrow> YYSTYPE res" where
  "sized_type v t = get v of_ival 1 (\<lambda>n. Inr (U_column_type (ColumnType_new t n no_specification)))"

definition specified_type :: "vals \<Rightarrow> DataType \<Rightarrow> YYSTYPE res" where
  "specified_type v t = get v of_column_specification_t 0 (\<lambda>s. Inr (U_column_type (ColumnType_new t 0 s)))"

definition plain_type :: "DataType \<Rightarrow> YYSTYPE res" where
  "plain_type t = Inr (U_column_type (ColumnType_new t 0 no_specification))"

definition act_column_type :: "int \<Rightarrow> vals \<Rightarrow> YYSTYPE res" where
  "act_column_type yyn v =
     (if yyn = 57 \<or> yyn = 58 then plain_type DT_INT
      else if yyn = 59 then plain_type DT_LONG
      else if yyn = 60 then plain_type DT_FLOAT
      else if yyn = 61 then specified_type v DT_DECIMAL
      else if yyn = 62 then plain_type DT_DOUBLE
      else if yyn = 63 then plain_type DT_REAL
      else if yyn = 64 then sized_type v DT_VARCHAR
      else if yyn = 65 then sized_type v DT_VARCHAR
      else if yyn = 66 then sized_type v DT_CHAR
      else if yyn = 67 then plain_type DT_TEXT
      else if yyn = 68 then specified_type v DT_TIME
      else if yyn = 69 then plain_type DT_DATETIME
      else if yyn = 70 then plain_type DT_DATE
      else if yyn = 71 \<or> yyn = 74 then get v of_ival 1 (\<lambda>n.
        Inr (U_column_specification (ColumnSpecification_precision n)))
      else if yyn = 73 then get v of_ival 3 (\<lambda>p. get v of_ival 1 (\<lambda>s.
        Inr (U_column_specification (ColumnSpecification_of p s))))
      else Inr (U_column_specification no_specification))"

definition act_constraint :: "int \<Rightarrow> vals \<Rightarrow> YYSTYPE res" where
  "act_constraint yyn v =
     (if yyn = 76 then get v of_column_constraint_vec 0 (\<lambda>cs. Inr (U_column_constraint_vec cs))
      else if yyn = 77 then Inr (U_column_constraint_vec [])
      else if yyn = 78 then get v of_column_constraint_t 0 (\<lambda>c. Inr (U_column_constraint_vec ([] @ [c])))
      else if yyn = 79 then get v of_column_constraint_vec 1 (\<lambda>cs. get v of_column_constraint_t 0 (\<lambda>c.
        Inr (U_column_constraint_vec (cs @ [c]))))
      else if yyn = 80 then Inr (U_column_constraint PrimaryKey)
      else if yyn = 81 then Inr (U_column_constraint Unique)
      else if yyn = 82 then Inr (U_column_constraint Null)
      else if yyn = 83 then Inr (U_column_constraint NotNull)
      else get v of_str_vec 1 (\<lambda>q. bindR (deref q) (\<lambda>names.
        Inr (U_table_constraint (TableConstraint_new (if yyn = 84 then PrimaryKey else Unique) names)))))"

section \<open>DROP, ALTER, DELETE, INSERT, UPDATE\<close>

text \<open>Every action for \<open>DROP\<close> sets \<open>ifExists\<close>, which the constructor leaves open.\<close>

definition act_drop :: "int \<Rightarrow> vals \<Rightarrow> YYSTYPE res" where
  "act_drop yyn v =
     (if yyn = 86 \<or> yyn = 87 then get v of_bval 1 (\<lambda>b. get v of_table_name 0 (\<lambda>n.
        Inr (U_stmt (SDrop ((DropStatement_new False (if yyn = 86 then kDropTable else kDropView))\<lparr>
          drop_ifExists := b, drop_schema := tn_schema n, drop_name := tn_name n\<rparr>)))))
      else if yyn = 88 then get v of_sval 0 (\<lambda>n.
        Inr (U_stmt (SDrop ((DropStatement_new False kDropPreparedStatement)\<lparr>
          drop_ifExists := False, drop_name := n\<rparr>))))
      else if yyn = 89 then get v of_bval 1 (\<lambda>b. get v of_sval 0 (\<lambda>n.
        Inr (U_stmt (SDrop ((DropStatement_new False kDropIndex)\<lparr>drop_ifExists := b, drop_indexName := n\<rparr>)))))
      else if yyn = 90 then Inr (U_bval True)
      else if yyn = 91 then Inr (U_bval False)
      else if yyn = 92 then get v of_table_name 1 (\<lambda>n. get v of_drop_action_t 0 (\<lambda>a. get v of_bval 2 (\<lambda>b.
        Inr (U_stmt (SAlter ((AlterStatement_new (tn_name n) (Some a))\<lparr>
          alt_ifTableExists := b, alt_schema := tn_schema n\<rparr>))))))
      else if yyn = 93 then get v of_drop_action_t 0 (\<lambda>a. Inr (U_drop_action a))
      else get v of_sval 0 (\<lambda>n. get v of_bval 1 (\<lambda>b.
        Inr (U_drop_action ((DropColumnAction_new n)\<lparr>dca_ifExists := b\<rparr>)))))"

definition act_modify :: "int \<Rightarrow> vals \<Rightarrow> YYSTYPE res" where
  "act_modify yyn v =
     (if yyn = 95 then get v of_table_name 1 (\<lambda>n. get v of_expr 0 (\<lambda>e.
        Inr (U_stmt (SDelete (DeleteStatement_new\<lparr>del_schema := tn_schema n,
          del_tableName := tn_name n, del_expr := e\<rparr>)))))
      else if yyn = 96 then get v of_table_name 0 (\<lambda>n.
        Inr (U_stmt (SDelete (DeleteStatement_new\<lparr>del_schema := tn_schema n, del_tableName := tn_name n\<rparr>))))
      else if yyn = 97 then get v of_table_name 5 (\<lambda>n. get v of_str_vec 4 (\<lambda>cs. get v of_expr_vec 1 (\<lambda>es.
        Inr (U_stmt (SInsert ((InsertStatement_new kInsertValues)\<lparr>ins_schema := tn_schema n,
          ins_tableName := tn_name n, ins_columns := cs, ins_values := es\<rparr>))))))
      else if yyn = 98 then get v of_table_name 2 (\<lambda>n. get v of_str_vec 1 (\<lambda>cs. get v of_select_stmt 0 (\<lambda>s.
        Inr (U_stmt (SInsert ((InsertStatement_new kInsertSelect)\<lparr>ins_schema := tn_schema n,
          ins_tableName := tn_name n, ins_columns := cs, ins_select := Some s\<rparr>))))))
      else if yyn = 99 then get v of_str_vec 1 (\<lambda>cs. Inr (U_str_vec cs))
      else if yyn = 100 then Inr (U_str_vec None)
      else if yyn = 101 then get v of_table 3 (\<lambda>t. get v of_update_vec 1 (\<lambda>us. get v of_expr 0 (\<lambda>w.
        Inr (U_stmt (SUpdate (UpdateStatement_new\<lparr>upd_table := t, upd_updates := Some us, upd_where := w\<rparr>))))))
      else if yyn = 102 then get v of_update_t 0 (\<lambda>u. Inr (U_update_vec ([] @ [u])))
      else if yyn = 103 then get v of_update_vec 2 (\<lambda>us. get v of_update_t 0 (\<lambda>u.
        Inr (U_update_vec (us @ [u]))))
      else get v of_sval 2 (\<lambda>c. get v of_expr 0 (\<lambda>e.
        Inr (U_update \<lparr>uc_column = c, uc_value = e\<rparr>))))"

section \<open>SELECT\<close>

text \<open>\<open>s->field = v\<close> for the fields of a select that the actions assign.\<close>

definition set_withDescriptions where
  "set_withDescriptions v s = mkSelect (sel_hints s) (sel_fromTable s) (sel_distinct s) (sel_selectList s)
     (sel_whereClause s) (sel_groupBy s) (sel_setOperations s) (sel_order s) v (sel_limit s)"

definition set_setOperations where
  "set_setOperations v s = mkSelect (sel_hints s) (sel_fromTable s) (sel_distinct s) (sel_selectList s)
     (sel_whereClause s) (sel_groupBy s) v (sel_order s) (sel_withDescriptions s) (sel_limit s)"

definition set_order where
  "set_order v s = mkSelect (sel_hints s) (sel_fromTable s) (sel_distinct s) (sel_selectList s)
     (sel_whereClause s) (sel_groupBy s) (sel_setOperations s) v (sel_withDescriptions s) (sel_limit s)"

definition set_limit where
  "set_limit v s = mkSelect (sel_hints s) (sel_fromTable s) (sel_distinct s) (sel_selectList s)
     (sel_whereClause s) (sel_groupBy s) (sel_setOperations s) (sel_order s) (sel_withDescriptions s) v"

text \<open>
  Appending a set operation to the list, which is created if there is none, and filling in
  what the operation applies to, its order and its limit.
\<close>

definition add_setOperation :: "(SelectStatement, Expr) SetOperation \<Rightarrow> SelectStatement \<Rightarrow>
    Expr OrderDescription list option \<Rightarrow> Expr LimitDescription option \<Rightarrow> SelectStatement \<Rightarrow> SelectStatement" where
  "add_setOperation op nested ord lim s =
     set_setOperations (Some (all_of (sel_setOperations s) @
       [mkSetOp (so_setType op) (so_isAll op) (Some nested) ord lim])) s"

text \<open>The kind is written before the flag \<open>isAll\<close>, which the constructor leaves open.\<close>

definition set_type_of :: "SetType \<Rightarrow> YYSTYPE res" where
  "set_type_of t = Inr (U_set_operator (SetOperation_new t False))"

definition act_select :: "int \<Rightarrow> vals \<Rightarrow> YYSTYPE res" where
  "act_select yyn v =
     (if yyn = 105 \<or> yyn = 106 then get v of_select_stmt 0 (\<lambda>s. get v of_with_description_vec 1 (\<lambda>w.
        Inr (U_stmt (SSelect (set_withDescriptions w s)))))
      else if yyn = 107 then get v of_select_stmt 4 (\<lambda>s. get v of_set_operator_t 3 (\<lambda>op.
        get v of_select_stmt 2 (\<lambda>nested. get v of_order_vec 1 (\<lambda>ord. get v of_limit 0 (\<lambda>lim.
        get v of_with_description_vec 5 (\<lambda>w.
        Inr (U_stmt (SSelect (set_withDescriptions w (add_setOperation op nested ord lim s))))))))))
      else if yyn = 110 then get v of_select_stmt 0 (\<lambda>s. Inr (U_stmt (SSelect s)))
      else if yyn = 111 then get v of_select_stmt 2 (\<lambda>s. get v of_set_operator_t 1 (\<lambda>op.
        get v of_select_stmt 0 (\<lambda>nested.
        Inr (U_stmt (SSelect (add_setOperation op nested (so_resultOrder op) (so_resultLimit op) s))))))
      else if yyn = 112 \<or> yyn = 113 then get v of_select_stmt 1 (\<lambda>s. Inr (U_stmt (SSelect s)))
      else if yyn = 114 then get v of_select_stmt 2 (\<lambda>s. get v of_order_vec 1 (\<lambda>ord. get v of_limit 0 (\<lambda>lim.
        let s = set_order ord s in
        Inr (U_stmt (SSelect (if lim \<noteq> None then set_limit lim s else s))))))
      else if yyn = 115 then get v of_select_stmt 4 (\<lambda>s. get v of_set_operator_t 3 (\<lambda>op.
        get v of_select_stmt 2 (\<lambda>nested. get v of_order_vec 1 (\<lambda>ord. get v of_limit 0 (\<lambda>lim.
        Inr (U_stmt (SSelect (add_setOperation op nested ord lim s))))))))
      else if yyn = 116 then get v of_set_operator_t 1 (\<lambda>op. get v of_bval 0 (\<lambda>b.
        Inr (U_set_operator (mkSetOp (so_setType op) b (so_nested op) (so_resultOrder op) (so_resultLimit op)))))
      else if yyn = 117 then set_type_of kSetUnion
      else if yyn = 118 then set_type_of kSetIntersect
      else if yyn = 119 then set_type_of kSetExcept
      else if yyn = 120 then Inr (U_bval True)
      else if yyn = 121 then Inr (U_bval False)
      else get v of_limit 5 (\<lambda>lim. get v of_bval 4 (\<lambda>d. get v of_expr_vec 3 (\<lambda>l. get v of_table 2 (\<lambda>f.
        get v of_expr 1 (\<lambda>w. get v of_group_t 0 (\<lambda>g.
        Inr (U_stmt (SSelect (mkSelect None f d l w g None None None lim))))))))))"

definition limited :: "Expr option \<Rightarrow> Expr option \<Rightarrow> YYSTYPE res" where
  "limited limit offset = Inr (U_limit (Some (LimitDescription_new limit offset)))"

definition act_clause :: "int \<Rightarrow> vals \<Rightarrow> YYSTYPE res" where
  "act_clause yyn v =
     (if yyn = 123 then Inr (U_bval True)
      else if yyn = 124 then Inr (U_bval False)
      else if yyn = 126 \<or> yyn = 128 then get v of_table 0 (\<lambda>t. Inr (U_table t))
      else if yyn = 127 then Inr (U_table None)
      else if yyn = 129 \<or> yyn = 133 then get v of_expr 0 (\<lambda>e. Inr (U_expr e))
      else if yyn = 130 \<or> yyn = 134 then Inr (U_expr None)
      else if yyn = 131 then get v of_expr_vec 1 (\<lambda>cs. get v of_expr 0 (\<lambda>h.
        Inr (U_group (Some (mkGroupBy cs h)))))
      else if yyn = 132 then Inr (U_group None)
      else if yyn = 135 then get v of_order_vec 0 (\<lambda>os. Inr (U_order_vec os))
      else if yyn = 136 then Inr (U_order_vec None)
      else if yyn = 137 then get v of_order 0 (\<lambda>d. Inr (U_order_vec (Some ([] @ [d]))))
      else if yyn = 138 then get v of_order_vec 2 (\<lambda>q. bindR (deref q) (\<lambda>os. get v of_order 0 (\<lambda>d.
        Inr (U_order_vec (Some (os @ [d]))))))
      else if yyn = 139 then get v of_order_type 0 (\<lambda>t. get v of_expr 1 (\<lambda>e.
        Inr (U_order (OrderDescription_new t e))))
      else if yyn = 140 \<or> yyn = 142 then Inr (U_order_type kOrderAsc)
      else if yyn = 141 then Inr (U_order_type kOrderDesc)
      else if yyn = 143 \<or> yyn = 145 then get v of_expr 0 (\<lambda>e. limited e None)
      else if yyn = 146 then get v of_expr 0 (\<lambda>e. limited None e)
      else if yyn = 147 then get v of_expr 2 (\<lambda>l. get v of_expr 0 (\<lambda>e. limited l e))
      else if yyn = 148 then limited None None
      else if yyn = 149 then get v of_expr 0 (\<lambda>e. limited None e)
      else Inr (U_limit None))"

section \<open>Expressions\<close>

definition set_alias :: "string option \<Rightarrow> Expr \<Rightarrow> Expr" where
  "set_alias v e =
     mkExpr (e_type e) (e_expr e) (e_expr2 e) (e_exprList e) (e_select e) (e_name e) (e_table e) v
       (e_fval e) (e_ival e) (e_ival2 e) (e_datetimeField e) (e_columnType e) (e_isBoolLiteral e) (e_opType e) (e_distinct e)"

definition some_expr :: "Expr \<Rightarrow> YYSTYPE res" where
  "some_expr e = Inr (U_expr (Some e))"

definition act_expr :: "int \<Rightarrow> vals \<Rightarrow> YYSTYPE res" where
  "act_expr yyn v =
     (if yyn = 151 \<or> yyn = 155 then first_expr v
      else if yyn = 152 \<or> yyn = 156 then next_expr v
      else if yyn = 153 then get v of_expr_vec 0 (\<lambda>es. Inr (U_expr_vec es))
      else if yyn = 154 then Inr (U_expr_vec None)
      else if yyn = 157 then get v of_expr 1 (\<lambda>p. get v of_alias_t 0 (\<lambda>q.
        case q of
          None \<Rightarrow> Inr (U_expr p)
        | Some a \<Rightarrow> bindR (deref p) (\<lambda>e. bindR (deref (al_name a)) (\<lambda>n. some_expr (set_alias (Some n) e)))))
      else if yyn = 163 then get v of_expr 1 (\<lambda>e. Inr (U_expr e))
      else get v of_select_stmt 1 (\<lambda>s. some_expr (makeSelect (Some s))))"

definition unary :: "vals \<Rightarrow> nat \<Rightarrow> OperatorType \<Rightarrow> YYSTYPE res" where
  "unary v i op = get v of_expr i (\<lambda>e. some_expr (makeOpUnary op e))"

definition binary :: "vals \<Rightarrow> nat \<Rightarrow> OperatorType \<Rightarrow> YYSTYPE res" where
  "binary v i op = get v of_expr i (\<lambda>e1. get v of_expr 0 (\<lambda>e2. some_expr (makeOpBinary e1 op e2)))"

definition negated :: "Expr \<Rightarrow> Expr" where
  "negated e = makeOpUnary kOpNot (Some e)"

definition act_operator :: "int \<Rightarrow> vals \<Rightarrow> YYSTYPE res" where
  "act_operator yyn v =
     (if yyn = 176 then unary v 0 kOpUnaryMinus
      else if yyn = 177 then unary v 0 kOpNot
      else if yyn = 178 then unary v 1 kOpIsNull
      else if yyn = 179 then unary v 2 kOpIsNull
      else if yyn = 180 then get v of_expr 3 (\<lambda>e. some_expr (negated (makeOpUnary kOpIsNull e)))
      else if yyn = 182 then binary v 2 kOpMinus
      else if yyn = 183 then binary v 2 kOpPlus
      else if yyn = 184 then binary v 2 kOpSlash
      else if yyn = 185 then binary v 2 kOpAsterisk
      else if yyn = 186 then binary v 2 kOpPercentage
      else if yyn = 187 then binary v 2 kOpCaret
      else if yyn = 188 then binary v 2 kOpLike
      else if yyn = 189 then binary v 3 kOpNotLike
      else if yyn = 190 then binary v 2 kOpILike
      else if yyn = 191 then binary v 2 kOpConcat
      else if yyn = 192 then binary v 2 kOpAnd
      else if yyn = 193 then binary v 2 kOpOr
      else if yyn = 206 \<or> yyn = 207 then binary v 2 kOpEquals
      else if yyn = 208 then binary v 2 kOpNotEquals
      else if yyn = 209 then binary v 2 kOpLess
      else if yyn = 210 then binary v 2 kOpGreater
      else if yyn = 211 then binary v 2 kOpLessEq
      else binary v 2 kOpGreaterEq)"

definition act_in_case :: "int \<Rightarrow> vals \<Rightarrow> YYSTYPE res" where
  "act_in_case yyn v =
     (if yyn = 194 then get v of_expr 4 (\<lambda>e. get v of_expr_vec 1 (\<lambda>es. some_expr (makeInOperator e es)))
      else if yyn = 195 then get v of_expr 5 (\<lambda>e. get v of_expr_vec 1 (\<lambda>es.
        some_expr (negated (makeInOperator e es))))
      else if yyn = 196 then get v of_expr 4 (\<lambda>e. get v of_select_stmt 1 (\<lambda>s.
        some_expr (makeInOperator_select e (Some s))))
      else if yyn = 197 then get v of_expr 5 (\<lambda>e. get v of_select_stmt 1 (\<lambda>s.
        some_expr (negated (makeInOperator_select e (Some s)))))
      else if yyn = 198 then get v of_expr 2 (\<lambda>e. get v of_expr 1 (\<lambda>p. bindR (deref p) (\<lambda>l.
        some_expr (makeCase e l None))))
      else if yyn = 199 then get v of_expr 4 (\<lambda>e. get v of_expr 3 (\<lambda>p. bindR (deref p) (\<lambda>l.
        get v of_expr 1 (\<lambda>x. some_expr (makeCase e l x)))))
      else if yyn = 200 then get v of_expr 1 (\<lambda>p. bindR (deref p) (\<lambda>l. some_expr (makeCase None l None)))
      else if yyn = 201 then get v of_expr 3 (\<lambda>p. bindR (deref p) (\<lambda>l.
        get v of_expr 1 (\<lambda>x. some_expr (makeCase None l x))))
      else if yyn = 202 then get v of_expr 2 (\<lambda>w. get v of_expr 0 (\<lambda>t.
        some_expr (makeCaseList (makeCaseListElement w t))))
      else if yyn = 203 then get v of_expr 4 (\<lambda>p. bindR (deref p) (\<lambda>l.
        get v of_expr 2 (\<lambda>w. get v of_expr 0 (\<lambda>t.
        bindR (caseListAppend l (makeCaseListElement w t)) some_expr))))
      else if yyn = 204 then get v of_select_stmt 1 (\<lambda>s. some_expr (makeExists (Some s)))
      else get v of_select_stmt 1 (\<lambda>s. some_expr (negated (makeExists (Some s)))))"

definition act_function :: "int \<Rightarrow> vals \<Rightarrow> YYSTYPE res" where
  "act_function yyn v =
     (if yyn = 213 then get v of_sval 2 (\<lambda>n. some_expr (makeFunctionRef n (Some []) False))
      else if yyn = 214 then get v of_sval 4 (\<lambda>n. get v of_expr_vec 1 (\<lambda>es. get v of_bval 2 (\<lambda>d.
        some_expr (makeFunctionRef n es d))))
      else if yyn = 215 then get v of_datetime_field 3 (\<lambda>d. get v of_expr 1 (\<lambda>e.
        some_expr (makeExtract d e)))
      else if yyn = 216 then get v of_expr 3 (\<lambda>e. get v of_column_type_t 1 (\<lambda>t. some_expr (makeCast e t)))
      else if yyn = 217 \<or> yyn = 223 then Inr (U_datetime_field kDatetimeSecond)
      else if yyn = 218 \<or> yyn = 224 then Inr (U_datetime_field kDatetimeMinute)
      else if yyn = 219 \<or> yyn = 225 then Inr (U_datetime_field kDatetimeHour)
      else if yyn = 220 \<or> yyn = 226 then Inr (U_datetime_field kDatetimeDay)
      else if yyn = 221 \<or> yyn = 227 then Inr (U_datetime_field kDatetimeMonth)
      else if yyn = 222 \<or> yyn = 228 then Inr (U_datetime_field kDatetimeYear)
      else if yyn = 231 then get v of_expr_vec 1 (\<lambda>es. some_expr (makeArray es))
      else if yyn = 232 then get v of_expr 3 (\<lambda>e. get v of_expr 1 (\<lambda>p. bindR (deref p) (\<lambda>i.
        some_expr (makeArrayIndex e (e_ival i)))))
      else get v of_expr 4 (\<lambda>e. get v of_expr 2 (\<lambda>p. bindR (deref p) (\<lambda>l.
        get v of_expr 0 (\<lambda>q. bindR (deref q) (\<lambda>r. some_expr (makeBetween e l r)))))))"

definition act_literal :: "int \<Rightarrow> vals \<Rightarrow> YYSTYPE res" where
  "act_literal yyn v =
     (if yyn = 234 then get v of_sval 0 (\<lambda>n. some_expr (makeColumnRef n))
      else if yyn = 235 then get v of_sval 2 (\<lambda>t. get v of_sval 0 (\<lambda>n. some_expr (makeColumnRef_table t n)))
      else if yyn = 236 then some_expr makeStar
      else if yyn = 237 then get v of_sval 2 (\<lambda>t. some_expr (makeStar_table t))
      else if yyn = 245 then get v of_sval 0 (\<lambda>s. some_expr (makeLiteral_string s))
      else if yyn = 246 then some_expr (makeLiteral_bool True)
      else if yyn = 247 then some_expr (makeLiteral_bool False)
      else if yyn = 248 then get v of_fval 0 (\<lambda>x. some_expr (makeLiteral_double x))
      else if yyn = 250 then get v of_ival 0 (\<lambda>n. some_expr (makeLiteral_int n))
      else if yyn = 251 then some_expr makeNullLiteral
      else get v of_expr 1 (\<lambda>p. bindR (deref p) (\<lambda>e. get v of_datetime_field 0 (\<lambda>u.
        some_expr (makeIntervalLiteral (e_ival e) u)))))"

section \<open>Literals that are checked by sscanf\<close>

definition isspace_c :: "char \<Rightarrow> bool" where
  "isspace_c ch = ((of_char ch :: nat) = 32 \<or> 9 \<le> (of_char ch :: nat) \<and> (of_char ch :: nat) \<le> 13)"

definition isdigit_c :: "char \<Rightarrow> bool" where
  "isdigit_c ch = (48 \<le> (of_char ch :: nat) \<and> (of_char ch :: nat) \<le> 57)"

text \<open>
  The conversion \<open>%d\<close> of \<open>sscanf\<close>, reading at most \<open>w\<close> characters behind leading white space:
  an optional sign and at least one digit. A value that an \<open>int\<close> does not hold is undefined.
\<close>

definition scan_d :: "nat \<Rightarrow> string \<Rightarrow> (int \<times> string) option" where
  "scan_d w s =
     (let s = dropWhile isspace_c s;
          sign = (case s of ch # _ \<Rightarrow> ch = CHR ''-'' \<or> ch = CHR ''+'' | [] \<Rightarrow> False);
          body = (if sign then tl s else s);
          ds = takeWhile isdigit_c (take (if sign then w - 1 else w) body);
          n = foldl (\<lambda>n ch. n * 10 + (of_char ch - 48)) 0 ds
      in if ds = [] then None
         else Some (if sign \<and> hd s = CHR ''-'' then - n else n, drop (length ds) body))"

definition scan_char :: "char \<Rightarrow> string \<Rightarrow> string option" where
  "scan_char c s = (case s of ch # s' \<Rightarrow> if ch = c then Some s' else None | [] \<Rightarrow> None)"

definition int_of_scan :: "int \<Rightarrow> int res" where
  "int_of_scan n = (if - (2 ^ 31) \<le> n \<and> n < 2 ^ 31 then Inr n else Inl SignedOverflow)"

text \<open>\<open>sscanf(s, "%4d-%2d-%2d%n", ...) == 3\<close> with nothing left behind.\<close>

definition is_date :: "string \<Rightarrow> bool" where
  "is_date s =
     (case scan_d 4 s of None \<Rightarrow> False | Some (_, s) \<Rightarrow>
      (case scan_char (CHR ''-'') s of None \<Rightarrow> False | Some s \<Rightarrow>
      (case scan_d 2 s of None \<Rightarrow> False | Some (_, s) \<Rightarrow>
      (case scan_char (CHR ''-'') s of None \<Rightarrow> False | Some s \<Rightarrow>
      (case scan_d 2 s of None \<Rightarrow> False | Some (_, s) \<Rightarrow> s = [])))))"

definition act_date :: "vals \<Rightarrow> outcome res" where
  "act_date v = get v of_sval 0 (\<lambda>p. bindR (deref p) (\<lambda>s.
     Inr (if is_date s then Value (U_expr (Some (makeDateLiteral (Some s))))
          else Error ''Found incorrect date format. Expected format: YYYY-MM-DD'')))"

definition act_interval :: "vals \<Rightarrow> outcome res" where
  "act_interval v = get v of_sval 1 (\<lambda>p. bindR (deref p) (\<lambda>s. get v of_datetime_field 0 (\<lambda>u.
     case scan_d (length s) s of
       Some (duration, []) \<Rightarrow> bindR (int_of_scan duration) (\<lambda>n.
         Inr (Value (U_expr (Some (makeIntervalLiteral n u)))))
     | _ \<Rightarrow> Inr (Error ''Found incorrect interval format. Expected format: INTEGER''))))"

text \<open>\<open>sscanf(s, "%d %7s%n", ...) == 2\<close> with nothing left behind.\<close>

definition scan_interval :: "string \<Rightarrow> (int \<times> string) option" where
  "scan_interval s =
     (case scan_d (length s) s of None \<Rightarrow> None | Some (n, s) \<Rightarrow>
       let s = dropWhile isspace_c s; u = takeWhile (\<lambda>ch. \<not> isspace_c ch) (take 7 s) in
       if u = [] \<or> drop (length u) s \<noteq> [] then None else Some (n, u))"

definition unit_of :: "string \<Rightarrow> DatetimeField option" where
  "unit_of u =
     (if strcasecmp_eq u ''second'' \<or> strcasecmp_eq u ''seconds'' then Some kDatetimeSecond
      else if strcasecmp_eq u ''minute'' \<or> strcasecmp_eq u ''minutes'' then Some kDatetimeMinute
      else if strcasecmp_eq u ''hour'' \<or> strcasecmp_eq u ''hours'' then Some kDatetimeHour
      else if strcasecmp_eq u ''day'' \<or> strcasecmp_eq u ''days'' then Some kDatetimeDay
      else if strcasecmp_eq u ''month'' \<or> strcasecmp_eq u ''months'' then Some kDatetimeMonth
      else if strcasecmp_eq u ''year'' \<or> strcasecmp_eq u ''years'' then Some kDatetimeYear
      else None)"

definition act_interval_string :: "vals \<Rightarrow> outcome res" where
  "act_interval_string v = get v of_sval 0 (\<lambda>p. bindR (deref p) (\<lambda>s.
     case scan_interval s of
       None \<Rightarrow> Inr (Error ''Found incorrect interval format. Expected format: INTEGER INTERVAL_QUALIIFIER'')
     | Some (duration, u) \<Rightarrow> bindR (int_of_scan duration) (\<lambda>n.
         (case unit_of u of
            None \<Rightarrow> Inr (Error ''Interval qualifier is unknown.'')
          | Some f \<Rightarrow> Inr (Value (U_expr (Some (makeIntervalLiteral n f))))))))"

section \<open>Tables and joins\<close>

definition act_table :: "int \<Rightarrow> vals \<Rightarrow> YYSTYPE res" where
  "act_table yyn v =
     (if yyn = 258 then get v of_table_vec 2 (\<lambda>ts. get v of_table 0 (\<lambda>p. bindR (deref p) (\<lambda>t.
        Inr (U_table (Some (mkTableRef kTableCrossProduct None None None None (Some (ts @ [t])) None))))))
      else if yyn = 262 then get v of_select_stmt 2 (\<lambda>s. get v of_alias_t 0 (\<lambda>a.
        Inr (U_table (Some (mkTableRef kTableSelect None None a (Some s) None None)))))
      else if yyn = 263 then get v of_table 0 (\<lambda>p. bindR (deref p) (\<lambda>t. Inr (U_table_vec ([] @ [t]))))
      else if yyn = 264 then get v of_table_vec 2 (\<lambda>ts. get v of_table 0 (\<lambda>p. bindR (deref p) (\<lambda>t.
        Inr (U_table_vec (ts @ [t])))))
      else if yyn = 265 then get v of_table_name 1 (\<lambda>n. get v of_alias_t 0 (\<lambda>a.
        Inr (U_table (Some (mkTableRef TableRefType.kTableName (tn_schema n) (tn_name n) a None None None)))))
      else if yyn = 266 then get v of_table_name 0 (\<lambda>n.
        Inr (U_table (Some (mkTableRef TableRefType.kTableName (tn_schema n) (tn_name n) None None None None))))
      else if yyn = 267 then get v of_sval 0 (\<lambda>n. Inr (U_table_name \<lparr>tn_schema = None, tn_name = n\<rparr>))
      else if yyn = 268 then get v of_sval 2 (\<lambda>s. get v of_sval 0 (\<lambda>n.
        Inr (U_table_name \<lparr>tn_schema = s, tn_name = n\<rparr>)))
      else if yyn = 269 then get v of_sval 0 (\<lambda>n. Inr (U_sval n))
      else if yyn = 270 then Inr (U_sval None)
      else if yyn = 272 then get v of_sval 3 (\<lambda>n. get v of_str_vec 1 (\<lambda>q. bindR (deref q) (\<lambda>cs.
        Inr (U_alias (Some (Alias_new n (Some (map Some cs))))))))
      else if yyn = 275 \<or> yyn = 276 then get v of_sval 0 (\<lambda>n. Inr (U_alias (Some (Alias_new n None))))
      else Inr (U_alias None))"

definition act_with :: "int \<Rightarrow> vals \<Rightarrow> YYSTYPE res" where
  "act_with yyn v =
     (if yyn = 281 then get v of_with_description_vec 0 (\<lambda>ws. Inr (U_with_description_vec ws))
      else if yyn = 280 then Inr (U_with_description_vec None)
      else if yyn = 282 then get v of_with_description_t 0 (\<lambda>w. Inr (U_with_description_vec (Some ([] @ [w]))))
      else if yyn = 283 then get v of_with_description_vec 2 (\<lambda>q. bindR (deref q) (\<lambda>ws.
        get v of_with_description_t 0 (\<lambda>w. Inr (U_with_description_vec (Some (ws @ [w]))))))
      else get v of_sval 2 (\<lambda>n. get v of_select_stmt 0 (\<lambda>s. Inr (U_with_description (mkWith n (Some s))))))"

definition joined :: "JoinType \<Rightarrow> TableRef option \<Rightarrow> TableRef option \<Rightarrow> Expr option \<Rightarrow> YYSTYPE res" where
  "joined t left right condition =
     Inr (U_table (Some (mkTableRef kTableJoin None None None None None
       (Some (mkJoin left right condition t)))))"

text \<open>The column of one side of \<open>USING (c)\<close>.\<close>

definition using_column :: "Expr \<Rightarrow> TableRef \<Rightarrow> Expr res" where
  "using_column c t =
     bindR (deref (e_name c)) (\<lambda>n.
     let col = makeColumnRef (Some n);
         col = (case e_alias c of None \<Rightarrow> col | Some a \<Rightarrow> set_alias (Some a) col)
     in Inr (case TableRef_getName t of None \<Rightarrow> col | Some n \<Rightarrow> set_table (Some n) col))"

definition act_join :: "int \<Rightarrow> vals \<Rightarrow> YYSTYPE res" where
  "act_join yyn v =
     (if yyn = 285 then get v of_table 3 (\<lambda>l. get v of_table 0 (\<lambda>r. joined kJoinNatural l r None))
      else if yyn = 286 then get v of_join_type 4 (\<lambda>t. get v of_table 5 (\<lambda>l. get v of_table 2 (\<lambda>r.
        get v of_expr 0 (\<lambda>c. joined t l r c))))
      else if yyn = 287 then get v of_join_type 6 (\<lambda>t. get v of_table 7 (\<lambda>p. get v of_table 4 (\<lambda>q.
        get v of_expr 1 (\<lambda>x. bindR (deref x) (\<lambda>c. bindR (deref p) (\<lambda>l. bindR (deref q) (\<lambda>r.
        bindR (using_column c l) (\<lambda>left_col. bindR (using_column c r) (\<lambda>right_col.
        joined t p q (Some (makeOpBinary (Some left_col) kOpEquals (Some right_col))))))))))))
      else if yyn = 288 \<or> yyn = 297 then Inr (U_join_type kJoinInner)
      else if yyn = 289 \<or> yyn = 290 then Inr (U_join_type kJoinLeft)
      else if yyn = 291 \<or> yyn = 292 then Inr (U_join_type kJoinRight)
      else if yyn = 293 \<or> yyn = 294 \<or> yyn = 295 then Inr (U_join_type kJoinFull)
      else if yyn = 296 then Inr (U_join_type kJoinCross)
      else if yyn = 301 then get v of_sval 0 (\<lambda>p. bindR (deref p) (\<lambda>n. Inr (U_str_vec (Some ([] @ [n])))))
      else get v of_str_vec 2 (\<lambda>q. bindR (deref q) (\<lambda>ns. get v of_sval 0 (\<lambda>p. bindR (deref p) (\<lambda>n.
        Inr (U_str_vec (Some (ns @ [n]))))))))"

end
