(* ===== verification/ParseTables.thy ===== *)
theory ParseTables
  imports Tables
begin

text \<open>
  The tables of the parser that bison generated (\<open>parser/bison_parser.cpp\<close>): \<open>yytranslate\<close> maps
  a token code to its symbol, \<open>yypact\<close>, \<open>yydefact\<close>, \<open>yytable\<close> and \<open>yycheck\<close> hold the actions,
  \<open>yypgoto\<close> and \<open>yydefgoto\<close> the states after a reduction, \<open>yyr1\<close> and \<open>yyr2\<close> the left side and
  the length of each rule, \<open>yystos\<close> the symbol that leads into a state.
\<close>

section \<open>The tables\<close>

definition yytranslate :: "int list" where
  "yytranslate =
    [0, 2, 2, 2, 2, 2, 2, 2, 2, 2,
     2, 2, 2, 2, 2, 2, 2, 2, 2, 2,
     2, 2, 2, 2, 2, 2, 2, 2, 2, 2,
     2, 2, 2, 2, 2, 2, 2, 169, 2, 2,
     174, 175, 167, 165, 178, 166, 176, 168, 2, 2,
     2, 2, 2, 2, 2, 2, 2, 2, 2, 177,
     158, 155, 159, 179, 2, 2, 2, 2, 2, 2,
     2, 2, 2, 2, 2, 2, 2, 2, 2, 2,
     2, 2, 2, 2, 2, 2, 2, 2, 2, 2,
     2, 172, 2, 173, 170, 2, 2, 2, 2, 2] @
    [2, 2, 2, 2, 2, 2, 2, 2, 2, 2,
     2, 2, 2, 2, 2, 2, 2, 2, 2, 2,
     2, 2, 2, 2, 2, 2, 2, 2, 2, 2,
     2, 2, 2, 2, 2, 2, 2, 2, 2, 2,
     2, 2, 2, 2, 2, 2, 2, 2, 2, 2,
     2, 2, 2, 2, 2, 2, 2, 2, 2, 2,
     2, 2, 2, 2, 2, 2, 2, 2, 2, 2,
     2, 2, 2, 2, 2, 2, 2, 2, 2, 2,
     2, 2, 2, 2, 2, 2, 2, 2, 2, 2,
     2, 2, 2, 2, 2, 2, 2, 2, 2, 2] @
    [2, 2, 2, 2, 2, 2, 2, 2, 2, 2,
     2, 2, 2, 2, 2, 2, 2, 2, 2, 2,
     2, 2, 2, 2, 2, 2, 2, 2, 2, 2,
     2, 2, 2, 2, 2, 2, 2, 2, 2, 2,
     2, 2, 2, 2, 2, 2, 2, 2, 2, 2,
     2, 2, 2, 2, 2, 2, 1, 2, 3, 4,
     5, 6, 7, 8, 9, 10, 11, 12, 13, 14,
     15, 16, 17, 18, 19, 20, 21, 22, 23, 24,
     25, 26, 27, 28, 29, 30, 31, 32, 33, 34,
     35, 36, 37, 38, 39, 40, 41, 42, 43, 44] @
    [45, 46, 47, 48, 49, 50, 51, 52, 53, 54,
     55, 56, 57, 58, 59, 60, 61, 62, 63, 64,
     65, 66, 67, 68, 69, 70, 71, 72, 73, 74,
     75, 76, 77, 78, 79, 80, 81, 82, 83, 84,
     85, 86, 87, 88, 89, 90, 91, 92, 93, 94,
     95, 96, 97, 98, 99, 100, 101, 102, 103, 104,
     105, 106, 107, 108, 109, 110, 111, 112, 113, 114,
     115, 116, 117, 118, 119, 120, 121, 122, 123, 124,
     125, 126, 127, 128, 129, 130, 131, 132, 133, 134,
     135, 136, 137, 138, 139, 140, 141, 142, 143, 144] @
    [145, 146, 147, 148, 149, 150, 151, 152, 153, 154] @
    [156, 157, 160, 161, 162, 163, 164, 171]"

definition yypact :: "int list" where
  "yypact =
    [618, 65, 87, 127, 142, 87, 104, 68, 95, 60,
     87, 138, 87, 122, 18, 201, 51, 51, 51, 225,
     71, - 321, 126, - 321, 126, - 321, - 321, - 321, - 321, - 321,
     - 321, - 321, - 321, - 321, - 321, - 321, - 321, - 23, - 321, 246,
     74, - 321, 86, 185, - 321, 153, 153, 153, 87, 288,
     87, 170, - 321, 171, - 49, 171, 171, 171, 87, - 321,
     179, 133, - 321, - 321, - 321, - 321, - 321, - 321, 587, - 321,
     204, - 321, - 321, 189, - 23, 129, - 321, 61, - 321, 302,
     37, 314, 200, 318, 87, 87, 255, - 321, 236, 164,
     341, 308, 87, 355, 355, 358, 87, 87, - 321, 202] @
    [201, - 321, 214, 360, 363, 207, 219, - 321, - 321, - 321,
     - 23, 290, 280, - 23, 24, - 321, - 321, - 321, - 321, 402,
     - 321, 403, - 321, - 321, - 321, 233, 234, - 321, - 321, - 321,
     - 321, 713, - 321, - 321, - 321, - 321, - 321, - 321, 369, - 321,
     285, - 40, 164, 326, - 321, 355, 413, 66, 262, - 46,
     - 321, - 321, 328, 309, - 321, 309, - 321, - 321, - 321, - 321,
     - 321, 416, - 321, - 321, 326, - 321, - 321, 345, - 321, - 321,
     129, - 321, - 321, 326, 345, 326, 160, - 321, - 321, 130,
     - 321, 37, - 321, - 321, - 321, - 321, - 321, - 321, - 321, - 321,
     - 321, - 321, - 321, - 321, - 321, - 321, - 321, - 321, 87, 419] @
    [312, 35, 300, 8, 251, 256, 260, 230, 386, 263,
     396, - 321, 278, - 68, 449, - 321, - 321, - 321, - 321, - 321,
     - 321, - 321, - 321, - 321, - 321, - 321, - 321, - 321, - 321, - 321,
     - 321, 339, - 321, 121, 264, - 321, 326, 341, - 321, 399,
     - 321, - 321, 391, - 321, - 321, 266, 123, - 321, 348, 269,
     - 321, 19, 24, - 23, 271, - 321, - 34, 24, - 68, 397,
     17, - 321, - 321, 276, 361, - 321, 453, 335, 281, 141,
     - 321, - 321, - 321, 312, 6, 12, 401, 130, 326, 326,
     109, - 43, 282, 396, 646, 326, 118, 286, - 74, 326,
     326, 396, - 321, 396, - 55, 289, - 44, 396, 396, 396] @
    [396, 396, 396, 396, 396, 396, 396, 396, 396, 396,
     396, 396, 360, 87, - 321, 457, 37, - 68, - 321, 171,
     288, 37, - 321, 416, 20, 255, - 321, 326, - 321, 459,
     - 321, - 321, - 321, - 321, 326, - 321, - 321, - 321, - 321, 326,
     326, 413, 355, - 321, 434, - 321, 291, 293, - 321, - 321,
     294, - 321, - 321, - 321, - 321, 295, - 321, 22, 297, 413,
     - 321, 35, - 321, - 321, 326, - 321, - 321, 303, 379, 131,
     - 56, 148, 326, 326, - 321, 401, 381, 54, - 321, - 321,
     - 321, 365, 593, 664, 396, 316, 278, - 321, 383, 319,
     664, 664, 664, 664, 714, 714, 714, 714, 118, 118] @
    [56, 56, 56, - 87, 315, - 321, - 321, 167, 491, - 321,
     168, - 321, 312, - 321, 144, - 321, 320, - 321, 28, - 321,
     427, - 321, - 321, - 321, - 68, - 68, 174, - 321, 323, 495,
     - 321, 497, 498, 501, - 321, 389, - 321, - 321, 406, - 321,
     22, - 321, 413, 176, - 321, 180, - 321, 326, 453, 326,
     326, - 321, 44, 64, 336, - 321, 396, 664, 278, 337,
     182, - 321, - 321, - 321, - 321, - 321, 338, 412, - 321, - 321,
     - 321, 437, 438, 440, 420, 20, 517, - 321, - 321, - 321,
     398, - 321, - 321, 516, 192, 349, 350, 351, - 321, - 321,
     - 321, 199, - 321, - 321, 39, 352, - 68, 143, - 321, 326] @
    [- 321, 646, 353, 208, - 321, - 321, 28, 20, - 321, - 321] @
    [- 321, 20, 270, 356, 326, 357, - 321, 525, - 321, - 321] @
    [- 321, - 321, - 321, - 321, - 321, - 68, - 321, - 321, - 321, - 321] @
    [78, 413, - 24, - 321, 362, 359, 326, 209, 326, - 321] @
    [- 321, 13, - 68, - 321, - 321, - 68, 366, 364, - 321]"

definition yydefact :: "int list" where
  "yydefact =
    [280, 0, 0, 0, 0, 0, 0, 0, 0, 0,
     0, 0, 0, 0, 0, 0, 30, 30, 30, 0,
     300, 3, 21, 19, 21, 18, 8, 9, 7, 11,
     16, 17, 13, 14, 12, 15, 10, 0, 279, 0,
     267, 96, 33, 0, 44, 51, 51, 51, 0, 0,
     0, 0, 266, 91, 0, 91, 91, 91, 0, 42,
     0, 281, 282, 29, 26, 28, 27, 1, 280, 2,
     0, 6, 5, 144, 0, 105, 106, 136, 88, 0,
     154, 0, 0, 270, 0, 0, 130, 37, 0, 100,
     0, 0, 0, 0, 0, 0, 0, 0, 43, 0] @
    [0, 4, 0, 0, 124, 0, 0, 118, 119, 117,
     0, 121, 0, 0, 150, 268, 245, 248, 250, 0,
     251, 0, 246, 247, 256, 0, 153, 155, 238, 239,
     240, 249, 241, 242, 243, 244, 32, 31, 0, 269,
     0, 0, 100, 0, 95, 0, 0, 0, 0, 130,
     102, 90, 0, 40, 38, 40, 89, 86, 87, 284,
     283, 0, 143, 123, 0, 113, 112, 136, 109, 108,
     110, 120, 116, 0, 136, 0, 0, 114, 252, 255,
     34, 0, 217, 218, 219, 220, 221, 222, 223, 224,
     225, 226, 227, 228, 229, 230, 253, 50, 0, 0] @
    [280, 0, 0, 234, 0, 0, 0, 0, 0, 0,
     0, 236, 0, 129, 158, 165, 166, 167, 160, 162,
     168, 161, 181, 169, 170, 171, 172, 164, 159, 174,
     175, 0, 301, 0, 0, 98, 0, 0, 101, 0,
     92, 93, 0, 36, 41, 24, 0, 22, 127, 125,
     151, 278, 150, 0, 135, 137, 142, 150, 146, 148,
     145, 254, 156, 0, 0, 47, 0, 0, 0, 0,
     52, 54, 55, 280, 124, 0, 0, 0, 0, 0,
     0, 0, 0, 0, 177, 0, 176, 0, 0, 0,
     0, 0, 178, 0, 0, 0, 0, 0, 0, 0] @
    [0, 0, 0, 0, 0, 0, 0, 0, 0, 0,
     0, 0, 0, 0, 99, 0, 0, 104, 103, 91,
     0, 0, 20, 0, 0, 130, 126, 0, 276, 0,
     277, 157, 107, 111, 0, 141, 140, 139, 115, 0,
     0, 0, 0, 58, 0, 63, 75, 0, 62, 60,
     0, 70, 69, 59, 67, 72, 57, 77, 0, 0,
     46, 0, 49, 213, 0, 235, 237, 0, 0, 0,
     0, 0, 0, 0, 200, 0, 0, 0, 173, 163,
     192, 193, 0, 188, 0, 0, 0, 179, 0, 191,
     190, 206, 207, 208, 209, 210, 211, 212, 183, 182] @
    [185, 184, 186, 187, 0, 35, 302, 0, 0, 39,
     0, 23, 280, 128, 257, 259, 0, 261, 274, 260,
     132, 152, 275, 138, 149, 147, 0, 45, 0, 0,
     61, 0, 0, 0, 68, 0, 81, 82, 0, 56,
     76, 78, 0, 0, 53, 0, 204, 0, 0, 0,
     0, 198, 0, 0, 0, 231, 0, 189, 0, 0,
     0, 180, 232, 97, 94, 25, 0, 0, 296, 288,
     294, 292, 295, 290, 0, 0, 0, 273, 265, 271,
     0, 122, 48, 0, 0, 0, 0, 0, 80, 83,
     79, 0, 85, 214, 0, 0, 202, 0, 201, 0] @
    [205, 233, 0, 0, 196, 194, 274, 0, 291, 293] @
    [289, 0, 258, 275, 0, 0, 74, 0, 64, 66] @
    [71, 84, 215, 216, 199, 203, 197, 195, 262, 285] @
    [297, 0, 134, 65, 0, 0, 0, 0, 0, 131] @
    [73, 0, 298, 286, 272, 133, 234, 0, 287]"

definition yypgoto :: "int list" where
  "yypgoto =
    [- 321, - 321, - 321, 475, - 321, 523, - 321, 227, - 321, 48,
     - 321, - 321, - 321, - 321, 228, - 89, 409, - 321, - 321, - 321,
     42, - 321, 190, - 321, 106, - 321, - 321, - 321, - 321, 116,
     - 321, - 321, - 47, - 321, - 321, - 321, - 321, - 321, - 321, 415,
     - 321, - 321, 321, - 194, - 85, - 321, 125, - 73, - 42, - 321,
     - 321, - 86, 292, - 321, - 321, - 321, - 136, - 321, - 321, - 106,
     - 321, 238, - 321, - 321, - 11, - 260, - 321, - 27, 240, - 143,
     - 191, - 321, - 321, - 321, - 321, - 321, - 321, 298, - 321, - 321,
     - 321, - 321, - 321, - 150, - 321, - 321, - 321, - 321, - 321, 27,
     - 60, - 91, - 321, - 321, - 92, - 321, - 321, - 321, - 321, - 321] @
    [- 299, 67, - 321, - 321, - 321, 2, - 321, - 321, 73, 322] @
    [- 321, - 321, - 321, - 321, 480, - 321, - 321, - 321, - 321, - 320] @
    []"

definition yydefgoto :: "int list" where
  "yydefgoto =
    [- 1, 19, 20, 21, 22, 71, 246, 247, 23, 64,
     24, 137, 25, 26, 88, 153, 243, 27, 28, 29,
     83, 269, 270, 271, 357, 434, 430, 439, 440, 441,
     272, 30, 92, 31, 240, 241, 32, 33, 34, 147,
     35, 149, 150, 36, 167, 168, 169, 76, 110, 111,
     172, 77, 164, 248, 325, 326, 144, 481, 539, 114,
     254, 255, 337, 104, 177, 249, 125, 126, 250, 251,
     214, 215, 216, 217, 218, 219, 220, 281, 221, 222,
     223, 224, 225, 194, 195, 196, 226, 227, 228, 229,
     230, 128, 129, 130, 131, 132, 133, 134, 135, 413] @
    [414, 415, 416, 417, 51, 418, 140, 477, 478, 479] @
    [331, 37, 38, 61, 62, 419, 474, 543, 69, 233] @
    []"

definition yytable :: "int list" where
  "yytable =
    [213, 106, 154, 154, 41, 155, 265, 44, 95, 96,
     97, 162, 52, 238, 54, 365, 546, 284, 163, 286,
     127, 426, 328, 40, 170, 377, 538, 170, 174, 261,
     256, 328, 258, 260, 73, 113, 143, 58, 266, 443,
     289, 116, 117, 118, 93, 384, 289, 297, 372, 435,
     86, 449, 89, 199, 154, 335, 231, 290, 289, 387,
     98, 252, 267, 290, 280, 65, 66, 373, 257, 288,
     107, 340, 385, 374, 235, 290, 388, 59, 175, 362,
     289, 336, 436, 94, 200, 312, 141, 142, 84, 85,
     40, 39, 284, 317, 152, 268, 176, 290, 157, 158] @
    [382, 379, 383, 467, 445, 108, 389, 390, 391, 392,
     393, 394, 395, 396, 397, 398, 399, 400, 401, 402,
     403, 262, 491, 73, 119, 437, 460, 368, 253, 234,
     42, 289, 237, 289, 201, 369, 370, 112, 107, 287,
     120, 109, 438, 329, 468, 43, 380, 381, 290, 469,
     290, 74, 476, 289, 327, 470, 471, 50, 289, 535,
     498, 48, 75, 203, 116, 117, 118, 170, 333, 467,
     290, 499, 472, 108, 45, 290, 512, 473, 289, 366,
     211, 363, 274, 46, 275, 121, 122, 123, 49, 420,
     297, 256, 55, 457, 412, 290, 424, 425, 503, 105] @
    [263, 56, 63, 367, 60, 204, 205, 206, 536, 109,
     468, 537, 530, 47, 522, 469, 124, 53, 466, 279,
     404, 470, 471, 289, 159, 67, 311, 455, 312, 452,
     453, 57, 327, 203, 116, 117, 118, 70, 472, 450,
     290, 332, - 297, 473, 207, 289, 338, 119, 68, 78,
     79, 154, 297, 427, 532, 448, 127, 289, 373, 524,
     80, 127, 290, 120, 451, 501, 182, 183, 184, 185,
     186, 187, 408, 259, 290, 204, 205, 206, 81, 82,
     208, 203, 116, 117, 118, 308, 309, 310, 311, 407,
     312, 87, 90, 209, 410, 467, 314, 91, 322, 315] @
    [102, 323, 454, 99, 494, 115, 496, 497, 121, 122,
     123, 100, 103, 459, 207, 405, 360, 119, 136, 361,
     138, 139, - 263, 204, 205, 206, 210, 211, 145, 203,
     116, 117, 118, 120, 212, 73, 468, 143, 146, 124,
     279, 469, 463, 465, 148, 181, 181, 470, 471, 482,
     208, 492, 315, 151, 315, 493, 525, 505, 327, 116,
     327, 156, 207, 209, 472, 119, 118, 516, - 297, 473,
     517, 204, 205, 206, 521, 163, 74, 315, 121, 122,
     123, 120, 165, 527, 544, 502, 327, 315, 161, 203,
     116, 117, 118, 542, 166, 545, 210, 211, 208, 203] @
    [116, 117, 118, 171, 212, 173, 178, 179, 180, 124,
     207, 209, 181, 119, 197, 198, 232, 236, 239, 245,
     242, 112, 264, 15, 273, 276, 121, 122, 123, 120,
     277, 282, 205, 206, 278, 285, 313, 319, 316, 320,
     321, 324, 205, 206, 210, 211, 208, 327, - 264, 334,
     341, 339, 212, 342, 358, 359, 375, 124, 73, 209,
     406, 378, 422, 386, 428, 429, 291, 431, 432, 433,
     207, 442, 447, 119, 121, 122, 123, 343, 446, 289,
     207, 384, 344, 119, 345, 346, 461, 347, 462, 120,
     458, 312, 210, 211, 464, 348, 480, 483, 475, 120] @
    [212, 484, 292, 485, 486, 124, 283, 487, 488, 489,
     507, 500, 504, 506, 508, 509, 283, 510, 511, 209,
     513, 349, 515, 514, 518, 519, 520, 523, 526, 209,
     531, 534, 533, 541, 121, 122, 123, 540, 350, 548,
     351, 352, 275, 101, 121, 122, 123, 72, 409, 293,
     411, 444, 210, 211, 495, 353, 490, 202, 318, 354,
     212, 355, 210, 211, 244, 124, 364, 421, 547, 294,
     212, 356, 423, 330, 529, 124, 295, 296, 371, 528,
     160, 0, 0, 297, 298, 0, 0, - 299, 0, 0,
     0, 0, 0, 0, 1, 0, 0, 0, 0, 0] @
    [0, 0, 2, 0, 299, 300, 301, 302, 303, 3,
     0, 304, 305, 4, 306, 307, 308, 309, 310, 311,
     0, 312, 0, 5, 0, 1, 6, 7, 0, 0,
     0, 0, 0, 2, 0, 0, 0, 0, 8, 9,
     3, 0, 0, 0, 4, 0, 292, 0, 0, 10,
     0, 0, 11, 0, 5, 0, 0, 6, 7, 0,
     0, 0, 0, 0, 0, 0, 0, 0, 0, 8,
     9, 0, 0, 12, 0, 0, 0, 13, 0, 0,
     10, 0, 0, 11, 0, 0, 0, 0, 0, 0,
     0, 0, 14, 293, 0, 0, 0, 0, 15, 292] @
    [0, 0, 0, 0, 12, 0, 0, 456, 13, 0,
     0, 0, 0, 376, 0, 0, 0, 292, 0, 0,
     0, 296, 0, 14, 0, 0, 0, 297, 298, 15,
     0, 0, 0, 0, 0, 0, 0, 0, 0, 16,
     17, 18, 0, 0, 0, 0, 293, 0, 299, 300,
     301, 302, 303, 0, 0, 304, 305, 0, 306, 307,
     308, 309, 310, 311, - 300, 312, 376, 292, 0, 0,
     16, 17, 18, 0, 296, 0, 0, 0, 0, 0,
     297, 298, 0, 0, 0, 0, 0, 0, 0, 0,
     0, 0, 296, 0, 0, 0, 0, 0, 297, - 300] @
    [0, 299, 300, 301, 302, 303, 0, 0, 304, 305] @
    [0, 306, 307, 308, 309, 310, 311, 0, 312, - 300] @
    [- 300, - 300, 302, 303, 0, 0, 304, 305, 0, 306] @
    [307, 308, 309, 310, 311, 0, 312, 0, 0, 0] @
    [0, 0, 296, 0, 0, 0, 0, 0, 297, 182] @
    [183, 184, 185, 186, 187, 188, 189, 190, 191, 192] @
    [193, 0, 0, 0, 0, 0, 0, 0, 0, 0] @
    [0, 0, - 300, - 300, 0, 0, - 300, - 300, 0, 306] @
    [307, 308, 309, 310, 311, 0, 312]"

definition yycheck :: "int list" where
  "yycheck =
    [143, 74, 93, 94, 2, 94, 200, 5, 55, 56,
     57, 103, 10, 149, 12, 3, 3, 208, 12, 210,
     80, 341, 3, 3, 110, 285, 50, 113, 113, 179,
     173, 3, 175, 176, 57, 77, 82, 19, 3, 359,
     114, 4, 5, 6, 93, 100, 114, 134, 91, 27,
     48, 107, 50, 93, 145, 89, 145, 131, 114, 103,
     58, 167, 27, 131, 207, 17, 18, 110, 174, 212,
     9, 54, 127, 116, 147, 131, 120, 59, 54, 273,
     114, 115, 60, 132, 124, 172, 84, 85, 46, 47,
     3, 26, 283, 236, 92, 60, 72, 131, 96, 97] @
    [291, 175, 293, 25, 364, 44, 297, 298, 299, 300,
     301, 302, 303, 304, 305, 306, 307, 308, 309, 310,
     311, 181, 442, 57, 87, 103, 386, 277, 170, 63,
     3, 114, 178, 114, 174, 278, 279, 76, 9, 212,
     103, 80, 120, 124, 66, 3, 289, 290, 131, 71,
     131, 174, 124, 114, 178, 77, 78, 97, 114, 81,
     116, 93, 37, 3, 4, 5, 6, 253, 253, 25,
     131, 107, 94, 44, 70, 131, 475, 99, 114, 167,
     167, 175, 174, 79, 176, 148, 149, 150, 93, 325,
     134, 334, 70, 384, 174, 131, 339, 340, 458, 74] @
    [198, 79, 151, 276, 3, 45, 46, 47, 130, 80,
     66, 531, 511, 109, 175, 71, 179, 79, 412, 110,
     312, 77, 78, 114, 99, 0, 170, 173, 172, 372,
     373, 109, 178, 3, 4, 5, 6, 111, 94, 91,
     131, 252, 98, 99, 84, 114, 257, 87, 177, 3,
     176, 342, 134, 342, 514, 124, 316, 114, 110, 116,
     174, 321, 131, 103, 116, 456, 136, 137, 138, 139,
     140, 141, 319, 113, 131, 45, 46, 47, 93, 126,
     120, 3, 4, 5, 6, 167, 168, 169, 170, 316,
     172, 3, 122, 133, 321, 25, 175, 126, 175, 178] @
    [96, 178, 375, 124, 447, 3, 449, 450, 148, 149,
     150, 178, 123, 386, 84, 313, 175, 87, 4, 178,
     120, 3, 178, 45, 46, 47, 166, 167, 92, 3,
     4, 5, 6, 103, 174, 57, 66, 82, 174, 179,
     110, 71, 175, 175, 3, 178, 178, 77, 78, 175,
     120, 175, 178, 45, 178, 175, 499, 175, 178, 4,
     178, 3, 84, 133, 94, 87, 6, 175, 98, 99,
     178, 45, 46, 47, 175, 12, 174, 178, 148, 149,
     150, 103, 175, 175, 175, 458, 178, 178, 174, 3,
     4, 5, 6, 536, 175, 538, 166, 167, 120, 3] @
    [4, 5, 6, 113, 174, 125, 4, 4, 175, 179,
     84, 133, 178, 87, 45, 130, 3, 155, 90, 3,
     111, 76, 3, 111, 124, 174, 148, 149, 150, 103,
     174, 45, 46, 47, 174, 172, 97, 38, 174, 48,
     174, 93, 46, 47, 166, 167, 120, 178, 178, 178,
     174, 54, 174, 92, 119, 174, 174, 179, 57, 133,
     3, 175, 3, 174, 30, 174, 17, 174, 174, 174,
     84, 174, 93, 87, 148, 149, 150, 24, 175, 114,
     84, 100, 29, 87, 31, 32, 103, 34, 173, 103,
     174, 172, 166, 167, 3, 42, 69, 174, 178, 103] @
    [174, 6, 53, 6, 6, 179, 120, 6, 119, 103,
     98, 175, 175, 175, 77, 77, 120, 77, 98, 133,
     3, 68, 6, 125, 175, 175, 175, 175, 175, 133,
     174, 6, 175, 174, 148, 149, 150, 175, 85, 175,
     87, 88, 176, 68, 148, 149, 150, 24, 320, 100,
     323, 361, 166, 167, 448, 102, 440, 142, 237, 106,
     174, 108, 166, 167, 155, 179, 274, 327, 541, 120,
     174, 118, 334, 251, 507, 179, 127, 128, 280, 506,
     100, - 1, - 1, 134, 135, - 1, - 1, 0, - 1, - 1,
     - 1, - 1, - 1, - 1, 7, - 1, - 1, - 1, - 1, - 1] @
    [- 1, - 1, 15, - 1, 155, 156, 157, 158, 159, 22,
     - 1, 162, 163, 26, 165, 166, 167, 168, 169, 170,
     - 1, 172, - 1, 36, - 1, 7, 39, 40, - 1, - 1,
     - 1, - 1, - 1, 15, - 1, - 1, - 1, - 1, 51, 52,
     22, - 1, - 1, - 1, 26, - 1, 53, - 1, - 1, 62,
     - 1, - 1, 65, - 1, 36, - 1, - 1, 39, 40, - 1,
     - 1, - 1, - 1, - 1, - 1, - 1, - 1, - 1, - 1, 51,
     52, - 1, - 1, 86, - 1, - 1, - 1, 90, - 1, - 1,
     62, - 1, - 1, 65, - 1, - 1, - 1, - 1, - 1, - 1,
     - 1, - 1, 105, 100, - 1, - 1, - 1, - 1, 111, 53] @
    [- 1, - 1, - 1, - 1, 86, - 1, - 1, 114, 90, - 1,
     - 1, - 1, - 1, 120, - 1, - 1, - 1, 53, - 1, - 1,
     - 1, 128, - 1, 105, - 1, - 1, - 1, 134, 135, 111,
     - 1, - 1, - 1, - 1, - 1, - 1, - 1, - 1, - 1, 152,
     153, 154, - 1, - 1, - 1, - 1, 100, - 1, 155, 156,
     157, 158, 159, - 1, - 1, 162, 163, - 1, 165, 166,
     167, 168, 169, 170, 100, 172, 120, 53, - 1, - 1,
     152, 153, 154, - 1, 128, - 1, - 1, - 1, - 1, - 1,
     134, 135, - 1, - 1, - 1, - 1, - 1, - 1, - 1, - 1,
     - 1, - 1, 128, - 1, - 1, - 1, - 1, - 1, 134, 135] @
    [- 1, 155, 156, 157, 158, 159, - 1, - 1, 162, 163] @
    [- 1, 165, 166, 167, 168, 169, 170, - 1, 172, 155] @
    [156, 157, 158, 159, - 1, - 1, 162, 163, - 1, 165] @
    [166, 167, 168, 169, 170, - 1, 172, - 1, - 1, - 1] @
    [- 1, - 1, 128, - 1, - 1, - 1, - 1, - 1, 134, 136] @
    [137, 138, 139, 140, 141, 142, 143, 144, 145, 146] @
    [147, - 1, - 1, - 1, - 1, - 1, - 1, - 1, - 1, - 1] @
    [- 1, - 1, 158, 159, - 1, - 1, 162, 163, - 1, 165] @
    [166, 167, 168, 169, 170, - 1, 172]"

definition yystos :: "int list" where
  "yystos =
    [0, 7, 15, 22, 26, 36, 39, 40, 51, 52,
     62, 65, 86, 90, 105, 111, 152, 153, 154, 181,
     182, 183, 184, 188, 190, 192, 193, 197, 198, 199,
     211, 213, 216, 217, 218, 220, 223, 291, 292, 26,
     3, 285, 3, 3, 285, 70, 79, 109, 93, 93,
     97, 284, 285, 79, 285, 70, 79, 109, 19, 59,
     3, 293, 294, 151, 189, 189, 189, 0, 177, 298,
     111, 185, 185, 57, 174, 226, 227, 231, 3, 176,
     174, 93, 126, 200, 200, 200, 285, 3, 194, 285,
     122, 126, 212, 93, 132, 212, 212, 212, 285, 124] @
    [178, 183, 96, 123, 243, 226, 227, 9, 44, 80,
     228, 229, 76, 228, 239, 3, 4, 5, 6, 87,
     103, 148, 149, 150, 179, 246, 247, 270, 271, 272,
     273, 274, 275, 276, 277, 278, 4, 191, 120, 3,
     286, 285, 285, 82, 236, 92, 174, 219, 3, 221,
     222, 45, 285, 195, 271, 195, 3, 285, 285, 226,
     294, 174, 274, 12, 232, 175, 175, 224, 225, 226,
     231, 113, 230, 125, 224, 54, 72, 244, 4, 4,
     175, 178, 136, 137, 138, 139, 140, 141, 142, 143,
     144, 145, 146, 147, 263, 264, 265, 45, 130, 93] @
    [124, 174, 219, 3, 45, 46, 47, 84, 120, 133,
     166, 167, 174, 249, 250, 251, 252, 253, 254, 255,
     256, 258, 259, 260, 261, 262, 266, 267, 268, 269,
     270, 195, 3, 299, 63, 227, 155, 178, 236, 90,
     214, 215, 111, 196, 196, 3, 186, 187, 233, 245,
     248, 249, 239, 228, 240, 241, 249, 239, 249, 113,
     249, 263, 270, 285, 3, 223, 3, 27, 60, 201,
     202, 203, 210, 124, 174, 176, 174, 174, 174, 110,
     249, 257, 45, 120, 250, 172, 250, 227, 249, 114,
     131, 17, 53, 100, 120, 127, 128, 134, 135, 155] @
    [156, 157, 158, 159, 162, 163, 165, 166, 167, 168,
     169, 170, 172, 97, 175, 178, 174, 249, 222, 38,
     48, 174, 175, 178, 93, 234, 235, 178, 3, 124,
     289, 290, 244, 224, 178, 89, 115, 242, 244, 54,
     54, 174, 92, 24, 29, 31, 32, 34, 42, 68,
     85, 87, 88, 102, 106, 108, 118, 204, 119, 174,
     175, 178, 223, 175, 232, 3, 167, 227, 263, 249,
     249, 257, 91, 110, 116, 174, 120, 245, 175, 175,
     249, 249, 250, 250, 100, 127, 174, 103, 120, 250,
     250, 250, 250, 250, 250, 250, 250, 250, 250, 250] @
    [250, 250, 250, 250, 274, 285, 3, 247, 212, 194,
     247, 187, 174, 279, 280, 281, 282, 283, 285, 295,
     236, 248, 3, 241, 249, 249, 299, 195, 30, 174,
     206, 174, 174, 174, 205, 27, 60, 103, 120, 207,
     208, 209, 174, 299, 202, 245, 175, 93, 124, 107,
     91, 116, 249, 249, 227, 173, 114, 250, 174, 227,
     245, 103, 173, 175, 3, 175, 223, 25, 66, 71,
     77, 78, 94, 99, 296, 178, 124, 287, 288, 289,
     69, 237, 175, 174, 6, 6, 6, 6, 119, 103,
     209, 299, 175, 175, 249, 204, 249, 249, 116, 107] @
    [175, 250, 227, 245, 175, 175, 175, 98, 77, 77] @
    [77, 98, 280, 3, 125, 6, 175, 178, 175, 175] @
    [175, 175, 175, 175, 116, 249, 175, 175, 288, 281] @
    [280, 174, 245, 175, 6, 81, 130, 299, 50, 238] @
    [175, 174, 249, 297, 175, 249, 3, 269, 175]"

definition yyr1 :: "int list" where
  "yyr1 =
    [0, 180, 181, 182, 182, 183, 183, 183, 183, 183,
     184, 184, 184, 184, 184, 184, 184, 184, 184, 184,
     185, 185, 186, 186, 187, 187, 188, 188, 188, 189,
     189, 190, 191, 192, 192, 193, 193, 194, 195, 196,
     196, 197, 198, 198, 198, 199, 199, 199, 199, 199,
     200, 200, 201, 201, 202, 202, 203, 204, 204, 204,
     204, 204, 204, 204, 204, 204, 204, 204, 204, 204,
     204, 205, 205, 206, 206, 206, 207, 207, 208, 208,
     209, 209, 209, 209, 210, 210, 211, 211, 211, 211,
     212, 212, 213, 214, 215, 216, 217, 218, 218, 219] @
    [219, 220, 221, 221, 222, 223, 223, 223, 224, 224,
     225, 225, 226, 226, 227, 227, 228, 229, 229, 229,
     230, 230, 231, 232, 232, 233, 234, 234, 235, 236,
     236, 237, 237, 238, 238, 239, 239, 240, 240, 241,
     242, 242, 242, 243, 243, 244, 244, 244, 244, 244,
     244, 245, 245, 246, 246, 247, 247, 248, 249, 249,
     249, 249, 249, 250, 250, 250, 250, 250, 250, 250,
     250, 250, 250, 250, 251, 251, 252, 252, 252, 252,
     252, 253, 253, 253, 253, 253, 253, 253, 253, 253,
     253, 253, 254, 254, 255, 255, 255, 255, 256, 256] @
    [256, 256, 257, 257, 258, 258, 259, 259, 259, 259,
     259, 259, 259, 260, 260, 261, 262, 263, 263, 263,
     263, 263, 263, 264, 264, 264, 264, 264, 264, 265,
     265, 266, 267, 268, 269, 269, 269, 269, 270, 270,
     270, 270, 270, 270, 270, 271, 272, 272, 273, 273,
     274, 275, 276, 277, 277, 277, 278, 279, 279, 280,
     280, 281, 281, 282, 282, 283, 284, 285, 285, 286,
     286, 287, 287, 288, 288, 289, 289, 290, 290, 291,
     291, 292, 293, 293, 294, 295, 295, 295, 296, 296,
     296, 296, 296, 296, 296, 296, 296, 296, 297, 298] @
    [298, 299, 299]"

definition yyr2 :: "int list" where
  "yyr2 =
    [0, 2, 2, 1, 3, 2, 2, 1, 1, 1,
     1, 1, 1, 1, 1, 1, 1, 1, 1, 1,
     5, 0, 1, 3, 1, 4, 2, 2, 2, 1,
     0, 4, 1, 2, 5, 7, 5, 1, 1, 3,
     0, 5, 2, 3, 2, 8, 7, 6, 9, 7,
     3, 0, 1, 3, 1, 1, 3, 1, 1, 1,
     1, 2, 1, 1, 4, 5, 4, 1, 2, 1,
     1, 3, 0, 5, 3, 0, 1, 0, 1, 2,
     2, 1, 1, 2, 5, 4, 4, 4, 3, 4,
     2, 0, 5, 1, 4, 4, 2, 8, 5, 3] @
    [0, 5, 1, 3, 3, 2, 2, 6, 1, 1,
     1, 3, 3, 3, 3, 5, 2, 1, 1, 1,
     1, 0, 7, 1, 0, 1, 1, 0, 2, 2,
     0, 4, 0, 2, 0, 3, 0, 1, 3, 2,
     1, 1, 0, 2, 0, 2, 2, 4, 2, 4,
     0, 1, 3, 1, 0, 1, 3, 2, 1, 1,
     1, 1, 1, 3, 1, 1, 1, 1, 1, 1,
     1, 1, 1, 3, 1, 1, 2, 2, 2, 3,
     4, 1, 3, 3, 3, 3, 3, 3, 3, 4,
     3, 3, 3, 3, 5, 6, 5, 6, 4, 6] @
    [3, 5, 4, 5, 4, 5, 3, 3, 3, 3,
     3, 3, 3, 3, 5, 6, 6, 1, 1, 1,
     1, 1, 1, 1, 1, 1, 1, 1, 1, 1,
     1, 4, 4, 5, 1, 3, 1, 3, 1, 1,
     1, 1, 1, 1, 1, 1, 1, 1, 1, 1,
     1, 1, 2, 2, 3, 2, 1, 1, 3, 1,
     1, 1, 4, 1, 3, 2, 1, 1, 3, 1,
     0, 1, 5, 1, 0, 2, 1, 1, 0, 1,
     0, 2, 1, 3, 3, 4, 6, 8, 1, 2,
     1, 2, 1, 2, 1, 1, 1, 0, 1, 1] @
    [0, 1, 3]"

section \<open>Their entries\<close>

lemmas yytranslate_from_0 = from_index_start [OF yytranslate_def, unfolded append_assoc]
lemmas yytranslate_at_0 = look_100 [OF yytranslate_from_0, unfolded index_sums]
lemmas yytranslate_from_100 = next_100 [OF yytranslate_from_0, unfolded index_sums]
lemmas yytranslate_at_100 = look_100 [OF yytranslate_from_100, unfolded index_sums]
lemmas yytranslate_from_200 = next_100 [OF yytranslate_from_100, unfolded index_sums]
lemmas yytranslate_at_200 = look_100 [OF yytranslate_from_200, unfolded index_sums]
lemmas yytranslate_from_300 = next_100 [OF yytranslate_from_200, unfolded index_sums]
lemmas yytranslate_at_300 = look_100 [OF yytranslate_from_300, unfolded index_sums]
lemmas yytranslate_from_400 = next_100 [OF yytranslate_from_300, unfolded index_sums]
lemmas yytranslate_at_400 = look_10 [OF yytranslate_from_400, unfolded index_sums]
lemmas yytranslate_from_410 = next_10 [OF yytranslate_from_400, unfolded index_sums]
lemmas yytranslate_at_410 = look_1 [OF yytranslate_from_410, unfolded index_sums]
lemmas yytranslate_from_411 = next_1 [OF yytranslate_from_410, unfolded index_sums]
lemmas yytranslate_at_411 = look_1 [OF yytranslate_from_411, unfolded index_sums]
lemmas yytranslate_from_412 = next_1 [OF yytranslate_from_411, unfolded index_sums]
lemmas yytranslate_at_412 = look_1 [OF yytranslate_from_412, unfolded index_sums]
lemmas yytranslate_from_413 = next_1 [OF yytranslate_from_412, unfolded index_sums]
lemmas yytranslate_at_413 = look_1 [OF yytranslate_from_413, unfolded index_sums]
lemmas yytranslate_from_414 = next_1 [OF yytranslate_from_413, unfolded index_sums]
lemmas yytranslate_at_414 = look_1 [OF yytranslate_from_414, unfolded index_sums]
lemmas yytranslate_from_415 = next_1 [OF yytranslate_from_414, unfolded index_sums]
lemmas yytranslate_at_415 = look_1 [OF yytranslate_from_415, unfolded index_sums]
lemmas yytranslate_from_416 = next_1 [OF yytranslate_from_415, unfolded index_sums]
lemmas yytranslate_at_416 = look_1 [OF yytranslate_from_416, unfolded index_sums]
lemmas yytranslate_from_417 = next_1 [OF yytranslate_from_416, unfolded index_sums]
lemmas yytranslate_at_417 = look_1 [OF yytranslate_from_417, unfolded index_sums]
lemmas yytranslate_from_418 = next_1 [OF yytranslate_from_417, unfolded index_sums]
lemmas yytranslate_outside [simp] = from_index_end [OF yytranslate_from_418]
lemmas yytranslate_entries [simp] =
  yytranslate_at_0 yytranslate_at_100 yytranslate_at_200 yytranslate_at_300 yytranslate_at_400 yytranslate_at_410 
    yytranslate_at_411 yytranslate_at_412 yytranslate_at_413 yytranslate_at_414 yytranslate_at_415 yytranslate_at_416 
    yytranslate_at_417

lemmas yypact_from_0 = from_index_start [OF yypact_def, unfolded append_assoc]
lemmas yypact_at_0 = look_100 [OF yypact_from_0, unfolded index_sums]
lemmas yypact_from_100 = next_100 [OF yypact_from_0, unfolded index_sums]
lemmas yypact_at_100 = look_100 [OF yypact_from_100, unfolded index_sums]
lemmas yypact_from_200 = next_100 [OF yypact_from_100, unfolded index_sums]
lemmas yypact_at_200 = look_100 [OF yypact_from_200, unfolded index_sums]
lemmas yypact_from_300 = next_100 [OF yypact_from_200, unfolded index_sums]
lemmas yypact_at_300 = look_100 [OF yypact_from_300, unfolded index_sums]
lemmas yypact_from_400 = next_100 [OF yypact_from_300, unfolded index_sums]
lemmas yypact_at_400 = look_100 [OF yypact_from_400, unfolded index_sums]
lemmas yypact_from_500 = next_100 [OF yypact_from_400, unfolded index_sums]
lemmas yypact_at_500 = look_10 [OF yypact_from_500, unfolded index_sums]
lemmas yypact_from_510 = next_10 [OF yypact_from_500, unfolded index_sums]
lemmas yypact_at_510 = look_10 [OF yypact_from_510, unfolded index_sums]
lemmas yypact_from_520 = next_10 [OF yypact_from_510, unfolded index_sums]
lemmas yypact_at_520 = look_10 [OF yypact_from_520, unfolded index_sums]
lemmas yypact_from_530 = next_10 [OF yypact_from_520, unfolded index_sums]
lemmas yypact_at_530 = look_10 [OF yypact_from_530, unfolded index_sums]
lemmas yypact_from_540 = next_10 [OF yypact_from_530, unfolded index_sums]
lemmas yypact_at_540 = look_1 [OF yypact_from_540, unfolded index_sums]
lemmas yypact_from_541 = next_1 [OF yypact_from_540, unfolded index_sums]
lemmas yypact_at_541 = look_1 [OF yypact_from_541, unfolded index_sums]
lemmas yypact_from_542 = next_1 [OF yypact_from_541, unfolded index_sums]
lemmas yypact_at_542 = look_1 [OF yypact_from_542, unfolded index_sums]
lemmas yypact_from_543 = next_1 [OF yypact_from_542, unfolded index_sums]
lemmas yypact_at_543 = look_1 [OF yypact_from_543, unfolded index_sums]
lemmas yypact_from_544 = next_1 [OF yypact_from_543, unfolded index_sums]
lemmas yypact_at_544 = look_1 [OF yypact_from_544, unfolded index_sums]
lemmas yypact_from_545 = next_1 [OF yypact_from_544, unfolded index_sums]
lemmas yypact_at_545 = look_1 [OF yypact_from_545, unfolded index_sums]
lemmas yypact_from_546 = next_1 [OF yypact_from_545, unfolded index_sums]
lemmas yypact_at_546 = look_1 [OF yypact_from_546, unfolded index_sums]
lemmas yypact_from_547 = next_1 [OF yypact_from_546, unfolded index_sums]
lemmas yypact_at_547 = look_1 [OF yypact_from_547, unfolded index_sums]
lemmas yypact_from_548 = next_1 [OF yypact_from_547, unfolded index_sums]
lemmas yypact_at_548 = look_1 [OF yypact_from_548, unfolded index_sums]
lemmas yypact_from_549 = next_1 [OF yypact_from_548, unfolded index_sums]
lemmas yypact_outside [simp] = from_index_end [OF yypact_from_549]
lemmas yypact_entries [simp] =
  yypact_at_0 yypact_at_100 yypact_at_200 yypact_at_300 yypact_at_400 yypact_at_500 
    yypact_at_510 yypact_at_520 yypact_at_530 yypact_at_540 yypact_at_541 yypact_at_542 
    yypact_at_543 yypact_at_544 yypact_at_545 yypact_at_546 yypact_at_547 yypact_at_548

lemmas yydefact_from_0 = from_index_start [OF yydefact_def, unfolded append_assoc]
lemmas yydefact_at_0 = look_100 [OF yydefact_from_0, unfolded index_sums]
lemmas yydefact_from_100 = next_100 [OF yydefact_from_0, unfolded index_sums]
lemmas yydefact_at_100 = look_100 [OF yydefact_from_100, unfolded index_sums]
lemmas yydefact_from_200 = next_100 [OF yydefact_from_100, unfolded index_sums]
lemmas yydefact_at_200 = look_100 [OF yydefact_from_200, unfolded index_sums]
lemmas yydefact_from_300 = next_100 [OF yydefact_from_200, unfolded index_sums]
lemmas yydefact_at_300 = look_100 [OF yydefact_from_300, unfolded index_sums]
lemmas yydefact_from_400 = next_100 [OF yydefact_from_300, unfolded index_sums]
lemmas yydefact_at_400 = look_100 [OF yydefact_from_400, unfolded index_sums]
lemmas yydefact_from_500 = next_100 [OF yydefact_from_400, unfolded index_sums]
lemmas yydefact_at_500 = look_10 [OF yydefact_from_500, unfolded index_sums]
lemmas yydefact_from_510 = next_10 [OF yydefact_from_500, unfolded index_sums]
lemmas yydefact_at_510 = look_10 [OF yydefact_from_510, unfolded index_sums]
lemmas yydefact_from_520 = next_10 [OF yydefact_from_510, unfolded index_sums]
lemmas yydefact_at_520 = look_10 [OF yydefact_from_520, unfolded index_sums]
lemmas yydefact_from_530 = next_10 [OF yydefact_from_520, unfolded index_sums]
lemmas yydefact_at_530 = look_10 [OF yydefact_from_530, unfolded index_sums]
lemmas yydefact_from_540 = next_10 [OF yydefact_from_530, unfolded index_sums]
lemmas yydefact_at_540 = look_1 [OF yydefact_from_540, unfolded index_sums]
lemmas yydefact_from_541 = next_1 [OF yydefact_from_540, unfolded index_sums]
lemmas yydefact_at_541 = look_1 [OF yydefact_from_541, unfolded index_sums]
lemmas yydefact_from_542 = next_1 [OF yydefact_from_541, unfolded index_sums]
lemmas yydefact_at_542 = look_1 [OF yydefact_from_542, unfolded index_sums]
lemmas yydefact_from_543 = next_1 [OF yydefact_from_542, unfolded index_sums]
lemmas yydefact_at_543 = look_1 [OF yydefact_from_543, unfolded index_sums]
lemmas yydefact_from_544 = next_1 [OF yydefact_from_543, unfolded index_sums]
lemmas yydefact_at_544 = look_1 [OF yydefact_from_544, unfolded index_sums]
lemmas yydefact_from_545 = next_1 [OF yydefact_from_544, unfolded index_sums]
lemmas yydefact_at_545 = look_1 [OF yydefact_from_545, unfolded index_sums]
lemmas yydefact_from_546 = next_1 [OF yydefact_from_545, unfolded index_sums]
lemmas yydefact_at_546 = look_1 [OF yydefact_from_546, unfolded index_sums]
lemmas yydefact_from_547 = next_1 [OF yydefact_from_546, unfolded index_sums]
lemmas yydefact_at_547 = look_1 [OF yydefact_from_547, unfolded index_sums]
lemmas yydefact_from_548 = next_1 [OF yydefact_from_547, unfolded index_sums]
lemmas yydefact_at_548 = look_1 [OF yydefact_from_548, unfolded index_sums]
lemmas yydefact_from_549 = next_1 [OF yydefact_from_548, unfolded index_sums]
lemmas yydefact_outside [simp] = from_index_end [OF yydefact_from_549]
lemmas yydefact_entries [simp] =
  yydefact_at_0 yydefact_at_100 yydefact_at_200 yydefact_at_300 yydefact_at_400 yydefact_at_500 
    yydefact_at_510 yydefact_at_520 yydefact_at_530 yydefact_at_540 yydefact_at_541 yydefact_at_542 
    yydefact_at_543 yydefact_at_544 yydefact_at_545 yydefact_at_546 yydefact_at_547 yydefact_at_548

lemmas yypgoto_from_0 = from_index_start [OF yypgoto_def, unfolded append_assoc]
lemmas yypgoto_at_0 = look_100 [OF yypgoto_from_0, unfolded index_sums]
lemmas yypgoto_from_100 = next_100 [OF yypgoto_from_0, unfolded index_sums]
lemmas yypgoto_at_100 = look_10 [OF yypgoto_from_100, unfolded index_sums]
lemmas yypgoto_from_110 = next_10 [OF yypgoto_from_100, unfolded index_sums]
lemmas yypgoto_at_110 = look_10 [OF yypgoto_from_110, unfolded index_sums]
lemmas yypgoto_from_120 = next_10 [OF yypgoto_from_110, unfolded index_sums]
lemmas yypgoto_outside [simp] = from_index_end [OF yypgoto_from_120]
lemmas yypgoto_entries [simp] =
  yypgoto_at_0 yypgoto_at_100 yypgoto_at_110

lemmas yydefgoto_from_0 = from_index_start [OF yydefgoto_def, unfolded append_assoc]
lemmas yydefgoto_at_0 = look_100 [OF yydefgoto_from_0, unfolded index_sums]
lemmas yydefgoto_from_100 = next_100 [OF yydefgoto_from_0, unfolded index_sums]
lemmas yydefgoto_at_100 = look_10 [OF yydefgoto_from_100, unfolded index_sums]
lemmas yydefgoto_from_110 = next_10 [OF yydefgoto_from_100, unfolded index_sums]
lemmas yydefgoto_at_110 = look_10 [OF yydefgoto_from_110, unfolded index_sums]
lemmas yydefgoto_from_120 = next_10 [OF yydefgoto_from_110, unfolded index_sums]
lemmas yydefgoto_outside [simp] = from_index_end [OF yydefgoto_from_120]
lemmas yydefgoto_entries [simp] =
  yydefgoto_at_0 yydefgoto_at_100 yydefgoto_at_110

lemmas yytable_from_0 = from_index_start [OF yytable_def, unfolded append_assoc]
lemmas yytable_at_0 = look_100 [OF yytable_from_0, unfolded index_sums]
lemmas yytable_from_100 = next_100 [OF yytable_from_0, unfolded index_sums]
lemmas yytable_at_100 = look_100 [OF yytable_from_100, unfolded index_sums]
lemmas yytable_from_200 = next_100 [OF yytable_from_100, unfolded index_sums]
lemmas yytable_at_200 = look_100 [OF yytable_from_200, unfolded index_sums]
lemmas yytable_from_300 = next_100 [OF yytable_from_200, unfolded index_sums]
lemmas yytable_at_300 = look_100 [OF yytable_from_300, unfolded index_sums]
lemmas yytable_from_400 = next_100 [OF yytable_from_300, unfolded index_sums]
lemmas yytable_at_400 = look_100 [OF yytable_from_400, unfolded index_sums]
lemmas yytable_from_500 = next_100 [OF yytable_from_400, unfolded index_sums]
lemmas yytable_at_500 = look_100 [OF yytable_from_500, unfolded index_sums]
lemmas yytable_from_600 = next_100 [OF yytable_from_500, unfolded index_sums]
lemmas yytable_at_600 = look_100 [OF yytable_from_600, unfolded index_sums]
lemmas yytable_from_700 = next_100 [OF yytable_from_600, unfolded index_sums]
lemmas yytable_at_700 = look_100 [OF yytable_from_700, unfolded index_sums]
lemmas yytable_from_800 = next_100 [OF yytable_from_700, unfolded index_sums]
lemmas yytable_at_800 = look_10 [OF yytable_from_800, unfolded index_sums]
lemmas yytable_from_810 = next_10 [OF yytable_from_800, unfolded index_sums]
lemmas yytable_at_810 = look_10 [OF yytable_from_810, unfolded index_sums]
lemmas yytable_from_820 = next_10 [OF yytable_from_810, unfolded index_sums]
lemmas yytable_at_820 = look_10 [OF yytable_from_820, unfolded index_sums]
lemmas yytable_from_830 = next_10 [OF yytable_from_820, unfolded index_sums]
lemmas yytable_at_830 = look_10 [OF yytable_from_830, unfolded index_sums]
lemmas yytable_from_840 = next_10 [OF yytable_from_830, unfolded index_sums]
lemmas yytable_at_840 = look_10 [OF yytable_from_840, unfolded index_sums]
lemmas yytable_from_850 = next_10 [OF yytable_from_840, unfolded index_sums]
lemmas yytable_at_850 = look_10 [OF yytable_from_850, unfolded index_sums]
lemmas yytable_from_860 = next_10 [OF yytable_from_850, unfolded index_sums]
lemmas yytable_at_860 = look_10 [OF yytable_from_860, unfolded index_sums]
lemmas yytable_from_870 = next_10 [OF yytable_from_860, unfolded index_sums]
lemmas yytable_at_870 = look_10 [OF yytable_from_870, unfolded index_sums]
lemmas yytable_from_880 = next_10 [OF yytable_from_870, unfolded index_sums]
lemmas yytable_at_880 = look_1 [OF yytable_from_880, unfolded index_sums]
lemmas yytable_from_881 = next_1 [OF yytable_from_880, unfolded index_sums]
lemmas yytable_at_881 = look_1 [OF yytable_from_881, unfolded index_sums]
lemmas yytable_from_882 = next_1 [OF yytable_from_881, unfolded index_sums]
lemmas yytable_at_882 = look_1 [OF yytable_from_882, unfolded index_sums]
lemmas yytable_from_883 = next_1 [OF yytable_from_882, unfolded index_sums]
lemmas yytable_at_883 = look_1 [OF yytable_from_883, unfolded index_sums]
lemmas yytable_from_884 = next_1 [OF yytable_from_883, unfolded index_sums]
lemmas yytable_at_884 = look_1 [OF yytable_from_884, unfolded index_sums]
lemmas yytable_from_885 = next_1 [OF yytable_from_884, unfolded index_sums]
lemmas yytable_at_885 = look_1 [OF yytable_from_885, unfolded index_sums]
lemmas yytable_from_886 = next_1 [OF yytable_from_885, unfolded index_sums]
lemmas yytable_at_886 = look_1 [OF yytable_from_886, unfolded index_sums]
lemmas yytable_from_887 = next_1 [OF yytable_from_886, unfolded index_sums]
lemmas yytable_outside [simp] = from_index_end [OF yytable_from_887]
lemmas yytable_entries [simp] =
  yytable_at_0 yytable_at_100 yytable_at_200 yytable_at_300 yytable_at_400 yytable_at_500 
    yytable_at_600 yytable_at_700 yytable_at_800 yytable_at_810 yytable_at_820 yytable_at_830 
    yytable_at_840 yytable_at_850 yytable_at_860 yytable_at_870 yytable_at_880 yytable_at_881 
    yytable_at_882 yytable_at_883 yytable_at_884 yytable_at_885 yytable_at_886

lemmas yycheck_from_0 = from_index_start [OF yycheck_def, unfolded append_assoc]
lemmas yycheck_at_0 = look_100 [OF yycheck_from_0, unfolded index_sums]
lemmas yycheck_from_100 = next_100 [OF yycheck_from_0, unfolded index_sums]
lemmas yycheck_at_100 = look_100 [OF yycheck_from_100, unfolded index_sums]
lemmas yycheck_from_200 = next_100 [OF yycheck_from_100, unfolded index_sums]
lemmas yycheck_at_200 = look_100 [OF yycheck_from_200, unfolded index_sums]
lemmas yycheck_from_300 = next_100 [OF yycheck_from_200, unfolded index_sums]
lemmas yycheck_at_300 = look_100 [OF yycheck_from_300, unfolded index_sums]
lemmas yycheck_from_400 = next_100 [OF yycheck_from_300, unfolded index_sums]
lemmas yycheck_at_400 = look_100 [OF yycheck_from_400, unfolded index_sums]
lemmas yycheck_from_500 = next_100 [OF yycheck_from_400, unfolded index_sums]
lemmas yycheck_at_500 = look_100 [OF yycheck_from_500, unfolded index_sums]
lemmas yycheck_from_600 = next_100 [OF yycheck_from_500, unfolded index_sums]
lemmas yycheck_at_600 = look_100 [OF yycheck_from_600, unfolded index_sums]
lemmas yycheck_from_700 = next_100 [OF yycheck_from_600, unfolded index_sums]
lemmas yycheck_at_700 = look_100 [OF yycheck_from_700, unfolded index_sums]
lemmas yycheck_from_800 = next_100 [OF yycheck_from_700, unfolded index_sums]
lemmas yycheck_at_800 = look_10 [OF yycheck_from_800, unfolded index_sums]
lemmas yycheck_from_810 = next_10 [OF yycheck_from_800, unfolded index_sums]
lemmas yycheck_at_810 = look_10 [OF yycheck_from_810, unfolded index_sums]
lemmas yycheck_from_820 = next_10 [OF yycheck_from_810, unfolded index_sums]
lemmas yycheck_at_820 = look_10 [OF yycheck_from_820, unfolded index_sums]
lemmas yycheck_from_830 = next_10 [OF yycheck_from_820, unfolded index_sums]
lemmas yycheck_at_830 = look_10 [OF yycheck_from_830, unfolded index_sums]
lemmas yycheck_from_840 = next_10 [OF yycheck_from_830, unfolded index_sums]
lemmas yycheck_at_840 = look_10 [OF yycheck_from_840, unfolded index_sums]
lemmas yycheck_from_850 = next_10 [OF yycheck_from_840, unfolded index_sums]
lemmas yycheck_at_850 = look_10 [OF yycheck_from_850, unfolded index_sums]
lemmas yycheck_from_860 = next_10 [OF yycheck_from_850, unfolded index_sums]
lemmas yycheck_at_860 = look_10 [OF yycheck_from_860, unfolded index_sums]
lemmas yycheck_from_870 = next_10 [OF yycheck_from_860, unfolded index_sums]
lemmas yycheck_at_870 = look_10 [OF yycheck_from_870, unfolded index_sums]
lemmas yycheck_from_880 = next_10 [OF yycheck_from_870, unfolded index_sums]
lemmas yycheck_at_880 = look_1 [OF yycheck_from_880, unfolded index_sums]
lemmas yycheck_from_881 = next_1 [OF yycheck_from_880, unfolded index_sums]
lemmas yycheck_at_881 = look_1 [OF yycheck_from_881, unfolded index_sums]
lemmas yycheck_from_882 = next_1 [OF yycheck_from_881, unfolded index_sums]
lemmas yycheck_at_882 = look_1 [OF yycheck_from_882, unfolded index_sums]
lemmas yycheck_from_883 = next_1 [OF yycheck_from_882, unfolded index_sums]
lemmas yycheck_at_883 = look_1 [OF yycheck_from_883, unfolded index_sums]
lemmas yycheck_from_884 = next_1 [OF yycheck_from_883, unfolded index_sums]
lemmas yycheck_at_884 = look_1 [OF yycheck_from_884, unfolded index_sums]
lemmas yycheck_from_885 = next_1 [OF yycheck_from_884, unfolded index_sums]
lemmas yycheck_at_885 = look_1 [OF yycheck_from_885, unfolded index_sums]
lemmas yycheck_from_886 = next_1 [OF yycheck_from_885, unfolded index_sums]
lemmas yycheck_at_886 = look_1 [OF yycheck_from_886, unfolded index_sums]
lemmas yycheck_from_887 = next_1 [OF yycheck_from_886, unfolded index_sums]
lemmas yycheck_outside [simp] = from_index_end [OF yycheck_from_887]
lemmas yycheck_entries [simp] =
  yycheck_at_0 yycheck_at_100 yycheck_at_200 yycheck_at_300 yycheck_at_400 yycheck_at_500 
    yycheck_at_600 yycheck_at_700 yycheck_at_800 yycheck_at_810 yycheck_at_820 yycheck_at_830 
    yycheck_at_840 yycheck_at_850 yycheck_at_860 yycheck_at_870 yycheck_at_880 yycheck_at_881 
    yycheck_at_882 yycheck_at_883 yycheck_at_884 yycheck_at_885 yycheck_at_886

lemmas yystos_from_0 = from_index_start [OF yystos_def, unfolded append_assoc]
lemmas yystos_at_0 = look_100 [OF yystos_from_0, unfolded index_sums]
lemmas yystos_from_100 = next_100 [OF yystos_from_0, unfolded index_sums]
lemmas yystos_at_100 = look_100 [OF yystos_from_100, unfolded index_sums]
lemmas yystos_from_200 = next_100 [OF yystos_from_100, unfolded index_sums]
lemmas yystos_at_200 = look_100 [OF yystos_from_200, unfolded index_sums]
lemmas yystos_from_300 = next_100 [OF yystos_from_200, unfolded index_sums]
lemmas yystos_at_300 = look_100 [OF yystos_from_300, unfolded index_sums]
lemmas yystos_from_400 = next_100 [OF yystos_from_300, unfolded index_sums]
lemmas yystos_at_400 = look_100 [OF yystos_from_400, unfolded index_sums]
lemmas yystos_from_500 = next_100 [OF yystos_from_400, unfolded index_sums]
lemmas yystos_at_500 = look_10 [OF yystos_from_500, unfolded index_sums]
lemmas yystos_from_510 = next_10 [OF yystos_from_500, unfolded index_sums]
lemmas yystos_at_510 = look_10 [OF yystos_from_510, unfolded index_sums]
lemmas yystos_from_520 = next_10 [OF yystos_from_510, unfolded index_sums]
lemmas yystos_at_520 = look_10 [OF yystos_from_520, unfolded index_sums]
lemmas yystos_from_530 = next_10 [OF yystos_from_520, unfolded index_sums]
lemmas yystos_at_530 = look_10 [OF yystos_from_530, unfolded index_sums]
lemmas yystos_from_540 = next_10 [OF yystos_from_530, unfolded index_sums]
lemmas yystos_at_540 = look_1 [OF yystos_from_540, unfolded index_sums]
lemmas yystos_from_541 = next_1 [OF yystos_from_540, unfolded index_sums]
lemmas yystos_at_541 = look_1 [OF yystos_from_541, unfolded index_sums]
lemmas yystos_from_542 = next_1 [OF yystos_from_541, unfolded index_sums]
lemmas yystos_at_542 = look_1 [OF yystos_from_542, unfolded index_sums]
lemmas yystos_from_543 = next_1 [OF yystos_from_542, unfolded index_sums]
lemmas yystos_at_543 = look_1 [OF yystos_from_543, unfolded index_sums]
lemmas yystos_from_544 = next_1 [OF yystos_from_543, unfolded index_sums]
lemmas yystos_at_544 = look_1 [OF yystos_from_544, unfolded index_sums]
lemmas yystos_from_545 = next_1 [OF yystos_from_544, unfolded index_sums]
lemmas yystos_at_545 = look_1 [OF yystos_from_545, unfolded index_sums]
lemmas yystos_from_546 = next_1 [OF yystos_from_545, unfolded index_sums]
lemmas yystos_at_546 = look_1 [OF yystos_from_546, unfolded index_sums]
lemmas yystos_from_547 = next_1 [OF yystos_from_546, unfolded index_sums]
lemmas yystos_at_547 = look_1 [OF yystos_from_547, unfolded index_sums]
lemmas yystos_from_548 = next_1 [OF yystos_from_547, unfolded index_sums]
lemmas yystos_at_548 = look_1 [OF yystos_from_548, unfolded index_sums]
lemmas yystos_from_549 = next_1 [OF yystos_from_548, unfolded index_sums]
lemmas yystos_outside [simp] = from_index_end [OF yystos_from_549]
lemmas yystos_entries [simp] =
  yystos_at_0 yystos_at_100 yystos_at_200 yystos_at_300 yystos_at_400 yystos_at_500 
    yystos_at_510 yystos_at_520 yystos_at_530 yystos_at_540 yystos_at_541 yystos_at_542 
    yystos_at_543 yystos_at_544 yystos_at_545 yystos_at_546 yystos_at_547 yystos_at_548

lemmas yyr1_from_0 = from_index_start [OF yyr1_def, unfolded append_assoc]
lemmas yyr1_at_0 = look_100 [OF yyr1_from_0, unfolded index_sums]
lemmas yyr1_from_100 = next_100 [OF yyr1_from_0, unfolded index_sums]
lemmas yyr1_at_100 = look_100 [OF yyr1_from_100, unfolded index_sums]
lemmas yyr1_from_200 = next_100 [OF yyr1_from_100, unfolded index_sums]
lemmas yyr1_at_200 = look_100 [OF yyr1_from_200, unfolded index_sums]
lemmas yyr1_from_300 = next_100 [OF yyr1_from_200, unfolded index_sums]
lemmas yyr1_at_300 = look_1 [OF yyr1_from_300, unfolded index_sums]
lemmas yyr1_from_301 = next_1 [OF yyr1_from_300, unfolded index_sums]
lemmas yyr1_at_301 = look_1 [OF yyr1_from_301, unfolded index_sums]
lemmas yyr1_from_302 = next_1 [OF yyr1_from_301, unfolded index_sums]
lemmas yyr1_at_302 = look_1 [OF yyr1_from_302, unfolded index_sums]
lemmas yyr1_from_303 = next_1 [OF yyr1_from_302, unfolded index_sums]
lemmas yyr1_outside [simp] = from_index_end [OF yyr1_from_303]
lemmas yyr1_entries [simp] =
  yyr1_at_0 yyr1_at_100 yyr1_at_200 yyr1_at_300 yyr1_at_301 yyr1_at_302

lemmas yyr2_from_0 = from_index_start [OF yyr2_def, unfolded append_assoc]
lemmas yyr2_at_0 = look_100 [OF yyr2_from_0, unfolded index_sums]
lemmas yyr2_from_100 = next_100 [OF yyr2_from_0, unfolded index_sums]
lemmas yyr2_at_100 = look_100 [OF yyr2_from_100, unfolded index_sums]
lemmas yyr2_from_200 = next_100 [OF yyr2_from_100, unfolded index_sums]
lemmas yyr2_at_200 = look_100 [OF yyr2_from_200, unfolded index_sums]
lemmas yyr2_from_300 = next_100 [OF yyr2_from_200, unfolded index_sums]
lemmas yyr2_at_300 = look_1 [OF yyr2_from_300, unfolded index_sums]
lemmas yyr2_from_301 = next_1 [OF yyr2_from_300, unfolded index_sums]
lemmas yyr2_at_301 = look_1 [OF yyr2_from_301, unfolded index_sums]
lemmas yyr2_from_302 = next_1 [OF yyr2_from_301, unfolded index_sums]
lemmas yyr2_at_302 = look_1 [OF yyr2_from_302, unfolded index_sums]
lemmas yyr2_from_303 = next_1 [OF yyr2_from_302, unfolded index_sums]
lemmas yyr2_outside [simp] = from_index_end [OF yyr2_from_303]
lemmas yyr2_entries [simp] =
  yyr2_at_0 yyr2_at_100 yyr2_at_200 yyr2_at_300 yyr2_at_301 yyr2_at_302

end
