(* ===== verification/Parser.thy ===== *)
theory Parser
  imports Scanner Grammar ParseTables
begin

text \<open>
  The parser that bison generated (\<open>yyparse\<close> in \<open>parser/bison_parser.cpp\<close>): the stacks, the
  tables, the default location of a reduction, the actions of \<open>Grammar\<close>, the message about an
  unexpected symbol and the error recovery. The stacks are lists with the top in front. One
  step goes from the label \<open>yysetstate\<close> to the next arrival there or to a return; the loop of
  the steps may in principle not end. A read outside a table is \<open>OutOfBounds\<close>.
\<close>

section \<open>Reading the tables\<close>

definition entry :: "int list \<Rightarrow> int \<Rightarrow> int res" where
  "entry T i = (case look T i of None \<Rightarrow> Inl OutOfBounds | Some x \<Rightarrow> Inr x)"

lemma entry_simps [simp]: "look T i = Some x \<Longrightarrow> entry T i = Inr x"
  by (simp add: entry_def)

definition YYFINAL :: int where "YYFINAL = 67"
definition YYLAST :: int where "YYLAST = 886"
definition YYNTOKENS :: int where "YYNTOKENS = 180"
definition YYINITDEPTH :: nat where "YYINITDEPTH = 200"
definition YYEMPTY :: int where "YYEMPTY = -2"
definition YYEOF :: int where "YYEOF = 0"
definition YYTERROR :: int where "YYTERROR = 1"
definition YYUNDEFTOK :: int where "YYUNDEFTOK = 2"
definition YYMAXUTOK :: int where "YYMAXUTOK = 417"
definition YYPACT_NINF :: int where "YYPACT_NINF = -321"
definition YYTABLE_NINF :: int where "YYTABLE_NINF = -300"

lemmas yy_consts = YYFINAL_def YYLAST_def YYNTOKENS_def YYINITDEPTH_def YYEMPTY_def YYEOF_def
  YYTERROR_def YYUNDEFTOK_def YYMAXUTOK_def YYPACT_NINF_def YYTABLE_NINF_def

definition YYTRANSLATE :: "int \<Rightarrow> int res" where
  "YYTRANSLATE x = (if 0 \<le> x \<and> x \<le> YYMAXUTOK then entry yytranslate x else Inr YYUNDEFTOK)"

definition yypact_value_is_default :: "int \<Rightarrow> bool" where
  "yypact_value_is_default n \<longleftrightarrow> n = YYPACT_NINF"

definition yytable_value_is_error :: "int \<Rightarrow> bool" where
  "yytable_value_is_error n \<longleftrightarrow> n = YYTABLE_NINF"

section \<open>The state of the parser\<close>

text \<open>\<open>yyval\<close> of an empty rule is what the stack holds above its top; it is not looked at.\<close>

record parser =
  yyss :: "int list"
  yyvs :: "YYSTYPE list"
  yyls :: "YYLTYPE list"
  yychar :: int
  yylval :: YYSTYPE
  yylloc :: YYLTYPE
  yyloc :: YYLTYPE
  yyerrstatus :: nat
  yyscanner :: lexer
  yyresult :: SQLParserResult

text \<open>\<open>YYLLOC_DEFAULT\<close> over the top \<open>n\<close> locations.\<close>

definition YYLLOC_DEFAULT :: "nat \<Rightarrow> YYLTYPE list \<Rightarrow> YYLTYPE \<Rightarrow> YYLTYPE res" where
  "YYLLOC_DEFAULT n ls cur =
     (if n \<noteq> 0 then
        bindR (nthR ls (n - 1)) (\<lambda>a. bindR (nthR ls 0) (\<lambda>z.
        Inr (cur\<lparr>first_line := first_line a, first_column := first_column a,
                 last_line := last_line z, last_column := last_column z\<rparr>)))
      else
        bindR (nthR ls 0) (\<lambda>z.
        Inr (cur\<lparr>first_line := last_line z, last_line := last_line z,
                 first_column := last_column z, last_column := last_column z\<rparr>)))"

definition yyerror :: "YYLTYPE \<Rightarrow> string \<Rightarrow> SQLParserResult \<Rightarrow> SQLParserResult" where
  "yyerror llocp msg r = setErrorDetails (Some msg) (first_line llocp) (first_column llocp) (setIsValid False r)"

section \<open>The actions that touch more than their value\<close>

text \<open>
  Rule \<open>input\<close>: the statements go to the result; then every parameter gets its number, written
  into its node, and is added to the result.
\<close>

definition act_input :: "vals \<Rightarrow> parser \<Rightarrow> SQLParserResult res" where
  "act_input v p = get v of_stmt_vec 1 (\<lambda>stmts.
     let ps = param_list (yyloc p);
         r = fold addStatement (map num_stmt stmts) (yyresult p)
     in Inr (fold (\<lambda>k. addParameter (set_ival (int k) (param_node stmts ps k))) [0..<length ps] r))"

definition act_statement_list :: "int \<Rightarrow> vals \<Rightarrow> YYSTYPE res" where
  "act_statement_list yyn v =
     (if yyn = 3 then get v of_statement 0 (\<lambda>s. Inr (U_stmt_vec ([] @ [s])))
      else get v of_stmt_vec 2 (\<lambda>ss. get v of_statement 0 (\<lambda>s. Inr (U_stmt_vec (ss @ [s])))))"

text \<open>Rule \<open>param_expr\<close>: the place in the list of parameters is kept in the node.\<close>

definition act_param :: "parser \<Rightarrow> Expr" where
  "act_param p =
     (let e = makeParameter (total_column (yylloc p)) in
      mkExpr (e_type e) (e_expr e) (e_expr2 e) (e_exprList e) (e_select e) (e_name e) (e_table e) (e_alias e)
        (e_fval e) (e_ival e) (int (length (param_list (yyloc p)))) (e_datetimeField e) (e_columnType e)
        (e_isBoolLiteral e) (e_opType e) (e_distinct e))"

text \<open>The rules whose action only computes a value.\<close>

definition yyaction_pure :: "int \<Rightarrow> vals \<Rightarrow> YYSTYPE res" where
  "yyaction_pure yyn v =
     (if yyn \<le> 150 then
        (if yyn \<le> 56 then
           (if yyn \<le> 19 then act_statement yyn v else if yyn \<le> 34 then act_hints yyn v
            else if yyn \<le> 44 then act_import yyn v else act_create yyn v)
         else if yyn \<le> 75 then act_column_type yyn v else if yyn \<le> 85 then act_constraint yyn v
         else if yyn \<le> 94 then act_drop yyn v else if yyn \<le> 104 then act_modify yyn v
         else if yyn \<le> 122 then act_select yyn v else act_clause yyn v)
      else
        (if yyn \<le> 173 then act_expr yyn v else if yyn \<le> 193 then act_operator yyn v
         else if yyn \<le> 205 then act_in_case yyn v else if yyn \<le> 212 then act_operator yyn v
         else if yyn \<le> 233 then act_function yyn v else if yyn \<le> 253 then act_literal yyn v
         else if yyn \<le> 278 then act_table yyn v else if yyn \<le> 284 then act_with yyn v
         else act_join yyn v))"

text \<open>The rules without an action: \<open>$$ = $1\<close>.\<close>

definition no_action :: "int \<Rightarrow> bool" where
  "no_action yyn \<longleftrightarrow> yyn \<in> set [29, 30, 32, 108, 109, 125, 158, 159, 160, 161, 162, 164, 165, 166, 167,
     168, 169, 170, 171, 172, 174, 175, 181, 229, 230, 238, 239, 240, 241, 242, 243, 244, 249, 257, 259,
     260, 261, 271, 273, 277, 279, 298, 299, 300]"

definition value_or_error :: "outcome \<Rightarrow> parser \<Rightarrow> YYSTYPE option \<times> parser" where
  "value_or_error out p =
     (case out of
        Value y \<Rightarrow> (Some y, p)
      | Error msg \<Rightarrow> (None, p\<lparr>yyresult := yyerror (yyloc p) msg (yyresult p)\<rparr>))"

text \<open>The switch over the rules: \<open>yyval\<close>, or nothing after \<open>YYERROR\<close>, and the state.\<close>

definition yyaction :: "int \<Rightarrow> nat \<Rightarrow> parser \<Rightarrow> (YYSTYPE option \<times> parser) res" where
  "yyaction yyn yylen p =
     (let v = nthR (yyvs p) in
      if no_action yyn then
        (if yylen = 0 then Inr (Some U_undef, p) else bindR (v (yylen - 1)) (\<lambda>y. Inr (Some y, p)))
      else if yyn = 2 then bindR (act_input v p) (\<lambda>r. Inr (Some U_undef, p\<lparr>yyresult := r\<rparr>))
      else if yyn \<le> 4 then bindR (act_statement_list yyn v) (\<lambda>y.
        Inr (Some y, p\<lparr>yylloc := (yylloc p)\<lparr>string_length := 0\<rparr>\<rparr>))
      else if yyn = 37 then bindR (act_file_type v) (\<lambda>out. Inr (value_or_error out p))
      else if yyn = 45 then bindR (act_create_from v) (\<lambda>out. Inr (value_or_error out p))
      else if yyn = 252 then bindR (act_date v) (\<lambda>out. Inr (value_or_error out p))
      else if yyn = 254 then bindR (act_interval v) (\<lambda>out. Inr (value_or_error out p))
      else if yyn = 255 then bindR (act_interval_string v) (\<lambda>out. Inr (value_or_error out p))
      else if yyn = 256 then
        Inr (Some (U_expr (Some (act_param p))),
          p\<lparr>yyloc := (yyloc p)\<lparr>param_list := param_list (yyloc p) @ [act_param p]\<rparr>\<rparr>)
      else bindR (yyaction_pure yyn v) (\<lambda>y. Inr (Some y, p)))"

section \<open>The message about an unexpected symbol\<close>

definition in_quotes :: "string \<Rightarrow> string" where
  "in_quotes s = [CHR 0x27] @ s @ [CHR 0x27]"

definition yytname :: "string list" where
  "yytname =
    [''$end'', ''error'', ''$undefined'', ''IDENTIFIER'', ''STRING'', ''FLOATVAL'', ''INTVAL'',
     ''DEALLOCATE'', ''PARAMETERS'', ''INTERSECT'', ''TEMPORARY'', ''TIMESTAMP'', ''DISTINCT'',
     ''NVARCHAR'', ''RESTRICT'', ''TRUNCATE'', ''ANALYZE'', ''BETWEEN'', ''CASCADE'', ''COLUMNS'',
     ''CONTROL'', ''DEFAULT'', ''EXECUTE'', ''EXPLAIN'', ''INTEGER'', ''NATURAL'', ''PREPARE'',
     ''PRIMARY'', ''SCHEMAS'', ''CHARACTER'', ''VARYING'', ''REAL'', ''DECIMAL'', ''SPATIAL'',
     ''VARCHAR'', ''VIRTUAL'', ''DESCRIBE'', ''BEFORE'', ''COLUMN'', ''CREATE'', ''DELETE'',
     ''DIRECT'', ''DOUBLE'', ''ESCAPE'', ''EXCEPT'', ''EXISTS'', ''EXTRACT'', ''CAST'', ''FORMAT'',
     ''GLOBAL'', ''HAVING'', ''IMPORT'', ''INSERT'', ''ISNULL'', ''OFFSET'', ''RENAME'', ''SCHEMA'',
     ''SELECT'', ''SORTED'', ''TABLES'', ''UNIQUE'', ''UNLOAD'', ''UPDATE'', ''VALUES'', ''AFTER'',
     ''ALTER'', ''CROSS'', ''DELTA'', ''FLOAT'', ''GROUP'', ''INDEX'', ''INNER'', ''LIMIT'',
     ''LOCAL'', ''MERGE'', ''MINUS'', ''ORDER'', ''OUTER'', ''RIGHT'', ''TABLE'', ''UNION'',
     ''USING'', ''WHERE'', ''CALL'', ''CASE'', ''CHAR'', ''COPY'', ''DATE'', ''DATETIME'', ''DESC'',
     ''DROP'', ''ELSE'', ''FILE'', ''FROM'', ''FULL'', ''HASH'', ''HINT'', ''INTO'', ''JOIN'',
     ''LEFT'', ''LIKE'', ''LOAD'', ''LONG'', ''NULL'', ''PLAN'', ''SHOW'', ''TEXT'', ''THEN'',
     ''TIME'', ''VIEW'', ''WHEN'', ''WITH'', ''ADD'', ''ALL'', ''AND'', ''ASC'', ''END'', ''FOR'',
     ''INT'', ''KEY'', ''NOT'', ''OFF'', ''SET'', ''TOP'', ''AS'', ''BY'', ''IF'', ''IN'', ''IS'',
     ''OF'', ''ON'', ''OR'', ''TO'', ''ARRAY'', ''CONCAT'', ''ILIKE'', ''SECOND'', ''MINUTE'',
     ''HOUR'', ''DAY'', ''MONTH'', ''YEAR'', ''SECONDS'', ''MINUTES'', ''HOURS'', ''DAYS'',
     ''MONTHS'', ''YEARS'', ''INTERVAL'', ''TRUE'', ''FALSE'', ''TRANSACTION'', ''BEGIN'',
     ''COMMIT'', ''ROLLBACK'', in_quotes ''='', ''EQUALS'', ''NOTEQUALS'', in_quotes ''<'',
     in_quotes ''>'', ''LESS'', ''GREATER'', ''LESSEQ'', ''GREATEREQ'', ''NOTNULL'',
     in_quotes ''+'', in_quotes ''-'', in_quotes ''*'', in_quotes ''/'', in_quotes ''%'',
     in_quotes ''^'', ''UMINUS'', in_quotes ''['', in_quotes '']'', in_quotes ''('',
     in_quotes '')'', in_quotes ''.'', in_quotes '';'', in_quotes '','', in_quotes ''?'',
     ''$accept'', ''input'', ''statement_list'', ''statement'', ''preparable_statement'',
     ''opt_hints'', ''hint_list'', ''hint'', ''transaction_statement'', ''opt_transaction_keyword'',
     ''prepare_statement'', ''prepare_target_query'', ''execute_statement'', ''import_statement'',
     ''file_type'', ''file_path'', ''opt_file_type'', ''export_statement'', ''show_statement'',
     ''create_statement'', ''opt_not_exists'', ''table_elem_commalist'', ''table_elem'',
     ''column_def'', ''column_type'', ''opt_time_specification'', ''opt_decimal_specification'',
     ''opt_column_constraints'', ''column_constraint_list'', ''column_constraint'',
     ''table_constraint'', ''drop_statement'', ''opt_exists'', ''alter_statement'',
     ''alter_action'', ''drop_action'', ''delete_statement'', ''truncate_statement'',
     ''insert_statement'', ''opt_column_list'', ''update_statement'', ''update_clause_commalist'',
     ''update_clause'', ''select_statement'', ''select_within_set_operation'',
     ''select_within_set_operation_no_parentheses'', ''select_with_paren'', ''select_no_paren'',
     ''set_operator'', ''set_type'', ''opt_all'', ''select_clause'', ''opt_distinct'',
     ''select_list'', ''opt_from_clause'', ''from_clause'', ''opt_where'', ''opt_group'',
     ''opt_having'', ''opt_order'', ''order_list'', ''order_desc'', ''opt_order_type'', ''opt_top'',
     ''opt_limit'', ''expr_list'', ''opt_literal_list'', ''literal_list'', ''expr_alias'', ''expr'',
     ''operand'', ''scalar_expr'', ''unary_expr'', ''binary_expr'', ''logic_expr'', ''in_expr'',
     ''case_expr'', ''case_list'', ''exists_expr'', ''comp_expr'', ''function_expr'',
     ''extract_expr'', ''cast_expr'', ''datetime_field'', ''datetime_field_plural'',
     ''duration_field'', ''array_expr'', ''array_index'', ''between_expr'', ''column_name'',
     ''literal'', ''string_literal'', ''bool_literal'', ''num_literal'', ''int_literal'',
     ''null_literal'', ''date_literal'', ''interval_literal'', ''param_expr'', ''table_ref'',
     ''table_ref_atomic'', ''nonjoin_table_ref_atomic'', ''table_ref_commalist'',
     ''table_ref_name'', ''table_ref_name_no_alias'', ''table_name'', ''opt_index_name'',
     ''table_alias'', ''opt_table_alias'', ''alias'', ''opt_alias'', ''opt_with_clause'',
     ''with_clause'', ''with_description_list'', ''with_description'', ''join_clause'',
     ''opt_join_type'', ''join_condition'', ''opt_semicolon'', ''ident_commalist'']"

text \<open>\<open>yytnamerr\<close> only strips double quotes, and no name begins with one.\<close>

definition yytnamerr :: "int \<Rightarrow> string res" where
  "yytnamerr x = nthR yytname (nat x)"

text \<open>The symbols with an action in the state whose entry in \<open>yypact\<close> is \<open>n\<close>.\<close>

definition expected_symbols :: "int \<Rightarrow> int list" where
  "expected_symbols n =
     filter (\<lambda>x. look yycheck (x + n) = Some x \<and> x \<noteq> YYTERROR \<and>
              (case look yytable (x + n) of Some t \<Rightarrow> \<not> yytable_value_is_error t | None \<Rightarrow> False))
       (map int [nat (if n < 0 then - n else 0)..<nat (min (YYLAST - n + 1) YYNTOKENS)])"

definition or_list :: "string list \<Rightarrow> string" where
  "or_list names = (case names of [] \<Rightarrow> [] | x # xs \<Rightarrow> '', expecting '' @ x @ concat (map (\<lambda>y. '' or '' @ y) xs))"

text \<open>More than four expected symbols are not listed.\<close>

definition yysyntax_error :: "int \<Rightarrow> int \<Rightarrow> string res" where
  "yysyntax_error yystate yytoken =
     (if yytoken = YYEMPTY then Inr ''syntax error''
      else
        bindR (entry yypact yystate) (\<lambda>n.
        bindR (yytnamerr yytoken) (\<lambda>unexpected.
        let xs = (if yypact_value_is_default n then [] else expected_symbols n) in
        bindR (foldR (\<lambda>x names. bindR (yytnamerr x) (\<lambda>y. Inr (names @ [y])))
                 (if length xs > 4 then [] else xs) []) (\<lambda>names.
        Inr (''syntax error, unexpected '' @ unexpected @ or_list names)))))"

section \<open>One step\<close>

text \<open>A step arrives at \<open>yysetstate\<close> again, with the new state on the stack, or returns.\<close>

datatype step = Goto parser | Return int SQLParserResult

text \<open>
  Popping until a state can shift the error symbol: how many were popped, the state to go to
  and the location of what was popped last; or nothing, when the stack is used up.
\<close>

fun yyerr_pop :: "int list \<Rightarrow> YYLTYPE list \<Rightarrow> nat \<Rightarrow> YYLTYPE \<Rightarrow> (nat \<times> int \<times> YYLTYPE) option res" where
  "yyerr_pop [] ls k range1 = Inl OutOfBounds"
| "yyerr_pop (s # ss) ls k range1 =
     bindR (entry yypact s) (\<lambda>n.
     bindR (let m = n + YYTERROR in
            if yypact_value_is_default n \<or> m < 0 \<or> YYLAST < m then Inr 0
            else bindR (entry yycheck m) (\<lambda>c. if c = YYTERROR then entry yytable m else Inr 0)) (\<lambda>t.
     if 0 < t then Inr (Some (k, t, range1))
     else if ss = [] then Inr None
     else bindR (nthR ls 0) (\<lambda>l. yyerr_pop ss (tl ls) (k + 1) l)))"

text \<open>The label \<open>yyerrlab1\<close>; \<open>range1\<close> is where the error began.\<close>

definition yyerrlab1 :: "YYLTYPE \<Rightarrow> parser \<Rightarrow> step res" where
  "yyerrlab1 range1 p =
     bindR (yyerr_pop (yyss p) (yyls p) 0 range1) (\<lambda>found.
     case found of
       None \<Rightarrow> Inr (Return 1 (yyresult p))
     | Some (k, t, range1) \<Rightarrow>
         bindR (YYLLOC_DEFAULT 2 [yylloc p, range1] (yyloc p)) (\<lambda>loc.
         Inr (Goto (p\<lparr>yyloc := loc, yyss := t # drop k (yyss p), yyvs := yylval p # drop k (yyvs p),
           yyls := loc # drop k (yyls p), yyerrstatus := 3\<rparr>))))"

definition yyerrlab :: "int \<Rightarrow> parser \<Rightarrow> step res" where
  "yyerrlab yystate p =
     bindR (if yychar p = YYEMPTY then Inr YYEMPTY else YYTRANSLATE (yychar p)) (\<lambda>yytoken.
     bindR (if yyerrstatus p = 0
            then bindR (yysyntax_error yystate yytoken) (\<lambda>msg.
              Inr (p\<lparr>yyresult := yyerror (yylloc p) msg (yyresult p)\<rparr>))
            else Inr p) (\<lambda>p.
     if yyerrstatus p = 3 then
       (if yychar p \<le> YYEOF then
          (if yychar p = YYEOF then Inr (Return 1 (yyresult p)) else yyerrlab1 (yylloc p) p)
        else yyerrlab1 (yylloc p) (p\<lparr>yychar := YYEMPTY\<rparr>))
     else yyerrlab1 (yylloc p) p))"

text \<open>Behind an action: the value is pushed and the state follows from the symbol reduced to.\<close>

definition yygoto :: "int \<Rightarrow> YYSTYPE \<Rightarrow> parser \<Rightarrow> step res" where
  "yygoto yyn y p =
     bindR (entry yyr1 yyn) (\<lambda>r1.
     bindR (nthR (yyss p) 0) (\<lambda>s.
     bindR (entry yypgoto (r1 - YYNTOKENS)) (\<lambda>g.
     let i = g + s in
     bindR (if 0 \<le> i \<and> i \<le> YYLAST then
              bindR (entry yycheck i) (\<lambda>c. if c = s then entry yytable i
                else entry yydefgoto (r1 - YYNTOKENS))
            else entry yydefgoto (r1 - YYNTOKENS)) (\<lambda>t.
     Inr (Goto (p\<lparr>yyss := t # yyss p, yyvs := y # yyvs p, yyls := yyloc p # yyls p\<rparr>))))))"

text \<open>\<open>YYPOPSTACK\<close>.\<close>

definition yypop :: "nat \<Rightarrow> parser \<Rightarrow> parser" where
  "yypop n p = p\<lparr>yyss := drop n (yyss p), yyvs := drop n (yyvs p), yyls := drop n (yyls p)\<rparr>"

definition yyreduce :: "int \<Rightarrow> parser \<Rightarrow> step res" where
  "yyreduce yyn p =
     bindR (entry yyr2 yyn) (\<lambda>len.
     let yylen = nat len in
     bindR (YYLLOC_DEFAULT yylen (yyls p) (yyloc p)) (\<lambda>loc.
     bindR (yyaction yyn yylen (p\<lparr>yyloc := loc\<rparr>)) (\<lambda>(yyval, p).
     case yyval of
       None \<Rightarrow> yyerrlab1 loc (yypop yylen p)
     | Some y \<Rightarrow> yygoto yyn y (yypop yylen p))))"

definition yydefault :: "int \<Rightarrow> parser \<Rightarrow> step res" where
  "yydefault yystate p =
     bindR (entry yydefact yystate) (\<lambda>yyn. if yyn = 0 then yyerrlab yystate p else yyreduce yyn p)"

definition yyshift :: "int \<Rightarrow> parser \<Rightarrow> parser" where
  "yyshift t p =
     p\<lparr>yyerrstatus := yyerrstatus p - 1, yyss := t # yyss p, yyvs := yylval p # yyvs p,
       yyls := yylloc p # yyls p, yychar := YYEMPTY\<rparr>"

text \<open>Reading the lookahead, if there is none.\<close>

definition yyread :: "(string \<Rightarrow> u64) \<Rightarrow> parser \<Rightarrow> parser res" where
  "yyread atof p =
     (if yychar p = YYEMPTY then
        bindR (must_return (yylex atof (yyscanner p) (yylval p) (yylloc p))) (\<lambda>(token, lx, lval, lloc).
        Inr (p\<lparr>yychar := token, yyscanner := lx, yylval := lval, yylloc := lloc\<rparr>))
      else Inr p)"

text \<open>The table's answer to the lookahead \<open>yytoken\<close> when the entry of the state is \<open>n\<close>.\<close>

definition yydecide :: "int \<Rightarrow> int \<Rightarrow> int \<Rightarrow> parser \<Rightarrow> step res" where
  "yydecide n yytoken yystate p =
     (let m = n + yytoken in
      if m < 0 \<or> YYLAST < m then yydefault yystate p
      else bindR (entry yycheck m) (\<lambda>c.
        if c \<noteq> yytoken then yydefault yystate p
        else bindR (entry yytable m) (\<lambda>t.
          if t \<le> 0 then
            (if yytable_value_is_error t then yyerrlab yystate p else yyreduce (- t) p)
          else Inr (Goto (yyshift t p)))))"

definition yybackup :: "(string \<Rightarrow> u64) \<Rightarrow> int \<Rightarrow> parser \<Rightarrow> step res" where
  "yybackup atof yystate p =
     bindR (entry yypact yystate) (\<lambda>n.
     if yypact_value_is_default n then yydefault yystate p
     else
       bindR (yyread atof p) (\<lambda>p.
       if yychar p \<le> YYEOF then yydecide n YYEOF yystate (p\<lparr>yychar := YYEOF\<rparr>)
       else bindR (YYTRANSLATE (yychar p)) (\<lambda>yytoken. yydecide n yytoken yystate p)))"

definition yysetstate :: "(string \<Rightarrow> u64) \<Rightarrow> parser \<Rightarrow> step res" where
  "yysetstate atof p =
     (if length (yyss p) \<ge> YYINITDEPTH
      then Inr (Return 2 (yyerror (yylloc p) ''memory exhausted'' (yyresult p)))
      else bindR (nthR (yyss p) 0) (\<lambda>yystate.
        if yystate = YYFINAL then Inr (Return 0 (yyresult p)) else yybackup atof yystate p))"

section \<open>The parser\<close>

partial_function (option) yyloop :: "(string \<Rightarrow> u64) \<Rightarrow> parser \<Rightarrow> (int \<times> SQLParserResult) res option" where
  "yyloop atof p =
     (case yysetstate atof p of
        Inl e \<Rightarrow> Some (Inl e)
      | Inr st \<Rightarrow>
          (case st of
             Return n r \<Rightarrow> Some (Inr (n, r))
           | Goto p' \<Rightarrow> yyloop atof p'))"

text \<open>The user's initialisation sets the six numbers of the location, and all start out zero.\<close>

definition yystart :: "string \<Rightarrow> SQLParserResult \<Rightarrow> parser" where
  "yystart sql result =
     \<lparr>yyss = [0], yyvs = [U_undef], yyls = [yyloc_default], yychar = YYEMPTY, yylval = U_undef,
      yylloc = yyloc_default, yyloc = yyloc_default, yyerrstatus = 0,
      yyscanner = yy_scan_string sql, yyresult = result\<rparr>"

definition hsql_parse :: "(string \<Rightarrow> u64) \<Rightarrow> string \<Rightarrow> SQLParserResult \<Rightarrow> (int \<times> SQLParserResult) res" where
  "hsql_parse atof sql result =
     (case yyloop atof (yystart sql result) of None \<Rightarrow> Inl Diverges | Some r \<Rightarrow> r)"

end
