(* ===== verification/ScanTotal.thy ===== *)
theory ScanTotal
  imports Scanner
begin

text \<open>
  The scanner always returns: the tables are closed (every transition of a state on a class of
  bytes leads to a state), every match of a start state is of at least one byte, and so every
  turn of the scanner ends or shortens the text.
\<close>

section \<open>The tables are closed\<close>

lemma look_list_all: "list_all P T \<Longrightarrow> 0 \<le> i \<Longrightarrow> i < int (length T) \<Longrightarrow> \<exists>x. look T i = Some x \<and> P x"
  by (auto simp: look_def list_all_length nat_less_iff)

lemma base_bound: "list_all (\<lambda>b. 0 \<le> b \<and> b \<le> 4686) yy_base" "length yy_base = 1177"
  by (simp_all add: yy_base_def)

definition default_states :: "int set" where
  "default_states = {0, 1, 5, 62, 1169, 1170, 1171, 1172, 1173, 1174, 1175, 1176}"

lemma def_bound: "list_all (\<lambda>d. d \<in> default_states) yy_def" "length yy_def = 1177"
  by (simp_all add: yy_def_def default_states_def)

lemma accept_bound: "list_all (\<lambda>a. 0 \<le> a \<and> a \<le> 171) yy_accept" "length yy_accept = 1170"
  by (simp_all add: yy_accept_def)

lemma ec_bound: "list_all (\<lambda>c. 0 \<le> c \<and> c \<le> 76) yy_ec" "length yy_ec = 256"
  by (simp_all add: yy_ec_def)

lemma meta_bound: "list_all (\<lambda>c. 0 \<le> c \<and> c \<le> 76) yy_meta" "length yy_meta = 77"
  by (simp_all add: yy_meta_def)

lemma meta_0: "0 \<le> c \<Longrightarrow> c \<le> 76 \<Longrightarrow> look yy_meta c = Some 0 \<Longrightarrow> c = 0"
proof -
  have "list_all (\<lambda>c. look yy_meta c \<noteq> Some 0) [1..76]" by (simp add: upto.simps)
  then show "0 \<le> c \<Longrightarrow> c \<le> 76 \<Longrightarrow> look yy_meta c = Some 0 \<Longrightarrow> c = 0"
    by (force simp: list_all_iff)
qed

definition reaches :: "int \<Rightarrow> int \<Rightarrow> bool" where
  "reaches k t \<longleftrightarrow> k = 0 \<or> 7 \<le> t \<and> t \<le> 1169"

lemma chk_lengths: "length yy_chk = 4763" "length yy_nxt = 4763"
  by (simp_all add: yy_chk_def yy_chk_0_def yy_chk_1_def yy_chk_2_def yy_chk_3_def
      yy_nxt_def yy_nxt_0_def yy_nxt_1_def yy_nxt_2_def yy_nxt_3_def)

lemma chk_nxt_0: "list_all2 reaches yy_chk_0 yy_nxt_0" and chk_nxt_1: "list_all2 reaches yy_chk_1 yy_nxt_1"
  and chk_nxt_2: "list_all2 reaches yy_chk_2 yy_nxt_2" and chk_nxt_3: "list_all2 reaches yy_chk_3 yy_nxt_3"
  unfolding yy_chk_0_def yy_nxt_0_def yy_chk_1_def yy_nxt_1_def yy_chk_2_def yy_nxt_2_def
    yy_chk_3_def yy_nxt_3_def
  by (intro list_all2_appendI; simp add: reaches_def)+

lemma chk_nxt: "list_all2 reaches yy_chk yy_nxt"
  unfolding yy_chk_def yy_nxt_def
  by (intro list_all2_appendI chk_nxt_0 chk_nxt_1 chk_nxt_2 chk_nxt_3)

lemma look_chk_nxt:
  assumes "0 \<le> i" "i \<le> 4762"
  obtains k t where "look yy_chk i = Some k" "look yy_nxt i = Some t" "reaches k t"
proof
  show "look yy_chk i = Some (yy_chk ! nat i)" "look yy_nxt i = Some (yy_nxt ! nat i)"
    using assms by (simp_all add: look_def chk_lengths nat_less_iff)
  show "reaches (yy_chk ! nat i) (yy_nxt ! nat i)"
    using chk_nxt assms by (simp add: list_all2_conv_all_nth chk_lengths nat_less_iff)
qed

lemma look_base:
  assumes "0 \<le> s" "s \<le> 1176"
  obtains b where "look yy_base s = Some b" "0 \<le> b" "b \<le> 4686"
  using look_list_all [OF base_bound(1), of s] assms base_bound(2) by auto

text \<open>The state 1169 has an entry for every class.\<close>

lemma upto_76: "\<lbrakk>0 \<le> c; c \<le> 76\<rbrakk> \<Longrightarrow> c \<in> set [0..76]" for c :: int
  by simp

lemma chk_1169: "\<lbrakk>0 \<le> c; c \<le> 76\<rbrakk> \<Longrightarrow> look yy_chk (4686 + c) = Some 1169"
proof -
  have "list_all (\<lambda>c. look yy_chk (4686 + c) = Some 1169) [0..76]" by (simp add: upto.simps)
  then show "\<lbrakk>0 \<le> c; c \<le> 76\<rbrakk> \<Longrightarrow> look yy_chk (4686 + c) = Some 1169" by (simp add: list_all_iff)
qed

text \<open>The state 7, behind the mark of the end, is only entered on class 0.\<close>

definition enters_7 :: "int \<Rightarrow> bool" where
  "enters_7 k \<longleftrightarrow> look yy_nxt k = Some 7 \<longrightarrow>
     (case look yy_chk k of Some s \<Rightarrow> look yy_base s = Some k | None \<Rightarrow> False)"

lemma enters_7_blocks: "list_all (\<lambda>q. list_all enters_7 [100 * q..100 * q + 99]) [0..47]"
  by (simp add: upto.simps enters_7_def)

lemma only_class_0:
  assumes "look yy_nxt (b + c) = Some 7" "look yy_chk (b + c) = Some s" "look yy_base s = Some b"
    "0 \<le> b + c" "b + c \<le> 4762"
  shows "c = 0"
proof -
  define q where "q = (b + c) div 100"
  have "q \<in> set [0..47]" "b + c \<in> set [100 * q..100 * q + 99]"
    using assms(4,5) by (auto simp: q_def)
  then have "enters_7 (b + c)" using enters_7_blocks by (metis list_all_iff)
  with assms show ?thesis by (simp add: enters_7_def)
qed

section \<open>Transitions\<close>

text \<open>One turn of the loop that looks for the entry of a state.\<close>

lemma yy_next_cases:
  assumes "0 < s" "s \<le> 1176" "0 \<le> c" "c \<le> 76"
  obtains (own) t where "yy_next s c = Some t" "7 \<le> t" "t \<le> 1169" "t = 7 \<longrightarrow> c = 0"
  | (template) d m where "look yy_def s = Some d" "d \<ge> 1170" "look yy_meta c = Some m" "0 \<le> m" "m \<le> 76" "m = 0 \<longrightarrow> c = 0"
      "yy_next s c = yy_next d m" "s \<noteq> 1169" "d \<in> default_states"
  | (state) d where "look yy_def s = Some d" "d < 1170" "yy_next s c = yy_next d c" "s \<noteq> 1169" "d \<in> default_states"
proof -
  obtain b where b: "look yy_base s = Some b" "0 \<le> b" "b \<le> 4686" using look_base assms by (metis less_imp_le)
  obtain k t where k: "look yy_chk (b + c) = Some k" "look yy_nxt (b + c) = Some t" "reaches k t"
    using look_chk_nxt [of "b + c"] b assms by auto
  obtain d where d: "look yy_def s = Some d" "d \<in> default_states"
    using look_list_all [OF def_bound(1), of s] def_bound(2) assms by auto
  obtain m where m: "look yy_meta c = Some m" "0 \<le> m" "m \<le> 76"
    using look_list_all [OF meta_bound(1), of c] meta_bound(2) assms by auto
  show thesis
  proof (cases "k = s")
    case True
    then show thesis
      using own [of t] b k assms only_class_0 [of b c s] by (auto simp: yy_next.simps [of s c] reaches_def)
  next
    case False
    have "s \<noteq> 1169"
    proof
      assume "s = 1169"
      then have "b = 4686" using b by simp
      then show False using chk_1169 [of c] k \<open>s = 1169\<close> False assms by simp
    qed
    then show thesis
      using False b k d m meta_0 [of c] assms template [of d m] state [of d]
      by (cases "d \<ge> 1170") (auto simp: yy_next.simps [of s c])
  qed
qed

definition leads :: "int \<Rightarrow> int \<Rightarrow> bool" where
  "leads s c \<longleftrightarrow> (\<exists>t. yy_next s c = Some t \<and> 7 \<le> t \<and> t \<le> 1169 \<and> (t = 7 \<longrightarrow> c = 0))"

lemma leads_own: "yy_next s c = Some t \<Longrightarrow> 7 \<le> t \<Longrightarrow> t \<le> 1169 \<Longrightarrow> t = 7 \<longrightarrow> c = 0 \<Longrightarrow> leads s c"
  by (auto simp: leads_def)

lemma leads_by: "yy_next s c = yy_next d m \<Longrightarrow> leads d m \<Longrightarrow> m = 0 \<longrightarrow> c = 0 \<Longrightarrow> leads s c"
  by (auto simp: leads_def)

lemma leads_1169:
  assumes "0 \<le> c" "c \<le> 76"
  shows "leads 1169 c"
  by (rule yy_next_cases [of 1169 c]) (use assms in \<open>auto intro: leads_own\<close>)

lemma leads_default_1169:
  assumes "look yy_def s = Some 1169" "0 < s" "s \<le> 1176" "0 \<le> c" "c \<le> 76"
  shows "leads s c"
  by (rule yy_next_cases [of s c]) (use assms in \<open>auto intro: leads_own leads_by [OF _ leads_1169]\<close>)

lemma leads_template:
  assumes "1170 \<le> d" "d \<in> default_states" "0 \<le> c" "c \<le> 76"
  shows "leads d c"
proof -
  have "look yy_def d = Some 1169" "0 < d" "d \<le> 1176"
    using assms by (auto simp: default_states_def)
  then show ?thesis using assms by (intro leads_default_1169)
qed

lemma leads_62:
  assumes "0 \<le> c" "c \<le> 76"
  shows "leads 62 c"
  by (rule yy_next_cases [of 62 c]) (use assms in \<open>auto intro: leads_own leads_by [OF _ leads_template]\<close>)

lemma leads_default:
  assumes "d < 1170" "d \<in> default_states" "d \<noteq> 0" "0 \<le> c" "c \<le> 76"
  shows "leads d c"
proof -
  have "d = 1 \<or> d = 5 \<or> d = 62 \<or> d = 1169" using assms by (auto simp: default_states_def)
  then show ?thesis using assms leads_62 leads_1169 leads_default_1169 [of 1 c] leads_default_1169 [of 5 c] by auto
qed

text \<open>Only the jam state 1169 has no default.\<close>

lemma def_0: "list_all (\<lambda>s. look yy_def s \<noteq> Some 0) [1..1168]"
  by (simp add: upto.simps)

lemma transition_ok:
  assumes "0 < s" "s \<le> 1168" "0 \<le> c" "c \<le> 76"
  obtains t where "yy_next s c = Some t" "7 \<le> t" "t \<le> 1169" "t = 7 \<longrightarrow> c = 0"
proof -
  have n0: "look yy_def s \<noteq> Some 0" using def_0 assms by (simp add: list_all_iff)
  have "leads s c"
    by (rule yy_next_cases [of s c])
       (use assms n0 in \<open>auto intro: leads_own leads_by [OF _ leads_template] leads_by [OF _ leads_default]\<close>)
  then show thesis using that by (auto simp: leads_def)
qed

lemma mark_leads: "\<lbrakk>0 < s; s \<le> 1168; s \<noteq> 7\<rbrakk> \<Longrightarrow> yy_next s 0 = Some 7" and mark_jams: "yy_next 7 0 = Some 1169"
proof -
  have "list_all (\<lambda>s. s = 7 \<or> yy_next s 0 = Some 7) [1..1168]"
    by (simp add: upto.simps yy_next.simps cong: bind_weak_cong)
  then show "\<lbrakk>0 < s; s \<le> 1168; s \<noteq> 7\<rbrakk> \<Longrightarrow> yy_next s 0 = Some 7" by (auto simp: list_all_iff)
  show "yy_next 7 0 = Some 1169" by (simp add: yy_next.simps cong: bind_weak_cong)
qed

text \<open>The start states of the three conditions.\<close>

definition starts :: "int set" where
  "starts = {1, 3, 5}"

text \<open>After one byte a rule matches, and it is not the rule for names in double quotes.\<close>

definition accepts_one :: "int \<Rightarrow> int \<Rightarrow> bool" where
  "accepts_one st c \<longleftrightarrow>
     (case yy_next st c of None \<Rightarrow> False
      | Some t \<Rightarrow> t \<le> 1168 \<and> (case look yy_accept t of None \<Rightarrow> False | Some a \<Rightarrow> a \<noteq> 0 \<and> a \<noteq> 163))"

lemma start_accepts:
  assumes "st \<in> starts" "0 \<le> c" "c \<le> 76"
  shows "accepts_one st c"
proof -
  have "list_all (accepts_one 1) [0..76]" "list_all (accepts_one 3) [0..76]" "list_all (accepts_one 5) [0..76]"
    by (simp_all add: upto.simps accepts_one_def yy_next.simps cong: bind_weak_cong)
  with assms show ?thesis by (auto simp: starts_def list_all_iff)
qed

lemma accepts_171: "\<lbrakk>0 \<le> s; look yy_accept s = Some 171\<rbrakk> \<Longrightarrow> s = 7"
proof -
  have "list_all (\<lambda>s. s = 7 \<or> look yy_accept s \<noteq> Some 171) [0..1169]" by (simp add: upto.simps)
  moreover have "s \<le> 1169" if "look yy_accept s = Some 171"
    using that accept_bound(2) by (auto simp: look_def split: if_splits)
  ultimately show "\<lbrakk>0 \<le> s; look yy_accept s = Some 171\<rbrakk> \<Longrightarrow> s = 7"
    by (auto simp: list_all_iff)
qed

lemma look_accept:
  assumes "0 \<le> s" "s \<le> 1169"
  obtains a where "look yy_accept s = Some a" "0 \<le> a" "a \<le> 171"
  using look_list_all [OF accept_bound(1), of s] assms accept_bound(2) by auto

text \<open>The class of a byte that is not zero.\<close>

lemma ec_not_0: "1 \<le> b \<Longrightarrow> b \<le> 255 \<Longrightarrow> look yy_ec b \<noteq> Some 0"
proof -
  have "list_all (\<lambda>b. look yy_ec b \<noteq> Some 0) [1..255]" by (simp add: upto.simps)
  then show "1 \<le> b \<Longrightarrow> b \<le> 255 \<Longrightarrow> look yy_ec b \<noteq> Some 0" by (simp add: list_all_iff)
qed

lemma byte_class:
  assumes "ch \<noteq> CHR 0x00"
  obtains c where "look yy_ec (of_char ch) = Some c" "0 < c" "c \<le> 76"
proof -
  have n: "(of_char ch :: nat) \<noteq> 0"
  proof
    assume "(of_char ch :: nat) = 0"
    then have "(of_char ch :: nat) = of_char CHR 0x00" by simp
    then show False using assms by (simp only: of_char_eq_iff)
  qed
  have b: "(of_char ch :: int) = int (of_char ch)" by (simp add: of_nat_of_char)
  have l: "1 \<le> (of_char ch :: int)" "(of_char ch :: int) < 256" "(of_char ch :: int) < int (length yy_ec)"
    unfolding b using n by (simp_all add: ec_bound(2) del: of_nat_of_char)
  obtain c where c: "look yy_ec (of_char ch) = Some c" "0 \<le> c" "c \<le> 76"
    using look_list_all [OF ec_bound(1), of "of_char ch"] l by auto
  have "c \<noteq> 0" using ec_not_0 [of "of_char ch"] l c(1) by auto
  with c show thesis by (intro that) auto
qed

section \<open>Every match\<close>

text \<open>
  What a match may end with, when \<open>N\<close> bytes stand before the marks: an accepting state met
  after \<open>n\<close> of them, or the state behind the first mark.
\<close>

definition accepting :: "int \<Rightarrow> nat \<Rightarrow> bool" where
  "accepting s n \<longleftrightarrow> (\<exists>a. look yy_accept s = Some a \<and> a \<noteq> 0 \<and> (n = 1 \<longrightarrow> a \<noteq> 163))"

definition matched :: "nat \<Rightarrow> int \<times> nat \<Rightarrow> bool" where
  "matched N p \<longleftrightarrow> 0 < fst p \<and> fst p \<le> 1168 \<and> fst p \<noteq> 7 \<and> 1 \<le> snd p \<and> snd p \<le> N \<and> accepting (fst p) (snd p)"

lemma matched_pair [simp]: "matched N (s, n) \<longleftrightarrow> 0 < s \<and> s \<le> 1168 \<and> s \<noteq> 7 \<and> 1 \<le> n \<and> n \<le> N \<and> accepting s n"
  by (simp add: matched_def)

definition byte_ok :: "int \<Rightarrow> bool" where
  "byte_ok b \<longleftrightarrow> b \<noteq> 0 \<and> (\<exists>c. look yy_ec b = Some c \<and> 0 < c \<and> c \<le> 76)"

lemma ec_0 [simp]: "look yy_ec 0 = Some 0"
  by simp

lemma match_marks:
  assumes "0 < s" "s \<le> 1168" "s \<noteq> 7"
  shows "yy_match s [0, 0] n seen = Some (7, n + 1)"
proof -
  obtain a where "look yy_accept s = Some a" using look_accept [of s] assms by auto
  moreover have "yy_next s 0 = Some 7" using assms by (rule mark_leads)
  ultimately show ?thesis by (simp add: mark_jams)
qed

text \<open>
  A match that passes over all the text ends behind the mark; then the text alone leads to a
  state that accepts, or there was one before.
\<close>

lemma match_ends:
  assumes "list_all byte_ok bs" "0 < s" "s \<le> 1168" "s \<noteq> 7" "1 \<le> n"
    "n = 1 \<longrightarrow> look yy_accept s \<noteq> Some 163"
    "look yy_accept s \<noteq> Some 0 \<or> seen = Some q \<and> matched (n + length bs) q"
  shows "\<exists>p. yy_match s (bs @ [0, 0]) n seen = Some p \<and>
    (matched (n + length bs) p \<or> p = (7, n + length bs + 1) \<and>
      (\<exists>s' q'. yy_get_previous_state s bs n q = Some (s', q') \<and> 0 < s' \<and> s' \<le> 1168 \<and> s' \<noteq> 7 \<and>
        (accepting s' (n + length bs) \<or> look yy_accept s' = Some 0 \<and> matched (n + length bs) q')))"
  using assms
proof (induction bs arbitrary: s n seen q)
  case Nil
  obtain a where "look yy_accept s = Some a" using look_accept [of s] Nil by auto
  with Nil show ?case by (auto simp: match_marks accepting_def simp del: yy_match.simps)
next
  case (Cons b bs)
  obtain c where c: "look yy_ec b = Some c" "0 < c" "c \<le> 76" and b: "b \<noteq> 0" using Cons.prems(1) by (auto simp: byte_ok_def)
  obtain t where t: "yy_next s c = Some t" "7 \<le> t" "t \<le> 1169" "t = 7 \<longrightarrow> c = 0"
    using transition_ok [of s c] Cons.prems c by auto
  obtain a where a: "look yy_accept s = Some a" using look_accept [of s] Cons.prems by auto
  define q1 where "q1 = (if a \<noteq> 0 then (s, n) else q)"
  have q1: "matched (n + 1 + length bs) q1" "(if a \<noteq> 0 then Some (s, n) else seen) = Some q1"
    using Cons.prems a by (auto simp: q1_def accepting_def)
  show ?case
  proof (cases "t = 1169")
    case True
    with q1 c t a show ?thesis by simp
  next
    case False
    have "\<exists>p. yy_match t (bs @ [0, 0]) (n + 1) (Some q1) = Some p \<and>
      (matched (n + 1 + length bs) p \<or> p = (7, n + 1 + length bs + 1) \<and>
        (\<exists>s' q'. yy_get_previous_state t bs (n + 1) q1 = Some (s', q') \<and> 0 < s' \<and> s' \<le> 1168 \<and> s' \<noteq> 7 \<and>
          (accepting s' (n + 1 + length bs) \<or> look yy_accept s' = Some 0 \<and> matched (n + 1 + length bs) q')))"
      using Cons.prems t False c q1 by (intro Cons.IH) auto
    then show ?thesis using c t a False q1(2) b by (simp add: q1_def)
  qed
qed

lemma accepts_rule:
  assumes "accepting s n" "0 < s" "s \<le> 1168" "s \<noteq> 7"
  obtains a where "look yy_accept s = Some a" "1 \<le> a" "a \<le> 170" "n = 1 \<longrightarrow> a \<noteq> 163"
proof -
  obtain a where a: "look yy_accept s = Some a" "a \<noteq> 0" "n = 1 \<longrightarrow> a \<noteq> 163"
    using assms by (auto simp: accepting_def)
  obtain a' where "look yy_accept s = Some a'" "0 \<le> a'" "a' \<le> 171" using look_accept [of s] assms by auto
  moreover have "a \<noteq> 171" using accepts_171 [of s] a assms by auto
  ultimately show thesis using a that by force
qed

lemma start_state: "st \<in> starts \<Longrightarrow> 0 < st \<and> st \<le> 1168 \<and> st \<noteq> 7"
  by (auto simp: starts_def)

lemma byte_ok_char: "ch \<noteq> CHR 0x00 \<Longrightarrow> byte_ok (of_char ch)"
proof -
  assume a: "ch \<noteq> CHR 0x00"
  then obtain c where c: "look yy_ec (of_char ch) = Some c" "0 < c" "c \<le> 76" by (rule byte_class)
  have "(of_char ch :: int) \<noteq> 0" using c by auto
  with c show ?thesis by (auto simp: byte_ok_def)
qed

lemma buffer_ok: "CHR 0x00 \<notin> set buf \<Longrightarrow> list_all byte_ok (buffer_bytes buf)"
  by (auto simp: buffer_bytes_def list_all_iff intro!: byte_ok_char)

lemma yy_rule_empty: "st \<in> starts \<Longrightarrow> yy_rule st [] = Some (YY_STATE_EOF (YY_START st), 0)"
  using start_state [of st]
  by (simp add: yy_rule_def buffer_bytes_def match_marks yy_find_action_def YY_END_OF_BUFFER_def del: yy_match.simps)

lemma yy_rule_total:
  assumes "st \<in> starts" "CHR 0x00 \<notin> set buf" "buf \<noteq> []"
  obtains act n where "yy_rule st buf = Some (act, n)" "1 \<le> act" "act \<le> 170" "1 \<le> n" "n \<le> length buf"
    "act = 163 \<longrightarrow> 2 \<le> n"
proof -
  have st: "0 < st" "st \<le> 1168" using start_state assms by auto
  obtain b bs where bs: "buffer_bytes buf = b # bs" using assms(3) by (cases buf) (auto simp: buffer_bytes_def)
  have ok: "byte_ok b" "list_all byte_ok bs" using buffer_ok [OF assms(2)] bs by auto
  have N: "length buf = 1 + length bs" using arg_cong [OF bs, of length] by (simp add: buffer_bytes_def)
  obtain c where c: "look yy_ec b = Some c" "0 < c" "c \<le> 76" "b \<noteq> 0" using ok by (auto simp: byte_ok_def)
  obtain t where t: "yy_next st c = Some t" "7 \<le> t" "t \<le> 1169" "t = 7 \<longrightarrow> c = 0"
    using transition_ok [of st c] c st by auto
  obtain a where a: "t \<le> 1168" "look yy_accept t = Some a" "a \<noteq> 0" "a \<noteq> 163"
    using start_accepts [of st c] assms(1) c t by (auto simp: accepts_one_def split: option.splits)
  obtain a0 where a0: "look yy_accept st = Some a0" using look_accept [of st] st by auto
  define seen where "seen = (if a0 \<noteq> 0 then Some (st, 0::nat) else None)"
  define q :: "int \<times> nat" where "q = (if a0 \<noteq> 0 then (st, 0) else (7, length buf + 1))"
  have "\<exists>p. yy_match t (bs @ [0, 0]) 1 seen = Some p \<and>
    (matched (length buf) p \<or> p = (7, length buf + 1) \<and>
      (\<exists>s' q'. yy_get_previous_state t bs 1 q = Some (s', q') \<and> 0 < s' \<and> s' \<le> 1168 \<and> s' \<noteq> 7 \<and>
        (accepting s' (length buf) \<or> look yy_accept s' = Some 0 \<and> matched (length buf) q')))"
    using match_ends [of bs t 1 seen q] ok a t c by (simp add: N)
  then obtain p where p: "yy_match t (bs @ [0, 0]) 1 seen = Some p"
    and ends: "matched (length buf) p \<or> p = (7, length buf + 1) \<and>
      (\<exists>s' q'. yy_get_previous_state t bs 1 q = Some (s', q') \<and> 0 < s' \<and> s' \<le> 1168 \<and> s' \<noteq> 7 \<and>
        (accepting s' (length buf) \<or> look yy_accept s' = Some 0 \<and> matched (length buf) q'))"
    by blast
  have m: "yy_match st (buffer_bytes buf @ [0, 0]) 0 None = Some p"
    using p c t a a0 by (simp add: bs seen_def)
  from ends show thesis
  proof
    assume g: "matched (length buf) p"
    obtain s n where sn: "p = (s, n)" by (cases p)
    obtain x where x: "look yy_accept s = Some x" "1 \<le> x" "x \<le> 170" "n = 1 \<longrightarrow> x \<noteq> 163"
      using accepts_rule [of s n] g sn by auto
    have "yy_rule st buf = Some (x, n)" using m sn x by (simp add: yy_rule_def yy_find_action_def YY_END_OF_BUFFER_def)
    then show thesis using that [of x n] x g sn by auto
  next
    assume *: "p = (7, length buf + 1) \<and>
      (\<exists>s' q'. yy_get_previous_state t bs 1 q = Some (s', q') \<and> 0 < s' \<and> s' \<le> 1168 \<and> s' \<noteq> 7 \<and>
        (accepting s' (length buf) \<or> look yy_accept s' = Some 0 \<and> matched (length buf) q'))"
    then obtain s' q' where s': "yy_get_previous_state t bs 1 q = Some (s', q')" "0 < s'" "s' \<le> 1168" "s' \<noteq> 7"
        "accepting s' (length buf) \<or> look yy_accept s' = Some 0 \<and> matched (length buf) q'" by blast
    have "yy_get_previous_state st (buffer_bytes buf) 0 (7, length buf + 1) = Some (s', q')"
      using s'(1) c t a0 by (cases "a0 = 0") (simp_all add: bs q_def)
    then have r: "yy_rule st buf = yy_find_action s' (length buf) q'"
      using m * assms(3) by (simp add: yy_rule_def yy_find_action_def YY_END_OF_BUFFER_def)
    have "\<exists>x n. yy_rule st buf = Some (x, n) \<and> 1 \<le> x \<and> x \<le> 170 \<and> 1 \<le> n \<and> n \<le> length buf \<and> (n = 1 \<longrightarrow> x \<noteq> 163)"
      using s'(5)
    proof
      assume g: "accepting s' (length buf)"
      obtain x where x: "look yy_accept s' = Some x" "1 \<le> x" "x \<le> 170" "length buf = 1 \<longrightarrow> x \<noteq> 163"
        using accepts_rule [of s' "length buf"] g s' by auto
      then show ?thesis using r assms(3) by (cases buf) (simp_all add: yy_find_action_def)
    next
      assume g: "look yy_accept s' = Some 0 \<and> matched (length buf) q'"
      obtain s n where sn: "q' = (s, n)" by (cases q')
      obtain x where x: "look yy_accept s = Some x" "1 \<le> x" "x \<le> 170" "n = 1 \<longrightarrow> x \<noteq> 163"
        using accepts_rule [of s n] g sn by auto
      then show ?thesis using r g sn by (simp add: yy_find_action_def)
    qed
    then obtain x n where "yy_rule st buf = Some (x, n)" "1 \<le> x" "x \<le> 170" "1 \<le> n" "n \<le> length buf" "n = 1 \<longrightarrow> x \<noteq> 163"
      by blast
    then show thesis by (intro that [of x n]) auto
  qed
qed


section \<open>The scanner returns\<close>

definition lexer_ok :: "lexer \<Rightarrow> bool" where
  "lexer_ok lx \<longleftrightarrow> lx_start lx \<in> starts \<and> CHR 0x00 \<notin> set (lx_buf lx)"

lemma yy_action_total:
  assumes "lx_start lx \<in> starts" "1 \<le> act" "act \<le> 170" "1 \<le> length yytext" "act = 163 \<longrightarrow> 2 \<le> length yytext"
  shows "\<exists>token lx' lval. yy_action atof act yytext (lx, yylval) = Some (token, lx', lval) \<and>
    lx_buf lx' = lx_buf lx \<and> lx_start lx' \<in> starts"
proof -
  have eof: "act \<noteq> YY_STATE_EOF INITIAL" "act \<noteq> YY_STATE_EOF COMMENT" "act \<noteq> YY_STATE_EOF singlequotedstring"
    using assms by (simp_all add: YY_STATE_EOF_def YY_END_OF_BUFFER_def INITIAL_def COMMENT_def singlequotedstring_def)
  have sub: "lexer_substr yytext 1 (int (length yytext) - 1) \<noteq> Inl e" if "act = 163" for e
    using assms(5) that by (cases yytext) (auto simp: lexer_substr_def Let_def)
  have cs: "act = 1 \<or> act = 2 \<or> act = 3 \<or> act = 4 \<or> 5 \<le> act \<and> act \<le> 151 \<or> act = 152 \<or> act = 153 \<or>
      act = 154 \<or> act = 155 \<or> act = 156 \<or> act = 157 \<or> act = 158 \<or> act = 159 \<or> act = 160 \<or> act = 161 \<or>
      act = 162 \<or> act = 163 \<or> act = 164 \<or> act = 165 \<or> act = 166 \<or> act = 167 \<or> act = 168 \<or> act = 169 \<or> act = 170"
    using assms(2,3) by presburger
  have "BEGIN COMMENT lx = lx\<lparr>lx_start := 5\<rparr>" "BEGIN INITIAL lx = lx\<lparr>lx_start := 1\<rparr>" "BEGIN singlequotedstring lx = lx\<lparr>lx_start := 3\<rparr>" for lx
    by (simp_all add: BEGIN_def COMMENT_def INITIAL_def singlequotedstring_def)
  note begins = this
  from cs show ?thesis
  proof (elim disjE)
    assume a: "act = 162"
    then show ?thesis using assms(1) by (auto simp: yy_action_def split_beta)
  next
    assume "act = 163"
    then show ?thesis using sub assms(1) by (auto simp: yy_action_def split: sum.splits)
  qed (use assms(1) in \<open>auto simp: yy_action_def begins starts_def\<close>)
qed

lemma yy_turn_total:
  assumes "lexer_ok lx"
  shows "\<exists>token lx' lval lloc. yy_turn atof lx yylval yylloc = Some (token, lx', lval, lloc) \<and> lexer_ok lx' \<and>
    (length (lx_buf lx') < length (lx_buf lx) \<or> lx_buf lx = [] \<and> lx_buf lx' = [] \<and> token = Some 0)"
proof (cases "lx_buf lx = []")
  case True
  then have "yy_rule (lx_start lx) (lx_buf lx) = Some (YY_STATE_EOF (YY_START (lx_start lx)), 0)"
    using assms yy_rule_empty by (simp add: lexer_ok_def)
  then show ?thesis using assms True
    by (auto simp: yy_turn_def yy_action_def lexer_ok_def starts_def YY_STATE_EOF_def YY_START_def YY_END_OF_BUFFER_def
        INITIAL_def COMMENT_def singlequotedstring_def)
next
  case False
  obtain act n where r: "yy_rule (lx_start lx) (lx_buf lx) = Some (act, n)" "1 \<le> act" "act \<le> 170"
    "1 \<le> n" "n \<le> length (lx_buf lx)" "act = 163 \<longrightarrow> 2 \<le> n"
    using yy_rule_total [of "lx_start lx" "lx_buf lx"] assms False by (auto simp: lexer_ok_def)
  define lx1 where "lx1 = lx\<lparr>lx_buf := drop n (lx_buf lx)\<rparr>"
  obtain token lx' lval where a: "yy_action atof act (take n (lx_buf lx)) (lx1, yylval) = Some (token, lx', lval)"
    "lx_buf lx' = lx_buf lx1" "lx_start lx' \<in> starts"
    using yy_action_total [of lx1 act "take n (lx_buf lx)" atof yylval] r assms by (auto simp: lx1_def lexer_ok_def)
  have "CHR 0x00 \<notin> set (drop n (lx_buf lx))" using assms by (auto simp: lexer_ok_def dest: in_set_dropD)
  then show ?thesis using r a False by (auto simp: yy_turn_def lx1_def lexer_ok_def)
qed

lemma yylex_total:
  assumes "lexer_ok lx"
  shows "\<exists>token lx' lval lloc. yylex atof lx yylval yylloc = Some (token, lx', lval, lloc) \<and> lexer_ok lx' \<and>
    (length (lx_buf lx') < length (lx_buf lx) \<or> lx_buf lx = [] \<and> token = 0) \<and>
    length (lx_buf lx') \<le> length (lx_buf lx)"
  using assms
proof (induction "length (lx_buf lx)" arbitrary: lx yylval yylloc rule: less_induct)
  case less
  obtain token lx' lval lloc where t: "yy_turn atof lx yylval yylloc = Some (token, lx', lval, lloc)"
    "lexer_ok lx'" "length (lx_buf lx') < length (lx_buf lx) \<or> lx_buf lx = [] \<and> lx_buf lx' = [] \<and> token = Some 0"
    using yy_turn_total [OF less.prems] by blast
  show ?case
  proof (cases token)
    case None
    then have "length (lx_buf lx') < length (lx_buf lx)" using t(3) by auto
    moreover obtain k lx2 lval2 lloc2 where "yylex atof lx' lval lloc = Some (k, lx2, lval2, lloc2)" "lexer_ok lx2"
      "length (lx_buf lx2) < length (lx_buf lx') \<or> lx_buf lx' = [] \<and> k = 0" "length (lx_buf lx2) \<le> length (lx_buf lx')"
      using less.hyps [OF _ t(2), of lval lloc] calculation by blast
    ultimately show ?thesis using t(1) None by (subst yylex.simps) auto
  next
    case (Some k)
    then show ?thesis using t by (subst yylex.simps) auto
  qed
qed

text \<open>The scanner as \<open>tokenize\<close> calls it.\<close>

definition next_token :: "(string \<Rightarrow> u64) \<Rightarrow> lexer \<times> YYSTYPE \<times> YYLTYPE \<Rightarrow>
    (int \<times> lexer \<times> YYSTYPE \<times> YYLTYPE) option" where
  "next_token atof s = (case s of (lx, lval, lloc) \<Rightarrow> yylex atof lx lval lloc)"

lemma tokenize_loop_total:
  assumes "lexer_ok lx"
  shows "\<exists>tokens'. tokenize_loop (next_token atof) (lx, lval, lloc) token tokens = Some (tokens @ tokens') \<and>
    length tokens' \<le> length (lx_buf lx) + 1"
  using assms
proof (induction "length (lx_buf lx)" arbitrary: lx lval lloc token tokens rule: less_induct)
  case less
  obtain t lx' lval' lloc' where n: "yylex atof lx lval lloc = Some (t, lx', lval', lloc')" "lexer_ok lx'"
    "length (lx_buf lx') < length (lx_buf lx) \<or> lx_buf lx = [] \<and> t = 0"
    using yylex_total [OF less.prems] by blast
  show ?case
  proof (cases "token = 0")
    case True
    then show ?thesis by (subst tokenize_loop.simps) simp
  next
    case False
    then have step: "tokenize_loop (next_token atof) (lx, lval, lloc) token tokens =
        tokenize_loop (next_token atof) (lx', lval', lloc') t (tokens @ [token])"
      by (subst tokenize_loop.simps) (simp add: next_token_def n(1))
    show ?thesis
    proof (cases "t = 0")
      case True
      then show ?thesis using step by (simp add: tokenize_loop.simps [of _ _ 0])
    next
      case t: False
      then have "length (lx_buf lx') < length (lx_buf lx)" using n(3) by auto
      from less.hyps [OF this n(2), of lval' lloc' t "tokens @ [token]"] this show ?thesis
        unfolding step by fastforce
    qed
  qed
qed

text \<open>C39: The scanner always returns. On every text whatsoever \<open>SQLParser::tokenize\<close> ends, without a
  read outside the tables and without getting stuck in a state, and yields at most one token per
  character.\<close>

theorem scanner_returns:
  "\<exists>tokens. tokenize False (next_token atof) (\<lambda>s. (yy_scan_string s, lval, lloc)) sql = Some (True, tokens) \<and>
     length tokens \<le> length sql"
proof -
  define lx where "lx = yy_scan_string (c_str sql)"
  have ok: "lexer_ok lx" "length (lx_buf lx) \<le> length sql"
    by (auto simp: lx_def lexer_ok_def yy_scan_string_def c_str_def starts_def length_takeWhile_le dest: set_takeWhileD)
  obtain t lx' lval' lloc' where n: "yylex atof lx lval lloc = Some (t, lx', lval', lloc')" "lexer_ok lx'"
    "length (lx_buf lx') < length (lx_buf lx) \<or> lx_buf lx = [] \<and> t = 0"
    using yylex_total [OF ok(1)] by blast
  obtain tokens where "tokenize_loop (next_token atof) (lx', lval', lloc') t [] = Some tokens" "length tokens \<le> length sql"
  proof (cases "t = 0")
    case True
    then show ?thesis using that [of "[]"] by (simp add: tokenize_loop.simps)
  next
    case False
    then show ?thesis
      using tokenize_loop_total [OF n(2), of atof lval' lloc' t "[]"] n(3) ok(2) that by fastforce
  qed
  then show ?thesis using n(1) by (simp add: tokenize_def next_token_def lx_def)
qed

end
