(* ===== verification/Labels.thy ===== *)
theory Labels
  imports Tables
begin

text \<open>
  For each state of the scanner's automaton the word of letters that leads into it from the start,
  as a number in base 27 with the letters as the digits 1 to 26, or 0 if there is no such word or
  more than one; and the same number for the keyword of each rule. The tables are not part of the
  program; they serve the proofs about words.
\<close>

section \<open>The tables\<close>

definition yy_label :: "int list" where
  "yy_label =
    [0, 0, 0, 0, 0, 0, 0, 0, 0, 0,
     0, 0, 0, 0, 0, 0, 0, 0, 0, 0,
     0, 1, 2, 3, 4, 5, 6, 7, 8, 9,
     10, 11, 12, 13, 14, 15, 16, 0, 18, 19,
     20, 21, 22, 23, 25, 0, 0, 0, 0, 0,
     0, 0, 0, 0, 0, 0, 0, 0, 0, 0,
     0, 0, 0, 0, 0, 0, 0, 0, 0, 0,
     0, 0, 0, 0, 0, 0, 0, 0, 0, 0,
     0, 0, 0, 0, 0, 0, 0, 0, 0, 0,
     0, 0, 0, 0, 0, 0, 0, 0, 0, 31] @
    [33, 39, 41, 45, 46, 59, 79, 82, 89, 96,
     99, 109, 113, 117, 123, 126, 147, 149, 154, 159,
     163, 171, 174, 177, 180, 183, 201, 207, 217, 225,
     231, 249, 255, 256, 257, 262, 285, 302, 329, 333,
     339, 356, 360, 366, 379, 393, 399, 400, 411, 419,
     423, 426, 433, 444, 450, 491, 495, 501, 516, 518,
     521, 528, 529, 541, 545, 548, 549, 555, 558, 581,
     583, 586, 595, 603, 629, 630, 680, 0, 0, 0,
     0, 0, 0, 0, 0, 0, 0, 0, 0, 0,
     0, 0, 0, 0, 0, 0, 0, 0, 0, 0] @
    [0, 0, 0, 0, 0, 0, 0, 0, 0, 0,
     0, 0, 0, 0, 0, 0, 0, 0, 0, 0,
     0, 0, 0, 0, 0, 0, 0, 0, 0, 0,
     0, 0, 0, 0, 0, 0, 0, 0, 0, 0,
     0, 0, 0, 0, 0, 0, 0, 0, 0, 0,
     0, 0, 0, 0, 0, 0, 0, 0, 0, 0,
     0, 0, 0, 0, 0, 0, 0, 0, 0, 0,
     0, 0, 0, 0, 0, 0, 841, 911, 1065, 1073,
     1108, 1111, 1233, 1245, 1599, 1600, 1613, 2226, 2233, 2404,
     2604, 2605, 2606, 2608, 2678, 2688, 2963, 2968, 3052, 3054] @
    [3057, 3063, 3070, 3177, 3178, 3342, 3417, 3988, 4027, 4161,
     4296, 4298, 4302, 4309, 4313, 4413, 4629, 4713, 4797, 4875,
     4953, 5442, 5604, 5878, 5881, 6089, 6258, 6894, 6928, 6943,
     6953, 6958, 6959, 7088, 7704, 8179, 8889, 9002, 9004, 9154,
     9156, 9167, 9630, 9734, 9896, 10253, 10631, 10785, 10801, 11103,
     11425, 11522, 11709, 11989, 12155, 12159, 13258, 13271, 13276, 13372,
     13539, 13940, 13989, 13998, 14006, 14082, 14274, 14284, 14609, 14728,
     14739, 14801, 14836, 15001, 15067, 15087, 15696, 15699, 15745, 15831,
     16077, 16083, 16286, 16299, 16988, 17030, 18361, 0, 0, 0,
     0, 0, 0, 0, 0, 0, 0, 0, 0, 0] @
    [0, 0, 0, 0, 0, 0, 0, 0, 0, 0,
     0, 0, 0, 0, 0, 0, 0, 0, 0, 0,
     0, 0, 0, 0, 0, 0, 0, 0, 0, 0,
     0, 0, 0, 0, 0, 0, 0, 0, 0, 0,
     0, 0, 0, 0, 0, 0, 0, 0, 0, 0,
     0, 0, 0, 0, 0, 0, 0, 0, 0, 0,
     0, 0, 0, 0, 0, 0, 0, 0, 0, 0,
     0, 0, 0, 0, 0, 0, 0, 0, 0, 0,
     0, 0, 0, 0, 0, 0, 0, 0, 0, 0,
     0, 0, 0, 0, 0, 0, 0, 0, 0, 0] @
    [0, 0, 24602, 28976, 29928, 33292, 43188, 43209, 43574, 60114,
     60294, 60296, 60311, 64926, 70329, 70348, 70382, 70441, 72307, 72595,
     80006, 80155, 82416, 82467, 82540, 82706, 82721, 82893, 85784, 85826,
     90236, 92275, 107681, 112348, 115997, 116049, 116173, 116355, 116469, 119170,
     124988, 127252, 129532, 131638, 133743, 146936, 151329, 158714, 158796, 164423,
     168984, 186149, 187071, 187466, 187736, 187871, 187898, 187908, 191397, 208022,
     240023, 243059, 243117, 247162, 247213, 247516, 260017, 262839, 267212, 276852,
     291207, 291645, 299800, 308480, 311099, 316144, 323717, 328201, 328306, 357978,
     358318, 358472, 361052, 365565, 376385, 377718, 377951, 380237, 385418, 385688,
     394455, 397672, 397973, 399641, 400577, 406823, 407354, 407363, 423807, 423809] @
    [423888, 425116, 427451, 434100, 434244, 434266, 439745, 440093, 458690, 458694,
     459818, 495765, 0, 0, 0, 0, 0, 0, 0, 0,
     0, 0, 0, 0, 0, 0, 0, 0, 0, 0,
     0, 0, 0, 0, 0, 0, 0, 0, 0, 0,
     0, 0, 0, 0, 0, 0, 0, 0, 0, 0,
     0, 0, 0, 0, 0, 0, 0, 0, 0, 0,
     0, 0, 0, 0, 0, 0, 0, 0, 0, 0,
     0, 0, 0, 0, 0, 0, 0, 0, 0, 0,
     0, 0, 0, 0, 0, 0, 0, 0, 0, 0,
     0, 0, 0, 0, 0, 0, 0, 0, 0, 0] @
    [0, 0, 0, 0, 0, 0, 0, 0, 0, 0,
     0, 0, 0, 0, 0, 0, 0, 0, 0, 0,
     0, 0, 0, 0, 664272, 782370, 808081, 898909, 1166094, 1166657,
     1176503, 1627939, 1753003, 1898896, 1899405, 1900332, 1952309, 1960084, 2160182, 2225244,
     2226622, 2228601, 2233082, 2233468, 2238129, 2316171, 2317311, 2436384, 3033412, 3131935,
     3133344, 3136691, 3141586, 3144664, 3217595, 3435824, 3497365, 3967273, 4085899, 4287506,
     4562587, 5026028, 5050935, 5061606, 5068890, 5072535, 5073253, 5073264, 5167731, 6564179,
     6674763, 7020464, 7096672, 7096673, 7214732, 7475022, 7874418, 8094605, 8328978, 8399691,
     8535901, 8861428, 8864263, 9674599, 9678762, 9748424, 9870257, 10162408, 10198400, 10204680,
     10406291, 10413585, 10650290, 10737159, 10815598, 10984240, 10998804, 11442803, 11442864, 11444977] @
    [11478152, 11541184, 11720705, 11724596, 11725191, 11882532, 12384743, 13385674, 0, 0,
     0, 0, 0, 0, 0, 0, 0, 0, 0, 0,
     0, 0, 0, 0, 0, 0, 0, 0, 0, 0,
     0, 0, 0, 0, 0, 0, 0, 0, 0, 0,
     0, 0, 0, 0, 0, 0, 0, 0, 0, 0,
     0, 0, 0, 0, 0, 0, 0, 0, 0, 0,
     0, 0, 0, 0, 0, 0, 0, 0, 0, 0,
     0, 0, 0, 0, 0, 0, 0, 0, 0, 0,
     0, 0, 0, 0, 0, 0, 0, 0, 0, 0,
     0, 0, 0, 0, 21818213, 31484543, 31765586, 43954357, 47331084, 51270206] @
    [51283955, 51308979, 52712348, 58324923, 60081603, 60118795, 60172239, 60293219, 60429492, 62536637,
     62567411, 65782373, 81902129, 84562265, 84600308, 84690676, 84822831, 84905931, 94428875, 107116383,
     115762669, 136375265, 136958465, 136977836, 136978147, 136978150, 139528749, 191610176, 194797783, 201825595,
     212609294, 218554355, 230469332, 239258574, 239335119, 261214178, 261326583, 266496940, 274385017, 275356804,
     275526380, 280969861, 281166796, 287557849, 289903311, 292021166, 296574481, 296967709, 308957333, 309014383,
     309910109, 316459054, 316564093, 316580171, 320828365, 0, 0, 0, 0, 0,
     0, 0, 0, 0, 0, 0, 0, 0, 0, 0,
     0, 0, 0, 0, 0, 0, 0, 0, 0, 0,
     0, 0, 0, 0, 0, 0, 0, 0, 0, 0,
     0, 0, 0, 0, 0, 0, 0, 0, 0, 0] @
    [0, 0, 0, 0, 0, 0, 0, 0, 0, 0,
     0, 0, 0, 0, 0, 0, 0, 0, 589091756, 857670836,
     1186767644, 1277939288, 1384295581, 1385342445, 1574772934, 1622203284, 1623207477, 1624650473, 1631596286, 1689320100,
     2284208321, 2290216451, 2292460157, 3698401590, 3698409974, 3698410051, 5173474771, 5449291077, 5740450939, 6222671984,
     6459981503, 6462048238, 7055817744, 7195417383, 7408395478, 7434633727, 7591503504, 7827389398, 7884571483, 8007510990,
     8018128163, 8547230529, 8547664624, 8662365867, 0, 0, 0, 0, 0, 0,
     0, 0, 0, 0, 0, 0, 0, 0, 0, 0,
     0, 0, 0, 0, 0, 0, 0, 0, 0, 0,
     0, 0, 0, 0, 0, 0, 0, 0, 0, 0,
     0, 0, 34504360781, 42518869223, 43799488669, 44053099727, 45611642720, 99857069301, 99857071389, 154992175371] @
    [168012143573, 190507079108, 194276269352, 211339513764, 212883430054, 216202796750, 216489460406, 0, 0, 0] @
    [0, 0, 0, 0, 0, 0, 0, 0, 0, 0] @
    [0, 0, 0, 0, 931617741105, 1182586194083, 2696140871147, 4536327876489, 5706166871653, 5747852611474] @
    [5837475512259, 0, 0, 0, 0, 0, 0, 0, 0, 0] @
    [31929827240246, 122480852665222, 157611838831008, 0, 0, 0, 0, 0, 4255519648437230, 0] @
    [0, 0, 0, 0, 0, 0, 0, 0, 0, 0] @
    [0, 0, 0, 0, 0, 0, 0, 0, 0, 0] @
    []"

definition rule_code :: "int list" where
  "rule_code =
    [0, 0, 0, 0, 0, 31929827240246, 122480852665222, 2696140871147, 5706166871653, 5747852611474,
     44053099727, 45611642720, 154992175371, 190507079108, 216489460406, 589091756, 857670836, 1186767644, 1384295581, 1385342445,
     1624650473, 2284208321, 2290216451, 3698401590, 5449291077, 6459981503, 6462048238, 7408395478, 7591503504, 8547230529,
     931617741105, 8547664624, 400577, 1623207477, 357978, 8662365867, 31484543, 51270206, 52712348, 60293219,
     62536637, 65782373, 81902129, 84562265, 84690676, 2292460157, 60311, 94428875, 107116383, 115762669,
     136375265, 136958465, 139528749, 218554355, 261214178, 274385017, 275526380, 280969861, 287557849, 308957333,
     309014383, 309910109, 316459054, 664272, 782370, 898909, 1960084, 2233468, 3435824, 4085899,
     5061606, 5068890, 6564179, 6674763, 7020464, 7096672, 8328978, 8399691, 9748424, 10650290,
     11442803, 11541184, 12384743, 60114, 60296, 64926, 70441, 80006, 42518869223, 82893,
     92275, 107681, 124988, 131638, 133743, 158714, 164423, 187908, 208022, 240023] @
    [243059, 5026028, 247162, 247516, 291207, 323717, 380237, 397973, 399641, 439745] @
    [458690, 459818, 841, 1065, 1111, 1245, 4027, 4797, 6959, 8179] @
    [10631, 11103, 14006, 15001, 46, 79, 249, 257, 262, 411] @
    [419, 423, 555, 275356804, 191610176, 168984, 2968, 7214732, 495765, 7434633727] @
    [5173474771, 4562587, 80155, 194797783, 13385674, 407354, 3217595, 4255519648437230, 1166657, 194276269352] @
    [51283955, 99857071389, 0, 0, 0, 0, 0, 0, 0, 0] @
    [0, 0, 0, 0, 0, 0, 0, 0, 0, 0] @
    [0, 0]"

section \<open>Their entries\<close>

lemmas yy_label_from_0 = from_index_start [OF yy_label_def, unfolded append_assoc]
lemmas yy_label_at_0 = look_100 [OF yy_label_from_0, unfolded index_sums]
lemmas yy_label_from_100 = next_100 [OF yy_label_from_0, unfolded index_sums]
lemmas yy_label_at_100 = look_100 [OF yy_label_from_100, unfolded index_sums]
lemmas yy_label_from_200 = next_100 [OF yy_label_from_100, unfolded index_sums]
lemmas yy_label_at_200 = look_100 [OF yy_label_from_200, unfolded index_sums]
lemmas yy_label_from_300 = next_100 [OF yy_label_from_200, unfolded index_sums]
lemmas yy_label_at_300 = look_100 [OF yy_label_from_300, unfolded index_sums]
lemmas yy_label_from_400 = next_100 [OF yy_label_from_300, unfolded index_sums]
lemmas yy_label_at_400 = look_100 [OF yy_label_from_400, unfolded index_sums]
lemmas yy_label_from_500 = next_100 [OF yy_label_from_400, unfolded index_sums]
lemmas yy_label_at_500 = look_100 [OF yy_label_from_500, unfolded index_sums]
lemmas yy_label_from_600 = next_100 [OF yy_label_from_500, unfolded index_sums]
lemmas yy_label_at_600 = look_100 [OF yy_label_from_600, unfolded index_sums]
lemmas yy_label_from_700 = next_100 [OF yy_label_from_600, unfolded index_sums]
lemmas yy_label_at_700 = look_100 [OF yy_label_from_700, unfolded index_sums]
lemmas yy_label_from_800 = next_100 [OF yy_label_from_700, unfolded index_sums]
lemmas yy_label_at_800 = look_100 [OF yy_label_from_800, unfolded index_sums]
lemmas yy_label_from_900 = next_100 [OF yy_label_from_800, unfolded index_sums]
lemmas yy_label_at_900 = look_100 [OF yy_label_from_900, unfolded index_sums]
lemmas yy_label_from_1000 = next_100 [OF yy_label_from_900, unfolded index_sums]
lemmas yy_label_at_1000 = look_100 [OF yy_label_from_1000, unfolded index_sums]
lemmas yy_label_from_1100 = next_100 [OF yy_label_from_1000, unfolded index_sums]
lemmas yy_label_at_1100 = look_10 [OF yy_label_from_1100, unfolded index_sums]
lemmas yy_label_from_1110 = next_10 [OF yy_label_from_1100, unfolded index_sums]
lemmas yy_label_at_1110 = look_10 [OF yy_label_from_1110, unfolded index_sums]
lemmas yy_label_from_1120 = next_10 [OF yy_label_from_1110, unfolded index_sums]
lemmas yy_label_at_1120 = look_10 [OF yy_label_from_1120, unfolded index_sums]
lemmas yy_label_from_1130 = next_10 [OF yy_label_from_1120, unfolded index_sums]
lemmas yy_label_at_1130 = look_10 [OF yy_label_from_1130, unfolded index_sums]
lemmas yy_label_from_1140 = next_10 [OF yy_label_from_1130, unfolded index_sums]
lemmas yy_label_at_1140 = look_10 [OF yy_label_from_1140, unfolded index_sums]
lemmas yy_label_from_1150 = next_10 [OF yy_label_from_1140, unfolded index_sums]
lemmas yy_label_at_1150 = look_10 [OF yy_label_from_1150, unfolded index_sums]
lemmas yy_label_from_1160 = next_10 [OF yy_label_from_1150, unfolded index_sums]
lemmas yy_label_at_1160 = look_10 [OF yy_label_from_1160, unfolded index_sums]
lemmas yy_label_from_1170 = next_10 [OF yy_label_from_1160, unfolded index_sums]
lemmas yy_label_outside [simp] = from_index_end [OF yy_label_from_1170]
lemmas yy_label_entries [simp] =
  yy_label_at_0 yy_label_at_100 yy_label_at_200 yy_label_at_300 yy_label_at_400 yy_label_at_500 
    yy_label_at_600 yy_label_at_700 yy_label_at_800 yy_label_at_900 yy_label_at_1000 yy_label_at_1100 
    yy_label_at_1110 yy_label_at_1120 yy_label_at_1130 yy_label_at_1140 yy_label_at_1150 yy_label_at_1160

lemmas rule_code_from_0 = from_index_start [OF rule_code_def, unfolded append_assoc]
lemmas rule_code_at_0 = look_100 [OF rule_code_from_0, unfolded index_sums]
lemmas rule_code_from_100 = next_100 [OF rule_code_from_0, unfolded index_sums]
lemmas rule_code_at_100 = look_10 [OF rule_code_from_100, unfolded index_sums]
lemmas rule_code_from_110 = next_10 [OF rule_code_from_100, unfolded index_sums]
lemmas rule_code_at_110 = look_10 [OF rule_code_from_110, unfolded index_sums]
lemmas rule_code_from_120 = next_10 [OF rule_code_from_110, unfolded index_sums]
lemmas rule_code_at_120 = look_10 [OF rule_code_from_120, unfolded index_sums]
lemmas rule_code_from_130 = next_10 [OF rule_code_from_120, unfolded index_sums]
lemmas rule_code_at_130 = look_10 [OF rule_code_from_130, unfolded index_sums]
lemmas rule_code_from_140 = next_10 [OF rule_code_from_130, unfolded index_sums]
lemmas rule_code_at_140 = look_10 [OF rule_code_from_140, unfolded index_sums]
lemmas rule_code_from_150 = next_10 [OF rule_code_from_140, unfolded index_sums]
lemmas rule_code_at_150 = look_10 [OF rule_code_from_150, unfolded index_sums]
lemmas rule_code_from_160 = next_10 [OF rule_code_from_150, unfolded index_sums]
lemmas rule_code_at_160 = look_10 [OF rule_code_from_160, unfolded index_sums]
lemmas rule_code_from_170 = next_10 [OF rule_code_from_160, unfolded index_sums]
lemmas rule_code_at_170 = look_1 [OF rule_code_from_170, unfolded index_sums]
lemmas rule_code_from_171 = next_1 [OF rule_code_from_170, unfolded index_sums]
lemmas rule_code_at_171 = look_1 [OF rule_code_from_171, unfolded index_sums]
lemmas rule_code_from_172 = next_1 [OF rule_code_from_171, unfolded index_sums]
lemmas rule_code_outside [simp] = from_index_end [OF rule_code_from_172]
lemmas rule_code_entries [simp] =
  rule_code_at_0 rule_code_at_100 rule_code_at_110 rule_code_at_120 rule_code_at_130 rule_code_at_140 
    rule_code_at_150 rule_code_at_160 rule_code_at_170 rule_code_at_171

end
