(* ===== verification/Runs.thy ===== *)
theory Runs
  imports ScanTotal Labels
begin

text \<open>
  Runs of the scanner's automaton: what it reads is a text on which it runs, and stops. Then the
  checks of the tables on which the treatment of words rests.
\<close>

section \<open>Runs of the automaton\<close>

fun runs :: "int \<Rightarrow> int list \<Rightarrow> int option" where
  "runs s [] = Some s"
| "runs s (b # bs) = do {
     c \<leftarrow> look yy_ec b;
     t \<leftarrow> yy_next s c;
     if 0 < t \<and> t \<le> 1168 \<and> b \<noteq> 0 then runs t bs else None
   }"

lemma runs_append: "runs s (bs @ cs) = Option.bind (runs s bs) (\<lambda>t. runs t cs)"
  by (induction bs arbitrary: s) (auto simp: Option.bind_assoc split: bind_splits)

lemma runs_match:
  "runs s bs = Some t \<Longrightarrow> 0 < s \<Longrightarrow> s \<le> 1168 \<Longrightarrow>
     (\<exists>seen'. yy_match s (bs @ r) n seen = yy_match t r (n + length bs) seen') \<and>
     (\<exists>q'. yy_get_previous_state s bs n q = Some (t, q')) \<and> 0 < t \<and> t \<le> 1168"
proof (induction bs arbitrary: s n seen q)
  case (Cons b bs)
  obtain a where a: "look yy_accept s = Some a" using look_accept [of s] Cons.prems by auto
  obtain c t1 where c: "look yy_ec b = Some c" "yy_next s c = Some t1" "0 < t1" "t1 \<le> 1168" "b \<noteq> 0" "runs t1 bs = Some t"
    using Cons.prems(1) by (auto split: bind_splits if_splits)
  show ?case
    using Cons.IH [OF c(6,3,4), of "n + 1" "if a \<noteq> 0 then Some (s, n) else seen" "if a \<noteq> 0 then (s, n) else q"] a c
    by auto
qed auto

text \<open>Where a match stops: at the end of the text or before a byte the state has no way on.\<close>

definition stops :: "int \<Rightarrow> string \<Rightarrow> bool" where
  "stops t r \<longleftrightarrow> (case r of [] \<Rightarrow> True | ch # _ \<Rightarrow>
     (case look yy_ec (of_char ch) of None \<Rightarrow> False | Some c \<Rightarrow> yy_next t c = Some 1169))"

lemma rule_of_run:
  assumes "runs st (buffer_bytes w) = Some t" "st \<in> starts" "w \<noteq> []" "look yy_accept t = Some act" "1 \<le> act" "act \<le> 170"
    "stops t r"
  shows "yy_rule st (w @ r) = Some (act, length w)"
proof -
  have st: "0 < st" "st \<le> 1168" using start_state [OF assms(2)] by auto
  have t: "0 < t" "t \<le> 1168" "t \<noteq> 7" using runs_match [OF assms(1) st] assms(4-6) by auto
  obtain q where q: "yy_get_previous_state st (buffer_bytes w) 0 (7, length w + 1) = Some (t, q)"
    using runs_match [OF assms(1) st] by blast
  obtain seen where m: "yy_match st (buffer_bytes w @ (buffer_bytes r @ [0, 0])) 0 None =
      yy_match t (buffer_bytes r @ [0, 0]) (length w) seen"
    using runs_match [OF assms(1) st, of "buffer_bytes r @ [0, 0]" 0 None] by (auto simp: buffer_bytes_def)
  show ?thesis
  proof (cases r)
    case Nil
    then have "yy_match st (buffer_bytes w @ [0, 0]) 0 None = Some (7, length w + 1)"
      using m t by (simp add: match_marks buffer_bytes_def del: yy_match.simps)
    then show ?thesis using Nil q assms(3-6) by (simp add: yy_rule_def yy_find_action_def YY_END_OF_BUFFER_def)
  next
    case (Cons ch r')
    then obtain c where "look yy_ec (of_char ch) = Some c" "yy_next t c = Some 1169"
      using assms(7) by (auto simp: stops_def split: option.splits)
    then have "yy_match st (buffer_bytes w @ (buffer_bytes r @ [0, 0])) 0 None = Some (t, length w)"
      using m assms(4-6) by (simp add: Cons buffer_bytes_def)
    then show ?thesis using assms(4-6)
      by (simp add: yy_rule_def yy_find_action_def YY_END_OF_BUFFER_def buffer_bytes_def)
  qed
qed

section \<open>The states behind words\<close>

text \<open>The classes of letters (capitals are 23 to 48, small letters 50 to 75), digits and underscores.\<close>

definition is_word :: "int \<Rightarrow> bool" where "is_word c \<longleftrightarrow> 10 \<le> c \<and> c \<le> 19 \<or> 23 \<le> c \<and> c \<le> 75"

definition own_entry_ok :: "int \<Rightarrow> bool" where
  "own_entry_ok k \<longleftrightarrow>
     (case look yy_chk k of None \<Rightarrow> False | Some s \<Rightarrow>
      look yy_def s = Some 1172 \<longrightarrow>
      (case look yy_base s of None \<Rightarrow> False | Some b \<Rightarrow>
      (case look yy_nxt k of None \<Rightarrow> False | Some t \<Rightarrow>
      (let c = k - b; o' = (if c \<le> 48 then k + 27 else k - 27); d = (if c \<le> 48 then c - 22 else c - 49) in
        23 \<le> c \<and> c \<le> 75 \<and> c \<noteq> 49 \<and> look yy_chk o' = Some s \<and> look yy_nxt o' = Some t \<and>
        look yy_def t = Some 1172 \<and> t \<noteq> 98 \<and> t \<noteq> 1169 \<and>
        (case look yy_label s of None \<Rightarrow> False | Some l \<Rightarrow> l \<noteq> 0 \<and> look yy_label t = Some (l * 27 + d))))))"

lemma own_0: "list_all (\<lambda>q. list_all own_entry_ok [100 * q..100 * q + 99]) [0..15]"
  by (simp add: upto.simps own_entry_ok_def Let_def)
lemma own_1: "list_all (\<lambda>q. list_all own_entry_ok [100 * q..100 * q + 99]) [16..31]"
  by (simp add: upto.simps own_entry_ok_def Let_def)
lemma own_2: "list_all (\<lambda>q. list_all own_entry_ok [100 * q..100 * q + 99]) [32..46]"
  by (simp add: upto.simps own_entry_ok_def Let_def)
lemma own_3: "list_all own_entry_ok [4700..4762]"
  by (simp add: upto.simps own_entry_ok_def Let_def)
lemma generic: "list_all (\<lambda>c. case look yy_meta c of None \<Rightarrow> False | Some m \<Rightarrow>
    yy_next 1172 m = Some (if c = 0 then 7 else if is_word c then 98 else 1169)) [0..76]"
  by (simp add: upto.simps yy_next.simps is_word_def cong: bind_weak_cong)
definition start_ok :: "int \<Rightarrow> bool" where
  "start_ok c \<longleftrightarrow> (case yy_next 1 c of None \<Rightarrow> False | Some t \<Rightarrow>
     0 < t \<and> t \<le> 1168 \<and> yy_next 1 (c + 27) = Some t \<and> look yy_def t = Some 1172 \<and>
     (look yy_label t = Some 0 \<or> look yy_label t = Some (c - 22)))"

lemma start_words: "list_all start_ok [23..48]"
  by (simp add: upto.simps start_ok_def yy_next.simps cong: bind_weak_cong)

lemma generic_states: "look yy_def 98 = Some 1172" "look yy_label 98 = Some 0"
  by simp_all

definition upper :: "char \<Rightarrow> char" where
  "upper ch = (if 97 \<le> (of_char ch :: int) \<and> (of_char ch :: int) \<le> 122 then char_of (of_char ch - 32 :: int) else ch)"

definition is_letter :: "char \<Rightarrow> bool" where
  "is_letter ch \<longleftrightarrow> 65 \<le> (of_char (upper ch) :: int) \<and> (of_char (upper ch) :: int) \<le> 90"

definition is_word_char :: "char \<Rightarrow> bool" where
  "is_word_char ch \<longleftrightarrow> is_letter ch \<or> (48 \<le> (of_char ch :: int) \<and> (of_char ch :: int) \<le> 57) \<or> ch = CHR 0x5F"

definition letter :: "char \<Rightarrow> int" where
  "letter ch = of_char (upper ch) - 64"

definition code :: "string \<Rightarrow> int" where
  "code w = foldl (\<lambda>n ch. n * 27 + letter ch) 0 w"

definition accept_ok :: "int \<Rightarrow> bool" where
  "accept_ok s \<longleftrightarrow> look yy_def s = Some 1172 \<longrightarrow>
     (case look yy_accept s of None \<Rightarrow> False | Some a \<Rightarrow>
       a = 164 \<or> 5 \<le> a \<and> a \<le> 151 \<and> look yy_label s = look rule_code a)"

lemma accepts_words: "list_all (\<lambda>q. list_all accept_ok [100 * q..100 * q + 99]) [0..11]"
  by (simp add: upto.simps accept_ok_def)

definition keyword_ok :: "int \<times> string \<times> int \<Rightarrow> bool" where
  "keyword_ok k = (case k of (act, name, _) \<Rightarrow>
     look rule_code act = Some (code name) \<and> list_all (\<lambda>ch. upper ch = ch \<and> is_letter ch) name \<and> name \<noteq> [] \<and>
     (case runs 1 (buffer_bytes name) of None \<Rightarrow> False | Some s \<Rightarrow> look yy_accept s = Some act))"

lemma keywords_0: "list_all keyword_ok (zip [5..34] keyword_rules_0)"
  by (simp add: upto.simps keyword_rules_0_def keyword_ok_def buffer_bytes_def yy_next.simps code_def letter_def upper_def
      is_letter_def cong: bind_weak_cong)
lemma keywords_1: "list_all keyword_ok (zip [35..64] keyword_rules_1)"
  by (simp add: upto.simps keyword_rules_1_def keyword_ok_def buffer_bytes_def yy_next.simps code_def letter_def
      upper_def is_letter_def cong: bind_weak_cong)

lemma keywords_2: "list_all keyword_ok (zip [65..94] keyword_rules_2)"
  by (simp add: upto.simps keyword_rules_2_def keyword_ok_def buffer_bytes_def yy_next.simps code_def letter_def
      upper_def is_letter_def cong: bind_weak_cong)

lemma keywords_3: "list_all keyword_ok (zip [95..124] keyword_rules_3)"
  by (simp add: upto.simps keyword_rules_3_def keyword_ok_def buffer_bytes_def yy_next.simps code_def letter_def
      upper_def is_letter_def cong: bind_weak_cong)

lemma keywords_4: "list_all keyword_ok (zip [125..151] keyword_rules_4)"
  by (simp add: upto.simps keyword_rules_4_def keyword_ok_def buffer_bytes_def yy_next.simps code_def letter_def
      upper_def is_letter_def cong: bind_weak_cong)

lemma byte_classes: "list_all (\<lambda>b. case look yy_ec b of None \<Rightarrow> False | Some c \<Rightarrow>
    if 65 \<le> b \<and> b \<le> 90 then c = b - 42 else if 97 \<le> b \<and> b \<le> 122 then c = b - 47
    else if 48 \<le> b \<and> b \<le> 57 then c = b - 38 else if b = 95 then c = 49 else \<not> is_word c) [0..255]"
  by (simp add: upto.simps is_word_def)

end
