(* ===== verification/Words.thy ===== *)
theory Words
  imports Runs
begin

text \<open>
  Words: the automaton of 530 states that tells keywords from names does what a lookup in the
  table of the keywords does.
\<close>

section \<open>Words\<close>

lemma int_of_char_range: "0 \<le> (of_char ch :: int)" "(of_char ch :: int) \<le> 255"
proof -
  have "(of_char ch :: int) = int (of_char ch)" by (simp add: of_nat_of_char)
  moreover have "int (of_char ch) < int 256" using of_char_less_256 [of ch] by (simp only: of_nat_less_iff)
  ultimately show "0 \<le> (of_char ch :: int)" "(of_char ch :: int) \<le> 255" by linarith+
qed

lemma class_of_char:
  assumes "look yy_ec (of_char ch) = Some c"
  shows "if 65 \<le> (of_char ch :: int) \<and> (of_char ch :: int) \<le> 90 then c = of_char ch - 42
      else if 97 \<le> (of_char ch :: int) \<and> (of_char ch :: int) \<le> 122 then c = of_char ch - 47
      else if 48 \<le> (of_char ch :: int) \<and> (of_char ch :: int) \<le> 57 then c = of_char ch - 38
      else if (of_char ch :: int) = 95 then c = 49 else \<not> is_word c"
proof -
  have "(of_char ch :: int) \<in> set [0..255]" using int_of_char_range [of ch] by simp
  from bspec [OF byte_classes [unfolded list_all_iff] this] show ?thesis by (simp only: assms option.case)
qed

lemma own_entries:
  assumes "0 \<le> k" "k \<le> 4762"
  shows "own_entry_ok k"
proof (cases "k < 4700")
  case True
  define q where "q = k div 100"
  have "0 \<le> q" "q \<le> 46" "100 * q \<le> k" "k \<le> 100 * q + 99" using assms True by (auto simp: q_def)
  moreover from this have "0 \<le> q \<and> q \<le> 15 \<or> 16 \<le> q \<and> q \<le> 31 \<or> 32 \<le> q \<and> q \<le> 46" by linarith
  ultimately have k: "k \<in> set [100 * q..100 * q + 99]" "q \<in> set [0..15] \<or> q \<in> set [16..31] \<or> q \<in> set [32..46]"
    by (simp_all only: set_upto atLeastAtMost_iff)
  have "list_all own_entry_ok [100 * q..100 * q + 99]"
    using k(2) bspec [OF own_0 [unfolded list_all_iff [of _ "[0..15]"]], of q]
      bspec [OF own_1 [unfolded list_all_iff [of _ "[16..31]"]], of q]
      bspec [OF own_2 [unfolded list_all_iff [of _ "[32..46]"]], of q] by argo
  with k(1) show ?thesis by (simp only: list_all_iff)
next
  case False
  then have "k \<in> set [4700..4762]" using assms by (simp only: set_upto atLeastAtMost_iff) presburger
  with own_3 show ?thesis by (simp only: list_all_iff)
qed

lemma own_entryD:
  assumes "look yy_chk (b + c) = Some s" "look yy_def s = Some 1172" "look yy_base s = Some b" "look yy_nxt (b + c) = Some t"
    "0 \<le> b + c" "b + c \<le> 4762"
  obtains l where "23 \<le> c" "c \<le> 75" "c \<noteq> 49" "look yy_chk (b + (if c \<le> 48 then c + 27 else c - 27)) = Some s"
    "look yy_nxt (b + (if c \<le> 48 then c + 27 else c - 27)) = Some t" "look yy_def t = Some 1172" "t \<noteq> 98" "t \<noteq> 1169"
    "look yy_label s = Some l" "l \<noteq> 0" "look yy_label t = Some (l * 27 + (if c \<le> 48 then c - 22 else c - 49))"
proof -
  have k: "(if c \<le> 48 then b + c + 27 else b + c - 27) = b + (if c \<le> 48 then c + 27 else c - 27)" by simp
  show thesis
    using own_entries [OF assms(5,6)] that
    by (simp add: own_entry_ok_def assms(1-4) Let_def k split: option.splits)
qed

lemma generic_entry:
  assumes "0 \<le> c" "c \<le> 76"
  obtains m where "look yy_meta c = Some m" "yy_next 1172 m = Some (if c = 0 then 7 else if is_word c then 98 else 1169)"
proof -
  have "c \<in> set [0..76]" using assms by simp
  from bspec [OF generic [unfolded list_all_iff] this] show thesis using that by (auto split: option.splits)
qed

definition word_state :: "string \<Rightarrow> int \<Rightarrow> bool" where
  "word_state w s \<longleftrightarrow> 0 < s \<and> s \<le> 1168 \<and> look yy_def s = Some 1172 \<and>
     (look yy_label s = Some 0 \<or> look yy_label s = Some (code w) \<and> list_all is_letter w)"

text \<open>A transition of a state behind a word: by an entry of its own, or as the generic state.\<close>

lemma word_next:
  assumes "look yy_def s = Some 1172" "0 < s" "s \<le> 1168" "0 \<le> c" "c \<le> 76"
  obtains (own) t l where "yy_next s c = Some t" "23 \<le> c" "c \<le> 75" "c \<noteq> 49" "look yy_def t = Some 1172" "0 < t" "t \<le> 1168"
      "yy_next s (if c \<le> 48 then c + 27 else c - 27) = Some t"
      "look yy_label s = Some l" "l \<noteq> 0" "look yy_label t = Some (l * 27 + (if c \<le> 48 then c - 22 else c - 49))"
  | (other) "yy_next s c = Some (if c = 0 then 7 else if is_word c then 98 else 1169)"
      "c \<noteq> 49 \<Longrightarrow> 23 \<le> c \<Longrightarrow> c \<le> 75 \<Longrightarrow> yy_next s (if c \<le> 48 then c + 27 else c - 27) = Some 98"
proof -
  obtain b where b: "look yy_base s = Some b" "0 \<le> b" "b \<le> 4686" using look_base [of s] assms by auto
  define d where "d = (if c \<le> 48 then c + 27 else c - 27)"
  have entry: "yy_next s e = (if look yy_chk (b + e) = Some s then look yy_nxt (b + e)
      else Some (if e = 0 then 7 else if is_word e then 98 else 1169))" if e: "0 \<le> e" "e \<le> 76" for e
  proof -
    obtain k t where "look yy_chk (b + e) = Some k" "look yy_nxt (b + e) = Some t"
      by (rule look_chk_nxt [of "b + e"]) (use b e in auto)
    moreover obtain m where "look yy_meta e = Some m"
      "yy_next 1172 m = Some (if e = 0 then 7 else if is_word e then 98 else 1169)"
      using e by (rule generic_entry)
    ultimately show ?thesis using b assms(1) by (simp add: yy_next.simps [of s e])
  qed
  show thesis
  proof (cases "look yy_chk (b + c) = Some s")
    case True
    obtain k t where t: "look yy_chk (b + c) = Some k" "look yy_nxt (b + c) = Some t"
      by (rule look_chk_nxt [of "b + c"]) (use b assms in auto)
    have n: "yy_next s c = Some t" using entry [of c] True t assms by simp
    obtain l where l: "23 \<le> c" "c \<le> 75" "c \<noteq> 49" "look yy_chk (b + d) = Some s" "look yy_nxt (b + d) = Some t"
      "look yy_def t = Some 1172" "t \<noteq> 98" "t \<noteq> 1169" "look yy_label s = Some l" "l \<noteq> 0"
      "look yy_label t = Some (l * 27 + (if c \<le> 48 then c - 22 else c - 49))"
      using own_entryD [OF True assms(1) b(1) t(2)] b assms(4,5) unfolding d_def by auto
    obtain t' where "yy_next s c = Some t'" "7 \<le> t'" "t' \<le> 1169" using transition_ok [OF assms(2-5)] by blast
    then have r: "0 < t" "t \<le> 1168" using n l(8) by auto
    have "yy_next s d = Some t" using entry [of d] l by (auto simp: d_def split: if_splits)
    then show thesis using own [OF n l(1-3,6) r _ l(9-11)] by (simp add: d_def)
  next
    case False
    have d: "yy_next s d = Some 98" if c: "c \<noteq> 49" "23 \<le> c" "c \<le> 75"
    proof -
      have r: "0 \<le> d" "d \<le> 76" "d \<noteq> 0" "is_word d" "(if d \<le> 48 then d + 27 else d - 27) = c"
        using c by (auto simp: d_def is_word_def)
      obtain k t where t: "look yy_chk (b + d) = Some k" "look yy_nxt (b + d) = Some t"
        by (rule look_chk_nxt [of "b + d"]) (use b r in auto)
      have "look yy_chk (b + d) \<noteq> Some s"
      proof
        assume e: "look yy_chk (b + d) = Some s"
        have "look yy_chk (b + c) = Some s"
          by (rule own_entryD [OF e assms(1) b(1) t(2)]) (use b r in auto)
        with False show False ..
      qed
      then show ?thesis using entry [of d] r by simp
    qed
    show thesis by (rule other) (use entry [of c] False assms d in \<open>auto simp: d_def\<close>)
  qed
qed


lemma byte_entry: obtains c where "look yy_ec (of_char ch) = Some c" "0 \<le> c" "c \<le> 76"
  using look_list_all [OF ec_bound(1), of "of_char ch"] int_of_char_range [of ch] ec_bound(2) by auto

lemma upper_cases:
  "97 \<le> (of_char ch :: int) \<Longrightarrow> (of_char ch :: int) \<le> 122 \<Longrightarrow> (of_char (upper ch) :: int) = of_char ch - 32"
  "\<not> (97 \<le> (of_char ch :: int) \<and> (of_char ch :: int) \<le> 122) \<Longrightarrow> upper ch = ch"
  by (auto simp: upper_def)

lemma code_snoc [simp]: "code (w @ [ch]) = code w * 27 + letter ch" "code [] = 0"
  by (simp_all add: code_def)

lemma letter_class:
  assumes "is_letter ch"
  obtains c where "look yy_ec (of_char ch) = Some c" "23 \<le> c" "c \<le> 75" "c \<noteq> 49"
    "letter ch = (if c \<le> 48 then c - 22 else c - 49)" "look yy_ec (of_char (upper ch)) = Some (if c \<le> 48 then c else c - 27)"
proof -
  obtain c where c: "look yy_ec (of_char ch) = Some c" using byte_entry [of ch] by blast
  obtain d where d: "look yy_ec (of_char (upper ch)) = Some d" using byte_entry [of "upper ch"] by blast
  show thesis
  proof (cases "97 \<le> (of_char ch :: int) \<and> (of_char ch :: int) \<le> 122")
    case True
    then show thesis using class_of_char [OF c] class_of_char [OF d] upper_cases(1) [of ch] c d
      by (intro that [of c]) (auto simp: letter_def)
  next
    case False
    then show thesis using class_of_char [OF c] upper_cases(2) [of ch] c assms
      by (intro that [of c]) (auto simp: letter_def is_letter_def split: if_splits)
  qed
qed

lemma other_class:
  assumes "\<not> is_letter ch"
  obtains c where "look yy_ec (of_char ch) = Some c" "0 \<le> c" "c \<le> 76" "is_word_char ch \<longleftrightarrow> is_word c" "upper ch = ch"
    "is_word c \<Longrightarrow> c < 23 \<or> c = 49"
proof -
  obtain c where c: "look yy_ec (of_char ch) = Some c" "0 \<le> c" "c \<le> 76" using byte_entry [of ch] by blast
  have n: "\<not> (97 \<le> (of_char ch :: int) \<and> (of_char ch :: int) \<le> 122)"
  proof
    assume "97 \<le> (of_char ch :: int) \<and> (of_char ch :: int) \<le> 122"
    then show False using upper_cases(1) [of ch] assms by (simp add: is_letter_def)
  qed
  have u: "ch = CHR 0x5F \<longleftrightarrow> (of_char ch :: int) = 95"
  proof
    assume "(of_char ch :: int) = 95"
    then have "(of_char ch :: int) = of_char CHR 0x5F" by simp
    then show "ch = CHR 0x5F" by (simp only: of_char_eq_iff)
  qed simp
  have "\<not> (65 \<le> (of_char ch :: int) \<and> (of_char ch :: int) \<le> 90)"
    using assms upper_cases(2) [OF n] by (simp add: is_letter_def)
  then show thesis using class_of_char [OF c(1)] c n upper_cases(2) [OF n] assms
    by (intro that [of c]) (auto simp: is_word_char_def u is_word_def split: if_splits)
qed

lemma word_next_98: "word_state w 98"
  using generic_states by (simp add: word_state_def)

lemma word_char_nonzero: "is_word_char ch \<Longrightarrow> (of_char ch :: int) \<noteq> 0 \<and> (of_char (upper ch) :: int) \<noteq> 0"
  by (auto simp: is_word_char_def is_letter_def upper_def split: if_splits)

text \<open>A word's state moves on to the state of the longer word, on a letter in either case.\<close>

lemma word_step:
  assumes "word_state w s" "is_word_char ch"
  obtains c t where "look yy_ec (of_char ch) = Some c" "yy_next s c = Some t" "word_state (w @ [ch]) t"
    "runs s [of_char (upper ch)] = Some t"
proof -
  have s: "look yy_def s = Some 1172" "0 < s" "s \<le> 1168" using assms(1) by (auto simp: word_state_def)
  have nz: "(of_char (upper ch) :: int) \<noteq> 0" using word_char_nonzero [OF assms(2)] by blast
  show thesis
  proof (cases "is_letter ch")
    case True
    obtain c where c: "look yy_ec (of_char ch) = Some c" "23 \<le> c" "c \<le> 75" "c \<noteq> 49"
      "letter ch = (if c \<le> 48 then c - 22 else c - 49)" "look yy_ec (of_char (upper ch)) = Some (if c \<le> 48 then c else c - 27)"
      using True by (rule letter_class)
    show thesis
    proof (rule word_next [OF s, of c])
      fix t l
      assume t: "yy_next s c = Some t" "look yy_def t = Some 1172" "0 < t" "t \<le> 1168"
        "yy_next s (if c \<le> 48 then c + 27 else c - 27) = Some t" "look yy_label s = Some l" "l \<noteq> 0"
        "look yy_label t = Some (l * 27 + (if c \<le> 48 then c - 22 else c - 49))"
      have "word_state (w @ [ch]) t" using t assms(1) c(5) True by (simp add: word_state_def)
      moreover have "yy_next s (if c \<le> 48 then c else c - 27) = Some t" using t by (simp split: if_splits)
      ultimately show thesis using that [OF c(1) t(1)] c(6) nz t by simp
    next
      assume t: "yy_next s c = Some (if c = 0 then 7 else if is_word c then 98 else 1169)"
        "c \<noteq> 49 \<Longrightarrow> 23 \<le> c \<Longrightarrow> c \<le> 75 \<Longrightarrow> yy_next s (if c \<le> 48 then c + 27 else c - 27) = Some 98"
      have n: "yy_next s c = Some 98" using t(1) c by (simp add: is_word_def)
      have "yy_next s (if c \<le> 48 then c else c - 27) = Some 98" using n t(2) c by (simp split: if_splits)
      then show thesis using that [OF c(1) n word_next_98] c(6) nz by simp
    qed (use c in auto)
  next
    case False
    obtain c where c: "look yy_ec (of_char ch) = Some c" "0 \<le> c" "c \<le> 76" "is_word_char ch \<longleftrightarrow> is_word c" "upper ch = ch"
      "is_word c \<Longrightarrow> c < 23 \<or> c = 49"
      using other_class [OF False] by metis
    show thesis
    proof (rule word_next [OF s c(2,3)])
      fix t l
      assume "23 \<le> c" "c \<le> 75" "c \<noteq> 49"
      then show thesis using c(4,6) assms(2) by simp
    next
      assume "yy_next s c = Some (if c = 0 then 7 else if is_word c then 98 else 1169)"
      then have n: "yy_next s c = Some 98" using c(4) assms(2) by (auto simp: is_word_def)
      then show thesis using that [OF c(1) n word_next_98] c(1,5) nz by simp
    qed
  qed
qed

lemma word_runs:
  "word_state w s \<Longrightarrow> list_all is_word_char v \<Longrightarrow>
     \<exists>t. runs s (buffer_bytes v) = Some t \<and> runs s (buffer_bytes (map upper v)) = Some t \<and> word_state (w @ v) t"
proof (induction v arbitrary: w s)
  case (Cons ch v)
  obtain c t where t: "look yy_ec (of_char ch) = Some c" "yy_next s c = Some t" "word_state (w @ [ch]) t"
    "runs s [of_char (upper ch)] = Some t"
    by (rule word_step [OF Cons.prems(1)]) (use Cons.prems in auto)
  have nz: "(of_char ch :: int) \<noteq> 0" using Cons.prems word_char_nonzero by auto
  obtain t' where "runs t (buffer_bytes v) = Some t'" "runs t (buffer_bytes (map upper v)) = Some t'" "word_state ((w @ [ch]) @ v) t'"
    using Cons.IH [OF t(3)] Cons.prems(2) by auto
  moreover have "runs s ([of_char (upper ch)] @ buffer_bytes (map upper v)) = runs t (buffer_bytes (map upper v))"
    unfolding runs_append t(4) by simp
  ultimately show ?case using t(1-3) nz by (auto simp: buffer_bytes_def word_state_def)
qed (simp add: buffer_bytes_def)

lemma first_letter:
  assumes "is_letter ch"
  obtains t where "runs 1 [of_char ch] = Some t" "runs 1 [of_char (upper ch)] = Some t" "word_state [ch] t"
proof -
  obtain c where c: "look yy_ec (of_char ch) = Some c" "23 \<le> c" "c \<le> 75" "c \<noteq> 49"
    "letter ch = (if c \<le> 48 then c - 22 else c - 49)" "look yy_ec (of_char (upper ch)) = Some (if c \<le> 48 then c else c - 27)"
    using assms by (rule letter_class)
  define e where "e = (if c \<le> 48 then c else c - 27)"
  have "23 \<le> e \<and> e \<le> 48" using c by (auto simp: e_def)
  then have "e \<in> set [23..48]" by (simp only: set_upto atLeastAtMost_iff)
  then have "start_ok e" using start_words by (simp only: list_all_iff)
  then obtain t where t: "yy_next 1 e = Some t" "0 < t" "t \<le> 1168" "yy_next 1 (e + 27) = Some t" "look yy_def t = Some 1172"
    "look yy_label t = Some 0 \<or> look yy_label t = Some (e - 22)"
    by (auto simp: start_ok_def split: option.splits)
  have "yy_next 1 c = Some t" using t by (auto simp: e_def split: if_splits)
  moreover have "letter ch = e - 22" using c by (auto simp: e_def)
  moreover have "(of_char ch :: int) \<noteq> 0 \<and> (of_char (upper ch) :: int) \<noteq> 0"
    using word_char_nonzero assms by (auto simp: is_word_char_def)
  ultimately show thesis using t c assms that [of t] by (simp add: word_state_def code_def e_def)
qed

lemma word_leads:
  assumes "is_letter ch" "list_all is_word_char v"
  obtains t where "runs 1 (buffer_bytes (ch # v)) = Some t" "runs 1 (buffer_bytes (map upper (ch # v))) = Some t"
    "word_state (ch # v) t"
proof -
  obtain t where t: "runs 1 [of_char ch] = Some t" "runs 1 [of_char (upper ch)] = Some t" "word_state [ch] t"
    using assms(1) by (rule first_letter)
  obtain t' where t': "runs t (buffer_bytes v) = Some t'" "runs t (buffer_bytes (map upper v)) = Some t'" "word_state ([ch] @ v) t'"
    using word_runs [OF t(3) assms(2)] by blast
  have "runs 1 ([of_char ch] @ buffer_bytes v) = Some t'" "runs 1 ([of_char (upper ch)] @ buffer_bytes (map upper v)) = Some t'"
    unfolding runs_append t by (simp_all add: t')
  then show thesis using t'(3) by (intro that) (simp_all add: buffer_bytes_def)
qed


section \<open>Keywords and names\<close>

lemma letter_range: "is_letter ch \<Longrightarrow> 1 \<le> letter ch \<and> letter ch \<le> 26"
  by (simp add: is_letter_def letter_def)

lemma upper_letter: "upper ch = upper ch' \<longleftrightarrow> letter ch = letter ch'"
  by (simp add: letter_def)

lemma code_pos: "list_all is_letter w \<Longrightarrow> w \<noteq> [] \<Longrightarrow> 0 < code w"
proof (induction w rule: rev_induct)
  case (snoc ch w)
  then show ?case using letter_range [of ch] by (cases "w = []") (auto simp: code_def)
qed simp

lemma code_inj:
  "code v = code w \<Longrightarrow> list_all is_letter v \<Longrightarrow> list_all is_letter w \<Longrightarrow> map upper v = map upper w"
proof (induction v arbitrary: w rule: rev_induct)
  case Nil
  then show ?case using code_pos [of w] by (cases "w = []") auto
next
  case (snoc ch v)
  show ?case
  proof (cases w rule: rev_cases)
    case Nil
    then show ?thesis using snoc.prems code_pos [of "v @ [ch]"] by simp
  next
    case (snoc w' ch')
    have e: "code v * 27 + letter ch = code w' * 27 + letter ch'" using snoc.prems snoc by simp
    have "1 \<le> letter ch \<and> letter ch \<le> 26" "1 \<le> letter ch' \<and> letter ch' \<le> 26"
      using snoc.prems snoc letter_range by auto
    with e have "code v = code w'" "letter ch = letter ch'" by presburger+
    then show ?thesis using snoc.IH [of w'] snoc.prems snoc by (simp add: upper_letter)
  qed
qed

lemma length_keyword_rules:
  "length keyword_rules_0 = 30" "length keyword_rules_1 = 30" "length keyword_rules_2 = 30" "length keyword_rules_3 = 30"
  "length keyword_rules_4 = 27" "length keyword_rules = 147"
  by (simp_all add: keyword_rules_defs)

lemma zip_upto_entry:
  "i < length xs \<Longrightarrow> a + int (length xs) \<le> b + 1 \<Longrightarrow> (a + int i, xs ! i) \<in> set (zip [a..b] xs)"
  by (auto simp: set_zip nth_upto intro!: exI [of _ i])

lemma list_all_zip5:
  assumes "list_all P (zip as xs)" "list_all P (zip bs ys)" "list_all P (zip cs zs)" "list_all P (zip ds us)" "list_all P (zip es vs)"
    "length as = length xs" "length bs = length ys" "length cs = length zs" "length ds = length us"
  shows "list_all P (zip (as @ bs @ cs @ ds @ es) (xs @ ys @ zs @ us @ vs))"
  using assms by simp

lemma all_keywords: "list_all keyword_ok (zip [5..151] keyword_rules)"
proof -
  have "[5..151] = [5..34] @ [35..64] @ [65..94] @ [95..124] @ [125..151::int]" by (simp add: upto.simps)
  then show ?thesis
    using list_all_zip5 [OF keywords_0 keywords_1 keywords_2 keywords_3 keywords_4] length_keyword_rules
    unfolding keyword_rules_def by simp
qed

lemma rule_entry:
  assumes "5 \<le> act" "act \<le> 151"
  shows "keyword_ok (act, keyword_rules ! nat (act - 5))"
proof -
  have "(5 + int (nat (act - 5)), keyword_rules ! nat (act - 5)) \<in> set (zip [5..151] keyword_rules)"
    by (rule zip_upto_entry) (use assms length_keyword_rules(6) in auto)
  moreover have "5 + int (nat (act - 5)) = act" using assms by simp
  ultimately show ?thesis using all_keywords unfolding list_all_iff by metis
qed

lemma keyword_entry:
  assumes "(name, token) \<in> set keyword_rules"
  obtains act where "5 \<le> act" "act \<le> 151" "keyword_rules ! nat (act - 5) = (name, token)" "keyword_ok (act, name, token)"
proof -
  obtain i where i: "i < 147" "keyword_rules ! i = (name, token)"
    using assms by (auto simp: in_set_conv_nth length_keyword_rules)
  then show thesis using rule_entry [of "5 + int i"] that [of "5 + int i"] by simp
qed

lemma accepts_state:
  assumes "0 \<le> s" "s \<le> 1168"
  shows "accept_ok s"
proof -
  define q where "q = s div 100"
  have "0 \<le> q" "q \<le> 11" "100 * q \<le> s" "s \<le> 100 * q + 99" using assms by (auto simp: q_def)
  then have "q \<in> set [0..11]" "s \<in> set [100 * q..100 * q + 99]" by (simp_all only: set_upto atLeastAtMost_iff)
  then show ?thesis using accepts_words unfolding list_all_iff by blast
qed

text \<open>The rule for a word: that of its keyword, or the rule of names.\<close>

lemma word_rule:
  assumes "word_state w s" "w \<noteq> []" "runs 1 (buffer_bytes (map upper w)) = Some s"
  shows "case map_of keyword_rules (map upper w) of
      Some token \<Rightarrow> \<exists>act. 5 \<le> act \<and> act \<le> 151 \<and> keyword_rules ! nat (act - 5) = (map upper w, token) \<and> look yy_accept s = Some act
    | None \<Rightarrow> look yy_accept s = Some 164"
proof (cases "map_of keyword_rules (map upper w)")
  case (Some token)
  then obtain act where act: "5 \<le> act" "act \<le> 151" "keyword_rules ! nat (act - 5) = (map upper w, token)"
    "keyword_ok (act, map upper w, token)"
    using keyword_entry [of "map upper w" token] map_of_SomeD [OF Some] by blast
  then have "look yy_accept s = Some act" using assms(3) by (simp add: keyword_ok_def)
  with act Some show ?thesis by auto
next
  case None
  have s: "0 < s" "s \<le> 1168" "look yy_def s = Some 1172" using assms(1) by (auto simp: word_state_def)
  then obtain a where a: "look yy_accept s = Some a" "a = 164 \<or> 5 \<le> a \<and> a \<le> 151 \<and> look yy_label s = look rule_code a"
    using accepts_state [of s] by (auto simp: accept_ok_def split: option.splits)
  moreover have False if r: "5 \<le> a" "a \<le> 151" "look yy_label s = look rule_code a"
  proof -
    obtain name token where n: "keyword_rules ! nat (a - 5) = (name, token)" by fastforce
    have k: "look rule_code a = Some (code name)" "list_all (\<lambda>ch. upper ch = ch \<and> is_letter ch) name" "name \<noteq> []"
      using rule_entry [OF r(1,2)] by (auto simp: n keyword_ok_def)
    have letters: "list_all is_letter name" using k(2) by (simp add: list_all_iff)
    have l: "code name = code w" "list_all is_letter w"
      using assms(1) r(3) k(1) code_pos [OF letters k(3)] by (auto simp: word_state_def)
    have "map upper name = name" using k(2) by (simp add: list_all_iff map_idI)
    then have "map upper w = name" using code_inj [OF l(1) letters l(2)] by simp
    moreover have "(name, token) \<in> set keyword_rules"
      using r n nth_mem [of "nat (a - 5)" keyword_rules] by (simp add: length_keyword_rules)
    ultimately show False using None by (auto simp: map_of_eq_None_iff rev_image_eqI)
  qed
  ultimately show ?thesis using None by auto
qed

lemma word_stops:
  assumes "word_state w s" "r = [] \<or> \<not> is_word_char (hd r) \<and> hd r \<noteq> CHR 0x00"
  shows "stops s r"
proof (cases r)
  case (Cons ch r')
  then have n: "\<not> is_letter ch" "ch \<noteq> CHR 0x00" "\<not> is_word_char ch" using assms(2) by (auto simp: is_word_char_def)
  obtain c where c: "look yy_ec (of_char ch) = Some c" "0 \<le> c" "c \<le> 76" "\<not> is_word c"
    using other_class [OF n(1)] n(3) by metis
  have "c \<noteq> 0" using byte_class [OF n(2)] c by fastforce
  have "yy_next s c = Some 1169"
    by (rule word_next [of s c]) (use assms(1) c \<open>c \<noteq> 0\<close> in \<open>auto simp: word_state_def is_word_def\<close>)
  then show ?thesis using c Cons by (simp add: stops_def)
qed (simp add: stops_def)

lemma word_token:
  assumes "is_letter ch" "list_all is_word_char v" "r = [] \<or> \<not> is_word_char (hd r) \<and> hd r \<noteq> CHR 0x00"
    "lx_start lx = 1" "lx_buf lx = (ch # v) @ r"
  shows "yylex atof lx yylval yylloc =
    (case map_of keyword_rules (map upper (ch # v)) of
       Some token \<Rightarrow> Some (token, lx\<lparr>lx_buf := r\<rparr>, yylval, YY_USER_ACTION (ch # v) yylloc)
     | None \<Rightarrow> Some (SQL_IDENTIFIER, lx\<lparr>lx_buf := r\<rparr>, U_sval (Some (ch # v)), YY_USER_ACTION (ch # v) yylloc))"
proof -
  obtain s where s: "runs 1 (buffer_bytes (ch # v)) = Some s" "runs 1 (buffer_bytes (map upper (ch # v))) = Some s"
    "word_state (ch # v) s"
    using assms(1,2) by (rule word_leads)
  have rule: "yy_rule 1 ((ch # v) @ r) = Some (act, length (ch # v))" if "look yy_accept s = Some act" "1 \<le> act" "act \<le> 170" for act
    using rule_of_run [OF s(1) _ _ that] word_stops [OF s(3) assms(3)] by (simp add: starts_def)
  note w = word_rule [OF s(3) _ s(2)]
  show ?thesis
  proof (cases "map_of keyword_rules (map upper (ch # v))")
    case (Some token)
    with w obtain act where "5 \<le> act" "act \<le> 151" "keyword_rules ! nat (act - 5) = (map upper (ch # v), token)"
      "look yy_accept s = Some act" by auto
    with Some rule [of act] show ?thesis using assms(4,5)
      by (subst yylex.simps) (simp add: yy_turn_def yy_action_def YY_END_OF_BUFFER_def Let_def)
  next
    case None
    with w have "look yy_accept s = Some 164" by simp
    with None rule [of 164] show ?thesis using assms(4,5)
      by (subst yylex.simps) (simp add: yy_turn_def yy_action_def YY_END_OF_BUFFER_def Let_def)
  qed
qed

text \<open>C40: Words are looked up in the table of keywords. A letter followed by letters, digits and
  underscores, up to a character that is none of these, is one token: the token of the keyword
  it spells in capitals or small letters, or else an identifier with exactly this text.\<close>

theorem words_by_table:
  assumes "is_letter ch" "list_all is_word_char v" "r = [] \<or> \<not> is_word_char (hd r) \<and> hd r \<noteq> CHR 0x00"
    "lx_start lx = 1" "lx_buf lx = (ch # v) @ r"
  shows "yylex atof lx yylval yylloc =
    (case map_of keyword_rules (map upper (ch # v)) of
       Some token \<Rightarrow> Some (token, lx\<lparr>lx_buf := r\<rparr>, yylval, YY_USER_ACTION (ch # v) yylloc)
     | None \<Rightarrow> Some (SQL_IDENTIFIER, lx\<lparr>lx_buf := r\<rparr>, U_sval (Some (ch # v)), YY_USER_ACTION (ch # v) yylloc))"
  by (rule word_token [OF assms])

lemma words_by_table_witness:
  "yylex (\<lambda>s. 0) (yy_scan_string ''sElect_1 x'') U_undef yyloc_default =
     Some (SQL_IDENTIFIER, \<lparr>lx_buf = '' x'', lx_start = 1, lx_strbuf = []\<rparr>, U_sval (Some ''sElect_1''),
       YY_USER_ACTION ''sElect_1'' yyloc_default) \<and>
   yylex (\<lambda>s. 0) (yy_scan_string ''sElect x'') U_undef yyloc_default =
     Some (312, \<lparr>lx_buf = '' x'', lx_start = 1, lx_strbuf = []\<rparr>, U_undef, YY_USER_ACTION ''sElect'' yyloc_default)"
proof -
  have u: "map upper ''sElect_1'' = ''SELECT_1''" "map upper ''sElect'' = ''SELECT''" by code_simp+
  have k: "map_of keyword_rules ''SELECT_1'' = None" "map_of keyword_rules ''SELECT'' = Some 312"
    by (simp_all add: keyword_rules_defs)
  have w: "is_letter CHR ''s''" "list_all is_word_char ''Elect_1''" "list_all is_word_char ''Elect''"
    "\<not> is_word_char CHR '' ''" by code_simp+
  show ?thesis
    using words_by_table [of "CHR ''s''" "''Elect_1''" "'' x''" "yy_scan_string ''sElect_1 x''" "\<lambda>s. 0" U_undef yyloc_default]
      words_by_table [of "CHR ''s''" "''Elect''" "'' x''" "yy_scan_string ''sElect x''" "\<lambda>s. 0" U_undef yyloc_default]
    unfolding u k using w by (simp add: yy_scan_string_def c_str_def)
qed

end
