(* ===== verification/Lexemes.thy ===== *)
theory Lexemes
  imports Words
begin

text \<open>
  Texts as sequences of tokens: blanks, punctuation, numbers and strings, and the relation
  between a text and the tokens the scanner makes of it.
\<close>

section \<open>Tokens of a text\<close>

definition lexer_at :: "string \<Rightarrow> string \<Rightarrow> lexer" where
  "lexer_at buf sb = \<lparr>lx_buf = buf, lx_start = 1, lx_strbuf = sb\<rparr>"

lemma lexer_at_simps [simp]:
  "lx_buf (lexer_at buf sb) = buf" "lx_start (lexer_at buf sb) = 1" "lx_strbuf (lexer_at buf sb) = sb"
  "(lexer_at buf sb)\<lparr>lx_buf := buf'\<rparr> = lexer_at buf' sb"
  by (simp_all add: lexer_at_def)

text \<open>
  In every state of the location the scanner takes the token from the front of the text; the
  value is that of the token, or is left as it was.
\<close>

definition reads :: "(string \<Rightarrow> u64) \<Rightarrow> string \<Rightarrow> int \<Rightarrow> YYSTYPE option \<Rightarrow> string \<Rightarrow> bool" where
  "reads atof buf token value buf' \<longleftrightarrow> (\<forall>sb. \<exists>sb' move. \<forall>yylval yylloc.
     yylex atof (lexer_at buf sb) yylval yylloc =
       Some (token, lexer_at buf' sb', (case value of None \<Rightarrow> yylval | Some v \<Rightarrow> v), move yylloc))"

definition finishes :: "(string \<Rightarrow> u64) \<Rightarrow> string \<Rightarrow> bool" where
  "finishes atof buf \<longleftrightarrow> (\<forall>sb. \<exists>lx move. \<forall>yylval yylloc. yylex atof (lexer_at buf sb) yylval yylloc = Some (0, lx, yylval, move yylloc))"

inductive scans :: "(string \<Rightarrow> u64) \<Rightarrow> string \<Rightarrow> (int \<times> YYSTYPE option) list \<Rightarrow> bool" for atof where
  scans_Nil: "finishes atof buf \<Longrightarrow> scans atof buf []"
| scans_Cons: "reads atof buf token value buf' \<Longrightarrow> scans atof buf' ts \<Longrightarrow> scans atof buf ((token, value) # ts)"

lemma reads_finishes: "reads atof buf 0 None buf' \<Longrightarrow> finishes atof buf"
  by (simp add: reads_def finishes_def) blast

lemma yylex_rule:
  assumes "yy_rule st (w @ r) = Some (act, length w)" "lx_start lx = st" "lx_buf lx = w @ r"
    "yy_action atof act w (lx\<lparr>lx_buf := r\<rparr>, yylval) = Some (token, lx', lval)" "act < 171"
  shows "yylex atof lx yylval yylloc =
    (case token of Some t \<Rightarrow> Some (t, lx', lval, YY_USER_ACTION w yylloc)
     | None \<Rightarrow> yylex atof lx' lval (YY_USER_ACTION w yylloc))"
  using assms by (subst yylex.simps) (simp add: yy_turn_def YY_END_OF_BUFFER_def Let_def)

lemma reads_end: "reads atof [] 0 None []"
  unfolding reads_def
proof (intro allI)
  fix sb
  have "yylex atof (lexer_at [] sb) v l = Some (0, lexer_at [] sb, v, l)" for v l
    using yy_rule_empty [of 1]
    by (subst yylex.simps) (simp add: yy_turn_def starts_def YY_STATE_EOF_def YY_START_def YY_END_OF_BUFFER_def yy_action_def
        INITIAL_def Let_def)
  then show "\<exists>sb' move. \<forall>yylval yylloc. yylex atof (lexer_at [] sb) yylval yylloc =
      Some (0, lexer_at [] sb', (case None of None \<Rightarrow> yylval | Some v \<Rightarrow> v), move yylloc)"
    by (intro exI [of _ sb] exI [of _ "\<lambda>l. l"]) simp
qed

lemma reads_one:
  assumes "yy_rule 1 (w @ r) = Some (act, length w)" "act < 171"
    "\<And>sb yylval. yy_action atof act w (lexer_at r sb, yylval) = Some (Some token, lexer_at r sb, (case value of None \<Rightarrow> yylval | Some v \<Rightarrow> v))"
  shows "reads atof (w @ r) token value r"
  unfolding reads_def
proof (intro allI)
  fix sb
  show "\<exists>sb' move. \<forall>yylval yylloc. yylex atof (lexer_at (w @ r) sb) yylval yylloc =
      Some (token, lexer_at r sb', (case value of None \<Rightarrow> yylval | Some v \<Rightarrow> v), move yylloc)"
    by (intro exI [of _ sb] exI [of _ "YY_USER_ACTION w"]) (simp add: yylex_rule [OF assms(1) _ _ _ assms(2)] assms(3))
qed

section \<open>Blanks\<close>

definition blank :: "char \<Rightarrow> bool" where
  "blank ch \<longleftrightarrow> ch = CHR '' '' \<or> ch = CHR 0x09 \<or> ch = CHR 0x0A"

lemma special_bytes: "list_all (\<lambda>b. case look yy_ec b of None \<Rightarrow> False | Some c \<Rightarrow>
    (c = 2 \<or> c = 3 \<longleftrightarrow> b = 9 \<or> b = 10 \<or> b = 32) \<and> (c = 7 \<longleftrightarrow> b = 39) \<and> (c = 21 \<longleftrightarrow> b = 61) \<and> (c = 9 \<longleftrightarrow> b = 46) \<and>
    (10 \<le> c \<and> c \<le> 19 \<longleftrightarrow> 48 \<le> b \<and> b \<le> 57)) [0..255]"
  by (simp add: upto.simps)

definition digit :: "char \<Rightarrow> bool" where
  "digit ch \<longleftrightarrow> 48 \<le> (of_char ch :: int) \<and> (of_char ch :: int) \<le> 57"

lemma char_codes:
  "ch = CHR 0x09 \<longleftrightarrow> (of_char ch :: int) = 9" "ch = CHR 0x0A \<longleftrightarrow> (of_char ch :: int) = 10"
  "ch = CHR '' '' \<longleftrightarrow> (of_char ch :: int) = 32" "ch = CHR 0x27 \<longleftrightarrow> (of_char ch :: int) = 39"
  "ch = CHR ''='' \<longleftrightarrow> (of_char ch :: int) = 61" "ch = CHR ''.'' \<longleftrightarrow> (of_char ch :: int) = 46"
  using of_char_eq_iff [where ?'a = int, of ch "CHR 0x09"] of_char_eq_iff [where ?'a = int, of ch "CHR 0x0A"]
    of_char_eq_iff [where ?'a = int, of ch "CHR '' ''"] of_char_eq_iff [where ?'a = int, of ch "CHR 0x27"]
    of_char_eq_iff [where ?'a = int, of ch "CHR ''=''"] of_char_eq_iff [where ?'a = int, of ch "CHR ''.''"]
  by simp_all

lemma special_class:
  assumes "look yy_ec (of_char ch) = Some c"
  shows "blank ch \<longleftrightarrow> c = 2 \<or> c = 3" "ch = CHR 0x27 \<longleftrightarrow> c = 7" "ch = CHR ''='' \<longleftrightarrow> c = 21"
    "digit ch \<or> ch = CHR ''.'' \<longleftrightarrow> 9 \<le> c \<and> c \<le> 19" "digit ch \<longleftrightarrow> 10 \<le> c \<and> c \<le> 19"
proof -
  have "0 \<le> (of_char ch :: int) \<and> (of_char ch :: int) \<le> 255" using int_of_char_range [of ch] by simp
  then have "(of_char ch :: int) \<in> set [0..255]" by (simp only: set_upto atLeastAtMost_iff)
  from bspec [OF special_bytes [unfolded list_all_iff] this]
  have c: "(c = 2 \<or> c = 3 \<longleftrightarrow> (of_char ch :: int) = 9 \<or> (of_char ch :: int) = 10 \<or> (of_char ch :: int) = 32)"
    "c = 7 \<longleftrightarrow> (of_char ch :: int) = 39" "c = 21 \<longleftrightarrow> (of_char ch :: int) = 61" "c = 9 \<longleftrightarrow> (of_char ch :: int) = 46"
    "10 \<le> c \<and> c \<le> 19 \<longleftrightarrow> 48 \<le> (of_char ch :: int) \<and> (of_char ch :: int) \<le> 57"
    by (simp_all only: assms option.case)
  show "blank ch \<longleftrightarrow> c = 2 \<or> c = 3" "ch = CHR 0x27 \<longleftrightarrow> c = 7" "ch = CHR ''='' \<longleftrightarrow> c = 21"
    "digit ch \<longleftrightarrow> 10 \<le> c \<and> c \<le> 19"
    using c unfolding blank_def digit_def char_codes by blast+
  show "digit ch \<or> ch = CHR ''.'' \<longleftrightarrow> 9 \<le> c \<and> c \<le> 19"
    unfolding digit_def char_codes using c(4,5) by auto
qed

lemma blank_runs: "list_all blank v \<Longrightarrow> runs 86 (buffer_bytes v) = Some 86"
  by (induction v) (auto simp: buffer_bytes_def blank_def yy_next.simps cong: bind_weak_cong)

lemma blanks_run: "list_all blank (ch # v) \<Longrightarrow> \<exists>s. runs 1 (buffer_bytes (ch # v)) = Some s \<and> (s = 9 \<or> s = 10 \<or> s = 86)"
  using blank_runs [of "tl v"] by (cases v) (auto simp: buffer_bytes_def blank_def yy_next.simps cong: bind_weak_cong)

text \<open>Checks over all classes of bytes that are not zero.\<close>

definition jams :: "int \<Rightarrow> (int \<Rightarrow> bool) \<Rightarrow> bool" where
  "jams s P \<longleftrightarrow> list_all (\<lambda>c. P c \<longrightarrow> yy_next s c = Some 1169) [1..76]"

lemma jams_stop:
  assumes "jams s P" "r = [] \<or> hd r \<noteq> CHR 0x00 \<and> (\<forall>c. look yy_ec (of_char (hd r)) = Some c \<longrightarrow> P c)"
  shows "stops s r"
proof (cases r)
  case (Cons ch r')
  then obtain c where c: "look yy_ec (of_char ch) = Some c" "0 < c" "c \<le> 76" using assms(2) byte_class [of ch] by auto
  then have "1 \<le> c \<and> c \<le> 76" by simp
  then have "c \<in> set [1..76]" by (simp only: set_upto atLeastAtMost_iff)
  then have "P c \<longrightarrow> yy_next s c = Some 1169" using assms(1) unfolding jams_def list_all_iff by blast
  then show ?thesis using c assms(2) Cons by (simp add: stops_def)
qed (simp add: stops_def)

lemma jam_blank: "jams 9 (\<lambda>c. c \<noteq> 2 \<and> c \<noteq> 3)" "jams 10 (\<lambda>c. c \<noteq> 2 \<and> c \<noteq> 3)" "jams 86 (\<lambda>c. c \<noteq> 2 \<and> c \<noteq> 3)"
  by (simp_all add: jams_def upto.simps yy_next.simps cong: bind_weak_cong)

lemma jam_sign: "jams 13 (\<lambda>c. True)" "jams 14 (\<lambda>c. True)" "jams 19 (\<lambda>c. c \<noteq> 21)" "jams 17 (\<lambda>c. \<not> (9 \<le> c \<and> c \<le> 19))"
    "jams 93 (\<lambda>c. \<not> (9 \<le> c \<and> c \<le> 19))" "jams 179 (\<lambda>c. True)" "jams 47 (\<lambda>c. c \<noteq> 7)" "jams 46 (\<lambda>c. c = 7)" "jams 178 (\<lambda>c. c = 7)"
  by (simp_all add: jams_def upto.simps yy_next.simps cong: bind_weak_cong)

lemma yylex_blanks:
  assumes "list_all blank ws" "ws \<noteq> []" "r = [] \<or> hd r \<noteq> CHR 0x00 \<and> \<not> blank (hd r)"
  shows "yylex atof (lexer_at (ws @ r) sb) yylval yylloc = yylex atof (lexer_at r sb) yylval (YY_USER_ACTION ws yylloc)"
proof -
  obtain s where s: "runs 1 (buffer_bytes ws) = Some s" "s = 9 \<or> s = 10 \<or> s = 86"
    using blanks_run assms(1,2) by (cases ws) blast+
  have st: "stops s r"
    by (rule jams_stop [of s "\<lambda>c. c \<noteq> 2 \<and> c \<noteq> 3"]) (use s(2) jam_blank assms(3) special_class(1) [of "hd r"] in auto)
  have "yy_rule 1 (ws @ r) = Some (4, length ws)"
    using s rule_of_run [OF s(1) _ assms(2) _ _ _ st] by (auto simp: starts_def)
  from yylex_rule [OF this, of "lexer_at (ws @ r) sb"] show ?thesis by (simp add: yy_action_def)
qed

lemma reads_blanks:
  assumes "list_all blank ws" "ws \<noteq> []" "r = [] \<or> hd r \<noteq> CHR 0x00 \<and> \<not> blank (hd r)"
  shows "reads atof r token value buf' \<Longrightarrow> reads atof (ws @ r) token value buf'"
    "finishes atof r \<Longrightarrow> finishes atof (ws @ r)"
proof -
  assume m: "reads atof r token value buf'"
  show "reads atof (ws @ r) token value buf'"
    unfolding reads_def yylex_blanks [OF assms]
  proof
    fix sb
    obtain sb' move where "\<forall>yylval yylloc. yylex atof (lexer_at r sb) yylval yylloc =
        Some (token, lexer_at buf' sb', (case value of None \<Rightarrow> yylval | Some v \<Rightarrow> v), move yylloc)"
      using m unfolding reads_def by blast
    then show "\<exists>sb' move. \<forall>yylval yylloc. yylex atof (lexer_at r sb) yylval (YY_USER_ACTION ws yylloc) =
        Some (token, lexer_at buf' sb', (case value of None \<Rightarrow> yylval | Some v \<Rightarrow> v), move yylloc)"
      by (intro exI [of _ sb'] exI [of _ "\<lambda>l. move (YY_USER_ACTION ws l)"]) simp
  qed
next
  assume m: "finishes atof r"
  show "finishes atof (ws @ r)"
    unfolding finishes_def yylex_blanks [OF assms]
  proof
    fix sb
    obtain lx move where "\<forall>yylval yylloc. yylex atof (lexer_at r sb) yylval yylloc = Some (0, lx, yylval, move yylloc)"
      using m unfolding finishes_def by blast
    then show "\<exists>lx move. \<forall>yylval yylloc. yylex atof (lexer_at r sb) yylval (YY_USER_ACTION ws yylloc) = Some (0, lx, yylval, move yylloc)"
      by (intro exI [of _ lx] exI [of _ "\<lambda>l. move (YY_USER_ACTION ws l)"]) simp
  qed
qed

section \<open>Punctuation and numbers\<close>

definition sign :: "char \<Rightarrow> bool" where
  "sign ch \<longleftrightarrow> ch \<in> {CHR ''('', CHR '')'', CHR '','', CHR '';'', CHR ''*''}"

lemma reads_sign:
  assumes "sign ch" "CHR 0x00 \<notin> set r"
  shows "reads atof ([ch] @ r) (of_char ch) None r"
proof -
  have "runs 1 (buffer_bytes [ch]) = Some 13"
    using assms(1) by (auto simp: sign_def buffer_bytes_def yy_next.simps cong: bind_weak_cong)
  moreover have "stops 13 r" by (rule jams_stop [OF jam_sign(1)]) (use assms(2) in \<open>cases r; auto\<close>)
  ultimately have "yy_rule 1 ([ch] @ r) = Some (158, length [ch])" by (intro rule_of_run) (simp_all add: starts_def)
  then show ?thesis by (rule reads_one) (simp_all add: yy_action_def)
qed

lemma reads_equals:
  assumes "CHR 0x00 \<notin> set r" "r = [] \<or> hd r \<noteq> CHR ''=''"
  shows "reads atof (''='' @ r) 61 None r"
proof -
  have "runs 1 (buffer_bytes ''='') = Some 19" by (simp add: buffer_bytes_def yy_next.simps cong: bind_weak_cong)
  moreover have "stops 19 r"
    by (rule jams_stop [OF jam_sign(3)]) (use assms special_class(3) [of "hd r"] in \<open>cases r; auto\<close>)
  ultimately have "yy_rule 1 (''='' @ r) = Some (158, length ''='')" by (intro rule_of_run) (simp_all add: starts_def)
  then show ?thesis by (rule reads_one) (simp_all add: yy_action_def)
qed

lemma digit_classes: "digit ch \<Longrightarrow> \<exists>c. look yy_ec (of_char ch) = Some c \<and> 10 \<le> c \<and> c \<le> 19 \<and> (of_char ch :: int) \<noteq> 0"
  using byte_entry [of ch] special_class(5) by (metis digit_def not_numeral_le_zero)

lemma digits_next: "10 \<le> c \<Longrightarrow> c \<le> 19 \<Longrightarrow> yy_next 1 c = Some 17 \<and> yy_next 17 c = Some 93 \<and> yy_next 93 c = Some 93"
proof -
  have "list_all (\<lambda>c. yy_next 1 c = Some 17 \<and> yy_next 17 c = Some 93 \<and> yy_next 93 c = Some 93) [10..19]"
    by (simp add: upto.simps yy_next.simps cong: bind_weak_cong)
  then show "10 \<le> c \<Longrightarrow> c \<le> 19 \<Longrightarrow> yy_next 1 c = Some 17 \<and> yy_next 17 c = Some 93 \<and> yy_next 93 c = Some 93"
    by (simp only: list_all_iff set_upto atLeastAtMost_iff)
qed

lemma digits_run:
  assumes "list_all digit ds" "ds \<noteq> []"
  shows "\<exists>s. runs 1 (buffer_bytes ds) = Some s \<and> (s = 17 \<or> s = 93)"
proof -
  have more: "runs 93 (buffer_bytes v) = Some 93" if "list_all digit v" for v
    using that digit_classes digits_next by (induction v) (fastforce simp: buffer_bytes_def)+
  have more': "runs 17 (buffer_bytes v) = Some (if v = [] then 17 else 93)" if "list_all digit v" for v
    using that more [of "tl v"] digit_classes digits_next by (cases v) (fastforce simp: buffer_bytes_def)+
  obtain ch v where v: "ds = ch # v" "digit ch" "list_all digit v" using assms by (cases ds) auto
  then show ?thesis using more' [OF v(3)] digit_classes [OF v(2)] digits_next by (fastforce simp: buffer_bytes_def)
qed

lemma reads_digits:
  assumes "list_all digit ds" "ds \<noteq> []" "CHR 0x00 \<notin> set r" "r = [] \<or> \<not> digit (hd r) \<and> hd r \<noteq> CHR ''.''"
  shows "reads atof (ds @ r)
    (if snd (strtoll0 ds) then int (length ''[SQL-Lexer-Error] Integer cannot be parsed - is it out of range?'') else SQL_INTVAL)
    (Some (U_ival (fst (strtoll0 ds)))) r"
proof -
  obtain s where s: "runs 1 (buffer_bytes ds) = Some s" "s = 17 \<or> s = 93" using digits_run assms by blast
  have "hd r \<noteq> CHR 0x00 \<and> (\<forall>c. look yy_ec (of_char (hd r)) = Some c \<longrightarrow> \<not> (9 \<le> c \<and> c \<le> 19))" if "r \<noteq> []"
    using that assms(3,4) special_class(4) [of "hd r"] by (cases r) auto
  moreover have "jams s (\<lambda>c. \<not> (9 \<le> c \<and> c \<le> 19))" using s(2) jam_sign(4,5) by blast
  ultimately have "stops s r" using jams_stop [of s "\<lambda>c. \<not> (9 \<le> c \<and> c \<le> 19)" r] by blast
  then have "yy_rule 1 (ds @ r) = Some (162, length ds)"
    using s(2) by (intro rule_of_run [OF s(1)]) (use assms(2) in \<open>auto simp: starts_def\<close>)
  then show ?thesis by (rule reads_one) (simp_all add: yy_action_def split_beta)
qed

lemma reads_word:
  assumes "is_letter ch" "list_all is_word_char v" "r = [] \<or> \<not> is_word_char (hd r)" "CHR 0x00 \<notin> set r"
  shows "reads atof ((ch # v) @ r)
    (case map_of keyword_rules (map upper (ch # v)) of Some token \<Rightarrow> token | None \<Rightarrow> SQL_IDENTIFIER)
    (case map_of keyword_rules (map upper (ch # v)) of Some token \<Rightarrow> None | None \<Rightarrow> Some (U_sval (Some (ch # v)))) r"
  unfolding reads_def
proof (intro allI)
  fix sb
  have h: "r = [] \<or> \<not> is_word_char (hd r) \<and> hd r \<noteq> CHR 0x00" using assms(3,4) by (cases r) auto
  have "lx_start (lexer_at ((ch # v) @ r) sb) = 1" "lx_buf (lexer_at ((ch # v) @ r) sb) = (ch # v) @ r" by simp_all
  note y = word_token [OF assms(1,2) h this]
  show "\<exists>sb' move. \<forall>yylval yylloc. yylex atof (lexer_at ((ch # v) @ r) sb) yylval yylloc =
      Some (case map_of keyword_rules (map upper (ch # v)) of Some token \<Rightarrow> token | None \<Rightarrow> SQL_IDENTIFIER,
        lexer_at r sb', (case case map_of keyword_rules (map upper (ch # v)) of Some token \<Rightarrow> None
          | None \<Rightarrow> Some (U_sval (Some (ch # v))) of None \<Rightarrow> yylval | Some v \<Rightarrow> v), move yylloc)"
    unfolding y by (intro exI [of _ sb] exI [of _ "YY_USER_ACTION (ch # v)"]) (auto split: option.splits)
qed

section \<open>Strings\<close>

fun quoted :: "string \<Rightarrow> string" where
  "quoted [] = []"
| "quoted (ch # s) = (if ch = CHR 0x27 then [CHR 0x27, CHR 0x27] else [ch]) @ quoted s"

text \<open>A string behind its opening quote, after the text \<open>acc\<close> of it.\<close>

lemma other_classes: "list_all (\<lambda>c. c \<noteq> 7 \<longrightarrow> yy_next 3 c = Some 46 \<and> yy_next 46 c = Some 178 \<and> yy_next 178 c = Some 178) [1..76]"
  by (simp add: upto.simps yy_next.simps cong: bind_weak_cong)

lemma other_char:
  assumes "ch \<noteq> CHR 0x00" "ch \<noteq> CHR 0x27"
  shows "\<exists>c. look yy_ec (of_char ch) = Some c \<and> yy_next 3 c = Some 46 \<and> yy_next 46 c = Some 178 \<and>
    yy_next 178 c = Some 178 \<and> (of_char ch :: int) \<noteq> 0"
proof -
  obtain c where c: "look yy_ec (of_char ch) = Some c" "0 < c" "c \<le> 76" using byte_class [OF assms(1)] .
  then have "1 \<le> c \<and> c \<le> 76" by simp
  then have "c \<in> set [1..76]" by (simp only: set_upto atLeastAtMost_iff)
  then have "yy_next 3 c = Some 46 \<and> yy_next 46 c = Some 178 \<and> yy_next 178 c = Some 178"
    using other_classes special_class(2) [OF c(1)] assms(2) unfolding list_all_iff by blast
  moreover have "(of_char ch :: int) \<noteq> 0" using byte_ok_char [OF assms(1)] by (simp add: byte_ok_def)
  ultimately show ?thesis using c(1) by blast
qed

lemma others_run:
  assumes "list_all (\<lambda>ch. ch \<noteq> CHR 0x00 \<and> ch \<noteq> CHR 0x27) v" "v \<noteq> []"
  shows "\<exists>s. runs 3 (buffer_bytes v) = Some s \<and> (s = 46 \<or> s = 178)"
proof -
  have more: "runs 178 (buffer_bytes v) = Some 178" if "list_all (\<lambda>ch. ch \<noteq> CHR 0x00 \<and> ch \<noteq> CHR 0x27) v" for v
    using that other_char by (induction v) (fastforce simp: buffer_bytes_def)+
  have more': "runs 46 (buffer_bytes v) = Some (if v = [] then 46 else 178)"
    if "list_all (\<lambda>ch. ch \<noteq> CHR 0x00 \<and> ch \<noteq> CHR 0x27) v" for v
    using that more [of "tl v"] other_char by (cases v) (fastforce simp: buffer_bytes_def)+
  obtain ch v' where v: "v = ch # v'" "ch \<noteq> CHR 0x00" "ch \<noteq> CHR 0x27" "list_all (\<lambda>ch. ch \<noteq> CHR 0x00 \<and> ch \<noteq> CHR 0x27) v'"
    using assms by (cases v) auto
  then show ?thesis using more' [OF v(4)] other_char [OF v(2,3)] by (fastforce simp: buffer_bytes_def)
qed


lemma quoted_split:
  "quoted (u @ s) = quoted u @ quoted s"
  "CHR 0x27 \<notin> set u \<Longrightarrow> quoted u = u"
  "CHR 0x00 \<notin> set s \<Longrightarrow> CHR 0x00 \<notin> set (quoted s)"
proof -
  show "quoted (u @ s) = quoted u @ quoted s" by (induction u) auto
  show "CHR 0x27 \<notin> set u \<Longrightarrow> quoted u = u" by (induction u) auto
  show "CHR 0x00 \<notin> set s \<Longrightarrow> CHR 0x00 \<notin> set (quoted s)" by (induction s) (auto split: if_splits)
qed

lemma string_body:
  assumes "CHR 0x00 \<notin> set s" "CHR 0x00 \<notin> set r" "r = [] \<or> hd r \<noteq> CHR 0x27"
  shows "\<exists>move. \<forall>yylval yylloc. yylex atof \<lparr>lx_buf = quoted s @ CHR 0x27 # r, lx_start = 3, lx_strbuf = acc\<rparr> yylval yylloc =
    Some (SQL_STRING, lexer_at r (acc @ s), U_sval (Some (c_str (acc @ s))), move yylloc)"
  using assms(1)
proof (induction "length s" arbitrary: s acc rule: less_induct)
  case less
  let ?lx = "\<lambda>buf. \<lparr>lx_buf = buf, lx_start = 3, lx_strbuf = acc\<rparr>"
  consider (Nil) "s = []" | (quote) s' where "s = CHR 0x27 # s'"
    | (other) u s' where "s = u @ s'" "u \<noteq> []" "list_all (\<lambda>ch. ch \<noteq> CHR 0x00 \<and> ch \<noteq> CHR 0x27) u" "s' = [] \<or> hd s' = CHR 0x27"
  proof (cases "s = [] \<or> hd s = CHR 0x27")
    case True
    then show thesis using Nil quote by (cases s) auto
  next
    case False
    let ?P = "\<lambda>ch. ch \<noteq> CHR 0x27"
    have "s = takeWhile ?P s @ dropWhile ?P s" by simp
    moreover have "takeWhile ?P s \<noteq> []" using False by (cases s) auto
    moreover have "list_all (\<lambda>ch. ch \<noteq> CHR 0x00 \<and> ch \<noteq> CHR 0x27) (takeWhile ?P s)"
      using less.prems by (auto simp: list_all_iff dest: set_takeWhileD)
    moreover have "dropWhile ?P s = [] \<or> hd (dropWhile ?P s) = CHR 0x27" using hd_dropWhile [of ?P s] by blast
    ultimately show thesis by (rule other)
  qed
  then show ?case
  proof cases
    case Nil
    have "runs 3 (buffer_bytes [CHR 0x27]) = Some 47" by (simp add: buffer_bytes_def yy_next.simps cong: bind_weak_cong)
    moreover have "stops 47 r"
      by (rule jams_stop [OF jam_sign(7)]) (use assms(2,3) special_class(2) [of "hd r"] in \<open>cases r; auto\<close>)
    ultimately have "yy_rule 3 ([CHR 0x27] @ r) = Some (168, length [CHR 0x27])"
      by (intro rule_of_run) (simp_all add: starts_def)
    from yylex_rule [OF this, of "?lx ([CHR 0x27] @ r)"] Nil show ?thesis
      by (intro exI [of _ "YY_USER_ACTION [CHR 0x27]"]) (simp add: yy_action_def BEGIN_def INITIAL_def lexer_at_def)
  next
    case (quote s')
    have z: "CHR 0x00 \<notin> set (quoted s' @ CHR 0x27 # r)" using less.prems quote assms(2) quoted_split(3) [of s'] by auto
    have "runs 3 (buffer_bytes [CHR 0x27, CHR 0x27]) = Some 179" by (simp add: buffer_bytes_def yy_next.simps cong: bind_weak_cong)
    moreover have "stops 179 (quoted s' @ CHR 0x27 # r)"
      by (rule jams_stop [OF jam_sign(6)]) (use z in \<open>cases "quoted s'"; auto\<close>)
    ultimately have "yy_rule 3 ([CHR 0x27, CHR 0x27] @ (quoted s' @ CHR 0x27 # r)) = Some (166, length [CHR 0x27, CHR 0x27])"
      by (intro rule_of_run) (simp_all add: starts_def)
    note y = yylex_rule [OF this, of "?lx ([CHR 0x27, CHR 0x27] @ (quoted s' @ CHR 0x27 # r))"]
    obtain move where "yylex atof \<lparr>lx_buf = quoted s' @ CHR 0x27 # r, lx_start = 3, lx_strbuf = acc @ [CHR 0x27]\<rparr> yylval yylloc =
        Some (SQL_STRING, lexer_at r ((acc @ [CHR 0x27]) @ s'), U_sval (Some (c_str ((acc @ [CHR 0x27]) @ s'))), move yylloc)"
      for yylval yylloc using less.hyps [of s' "acc @ [CHR 0x27]"] less.prems quote by auto
    then show ?thesis using y quote
      by (intro exI [of _ "\<lambda>l. move (YY_USER_ACTION [CHR 0x27, CHR 0x27] l)"]) (simp add: yy_action_def)
  next
    case (other u s')
    have z: "CHR 0x00 \<notin> set (quoted s' @ CHR 0x27 # r)" using less.prems other assms(2) quoted_split(3) [of s'] by auto
    obtain st where st: "runs 3 (buffer_bytes u) = Some st" "st = 46 \<or> st = 178" using others_run other(2,3) by blast
    have q: "\<exists>v. quoted s' @ CHR 0x27 # r = CHR 0x27 # v" using other(4) by (cases s') auto
    have "stops st (quoted s' @ CHR 0x27 # r)"
      by (rule jams_stop [of st "\<lambda>c. c = 7"]) (use st(2) jam_sign(8,9) q special_class(2) [of "CHR 0x27"] in auto)
    then have "yy_rule 3 (u @ (quoted s' @ CHR 0x27 # r)) = Some (167, length u)"
      using st(2) by (intro rule_of_run [OF st(1)]) (use other(2) in \<open>auto simp: starts_def\<close>)
    note y = yylex_rule [OF this, of "?lx (u @ (quoted s' @ CHR 0x27 # r))"]
    obtain move where "yylex atof \<lparr>lx_buf = quoted s' @ CHR 0x27 # r, lx_start = 3, lx_strbuf = acc @ u\<rparr> yylval yylloc =
        Some (SQL_STRING, lexer_at r ((acc @ u) @ s'), U_sval (Some (c_str ((acc @ u) @ s'))), move yylloc)"
      for yylval yylloc using less.hyps [of s' "acc @ u"] less.prems other by auto
    moreover have "quoted s = u @ quoted s'" using other quoted_split(1) [of u s'] quoted_split(2) [of u] by (auto simp: list_all_iff)
    ultimately show ?thesis using y other
      by (intro exI [of _ "\<lambda>l. move (YY_USER_ACTION u l)"]) (simp add: yy_action_def)
  qed
qed

lemma reads_string:
  assumes "CHR 0x00 \<notin> set s" "CHR 0x00 \<notin> set r" "r = [] \<or> hd r \<noteq> CHR 0x27"
  shows "reads atof ([CHR 0x27] @ quoted s @ CHR 0x27 # r) SQL_STRING (Some (U_sval (Some s))) r"
  unfolding reads_def
proof (intro allI)
  fix sb
  let ?rest = "quoted s @ CHR 0x27 # r"
  have z: "CHR 0x00 \<notin> set ?rest" using assms quoted_split(3) [of s] by auto
  obtain move where m: "yylex atof \<lparr>lx_buf = ?rest, lx_start = 3, lx_strbuf = []\<rparr> yylval yylloc =
      Some (SQL_STRING, lexer_at r s, U_sval (Some s), move yylloc)" for yylval yylloc
    using string_body [OF assms, of atof "[]"] by (auto simp: c_str_id assms(1))
  have "runs 1 (buffer_bytes [CHR 0x27]) = Some 14" by (simp add: buffer_bytes_def yy_next.simps cong: bind_weak_cong)
  moreover have "stops 14 ?rest" by (rule jams_stop [OF jam_sign(2)]) (use z in \<open>cases "quoted s"; auto\<close>)
  ultimately have "yy_rule 1 ([CHR 0x27] @ ?rest) = Some (165, length [CHR 0x27])"
    by (intro rule_of_run) (simp_all add: starts_def)
  from yylex_rule [OF this, of "lexer_at ([CHR 0x27] @ ?rest) sb"]
  show "\<exists>sb' move. \<forall>yylval yylloc. yylex atof (lexer_at ([CHR 0x27] @ ?rest) sb) yylval yylloc =
      Some (SQL_STRING, lexer_at r sb', (case Some (U_sval (Some s)) of None \<Rightarrow> yylval | Some v \<Rightarrow> v), move yylloc)"
    by (intro exI [of _ s] exI [of _ "\<lambda>l. move (YY_USER_ACTION [CHR 0x27] l)"])
       (simp add: yy_action_def BEGIN_def singlequotedstring_def lexer_at_def m)
qed

end
