(* ===== verification/LR.thy ===== *)
theory LR
  imports Lexemes Parser
begin

text \<open>
  The parser on sequences of tokens. The machine of this theory has the stacks, the lookahead
  and the result of \<open>yyparse\<close>, but no locations, no text and no error recovery; where it makes
  a step, so does the parser, whatever the locations are. It covers the rules without errors of
  their own and without parameters.
\<close>

type_synonym config =
  "int list \<times> YYSTYPE list \<times> int option \<times> YYSTYPE \<times> (int \<times> YYSTYPE option) list \<times> SQLParserResult"

definition lr_action :: "int \<Rightarrow> nat \<Rightarrow> YYSTYPE list \<Rightarrow> YYSTYPE res" where
  "lr_action yyn k vs =
     (if no_action yyn then (if k = 0 then Inr U_undef else nthR vs (k - 1))
      else if yyn \<le> 4 then act_statement_list yyn (nthR vs)
      else if yyn \<in> {37, 45, 252, 254, 255, 256} then Inl Uninitialised
      else yyaction_pure yyn (nthR vs))"

definition lr_input :: "YYSTYPE list \<Rightarrow> SQLParserResult \<Rightarrow> SQLParserResult res" where
  "lr_input vs r = get (nthR vs) of_stmt_vec 1 (\<lambda>stmts. Inr (fold addStatement (map num_stmt stmts) r))"

definition lr_goto :: "int \<Rightarrow> int \<Rightarrow> int res" where
  "lr_goto yyn s =
     bindR (entry yyr1 yyn) (\<lambda>r1.
     bindR (entry yypgoto (r1 - YYNTOKENS)) (\<lambda>g.
     let i = g + s in
     if 0 \<le> i \<and> i \<le> YYLAST then
       bindR (entry yycheck i) (\<lambda>c. if c = s then entry yytable i else entry yydefgoto (r1 - YYNTOKENS))
     else entry yydefgoto (r1 - YYNTOKENS)))"

definition lr_reduce :: "int \<Rightarrow> config \<Rightarrow> config res" where
  "lr_reduce yyn c = (case c of (ss, vs, la, lv, ts, r) \<Rightarrow>
     bindR (entry yyr2 yyn) (\<lambda>len.
     let k = nat len in
     if length ss \<le> k then Inl OutOfBounds
     else
       bindR (if yyn = 2 then bindR (lr_input vs r) (\<lambda>r. Inr (U_undef, r)) else bindR (lr_action yyn k vs) (\<lambda>y. Inr (y, r))) (\<lambda>(y, r).
       bindR (nthR (drop k ss) 0) (\<lambda>s.
       bindR (lr_goto yyn s) (\<lambda>t. Inr (t # drop k ss, y # drop k vs, la, lv, ts, r))))))"

definition lr_default :: "int \<Rightarrow> config \<Rightarrow> config res" where
  "lr_default s c = bindR (entry yydefact s) (\<lambda>yyn. if yyn = 0 then Inl OutOfBounds else lr_reduce yyn c)"

definition lr_shift :: "int \<Rightarrow> config \<Rightarrow> config" where
  "lr_shift t c = (case c of (ss, vs, la, lv, ts, r) \<Rightarrow> (t # ss, lv # vs, None, lv, ts, r))"

definition lr_decide :: "int \<Rightarrow> int \<Rightarrow> int \<Rightarrow> config \<Rightarrow> config res" where
  "lr_decide n yytoken s c =
     (let m = n + yytoken in
      if m < 0 \<or> YYLAST < m then lr_default s c
      else bindR (entry yycheck m) (\<lambda>k.
        if k \<noteq> yytoken then lr_default s c
        else bindR (entry yytable m) (\<lambda>t.
          if t \<le> 0 then (if yytable_value_is_error t then Inl OutOfBounds else lr_reduce (- t) c)
          else if yytoken = YYEOF \<and> t \<noteq> YYFINAL then Inl OutOfBounds
          else Inr (lr_shift t c))))"

definition lr_read :: "config \<Rightarrow> int \<times> YYSTYPE \<times> (int \<times> YYSTYPE option) list" where
  "lr_read c = (case c of (ss, vs, la, lv, ts, r) \<Rightarrow>
     (case la of Some t \<Rightarrow> (t, lv, ts)
      | None \<Rightarrow> (case ts of [] \<Rightarrow> (0, lv, [])
                | (t, v) # ts \<Rightarrow> (t, (case v of None \<Rightarrow> lv | Some v \<Rightarrow> v), ts))))"

definition lr_step :: "config \<Rightarrow> config res" where
  "lr_step c = (case c of (ss, vs, la, lv, ts, r) \<Rightarrow>
     if length ss \<ge> YYINITDEPTH then Inl OutOfBounds
     else bindR (nthR ss 0) (\<lambda>s.
       if s = YYFINAL then Inl OutOfBounds
       else bindR (entry yypact s) (\<lambda>n.
         if yypact_value_is_default n then lr_default s c
         else (case lr_read c of (t, lv, ts) \<Rightarrow>
           if t = YYEMPTY then Inl OutOfBounds
           else if t \<le> YYEOF then lr_decide n YYEOF s (ss, vs, Some YYEOF, lv, ts, r)
           else bindR (YYTRANSLATE t) (\<lambda>yytoken. lr_decide n yytoken s (ss, vs, Some t, lv, ts, r))))))"

section \<open>The parser follows the machine\<close>

definition conf :: "(string \<Rightarrow> u64) \<Rightarrow> config \<Rightarrow> parser \<Rightarrow> bool" where
  "conf atof c p \<longleftrightarrow> (case c of (ss, vs, la, lv, ts, r) \<Rightarrow>
     yyss p = ss \<and> yyvs p = vs \<and> length (yyls p) = length ss \<and> yylval p = lv \<and> yyresult p = r \<and>
     yychar p = (case la of None \<Rightarrow> YYEMPTY | Some t \<Rightarrow> t) \<and> la \<noteq> Some YYEMPTY \<and> param_list (yyloc p) = [] \<and>
     (hd ss = YYFINAL \<or> la = Some YYEOF \<or> (\<exists>buf sb. yyscanner p = lexer_at buf sb \<and> scans atof buf ts)))"

lemma conf_simps:
  "conf atof (ss, vs, la, lv, ts, r) p \<longleftrightarrow>
     yyss p = ss \<and> yyvs p = vs \<and> length (yyls p) = length ss \<and> yylval p = lv \<and> yyresult p = r \<and>
     yychar p = (case la of None \<Rightarrow> YYEMPTY | Some t \<Rightarrow> t) \<and> la \<noteq> Some YYEMPTY \<and> param_list (yyloc p) = [] \<and>
     (hd ss = YYFINAL \<or> la = Some YYEOF \<or> (\<exists>buf sb. yyscanner p = lexer_at buf sb \<and> scans atof buf ts))"
  by (simp add: conf_def)

lemma nthR_some: "k < length xs \<Longrightarrow> nthR xs k = Inr (xs ! k)"
  by (simp add: nthR_def)

lemma YYLLOC_DEFAULT_ok:
  assumes "k < length ls"
  shows "\<exists>loc. YYLLOC_DEFAULT k ls cur = Inr loc \<and> param_list loc = param_list cur"
proof -
  have "nthR ls (k - 1) = Inr (ls ! (k - 1))" "nthR ls 0 = Inr (ls ! 0)" using assms by (auto intro!: nthR_some)
  then show ?thesis by (simp add: YYLLOC_DEFAULT_def)
qed

definition same_but_locations :: "parser \<Rightarrow> parser \<Rightarrow> bool" where
  "same_but_locations p q \<longleftrightarrow> yyss q = yyss p \<and> yyvs q = yyvs p \<and> yyls q = yyls p \<and> yychar q = yychar p \<and> yylval q = yylval p \<and>
     yyloc q = yyloc p \<and> yyscanner q = yyscanner p \<and> yyresult q = yyresult p"

lemma yyaction_ok:
  assumes "lr_action yyn k (yyvs p) = Inr y" "yyn \<noteq> 2"
  shows "\<exists>q. yyaction yyn k p = Inr (Some y, q) \<and> same_but_locations p q"
proof (cases "no_action yyn \<or> yyn \<le> 4")
  case True
  then show ?thesis using assms
    by (auto simp: lr_action_def yyaction_def same_but_locations_def split: if_splits)
next
  case False
  then have "yyn \<notin> {37, 45, 252, 254, 255, 256}" "yyaction_pure yyn (nthR (yyvs p)) = Inr y"
    using assms by (auto simp: lr_action_def split: if_splits)
  then show ?thesis using False assms(2) by (intro exI [of _ p]) (simp add: yyaction_def same_but_locations_def)
qed

lemma act_input_ok:
  assumes "lr_input (yyvs p) (yyresult p) = Inr r" "param_list (yyloc p) = []"
  shows "yyaction 2 k p = Inr (Some U_undef, p\<lparr>yyresult := r\<rparr>)"
  using assms by (auto simp: yyaction_def no_action_def act_input_def lr_input_def get_def bindR_eq_Inr)

lemma lr_goto_ok:
  assumes "lr_goto yyn s = Inr t" "yyss p = s # ss"
  shows "yygoto yyn y p = Inr (Goto (p\<lparr>yyss := t # yyss p, yyvs := y # yyvs p, yyls := yyloc p # yyls p\<rparr>))"
  using assms by (auto simp: lr_goto_def yygoto_def nthR_def bindR_eq_Inr Let_def split: if_splits)

lemma lr_reduce_ok:
  assumes "lr_reduce yyn c = Inr c'" "conf atof c p" "hd (yyss p) \<noteq> YYFINAL"
  shows "\<exists>p'. yyreduce yyn p = Inr (Goto p') \<and> conf atof c' p'"
proof -
  obtain ss vs la lv ts r where c: "c = (ss, vs, la, lv, ts, r)" by (cases c)
  obtain len where len: "entry yyr2 yyn = Inr len" using assms(1) by (auto simp: lr_reduce_def c bindR_eq_Inr)
  define k where "k = nat len"
  have k: "k < length ss" using assms(1) by (auto simp: lr_reduce_def c len k_def Let_def split: if_splits)
  obtain y r' where a: "(if yyn = 2 then bindR (lr_input vs r) (\<lambda>r. Inr (U_undef, r)) else bindR (lr_action yyn k vs) (\<lambda>y. Inr (y, r))) =
      Inr (y, r')" using assms(1) k by (auto simp: lr_reduce_def c len k_def [symmetric] Let_def bindR_eq_Inr cong: if_cong)
  obtain s ss' where ss': "drop k ss = s # ss'" using k by (metis Cons_nth_drop_Suc)
  have s: "ss ! k = s" using k ss' by (metis Cons_nth_drop_Suc list.inject)
  obtain t where t: "lr_goto yyn s = Inr t" "c' = (t # drop k ss, y # drop k vs, la, lv, ts, r')"
    using assms(1) k a ss' s by (auto simp: lr_reduce_def c len k_def [symmetric] Let_def bindR_eq_Inr nthR_def cong: if_cong)
  have p: "yyss p = ss" "yyvs p = vs" "length (yyls p) = length ss" "param_list (yyloc p) = []" "yyresult p = r"
    using assms(2) by (auto simp: c conf_simps)
  obtain loc where loc: "YYLLOC_DEFAULT k (yyls p) (yyloc p) = Inr loc" "param_list loc = []"
    using YYLLOC_DEFAULT_ok [of k "yyls p" "yyloc p"] k p by auto
  let ?p = "p\<lparr>yyloc := loc\<rparr>"
  obtain q where q: "yyaction yyn k ?p = Inr (Some y, q)" "same_but_locations (?p\<lparr>yyresult := r'\<rparr>) q"
  proof (cases "yyn = 2")
    case True
    then have "lr_input (yyvs ?p) (yyresult ?p) = Inr r'" "y = U_undef" using a p by (auto simp: bindR_eq_Inr)
    then show thesis using act_input_ok [of ?p r' k] loc(2) True that by (auto simp: same_but_locations_def)
  next
    case False
    then have "lr_action yyn k (yyvs ?p) = Inr y" "r' = r" using a p by (auto simp: bindR_eq_Inr)
    then show thesis using yyaction_ok [of yyn k ?p y] False that p by (auto simp: same_but_locations_def)
  qed
  have "yyss (yypop k q) = s # ss'" using q(2) p ss' by (simp add: yypop_def same_but_locations_def)
  note g = lr_goto_ok [OF t(1) this, of y]
  have h: "hd ss \<noteq> YYFINAL" using assms(3) p by simp
  show ?thesis
    using g q assms(2) t(2) loc(2) h k p
    by (auto simp: yyreduce_def len k_def [symmetric] Let_def loc(1) c conf_simps same_but_locations_def yypop_def)
qed

lemma lr_default_ok:
  assumes "lr_default s c = Inr c'" "conf atof c p" "hd (yyss p) \<noteq> YYFINAL"
  shows "\<exists>p'. yydefault s p = Inr (Goto p') \<and> conf atof c' p'"
proof -
  obtain yyn where "entry yydefact s = Inr yyn" "yyn \<noteq> 0" "lr_reduce yyn c = Inr c'"
    using assms(1) by (auto simp: lr_default_def bindR_eq_Inr split: if_splits)
  then show ?thesis using lr_reduce_ok [OF _ assms(2,3), of yyn] by (simp add: yydefault_def)
qed

lemma lr_decide_ok:
  assumes "lr_decide n yytoken s c = Inr c'" "conf atof c p" "hd (yyss p) \<noteq> YYFINAL"
    "fst (snd (snd c)) = Some t" "t = YYEOF \<Longrightarrow> yytoken = YYEOF"
  shows "\<exists>p'. yydecide n yytoken s p = Inr (Goto p') \<and> conf atof c' p'"
proof -
  note d = lr_default_ok [OF _ assms(2,3)] and r = lr_reduce_ok [OF _ assms(2,3)]
  define m where "m = n + yytoken"
  consider (outside) "m < 0 \<or> YYLAST < m" | (other) k where "\<not> (m < 0 \<or> YYLAST < m)" "entry yycheck m = Inr k" "k \<noteq> yytoken"
    | (entry) e where "\<not> (m < 0 \<or> YYLAST < m)" "entry yycheck m = Inr yytoken" "entry yytable m = Inr e"
    using assms(1) by (auto simp: lr_decide_def m_def [symmetric] Let_def bindR_eq_Inr split: if_splits)
  then show ?thesis
  proof cases
    case outside
    then show ?thesis using d assms(1) by (simp add: lr_decide_def yydecide_def m_def [symmetric] Let_def)
  next
    case other
    then show ?thesis using d assms(1) by (simp add: lr_decide_def yydecide_def m_def [symmetric] Let_def)
  next
    case (entry e)
    show ?thesis
    proof (cases "e \<le> 0")
      case True
      then show ?thesis using entry r assms(1)
        by (auto simp: lr_decide_def yydecide_def m_def [symmetric] Let_def split: if_splits)
    next
      case False
      then have "c' = lr_shift e c" "yytoken = YYEOF \<longrightarrow> e = YYFINAL"
        using entry assms(1) by (auto simp: lr_decide_def m_def [symmetric] Let_def split: if_splits)
      then have "conf atof c' (yyshift e p)" using assms(2-5)
        by (cases c) (auto simp: lr_shift_def yyshift_def conf_simps)
      then show ?thesis using entry False by (simp add: yydecide_def m_def [symmetric] Let_def)
    qed
  qed
qed


lemma lr_read_ok:
  assumes "conf atof (ss, vs, la, lv, ts, r) p" "hd ss \<noteq> YYFINAL" "lr_read (ss, vs, la, lv, ts, r) = (t, lv', ts')" "t \<noteq> YYEMPTY"
  shows "\<exists>q. yyread atof p = Inr q \<and> yychar q = t \<and>
    conf atof (ss, vs, Some (if t \<le> YYEOF then YYEOF else t), lv', ts', r) (q\<lparr>yychar := if t \<le> YYEOF then YYEOF else t\<rparr>)"
proof (cases la)
  case (Some x)
  then have "yychar p = t" "lv' = lv" "ts' = ts" "x = t" using assms(1,3) by (auto simp: conf_simps lr_read_def)
  moreover have "t \<le> YYEOF \<Longrightarrow> la = Some YYEOF \<or> (\<exists>buf sb. yyscanner p = lexer_at buf sb \<and> scans atof buf ts)"
    using assms(1,2) by (auto simp: conf_simps)
  ultimately show ?thesis using assms(1,2,4) Some by (intro exI [of _ p]) (auto simp: yyread_def conf_simps YYEOF_def YYEMPTY_def)
next
  case None
  then obtain buf sb where b: "yyscanner p = lexer_at buf sb" "scans atof buf ts" "yychar p = YYEMPTY"
    using assms(1,2) by (auto simp: conf_simps)
  show ?thesis using b(2)
  proof cases
    case scans_Nil
    obtain lx move where "yylex atof (lexer_at buf sb) yylval yylloc = Some (0, lx, yylval, move yylloc)" for yylval yylloc
      using scans_Nil(2) unfolding finishes_def by blast
    then show ?thesis using b scans_Nil assms(1,3,4) None
      by (auto simp: yyread_def conf_simps YYEOF_def YYEMPTY_def lr_read_def)
  next
    case (scans_Cons t1 v buf' ts1)
    then have t: "t1 = t" "lv' = (case v of None \<Rightarrow> lv | Some v \<Rightarrow> v)" "scans atof buf' ts'"
      using assms(3) None by (simp_all add: lr_read_def)
    obtain sb' move where y: "yylex atof (lexer_at buf sb) yylval yylloc =
        Some (t, lexer_at buf' sb', (case v of None \<Rightarrow> yylval | Some v \<Rightarrow> v), move yylloc)" for yylval yylloc
      using scans_Cons(2) unfolding reads_def t(1) by blast
    show ?thesis using b y t(2,3) assms(1,4) None
      by (auto simp: yyread_def conf_simps YYEOF_def YYEMPTY_def)
  qed
qed

lemma lr_step_ok:
  assumes "lr_step c = Inr c'" "conf atof c p"
  shows "\<exists>p'. yysetstate atof p = Inr (Goto p') \<and> conf atof c' p'"
proof -
  obtain ss vs la lv ts r where c: "c = (ss, vs, la, lv, ts, r)" by (cases c)
  have p: "yyss p = ss" using assms(2) by (simp add: c conf_simps)
  have l: "length ss < YYINITDEPTH" using assms(1) by (auto simp: lr_step_def c split: if_splits)
  obtain s where s: "nthR ss 0 = Inr s" "s \<noteq> YYFINAL" using assms(1) l by (auto simp: lr_step_def c bindR_eq_Inr split: if_splits)
  then have hd: "hd ss = s" by (cases ss) (auto simp: nthR_def split: if_splits)
  obtain n where n: "entry yypact s = Inr n" using assms(1) l s by (auto simp: lr_step_def c bindR_eq_Inr)
  note start = l s n p
  show ?thesis
  proof (cases "yypact_value_is_default n")
    case True
    then have "lr_default s c = Inr c'" using assms(1) start by (simp add: lr_step_def c)
    then show ?thesis using lr_default_ok [OF _ assms(2)] start True hd by (simp add: yysetstate_def yybackup_def)
  next
    case False
    obtain t lv' ts' where t: "lr_read c = (t, lv', ts')" by (cases "lr_read c")
    have ne: "t \<noteq> YYEMPTY" using assms(1) start False t by (auto simp: lr_step_def c)
    have step: "(if t \<le> YYEOF then lr_decide n YYEOF s (ss, vs, Some YYEOF, lv', ts', r)
        else bindR (YYTRANSLATE t) (\<lambda>yytoken. lr_decide n yytoken s (ss, vs, Some t, lv', ts', r))) = Inr c'"
      using assms(1) start False t ne by (simp add: lr_step_def c)
    obtain q where q: "yyread atof p = Inr q" "yychar q = t"
      "conf atof (ss, vs, Some (if t \<le> YYEOF then YYEOF else t), lv', ts', r) (q\<lparr>yychar := if t \<le> YYEOF then YYEOF else t\<rparr>)"
      using lr_read_ok [of atof ss vs la lv ts r p t lv' ts'] assms(2) t s(2) hd ne by (auto simp: c)
    have qs: "hd (yyss q) \<noteq> YYFINAL" using q(3) s(2) hd by (simp add: conf_simps)
    show ?thesis
    proof (cases "t \<le> YYEOF")
      case True
      then show ?thesis using lr_decide_ok [of n YYEOF s "(ss, vs, Some YYEOF, lv', ts', r)" c' atof "q\<lparr>yychar := YYEOF\<rparr>" YYEOF]
          step q qs start False by (simp add: yysetstate_def yybackup_def)
    next
      case pos: False
      have "q\<lparr>yychar := t\<rparr> = q" using q(2) by (cases q) auto
      then have "conf atof (ss, vs, Some t, lv', ts', r) q" using q(3) pos by (simp only: if_False)
      moreover obtain yytoken where "YYTRANSLATE t = Inr yytoken" "lr_decide n yytoken s (ss, vs, Some t, lv', ts', r) = Inr c'"
        using step pos by (auto simp: bindR_eq_Inr)
      ultimately show ?thesis
        using lr_decide_ok [of n yytoken s "(ss, vs, Some t, lv', ts', r)" c' atof q t] q qs start False pos
        by (simp add: yysetstate_def yybackup_def)
    qed
  qed
qed


section \<open>Runs\<close>

inductive lr_run :: "config \<Rightarrow> config \<Rightarrow> bool" where
  lr_run_refl: "lr_run c c"
| lr_run_step: "lr_step c = Inr c' \<Longrightarrow> lr_run c' c'' \<Longrightarrow> lr_run c c''"

lemma lr_run_trans: "lr_run c c' \<Longrightarrow> lr_run c' c'' \<Longrightarrow> lr_run c c''"
  by (induction rule: lr_run.induct) (auto intro: lr_run.intros)

lemma lr_run_ok: "lr_run c c' \<Longrightarrow> conf atof c p \<Longrightarrow> \<exists>p'. yyloop atof p = yyloop atof p' \<and> conf atof c' p'"
proof (induction arbitrary: p rule: lr_run.induct)
  case (lr_run_step c c' c'')
  obtain p' where "yysetstate atof p = Inr (Goto p')" "conf atof c' p'" using lr_step_ok [OF lr_run_step(1,4)] by blast
  then show ?case using lr_run_step.IH [of p'] by (simp add: yyloop.simps [of atof p])
qed auto

definition lr_start :: "(int \<times> YYSTYPE option) list \<Rightarrow> SQLParserResult \<Rightarrow> config" where
  "lr_start ts r = ([0], [U_undef], None, U_undef, ts, r)"

lemma accepted_by_machine:
  assumes "lr_run (lr_start ts r) (YYFINAL # ss, vs, la, lv, ts', r')" "length ss < 199" "scans atof (c_str sql) ts"
  shows "hsql_parse atof sql r = Inr (0, r')"
proof -
  have "conf atof (lr_start ts r) (yystart sql r)"
    using assms(3) by (auto simp: lr_start_def conf_simps yystart_def yyloc_default_def yy_scan_string_def lexer_at_def)
  then obtain p where p: "yyloop atof (yystart sql r) = yyloop atof p" "conf atof (YYFINAL # ss, vs, la, lv, ts', r') p"
    using lr_run_ok [OF assms(1)] by blast
  then have "yysetstate atof p = Inr (Return 0 r')"
    using assms(2) by (auto simp: yysetstate_def conf_simps YYINITDEPTH_def nthR_def)
  then show ?thesis using p(1) by (simp add: hsql_parse_def yyloop.simps [of atof p])
qed

end
