(* ===== verification/Sentences.thy ===== *)
theory Sentences
  imports LR
begin

text \<open>
  The statements of a row store as sequences of tokens: \<open>INSERT\<close> with columns and literals,
  \<open>SELECT *\<close>, \<open>UPDATE\<close> and \<open>DELETE\<close>, each with one comparison or none. The machine of \<open>LR\<close>
  is run on them, with names and literals left open; the lists of an \<open>INSERT\<close> are by induction.
\<close>

fun lr_steps :: "nat \<Rightarrow> config \<Rightarrow> config res" where
  "lr_steps 0 c = Inr c"
| "lr_steps (Suc n) c = bindR (lr_step c) (lr_steps n)"

lemma lr_steps_num [simp]: "lr_steps (numeral k) c = bindR (lr_step c) (lr_steps (pred_numeral k))"
  by (simp add: numeral_eq_Suc)

lemma lr_steps_run: "lr_steps n c = Inr c' \<Longrightarrow> lr_run c c'"
  by (induction n arbitrary: c) (auto simp: bindR_eq_Inr intro: lr_run.intros)

lemma nthR_at: "nthR (x # xs) 0 = Inr x" "nthR (x # xs) (Suc n) = nthR xs n" "nthR (x # xs) (numeral k) = nthR xs (pred_numeral k)"
  by (auto simp: nthR_def numeral_eq_Suc)

lemmas acts = act_statement_def act_hints_def act_import_def act_create_def act_column_type_def act_constraint_def act_drop_def
  act_modify_def act_select_def act_clause_def act_expr_def act_operator_def act_in_case_def act_function_def act_literal_def
  act_table_def act_with_def act_join_def some_expr_def unary_def binary_def negated_def first_expr_def next_expr_def plain_type_def
  sized_type_def specified_type_def no_specification_def limited_def set_type_of_def joined_def

lemmas lrs = lr_start_def lr_step_def lr_read_def lr_decide_def lr_default_def lr_reduce_def lr_goto_def lr_shift_def lr_action_def
  lr_input_def yy_consts YYTRANSLATE_def yypact_value_is_default_def yytable_value_is_error_def no_action_def yyaction_pure_def
  act_statement_list_def deref_def nthR_at get_def acts token_defs

section \<open>Tokens\<close>

abbreviation K :: "int \<Rightarrow> int \<times> YYSTYPE option" where
  "K t \<equiv> (t, None)"

abbreviation ID :: "string \<Rightarrow> int \<times> YYSTYPE option" where
  "ID w \<equiv> (SQL_IDENTIFIER, Some (U_sval (Some w)))"

datatype literal = Str string | Num int

fun lit_value :: "literal \<Rightarrow> YYSTYPE" where
  "lit_value (Str s) = U_sval (Some s)"
| "lit_value (Num n) = U_ival n"

fun lit_token :: "literal \<Rightarrow> int \<times> YYSTYPE option" where
  "lit_token (Str s) = (SQL_STRING, Some (U_sval (Some s)))"
| "lit_token (Num n) = (SQL_INTVAL, Some (U_ival n))"

fun lit_expr :: "literal \<Rightarrow> Expr" where
  "lit_expr (Str s) = makeLiteral_string (Some s)"
| "lit_expr (Num n) = makeLiteral_int n"

fun more_tokens :: "('a \<Rightarrow> int \<times> YYSTYPE option) \<Rightarrow> 'a list \<Rightarrow> (int \<times> YYSTYPE option) list" where
  "more_tokens f [] = []"
| "more_tokens f (x # xs) = K 44 # f x # more_tokens f xs"

section \<open>INSERT\<close>

lemma insert_head: "lr_steps 7 (lr_start ([K 307, K 352, ID t, K 40, ID c] @ ts) r) =
    Inr ([233, 146, 89, 50, 9, 0], [U_str_vec (Some [c]), U_sval (Some t), U_table_name \<lparr>tn_schema = None, tn_name = Some t\<rparr>,
      U_undef, U_undef, U_undef], None, U_sval (Some c), ts, r)"
  by (simp add: lrs)

lemma insert_column: "lr_steps 3 ([233, 146, 89, 50, 9, 0], U_str_vec (Some ns) # vs, None, lv, K 44 # ID c # ts, r) =
    Inr ([233, 146, 89, 50, 9, 0], U_str_vec (Some (ns @ [c])) # vs, None, U_sval (Some c), ts, r)"
  by (simp add: lrs)

lemma insert_values: "lr_steps 4 ([233, 146, 89, 50, 9, 0], U_str_vec (Some ns) # v # vs, None, lv, K 41 # K 318 # K 40 # ts, r) =
    Inr ([316, 234, 147, 89, 50, 9, 0], lv # lv # U_str_vec (Some ns) # vs, None, lv, ts, r)"
  by (simp add: lrs)

lemma first_literal: "t = 44 \<and> s = 181 \<or> t = 41 \<and> s = 463 \<Longrightarrow>
    lr_run ([316, 234, 147, 89, 50, 9, 0], vs, None, lv, lit_token l # K t # ts, r)
      ([s, 407, 316, 234, 147, 89, 50, 9, 0], lit_value l # U_expr_vec (Some [lit_expr l]) # vs, None, lit_value l, ts, r)"
  by (rule lr_steps_run [of "case l of Str _ \<Rightarrow> 5 | Num _ \<Rightarrow> 6"], cases l; elim disjE conjE; simp add: lrs)

lemma next_literal: "t = 44 \<and> s = 181 \<or> t = 41 \<and> s = 463 \<Longrightarrow>
    lr_run ([181, 407, 316, 234, 147, 89, 50, 9, 0], v # U_expr_vec (Some es) # vs, None, lv, lit_token l # K t # ts, r)
      ([s, 407, 316, 234, 147, 89, 50, 9, 0], lit_value l # U_expr_vec (Some (es @ [lit_expr l])) # vs, None, lit_value l, ts, r)"
  by (rule lr_steps_run [of "case l of Str _ \<Rightarrow> 5 | Num _ \<Rightarrow> 6"], cases l; elim disjE conjE; simp add: lrs)

lemma insert_columns:
  "\<exists>lv'. lr_run ([233, 146, 89, 50, 9, 0], U_str_vec (Some ns) # vs, None, lv, more_tokens ID cs @ ts, r)
    ([233, 146, 89, 50, 9, 0], U_str_vec (Some (ns @ cs)) # vs, None, lv', ts, r)"
proof (induction cs arbitrary: ns lv)
  case Nil
  show ?case by (auto intro: lr_run_refl)
next
  case (Cons c cs)
  show ?case
    using lr_run_trans [OF lr_steps_run [OF insert_column]] Cons.IH [of "ns @ [c]" "U_sval (Some c)"] by fastforce
qed

lemma more_literals:
  "\<exists>v' lv'. lr_run ([181, 407, 316, 234, 147, 89, 50, 9, 0], v # U_expr_vec (Some es) # vs, None, lv,
      lit_token l # more_tokens lit_token ls @ K 41 # ts, r)
    ([463, 407, 316, 234, 147, 89, 50, 9, 0], v' # U_expr_vec (Some (es @ map lit_expr (l # ls))) # vs, None, lv', ts, r)"
proof (induction ls arbitrary: l es v lv)
  case Nil
  show ?case using next_literal [of 41 463] by fastforce
next
  case (Cons l' ls)
  show ?case
    using lr_run_trans [OF next_literal [of 44 181]] Cons.IH [of "lit_value l" "es @ [lit_expr l]" "lit_value l" l'] by fastforce
qed

lemma literals:
  "\<exists>v' lv'. lr_run ([316, 234, 147, 89, 50, 9, 0], vs, None, lv, lit_token l # more_tokens lit_token ls @ K 41 # ts, r)
    ([463, 407, 316, 234, 147, 89, 50, 9, 0], v' # U_expr_vec (Some (map lit_expr (l # ls))) # vs, None, lv', ts, r)"
proof (cases ls)
  case Nil
  show ?thesis using first_literal [of 41 463] Nil by fastforce
next
  case (Cons l' ls')
  show ?thesis
    using lr_run_trans [OF first_literal [of 44 181]] more_literals [of "lit_value l" "[lit_expr l]" _ "lit_value l" l' ls'] Cons
    by fastforce
qed

lemma num_literal: "num_expr (lit_expr l) = lit_expr l"
  by (cases l) (simp_all add: makeLiteral_string_def makeLiteral_int_def Expr_new_def set_name_def set_ival_def)

definition insert_stmt :: "string \<Rightarrow> string list \<Rightarrow> literal list \<Rightarrow> InsertStatement" where
  "insert_stmt t cs ls = (InsertStatement_new kInsertValues)
     \<lparr>ins_tableName := Some t, ins_columns := Some cs, ins_values := Some (map lit_expr ls)\<rparr>"

lemma insert_end: "lr_run ([463, 407, 316, 234, 147, 89, 50, 9, 0],
      [v1, U_expr_vec (Some (map lit_expr ls)), v2, v3, U_str_vec (Some cs), U_table_name \<lparr>tn_schema = None, tn_name = Some t\<rparr>,
        U_undef, U_undef, U_undef], None, lv, [], r)
    ([67, 19, 0], [lv, U_undef, U_undef], None, lv, [], addStatement (SInsert (insert_stmt t cs ls)) r)"
  by (rule lr_steps_run [of 8])
    (simp add: lrs insert_stmt_def InsertStatement_new_def SQLStatement_new_def SQLStatement.defs num_hints_def num_literal comp_def)

fun insert_tokens :: "string \<Rightarrow> string list \<Rightarrow> literal list \<Rightarrow> (int \<times> YYSTYPE option) list" where
  "insert_tokens t (c # cs) (l # ls) =
     [K 307, K 352, ID t, K 40, ID c] @ more_tokens ID cs @ [K 41, K 318, K 40, lit_token l] @ more_tokens lit_token ls @ [K 41]"
| "insert_tokens t _ _ = []"

lemma insert_accepted:
  assumes "cs \<noteq> []" "ls \<noteq> []"
  shows "\<exists>lv. lr_run (lr_start (insert_tokens t cs ls) r)
    ([67, 19, 0], [lv, U_undef, U_undef], None, lv, [], addStatement (SInsert (insert_stmt t cs ls)) r)"
proof -
  obtain c cs' l ls' where e: "cs = c # cs'" "ls = l # ls'" using assms by (cases cs; cases ls) auto
  let ?vs = "[U_sval (Some t), U_table_name \<lparr>tn_schema = None, tn_name = Some t\<rparr>, U_undef, U_undef, U_undef]"
  let ?ts = "K 41 # K 318 # K 40 # lit_token l # more_tokens lit_token ls' @ K 41 # []"
  have s: "insert_tokens t cs ls = [K 307, K 352, ID t, K 40, ID c] @ more_tokens ID cs' @ ?ts" by (simp add: e)
  obtain lv where "lr_run (lr_start (insert_tokens t cs ls) r)
      ([233, 146, 89, 50, 9, 0], U_str_vec (Some cs) # ?vs, None, lv, ?ts, r)"
    unfolding s using lr_run_trans [OF lr_steps_run [OF insert_head]] insert_columns [of "[c]" ?vs "U_sval (Some c)" cs' ?ts r] e
    by fastforce
  then have "lr_run (lr_start (insert_tokens t cs ls) r)
      ([316, 234, 147, 89, 50, 9, 0], lv # lv # U_str_vec (Some cs) # tl ?vs, None, lv, lit_token l # more_tokens lit_token ls' @ K 41 # [], r)"
    using lr_run_trans [OF _ lr_steps_run [OF insert_values]] by fastforce
  then obtain v' lv' where "lr_run (lr_start (insert_tokens t cs ls) r)
      ([463, 407, 316, 234, 147, 89, 50, 9, 0], v' # U_expr_vec (Some (map lit_expr ls)) # lv # lv # U_str_vec (Some cs) # tl ?vs, None, lv', [], r)"
    using lr_run_trans literals [of "lv # lv # U_str_vec (Some cs) # tl ?vs" lv l ls' "[]" r] unfolding e by meson
  then show ?thesis using lr_run_trans [OF _ insert_end] by fastforce
qed

section \<open>Comparisons\<close>

definition equals :: "string \<Rightarrow> literal \<Rightarrow> Expr" where
  "equals k v = makeOpBinary (Some (makeColumnRef (Some k))) kOpEquals (Some (lit_expr v))"

fun where_tokens :: "(string \<times> literal) option \<Rightarrow> (int \<times> YYSTYPE option) list" where
  "where_tokens None = []"
| "where_tokens (Some (k, v)) = [K 337, ID k, K 61, lit_token v]"

fun where_expr :: "(string \<times> literal) option \<Rightarrow> Expr option" where
  "where_expr None = None"
| "where_expr (Some (k, v)) = Some (equals k v)"

definition delete_tokens :: "string \<Rightarrow> (string \<times> literal) option \<Rightarrow> (int \<times> YYSTYPE option) list" where
  "delete_tokens t w = [K 295, K 348, ID t] @ where_tokens w"

definition delete_stmt :: "string \<Rightarrow> (string \<times> literal) option \<Rightarrow> DeleteStatement" where
  "delete_stmt t w = DeleteStatement_new\<lparr>del_tableName := Some t, del_expr := where_expr w\<rparr>"

definition select_tokens :: "string \<Rightarrow> (string \<times> literal) option \<Rightarrow> (int \<times> YYSTYPE option) list" where
  "select_tokens t w = [K 312, K 42, K 348, ID t] @ where_tokens w"

definition select_stmt :: "string \<Rightarrow> (string \<times> literal) option \<Rightarrow> SelectStatement" where
  "select_stmt t w = mkSelect None (Some (mkTableRef kTableName None (Some t) None None None None)) False (Some [makeStar])
     (where_expr w) None None None None None"

definition update_tokens :: "string \<Rightarrow> string \<Rightarrow> literal \<Rightarrow> (string \<times> literal) option \<Rightarrow> (int \<times> YYSTYPE option) list" where
  "update_tokens t c v w = [K 317, ID t, K 377, ID c, K 61, lit_token v] @ where_tokens w"

definition update_stmt :: "string \<Rightarrow> string \<Rightarrow> literal \<Rightarrow> (string \<times> literal) option \<Rightarrow> UpdateStatement" where
  "update_stmt t c v w = UpdateStatement_new\<lparr>upd_table := Some (mkTableRef kTableName None (Some t) None None None None),
     upd_updates := Some [\<lparr>uc_column = Some c, uc_value = Some (lit_expr v)\<rparr>], upd_where := where_expr w\<rparr>"

lemma num_equals: "map_option num_expr (where_expr w) = where_expr w"
  by (cases w rule: where_expr.cases; cases "snd (the w)")
    (simp_all add: equals_def makeOpBinary_def makeColumnRef_def makeLiteral_string_def makeLiteral_int_def Expr_new_def set_name_def
      set_ival_def set_expr_def set_expr2_def set_opType_def)

lemma num_star: "num_expr makeStar = makeStar"
  by (simp add: makeStar_def Expr_new_def)

fun extra :: "literal \<Rightarrow> nat" where
  "extra (Str s) = 0"
| "extra (Num n) = 1"

lemmas num_where = num_equals [of "Some (k, Str s)" for k s, simplified equals_def where_expr.simps lit_expr.simps option.map]
  num_equals [of "Some (k, Num n)" for k n, simplified equals_def where_expr.simps lit_expr.simps option.map]
  option.inject num_literal [of "Str s" for s, unfolded lit_expr.simps] num_literal [of "Num n" for n, unfolded lit_expr.simps]

lemmas built = num_hints_def num_star num_where equals_def DeleteStatement_new_def UpdateStatement_new_def SQLStatement_new_def
  SQLStatement.defs set_order_def set_withDescriptions_def delete_tokens_def delete_stmt_def select_tokens_def select_stmt_def
  update_tokens_def update_stmt_def num_clause_def

lemma delete_accepted: "\<exists>lv. lr_run (lr_start (delete_tokens t w) r)
    ([67, 19, 0], [lv, U_undef, U_undef], None, lv, [], addStatement (SDelete (delete_stmt t w)) r)"
proof (cases w rule: where_expr.cases)
  case 1
  show ?thesis unfolding 1 by (rule exI, rule lr_steps_run [of 13]) (simp add: lrs built)
next
  case (2 k v)
  show ?thesis unfolding 2 by (cases v; rule exI, rule lr_steps_run [of "28 + extra v"]; simp add: lrs built)
qed

lemma select_accepted: "\<exists>lv. lr_run (lr_start (select_tokens t w) r)
    ([67, 19, 0], [lv, U_undef, U_undef], None, lv, [], addStatement (SSelect (select_stmt t w)) r)"
proof (cases w rule: where_expr.cases)
  case 1
  show ?thesis unfolding 1 by (rule exI, rule lr_steps_run [of 37]) (simp add: lrs built)
next
  case (2 k v)
  show ?thesis unfolding 2 by (cases v; rule exI, rule lr_steps_run [of "52 + extra v"]; simp add: lrs built)
qed

lemma update_accepted: "\<exists>lv. lr_run (lr_start (update_tokens t c x (Some (k, v))) r)
    ([67, 19, 0], [lv, U_undef, U_undef], None, lv, [], addStatement (SUpdate (update_stmt t c x (Some (k, v)))) r)"
  by (cases v; cases x; rule exI, rule lr_steps_run [of "39 + extra v + extra x"]; simp add: lrs built)
end
