(* ===== verification/Texts.thy ===== *)
theory Texts
  imports Sentences Requests
begin

text \<open>
  The same statements as texts, with any names, strings and numbers in them, from the text to
  the tokens, and from the text of a request to the rows of the store.
\<close>

section \<open>Tokens of a text\<close>

definition spells :: "(string \<Rightarrow> u64) \<Rightarrow> string \<Rightarrow> (int \<times> YYSTYPE option) list \<Rightarrow> bool" where
  "spells atof s ts \<longleftrightarrow> scans atof s ts \<and> CHR 0x00 \<notin> set s"

fun name_ok :: "string \<Rightarrow> bool" where
  "name_ok [] = False"
| "name_ok (ch # v) = (is_letter ch \<and> list_all is_word_char v \<and> map_of keyword_rules (map upper (ch # v)) = None)"

fun is_keyword :: "string \<Rightarrow> int \<Rightarrow> bool" where
  "is_keyword [] k = False"
| "is_keyword (ch # v) k = (is_letter ch \<and> list_all is_word_char v \<and> map_of keyword_rules (map upper (ch # v)) = Some k)"

text \<open>The characters for which the scanner has no rule but the last one.\<close>

definition foreign :: "char \<Rightarrow> bool" where
  "foreign ch \<longleftrightarrow> (let b = of_char ch :: int in 1 \<le> b \<and> b \<le> 8 \<or> 11 \<le> b \<and> b \<le> 31 \<or> b \<in> {35, 36, 38, 64, 92, 96} \<or> 126 \<le> b)"

definition ends :: "string \<Rightarrow> bool" where
  "ends r \<longleftrightarrow> r = [] \<or> hd r \<in> {CHR '' '', CHR '','', CHR '')''} \<or> foreign (hd r)"

lemma ends_simps [simp]: "ends []" "ends (CHR '' '' # r)" "ends (CHR '','' # r)" "ends (CHR '')'' # r)" "foreign ch \<Longrightarrow> ends (ch # r)"
  by (simp_all add: ends_def)

lemma foreign_other: "foreign ch \<Longrightarrow> \<not> is_word_char ch \<and> \<not> digit ch \<and> ch \<noteq> CHR ''.'' \<and> ch \<noteq> CHR 0x27"
  by (auto simp: foreign_def Let_def is_word_char_def is_letter_def digit_def upper_def split: if_splits)

lemma ends_stop: "ends r \<Longrightarrow> r = [] \<or> \<not> is_word_char (hd r) \<and> \<not> digit (hd r) \<and> hd r \<noteq> CHR ''.'' \<and> hd r \<noteq> CHR 0x27"
  using foreign_other [of "hd r"] by (auto simp: ends_def is_word_char_def is_letter_def digit_def upper_def)

lemma foreign_bytes: "list_all (\<lambda>b. 1 \<le> b \<and> b \<le> 8 \<or> 11 \<le> b \<and> b \<le> 31 \<or> b \<in> {35, 36, 38, 64, 92, 96} \<or> 126 \<le> b \<longrightarrow> look yy_ec b = Some 1) [0..255]"
  by (simp add: upto.simps)

lemma foreign_class: "foreign ch \<Longrightarrow> look yy_ec (of_char ch) = Some 1"
proof -
  have "(of_char ch :: int) \<in> set [0..255]" using int_of_char_range [of ch] by (simp only: set_upto atLeastAtMost_iff simp_thms)
  from bspec [OF foreign_bytes [unfolded list_all_iff] this] show "foreign ch \<Longrightarrow> look yy_ec (of_char ch) = Some 1"
    by (simp only: foreign_def Let_def simp_thms)
qed

lemma word_chars: "list_all is_word_char v \<Longrightarrow> CHR 0x00 \<notin> set v" "is_letter ch \<Longrightarrow> ch \<noteq> CHR 0x00 \<and> \<not> Lexemes.blank ch"
  by (auto simp: list_all_iff is_word_char_def is_letter_def upper_def Lexemes.blank_def)

lemma spells_end [simp]: "spells atof [] []"
  using scans_Nil [OF reads_finishes [OF reads_end]] by (simp add: spells_def)

lemma jam_foreign: "jams 8 (\<lambda>c. True)"
  by (simp add: jams_def upto.simps yy_next.simps cong: bind_weak_cong)

lemma spells_foreign:
  assumes "foreign ch" "CHR 0x00 \<notin> set r"
  shows "spells atof (ch # r) []"
proof -
  have n: "(of_char ch :: int) \<noteq> 0" "ch \<noteq> CHR 0x00" using assms(1) by (auto simp: foreign_def)
  have "runs 1 (buffer_bytes [ch]) = Some 8"
    using foreign_class [OF assms(1)] n by (simp add: buffer_bytes_def yy_next.simps cong: bind_weak_cong)
  moreover have "stops 8 r" by (rule jams_stop [OF jam_foreign]) (use assms(2) in \<open>cases r; auto\<close>)
  ultimately have "yy_rule 1 ([ch] @ r) = Some (169, length [ch])" by (intro rule_of_run) (simp_all add: starts_def)
  then have "reads atof ([ch] @ r) 0 None r" by (rule reads_one) (simp_all add: yy_action_def)
  then show ?thesis using n assms(2) by (auto simp: spells_def intro: scans_Nil reads_finishes)
qed

lemma spells_name:
  assumes "name_ok w" "ends r" "spells atof r ts"
  shows "spells atof (w @ r) (ID w # ts)"
proof -
  obtain ch v where w: "w = ch # v" "is_letter ch" "list_all is_word_char v" "map_of keyword_rules (map upper (ch # v)) = None"
    using assms(1) by (cases w) auto
  have "reads atof ((ch # v) @ r) SQL_IDENTIFIER (Some (U_sval (Some (ch # v)))) r"
    using reads_word [OF w(2,3), of r atof] assms(3) ends_stop [OF assms(2)] w(4) by (auto simp: spells_def)
  then show ?thesis using assms(3) word_chars w by (auto simp: spells_def intro: scans_Cons)
qed

lemma spells_keyword:
  assumes "is_keyword w k" "ends r" "spells atof r ts"
  shows "spells atof (w @ r) (K k # ts)"
proof -
  obtain ch v where w: "w = ch # v" "is_letter ch" "list_all is_word_char v" "map_of keyword_rules (map upper (ch # v)) = Some k"
    using assms(1) by (cases w) auto
  have "reads atof ((ch # v) @ r) k None r"
    using reads_word [OF w(2,3), of r atof] assms(3) ends_stop [OF assms(2)] w(4) by (auto simp: spells_def)
  then show ?thesis using assms(3) word_chars w by (auto simp: spells_def intro: scans_Cons)
qed

lemma spells_sign:
  assumes "sign ch" "spells atof r ts"
  shows "spells atof (ch # r) (K (of_char ch) # ts)"
  using reads_sign [OF assms(1), of r atof] assms by (auto simp: spells_def sign_def intro: scans_Cons)

lemma spells_equals: "r = [] \<or> hd r \<noteq> CHR ''='' \<Longrightarrow> spells atof r ts \<Longrightarrow> spells atof (CHR ''='' # r) (K 61 # ts)"
  using reads_equals [of r atof] by (auto simp: spells_def intro: scans_Cons)

lemma spells_blank:
  assumes "r = [] \<or> \<not> Lexemes.blank (hd r)" "spells atof r ts"
  shows "spells atof (CHR '' '' # r) ts"
proof -
  have w: "list_all Lexemes.blank '' ''" "'' '' \<noteq> []" by (simp_all add: Lexemes.blank_def)
  have "r = [] \<or> hd r \<noteq> CHR 0x00 \<and> \<not> Lexemes.blank (hd r)" using assms by (cases r) (auto simp: spells_def)
  note b = reads_blanks [OF w this, simplified]
  have "scans atof r ts" "CHR 0x00 \<notin> set r" using assms(2) by (simp_all add: spells_def)
  then show ?thesis unfolding spells_def by (cases rule: scans.cases) (auto intro: scans.intros b)
qed

text \<open>A comment, and a following line that begins with blanks.\<close>

lemma comment_turns:
  "yy_rule 1 (''--'' @ ('' note'' @ [CHR 0x0A] @ ''  WHERE id = 7'')) = Some (1, length ''--'')"
  "yy_rule 5 ('' note'' @ ([CHR 0x0A] @ ''  WHERE id = 7'')) = Some (2, length '' note'')"
  "yy_rule 5 ([CHR 0x0A, CHR 0x20, CHR 0x20] @ ''WHERE id = 7'') = Some (4, length [CHR 0x0A, CHR 0x20, CHR 0x20])"
  "yy_rule 5 (''WHERE id = 7'' @ []) = Some (2, length ''WHERE id = 7'')"
proof -
  have r: "runs 1 (buffer_bytes ''--'') = Some 89" by (simp add: buffer_bytes_def yy_next.simps cong: bind_weak_cong)
  show "yy_rule 1 (''--'' @ ('' note'' @ [CHR 0x0A] @ ''  WHERE id = 7'')) = Some (1, length ''--'')"
    by (rule rule_of_run [OF r]) (simp_all add: starts_def stops_def yy_next.simps cong: bind_weak_cong)
  obtain s where r: "runs 5 (buffer_bytes '' note'') = Some s" "look yy_accept s = Some 2" "yy_next s 3 = Some 1169"
    by (simp add: buffer_bytes_def yy_next.simps cong: bind_weak_cong)
  show "yy_rule 5 ('' note'' @ ([CHR 0x0A] @ ''  WHERE id = 7'')) = Some (2, length '' note'')"
    by (rule rule_of_run [OF r(1) _ _ r(2)]) (simp_all add: starts_def stops_def r(3))
  obtain s where r: "runs 5 (buffer_bytes [CHR 0x0A, CHR 0x20, CHR 0x20]) = Some s" "look yy_accept s = Some 4" "yy_next s 45 = Some 1169"
    by (simp add: buffer_bytes_def yy_next.simps cong: bind_weak_cong)
  show "yy_rule 5 ([CHR 0x0A, CHR 0x20, CHR 0x20] @ ''WHERE id = 7'') = Some (4, length [CHR 0x0A, CHR 0x20, CHR 0x20])"
    by (rule rule_of_run [OF r(1) _ _ r(2)]) (simp_all add: starts_def stops_def r(3))
  obtain s where r: "runs 5 (buffer_bytes ''WHERE id = 7'') = Some s" "look yy_accept s = Some 2"
    by (simp add: buffer_bytes_def yy_next.simps cong: bind_weak_cong)
  show "yy_rule 5 (''WHERE id = 7'' @ []) = Some (2, length ''WHERE id = 7'')"
    by (rule rule_of_run [OF r(1) _ _ r(2)]) (simp_all add: starts_def stops_def)
qed

lemma comment_finishes: "finishes atof (''-- note'' @ [CHR 0x0A] @ ''  WHERE id = 7'')"
  unfolding finishes_def
proof
  fix sb
  let ?at = "\<lambda>buf. \<lparr>lx_buf = buf, lx_start = 5, lx_strbuf = sb\<rparr>"
  let ?m = "\<lambda>l. YY_USER_ACTION ''WHERE id = 7'' (YY_USER_ACTION [CHR 0x0A, CHR 0x20, CHR 0x20]
    (YY_USER_ACTION '' note'' (YY_USER_ACTION ''--'' l)))"
  have turn: "yylex atof (?at (w @ r)) v l = yylex atof (?at r) v (YY_USER_ACTION w l)"
    if "yy_rule 5 (w @ r) = Some (act, length w)" "act = 2 \<or> act = 4" for w r act v l
    using yylex_rule [OF that(1), of "?at (w @ r)" atof v None "?at r" v l] that(2) by (auto simp: yy_action_def)
  have "yylex atof (lexer_at (''-- note'' @ [CHR 0x0A] @ ''  WHERE id = 7'') sb) v l =
      yylex atof (?at ('' note'' @ [CHR 0x0A] @ ''  WHERE id = 7'')) v (YY_USER_ACTION ''--'' l)" for v l
    using yylex_rule [OF comment_turns(1), of "lexer_at (''-- note'' @ [CHR 0x0A] @ ''  WHERE id = 7'') sb" atof v None]
    by (simp add: yy_action_def BEGIN_def COMMENT_def lexer_at_def)
  moreover have "yylex atof (?at ('' note'' @ [CHR 0x0A] @ ''  WHERE id = 7'')) v l = yylex atof (?at []) v
      (YY_USER_ACTION ''WHERE id = 7'' (YY_USER_ACTION [CHR 0x0A, CHR 0x20, CHR 0x20] (YY_USER_ACTION '' note'' l)))" for v l
    using turn [OF comment_turns(2)] turn [OF comment_turns(3)] turn [OF comment_turns(4)] by simp
  moreover have "yylex atof (?at []) v l = Some (0, ?at [], v, l)" for v l
    using yy_rule_empty [of 5]
    by (subst yylex.simps) (simp add: yy_turn_def starts_def YY_STATE_EOF_def YY_START_def YY_END_OF_BUFFER_def yy_action_def
        INITIAL_def COMMENT_def Let_def)
  ultimately show "\<exists>lx move. \<forall>yylval yylloc.
      yylex atof (lexer_at (''-- note'' @ [CHR 0x0A] @ ''  WHERE id = 7'') sb) yylval yylloc = Some (0, lx, yylval, move yylloc)"
    by (intro exI [of _ "?at []"] exI [of _ ?m]) simp
qed

lemma spells_comment: "spells atof ('' -- note'' @ [CHR 0x0A] @ ''  WHERE id = 7'') []"
proof -
  have "spells atof (''-- note'' @ [CHR 0x0A] @ ''  WHERE id = 7'') []"
    using scans_Nil [OF comment_finishes] by (simp add: spells_def)
  then show ?thesis using spells_blank [of "''-- note'' @ [CHR 0x0A] @ ''  WHERE id = 7''"] by (simp add: Lexemes.blank_def)
qed

section \<open>Literals and lists\<close>

lemma digit_iff: "digit ch \<longleftrightarrow> isdigit ch"
  by (simp add: digit_def isdigit_def) (metis of_nat_le_iff of_nat_numeral of_nat_of_char)

lemma digits_int_value: "list_all isdigit s \<Longrightarrow> digits_int 10 s = int (digits_value 0 s)"
proof -
  have d: "digit_of ch = int (digit_value ch)" if "isdigit ch" for ch
    using that of_nat_of_char [of ch, where ?'a = int] by (simp add: digit_of_def digit_value_def isdigit_def of_nat_diff)
  have "list_all isdigit s \<Longrightarrow> foldl (\<lambda>n ch. n * 10 + digit_of ch) (int v) s = int (foldl (\<lambda>v c. v * 10 + digit_value c) v s)" for v
  proof (induction s arbitrary: v)
    case (Cons a s)
    then show ?case using Cons.IH [of "v * 10 + digit_value a"] d [of a] by simp
  qed simp
  from this [of 0] show "list_all isdigit s \<Longrightarrow> digits_int 10 s = int (digits_value 0 s)"
    by (simp add: digits_int_def digits_value_def)
qed

lemma decimal_head: "0 < n \<Longrightarrow> hd (decimal n) \<noteq> CHR ''0''"
proof (induction n rule: decimal.induct)
  case (1 n)
  have "digit_char d \<noteq> CHR ''0''" if "0 < d" "d < 10" for d
  proof
    assume "digit_char d = CHR ''0''"
    moreover have "digit_value (digit_char d) = d" using that by simp
    moreover have "digit_value CHR ''0'' = 0" by (simp add: digit_value_def)
    ultimately show False using that by simp
  qed
  then show ?case using 1 by (subst decimal.simps) (auto simp: hd_append)
qed

lemma strtoll0_decimal:
  assumes "n < 2 ^ 63"
  shows "strtoll0 (decimal n) = (int n, False)"
proof (cases "n = 0")
  case True
  have "digit_char 0 = CHR ''0''" by code_simp
  then have "decimal 0 = ''0''" by (subst decimal.simps) simp
  then show ?thesis using True by (simp add: strtoll0_def digits_int_def digit_of_def)
next
  case False
  obtain ch v where c: "decimal n = ch # v" by (cases "decimal n") auto
  have "int n < int (2 ^ 63)" using assms by (simp only: of_nat_less_iff)
  then show ?thesis
    using decimal_head [of n] digits_int_value [OF decimal_digits [of n]] digits_value_decimal [of n] False c
    by (auto simp: strtoll0_def)
qed

fun lit_text :: "literal \<Rightarrow> string" where
  "lit_text (Str s) = [CHR 0x27] @ quoted s @ [CHR 0x27]"
| "lit_text (Num n) = decimal (nat n)"

fun lit_ok :: "literal \<Rightarrow> bool" where
  "lit_ok (Str s) = (CHR 0x00 \<notin> set s)"
| "lit_ok (Num n) = (0 \<le> n \<and> n < 2 ^ 63)"

lemma spells_literal:
  assumes "lit_ok l" "ends r" "spells atof r ts"
  shows "spells atof (lit_text l @ r) (lit_token l # ts)"
proof (cases l)
  case (Str s)
  have "r = [] \<or> hd r \<noteq> CHR 0x27" using ends_stop [OF assms(2)] by blast
  then have "reads atof ([CHR 0x27] @ quoted s @ CHR 0x27 # r) SQL_STRING (Some (U_sval (Some s))) r"
    using reads_string [of s r atof] assms(1,3) Str by (simp add: spells_def)
  then show ?thesis using assms(1,3) Str quoted_split(3) [of s] by (auto simp: spells_def intro: scans_Cons)
next
  case (Num n)
  let ?ds = "decimal (nat n)"
  have d: "list_all isdigit ?ds" by (rule decimal_digits)
  have "nat n < 2 ^ 63" using assms(1) Num by (simp add: nat_less_iff)
  then have v: "strtoll0 ?ds = (n, False)" using assms(1) Num strtoll0_decimal [of "nat n"] by simp
  have "list_all digit ?ds" using d by (simp add: list_all_iff digit_iff)
  then have "reads atof (?ds @ r) SQL_INTVAL (Some (U_ival n)) r"
    using reads_digits [of ?ds r atof] ends_stop [OF assms(2)] assms(3) v by (auto simp: spells_def)
  moreover have "CHR 0x00 \<notin> set ?ds" using d by (auto simp: list_all_iff isdigit_def)
  ultimately show ?thesis using assms(3) Num by (auto simp: spells_def intro: scans_Cons)
qed

lemma first_chars:
  "name_ok w \<Longrightarrow> w @ r \<noteq> [] \<and> \<not> Lexemes.blank (hd (w @ r))"
  "lit_ok l \<Longrightarrow> lit_text l @ r \<noteq> [] \<and> \<not> Lexemes.blank (hd (lit_text l @ r)) \<and> hd (lit_text l @ r) \<noteq> CHR ''=''"
proof -
  show "name_ok w \<Longrightarrow> w @ r \<noteq> [] \<and> \<not> Lexemes.blank (hd (w @ r))" using word_chars(2) by (cases w) auto
  show "lit_ok l \<Longrightarrow> lit_text l @ r \<noteq> [] \<and> \<not> Lexemes.blank (hd (lit_text l @ r)) \<and> hd (lit_text l @ r) \<noteq> CHR ''=''"
  proof (cases l)
    case (Num n)
    obtain ch v where c: "decimal (nat n) = ch # v" by (cases "decimal (nat n)") auto
    then have "isdigit ch" using decimal_digits [of "nat n"] by simp
    then show ?thesis using Num c by (auto simp: Lexemes.blank_def isdigit_def)
  qed (simp add: Lexemes.blank_def)
qed

fun more_text :: "string list \<Rightarrow> string" where
  "more_text [] = []"
| "more_text (s # ss) = '', '' @ s @ more_text ss"

lemma ends_more: "ends (more_text ss @ CHR '')'' # r)"
  by (cases ss) simp_all

lemma sign_simps [simp]: "sign CHR ''(''" "sign CHR '')''" "sign CHR '',''" "sign CHR '';''" "sign CHR ''*''"
  by (simp_all add: sign_def)

lemma spells_names:
  "list_all name_ok cs \<Longrightarrow> spells atof (CHR '')'' # r) ts \<Longrightarrow> spells atof (more_text cs @ CHR '')'' # r) (more_tokens ID cs @ ts)"
proof (induction cs)
  case (Cons c cs)
  then have "spells atof (c @ more_text cs @ CHR '')'' # r) (ID c # more_tokens ID cs @ ts)" by (intro spells_name ends_more) simp_all
  from spells_sign [of "CHR '',''", OF _ spells_blank [OF _ this]] show ?case using Cons.prems(1) first_chars(1) [of c] by simp
qed simp

lemma spells_literals:
  "list_all lit_ok ls \<Longrightarrow> spells atof (CHR '')'' # r) ts \<Longrightarrow>
    spells atof (more_text (map lit_text ls) @ CHR '')'' # r) (more_tokens lit_token ls @ ts)"
proof (induction ls)
  case (Cons l ls)
  then have "spells atof (lit_text l @ more_text (map lit_text ls) @ CHR '')'' # r) (lit_token l # more_tokens lit_token ls @ ts)"
    by (intro spells_literal ends_more) simp_all
  from spells_sign [of "CHR '',''", OF _ spells_blank [OF _ this]] show ?case using Cons.prems(1) first_chars(2) [of l] by simp
qed simp

section \<open>Statements\<close>

fun comma_list :: "string list \<Rightarrow> string" where
  "comma_list [] = []"
| "comma_list (s # ss) = s @ more_text ss"

definition insert_text :: "string \<Rightarrow> string list \<Rightarrow> literal list \<Rightarrow> string" where
  "insert_text t cs ls =
     ''INSERT INTO '' @ t @ '' ('' @ comma_list cs @ '') VALUES ('' @ comma_list (map lit_text ls) @ '')''"

fun where_text :: "(string \<times> literal) option \<Rightarrow> string" where
  "where_text None = []"
| "where_text (Some (k, v)) = '' WHERE '' @ k @ '' = '' @ lit_text v"

definition select_text :: "string \<Rightarrow> (string \<times> literal) option \<Rightarrow> string" where
  "select_text t w = ''SELECT * FROM '' @ t @ where_text w"

definition update_text :: "string \<Rightarrow> string \<Rightarrow> literal \<Rightarrow> (string \<times> literal) option \<Rightarrow> string" where
  "update_text t c v w = ''UPDATE '' @ t @ '' SET '' @ c @ '' = '' @ lit_text v @ where_text w"

definition delete_text :: "string \<Rightarrow> (string \<times> literal) option \<Rightarrow> string" where
  "delete_text t w = ''DELETE FROM '' @ t @ where_text w"

lemma keyword_words:
  "is_keyword ''INSERT'' 307" "is_keyword ''INTO'' 352" "is_keyword ''VALUES'' 318" "is_keyword ''SELECT'' 312"
  "is_keyword ''FROM'' 348" "is_keyword ''WHERE'' 337" "is_keyword ''UPDATE'' 317" "is_keyword ''SET'' 377"
  "is_keyword ''DELETE'' 295"
  by code_simp+

lemma blank_simps: "\<not> Lexemes.blank CHR ''(''" "\<not> Lexemes.blank CHR '')''" "\<not> Lexemes.blank CHR ''=''" "\<not> Lexemes.blank CHR ''*''"
  by (simp_all add: Lexemes.blank_def)

lemma keyword_first: "is_keyword w k \<Longrightarrow> w @ r \<noteq> [] \<and> \<not> Lexemes.blank (hd (w @ r))"
  using word_chars(2) by (cases w) auto

text \<open>A word and the blank behind it.\<close>

lemma spells_keyword_blank:
  assumes "is_keyword w k" "r = [] \<or> \<not> Lexemes.blank (hd r)" "spells atof r ts"
  shows "spells atof (w @ CHR '' '' # r) (K k # ts)"
  by (rule spells_keyword [OF assms(1) _ spells_blank [OF assms(2,3)]]) simp

lemma spells_name_blank:
  assumes "name_ok w" "r = [] \<or> \<not> Lexemes.blank (hd r)" "spells atof r ts"
  shows "spells atof (w @ CHR '' '' # r) (ID w # ts)"
  by (rule spells_name [OF assms(1) _ spells_blank [OF assms(2,3)]]) simp

lemma first_name: "name_ok w \<Longrightarrow> w @ r = [] \<or> \<not> Lexemes.blank (hd (w @ r))"
  using first_chars(1) by blast

lemma first_keyword: "is_keyword w k \<Longrightarrow> w @ r = [] \<or> \<not> Lexemes.blank (hd (w @ r))"
  using keyword_first by blast

lemma where_ends: "ends r \<Longrightarrow> ends (where_text w @ r)"
  by (cases w rule: where_text.cases) simp_all

definition where_ok :: "(string \<times> literal) option \<Rightarrow> bool" where
  "where_ok w \<longleftrightarrow> (case w of None \<Rightarrow> True | Some (k, v) \<Rightarrow> name_ok k \<and> lit_ok v)"

lemma spells_where:
  assumes "where_ok w" "ends r" "spells atof r []"
  shows "spells atof (where_text w @ r) (where_tokens w)"
proof (cases w rule: where_text.cases)
  case (2 k v)
  have k: "name_ok k" "lit_ok v" using assms(1) 2 by (simp_all add: where_ok_def)
  have "spells atof (lit_text v @ r) [lit_token v]" by (rule spells_literal [OF k(2) assms(2,3)])
  then have "spells atof (''='' @ CHR '' '' # lit_text v @ r) (K 61 # [lit_token v])"
    using spells_equals spells_blank first_chars(2) [OF k(2), of r] by simp
  then have "spells atof (k @ CHR '' '' # ''='' @ CHR '' '' # lit_text v @ r) (ID k # K 61 # [lit_token v])"
    by (intro spells_name_blank k(1)) (simp_all add: blank_simps)
  then have "spells atof (''WHERE'' @ CHR '' '' # k @ CHR '' '' # ''='' @ CHR '' '' # lit_text v @ r) (where_tokens w)"
    unfolding 2 where_tokens.simps by (intro spells_keyword_blank keyword_words first_name k(1))
  from spells_blank [OF first_keyword [OF keyword_words(6)] this] show ?thesis by (simp add: 2)
qed (simp add: assms(3))

lemma token_lists:
  "delete_tokens t w = K 295 # K 348 # ID t # where_tokens w"
  "select_tokens t w = K 312 # K 42 # K 348 # ID t # where_tokens w"
  "update_tokens t c v w = K 317 # ID t # K 377 # ID c # K 61 # lit_token v # where_tokens w"
  "insert_tokens t (c # cs) (l # ls) = K 307 # K 352 # ID t # K 40 # ID c # more_tokens ID cs @ K 41 # K 318 # K 40 #
     lit_token l # more_tokens lit_token ls @ [K 41]"
  by (simp_all add: delete_tokens_def select_tokens_def update_tokens_def)

lemma spells_delete:
  assumes "name_ok t" "where_ok w" "ends r" "spells atof r []"
  shows "spells atof (delete_text t w @ r) (delete_tokens t w)"
proof -
  have "spells atof (t @ where_text w @ r) (ID t # where_tokens w)" by (intro spells_name assms(1) where_ends spells_where assms(2-4))
  then have "spells atof (''DELETE'' @ CHR '' '' # ''FROM'' @ CHR '' '' # t @ where_text w @ r) (delete_tokens t w)"
    unfolding token_lists
    by (intro spells_keyword_blank keyword_words first_name first_keyword [OF keyword_words(5)] assms(1))
  then show ?thesis by (simp add: delete_text_def)
qed

lemma spells_select:
  assumes "name_ok t" "where_ok w" "ends r" "spells atof r []"
  shows "spells atof (select_text t w @ r) (select_tokens t w)"
proof -
  have "spells atof (t @ where_text w @ r) (ID t # where_tokens w)" by (intro spells_name assms(1) where_ends spells_where assms(2-4))
  then have "spells atof (''FROM'' @ CHR '' '' # t @ where_text w @ r) (K 348 # ID t # where_tokens w)"
    by (intro spells_keyword_blank keyword_words first_name assms(1))
  from spells_sign [of "CHR ''*''", OF _ spells_blank [OF first_keyword [OF keyword_words(5)] this]]
  have "spells atof (CHR ''*'' # CHR '' '' # ''FROM'' @ CHR '' '' # t @ where_text w @ r) (K 42 # K 348 # ID t # where_tokens w)"
    by simp
  then have "spells atof (''SELECT'' @ CHR '' '' # CHR ''*'' # CHR '' '' # ''FROM'' @ CHR '' '' # t @ where_text w @ r) (select_tokens t w)"
    unfolding token_lists by (intro spells_keyword_blank keyword_words) (simp_all add: blank_simps)
  then show ?thesis by (simp add: select_text_def)
qed

lemma spells_update:
  assumes "name_ok t" "name_ok c" "lit_ok v" "where_ok w" "ends r" "spells atof r []"
  shows "spells atof (update_text t c v w @ r) (update_tokens t c v w)"
proof -
  have "spells atof (lit_text v @ where_text w @ r) (lit_token v # where_tokens w)"
    by (intro spells_literal assms(3) where_ends spells_where assms(4-6))
  then have "spells atof (''='' @ CHR '' '' # lit_text v @ where_text w @ r) (K 61 # lit_token v # where_tokens w)"
    using spells_equals spells_blank first_chars(2) [OF assms(3), of "where_text w @ r"] by simp
  then have "spells atof (c @ CHR '' '' # ''='' @ CHR '' '' # lit_text v @ where_text w @ r) (ID c # K 61 # lit_token v # where_tokens w)"
    by (intro spells_name_blank assms(2)) (simp_all add: blank_simps)
  from spells_keyword_blank [OF keyword_words(8) first_name [OF assms(2)] this]
  have "spells atof (t @ CHR '' '' # ''SET'' @ CHR '' '' # c @ CHR '' '' # ''='' @ CHR '' '' # lit_text v @ where_text w @ r)
      (ID t # K 377 # ID c # K 61 # lit_token v # where_tokens w)"
    by (rule spells_name_blank [OF assms(1) first_keyword [OF keyword_words(8)]])
  from spells_keyword_blank [OF keyword_words(7) first_name [OF assms(1)] this]
  have "spells atof (''UPDATE'' @ CHR '' '' # t @ CHR '' '' # ''SET'' @ CHR '' '' # c @ CHR '' '' # ''='' @ CHR '' '' #
      lit_text v @ where_text w @ r) (update_tokens t c v w)"
    unfolding token_lists .
  then show ?thesis by (simp add: update_text_def)
qed

lemma spells_insert:
  assumes "name_ok t" "list_all name_ok cs" "list_all lit_ok ls" "cs \<noteq> []" "ls \<noteq> []" "spells atof r []"
  shows "spells atof (insert_text t cs ls @ r) (insert_tokens t cs ls)"
proof -
  obtain c cs' l ls' where e: "cs = c # cs'" "ls = l # ls'" using assms(4,5) by (cases cs; cases ls) auto
  have ok: "name_ok c" "list_all name_ok cs'" "lit_ok l" "list_all lit_ok ls'" using assms(2,3) e by simp_all
  let ?ls = "lit_text l @ more_text (map lit_text ls') @ CHR '')'' # r"
  have "spells atof (CHR '')'' # r) [K 41]" using spells_sign [of "CHR '')''", OF _ assms(6)] by simp
  then have "spells atof ?ls (lit_token l # more_tokens lit_token ls' @ [K 41])"
    by (intro spells_literal spells_literals ok ends_more) 
  from spells_sign [of "CHR ''(''", OF _ this]
  have "spells atof (CHR ''('' # ?ls) (K 40 # lit_token l # more_tokens lit_token ls' @ [K 41])" by simp
  then have "spells atof (''VALUES'' @ CHR '' '' # CHR ''('' # ?ls) (K 318 # K 40 # lit_token l # more_tokens lit_token ls' @ [K 41])"
    by (intro spells_keyword_blank keyword_words) (simp_all add: blank_simps)
  from spells_sign [of "CHR '')''", OF _ spells_blank [OF first_keyword [OF keyword_words(3)] this]]
  have "spells atof (c @ more_text cs' @ CHR '')'' # CHR '' '' # ''VALUES'' @ CHR '' '' # CHR ''('' # ?ls)
      (ID c # more_tokens ID cs' @ K 41 # K 318 # K 40 # lit_token l # more_tokens lit_token ls' @ [K 41])"
    by (intro spells_name spells_names ok ends_more) simp
  from spells_sign [of "CHR ''(''", OF _ this]
  have "spells atof (''INSERT'' @ CHR '' '' # ''INTO'' @ CHR '' '' # t @ CHR '' '' # CHR ''('' # c @ more_text cs' @ CHR '')'' # CHR '' '' #
      ''VALUES'' @ CHR '' '' # CHR ''('' # ?ls) (insert_tokens t cs ls)"
    unfolding e token_lists
    by (intro spells_keyword_blank spells_name_blank keyword_words first_name first_keyword [OF keyword_words(2)] assms(1))
      (simp_all add: blank_simps)
  then show ?thesis by (simp add: insert_text_def e)
qed

lemma accepted:
  assumes "lr_run (lr_start ts r) ([67, 19, 0], vs, la, lv, ts', r')" "spells atof sql ts"
  shows "hsql_parse atof sql r = Inr (0, r')"
proof -
  have "lr_run (lr_start ts r) (YYFINAL # [19, 0], vs, la, lv, ts', r')" using assms(1) by (simp add: YYFINAL_def)
  moreover have "scans atof (c_str sql) ts" using assms(2) by (simp add: spells_def c_str_id)
  ultimately show ?thesis using accepted_by_machine [of ts r "[19, 0]" vs la lv ts' r' atof sql] by simp
qed

lemma parsed_insert:
  assumes "name_ok t" "list_all name_ok cs" "list_all lit_ok ls" "cs \<noteq> []" "ls \<noteq> []" "spells atof r []"
  shows "hsql_parse atof (insert_text t cs ls @ r) result = Inr (0, addStatement (SInsert (insert_stmt t cs ls)) result)"
  using insert_accepted [OF assms(4,5)] accepted [OF _ spells_insert [OF assms]] by blast

lemma parsed_select:
  assumes "name_ok t" "where_ok w" "ends r" "spells atof r []"
  shows "hsql_parse atof (select_text t w @ r) result = Inr (0, addStatement (SSelect (select_stmt t w)) result)"
  using select_accepted accepted [OF _ spells_select [OF assms]] by blast

lemma parsed_delete:
  assumes "name_ok t" "where_ok w" "ends r" "spells atof r []"
  shows "hsql_parse atof (delete_text t w @ r) result = Inr (0, addStatement (SDelete (delete_stmt t w)) result)"
  using delete_accepted accepted [OF _ spells_delete [OF assms]] by blast

lemma parsed_update:
  assumes "name_ok t" "name_ok c" "lit_ok v" "where_ok (Some w)" "ends r" "spells atof r []"
  shows "hsql_parse atof (update_text t c v (Some w) @ r) result =
    Inr (0, addStatement (SUpdate (update_stmt t c v (Some w))) result)"
  using update_accepted [of t c v "fst w" "snd w" result] accepted [OF _ spells_update [OF assms]] by auto

end
