(* ===== verification/Queries.thy ===== *)
theory Queries
  imports Texts
begin

text \<open>
  Requests from their text on: the server with its own scanner and parser, the text of an
  \<open>INSERT\<close>, \<open>SELECT\<close>, \<open>UPDATE\<close> or \<open>DELETE\<close> in a received packet, and the rows of the store and
  the reply afterwards.
\<close>

definition own_parser :: "(string \<Rightarrow> u64) \<Rightarrow> 'st env \<Rightarrow> bool" where
  "own_parser atof E \<longleftrightarrow> \<not> en_lex_fails E \<and> en_parse E = hsql_parse atof"

definition in_text :: "string \<Rightarrow> bool" where
  "in_text s \<longleftrightarrow> CHR 0x00 \<notin> set s"

lemma spells_in_text: "spells atof s ts \<Longrightarrow> in_text s"
  by (simp add: spells_def in_text_def)

lemma means_parsed:
  assumes "own_parser atof E" "in_text sql" "\<And>r. hsql_parse atof sql r = Inr (0, addStatement s r)"
  shows "means E sql s"
proof -
  have "c_str sql = sql" using assms(2) by (simp add: in_text_def c_str_id)
  then show ?thesis using assms(1,3)
    by (simp add: means_def parse_query_def parse_def own_parser_def isValid_def setIsValid_def addStatement_def SQLParserResult_new_def)
qed

lemma over [simp]: "ends []" "spells atof [] []"
  by simp_all

lemma means_insert:
  assumes "own_parser atof E" "name_ok t" "list_all name_ok cs" "list_all lit_ok ls" "cs \<noteq> []" "length cs = length ls"
  shows "means E (insert_text t cs ls) (SInsert (insert_stmt t cs ls))"
proof -
  have "ls \<noteq> []" using assms(5,6) by auto
  then show ?thesis
    using means_parsed [OF assms(1)] parsed_insert [OF assms(2-5) _ over(2)] spells_in_text [OF spells_insert [OF assms(2-5) _ over(2)]]
    by fastforce
qed

lemma means_select:
  assumes "own_parser atof E" "name_ok t" "where_ok w"
  shows "means E (select_text t w) (SSelect (select_stmt t w))"
  using means_parsed [OF assms(1)] parsed_select [OF assms(2-3) over] spells_in_text [OF spells_select [OF assms(2-3) over]]
  by fastforce

lemma means_delete:
  assumes "own_parser atof E" "name_ok t" "where_ok w"
  shows "means E (delete_text t w) (SDelete (delete_stmt t w))"
  using means_parsed [OF assms(1)] parsed_delete [OF assms(2-3) over] spells_in_text [OF spells_delete [OF assms(2-3) over]]
  by fastforce

lemma means_update:
  assumes "own_parser atof E" "name_ok t" "name_ok c" "lit_ok v" "where_ok (Some w)"
  shows "means E (update_text t c v (Some w)) (SUpdate (update_stmt t c v (Some w)))"
  using means_parsed [OF assms(1)] parsed_update [OF assms(2-5) over] spells_in_text [OF spells_update [OF assms(2-5) over]]
  by fastforce

section \<open>Literals in statements\<close>

fun data :: "literal \<Rightarrow> string" where
  "data (Str s) = s"
| "data (Num n) = to_string n"

lemma literal_data: "map literal_value (map lit_expr ls) = map Some (map data ls)"
proof -
  have "literal_value (lit_expr l) = Some (data l)" for l
    by (cases l) (simp_all add: literal_value_def makeLiteral_string_def makeLiteral_int_def Expr_new_def set_name_def set_ival_def)
  then show ?thesis by simp
qed

lemma equals_compares: "compares (equals f (Str k)) kOpEquals f k"
  by (simp add: compares_def equals_def makeOpBinary_def makeColumnRef_def makeLiteral_string_def set_expr_def set_expr2_def
      set_opType_def set_name_def Expr_new_def)

lemma where_string: "name_ok f \<Longrightarrow> plain k \<Longrightarrow> where_ok (Some (f, Str k))"
  by (simp add: where_ok_def plain_def)

section \<open>Properties\<close>

text \<open>C1: The text of an \<open>INSERT\<close> becomes a row. For any table, columns and literals, strings with
  their quotes doubled and numbers in decimal, the parser makes one statement of the text, the
  row of the values in the order of the columns is stored under the first value, nothing else
  changes and the answer is one OK packet.\<close>

theorem insert_from_text:
  assumes "own_parser atof E" "asks c seq (insert_text tab names (lit # lits))" "ss_room c 27"
    "kv_laws (en_redis E) view" "serving (se_server c) dbname tab cols"
    "name_ok tab" "list_all name_ok names" "list_all lit_ok (lit # lits)" "length names = length (lit # lits)"
    "covers cols (listed names (map data (lit # lits)))" "vals = in_order cols (listed names (map data (lit # lits)))"
    "row_ok vals" "plain (data lit)"
  shows "\<exists>st'. replied E c (framed (seq + 1) (OkPacket_Pack 1 0 2 0)) ((se_server c)\<lparr>sv_store := st'\<rparr>) \<and>
    table_rows view dbname tab st' = (table_rows view dbname tab (sv_store (se_server c)))(data lit \<mapsto> vals) \<and>
    (\<forall>d t. ident d \<and> ident t \<and> (d, t) \<noteq> (dbname, tab) \<longrightarrow>
      table_rows view d t st' = table_rows view d t (sv_store (se_server c)))"
proof -
  have "names \<noteq> []" using assms(9) by auto
  from means_insert [OF assms(1,6-8) this assms(9)]
  have m: "means E (insert_text tab names (lit # lits)) (SInsert (insert_stmt tab names (lit # lits)))" .
  have st: "ins_tableName (insert_stmt tab names (lit # lits)) = Some tab" "ins_columns (insert_stmt tab names (lit # lits)) = Some names"
    "ins_values (insert_stmt tab names (lit # lits)) = Some (map lit_expr (lit # lits))"
    by (simp_all add: insert_stmt_def)
  show ?thesis
    using insert_request [OF assms(2) m assms(3-5) st, of "data lit" "map data lits"] literal_data [of "lit # lits"] assms(9-13)
    by simp
qed

text \<open>C2: The text of a \<open>SELECT\<close> by key is answered from the store: the result set holds the row under
  the key, in the columns of the table, or no row, whatever column the condition names.\<close>

theorem select_from_text:
  assumes "own_parser atof E" "asks c seq (select_text tab (Some (f, Str k)))"
    "kv_laws (en_redis E) view" "serving (se_server c) dbname tab cols" "name_ok tab" "name_ok f" "plain k"
    "rows = (case table_rows view dbname tab (sv_store (se_server c)) k of None \<Rightarrow> [] | Some vals \<Rightarrow> [labelled cols vals])"
    "\<And>vals. table_rows view dbname tab (sv_store (se_server c)) k = Some vals \<Longrightarrow> length vals = length cols"
    "bs = frames 1 (result_packets dbname tab (DataTable_new tab cols) rows)" "ss_room c (length bs)"
  shows "replied E c bs (se_server c)"
proof -
  note m = means_select [OF assms(1,5) where_string [OF assms(6,7)]]
  have st: "sel_fromTable (select_stmt tab w) = Some (mkTableRef kTableName None (Some tab) None None None None)"
    "tr_name (mkTableRef kTableName None (Some tab) None None None None) = Some tab"
    "sel_whereClause (select_stmt tab (Some (f, Str k))) = Some (equals f (Str k))"
    "sel_limit (select_stmt tab w) = None \<or> (\<exists>l x. sel_limit (select_stmt tab w) = Some l \<and> ld_limit l = Some x)" for w
    by (simp_all add: select_stmt_def)
  show ?thesis
    by (rule select_request [OF assms(2) m assms(3,4,7) st(1-3) equals_compares st(4) assms(8-11)])
qed

text \<open>C3: The text of an \<open>UPDATE\<close> by key changes one value of the row under the key and reports one
  row, or changes nothing and reports none.\<close>

theorem update_from_text:
  assumes "own_parser atof E" "asks c seq (update_text tab (GetColName (cols ! i)) (Str val) (Some (f, Str k)))" "ss_room c 27"
    "kv_laws (en_redis E) view" "serving (se_server c) dbname tab cols" "i < length cols"
    "name_ok tab" "name_ok (GetColName (cols ! i))" "name_ok f" "plain val" "plain k"
    "\<And>vals. table_rows view dbname tab (sv_store (se_server c)) k = Some vals \<Longrightarrow>
      length vals = length cols \<and> row_ok (vals[i := val])"
    "before = table_rows view dbname tab (sv_store (se_server c))"
  shows "\<exists>st'. replied E c (framed (seq + 1) (OkPacket_Pack (if before k = None then 0 else 1) 0 2 1))
      ((se_server c)\<lparr>sv_store := st'\<rparr>) \<and>
    table_rows view dbname tab st' = (case before k of None \<Rightarrow> before | Some vals \<Rightarrow> before(k \<mapsto> vals[i := val])) \<and>
    (\<forall>d t. ident d \<and> ident t \<and> (d, t) \<noteq> (dbname, tab) \<longrightarrow>
      table_rows view d t st' = table_rows view d t (sv_store (se_server c)))"
proof -
  let ?s = "update_stmt tab (GetColName (cols ! i)) (Str val) (Some (f, Str k))"
  have "lit_ok (Str val)" using assms(10) by (simp add: plain_def)
  note m = means_update [OF assms(1,7,8) this where_string [OF assms(9,11)]]
  have st: "upd_table ?s = Some (mkTableRef kTableName None (Some tab) None None None None)"
    "tr_name (mkTableRef kTableName None (Some tab) None None None None) = Some tab"
    "upd_updates ?s = Some (\<lparr>uc_column = Some (GetColName (cols ! i)), uc_value = Some (makeLiteral_string (Some val))\<rparr> # [])"
    "e_name (makeLiteral_string (Some val)) = Some val" "upd_where ?s = Some (equals f (Str k))"
    by (simp_all add: update_stmt_def makeLiteral_string_def set_name_def)
  show ?thesis by (rule update_request [OF assms(2) m assms(3-5,11) st equals_compares assms(6,12,13)])
qed

text \<open>C4: The text of a \<open>DELETE\<close> by key removes the row under the key and nothing else.\<close>

theorem delete_from_text:
  assumes "own_parser atof E" "asks c seq (delete_text tab (Some (f, Str k)))" "ss_room c 27"
    "kv_laws (en_redis E) view" "serving (se_server c) dbname tab cols" "name_ok tab" "name_ok f" "plain k"
  shows "\<exists>st'. replied E c (framed (seq + 1) (OkPacket_Pack 1 0 2 1)) ((se_server c)\<lparr>sv_store := st'\<rparr>) \<and>
    table_rows view dbname tab st' = (table_rows view dbname tab (sv_store (se_server c)))(k := None) \<and>
    (\<forall>d t. ident d \<and> ident t \<and> (d, t) \<noteq> (dbname, tab) \<longrightarrow>
      table_rows view d t st' = table_rows view d t (sv_store (se_server c)))"
proof -
  note m = means_delete [OF assms(1,6) where_string [OF assms(7,8)]]
  have st: "del_tableName (delete_stmt tab w) = Some tab" "del_expr (delete_stmt tab (Some (f, Str k))) = Some (equals f (Str k))" for w
    by (simp_all add: delete_stmt_def)
  have "\<not> name_ok ''1''" by code_simp
  then have "(f, k) \<noteq> (''1'', ''1'')" using assms(7) by auto
  then show ?thesis by (rule delete_request [OF assms(2) m assms(3-5,8) st equals_compares])
qed

text \<open>C30: Ordinary statements stop the server: a condition that compares with a number, in a
  \<open>SELECT\<close>, an \<open>UPDATE\<close> or a \<open>DELETE\<close> of a table that exists, and an \<open>UPDATE\<close> to a number, is parsed
  and then dereferences the null name of the number.\<close>

theorem numbers_stop_server:
  assumes "own_parser atof E" "serving (se_server c) dbname tab cols" "name_ok tab" "name_ok f" "name_ok g" "lit_ok (Num n)" "lit_ok v"
    "sql \<in> {select_text tab (Some (f, Num n)), delete_text tab (Some (f, Num n)), update_text tab g v (Some (f, Num n)),
      update_text tab g (Num n) (Some (f, v))}"
    "asks c seq sql"
  shows "serve E c = Inl NullDeref"
proof -
  have w: "where_ok (Some (f, Num n))" "where_ok (Some (f, v))" using assms(4,6,7) by (simp_all add: where_ok_def)
  have null: "e_name (makeLiteral_int m) = None" for m by (simp add: makeLiteral_int_def set_ival_def Expr_new_def)
  have eq: "e_type (equals f l) = kExprOperator" "condition_of (equals f (Num n)) = Inl NullDeref" for l
    by (simp_all add: null equals_def condition_of_def makeOpBinary_def makeColumnRef_def set_defs Expr_new_def)
  have has: "sv_HasTable (se_server c) tab = Inr True" by (rule serving_has [OF assms(2)])
  obtain s where s: "means E sql s" "exec_stmt (en_redis E) (en_leftovers E) pack s (se_server c, c) = Inl NullDeref" for pack
  proof -
    consider "sql = select_text tab (Some (f, Num n))" | "sql = delete_text tab (Some (f, Num n))"
      | "sql = update_text tab g v (Some (f, Num n))" | "sql = update_text tab g (Num n) (Some (f, v))" using assms(8) by auto
    then show thesis
    proof cases
      case 1
      show thesis
        by (rule that [OF means_select [OF assms(1,3) w(1), folded 1]])
          (simp add: exec_stmt_def exec_select_def AnalyzeSelectStatement_def select_stmt_def has eq Let_def)
    next
      case 2
      show thesis
        by (rule that [OF means_delete [OF assms(1,3) w(1), folded 2]])
          (simp add: exec_stmt_def exec_delete_def AnalyzeDeleteStatement_def delete_stmt_def has eq)
    next
      case 3
      show thesis
        by (rule that [OF means_update [OF assms(1,3,5,7) w(1), folded 3]])
          (cases v; simp add: exec_stmt_def exec_update_def AnalyzeUpdateStatement_def update_stmt_def has eq nthR_at null
            makeLiteral_string_def set_name_def)
    next
      case 4
      show thesis
        by (rule that [OF means_update [OF assms(1,3,5,6) w(2), folded 4]])
          (simp add: exec_stmt_def exec_update_def AnalyzeUpdateStatement_def update_stmt_def has nthR_at null)
    qed
  qed
  have "run_query E sql (string_of (inbox c)) c = Inl NullDeref"
    using s by (auto simp: run_query_def means_def Exec_def res_size_def getStatement_def)
  then show ?thesis
    using serve_once [of c, where E = E] asks_turn(1) [OF assms(9)] asks_turn(2) [OF assms(9), of E] assms(9) by (auto simp: asks_def)
qed


text \<open>C5: The four statements are parsed back: the text of an \<open>INSERT\<close>, \<open>SELECT\<close>, \<open>UPDATE\<close> or \<open>DELETE\<close>,
  with any names, strings and numbers in it, is one statement with exactly these names and values,
  and is added to the statements of the result.\<close>

theorem statements_parsed:
  assumes "name_ok tab" "list_all name_ok (f # fs)" "list_all lit_ok (v # vs)" "where_ok w" "name_ok g" "lit_ok x"
  shows "hsql_parse atof (insert_text tab (f # fs) (v # vs)) r = Inr (0, addStatement (SInsert (insert_stmt tab (f # fs) (v # vs))) r) \<and>
    hsql_parse atof (select_text tab w) r = Inr (0, addStatement (SSelect (select_stmt tab w)) r) \<and>
    hsql_parse atof (delete_text tab w) r = Inr (0, addStatement (SDelete (delete_stmt tab w)) r) \<and>
    hsql_parse atof (update_text tab g x (Some (f, v))) r = Inr (0, addStatement (SUpdate (update_stmt tab g x (Some (f, v)))) r)"
proof -
  have u: "where_ok (Some (f, v))" using assms(2,3) by (simp add: where_ok_def)
  show ?thesis
    using parsed_insert [OF assms(1-3) _ _ over(2)] parsed_select [OF assms(1,4) over] parsed_delete [OF assms(1,4) over]
      parsed_update [OF assms(1,5,6) u over] by simp
qed


section \<open>Witnesses\<close>

definition text_env :: "(string \<times> string) list env" where
  "text_env = (sample_env (SDelete DeleteStatement_new))\<lparr>en_parse := hsql_parse (\<lambda>s. 0)\<rparr>"

lemma text_env [simp]: "own_parser (\<lambda>s. 0) text_env" "en_redis text_env = list_redis"
  by (simp_all add: own_parser_def text_env_def sample_env_def)

text \<open>A session that has received the packet of a text, and the names and values of the samples.\<close>

abbreviation asked :: "string \<Rightarrow> (string \<times> string) list \<Rightarrow> (string \<times> string) list session" where
  "asked sql st \<equiv> sample_session (query_packet 0 sql) (sample_server st)"

definition short :: "string \<Rightarrow> bool" where
  "short sql \<longleftrightarrow> length sql < 1000 \<and> sql \<noteq> version_comment"

lemma asked_simps:
  assumes "short sql"
  shows "asks (asked sql st) 0 sql" "se_server (asked sql st) = sample_server st" "ss_room (asked sql st) 27"
    "n \<le> MAX_BUFFER_SIZE \<Longrightarrow> ss_room (asked sql st) n"
proof -
  have "length (query_packet 0 sql) < 1024" using assms by (simp add: short_def query_packet_def)
  note s = sample_session [OF this]
  show "asks (asked sql st) 0 sql" by (rule sample_asks) (use assms in \<open>simp_all add: short_def\<close>)
  show "se_server (asked sql st) = sample_server st" "n \<le> MAX_BUFFER_SIZE \<Longrightarrow> ss_room (asked sql st) n" using s by blast+
  show "ss_room (asked sql st) 27" by (rule s) (simp add: MAX_BUFFER_SIZE_def)
qed

lemma sample_names: "name_ok ''t''" "name_ok ''id''" "name_ok ''name''"
  by code_simp+

theorem insert_from_text_witness:
  "\<exists>st'. replied text_env (asked (insert_text ''t'' [''name'', ''id''] [Str ''ann'', Num 7]) [])
      (framed 1 (OkPacket_Pack 1 0 2 0)) ((sample_server [])\<lparr>sv_store := st'\<rparr>) \<and>
    table_rows map_of ''default'' ''t'' st' ''ann'' = Some [''7'', ''ann'']"
proof -
  let ?sql = "insert_text ''t'' [''name'', ''id''] [Str ''ann'', Num 7]"
  let ?tuple = "listed [''name'', ''id''] (map data [Str ''ann'', Num 7])"
  have "short ?sql" by code_simp
  note c = asked_simps [OF this]
  have d: "map data [Str ''ann'', Num 7] = [''ann'', ''7'']" by code_simp
  have v: "[''7'', ''ann''] = in_order sample_cols ?tuple" and cov: "covers sample_cols ?tuple"
    unfolding d by (auto simp: in_order_def covers_def listed_def sample_cols_def TableColumn_new_def TableColumn_val_def
        GetColName_def GetVal_def)
  have row: "row_ok [''7'', ''ann'']" "plain (data (Str ''ann''))" using sample_row_ok(1) by (simp_all add: plain_def)
  have ok: "list_all name_ok [''name'', ''id'']" "list_all lit_ok [Str ''ann'', Num 7]" using sample_names by simp_all
  have kv: "kv_laws (en_redis text_env) map_of" by (simp add: kv_laws_list)
  have sv: "serving (se_server (asked ?sql [])) ''default'' ''t'' sample_cols" by (simp add: c(2) sample_serving)
  obtain st' where "replied text_env (asked ?sql []) (framed (0 + 1) (OkPacket_Pack 1 0 2 0)) ((se_server (asked ?sql []))\<lparr>sv_store := st'\<rparr>)"
    "table_rows map_of ''default'' ''t'' st' = (table_rows map_of ''default'' ''t'' (sv_store (se_server (asked ?sql []))))(data (Str ''ann'') \<mapsto> [''7'', ''ann''])"
    using insert_from_text [OF text_env(1) c(1,3) kv sv sample_names(1) ok _ cov v row] by auto
  then show ?thesis by (intro exI [of _ st']) (simp add: c(2))
qed

theorem select_from_text_witness:
  "replied text_env (asked (select_text ''t'' (Some (''id'', Str ''7''))) [])
    (frames 1 (result_packets ''default'' ''t'' (DataTable_new ''t'' sample_cols) [])) (sample_server [])"
proof -
  let ?sql = "select_text ''t'' (Some (''id'', Str ''7''))"
  have "short ?sql" by code_simp
  note c = asked_simps [OF this]
  have kv: "kv_laws (en_redis text_env) map_of" by (simp add: kv_laws_list)
  have sv: "serving (se_server (asked ?sql [])) ''default'' ''t'' sample_cols" by (simp add: c(2) sample_serving)
  have none: "table_rows map_of ''default'' ''t'' (sv_store (se_server (asked ?sql []))) ''7'' = None"
    unfolding c(2) by (simp add: sample_server_def table_rows_def)
  have room: "ss_room (asked ?sql []) (length (frames 1 (result_packets ''default'' ''t'' (DataTable_new ''t'' sample_cols) [])))"
    using length_empty_result by (intro c) (simp add: MAX_BUFFER_SIZE_def)
  show ?thesis
    using select_from_text [OF text_env(1) c(1) kv sv sample_names(1,2) plain_seven _ _ refl room] none by (simp add: c(2))
qed

theorem delete_from_text_witness:
  "\<exists>st'. replied text_env (asked (delete_text ''t'' (Some (''id'', Str ''7''))) sample_store)
      (framed 1 (OkPacket_Pack 1 0 2 1)) ((sample_server sample_store)\<lparr>sv_store := st'\<rparr>) \<and>
    table_rows map_of ''default'' ''t'' st' ''7'' = None"
proof -
  let ?sql = "delete_text ''t'' (Some (''id'', Str ''7''))"
  have "short ?sql" by code_simp
  note c = asked_simps [OF this]
  have kv: "kv_laws (en_redis text_env) map_of" by (simp add: kv_laws_list)
  have sv: "serving (se_server (asked ?sql sample_store)) ''default'' ''t'' sample_cols" by (simp add: c(2) sample_serving)
  obtain st' where "replied text_env (asked ?sql sample_store) (framed (0 + 1) (OkPacket_Pack 1 0 2 1))
      ((se_server (asked ?sql sample_store))\<lparr>sv_store := st'\<rparr>)"
    "table_rows map_of ''default'' ''t'' st' =
      (table_rows map_of ''default'' ''t'' (sv_store (se_server (asked ?sql sample_store))))(''7'' := None)"
    using delete_from_text [OF text_env(1) c(1,3) kv sv sample_names(1,2) plain_seven] by auto
  then show ?thesis by (intro exI [of _ st']) (simp add: c(2))
qed

theorem update_from_text_witness:
  "\<exists>st'. replied text_env (asked (update_text ''t'' ''name'' (Str ''bob'') (Some (''id'', Str ''7''))) sample_store)
      (framed 1 (OkPacket_Pack 1 0 2 1)) ((sample_server sample_store)\<lparr>sv_store := st'\<rparr>) \<and>
    table_rows map_of ''default'' ''t'' st' ''7'' = Some [''7'', ''bob'']"
proof -
  let ?sql = "update_text ''t'' ''name'' (Str ''bob'') (Some (''id'', Str ''7''))"
  let ?c = "asked ?sql sample_store"
  have "short ?sql" by code_simp
  note c = asked_simps [OF this]
  have kv: "kv_laws (en_redis text_env) map_of" by (simp add: kv_laws_list)
  have sv: "serving (se_server ?c) ''default'' ''t'' sample_cols" by (simp add: c(2) sample_serving)
  have store: "sv_store (se_server ?c) = sample_store" unfolding c(2) by (simp add: sample_server_def)
  have i: "GetColName (sample_cols ! 1) = ''name''" "1 < length sample_cols"
    by (simp_all add: sample_cols_def TableColumn_new_def GetColName_def)
  have rows: "length vals = length sample_cols \<and> row_ok (vals[1 := ''bob''])"
    if "table_rows map_of ''default'' ''t'' (sv_store (se_server ?c)) ''7'' = Some vals" for vals
    using that sample_row_ok(2) by (auto simp: store sample_row sample_cols_def)
  have bob: "plain ''bob''" by (simp add: plain_def)
  obtain st' where "replied text_env ?c (framed (0 + 1) (OkPacket_Pack
        (if table_rows map_of ''default'' ''t'' (sv_store (se_server ?c)) ''7'' = None then 0 else 1) 0 2 1))
      ((se_server ?c)\<lparr>sv_store := st'\<rparr>)"
    "table_rows map_of ''default'' ''t'' st' = (case table_rows map_of ''default'' ''t'' (sv_store (se_server ?c)) ''7'' of
       None \<Rightarrow> table_rows map_of ''default'' ''t'' (sv_store (se_server ?c))
     | Some vals \<Rightarrow> (table_rows map_of ''default'' ''t'' (sv_store (se_server ?c)))(''7'' \<mapsto> vals[1 := ''bob'']))"
    using update_from_text [where i = 1 and cols = sample_cols, unfolded i(1),
      OF text_env(1) c(1,3) kv sv i(2) sample_names(1,3,2) bob plain_seven rows refl] by auto
  then show ?thesis
    unfolding store sample_row by (intro exI [of _ st']) (simp add: c(2))
qed

theorem numbers_stop_server_witness:
  "serve text_env (asked (select_text ''t'' (Some (''id'', Num 7))) []) = Inl NullDeref"
proof -
  let ?sql = "select_text ''t'' (Some (''id'', Num 7))"
  have "short ?sql" by code_simp
  note c = asked_simps [OF this]
  have sv: "serving (se_server (asked ?sql [])) ''default'' ''t'' sample_cols" by (simp add: c(2) sample_serving)
  have "lit_ok (Num 7)" by simp
  from numbers_stop_server [OF text_env(1) sv sample_names(1,2,3) this this _ c(1)] show ?thesis by simp
qed


theorem statements_parsed_witness:
  "hsql_parse (\<lambda>s. 0) (insert_text ''t'' [''id''] [Str [CHR 0x27]]) (SQLParserResult_new 0 0) =
     Inr (0, addStatement (SInsert (insert_stmt ''t'' [''id''] [Str [CHR 0x27]])) (SQLParserResult_new 0 0))"
proof -
  have "list_all name_ok [''id'']" "list_all lit_ok [Str [CHR 0x27]]" "where_ok None" "lit_ok (Num 0)"
    using sample_names by (simp_all add: where_ok_def)
  from statements_parsed [OF sample_names(1) this(1-3) sample_names(2) this(4)] show ?thesis by blast
qed


end
