(* ===== verification/Spec2Isabelle.thy ===== *)
theory Spec2Isabelle
  imports StringUtils Numbers Wire Types Packets Handshake Circular Unbounded Async Resp Ast Statements Catalog Sockets Exec Rows Replies Session Requests Poll Net NetInv Process Threads Print Config Parser ScanTotal Words Lexemes LR Sentences Texts Queries
begin

text \<open>
  UHP-SQL is a SQL server: it speaks the MySQL text protocol to its clients and keeps its tables
  as rows of a key-value server that it reaches through hiredis. This development models the
  server process, from the bytes of a connection to the commands it sends to the key-value
  server and back.

  \<^bold>\<open>The program and its theories.\<close> Paths are relative to \<open>src/\<close>; operations keep the names of the
  C++ functions, a field of a class is a record field with a short prefix.

  \<^item> \<open>Prelude\<close>: the results of fallible code (\<open>fault + 'a\<close>), bytes, vectors by index.
  \<^item> \<open>StringUtils\<close> (\<open>network/string_utils.h\<close>), \<open>Numbers\<close> (the decimal conversions of the
    standard library that the source uses).
  \<^item> \<open>Wire\<close> (\<open>network/protocol_buffer.cc\<close>), \<open>Types\<close> (\<open>network/type.h\<close>, \<open>common.h\<close>), \<open>Packets\<close>
    (\<open>ok.cc\<close>, \<open>err.cc\<close>, \<open>eof.cc\<close>, \<open>field.cc\<close>), \<open>Handshake\<close> (\<open>greeting.cc\<close>, \<open>auth.cc\<close>): the
    protocol, read and written.
  \<^item> \<open>ByteQueue\<close> (the contract of a byte queue, a locale), \<open>Circular\<close> (\<open>network/buffer.h\<close>),
    \<open>Unbounded\<close> (\<open>unbounded_buffer.cc\<close>), \<open>Async\<close> (\<open>async_buffer.cc\<close>): the buffers of a
    connection; the interpretations of the locale say that each is a queue.
  \<^item> \<open>Resp\<close> (\<open>network/proto_parser.cc\<close> and the formatter in \<open>common.cc\<close>).
  \<^item> \<open>Ast\<close> (\<open>parser/expr.h\<close>, \<open>table.h\<close>, \<open>select_statement.h\<close>), \<open>Statements\<close> (the statement classes,
    \<open>sql_parser.cpp\<close>, \<open>sql_parser_result.cpp\<close>), \<open>Print\<close> (\<open>sqlhelper.cpp\<close>): syntax trees.
  \<^item> \<open>Catalog\<close> (\<open>meta/\<close>): tables and databases in memory and their schemas in the store.
  \<^item> \<open>Exec\<close> (\<open>executor/\<close>): statements as reads and writes of rows and their replies; \<open>Rows\<close> and
    \<open>Replies\<close> hold the lemmas about the rows of a table and about the packets sent.
  \<^item> \<open>Sockets\<close> (\<open>socket.cc\<close>, \<open>stream_socket.cc\<close>), \<open>Session\<close> (\<open>client.cc\<close>), \<open>Requests\<close> (whole turns
    of a session).
  \<^item> The generated scanner (\<open>parser/flex_lexer.cpp\<close>): \<open>Tables\<close> (look-up), \<open>ScanTables\<close> (its tables,
    entry by entry), \<open>Scanner\<close> (the automaton, every rule's action, the buffer over a string).
  \<^item> The generated parser (\<open>parser/bison_parser.cpp\<close>): \<open>ParseTables\<close>, \<open>Values\<close> (the union of semantic
    values), \<open>Grammar\<close> (the actions of all rules), \<open>Params\<close> (parameters and the statements of a
    result), \<open>Parser\<close> (shift, reduce and error steps of \<open>yyparse\<close>, locations, the message of an error).
  \<^item> Lemmas about them: \<open>ScanTotal\<close> (the scanner returns), \<open>Labels\<close>, \<open>Runs\<close>, \<open>Words\<close> (a label on the
    states of the scanner, words and keywords), \<open>Lexemes\<close> (blanks, signs, numbers, strings), \<open>LR\<close> (the
    parser on tokens, without locations), \<open>Sentences\<close> (the row statements as tokens), \<open>Texts\<close> (the
    same as texts), \<open>Queries\<close> (requests from their text to the rows of the store).
  \<^item> \<open>Poll\<close> (\<open>epoller.cc\<close>), \<open>Net\<close> (\<open>net_thread_pool.cc\<close>, \<open>listen_socket.cc\<close>, \<open>task_manager.cc\<close>,
    \<open>server.cc\<close>, \<open>uhpsqld.cpp\<close>), \<open>NetInv\<close> and \<open>Process\<close> (the states the process can reach),
    \<open>Threads\<close> (\<open>thread_pool.cc\<close>), \<open>Config\<close> (\<open>config.cc\<close>).

  \<^bold>\<open>How the parts interact.\<close> The receiving thread reads from sockets into the ring buffer of a
  connection; the main thread turns what was received into a request, runs the parser and the
  executor, and queues the reply in the asynchronous buffer; the sending thread empties it. A
  turn of each loop is one function on the state of the process, and the three interleave
  freely turn by turn; inside the asynchronous buffer and the thread pool, where threads meet
  without a common lock, the steps are finer. What the kernel answers in a turn (\<open>epoll_wait\<close>,
  \<open>readv\<close>, \<open>writev\<close>, \<open>accept\<close>, \<open>bind\<close>) is an argument of it, and what is assumed of the answers
  is stated in the properties.

  \<^bold>\<open>What the lemmas show.\<close> The texts of the four row statements, with any names,
  strings and numbers in them, are parsed back to what they say and do it to the rows of a table
  (\<open>Queries\<close>, from bytes to bytes); the scanner returns on every text; logins, greetings and result sets are the packets of the
  protocol; the buffers are queues under every sequence of operations and every interleaving;
  encoders and decoders undo each other; the network threads never fault in a reachable state;
  tables survive a restart; and, where the code departs from what it means to do, the
  departure is a theorem too.

  \<^bold>\<open>Bounds and termination.\<close> A loop that may not end is a \<open>partial_function (option)\<close>, and its
  results are stated as \<open>Some\<close>; every other loop is a total function. Integers whose width matters
  are words; sizes, which the code keeps in \<open>size_t\<close> far below its bound, are natural numbers,
  and indices out of range are the fault \<open>OutOfBounds\<close>. The scanner and the loop of the parser are
  partial functions of this kind; that the scanner returns on every text is proved, that the parser
  does for the texts of \<open>Queries\<close>. \<open>lr_steps\<close> runs a fixed number of steps, and the numbers chosen are
  those in which a statement is accepted.

  \<^bold>\<open>Not modelled.\<close> The TOML library, hiredis and the key-value server behind it are third-party
  code and enter as parameters (what is relied on is named where it is assumed), as does \<open>atof\<close>, the
  value of a decimal fraction; the program \<open>parser/example.cpp\<close> only prints; the console
  output, socket options, signals and sleeps have no effect on the state; memory exhaustion and
  the release of memory are left out, since a syntax tree owns its parts and a socket address
  is never used again.
\<close>

end
